(* ===== verification/Base.thy ===== *)
theory Base
  imports Main "HOL-Library.Word" "HOL-Library.Signed_Division"
begin

unbundle bit_operations_syntax

section \<open>Shared vocabulary of the emulator model\<close>

text \<open>
  What every component of the model uses: the machine integers of the C++ code as words of
  their width, errors as values, the sequencing of fallible steps, and the register-bit idioms
  of the source (\<open>value & (1 << k)\<close>, \<open>flag << k\<close>, \<open>(value >> k) & mask\<close>) with
  their bit-level lemmas.
\<close>

type_synonym u8 = "8 word"
type_synonym u16 = "16 word"
type_synonym u32 = "32 word"
type_synonym u64 = "64 word"
type_synonym i64 = "64 word"

subsection \<open>Errors as values\<close>

text \<open>
  \<open>Errors::die\<close> throws \<open>Emulation_error\<close>, which ends emulation: \<open>Die\<close> with the
  reporting site. \<open>Undefined\<close> marks a step the C++ standard leaves undefined (an index out
  of range of an array or vector, the front of an empty queue, a division by zero).
\<close>

datatype emu_error = Die string | Undefined string

type_synonym 'a res = "emu_error + 'a"

fun rbind :: "'a res \<Rightarrow> ('a \<Rightarrow> 'b res) \<Rightarrow> 'b res" where
  "rbind (Inl e) f = Inl e"
| "rbind (Inr x) f = f x"

fun ok_post :: "'a res \<Rightarrow> ('a \<Rightarrow> bool) \<Rightarrow> bool" where
  "ok_post (Inl e) P \<longleftrightarrow> True"
| "ok_post (Inr x) P \<longleftrightarrow> P x"

fun succeeds :: "'a res \<Rightarrow> bool" where
  "succeeds (Inl e) \<longleftrightarrow> False"
| "succeeds (Inr x) \<longleftrightarrow> True"

named_theorems ok_rules \<open>partial-correctness rules, one per operation\<close>

lemma ok_postD: "ok_post m P \<Longrightarrow> m = Inr x \<Longrightarrow> P x"
  by simp

lemma ok_postI: "(\<And>x. m = Inr x \<Longrightarrow> P x) \<Longrightarrow> ok_post m P"
  by (cases m) auto

lemma ok_post_mono: "ok_post m P \<Longrightarrow> (\<And>x. P x \<Longrightarrow> Q x) \<Longrightarrow> ok_post m Q"
  by (cases m) auto

lemma ok_post_rbind [ok_rules]:
  "ok_post m (\<lambda>x. ok_post (f x) Q) \<Longrightarrow> ok_post (rbind m f) Q"
  by (cases m) auto

lemma ok_post_if [ok_rules]:
  "(c \<Longrightarrow> ok_post m P) \<Longrightarrow> (\<not> c \<Longrightarrow> ok_post n P) \<Longrightarrow> ok_post (if c then m else n) P"
  by simp

lemma ok_seq:
  "ok_post m P \<Longrightarrow> (\<And>x. P x \<Longrightarrow> ok_post (f x) Q) \<Longrightarrow> ok_post (rbind m f) Q"
  by (cases m) auto

lemma ok_Inr: "P x \<Longrightarrow> ok_post (Inr x) P"
  by simp

lemma ok_Inl: "ok_post (Inl e) P"
  by simp

lemma ok_prod: "(\<And>a b. x = (a, b) \<Longrightarrow> ok_post (f a b) P) \<Longrightarrow> ok_post (case x of (a, b) \<Rightarrow> f a b) P"
  by (cases x) simp

lemma rbind_eq_Inr:
  "rbind m f = Inr y \<longleftrightarrow> (\<exists>x. m = Inr x \<and> f x = Inr y)"
  by (cases m) auto

lemma rbind_eq_Inl:
  "rbind m f = Inl e \<longleftrightarrow> m = Inl e \<or> (\<exists>x. m = Inr x \<and> f x = Inl e)"
  by (cases m) auto

lemma rbind_assoc: "rbind (rbind m f) g = rbind m (\<lambda>x. rbind (f x) g)"
  by (cases m) auto

lemma rbind_Inr_id [simp]: "rbind m Inr = m"
  by (cases m) auto

lemma succeeds_iff: "succeeds m \<longleftrightarrow> (\<exists>x. m = Inr x)"
  by (cases m) auto

lemma succeeds_rbind:
  "succeeds (rbind m f) \<longleftrightarrow> (\<exists>x. m = Inr x \<and> succeeds (f x))"
  by (cases m) auto

text \<open>\<open>for (i = 0; i < n; i++) s = f(i, s);\<close> with a body that may fail.\<close>

fun for_upto :: "nat \<Rightarrow> (nat \<Rightarrow> 's \<Rightarrow> 's res) \<Rightarrow> 's \<Rightarrow> 's res" where
  "for_upto 0 f s = Inr s"
| "for_upto (Suc n) f s = rbind (for_upto n f s) (f n)"

lemma for_upto_invariant:
  assumes "P 0 s" and "\<And>i s. i < n \<Longrightarrow> P i s \<Longrightarrow> ok_post (f i s) (P (Suc i))"
  shows "ok_post (for_upto n f s) (P n)"
  using assms
proof (induction n)
  case (Suc n)
  then show ?case by (auto intro!: ok_seq [where P = "P n"])
qed simp

lemma for_upto_total:
  assumes "\<And>i s. i < n \<Longrightarrow> f i s = Inr (g i s)"
  shows "for_upto n f s = Inr (fold g [0..<n] s)"
  using assms by (induction n) auto

lemma ok_post_conj:
  "ok_post m P \<Longrightarrow> ok_post m Q \<Longrightarrow> ok_post m (\<lambda>x. P x \<and> Q x)"
  by (cases m) auto

text \<open>Reading a C array or vector: out of range is undefined behaviour.\<close>

definition vec_at :: "'a list \<Rightarrow> nat \<Rightarrow> 'a res" where
  "vec_at xs i = (if i < length xs then Inr (xs ! i) else Inl (Undefined ''index out of range''))"

definition vec_set :: "'a list \<Rightarrow> nat \<Rightarrow> 'a \<Rightarrow> 'a list res" where
  "vec_set xs i x =
     (if i < length xs then Inr (xs[i := x]) else Inl (Undefined ''index out of range''))"

lemma vec_at_Inr: "vec_at xs i = Inr x \<longleftrightarrow> i < length xs \<and> x = xs ! i"
  by (auto simp: vec_at_def)

lemma vec_at_in [simp]: "i < length xs \<Longrightarrow> vec_at xs i = Inr (xs ! i)"
  by (simp add: vec_at_def)

lemma ok_vec_at: "ok_post (vec_at xs i) (\<lambda>x. i < length xs \<and> x = xs ! i)"
  by (simp add: vec_at_def)

lemma vec_set_Inr: "vec_set xs i x = Inr ys \<longleftrightarrow> i < length xs \<and> ys = xs[i := x]"
  by (auto simp: vec_set_def)

lemma vec_set_in [simp]: "i < length xs \<Longrightarrow> vec_set xs i x = Inr (xs[i := x])"
  by (simp add: vec_set_def)

subsection \<open>Register bits\<close>

text \<open>
  \<open>tst v k\<close> is the C test \<open>v & (1 << k)\<close> converted to \<open>bool\<close>; \<open>flag_at k b\<close>
  is \<open>b << k\<close> for a \<open>bool\<close>; \<open>fld v k n\<close> is \<open>(v >> k) & ((1 << n) - 1)\<close>.
\<close>

definition tst :: "'a::len word \<Rightarrow> nat \<Rightarrow> bool" where
  "tst v k \<longleftrightarrow> v AND push_bit k 1 \<noteq> 0"

definition flag_at :: "nat \<Rightarrow> bool \<Rightarrow> 'a::len word" where
  "flag_at k b = push_bit k (of_bool b)"

definition fld :: "'a::len word \<Rightarrow> nat \<Rightarrow> nat \<Rightarrow> 'a word" where
  "fld v k n = drop_bit k v AND mask n"

named_theorems reg_bits \<open>bit-level reading of the register idioms\<close>

lemma tst_iff_bit: "tst v k \<longleftrightarrow> bit v k"
proof -
  have "v AND push_bit k 1 = of_bool (bit v k) * push_bit k 1"
    by (rule bit_word_eqI) (auto simp: bit_simps bit_1_iff)
  moreover have "push_bit k (1 :: 'a word) \<noteq> 0" if "bit v k"
  proof -
    from that have "k < LENGTH('a)" by (rule bit_imp_le_length)
    then show ?thesis by (simp add: push_bit_of_1 exp_eq_zero_iff)
  qed
  ultimately show ?thesis by (auto simp: tst_def)
qed

lemma bit_flag_at [reg_bits]:
  "bit (flag_at k b :: 'a::len word) n \<longleftrightarrow> n = k \<and> b \<and> n < LENGTH('a)"
  by (auto simp: flag_at_def bit_simps)

lemma bit_fld [reg_bits]:
  "bit (fld v k n) i \<longleftrightarrow> i < n \<and> bit v (k + i)"
  by (auto simp: fld_def bit_simps dest: bit_imp_le_length)

lemma flag_at_False [simp]: "flag_at k False = 0"
  by (simp add: flag_at_def)

lemma tst_0 [simp]: "\<not> tst 0 k"
  by (simp add: tst_iff_bit)

lemmas [reg_bits] = tst_iff_bit

text \<open>Equality of 32-bit registers by evaluation of each bit.\<close>

lemma u32_eqI:
  fixes a b :: u32
  assumes "list_all (\<lambda>n. bit a n = bit b n)
     [0, 1, 2, 3, 4, 5, 6, 7, 8, 9, 10, 11, 12, 13, 14, 15, 16, 17, 18, 19, 20, 21, 22, 23, 24,
      25, 26, 27, 28, 29, 30, 31]"
  shows "a = b"
proof (rule bit_word_eqI)
  fix n assume "n < LENGTH(32)"
  then have "n \<in> set [0, 1, 2, 3, 4, 5, 6, 7, 8, 9, 10, 11, 12, 13, 14, 15, 16, 17, 18, 19, 20,
      21, 22, 23, 24, 25, 26, 27, 28, 29, 30, 31]"
    by simp presburger
  then show "bit a n = bit b n" using assms by (simp only: list_all_iff)
qed

lemma bit_ucast_u8 [reg_bits]:
  "bit (ucast (x :: u8) :: u32) n \<longleftrightarrow> bit x n"
  by (auto simp: bit_simps dest: bit_imp_le_length)

lemma bit_ucast_to_u8 [reg_bits]:
  "bit (ucast (x :: u32) :: u8) n \<longleftrightarrow> n < 8 \<and> bit x n"
  by (auto simp: bit_simps dest: bit_imp_le_length)

lemma fld_less: "n < LENGTH('a) \<Longrightarrow> fld (v :: 'a::len word) k n < 2 ^ n"
  by (simp add: fld_def and_mask_less_size word_size)

lemma unat_ucast_up:
  assumes "LENGTH('a::len) \<le> LENGTH('b::len)"
  shows "unat (ucast (x :: 'a word) :: 'b word) = unat x"
proof -
  have "unat x < 2 ^ LENGTH('a)" by (rule unsigned_less)
  also have "\<dots> \<le> 2 ^ LENGTH('b)" using assms by (simp add: power_increasing)
  finally show ?thesis by (simp add: unsigned_ucast_eq take_bit_nat_eq_self)
qed

subsection \<open>Signed minimum and maximum on 64-bit values\<close>

text \<open>\<open>std::min(a, b)\<close> is \<open>b < a ? b : a\<close> and \<open>std::max(a, b)\<close> is
  \<open>a < b ? b : a\<close>, here on \<open>int64_t\<close>.\<close>

definition smin :: "i64 \<Rightarrow> i64 \<Rightarrow> i64" where
  "smin a b = (if b <s a then b else a)"

definition smax :: "i64 \<Rightarrow> i64 \<Rightarrow> i64" where
  "smax a b = (if a <s b then b else a)"

definition INT64_MAX :: i64 where
  "INT64_MAX = 0x7FFFFFFFFFFFFFFF"

lemma sle_iff: "a \<le>s b \<longleftrightarrow> sint a \<le> sint b"
  by (simp add: word_sle_eq)

lemma sless_iff: "a <s b \<longleftrightarrow> sint a < sint b"
  by (simp add: word_sless_alt)

lemma sint_smin: "sint (smin a b) = min (sint a) (sint b)"
  by (simp add: smin_def sless_iff)

lemma sint_smax: "sint (smax a b) = max (sint a) (sint b)"
  by (simp add: smax_def sless_iff)

lemma sint_INT64_MAX: "sint INT64_MAX = 2 ^ 63 - 1"
  by (simp add: INT64_MAX_def)

lemma sle_INT64_MAX [simp]: "a \<le>s INT64_MAX"
  using sint_less [of a] by (simp add: sle_iff sint_INT64_MAX)

lemma uint_of_sint:
  fixes w :: i64
  assumes "0 \<le> sint w"
  shows "uint w = sint w"
proof -
  have "sint w < 2 ^ 63" using sint_less [of w] by simp
  with assms show ?thesis by (simp add: uint_sint take_bit_int_eq_self)
qed

lemma sint_of_small:
  fixes w :: i64
  assumes "unat w < 2 ^ 63"
  shows "sint w = int (unat w)"
proof -
  have "int (unat w) < int (2 ^ 63)" using assms by (simp only: of_nat_less_iff)
  then have "uint w < 2 ^ 63" by simp
  moreover have "- (2 ^ 63) \<le> uint w"
    by (rule order_trans [OF _ uint_nonnegative]) simp
  ultimately show ?thesis by (simp add: sint_uint signed_take_bit_int_eq_self)
qed

lemma uint_ucast_i64_u32:
  fixes w :: i64
  assumes "0 \<le> sint w" and "sint w < 2 ^ 32"
  shows "uint (ucast w :: u32) = sint w"
  using assms by (simp add: unsigned_ucast_eq uint_of_sint take_bit_int_eq_self)

lemma sint_plus_i64:
  fixes a b :: i64
  assumes "- (2 ^ 63) \<le> sint a + sint b" and "sint a + sint b < 2 ^ 63"
  shows "sint (a + b) = sint a + sint b"
proof -
  have "sint (a + b) = signed_take_bit 63 (sint a + sint b)"
    by (simp add: sint_word_ariths)
  with assms show ?thesis by (simp add: signed_take_bit_int_eq_self_iff)
qed

lemma sint_minus_i64:
  fixes a b :: i64
  assumes "- (2 ^ 63) \<le> sint a - sint b" and "sint a - sint b < 2 ^ 63"
  shows "sint (a - b) = sint a - sint b"
proof -
  have "sint (a - b) = signed_take_bit 63 (sint a - sint b)"
    by (simp add: sint_word_ariths)
  with assms show ?thesis by (simp add: signed_take_bit_int_eq_self_iff)
qed

end
