(* ===== verification/Scheduler.thy ===== *)
theory Scheduler
  imports Base
begin

unbundle bit_operations_syntax

section \<open>Scheduler: cycle counts, events and hardware timers\<close>

text \<open>
  \<open>src/core/scheduler.hpp\<close> and \<open>scheduler.cpp\<close>. The scheduler counts cycles in three
  clock domains, keeps a list of events (each a function to call at an EE cycle) and models
  hardware timers on top of the events. It is the first link of the machine state: every
  component that holds a \<open>Scheduler*\<close> extends the record \<open>sched\<close>, so an operation on
  \<open>'a sched_scheme\<close> is a method called on the shared object.

  \<open>int64_t\<close> values are 64-bit words read with the signed order, \<open>uint64_t\<close> ones with
  the unsigned order; mixed expressions follow the usual arithmetic conversions (unsigned).
  A registered \<open>std::function\<close> is a name (\<open>sched_fn\<close>, one per \<open>register_function\<close>
  call of the code base; \<open>timer_cb\<close> for timer callbacks); what it does to the machine is
  the parameter \<open>run\<close> (respectively \<open>cb\<close>) of the operations that call it.
  \<open>SchedulerEvent::pulse\<close> is never read or written by this file and is left out.
\<close>

subsection \<open>State\<close>

datatype sched_fn =
    Fn_timer_event
  | Fn_int0_check
  | Fn_vblank_start
  | Fn_vblank_end
  | Fn_hblank_event
  | Fn_gen_sound_sample
  | Fn_GS_vblank_event
  | Fn_handle_N_command

datatype timer_cb = Cb_EE_timer | Cb_IOP_timer

record cycle_count =
  cc_count :: i64
  cc_remainder :: u64

record sched_event =
  ev_id :: u64
  ev_time :: i64
  ev_param :: u64
  ev_func :: int

record sched_timer =
  st_event_id :: u64
  st_param :: u64
  st_counter :: i64
  st_target :: i64
  st_overflow_mask :: i64
  st_clockrate :: i64
  st_remainder_clocks :: i64
  st_last_update :: i64
  st_callback_id :: int
  st_paused :: bool
  st_can_overflow :: bool
  st_can_target :: bool

record sched =
  ee_cycles :: cycle_count
  bus_cycles :: cycle_count
  iop_cycles :: cycle_count
  run_cycles :: u32
  next_event_id :: u64
  timer_event_id :: int
  registered_funcs :: "sched_fn list"
  timer_callbacks :: "timer_cb list"
  sch_timers :: "sched_timer list"
  events :: "sched_event list"
  closest_event_time :: i64

definition EE_CLOCKRATE :: u64 where
  "EE_CLOCKRATE = 294912000"

definition BUS_CLOCKRATE :: u64 where
  "BUS_CLOCKRATE = EE_CLOCKRATE div 2"

definition IOP_CLOCKRATE :: u64 where
  "IOP_CLOCKRATE = EE_CLOCKRATE div 8"

definition get_ee_cycles :: "'a sched_scheme \<Rightarrow> i64" where
  "get_ee_cycles s = cc_count (ee_cycles s)"

definition get_iop_cycles :: "'a sched_scheme \<Rightarrow> i64" where
  "get_iop_cycles s = cc_count (iop_cycles s)"

subsection \<open>Registration and the event list\<close>

definition register_function :: "sched_fn \<Rightarrow> 'a sched_scheme \<Rightarrow> int \<times> 'a sched_scheme" where
  "register_function f s =
     (int (length (registered_funcs s)), s\<lparr>registered_funcs := registered_funcs s @ [f]\<rparr>)"

definition register_timer_callback ::
    "timer_cb \<Rightarrow> 'a sched_scheme \<Rightarrow> int \<times> 'a sched_scheme" where
  "register_timer_callback cb s =
     (int (length (timer_callbacks s)), s\<lparr>timer_callbacks := timer_callbacks s @ [cb]\<rparr>)"

text \<open>\<open>timer_callbacks\<close> is not cleared by \<open>Scheduler::reset\<close>.\<close>

definition sched_reset :: "'a sched_scheme \<Rightarrow> 'a sched_scheme" where
  "sched_reset s =
     (let s1 = s\<lparr>registered_funcs := [],
                ee_cycles := \<lparr>cc_count = 0, cc_remainder = 0\<rparr>,
                bus_cycles := \<lparr>cc_count = 0, cc_remainder = 0\<rparr>,
                iop_cycles := \<lparr>cc_count = 0, cc_remainder = 0\<rparr>,
                next_event_id := 0,
                closest_event_time := INT64_MAX,
                events := [],
                sch_timers := []\<rparr>;
          (fid, s2) = register_function Fn_timer_event s1
      in s2\<lparr>timer_event_id := fid\<rparr>)"

definition add_event :: "int \<Rightarrow> u64 \<Rightarrow> u64 \<Rightarrow> 'a sched_scheme \<Rightarrow> (u64 \<times> 'a sched_scheme) res" where
  "add_event func_id delta param s =
     (if func_id < 0 \<or> func_id \<ge> int (length (registered_funcs s))
      then Inl (Die ''[Scheduler] Out-of-bounds func_id given in add_event'')
      else let t = cc_count (ee_cycles s) + delta;
               eid = next_event_id s;
               ev = \<lparr>ev_id = eid, ev_time = t, ev_param = param, ev_func = func_id\<rparr>
           in Inr (eid, s\<lparr>next_event_id := eid + 1,
                          closest_event_time := smin t (closest_event_time s),
                          events := events s @ [ev]\<rparr>))"

fun erase_event :: "u64 \<Rightarrow> sched_event list \<Rightarrow> sched_event list" where
  "erase_event i [] = []"
| "erase_event i (e # es) = (if ev_id e = i then es else e # erase_event i es)"

fun find_event :: "u64 \<Rightarrow> sched_event list \<Rightarrow> sched_event option" where
  "find_event i [] = None"
| "find_event i (e # es) = (if ev_id e = i then Some e else find_event i es)"

definition delete_event :: "u64 \<Rightarrow> 'a sched_scheme \<Rightarrow> 'a sched_scheme res" where
  "delete_event i s =
     (case find_event i (events s) of
        None \<Rightarrow> Inl (Die ''[Scheduler] No event ID found in delete_event'')
      | Some e \<Rightarrow> Inr (s\<lparr>events := erase_event i (events s)\<rparr>))"

text \<open>\<open>get_event_ptr\<close> and the one thing its callers do with the pointer: set
  \<open>time_to_run\<close>.\<close>

fun set_event_time :: "u64 \<Rightarrow> i64 \<Rightarrow> sched_event list \<Rightarrow> sched_event list" where
  "set_event_time i t [] = []"
| "set_event_time i t (e # es) =
     (if ev_id e = i then e\<lparr>ev_time := t\<rparr> # es else e # set_event_time i t es)"

definition get_event_ptr :: "u64 \<Rightarrow> 'a sched_scheme \<Rightarrow> sched_event res" where
  "get_event_ptr i s =
     (case find_event i (events s) of
        None \<Rightarrow> Inl (Die ''[Scheduler] No event ID found in get_event_ptr'')
      | Some e \<Rightarrow> Inr e)"

subsection \<open>Cycle budgets\<close>

definition calculate_run_cycles :: "'a sched_scheme \<Rightarrow> (u32 \<times> 'a sched_scheme) res" where
  "calculate_run_cycles s =
     (if events s = [] then Inl (Die ''[Scheduler] No events registered'')
      else let delta = closest_event_time s - cc_count (ee_cycles s);
               n = (if cc_count (ee_cycles s) + 32 \<le>s closest_event_time s then 32
                    else if 0 <s delta then ucast delta else 0)
           in Inr (n, s\<lparr>run_cycles := n\<rparr>))"

definition get_bus_run_cycles :: "'a sched_scheme \<Rightarrow> u32" where
  "get_bus_run_cycles s =
     (let n = drop_bit 1 (run_cycles s)
      in if cc_remainder (bus_cycles s) \<noteq> 0 \<and> run_cycles s AND 1 \<noteq> 0 then n + 1 else n)"

definition get_iop_run_cycles :: "'a sched_scheme \<Rightarrow> u32" where
  "get_iop_run_cycles s =
     (let n = drop_bit 3 (run_cycles s)
      in if 8 \<le> cc_remainder (iop_cycles s) + ucast (run_cycles s AND 7) then n + 1 else n)"

definition update_cycle_counts :: "'a sched_scheme \<Rightarrow> 'a sched_scheme" where
  "update_cycle_counts s =
     (let r = run_cycles s;
          ee = (ee_cycles s)\<lparr>cc_count := cc_count (ee_cycles s) + ucast r\<rparr>;
          bus = \<lparr>cc_count = cc_count (bus_cycles s) + ucast (drop_bit 1 r),
                 cc_remainder = cc_remainder (bus_cycles s) + ucast (r AND 1)\<rparr>;
          bus = (if 1 < cc_remainder bus
                 then \<lparr>cc_count = cc_count bus + 1, cc_remainder = 0\<rparr> else bus);
          iop = \<lparr>cc_count = cc_count (iop_cycles s) + ucast (drop_bit 3 r),
                 cc_remainder = cc_remainder (iop_cycles s) + ucast (r AND 7)\<rparr>;
          iop = (if 8 \<le> cc_remainder iop
                 then \<lparr>cc_count = cc_count iop + 1, cc_remainder = cc_remainder iop - 8\<rparr>
                 else iop)
      in s\<lparr>ee_cycles := ee, bus_cycles := bus, iop_cycles := iop\<rparr>)"

subsection \<open>Timers\<close>

definition convert_to_ee_cycles :: "u64 \<Rightarrow> u64 \<Rightarrow> u64 res" where
  "convert_to_ee_cycles cycles clockrate =
     (if clockrate = 0 then Inl (Undefined ''division by zero'')
      else Inr (cycles * EE_CLOCKRATE div clockrate))"

definition abs64 :: "i64 \<Rightarrow> i64" where
  "abs64 x = (if x <s 0 then - x else x)"

definition calculate_timer_event_delta :: "nat \<Rightarrow> 'a sched_scheme \<Rightarrow> i64 res" where
  "calculate_timer_event_delta tid s =
     rbind (vec_at (sch_timers s) tid) (\<lambda>t.
       if st_paused t then Inr (signed_drop_bit 1 INT64_MAX)
       else rbind (convert_to_ee_cycles (st_overflow_mask t + 1 - st_counter t) (st_clockrate t))
         (\<lambda>c. let overflow_delta = c - signed_drop_bit 8 (st_remainder_clocks t)
               in if st_target t \<le>s st_counter t then Inr (smax overflow_delta 8)
                  else rbind (convert_to_ee_cycles
                           (abs64 (st_target t - st_counter t) AND st_overflow_mask t)
                           (st_clockrate t))
                    (\<lambda>d. let target_delta = d - signed_drop_bit 8 (st_remainder_clocks t)
                          in Inr (smax (smin overflow_delta target_delta) 8))))"

definition update_timer_event_time :: "nat \<Rightarrow> 'a sched_scheme \<Rightarrow> 'a sched_scheme res" where
  "update_timer_event_time tid s =
     rbind (calculate_timer_event_delta tid s) (\<lambda>delta.
       let time = cc_count (ee_cycles s) + delta
       in rbind (vec_at (sch_timers s) tid) (\<lambda>t.
            rbind (get_event_ptr (st_event_id t) s) (\<lambda>e.
              Inr (s\<lparr>events := set_event_time (st_event_id t) time (events s),
                     closest_event_time := smin time (closest_event_time s)\<rparr>))))"

definition advance_timer :: "i64 \<Rightarrow> sched_timer \<Rightarrow> sched_timer res" where
  "advance_timer now t =
     (if st_clockrate t = 0 then Inl (Undefined ''division by zero'')
      else let delta = push_bit 8 (now - st_last_update t);
               clock_scale = push_bit 8 EE_CLOCKRATE div st_clockrate t
           in if clock_scale = 0 then Inl (Undefined ''division by zero'')
              else let rem = st_remainder_clocks t + delta mod clock_scale;
                       remainder_delta = rem div clock_scale;
                       delta = delta div clock_scale;
                       (rem, delta) = (if 0 <s remainder_delta
                                       then (rem mod clock_scale, delta + remainder_delta)
                                       else (rem, delta))
                   in Inr (t\<lparr>st_last_update := now, st_remainder_clocks := rem,
                             st_counter := st_counter t + delta\<rparr>))"

definition update_timer_counter :: "nat \<Rightarrow> 'a sched_scheme \<Rightarrow> 'a sched_scheme res" where
  "update_timer_counter tid s =
     rbind (vec_at (sch_timers s) tid) (\<lambda>t.
       if st_paused t then Inr s
       else rbind (advance_timer (cc_count (ee_cycles s)) t) (\<lambda>t'.
              Inr (s\<lparr>sch_timers := (sch_timers s)[tid := t']\<rparr>)))"

definition get_timer_counter :: "nat \<Rightarrow> 'a sched_scheme \<Rightarrow> (u64 \<times> 'a sched_scheme) res" where
  "get_timer_counter tid s =
     rbind (vec_at (sch_timers s) tid) (\<lambda>t.
       rbind (if \<not> st_paused t then update_timer_counter tid s else Inr s) (\<lambda>s'.
         rbind (vec_at (sch_timers s') tid) (\<lambda>t'. Inr (st_counter t', s'))))"

text \<open>An assignment to one field of \<open>timers[timer_id]\<close>.\<close>

definition put_timer ::
    "nat \<Rightarrow> (sched_timer \<Rightarrow> sched_timer) \<Rightarrow> 'a sched_scheme \<Rightarrow> 'a sched_scheme res" where
  "put_timer tid f s =
     rbind (vec_at (sch_timers s) tid) (\<lambda>t. Inr (s\<lparr>sch_timers := (sch_timers s)[tid := f t]\<rparr>))"

definition create_timer ::
    "int \<Rightarrow> u64 \<Rightarrow> u64 \<Rightarrow> 'a sched_scheme \<Rightarrow> (nat \<times> 'a sched_scheme) res" where
  "create_timer callback_id overflow_mask param s =
     (if callback_id < 0 \<or> callback_id \<ge> int (length (timer_callbacks s))
      then Inl (Die ''[Scheduler] Out-of-bounds callback ID given in create_timer'')
      else rbind (add_event (timer_event_id s) INT64_MAX (of_nat (length (sch_timers s))) s)
        (\<lambda>(eid, s'). Inr (length (sch_timers s'),
           s'\<lparr>sch_timers := sch_timers s' @
             [\<lparr>st_event_id = eid, st_param = param, st_counter = 0, st_target = INT64_MAX,
               st_overflow_mask = overflow_mask, st_clockrate = 1, st_remainder_clocks = 0,
               st_last_update = cc_count (ee_cycles s), st_callback_id = callback_id,
               st_paused = True, st_can_overflow = False, st_can_target = False\<rparr>]\<rparr>)))"

definition restart_timer :: "nat \<Rightarrow> 'a sched_scheme \<Rightarrow> 'a sched_scheme res" where
  "restart_timer tid s =
     rbind (vec_at (sch_timers s) tid) (\<lambda>_.
       rbind (add_event (timer_event_id s) INT64_MAX (of_nat tid) s) (\<lambda>(eid, s1).
         rbind (put_timer tid (\<lambda>t. t\<lparr>st_event_id := eid\<rparr>) s1) (update_timer_event_time tid)))"

definition set_timer_pause :: "nat \<Rightarrow> bool \<Rightarrow> 'a sched_scheme \<Rightarrow> 'a sched_scheme res" where
  "set_timer_pause tid p s =
     rbind (vec_at (sch_timers s) tid) (\<lambda>t.
       if p = st_paused t then Inr s
       else rbind
         (if p then rbind (update_timer_counter tid s) (\<lambda>s1.
                 rbind (get_event_ptr (st_event_id t) s1) (\<lambda>_.
                   Inr (s1\<lparr>events := set_event_time (st_event_id t) INT64_MAX (events s1)\<rparr>)))
          else rbind (update_timer_event_time tid s)
                 (put_timer tid (\<lambda>t. t\<lparr>st_last_update := cc_count (ee_cycles s)\<rparr>)))
         (put_timer tid (\<lambda>t. t\<lparr>st_paused := p\<rparr>)))"

definition set_timer_int_mask :: "nat \<Rightarrow> bool \<Rightarrow> bool \<Rightarrow> 'a sched_scheme \<Rightarrow> 'a sched_scheme res" where
  "set_timer_int_mask tid can_overflow can_target =
     put_timer tid (\<lambda>t. t\<lparr>st_can_overflow := can_overflow, st_can_target := can_target\<rparr>)"

text \<open>The common shape of \<open>set_timer_counter\<close>, \<open>set_timer_target\<close> and
  \<open>set_timer_clockrate\<close>: bring the counter up to date, assign, reschedule.\<close>

definition set_timer_field ::
    "(sched_timer \<Rightarrow> sched_timer) \<Rightarrow> nat \<Rightarrow> 'a sched_scheme \<Rightarrow> 'a sched_scheme res" where
  "set_timer_field f tid s =
     rbind (vec_at (sch_timers s) tid) (\<lambda>t.
       rbind (if \<not> st_paused t then update_timer_counter tid s else Inr s) (\<lambda>s1.
         rbind (put_timer tid f s1) (\<lambda>s2.
           rbind (vec_at (sch_timers s2) tid) (\<lambda>t2.
             if \<not> st_paused t2 then update_timer_event_time tid s2 else Inr s2))))"

definition set_timer_counter :: "nat \<Rightarrow> u64 \<Rightarrow> 'a sched_scheme \<Rightarrow> 'a sched_scheme res" where
  "set_timer_counter tid c = set_timer_field (\<lambda>t. t\<lparr>st_counter := c\<rparr>) tid"

definition set_timer_target :: "nat \<Rightarrow> u64 \<Rightarrow> 'a sched_scheme \<Rightarrow> 'a sched_scheme res" where
  "set_timer_target tid x = set_timer_field (\<lambda>t. t\<lparr>st_target := x\<rparr>) tid"

definition set_timer_clockrate :: "nat \<Rightarrow> u64 \<Rightarrow> 'a sched_scheme \<Rightarrow> 'a sched_scheme res" where
  "set_timer_clockrate tid r =
     set_timer_field (\<lambda>t. t\<lparr>st_clockrate := r, st_remainder_clocks := 0\<rparr>) tid"

subsection \<open>The timer event and the dispatch loop\<close>

definition call_timer_callback ::
    "(timer_cb \<Rightarrow> u64 \<Rightarrow> bool \<Rightarrow> 'a sched_scheme \<Rightarrow> 'a sched_scheme res) \<Rightarrow>
     int \<Rightarrow> u64 \<Rightarrow> bool \<Rightarrow> 'a sched_scheme \<Rightarrow> 'a sched_scheme res" where
  "call_timer_callback cb cb_id param overflow s =
     rbind (vec_at (timer_callbacks s) (nat cb_id)) (\<lambda>f. cb f param overflow s)"

text \<open>\<open>uint32_t old_counter\<close> keeps the low half of the 64-bit counter.\<close>

definition target_reached :: "i64 \<Rightarrow> sched_timer \<Rightarrow> bool" where
  "target_reached old t \<longleftrightarrow>
     (old \<le>s st_target t \<and> st_target t \<le>s st_counter t) \<or>
     (st_target t \<le>s old \<and> st_target t OR (st_overflow_mask t + 1) \<le>s st_counter t)"

definition timer_event ::
    "(timer_cb \<Rightarrow> u64 \<Rightarrow> bool \<Rightarrow> 'a sched_scheme \<Rightarrow> 'a sched_scheme res) \<Rightarrow>
     nat \<Rightarrow> 'a sched_scheme \<Rightarrow> 'a sched_scheme res" where
  "timer_event cb index s =
     rbind (vec_at (sch_timers s) index) (\<lambda>t0.
     rbind (get_timer_counter index s) (\<lambda>(c, s1).
     rbind (put_timer index (\<lambda>t. t\<lparr>st_counter := c\<rparr>) s1) (\<lambda>s2.
     rbind (vec_at (sch_timers s2) index) (\<lambda>t.
     let old_counter = ucast (ucast (st_counter t0) :: u32);
         cb_id = st_callback_id t
     in rbind (if target_reached old_counter t \<and> st_can_target t
               then call_timer_callback cb cb_id (st_param t) False s2 else Inr s2) (\<lambda>s3.
        rbind (vec_at (sch_timers s3) index) (\<lambda>t3.
        rbind (if st_overflow_mask t3 <s st_counter t3
               then rbind (put_timer index
                        (\<lambda>t. t\<lparr>st_counter := st_counter t - (st_overflow_mask t + 1)\<rparr>) s3)
                      (\<lambda>s4. if st_can_overflow t3
                             then call_timer_callback cb cb_id (st_param t3) True s4 else Inr s4)
               else Inr s3)
          (restart_timer index)))))))"

definition run_event ::
    "(sched_fn \<Rightarrow> u64 \<Rightarrow> 'a sched_scheme \<Rightarrow> 'a sched_scheme res) \<Rightarrow>
     sched_event \<Rightarrow> 'a sched_scheme \<Rightarrow> 'a sched_scheme res" where
  "run_event run e s =
     rbind (vec_at (registered_funcs s) (nat (ev_func e))) (\<lambda>f. run f (ev_param e) s)"

text \<open>
  The loop of \<open>process_events\<close> walks a \<open>std::list\<close> while the functions it calls append
  to it, retime entries or delete entries. The iterator is the identifier of the node it
  points to (\<open>None\<close> is \<open>events.end()\<close>); the successor is looked up in the list as it is
  when the iterator advances. A loop whose functions keep appending due events does not end:
  the result is an option, \<open>None\<close> for that case.
\<close>

fun next_id :: "u64 \<Rightarrow> sched_event list \<Rightarrow> u64 option" where
  "next_id i [] = None"
| "next_id i (e # es) =
     (if ev_id e = i then (case es of [] \<Rightarrow> None | e' # _ \<Rightarrow> Some (ev_id e')) else next_id i es)"

definition first_id :: "sched_event list \<Rightarrow> u64 option" where
  "first_id es = (case es of [] \<Rightarrow> None | e # _ \<Rightarrow> Some (ev_id e))"

partial_function (option) process_from ::
    "(sched_fn \<Rightarrow> u64 \<Rightarrow> 'a sched_scheme \<Rightarrow> 'a sched_scheme res) \<Rightarrow>
     u64 option \<Rightarrow> i64 \<Rightarrow> 'a sched_scheme \<Rightarrow> (i64 \<times> 'a sched_scheme) res option" where
  "process_from run it new_time s =
     (case it of
        None \<Rightarrow> Some (Inr (new_time, s))
      | Some i \<Rightarrow>
          (case find_event i (events s) of
             None \<Rightarrow> Some (Inl (Undefined ''iterator to an erased event''))
           | Some e \<Rightarrow>
               if ev_time e \<le>s closest_event_time s
               then (case run_event run e s of
                       Inl er \<Rightarrow> Some (Inl er)
                     | Inr s' \<Rightarrow>
                         (case find_event i (events s') of
                            None \<Rightarrow> Some (Inl (Undefined ''iterator to an erased event''))
                          | Some _ \<Rightarrow>
                              process_from run (next_id i (events s')) new_time
                                (s'\<lparr>events := erase_event i (events s')\<rparr>)))
               else process_from run (next_id i (events s)) (smin (ev_time e) new_time) s))"

definition process_events ::
    "(sched_fn \<Rightarrow> u64 \<Rightarrow> 'a sched_scheme \<Rightarrow> 'a sched_scheme res) \<Rightarrow>
     'a sched_scheme \<Rightarrow> 'a sched_scheme res option" where
  "process_events run s =
     (if closest_event_time s \<le>s cc_count (ee_cycles s)
      then (case process_from run (first_id (events s)) 0x7FFFFFFF00000000 s of
              None \<Rightarrow> None
            | Some r \<Rightarrow> Some (rbind r (\<lambda>(new_time, s'). Inr (s'\<lparr>closest_event_time := new_time\<rparr>))))
      else Some (Inr s))"

subsection \<open>The event list\<close>

definition event_ids :: "sched_event list \<Rightarrow> u64 list" where
  "event_ids es = map ev_id es"

lemma event_ids_simps [simp]:
  "event_ids [] = []"
  "event_ids (e # es) = ev_id e # event_ids es"
  "event_ids (xs @ ys) = event_ids xs @ event_ids ys"
  by (simp_all add: event_ids_def)

lemma find_event_mid [simp]:
  "ev_id e \<notin> set (event_ids pre) \<Longrightarrow> find_event (ev_id e) (pre @ e # suf) = Some e"
  by (induction pre) auto

lemma next_id_mid [simp]:
  "ev_id e \<notin> set (event_ids pre) \<Longrightarrow> next_id (ev_id e) (pre @ e # suf) = first_id suf"
  by (induction pre) (auto simp: first_id_def)

lemma erase_event_mid [simp]:
  "ev_id e \<notin> set (event_ids pre) \<Longrightarrow> erase_event (ev_id e) (pre @ e # suf) = pre @ suf"
  by (induction pre) auto

lemma find_event_Some: "find_event i es = Some e \<Longrightarrow> e \<in> set es \<and> ev_id e = i"
  by (induction es) (auto split: if_splits)

lemma find_event_None: "find_event i es = None \<longleftrightarrow> i \<notin> set (event_ids es)"
  by (induction es) auto

lemma event_ids_set_event_time [simp]: "event_ids (set_event_time i t es) = event_ids es"
  by (induction es) auto

lemma set_erase_event: "set (erase_event i es) \<subseteq> set es"
  by (induction es) auto

lemma set_event_time_cases:
  "e \<in> set (set_event_time i t es) \<Longrightarrow> e \<in> set es \<or> ev_time e = t"
  by (induction es) (auto split: if_splits)

lemma ev_time_set_event_time:
  "find_event i es = Some e \<Longrightarrow>
   find_event i (set_event_time i t es) = Some (e\<lparr>ev_time := t\<rparr>)"
  by (induction es) (auto split: if_splits)

subsection \<open>The closest event time is a lower bound\<close>

text \<open>
  \<open>closest_event_time\<close> is what \<open>calculate_run_cycles\<close> and \<open>process_events\<close> compare
  against, so no event may be earlier than it. Every operation keeps this, whatever the
  functions of the events do through the scheduler's own operations.
\<close>

definition closest_ok :: "'a sched_scheme \<Rightarrow> bool" where
  "closest_ok s \<longleftrightarrow> (\<forall>e \<in> set (events s). closest_event_time s \<le>s ev_time e)"

lemma closest_ok_frame:
  "events s' = events s \<Longrightarrow> closest_event_time s' = closest_event_time s \<Longrightarrow>
   closest_ok s' \<longleftrightarrow> closest_ok s"
  by (simp add: closest_ok_def)

lemma closest_ok_reset: "closest_ok (sched_reset s)"
  by (simp add: closest_ok_def sched_reset_def register_function_def)

lemma add_event_closest_ok [ok_rules]:
  "closest_ok s \<Longrightarrow> ok_post (add_event f d p s) (\<lambda>(i, s'). closest_ok s')"
  by (auto simp: add_event_def closest_ok_def Let_def sle_iff sint_smin)

lemma delete_event_closest_ok [ok_rules]:
  "closest_ok s \<Longrightarrow> ok_post (delete_event i s) closest_ok"
  using set_erase_event by (fastforce simp: delete_event_def closest_ok_def split: option.splits)

lemma put_timer_closest_ok [ok_rules]:
  "closest_ok s \<Longrightarrow> ok_post (put_timer tid f s) closest_ok"
  by (auto simp: put_timer_def vec_at_def closest_ok_def)

lemma update_timer_counter_closest_ok [ok_rules]:
  "closest_ok s \<Longrightarrow> ok_post (update_timer_counter tid s) closest_ok"
  by (intro ok_postI) (auto simp: update_timer_counter_def rbind_eq_Inr closest_ok_def split: if_splits)

lemma set_event_time_closest_ok:
  assumes "closest_ok s"
  shows "closest_ok (s\<lparr>events := set_event_time i t (events s),
                      closest_event_time := smin t (closest_event_time s)\<rparr>)"
  using assms
  by (auto simp: closest_ok_def sle_iff sint_smin min_le_iff_disj dest!: set_event_time_cases)

lemma update_timer_event_time_closest_ok [ok_rules]:
  "closest_ok s \<Longrightarrow> ok_post (update_timer_event_time tid s) closest_ok"
  by (intro ok_postI)
    (auto simp: update_timer_event_time_def rbind_eq_Inr Let_def set_event_time_closest_ok)

lemma set_event_never_closest_ok:
  assumes "closest_ok s"
  shows "closest_ok (s\<lparr>events := set_event_time i INT64_MAX (events s)\<rparr>)"
  using assms by (auto simp: closest_ok_def dest!: set_event_time_cases)

lemmas sched_seq = ok_seq [OF ok_vec_at] ok_post_if ok_Inr
  ok_seq [OF put_timer_closest_ok] ok_seq [OF update_timer_event_time_closest_ok]
  put_timer_closest_ok update_timer_event_time_closest_ok

lemma get_event_ptr_ok: "ok_post (get_event_ptr i s) (\<lambda>e. find_event i (events s) = Some e)"
  by (auto simp: get_event_ptr_def split: option.splits)

lemma refresh_closest_ok:
  "closest_ok s \<Longrightarrow>
   ok_post (if b then update_timer_counter tid s else Inr s) closest_ok"
  by (simp add: update_timer_counter_closest_ok)

lemma set_timer_field_closest_ok [ok_rules]:
  "closest_ok s \<Longrightarrow> ok_post (set_timer_field f tid s) closest_ok"
  unfolding set_timer_field_def
  by (intro sched_seq ok_seq [OF refresh_closest_ok])

lemma set_timer_pause_closest_ok [ok_rules]:
  "closest_ok s \<Longrightarrow> ok_post (set_timer_pause tid p s) closest_ok"
  unfolding set_timer_pause_def
  apply (intro sched_seq)
   apply assumption
  apply (rule ok_seq [where P = closest_ok])
   apply (intro sched_seq ok_seq [OF update_timer_counter_closest_ok] ok_seq [OF get_event_ptr_ok]
       set_event_never_closest_ok)
       apply assumption+
  apply (rule put_timer_closest_ok, assumption)
  done

lemma restart_timer_closest_ok [ok_rules]:
  "closest_ok s \<Longrightarrow> ok_post (restart_timer tid s) closest_ok"
  unfolding restart_timer_def
  apply (intro sched_seq ok_seq [OF add_event_closest_ok] ok_prod)
    apply auto
  done

subsection \<open>The three clock domains\<close>

text \<open>
  The bus runs at half and the IOP at an eighth of the EE clock. The remainders carry what a
  slice leaves over, so the three counts never drift apart.
\<close>

definition clocks_ok :: "'a sched_scheme \<Rightarrow> bool" where
  "clocks_ok s \<longleftrightarrow>
     cc_remainder (bus_cycles s) < 2 \<and> cc_remainder (iop_cycles s) < 8 \<and>
     cc_count (ee_cycles s) = 2 * cc_count (bus_cycles s) + cc_remainder (bus_cycles s) \<and>
     cc_count (ee_cycles s) = 8 * cc_count (iop_cycles s) + cc_remainder (iop_cycles s)"

lemma clocks_ok_reset: "clocks_ok (sched_reset s)"
  by (simp add: clocks_ok_def sched_reset_def register_function_def)

lemma split_low_bits:
  fixes r :: u32
  assumes "k < 32"
  shows "(ucast r :: u64) = 2 ^ k * ucast (drop_bit k r) + ucast (r AND mask k)"
proof -
  have "(ucast r :: u64) = push_bit k (ucast (drop_bit k r)) OR ucast (r AND mask k)"
    by (rule bit_word_eqI)
       (use assms in \<open>auto simp: bit_simps le_add_diff_inverse dest: bit_imp_le_length\<close>)
  also have "\<dots> = push_bit k (ucast (drop_bit k r)) + ucast (r AND mask k)"
    by (rule disjunctive_add [symmetric]) (auto simp: bit_simps)
  finally show ?thesis by (simp add: push_bit_eq_mult mult.commute)
qed

lemma split_bus: "(ucast r :: u64) = 2 * ucast (drop_bit 1 r) + ucast (r AND 1)" for r :: u32
  using split_low_bits [of 1 r] by (simp add: mask_eq_exp_minus_1)

lemma split_iop: "(ucast r :: u64) = 8 * ucast (drop_bit 3 r) + ucast (r AND 7)" for r :: u32
  using split_low_bits [of 3 r] by (simp add: mask_eq_exp_minus_1)

lemma low_bits_less:
  fixes r :: u32
  assumes "k < 32"
  shows "(ucast (r AND mask k) :: u64) < 2 ^ k"
proof -
  have "(ucast (r AND mask k) :: u64) = ucast r AND mask k"
    by (rule bit_word_eqI) (auto simp: bit_simps dest: bit_imp_le_length)
  also have "\<dots> < 2 ^ k"
    using assms by (simp add: and_mask_less_size word_size)
  finally show ?thesis .
qed

lemma low_bus: "(ucast (r AND 1) :: u64) < 2" for r :: u32
  using low_bits_less [of 1 r] by (simp add: mask_eq_exp_minus_1)

lemma low_iop: "(ucast (r AND 7) :: u64) < 8" for r :: u32
  using low_bits_less [of 3 r] by (simp add: mask_eq_exp_minus_1)

lemma bus_remainder_carry:
  fixes a b :: u64
  assumes "a < 2" "b < 2" "1 < a + b"
  shows "a + b = 2"
  using assms by unat_arith

lemma bus_carry:
  assumes "rb < 2" and "ee = 2 * c + rb" and "r = 2 * hi + lo" and "lo < (2 :: u64)"
  shows "if 1 < rb + lo then ee + r = 2 * (c + hi + 1) else ee + r = 2 * (c + hi) + (rb + lo)"
proof -
  have sum: "ee + r = 2 * (c + hi) + (rb + lo)"
    using assms(2,3) by (simp add: distrib_left)
  moreover have "rb + lo = 2" if "1 < rb + lo"
    using that assms(1,4) by (intro bus_remainder_carry)
  ultimately show ?thesis by (simp add: distrib_left)
qed

lemma iop_carry:
  assumes "rb < 8" and "ee = 8 * c + rb" and "r = 8 * hi + lo" and "lo < (8 :: u64)"
  shows "ee + r = 8 * (c + hi) + (rb + lo)"
    and "8 \<le> rb + lo \<Longrightarrow> rb + lo - 8 < 8"
    and "ee + r = 8 * (c + hi + 1) + (rb + lo - 8)"
proof -
  show sum: "ee + r = 8 * (c + hi) + (rb + lo)"
    using assms(2,3) by (simp add: distrib_left)
  then show "ee + r = 8 * (c + hi + 1) + (rb + lo - 8)"
    by (simp add: distrib_left)
  show "rb + lo - 8 < 8" if "8 \<le> rb + lo"
    using that assms(1,4) by unat_arith
qed

lemma clocks_okD:
  assumes "clocks_ok s"
  shows "cc_remainder (bus_cycles s) < 2" and "cc_remainder (iop_cycles s) < 8"
    and "cc_count (ee_cycles s) = 2 * cc_count (bus_cycles s) + cc_remainder (bus_cycles s)"
    and "cc_count (ee_cycles s) = 8 * cc_count (iop_cycles s) + cc_remainder (iop_cycles s)"
  by (rule assms [unfolded clocks_ok_def, THEN conjunct1],
      rule assms [unfolded clocks_ok_def, THEN conjunct2, THEN conjunct1],
      rule assms [unfolded clocks_ok_def, THEN conjunct2, THEN conjunct2, THEN conjunct1],
      rule assms [unfolded clocks_ok_def, THEN conjunct2, THEN conjunct2, THEN conjunct2])

lemma update_counts:
  fixes s :: "'a sched_scheme"
  defines "r \<equiv> run_cycles s" and "s' \<equiv> update_cycle_counts s"
  shows "cc_count (ee_cycles s') = cc_count (ee_cycles s) + ucast r"
    and "bus_cycles s' =
         (if 1 < cc_remainder (bus_cycles s) + ucast (r AND 1)
          then \<lparr>cc_count = cc_count (bus_cycles s) + ucast (drop_bit 1 r) + 1, cc_remainder = 0\<rparr>
          else \<lparr>cc_count = cc_count (bus_cycles s) + ucast (drop_bit 1 r),
                cc_remainder = cc_remainder (bus_cycles s) + ucast (r AND 1)\<rparr>)"
    and "iop_cycles s' =
         (if 8 \<le> cc_remainder (iop_cycles s) + ucast (r AND 7)
          then \<lparr>cc_count = cc_count (iop_cycles s) + ucast (drop_bit 3 r) + 1,
                cc_remainder = cc_remainder (iop_cycles s) + ucast (r AND 7) - 8\<rparr>
          else \<lparr>cc_count = cc_count (iop_cycles s) + ucast (drop_bit 3 r),
                cc_remainder = cc_remainder (iop_cycles s) + ucast (r AND 7)\<rparr>)"
  by (simp_all add: r_def s'_def update_cycle_counts_def Let_def)

lemma clocks_ok_update:
  assumes "clocks_ok s"
  shows "clocks_ok (update_cycle_counts s)"
proof -
  let ?r = "run_cycles s"
  note a = clocks_okD [OF assms]
  note bus = bus_carry [OF a(1,3) split_bus low_bus, of ?r]
  note iop = iop_carry [OF a(2,4) split_iop low_iop, of ?r]
  have small: "\<not> 1 < x \<Longrightarrow> x < 2" for x :: u64
    by unat_arith
  have "cc_remainder (bus_cycles (update_cycle_counts s)) < 2"
    using small by (simp add: update_counts(2))
  moreover have "cc_remainder (iop_cycles (update_cycle_counts s)) < 8"
    using iop(2) by (auto simp: update_counts(3) not_le)
  moreover have "cc_count (ee_cycles (update_cycle_counts s)) =
      2 * cc_count (bus_cycles (update_cycle_counts s)) +
      cc_remainder (bus_cycles (update_cycle_counts s))"
    unfolding update_counts using bus
    by (cases "1 < cc_remainder (bus_cycles s) + ucast (?r AND 1)") simp_all
  moreover have "cc_count (ee_cycles (update_cycle_counts s)) =
      8 * cc_count (iop_cycles (update_cycle_counts s)) +
      cc_remainder (iop_cycles (update_cycle_counts s))"
    unfolding update_counts
    by (cases "8 \<le> cc_remainder (iop_cycles s) + ucast (?r AND 7)")
       (use iop(1) iop(3) in \<open>simp_all only: if_True if_False cycle_count.select_convs\<close>)
  ultimately show ?thesis by (simp only: clocks_ok_def simp_thms)
qed

text \<open>
  The budgets handed to the bus and to the IOP before a slice are exactly what the slice adds
  to their counts.
\<close>

lemma run_bit0: "(ucast (r AND 1) :: u64) = of_bool (r AND 1 \<noteq> 0)" for r :: u32
proof -
  have "r AND 1 = of_bool (odd r)"
    by (simp add: and_one_eq odd_iff_mod_2_eq_one)
  then show ?thesis by (cases "odd r") simp_all
qed

lemma ucast_suc:
  fixes x :: u32
  assumes "x < 0x80000000"
  shows "(ucast (x + 1) :: u64) = ucast x + 1"
proof -
  from assms have "unat x < 2 ^ 31" by (simp add: word_less_nat_alt)
  then show ?thesis
    by (intro word_unat_eq_iff [THEN iffD2]) (simp add: unat_word_ariths unat_ucast_up)
qed

lemma drop_bit_small: "0 < k \<Longrightarrow> drop_bit k (x :: u32) < 0x80000000"
proof -
  assume "0 < k"
  have "unat (drop_bit k x) \<le> unat x div 2"
  proof -
    have "unat (drop_bit k x) = unat x div 2 ^ k"
      unfolding unat_drop_bit_eq by (simp add: drop_bit_eq_div)
    also have "\<dots> \<le> unat x div 2"
      using \<open>0 < k\<close> by (intro div_le_mono2) (simp_all add: self_le_power)
    finally show ?thesis .
  qed
  also have "\<dots> < 2 ^ 31"
    by (rule less_mult_imp_div_less) (use unsigned_less [of x] in \<open>simp del: unsigned_less\<close>)
  finally show ?thesis
    by (simp add: word_less_nat_alt)
qed

lemma bus_run_cycles_exact:
  assumes "clocks_ok s"
  shows "cc_count (bus_cycles (update_cycle_counts s)) =
         cc_count (bus_cycles s) + ucast (get_bus_run_cycles s)"
proof -
  have "cc_remainder (bus_cycles s) = 0 \<or> cc_remainder (bus_cycles s) = 1"
    using clocks_okD(1) [OF assms] by unat_arith
  then have iff: "1 < cc_remainder (bus_cycles s) + ucast (run_cycles s AND 1) \<longleftrightarrow>
      cc_remainder (bus_cycles s) \<noteq> 0 \<and> run_cycles s AND 1 \<noteq> 0"
    unfolding run_bit0 by (elim disjE) simp_all
  show ?thesis
    by (simp add: update_cycle_counts_def get_bus_run_cycles_def Let_def iff ucast_suc
        drop_bit_small del: One_nat_def)
qed

lemma iop_run_cycles_exact:
  "cc_count (iop_cycles (update_cycle_counts s)) =
   cc_count (iop_cycles s) + ucast (get_iop_run_cycles s)"
  by (simp add: update_cycle_counts_def get_iop_run_cycles_def Let_def ucast_suc
      drop_bit_small)

end
