(* ===== verification/Event_Loop.thy ===== *)
theory Event_Loop
  imports Scheduler
begin

section \<open>The dispatch loop against its specification\<close>

text \<open>
  \<open>Scheduler::process_events\<close> walks the event list while the functions it calls append to
  it. The specification: the due events, in list order, each run once and removed, then
  \<open>closest_event_time\<close> recomputed as the minimum over the list. The contract a registered
  function must keep for this to hold is the locale \<open>event_handlers\<close>: it may change the
  machine at will and append events, provided those are later than the slice being processed.
\<close>

subsection \<open>Specification\<close>

definition earliest :: "sched_event list \<Rightarrow> i64" where
  "earliest es = fold (\<lambda>e. smin (ev_time e)) es 0x7FFFFFFF00000000"

definition due :: "'a sched_scheme \<Rightarrow> sched_event \<Rightarrow> bool" where
  "due s e \<longleftrightarrow> ev_time e \<le>s closest_event_time s"

fun dispatch_all ::
    "(sched_fn \<Rightarrow> u64 \<Rightarrow> 'a sched_scheme \<Rightarrow> 'a sched_scheme res) \<Rightarrow>
     sched_event list \<Rightarrow> 'a sched_scheme \<Rightarrow> 'a sched_scheme res" where
  "dispatch_all run [] s = Inr s"
| "dispatch_all run (e # es) s =
     rbind (run_event run e s) (\<lambda>s'.
       dispatch_all run es (s'\<lparr>events := erase_event (ev_id e) (events s')\<rparr>))"

definition appends_later :: "'a sched_scheme \<Rightarrow> 'a sched_scheme \<Rightarrow> bool" where
  "appends_later s s' \<longleftrightarrow>
     closest_event_time s' = closest_event_time s \<and>
     registered_funcs s' = registered_funcs s \<and>
     take (length (events s)) (events s') = events s \<and>
     (\<forall>e \<in> set (drop (length (events s)) (events s')). \<not> due s e)"

lemma appends_laterE:
  assumes "appends_later s s'"
  obtains new where "events s' = events s @ new" "\<And>e. e \<in> set new \<Longrightarrow> \<not> due s e"
    "closest_event_time s' = closest_event_time s" "registered_funcs s' = registered_funcs s"
proof (rule that)
  show "events s' = events s @ drop (length (events s)) (events s')"
    using assms append_take_drop_id [of "length (events s)" "events s'"]
    by (simp add: appends_later_def)
qed (use assms in \<open>auto simp: appends_later_def\<close>)

lemma due_cong: "closest_event_time s' = closest_event_time s \<Longrightarrow> due s' = due s"
  by (simp add: due_def fun_eq_iff)

lemma fold_smin_le: "fold (\<lambda>e. smin (ev_time e)) es t \<le>s t"
proof (induction es arbitrary: t)
  case (Cons e es)
  then show ?case
    using Cons [of "smin (ev_time e) t"] by (simp add: sle_iff sint_smin)
qed simp

lemma earliest_le: "e \<in> set es \<Longrightarrow> earliest es \<le>s ev_time e"
proof -
  have "e \<in> set es \<Longrightarrow> fold (\<lambda>e. smin (ev_time e)) es t \<le>s ev_time e" for t
  proof (induction es arbitrary: t)
    case (Cons a es)
    then show ?case
      using fold_smin_le [of es "smin (ev_time a) t"] by (auto simp: sle_iff sint_smin)
  qed simp
  then show "e \<in> set es \<Longrightarrow> earliest es \<le>s ev_time e" by (simp add: earliest_def)
qed

lemma process_from_end [simp]: "process_from run (first_id []) t s = Some (Inr (t, s))"
  by (simp add: process_from.simps first_id_def)

lemma process_from_skip:
  assumes "events s = pre @ e # suf" "ev_id e \<notin> set (event_ids pre)" "\<not> due s e"
  shows "process_from run (first_id (e # suf)) (earliest pre) s =
         process_from run (first_id suf) (earliest (pre @ [e])) s"
  using assms
  by (subst process_from.simps) (simp add: first_id_def [of "e # suf"] due_def earliest_def)

lemma process_from_run:
  assumes "events s = pre @ e # suf" "ev_id e \<notin> set (event_ids pre)" "due s e"
  shows "process_from run (first_id (e # suf)) t s =
         (case run_event run e s of
            Inl er \<Rightarrow> Some (Inl er)
          | Inr s' \<Rightarrow>
              (case find_event (ev_id e) (events s') of
                 None \<Rightarrow> Some (Inl (Undefined ''iterator to an erased event''))
               | Some _ \<Rightarrow> process_from run (next_id (ev_id e) (events s')) t
                             (s'\<lparr>events := erase_event (ev_id e) (events s')\<rparr>)))"
  using assms
  by (subst process_from.simps) (simp add: first_id_def [of "e # suf"] due_def)

subsection \<open>The contract of a registered function\<close>

locale event_handlers =
  fixes run :: "sched_fn \<Rightarrow> u64 \<Rightarrow> 'a sched_scheme \<Rightarrow> 'a sched_scheme res"
    and good :: "sched_fn \<Rightarrow> bool"
    and inv :: "'a sched_scheme \<Rightarrow> bool"
  assumes inv_distinct: "inv s \<Longrightarrow> distinct (event_ids (events s))"
    and inv_erase: "inv s \<Longrightarrow> inv (s\<lparr>events := erase_event i (events s)\<rparr>)"
    and run_inv: "inv s \<Longrightarrow> good f \<Longrightarrow> run f p s = Inr s' \<Longrightarrow> inv s'"
    and run_later: "inv s \<Longrightarrow> good f \<Longrightarrow> run f p s = Inr s' \<Longrightarrow> appends_later s s'"
begin

definition good_event :: "'a sched_scheme \<Rightarrow> sched_event \<Rightarrow> bool" where
  "good_event s e \<longleftrightarrow>
     nat (ev_func e) < length (registered_funcs s) \<and>
     good (registered_funcs s ! nat (ev_func e))"

lemma run_event_ok:
  assumes "inv s" "good_event s e" "run_event run e s = Inr s'"
  shows "inv s'" and "appends_later s s'"
  using assms run_inv run_later by (auto simp: run_event_def good_event_def)

lemma process_from_spec:
  assumes "inv s" and "events s = pre @ suf"
    and "\<And>e. e \<in> set pre \<Longrightarrow> \<not> due s e"
    and "\<And>e. e \<in> set suf \<Longrightarrow> due s e \<Longrightarrow> good_event s e"
    and "length (filter (due s) suf) = n"
  shows "process_from run (first_id suf) (earliest pre) s =
         Some (rbind (dispatch_all run (filter (due s) suf) s)
                     (\<lambda>s'. Inr (earliest (events s'), s')))"
  using assms
proof (induction n arbitrary: s pre suf rule: nat_less_induct)
  case (1 n)
  note IH = "1.IH" [rule_format]
  from "1.prems" show ?case
  proof (induction suf arbitrary: pre)
    case Nil
    then show ?case by simp
  next
    case (Cons e suf)
    have fresh: "ev_id e \<notin> set (event_ids pre)"
      using inv_distinct [OF Cons.prems(1)] Cons.prems(2) by auto
    show ?case
    proof (cases "due s e")
      case False
      have "process_from run (first_id suf) (earliest (pre @ [e])) s =
            Some (rbind (dispatch_all run (filter (due s) suf) s)
                        (\<lambda>s'. Inr (earliest (events s'), s')))"
      proof (rule Cons.IH)
        show "events s = (pre @ [e]) @ suf" using Cons.prems(2) by simp
        show "\<not> due s x" if "x \<in> set (pre @ [e])" for x
          using that Cons.prems(3) False by auto
        show "good_event s x" if "x \<in> set suf" "due s x" for x
          using that Cons.prems(4) by simp
        show "length (filter (due s) suf) = n" using Cons.prems(5) False by simp
      qed (rule Cons.prems(1))
      then show ?thesis
        using False process_from_skip [OF Cons.prems(2) fresh False] by simp
    next
      case True
      show ?thesis
      proof (cases "run_event run e s")
        case (Inl er)
        then show ?thesis
          using True process_from_run [OF Cons.prems(2) fresh True] by simp
      next
        case (Inr s')
        have inv': "inv s'" and al: "appends_later s s'"
          using run_event_ok [OF Cons.prems(1) _ Inr] Cons.prems(4) True by auto
        from appends_laterE [OF al] obtain new where ev: "events s' = events s @ new"
          and later: "\<And>e. e \<in> set new \<Longrightarrow> \<not> due s e"
          and same: "closest_event_time s' = closest_event_time s"
            "registered_funcs s' = registered_funcs s"
          by metis
        define s1 where "s1 = s'\<lparr>events := pre @ suf @ new\<rparr>"
        have erase: "erase_event (ev_id e) (events s') = pre @ suf @ new"
          using fresh Cons.prems(2) ev by simp
        have ids: "find_event (ev_id e) (events s') = Some e"
          "next_id (ev_id e) (events s') = first_id (suf @ new)"
          using fresh Cons.prems(2) ev by simp_all
        have due1: "due s1 = due s" by (rule due_cong) (simp add: s1_def same)
        have no_new: "filter (due s) new = []"
          using later by (simp add: filter_empty_conv)
        have "process_from run (first_id (suf @ new)) (earliest pre) s1 =
              Some (rbind (dispatch_all run (filter (due s1) (suf @ new)) s1)
                          (\<lambda>s'. Inr (earliest (events s'), s')))"
        proof (rule IH [of "length (filter (due s) suf)"])
          show "length (filter (due s) suf) < n" using Cons.prems(5) True by auto
          show "inv s1" using inv_erase [OF inv', of "ev_id e"] by (simp add: erase s1_def)
          show "good_event s1 x" if "x \<in> set (suf @ new)" "due s1 x" for x
          proof -
            have "due s x" using that(2) by (simp add: due1)
            then have "good_event s x" using that(1) later Cons.prems(4) by auto
            then show ?thesis by (simp add: good_event_def s1_def same)
          qed
          show "events s1 = pre @ (suf @ new)" by (simp add: s1_def)
          show "\<not> due s1 x" if "x \<in> set pre" for x
            using that Cons.prems(3) by (simp add: due1)
          show "length (filter (due s1) (suf @ new)) = length (filter (due s) suf)"
            by (simp add: due1 no_new)
        qed
        then show ?thesis
          using True Inr process_from_run [OF Cons.prems(2) fresh True, of run]
          by (simp add: due1 no_new erase ids s1_def [symmetric])
      qed
    qed
  qed
qed

theorem process_events_spec:
  assumes "inv s" and "closest_event_time s \<le>s cc_count (ee_cycles s)"
    and "\<And>e. e \<in> set (events s) \<Longrightarrow> due s e \<Longrightarrow> good_event s e"
  shows "process_events run s =
         Some (rbind (dispatch_all run (filter (due s) (events s)) s)
                     (\<lambda>s'. Inr (s'\<lparr>closest_event_time := earliest (events s')\<rparr>)))"
proof -
  have "process_from run (first_id (events s)) (earliest []) s =
        Some (rbind (dispatch_all run (filter (due s) (events s)) s)
                    (\<lambda>s'. Inr (earliest (events s'), s')))"
    using assms by (intro process_from_spec) auto
  then show ?thesis
    using assms(2)
    by (simp add: process_events_def earliest_def rbind_assoc)
qed

end

end
