(* ===== verification/Sched_Timers.thy ===== *)
theory Sched_Timers
  imports Event_Loop
begin

unbundle bit_operations_syntax

section \<open>Cycle budgets and timer accuracy\<close>

text \<open>
  What the scheduler promises its clients about time: a slice never runs past the next event,
  the three clock domains advance together, and a timer's counter accounts for every elapsed
  EE cycle. The last part states what \<open>restart_timer\<close> and \<open>set_timer_pause\<close> do to the
  event times.
\<close>

subsection \<open>The slice\<close>

lemma calculate_run_cycles_cases:
  assumes "calculate_run_cycles s = Inr (n, s')"
  shows "s' = s\<lparr>run_cycles := n\<rparr>" and "events s \<noteq> []"
    and "n = (if cc_count (ee_cycles s) + 32 \<le>s closest_event_time s then 32
              else if 0 <s closest_event_time s - cc_count (ee_cycles s)
              then ucast (closest_event_time s - cc_count (ee_cycles s)) else 0)"
  using assms by (auto simp: calculate_run_cycles_def Let_def split: if_splits)

lemma run_cycles_bound:
  assumes "calculate_run_cycles s = Inr (n, s')"
    and "0 \<le>s cc_count (ee_cycles s)" and "sint (cc_count (ee_cycles s)) < 2 ^ 62"
    and "0 \<le>s closest_event_time s"
  shows "n \<le> 32"
    and "sint (cc_count (ee_cycles s)) + uint n \<le>
         max (sint (cc_count (ee_cycles s))) (sint (closest_event_time s))"
proof -
  let ?c = "cc_count (ee_cycles s)" and ?t = "closest_event_time s"
  have lo: "0 \<le> sint ?c" "0 \<le> sint ?t" using assms(2,4) by (simp_all add: sle_iff)
  have hi: "sint ?t < 2 ^ 63" using sint_less [of ?t] by simp
  have c32: "sint (?c + 32) = sint ?c + 32"
    using lo assms(3) by (subst sint_plus_i64) simp_all
  have d: "sint (?t - ?c) = sint ?t - sint ?c"
    using lo hi assms(3) by (intro sint_minus_i64) simp_all
  note n = calculate_run_cycles_cases(3) [OF assms(1)]
  have "uint n \<le> 32 \<and> sint ?c + uint n \<le> max (sint ?c) (sint ?t)"
  proof (cases "?c + 32 \<le>s ?t")
    case True
    then have "n = 32" and "sint ?c + 32 \<le> sint ?t" using n c32 by (simp_all add: sle_iff)
    then show ?thesis by simp
  next
    case False
    then have short: "sint ?t - sint ?c < 32" using c32 by (simp add: sle_iff)
    show ?thesis
    proof (cases "0 <s ?t - ?c")
      case True
      then have "uint n = sint ?t - sint ?c"
        using n False short d uint_ucast_i64_u32 [of "?t - ?c"] by (simp add: sless_iff)
      then show ?thesis using short by simp
    next
      case False2: False
      then show ?thesis using n False by simp
    qed
  qed
  then show "n \<le> 32" and "sint ?c + uint n \<le> max (sint ?c) (sint ?t)"
    by (simp_all add: word_le_def)
qed

subsection \<open>Timer counters\<close>

text \<open>The length of one tick of a timer in 1/256 EE cycles.\<close>

definition tick_length :: "sched_timer \<Rightarrow> u64" where
  "tick_length t = push_bit 8 EE_CLOCKRATE div st_clockrate t"

lemma scaled_rate: "push_bit 8 EE_CLOCKRATE = 75497472000"
  by (simp add: EE_CLOCKRATE_def)

lemma tick_length_small: "unat (tick_length t) < 2 ^ 37"
proof -
  have "unat (tick_length t) = unat (push_bit 8 EE_CLOCKRATE) div unat (st_clockrate t)"
    by (simp add: tick_length_def unat_div)
  also have "\<dots> \<le> unat (push_bit 8 EE_CLOCKRATE)" by (rule div_le_dividend)
  also have "\<dots> < 2 ^ 37" by (simp add: scaled_rate)
  finally show ?thesis .
qed

lemma word_div_mod: "(a :: 'a::len word) div b * b + a mod b = a"
  by (rule word_mod_div_equality)

lemma advance_timer_conserves:
  assumes ok: "advance_timer now t = Inr t'"
    and rem: "st_remainder_clocks t < tick_length t"
  shows "st_counter t' * tick_length t + st_remainder_clocks t' =
         st_counter t * tick_length t + st_remainder_clocks t
           + push_bit 8 (now - st_last_update t)"
    and "st_remainder_clocks t' < tick_length t"
proof -
  define k where "k = tick_length t"
  define d where "d = push_bit 8 (now - st_last_update t)"
  define r where "r = st_remainder_clocks t + d mod k"
  have k0: "k \<noteq> 0" using rem by (auto simp: k_def)
  have t': "t' = t\<lparr>st_last_update := now,
                  st_remainder_clocks := (if 0 <s r div k then r mod k else r),
                  st_counter := st_counter t +
                    (if 0 <s r div k then d div k + r div k else d div k)\<rparr>"
    using ok by (auto simp: advance_timer_def Let_def k_def tick_length_def d_def r_def
        split: if_splits)
  have "unat (d mod k) < unat k"
    using k0 by (simp add: unat_mod unat_gt_0)
  moreover have "unat (st_remainder_clocks t) < unat k"
    using rem by (simp add: k_def word_less_nat_alt)
  ultimately have ur: "unat r = unat (st_remainder_clocks t) + unat (d mod k)"
    and ur2: "unat r < 2 * unat k" and kk: "unat k < 2 ^ 37"
    using tick_length_small [of t] by (auto simp: r_def k_def unat_plus_if')
  have q: "unat (r div k) = unat r div unat k" by (simp add: unat_div)
  have q1: "unat r div unat k < 2" using ur2 by (simp add: less_mult_imp_div_less mult.commute)
  have pos: "0 <s r div k \<longleftrightarrow> k \<le> r"
  proof -
    have "sint (r div k) = int (unat r div unat k)"
      using q1 q by (subst sint_of_small) simp_all
    then show ?thesis
      using k0 by (simp add: sless_iff word_le_nat_alt div_greater_zero_iff unat_gt_0)
  qed
  have split_d: "d div k * k + d mod k = d" and split_r: "r div k * k + r mod k = r"
    by (rule word_div_mod)+
  show "st_counter t' * tick_length t + st_remainder_clocks t' =
        st_counter t * tick_length t + st_remainder_clocks t
          + push_bit 8 (now - st_last_update t)"
    unfolding k_def [symmetric] d_def [symmetric]
    using split_d split_r by (simp add: t' r_def algebra_simps split: if_splits)
  show "st_remainder_clocks t' < tick_length t"
    using pos k0 by (auto simp: t' k_def [symmetric] not_le unat_gt_0 word_less_nat_alt unat_mod)
qed

lemma smax_ge: "b \<le>s smax a b"
  by (simp add: sle_iff sint_smax)

lemma timer_delta_min:
  assumes "calculate_timer_event_delta tid s = Inr d"
  shows "8 \<le>s d"
proof -
  have "8 \<le>s signed_drop_bit 1 INT64_MAX" by (simp add: sle_iff INT64_MAX_def)
  then show ?thesis
    using assms smax_ge [of 8]
    by (auto simp: calculate_timer_event_delta_def rbind_eq_Inr Let_def split: if_splits)
qed

subsection \<open>Every state the scheduler reaches\<close>

text \<open>The clocks move only in \<open>update_cycle_counts\<close>.\<close>

definition same_clocks :: "'a sched_scheme \<Rightarrow> 'a sched_scheme \<Rightarrow> bool" where
  "same_clocks s s' \<longleftrightarrow>
     ee_cycles s' = ee_cycles s \<and> bus_cycles s' = bus_cycles s \<and> iop_cycles s' = iop_cycles s"

lemma same_clocks_ok: "same_clocks s s' \<Longrightarrow> clocks_ok s \<Longrightarrow> clocks_ok s'"
proof -
  assume "same_clocks s s'"
  then have eq: "ee_cycles s' = ee_cycles s" "bus_cycles s' = bus_cycles s" "iop_cycles s' = iop_cycles s"
    by (simp_all add: same_clocks_def)
  have "clocks_ok s' = clocks_ok s" unfolding clocks_ok_def eq by (rule refl)
  then show "clocks_ok s \<Longrightarrow> clocks_ok s'" by simp
qed

lemma same_clocks_refl [simp]: "same_clocks s s"
  by (simp add: same_clocks_def)

lemma same_clocks_trans: "same_clocks s t \<Longrightarrow> same_clocks t u \<Longrightarrow> same_clocks s u"
  by (simp add: same_clocks_def)

lemma ok_clocks_seq:
  "ok_post m (same_clocks s) \<Longrightarrow> (\<And>t. ok_post (f t) (same_clocks t)) \<Longrightarrow> ok_post (rbind m f) (same_clocks s)"
  by (cases m) (simp_all, metis ok_post_mono same_clocks_trans)

lemma ok_value_seq: "(\<And>x. ok_post (f x) P) \<Longrightarrow> ok_post (rbind m f) P"
  by (cases m) auto

lemma add_event_clocks: "ok_post (add_event f d p s) (\<lambda>(i, s'). same_clocks s s')"
  by (simp add: add_event_def Let_def same_clocks_def)

lemma put_timer_clocks: "ok_post (put_timer tid f s) (same_clocks s)"
  by (simp add: put_timer_def vec_at_def same_clocks_def)

lemma update_timer_counter_clocks: "ok_post (update_timer_counter tid s) (same_clocks s)"
  by (intro ok_postI) (auto simp: update_timer_counter_def rbind_eq_Inr same_clocks_def split: if_splits)

lemma update_timer_event_time_clocks: "ok_post (update_timer_event_time tid s) (same_clocks s)"
  by (intro ok_postI) (auto simp: update_timer_event_time_def rbind_eq_Inr same_clocks_def Let_def)

lemma set_timer_field_clocks: "ok_post (set_timer_field f tid s) (same_clocks s)"
  unfolding set_timer_field_def
  by (intro ok_value_seq ok_clocks_seq put_timer_clocks)
    (simp_all add: update_timer_counter_clocks update_timer_event_time_clocks)

lemma set_timer_pause_clocks: "ok_post (set_timer_pause tid b s) (same_clocks s)"
proof -
  have "ok_post (rbind (update_timer_counter tid s) (\<lambda>s1. rbind (get_event_ptr e s1) (\<lambda>_.
      Inr (s1\<lparr>events := set_event_time e INT64_MAX (events s1)\<rparr>)))) (same_clocks s)" for e
    by (intro ok_clocks_seq update_timer_counter_clocks ok_value_seq) (simp add: same_clocks_def)
  moreover have "ok_post (rbind (update_timer_event_time tid s) (put_timer tid f)) (same_clocks s)" for f
    by (intro ok_clocks_seq update_timer_event_time_clocks put_timer_clocks)
  ultimately show ?thesis
    unfolding set_timer_pause_def by (intro ok_value_seq) (simp add: ok_clocks_seq put_timer_clocks)
qed

lemma restart_timer_clocks: "ok_post (restart_timer tid s) (same_clocks s)"
proof -
  have "ok_post (rbind (add_event f d p s) (\<lambda>(i, s1). rbind (put_timer tid (g i) s1)
      (update_timer_event_time tid))) (same_clocks s)" for f d p g
  proof (cases "add_event f d p s")
    case (Inr x)
    then have "same_clocks s (snd x)" using add_event_clocks [of f d p s] by auto
    moreover have "ok_post (rbind (put_timer tid (g (fst x)) (snd x)) (update_timer_event_time tid))
        (same_clocks (snd x))"
      by (intro ok_clocks_seq put_timer_clocks update_timer_event_time_clocks)
    ultimately show ?thesis
      by (cases x) (auto simp: Inr elim!: ok_post_mono same_clocks_trans)
  qed simp
  then show ?thesis unfolding restart_timer_def by (rule ok_value_seq)
qed

text \<open>
  The operations of the class that do not call out: what a client can do between two dispatches.
\<close>

inductive sched_step :: "'a sched_scheme \<Rightarrow> 'a sched_scheme \<Rightarrow> bool" where
  register: "sched_step s (snd (register_function f s))"
| register_timer: "sched_step s (snd (register_timer_callback cb s))"
| add: "add_event f d p s = Inr (i, s') \<Longrightarrow> sched_step s s'"
| delete: "delete_event i s = Inr s' \<Longrightarrow> sched_step s s'"
| create: "create_timer f om p s = Inr (i, s') \<Longrightarrow> sched_step s s'"
| restart: "restart_timer tid s = Inr s' \<Longrightarrow> sched_step s s'"
| counter: "set_timer_counter tid c s = Inr s' \<Longrightarrow> sched_step s s'"
| target: "set_timer_target tid c s = Inr s' \<Longrightarrow> sched_step s s'"
| clockrate: "set_timer_clockrate tid c s = Inr s' \<Longrightarrow> sched_step s s'"
| pause: "set_timer_pause tid b s = Inr s' \<Longrightarrow> sched_step s s'"
| int_mask: "set_timer_int_mask tid a b s = Inr s' \<Longrightarrow> sched_step s s'"
| budget: "calculate_run_cycles s = Inr (n, s') \<Longrightarrow> sched_step s s'"
| run: "sched_step s (update_cycle_counts s)"

inductive sched_reachable :: "'a sched_scheme \<Rightarrow> bool" where
  reset: "sched_reachable (sched_reset s)"
| step: "sched_reachable s \<Longrightarrow> sched_step s s' \<Longrightarrow> sched_reachable s'"

lemma create_timer_cases:
  assumes "create_timer f om p s = Inr (i, s')"
  obtains e t where "add_event (timer_event_id s) INT64_MAX (of_nat (length (sch_timers s))) s = Inr (e, t)"
    and "events s' = events t" "closest_event_time s' = closest_event_time t" "same_clocks t s'"
  using assms that by (auto simp: create_timer_def rbind_eq_Inr same_clocks_def split: if_splits)

definition keeps :: "'a sched_scheme \<Rightarrow> 'a sched_scheme \<Rightarrow> bool" where
  "keeps s s' \<longleftrightarrow> same_clocks s s' \<and> (closest_ok s \<longrightarrow> closest_ok s')"

lemma keepsI:
  "ok_post m (same_clocks s) \<Longrightarrow> (closest_ok s \<Longrightarrow> ok_post m closest_ok) \<Longrightarrow> m = Inr s' \<Longrightarrow> keeps s s'"
  by (auto simp: keeps_def)

lemma keeps_frame:
  "same_clocks s s' \<Longrightarrow> events s' = events s \<Longrightarrow> closest_event_time s' = closest_event_time s \<Longrightarrow> keeps s s'"
  using closest_ok_frame [of s' s] by (simp add: keeps_def)

lemma delete_event_clocks: "ok_post (delete_event i s) (same_clocks s)"
  by (simp add: delete_event_def same_clocks_def split: option.splits)

lemma add_event_keeps: "add_event f d p s = Inr (i, s') \<Longrightarrow> keeps s s'"
  using add_event_clocks [of f d p s] add_event_closest_ok [of s f d p] by (auto simp: keeps_def)

lemma create_timer_keeps: "create_timer f om p s = Inr (i, s') \<Longrightarrow> keeps s s'"
proof -
  assume "create_timer f om p s = Inr (i, s')"
  then obtain e t where t: "add_event (timer_event_id s) INT64_MAX (of_nat (length (sch_timers s))) s = Inr (e, t)"
    and s': "events s' = events t" "closest_event_time s' = closest_event_time t" "same_clocks t s'"
    by (rule create_timer_cases)
  from add_event_keeps [OF t] same_clocks_trans [OF _ s'(3)] show ?thesis
    by (simp add: keeps_def closest_ok_frame [OF s'(1,2)])
qed

lemma budget_keeps: "calculate_run_cycles s = Inr (n, s') \<Longrightarrow> keeps s s'"
  by (drule calculate_run_cycles_cases(1)) (simp add: keeps_frame same_clocks_def)

lemma timer_ops_keep:
  "delete_event j s = Inr s' \<Longrightarrow> keeps s s'" "restart_timer tid s = Inr s' \<Longrightarrow> keeps s s'"
  "set_timer_counter tid c s = Inr s' \<Longrightarrow> keeps s s'" "set_timer_target tid c s = Inr s' \<Longrightarrow> keeps s s'"
  "set_timer_clockrate tid c s = Inr s' \<Longrightarrow> keeps s s'" "set_timer_pause tid b s = Inr s' \<Longrightarrow> keeps s s'"
  "set_timer_int_mask tid b b' s = Inr s' \<Longrightarrow> keeps s s'"
  unfolding set_timer_counter_def set_timer_target_def set_timer_clockrate_def set_timer_int_mask_def
  by (rule keepsI [OF delete_event_clocks delete_event_closest_ok]
      keepsI [OF restart_timer_clocks restart_timer_closest_ok]
      keepsI [OF set_timer_field_clocks set_timer_field_closest_ok]
      keepsI [OF set_timer_pause_clocks set_timer_pause_closest_ok]
      keepsI [OF put_timer_clocks put_timer_closest_ok]; assumption)+

lemma sched_step_cases: "sched_step s s' \<Longrightarrow> keeps s s' \<or> s' = update_cycle_counts s"
proof (induction rule: sched_step.induct)
  case (register s f)
  then show ?case by (simp add: keeps_frame register_function_def same_clocks_def)
next
  case (register_timer s cb)
  then show ?case by (simp add: keeps_frame register_timer_callback_def same_clocks_def)
qed (blast intro: add_event_keeps create_timer_keeps budget_keeps timer_ops_keep)+

lemma reachable_ok: "sched_reachable s \<Longrightarrow> closest_ok s \<and> clocks_ok s"
proof (induction rule: sched_reachable.induct)
  case (reset s)
  then show ?case by (simp add: closest_ok_reset clocks_ok_reset)
next
  case (step s s')
  from sched_step_cases [OF step.hyps(2)] show ?case
  proof
    assume "keeps s s'"
    then show ?thesis using step.IH same_clocks_ok by (auto simp: keeps_def)
  next
    assume run: "s' = update_cycle_counts s"
    have "closest_ok (update_cycle_counts s) = closest_ok s"
      by (rule closest_ok_frame) (simp_all add: update_cycle_counts_def Let_def)
    then show ?thesis using step.IH clocks_ok_update [of s] by (simp add: run)
  qed
qed

subsection \<open>Rescheduling a timer\<close>

text \<open>\<open>restart_timer\<close> adds its event \<open>INT64_MAX\<close> cycles ahead, which wraps.\<close>

lemma sint_wrapped_time:
  fixes c :: i64
  assumes "0 <s c" and "sint c < 2 ^ 62"
  shows "sint (c + INT64_MAX) = sint c - 2 ^ 63 - 1"
proof -
  have "sint (c + INT64_MAX) = signed_take_bit 63 (sint c + (2 ^ 63 - 1))"
    by (simp add: sint_word_ariths sint_INT64_MAX)
  also have "\<dots> = signed_take_bit 63 (sint c - 2 ^ 63 - 1)"
  proof -
    have "take_bit 64 (sint c + (2 ^ 63 - 1)) = take_bit 64 (sint c - 2 ^ 63 - 1)"
    proof -
      have "sint c + (2 ^ 63 - 1) = (sint c - 2 ^ 63 - 1) + 2 ^ 64" by simp
      then show ?thesis by (simp only: take_bit_eq_mod mod_add_self2)
    qed
    then show ?thesis by (simp add: signed_take_bit_eq_iff_take_bit_eq)
  qed
  also have "\<dots> = sint c - 2 ^ 63 - 1"
    using assms by (intro signed_take_bit_int_eq_self) (simp_all add: sless_iff)
  finally show ?thesis .
qed

lemma restart_timer_closest:
  assumes "restart_timer tid s = Inr s'"
  shows "closest_event_time s' \<le>s cc_count (ee_cycles s) + INT64_MAX"
  using assms
  by (auto simp: restart_timer_def rbind_eq_Inr add_event_def put_timer_def update_timer_event_time_def
      Let_def sle_iff sint_smin min_le_iff_disj split: if_splits)

lemma unpause_schedules:
  assumes "set_timer_pause tid False s = Inr s'" and "tid < length (sch_timers s)"
    and "st_paused (sch_timers s ! tid)"
  shows "\<exists>e. find_event (st_event_id (sch_timers s ! tid)) (events s') = Some e \<and>
           ev_time e = cc_count (ee_cycles s) + 0x3FFFFFFFFFFFFFFF"
proof -
  have half: "signed_drop_bit 1 INT64_MAX = 0x3FFFFFFFFFFFFFFF"
    by (simp add: INT64_MAX_def)
  obtain e where "find_event (st_event_id (sch_timers s ! tid)) (events s) = Some e"
    and "events s' = set_event_time (st_event_id (sch_timers s ! tid))
           (cc_count (ee_cycles s) + signed_drop_bit 1 INT64_MAX) (events s)"
    using assms
    by (auto simp: set_timer_pause_def rbind_eq_Inr put_timer_def update_timer_event_time_def Let_def
        calculate_timer_event_delta_def get_event_ptr_def split: option.splits)
  then show ?thesis unfolding half by (simp add: ev_time_set_event_time)
qed

subsection \<open>Properties\<close>



text \<open>C2: The budgets \<open>get_bus_run_cycles\<close> and \<open>get_iop_run_cycles\<close> hand out for a slice
  are exactly what \<open>update_cycle_counts\<close> then adds to the bus and IOP clocks, so no domain runs
  ahead of its clock or loses a cycle.\<close>

theorem slice_budgets_exact:
  assumes "clocks_ok s"
  shows "cc_count (bus_cycles (update_cycle_counts s)) =
           cc_count (bus_cycles s) + ucast (get_bus_run_cycles s) \<and>
         cc_count (iop_cycles (update_cycle_counts s)) =
           cc_count (iop_cycles s) + ucast (get_iop_run_cycles s)"
  using assms by (simp add: bus_run_cycles_exact iop_run_cycles_exact)

theorem slice_budgets_exact_witness:
  "let s = (sched_reset (undefined :: sched))\<lparr>run_cycles := 27\<rparr> in
   cc_count (bus_cycles (update_cycle_counts s)) =
     cc_count (bus_cycles s) + ucast (get_bus_run_cycles s) \<and>
   cc_count (iop_cycles (update_cycle_counts s)) =
     cc_count (iop_cycles s) + ucast (get_iop_run_cycles s)"
  unfolding Let_def
  by (rule slice_budgets_exact) (simp add: clocks_ok_def sched_reset_def register_function_def)

text \<open>A slice is at most 32 EE cycles long and never carries the EE clock past the next
  event: if the event is still ahead the clock stops at it or earlier, otherwise the slice is
  empty.\<close>

lemma slice_stops_at_event:
  assumes "calculate_run_cycles s = Inr (n, s')"
    and "0 \<le>s cc_count (ee_cycles s)" and "sint (cc_count (ee_cycles s)) < 2 ^ 62"
    and "0 \<le>s closest_event_time s"
  shows "n \<le> 32 \<and> run_cycles s' = n \<and>
         sint (cc_count (ee_cycles s)) + uint n \<le>
           max (sint (cc_count (ee_cycles s))) (sint (closest_event_time s))"
  using run_cycles_bound [OF assms] calculate_run_cycles_cases(1) [OF assms(1)] by simp

definition demo_event :: sched_event where
  "demo_event = \<lparr>ev_id = 0, ev_time = 110, ev_param = 0, ev_func = 0\<rparr>"

definition demo_sched :: sched where
  "demo_sched = (sched_reset undefined)\<lparr>ee_cycles := \<lparr>cc_count = 100, cc_remainder = 0\<rparr>,
     events := [demo_event], closest_event_time := 110\<rparr>"

lemma slice_stops_at_event_witness:
  "calculate_run_cycles demo_sched = Inr (10, demo_sched\<lparr>run_cycles := 10\<rparr>) \<and> (10 :: u32) \<le> 32 \<and>
   sint (cc_count (ee_cycles demo_sched)) + uint (10 :: u32) \<le> 110"
proof -
  have run: "calculate_run_cycles demo_sched = Inr (10, demo_sched\<lparr>run_cycles := 10\<rparr>)"
    by (simp add: calculate_run_cycles_def demo_sched_def Let_def sle_iff sless_iff)
  have "(10 :: u32) \<le> 32 \<and> run_cycles (demo_sched\<lparr>run_cycles := 10\<rparr>) = 10 \<and>
     sint (cc_count (ee_cycles demo_sched)) + uint (10 :: u32) \<le>
       max (sint (cc_count (ee_cycles demo_sched))) (sint (closest_event_time demo_sched))"
    by (rule slice_stops_at_event [OF run]) (simp_all add: demo_sched_def sle_iff)
  then show ?thesis using run by (simp add: demo_sched_def)
qed

text \<open>C4: Bringing a running timer up to date accounts for every elapsed EE cycle: the counter
  in ticks plus the fixed-point remainder grows by exactly the elapsed time, and the remainder
  stays below one tick (all values modulo 2^64, as the code computes them).\<close>

theorem timer_update_conserves:
  assumes "update_timer_counter tid s = Inr s'" and "tid < length (sch_timers s)"
    and "\<not> st_paused (sch_timers s ! tid)"
    and "st_remainder_clocks (sch_timers s ! tid) < tick_length (sch_timers s ! tid)"
  shows "let t = sch_timers s ! tid; t' = sch_timers s' ! tid in
         st_counter t' * tick_length t + st_remainder_clocks t' =
           st_counter t * tick_length t + st_remainder_clocks t
             + push_bit 8 (cc_count (ee_cycles s) - st_last_update t) \<and>
         st_remainder_clocks t' < tick_length t"
proof -
  obtain t' where t': "advance_timer (cc_count (ee_cycles s)) (sch_timers s ! tid) = Inr t'"
    and s': "sch_timers s' ! tid = t'"
    using assms(1-3) by (auto simp: update_timer_counter_def rbind_eq_Inr)
  show ?thesis
    using advance_timer_conserves [OF t' assms(4)] by (simp add: Let_def s')
qed

definition demo_timer :: sched_timer where
  "demo_timer = \<lparr>st_event_id = 0, st_param = 0, st_counter = 5, st_target = 100,
     st_overflow_mask = 0xFFFF, st_clockrate = 147456000, st_remainder_clocks = 3,
     st_last_update = 57, st_callback_id = 0, st_paused = False, st_can_overflow = True,
     st_can_target = True\<rparr>"

theorem timer_update_conserves_witness:
  "\<exists>s'. update_timer_counter 0 (demo_sched\<lparr>sch_timers := [demo_timer]\<rparr>) = Inr s' \<and>
     st_counter (sch_timers s' ! 0) * 512 + st_remainder_clocks (sch_timers s' ! 0) = 5 * 512 + 3 + 43 * 256"
proof -
  let ?s = "demo_sched\<lparr>sch_timers := [demo_timer]\<rparr>"
  have tick: "tick_length demo_timer = 512"
    by (simp add: tick_length_def demo_timer_def EE_CLOCKRATE_def)
  obtain s' where s': "update_timer_counter 0 ?s = Inr s'"
    by (simp add: update_timer_counter_def advance_timer_def demo_timer_def EE_CLOCKRATE_def Let_def
        demo_sched_def)
  show ?thesis
    using s' timer_update_conserves [OF s'] tick by (simp add: demo_timer_def demo_sched_def Let_def)
qed

text \<open>However close its target or overflow, the event of a timer is scheduled at least eight
  EE cycles ahead, so a timer can never be due in the slice that scheduled it.\<close>

lemma timer_event_in_future:
  assumes "calculate_timer_event_delta tid s = Inr d"
  shows "8 \<le>s d"
  using assms by (rule timer_delta_min)

lemma timer_event_in_future_witness:
  "\<exists>d. calculate_timer_event_delta 0 (demo_sched\<lparr>sch_timers := [demo_timer]\<rparr>) = Inr d \<and> 8 \<le>s d"
proof -
  obtain d where d: "calculate_timer_event_delta 0 (demo_sched\<lparr>sch_timers := [demo_timer]\<rparr>) = Inr d"
    by (simp add: calculate_timer_event_delta_def convert_to_ee_cycles_def demo_timer_def Let_def)
  with timer_event_in_future [OF d] show ?thesis by blast
qed

text \<open>When a timer is restarted with the clock running, the wrapped event time leaves
  \<open>closest_event_time\<close> negative, so no event at a non-negative time counts as due until the
  dispatch loop has recomputed it: a timer that fires defers every other event due in the same
  pass.\<close>

lemma restart_timer_defers:
  assumes "restart_timer tid s = Inr s'" and "0 <s cc_count (ee_cycles s)"
    and "sint (cc_count (ee_cycles s)) < 2 ^ 62"
  shows "closest_event_time s' <s 0 \<and> (\<forall>e. 0 \<le>s ev_time e \<longrightarrow> \<not> due s' e)"
proof -
  have "sint (closest_event_time s') < 0"
    using restart_timer_closest [OF assms(1)] sint_wrapped_time [OF assms(2,3)] assms(3)
    by (simp add: sle_iff)
  then show ?thesis by (auto simp: sless_iff due_def sle_iff)
qed

lemma restart_timer_defers_witness:
  "\<exists>s'. restart_timer 0 (demo_sched\<lparr>sch_timers := [demo_timer]\<rparr>) = Inr s' \<and>
     closest_event_time s' <s 0 \<and> \<not> due s' demo_event"
proof -
  let ?s = "demo_sched\<lparr>sch_timers := [demo_timer]\<rparr>"
  have "succeeds (restart_timer 0 ?s)"
    by (simp add: restart_timer_def add_event_def put_timer_def update_timer_event_time_def Let_def
        calculate_timer_event_delta_def convert_to_ee_cycles_def get_event_ptr_def demo_timer_def
        demo_sched_def demo_event_def sched_reset_def register_function_def)
  then obtain s' where s': "restart_timer 0 ?s = Inr s'" by (auto simp: succeeds_iff)
  have "closest_event_time s' <s 0 \<and> (\<forall>e. 0 \<le>s ev_time e \<longrightarrow> \<not> due s' e)"
    by (rule restart_timer_defers [OF s']) (simp_all add: demo_sched_def sless_iff)
  then show ?thesis using s' by (auto simp: demo_event_def sle_iff)
qed

text \<open>Unpausing a timer computes its next event while the timer still counts as paused: the
  event lands 2^62 - 1 cycles ahead whatever the target, and the timer does not fire until some
  later write reschedules it.\<close>

lemma unpause_parks_timer:
  assumes "set_timer_pause tid False s = Inr s'" and "tid < length (sch_timers s)"
    and "st_paused (sch_timers s ! tid)"
  shows "\<exists>e. find_event (st_event_id (sch_timers s ! tid)) (events s') = Some e \<and>
           ev_time e = cc_count (ee_cycles s) + (2 ^ 62 - 1)"
  using unpause_schedules [OF assms] by simp

lemma unpause_parks_timer_witness:
  "\<exists>s' e. set_timer_pause 0 False (demo_sched\<lparr>sch_timers := [demo_timer\<lparr>st_paused := True\<rparr>]\<rparr>) = Inr s' \<and>
     find_event 0 (events s') = Some e \<and> ev_time e = 100 + (2 ^ 62 - 1)"
proof -
  let ?s = "demo_sched\<lparr>sch_timers := [demo_timer\<lparr>st_paused := True\<rparr>]\<rparr>"
  have "succeeds (set_timer_pause 0 False ?s)"
    by (simp add: set_timer_pause_def put_timer_def update_timer_event_time_def Let_def
        calculate_timer_event_delta_def get_event_ptr_def demo_timer_def
        demo_sched_def demo_event_def)
  then obtain s' where s': "set_timer_pause 0 False ?s = Inr s'" by (auto simp: succeeds_iff)
  show ?thesis
    using s' unpause_parks_timer [OF s'] by (auto simp: demo_timer_def demo_sched_def)
qed

end
