(* ===== verification/Ee_Core.thy ===== *)
theory Ee_Core
  imports Sched_Timers
begin

unbundle bit_operations_syntax

section \<open>Emotion Engine: COP0, the TLB and exceptions\<close>

text \<open>
  \<open>src/core/ee/cop0.cpp\<close>, \<open>cop0.hpp\<close> and the exception, interrupt and TLB operations of
  \<open>src/core/ee/emotion.cpp\<close>. The record \<open>ee_core\<close> extends the scheduler's: it holds the
  members of \<open>Cop0\<close> and those members of \<open>EmotionEngine\<close> these operations touch. The
  three virtual page tables map a page number to a host pointer (\<open>mem_ptr\<close>); the index
  into them is checked against their length.
\<close>

subsection \<open>State\<close>

record cop0_status =
  cs_int_enable :: bool
  cs_exception :: bool
  cs_error :: bool
  cs_mode :: u8
  cs_bus_error :: bool
  cs_int0_mask :: bool
  cs_int1_mask :: bool
  cs_timer_int_mask :: bool
  cs_master_int_enable :: bool
  cs_edi :: bool
  cs_ch :: bool
  cs_bev :: bool
  cs_dev :: bool
  cs_cu :: u8

record cop0_cause =
  cc_code :: u8
  cc_int0_pending :: bool
  cc_int1_pending :: bool
  cc_timer_int_pending :: bool
  cc_code2 :: u8
  cc_ce :: u8
  cc_bd2 :: bool
  cc_bd :: bool

text \<open>Index 0 of the two-element arrays of \<open>TLB_Entry\<close> is the even page, 1 the odd one.\<close>

record tlb_page =
  tp_valid :: bool
  tp_dirty :: bool
  tp_cache_mode :: u8
  tp_pfn :: u32

record tlb_entry =
  te_even :: tlb_page
  te_odd :: tlb_page
  te_is_scratchpad :: bool
  te_global :: bool
  te_asid :: u8
  te_vpn2 :: u32
  te_page_size :: u32
  te_page_mask :: u32
  te_page_shift :: u8

text \<open>A host pointer stored in a page table: \<open>nullptr\<close>, the marker 1 for MMIO, or an offset
  into main memory, the BIOS image or the scratchpad.\<close>

datatype mem_ptr = Null_ptr | Mmio | Rdram u32 | Bios u32 | Spr u32

datatype vtlb_id = Kernel_vtlb | Sup_vtlb | User_vtlb

record vtlb =
  kernel_vtlb :: "u32 \<Rightarrow> mem_ptr"
  sup_vtlb :: "u32 \<Rightarrow> mem_ptr"
  user_vtlb :: "u32 \<Rightarrow> mem_ptr"
  vtlb_cache_mode :: "u32 \<Rightarrow> u8"
  vtlb_modified :: "u32 \<Rightarrow> bool"

record ee_core = sched +
  cop0_tlb :: "tlb_entry list"
  cop0_gpr :: "5 word \<Rightarrow> u32"
  cop0_status :: cop0_status
  cop0_cause :: cop0_cause
  cop0_EPC :: u32
  cop0_ErrorEPC :: u32
  cop0_PCCR :: u32
  cop0_PCR0 :: u32
  cop0_PCR1 :: u32
  cop0_vtlb :: vtlb
  ee_cycle_count :: u64
  ee_cycles_to_run :: u32
  ee_PC :: u32
  ee_tlb_map :: vtlb_id
  ee_branch_on :: bool
  ee_delay_slot :: int
  ee_wait_for_IRQ :: bool

abbreviation UNCACHED :: u8 where "UNCACHED \<equiv> 2"
abbreviation CACHED :: u8 where "CACHED \<equiv> 3"
abbreviation SPR_MODE :: u8 where "SPR_MODE \<equiv> 8"

subsection \<open>Reset and the register file\<close>

definition zero_page :: tlb_page where
  "zero_page = \<lparr>tp_valid = False, tp_dirty = False, tp_cache_mode = 0, tp_pfn = 0\<rparr>"

definition zero_entry :: tlb_entry where
  "zero_entry = \<lparr>te_even = zero_page, te_odd = zero_page, te_is_scratchpad = False,
                 te_global = False, te_asid = 0, te_vpn2 = 0, te_page_size = 0,
                 te_page_mask = 0, te_page_shift = 0\<rparr>"

definition get_vtlb_map :: "'a ee_core_scheme \<Rightarrow> vtlb_id" where
  "get_vtlb_map s =
     (let st = cop0_status s in
      if cs_exception st \<or> cs_error st then Kernel_vtlb
      else if cs_mode st = 0 then Kernel_vtlb
      else if cs_mode st = 1 then Sup_vtlb
      else if cs_mode st = 2 then User_vtlb
      else Kernel_vtlb)"

definition cop0_reset :: "'a ee_core_scheme \<Rightarrow> 'a ee_core_scheme" where
  "cop0_reset s =
     (let s = s\<lparr>cop0_gpr := (\<lambda>_. 0), cop0_tlb := replicate 48 zero_entry\<rparr>;
          st = (cop0_status s)\<lparr>cs_int_enable := False, cs_exception := False, cs_error := False,
                 cs_mode := 0, cs_int0_mask := False, cs_int1_mask := False,
                 cs_bus_error := False, cs_master_int_enable := False, cs_edi := False,
                 cs_ch := False, cs_bev := True, cs_dev := False, cs_cu := 7\<rparr>
      in s\<lparr>cop0_status := st,
           cop0_cause := \<lparr>cc_code = 0, cc_int0_pending = False, cc_int1_pending = False,
             cc_timer_int_pending = False, cc_code2 = 0, cc_ce = 0, cc_bd2 = False,
             cc_bd = False\<rparr>,
           cop0_PCCR := 0, cop0_PCR0 := 0, cop0_PCR1 := 0,
           cop0_gpr := (cop0_gpr s)(15 := 0x2E20)\<rparr>)"

definition get_mem_pointer :: "u32 \<Rightarrow> mem_ptr" where
  "get_mem_pointer paddr =
     (if paddr < 0x10000000 then Rdram (paddr AND (1024 * 1024 * 32 - 1))
      else if 0x1FC00000 \<le> paddr \<and> paddr < 0x20000000
           then Bios (paddr AND (1024 * 1024 * 4 - 1))
      else Mmio)"

text \<open>\<open>init_tlb\<close> clears the tables and maps the two unmapped kernel segments, page by
  page: the value of every page after the loop.\<close>

definition init_tlb :: "'a ee_core_scheme \<Rightarrow> 'a ee_core_scheme" where
  "init_tlb s =
     s\<lparr>cop0_vtlb :=
       \<lparr>kernel_vtlb = (\<lambda>p. if 0x80000 \<le> p \<and> p < 0xC0000
                            then get_mem_pointer ((p * 4096) AND 0x1FFFFFFF) else Null_ptr),
        sup_vtlb = (\<lambda>_. Null_ptr), user_vtlb = (\<lambda>_. Null_ptr),
        vtlb_cache_mode = (\<lambda>p. if 0x80000 \<le> p \<and> p < 0xC0000
                                then (if p < 0xA0000 then CACHED else UNCACHED) else 0),
        vtlb_modified = (\<lambda>_. False)\<rparr>\<rparr>"

definition ee_init_tlb :: "'a ee_core_scheme \<Rightarrow> 'a ee_core_scheme" where
  "ee_init_tlb s = (let s = init_tlb s in s\<lparr>ee_tlb_map := get_vtlb_map s\<rparr>)"

definition status_value :: "cop0_status \<Rightarrow> u32" where
  "status_value st =
     flag_at 0 (cs_int_enable st) OR flag_at 1 (cs_exception st) OR flag_at 2 (cs_error st)
     OR push_bit 3 (ucast (cs_mode st)) OR flag_at 10 (cs_int0_mask st)
     OR flag_at 11 (cs_int1_mask st) OR flag_at 12 (cs_bus_error st)
     OR flag_at 15 (cs_timer_int_mask st) OR flag_at 16 (cs_master_int_enable st)
     OR flag_at 17 (cs_edi st) OR flag_at 18 (cs_ch st) OR flag_at 22 (cs_bev st)
     OR flag_at 23 (cs_dev st) OR push_bit 28 (ucast (cs_cu st))"

definition cause_value :: "cop0_cause \<Rightarrow> u32" where
  "cause_value c =
     push_bit 2 (ucast (cc_code c)) OR flag_at 10 (cc_int0_pending c)
     OR flag_at 11 (cc_int1_pending c) OR flag_at 15 (cc_timer_int_pending c)
     OR push_bit 16 (ucast (cc_code2 c)) OR push_bit 28 (ucast (cc_ce c))
     OR flag_at 30 (cc_bd2 c) OR flag_at 31 (cc_bd c)"

definition cop0_mfc :: "5 word \<Rightarrow> 'a ee_core_scheme \<Rightarrow> u32" where
  "cop0_mfc index s =
     (if index = 12 then status_value (cop0_status s)
      else if index = 13 then cause_value (cop0_cause s)
      else if index = 14 then cop0_EPC s
      else if index = 30 then cop0_ErrorEPC s
      else cop0_gpr s index)"

definition status_of :: "u32 \<Rightarrow> cop0_status" where
  "status_of v =
     \<lparr>cs_int_enable = tst v 0, cs_exception = tst v 1, cs_error = tst v 2,
      cs_mode = ucast (fld v 3 2), cs_bus_error = tst v 12, cs_int0_mask = tst v 10,
      cs_int1_mask = tst v 11, cs_timer_int_mask = tst v 15,
      cs_master_int_enable = tst v 16, cs_edi = tst v 17, cs_ch = tst v 18,
      cs_bev = tst v 22, cs_dev = tst v 23, cs_cu = ucast (drop_bit 28 v)\<rparr>"

definition cop0_mtc :: "5 word \<Rightarrow> u32 \<Rightarrow> 'a ee_core_scheme \<Rightarrow> 'a ee_core_scheme" where
  "cop0_mtc index v s =
     (if index = 12 then s\<lparr>cop0_status := status_of v\<rparr>
      else if index = 13 then s
      else if index = 14 then s\<lparr>cop0_EPC := v\<rparr>
      else if index = 30 then s\<lparr>cop0_ErrorEPC := v\<rparr>
      else if index = 11
           then s\<lparr>cop0_cause := (cop0_cause s)\<lparr>cc_timer_int_pending := False\<rparr>,
                  cop0_gpr := (cop0_gpr s)(index := v)\<rparr>
      else s\<lparr>cop0_gpr := (cop0_gpr s)(index := v)\<rparr>)"

text \<open>\<open>get_condition\<close> reads the DMAC's \<open>D_STAT\<close> and \<open>D_PCR\<close>, here its arguments.\<close>

definition get_condition :: "u32 \<Rightarrow> u32 \<Rightarrow> bool" where
  "get_condition d_stat d_pcr \<longleftrightarrow>
     (let STAT = d_stat AND 0x3FF; PCR = d_pcr AND 0x3FF
      in (NOT PCR OR STAT) AND 0x3FF = 0x3FF)"

definition int_enabled :: "'a ee_core_scheme \<Rightarrow> bool" where
  "int_enabled s \<longleftrightarrow>
     (let st = cop0_status s
      in cs_master_int_enable st \<and> cs_int_enable st \<and> \<not> cs_exception st \<and> \<not> cs_error st)"

definition int_pending :: "'a ee_core_scheme \<Rightarrow> bool" where
  "int_pending s \<longleftrightarrow>
     (cs_int0_mask (cop0_status s) \<and> cc_int0_pending (cop0_cause s)) \<or>
     (cs_int1_mask (cop0_status s) \<and> cc_int1_pending (cop0_cause s))"

text \<open>\<open>cycles\<close> is an \<open>int\<close> converted to \<open>uint32_t\<close> by the additions.\<close>

definition can_count :: "u32 \<Rightarrow> bool" where
  "can_count event \<longleftrightarrow> event \<in> {1, 2, 3, 12, 13, 14, 15}"

definition count_up :: "u32 \<Rightarrow> 'a ee_core_scheme \<Rightarrow> 'a ee_core_scheme" where
  "count_up cycles s =
     (let g = cop0_gpr s;
          s1 = (if g 9 < g 11 \<and> g 11 \<le> g 9 + cycles
                then s\<lparr>cop0_cause := (cop0_cause s)\<lparr>cc_timer_int_pending := True\<rparr>\<rparr> else s);
          s2 = s1\<lparr>cop0_gpr := g(9 := g 9 + cycles)\<rparr>;
          PCCR = cop0_PCCR s2
      in if tst PCCR 31 then
           let m = push_bit (unat (cs_mode (cop0_status s2)) + 2) 1
                   OR flag_at 1 (cs_exception (cop0_status s2));
               s3 = (if PCCR AND m \<noteq> 0 \<and> can_count (fld PCCR 5 5)
                     then s2\<lparr>cop0_PCR0 := cop0_PCR0 s2 + cycles\<rparr> else s2);
               m = push_bit 10 m
           in (if PCCR AND m \<noteq> 0 \<and> can_count (fld PCCR 15 5)
               then s3\<lparr>cop0_PCR1 := cop0_PCR1 s3 + cycles\<rparr> else s3)
         else s2)"

subsection \<open>The TLB\<close>

definition entry_lo :: "tlb_page \<Rightarrow> bool \<Rightarrow> u32" where
  "entry_lo p global =
     push_bit 6 (tp_pfn p) OR push_bit 3 (ucast (tp_cache_mode p)) OR flag_at 2 (tp_dirty p)
     OR flag_at 1 (tp_valid p) OR flag_at 0 global"

text \<open>\<open>read_tlb\<close> fills EntryLo0 (\<open>gpr[2]\<close>) from element 1 of the arrays and EntryLo1
  (\<open>gpr[3]\<close>) from element 0.\<close>

definition read_tlb :: "nat \<Rightarrow> 'a ee_core_scheme \<Rightarrow> 'a ee_core_scheme res" where
  "read_tlb index s =
     rbind (vec_at (cop0_tlb s) index) (\<lambda>e.
       let pm = push_bit 13 (te_page_mask e)
       in Inr (s\<lparr>cop0_gpr := (cop0_gpr s)
            (5 := pm,
             10 := (push_bit 13 (te_vpn2 e) OR ucast (te_asid e)) AND NOT pm,
             2 := flag_at 31 (te_is_scratchpad e) OR entry_lo (te_odd e) (te_global e),
             3 := entry_lo (te_even e) (te_global e))\<rparr>))"

definition page_geometry :: "u32 \<Rightarrow> u32 \<times> u8" where
  "page_geometry pm =
     (if pm = 0 then (1024 * 4, 0)
      else if pm = 3 then (1024 * 16, 2)
      else if pm = 0xF then (1024 * 64, 4)
      else if pm = 0x3F then (1024 * 256, 6)
      else if pm = 0xFF then (1024 * 1024, 8)
      else if pm = 0x3FF then (1024 * 1024 * 4, 10)
      else if pm = 0xFFF then (1024 * 1024 * 16, 12)
      else (0, 0))"

definition page_of_lo :: "u32 \<Rightarrow> tlb_page" where
  "page_of_lo lo =
     \<lparr>tp_valid = tst lo 1, tp_dirty = tst lo 2, tp_cache_mode = ucast (fld lo 3 3),
      tp_pfn = fld lo 6 20\<rparr>"

definition entry_of_regs :: "(5 word \<Rightarrow> u32) \<Rightarrow> tlb_entry" where
  "entry_of_regs g =
     (let pm = fld (g 5) 13 12
      in \<lparr>te_even = page_of_lo (g 2), te_odd = page_of_lo (g 3),
          te_is_scratchpad = drop_bit 31 (g 2) \<noteq> 0,
          te_global = (tst (g 2) 0 \<and> tst (g 3) 0),
          te_asid = ucast (g 10 AND 0xFF), te_vpn2 = drop_bit 13 (g 10),
          te_page_size = fst (page_geometry pm), te_page_mask = pm,
          te_page_shift = snd (page_geometry pm)\<rparr>)"

text \<open>A store to \<open>table[page]\<close>, the tables having 1024 * 1024 entries.\<close>

definition page_ok :: "u32 \<Rightarrow> bool" where
  "page_ok p \<longleftrightarrow> p < 0x100000"

definition unmap_page :: "u32 \<Rightarrow> vtlb \<Rightarrow> vtlb res" where
  "unmap_page p v =
     (if page_ok p
      then Inr (v\<lparr>kernel_vtlb := (kernel_vtlb v)(p := Null_ptr),
                  sup_vtlb := (sup_vtlb v)(p := Null_ptr),
                  user_vtlb := (user_vtlb v)(p := Null_ptr)\<rparr>)
      else Inl (Undefined ''vtlb index out of range''))"

definition even_page :: "tlb_entry \<Rightarrow> u32" where
  "even_page e =
     (drop_bit (unat (te_page_shift e)) (te_vpn2 e * 2) * te_page_size e) div 4096"

definition odd_page :: "tlb_entry \<Rightarrow> u32" where
  "odd_page e =
     ((drop_bit (unat (te_page_shift e)) (te_vpn2 e * 2) + 1) * te_page_size e) div 4096"

definition page_count :: "tlb_entry \<Rightarrow> nat" where
  "page_count e = unat (te_page_size e div 4096)"

definition unmap_tlb :: "tlb_entry \<Rightarrow> vtlb \<Rightarrow> vtlb res" where
  "unmap_tlb e v =
     (if te_is_scratchpad e
      then if tp_valid (te_even e)
           then for_upto 4 (\<lambda>i. unmap_page (even_page e + of_nat i)) v else Inr v
      else rbind (if tp_valid (te_even e)
                  then for_upto (page_count e) (\<lambda>i. unmap_page (even_page e + of_nat i)) v
                  else Inr v)
        (\<lambda>v. if tp_valid (te_odd e)
              then for_upto (page_count e) (\<lambda>i. unmap_page (odd_page e + of_nat i)) v
              else Inr v))"

definition map_spr_page :: "u32 \<Rightarrow> u32 \<Rightarrow> vtlb \<Rightarrow> vtlb res" where
  "map_spr_page p off v =
     (if page_ok p
      then Inr (v\<lparr>kernel_vtlb := (kernel_vtlb v)(p := Spr off),
                  sup_vtlb := (sup_vtlb v)(p := Spr off),
                  user_vtlb := (user_vtlb v)(p := Spr off),
                  vtlb_cache_mode := (vtlb_cache_mode v)(p := SPR_MODE)\<rparr>)
      else Inl (Undefined ''vtlb index out of range''))"

definition map_page :: "u32 \<Rightarrow> u32 \<Rightarrow> u32 \<Rightarrow> u8 \<Rightarrow> vtlb \<Rightarrow> vtlb res" where
  "map_page virt_addr p paddr mode v =
     (if page_ok p
      then let mem = get_mem_pointer paddr;
               v = v\<lparr>kernel_vtlb := (kernel_vtlb v)(p := mem)\<rparr>;
               v = (if virt_addr < 0x80000000
                    then v\<lparr>sup_vtlb := (sup_vtlb v)(p := mem),
                           user_vtlb := (user_vtlb v)(p := mem)\<rparr>
                    else if 0xC0000000 \<le> virt_addr \<and> virt_addr < 0xE0000000
                    then v\<lparr>sup_vtlb := (sup_vtlb v)(p := mem)\<rparr>
                    else v)
           in Inr (v\<lparr>vtlb_cache_mode := (vtlb_cache_mode v)(p := mode)\<rparr>)
      else Inl (Undefined ''vtlb index out of range''))"

definition phy_addr :: "tlb_entry \<Rightarrow> tlb_page \<Rightarrow> u32" where
  "phy_addr e p = drop_bit (unat (te_page_shift e)) (tp_pfn p) * te_page_size e"

definition map_pages :: "tlb_entry \<Rightarrow> u32 \<Rightarrow> tlb_page \<Rightarrow> vtlb \<Rightarrow> vtlb res" where
  "map_pages e page p v =
     (if tp_valid p
      then for_upto (page_count e)
             (\<lambda>i. map_page (page * 4096) (page + of_nat i)
                    (phy_addr e p + of_nat i * 4096) (tp_cache_mode p)) v
      else Inr v)"

definition map_tlb :: "tlb_entry \<Rightarrow> vtlb \<Rightarrow> vtlb res" where
  "map_tlb e v =
     (if te_is_scratchpad e
      then if tp_valid (te_even e)
           then for_upto 4 (\<lambda>i. map_spr_page (even_page e + of_nat i) (of_nat i * 4096)) v
           else Inr v
      else rbind (map_pages e (even_page e) (te_even e) v)
                 (map_pages e (odd_page e) (te_odd e)))"

definition set_tlb :: "nat \<Rightarrow> 'a ee_core_scheme \<Rightarrow> 'a ee_core_scheme res" where
  "set_tlb index s =
     rbind (vec_at (cop0_tlb s) index) (\<lambda>old.
     rbind (unmap_tlb old (cop0_vtlb s)) (\<lambda>v1.
     let e = entry_of_regs (cop0_gpr s)
     in rbind (map_tlb e v1) (\<lambda>v2.
          Inr (s\<lparr>cop0_tlb := (cop0_tlb s)[index := e], cop0_vtlb := v2\<rparr>))))"

definition tlbr :: "'a ee_core_scheme \<Rightarrow> 'a ee_core_scheme res" where
  "tlbr s = read_tlb (unat (cop0_gpr s 0)) s"

definition tlbwi :: "'a ee_core_scheme \<Rightarrow> 'a ee_core_scheme res" where
  "tlbwi s = set_tlb (unat (cop0_gpr s 0)) s"

definition tlb_matches :: "u32 \<Rightarrow> tlb_entry \<Rightarrow> bool" where
  "tlb_matches entry_hi e \<longleftrightarrow>
     te_vpn2 e = drop_bit 13 entry_hi AND NOT (te_page_mask e) \<and>
     (te_global e \<or> ucast (te_asid e) = entry_hi AND 0xFF)"

fun tlb_search :: "u32 \<Rightarrow> u32 \<Rightarrow> tlb_entry list \<Rightarrow> u32" where
  "tlb_search hi i [] = push_bit 31 1"
| "tlb_search hi i (e # es) = (if tlb_matches hi e then i else tlb_search hi (i + 1) es)"

definition tlbp :: "'a ee_core_scheme \<Rightarrow> 'a ee_core_scheme" where
  "tlbp s =
     s\<lparr>cop0_gpr := (cop0_gpr s)(0 := tlb_search (cop0_gpr s 10) 0 (cop0_tlb s))\<rparr>"

definition clear_tlb_modified :: "u32 \<Rightarrow> 'a ee_core_scheme \<Rightarrow> 'a ee_core_scheme" where
  "clear_tlb_modified p s =
     s\<lparr>cop0_vtlb := (cop0_vtlb s)\<lparr>vtlb_modified := (vtlb_modified (cop0_vtlb s))(p := False)\<rparr>\<rparr>"

definition set_tlb_modified :: "u32 \<Rightarrow> 'a ee_core_scheme \<Rightarrow> 'a ee_core_scheme" where
  "set_tlb_modified p s =
     s\<lparr>cop0_vtlb := (cop0_vtlb s)\<lparr>vtlb_modified := (vtlb_modified (cop0_vtlb s))(p := True)\<rparr>\<rparr>"

subsection \<open>Halting, exceptions and interrupts\<close>

definition halt :: "'a ee_core_scheme \<Rightarrow> 'a ee_core_scheme" where
  "halt s = s\<lparr>ee_wait_for_IRQ := True, ee_cycles_to_run := 0\<rparr>"

definition unhalt :: "'a ee_core_scheme \<Rightarrow> 'a ee_core_scheme" where
  "unhalt s =
     (let s = s\<lparr>ee_wait_for_IRQ := False\<rparr>
      in if ee_cycles_to_run s <s 0 then s\<lparr>ee_cycles_to_run := 0\<rparr> else s)"

definition ee_handle_exception :: "u32 \<Rightarrow> u8 \<Rightarrow> 'a ee_core_scheme \<Rightarrow> 'a ee_core_scheme" where
  "ee_handle_exception new_addr code s =
     (let s = s\<lparr>cop0_status := (cop0_status s)\<lparr>cs_exception := True\<rparr>,
               cop0_cause := (cop0_cause s)\<lparr>cc_code := code\<rparr>\<rparr>;
          s = (if ee_branch_on s
               then cop0_mtc 14 (ee_PC s - 4) (s\<lparr>cop0_cause := (cop0_cause s)\<lparr>cc_bd := True\<rparr>\<rparr>)
               else cop0_mtc 14 (ee_PC s) (s\<lparr>cop0_cause := (cop0_cause s)\<lparr>cc_bd := False\<rparr>\<rparr>));
          a = (if cs_bev (cop0_status s) then (new_addr OR 0xBFC00000) + 0x200 else new_addr);
          s = unhalt (s\<lparr>ee_branch_on := False, ee_delay_slot := 0, ee_PC := a\<rparr>)
      in s\<lparr>ee_tlb_map := get_vtlb_map s\<rparr>)"

definition ee_int0 :: "'a ee_core_scheme \<Rightarrow> 'a ee_core_scheme" where
  "ee_int0 s =
     (if cs_int0_mask (cop0_status s) then ee_handle_exception 0x80000200 0 s else s)"

definition ee_int1 :: "'a ee_core_scheme \<Rightarrow> 'a ee_core_scheme" where
  "ee_int1 s =
     (if cs_int1_mask (cop0_status s) then ee_handle_exception 0x80000200 0 s else s)"

definition ee_int_timer :: "'a ee_core_scheme \<Rightarrow> 'a ee_core_scheme" where
  "ee_int_timer s =
     (if cs_timer_int_mask (cop0_status s) then ee_handle_exception 0x80000200 0 s else s)"

definition set_int0_signal :: "bool \<Rightarrow> 'a ee_core_scheme \<Rightarrow> 'a ee_core_scheme" where
  "set_int0_signal value s =
     (let s = s\<lparr>cop0_cause := (cop0_cause s)\<lparr>cc_int0_pending := value\<rparr>\<rparr>
      in if value \<and> int_enabled s then ee_int0 s else s)"

definition set_int1_signal :: "bool \<Rightarrow> 'a ee_core_scheme \<Rightarrow> 'a ee_core_scheme" where
  "set_int1_signal value s =
     s\<lparr>cop0_cause := (cop0_cause s)\<lparr>cc_int1_pending := value\<rparr>\<rparr>"

definition trap_exception :: "'a ee_core_scheme \<Rightarrow> 'a ee_core_scheme" where
  "trap_exception s = ee_handle_exception 0x8000017C 0xD s"

definition break_exception :: "'a ee_core_scheme \<Rightarrow> 'a ee_core_scheme res" where
  "break_exception s = Inl (Die ''[EE] BREAK opcode called'')"

text \<open>\<open>run\<close>: the execution engine (interpreter or JIT) is the parameter \<open>run_func\<close>.\<close>

definition ee_run ::
    "('a ee_core_scheme \<Rightarrow> 'a ee_core_scheme res) \<Rightarrow> u32 \<Rightarrow> 'a ee_core_scheme \<Rightarrow>
     'a ee_core_scheme res" where
  "ee_run run_func cycles s =
     rbind (if \<not> ee_wait_for_IRQ s
            then run_func (s\<lparr>ee_cycles_to_run := ee_cycles_to_run s + cycles\<rparr>)
            else Inr (s\<lparr>ee_cycle_count := ee_cycle_count s + scast cycles,
                        ee_cycles_to_run := 0\<rparr>))
       (\<lambda>s. let s = count_up cycles s
             in Inr (if int_enabled s
                     then if cc_int0_pending (cop0_cause s) then ee_int0 s
                          else if cc_int1_pending (cop0_cause s) then ee_int1 s
                          else if cc_timer_int_pending (cop0_cause s) then ee_int_timer s
                          else s
                     else s))"

text \<open>\<open>eret\<close>: the two boot hooks of the emulator it may call are parameters.\<close>

definition ee_eret ::
    "('a ee_core_scheme \<Rightarrow> 'a ee_core_scheme) \<Rightarrow> ('a ee_core_scheme \<Rightarrow> 'a ee_core_scheme) \<Rightarrow>
     'a ee_core_scheme \<Rightarrow> 'a ee_core_scheme" where
  "ee_eret fast_boot skip_BIOS s =
     (let s = (if cs_error (cop0_status s)
               then s\<lparr>ee_PC := cop0_ErrorEPC s,
                      cop0_status := (cop0_status s)\<lparr>cs_error := False\<rparr>\<rparr>
               else s\<lparr>ee_PC := cop0_EPC s,
                      cop0_status := (cop0_status s)\<lparr>cs_exception := False\<rparr>\<rparr>);
          s = (if ee_PC s = 0x82000 then fast_boot s else s);
          s = (if 0x81FC0 \<le> ee_PC s \<and> ee_PC s < 0x81FE0 then halt s else s);
          s = (if 0x00100000 \<le> ee_PC s \<and> ee_PC s < 0x00100010 then skip_BIOS s else s);
          s = s\<lparr>ee_PC := ee_PC s - 4\<rparr>
      in s\<lparr>ee_tlb_map := get_vtlb_map s\<rparr>)"

definition ee_may_toggle :: "cop0_status \<Rightarrow> bool" where
  "ee_may_toggle st \<longleftrightarrow> cs_edi st \<or> cs_mode st = 0 \<or> cs_exception st \<or> cs_error st"

definition ee_ei :: "'a ee_core_scheme \<Rightarrow> 'a ee_core_scheme" where
  "ee_ei s =
     (if ee_may_toggle (cop0_status s)
      then s\<lparr>cop0_status := (cop0_status s)\<lparr>cs_master_int_enable := True\<rparr>\<rparr> else s)"

definition ee_di :: "'a ee_core_scheme \<Rightarrow> 'a ee_core_scheme" where
  "ee_di s =
     (if ee_may_toggle (cop0_status s)
      then s\<lparr>cop0_status := (cop0_status s)\<lparr>cs_master_int_enable := False\<rparr>\<rparr> else s)"

subsection \<open>Registers and exceptions\<close>

lemma status_roundtrip: "status_value (status_of v) = v AND 0xF0C79C1F"
  by (rule u32_eqI) (simp add: status_value_def status_of_def reg_bits bit_simps)

lemma exception_masks_interrupts: "\<not> int_enabled (ee_handle_exception a c s)"
  by (simp add: int_enabled_def ee_handle_exception_def unhalt_def cop0_mtc_def Let_def)

subsection \<open>Properties\<close>

text \<open>Writing the Status register and reading it back returns the written word with exactly
  the implemented bits kept (mask 0xF0C79C1F), whatever the register held before.\<close>

lemma ee_status_write_read: "cop0_mfc 12 (cop0_mtc 12 v s) = v AND 0xF0C79C1F"
  by (simp add: cop0_mfc_def cop0_mtc_def status_roundtrip)


definition demo_ee :: ee_core where
  "demo_ee = (cop0_reset undefined)\<lparr>ee_branch_on := False, ee_PC := 0x00200000\<rparr>"


end
