(* ===== verification/Ee_Tlb.thy ===== *)
theory Ee_Tlb
  imports Ee_Core
begin

unbundle bit_operations_syntax

section \<open>Emotion Engine: what the TLB operations establish\<close>

text \<open>
  \<open>TLBWI\<close> rewrites the page tables: after it, the pages of a legal entry translate to the
  frames the entry names and every other page is what removing the old entry left. \<open>TLBR\<close>
  reads an entry back, with the two halves exchanged.
\<close>

subsection \<open>Geometry\<close>

definition legal_mask :: "u32 \<Rightarrow> bool" where
  "legal_mask pm \<longleftrightarrow> pm \<in> {0, 3, 0xF, 0x3F, 0xFF, 0x3FF, 0xFFF}"

text \<open>An entry as \<open>set_tlb\<close> builds it from EntryHi with the bits under PageMask clear.\<close>

definition entry_wf :: "tlb_entry \<Rightarrow> bool" where
  "entry_wf e \<longleftrightarrow>
     legal_mask (te_page_mask e) \<and> te_page_size e = fst (page_geometry (te_page_mask e)) \<and>
     te_page_shift e = snd (page_geometry (te_page_mask e)) \<and>
     te_vpn2 e < 0x80000 \<and> te_vpn2 e AND te_page_mask e = 0"

lemma entry_wf_cases:
  assumes "entry_wf e"
  obtains k where "k \<in> {0, 2, 4, 6, 8, 10, 12 :: nat}" "te_page_mask e = mask k"
    "te_page_size e = 2 ^ (12 + k)" "unat (te_page_shift e) = k"
    "te_vpn2 e < 0x80000" "te_vpn2 e AND mask k = 0"
proof -
  from assms have pm: "te_page_mask e \<in> {0, 3, 0xF, 0x3F, 0xFF, 0x3FF, 0xFFF}"
    by (simp add: entry_wf_def legal_mask_def)
  show ?thesis
    using pm
    by (elim insertE emptyE; insert assms; simp only: entry_wf_def page_geometry_def)
      (rule that [of 0] that [of 2] that [of 4] that [of 6] that [of 8] that [of 10] that [of 12];
       simp add: mask_eq_exp_minus_1; fail)+
qed

lemma mask_zero_dvd:
  assumes "w AND mask k = (0 :: u32)"
  shows "2 ^ k dvd unat w"
proof -
  have "unat (w AND mask k) = unat w mod 2 ^ k"
    unfolding take_bit_eq_mask [symmetric] unsigned_take_bit_eq by (simp add: take_bit_eq_mod)
  then show ?thesis using assms by (simp add: dvd_eq_mod_eq_0)
qed

lemma unat_mult_small:
  fixes a b :: u32
  assumes "unat a * unat b < 2 ^ 32"
  shows "unat (a * b) = unat a * unat b"
  using assms by (simp add: unat_word_ariths)

lemma unat_exp: "n < 32 \<Longrightarrow> unat (2 ^ n :: u32) = 2 ^ n"
  using unsigned_of_nat [of "2 ^ n :: nat", where 'b = 32 and 'a = nat]
  by (simp add: take_bit_nat_eq_self)

lemma entry_pages:
  assumes "entry_wf e"
  obtains k where "k \<le> 12" "page_count e = 2 ^ k"
    "unat (even_page e) = 2 * unat (te_vpn2 e)"
    "unat (odd_page e) = 2 * unat (te_vpn2 e) + 2 ^ k"
    "2 * unat (te_vpn2 e) + 2 * 2 ^ k \<le> 2 ^ 20"
    "te_page_size e = 2 ^ (12 + k)" "unat (te_page_shift e) = k"
proof -
  from entry_wf_cases [OF assms] obtain k where k: "k \<in> {0, 2, 4, 6, 8, 10, 12 :: nat}"
    and size: "te_page_size e = 2 ^ (12 + k)" and shift: "unat (te_page_shift e) = k"
    and small: "te_vpn2 e < 0x80000" and aligned: "te_vpn2 e AND mask k = 0"
    by metis
  have k12: "k \<le> 12" using k by auto
  define m where "m = unat (te_vpn2 e) div 2 ^ k"
  have vm: "unat (te_vpn2 e) = m * 2 ^ k"
    using mask_zero_dvd [OF aligned] by (simp add: m_def)
  have v19: "m * 2 ^ k < 2 ^ (19 - k) * 2 ^ k"
    using small k12 vm by (simp add: word_less_nat_alt power_add [symmetric])
  then have "m < 2 ^ (19 - k)" by simp
  then have "Suc m * 2 ^ k \<le> 2 ^ (19 - k) * 2 ^ k"
    by (intro mult_right_mono) simp_all
  then have m_bound: "m * 2 ^ k + 2 ^ k \<le> 2 ^ 19"
    using k12 by (simp add: power_add [symmetric])
  have pos: "(0 :: nat) < 2 ^ k" by simp
  then have lt: "m * 2 ^ k < 2 ^ 19" using m_bound by linarith
  have usize: "unat (te_page_size e) = 2 ^ (12 + k)"
    unfolding size using k12 by (intro unat_exp) simp
  have v2: "unat (te_vpn2 e * 2) = 2 * m * 2 ^ k"
    using m_bound lt by (subst unat_mult_small) (simp_all add: vm)
  have real: "unat (drop_bit k (te_vpn2 e * 2)) = 2 * m"
    unfolding unat_drop_bit_eq v2 by (simp add: drop_bit_eq_div)
  have e1: "unat (drop_bit k (te_vpn2 e * 2) * te_page_size e) = 2 * m * 2 ^ k * 4096"
    using m_bound lt by (subst unat_mult_small) (simp_all add: real usize power_add algebra_simps)
  have real1: "unat (drop_bit k (te_vpn2 e * 2) + 1) = 2 * m + 1"
  proof -
    have "m < 2 ^ 19" using m_bound
      by (metis \<open>m < 2 ^ (19 - k)\<close> diff_le_self less_le_trans one_le_numeral power_increasing)
    then show ?thesis using real by (simp add: unat_word_ariths)
  qed
  have o1: "unat ((drop_bit k (te_vpn2 e * 2) + 1) * te_page_size e) =
            (2 * m * 2 ^ k + 2 ^ k) * 4096"
  proof -
    have "(2 * m + 1) * 2 ^ (12 + k) = (2 * m * 2 ^ k + 2 ^ k) * (4096 :: nat)"
      by (simp add: power_add algebra_simps)
    then show ?thesis
      using m_bound lt by (subst unat_mult_small) (simp_all add: real1 usize)
  qed
  show ?thesis
  proof (rule that [of k])
    show "unat (even_page e) = 2 * unat (te_vpn2 e)"
      by (simp add: even_page_def shift unat_div e1 vm)
    show "unat (odd_page e) = 2 * unat (te_vpn2 e) + 2 ^ k"
      by (simp add: odd_page_def shift unat_div o1 vm)
    show "page_count e = 2 ^ k"
      by (simp add: page_count_def unat_div usize power_add)
    show "2 * unat (te_vpn2 e) + 2 * 2 ^ k \<le> 2 ^ 20" using m_bound vm by simp
  qed (use k12 size shift in simp_all)
qed

subsection \<open>The mapping loops\<close>

definition in_pages :: "u32 \<Rightarrow> nat \<Rightarrow> u32 \<Rightarrow> bool" where
  "in_pages b n q \<longleftrightarrow> unat b \<le> unat q \<and> unat q < unat b + n"

lemma unat_page_plus:
  fixes b :: u32
  assumes "unat b + i < 2 ^ 20"
  shows "unat (b + of_nat i) = unat b + i" and "page_ok (b + of_nat i)"
proof -
  have i: "unat (of_nat i :: u32) = i"
    using assms by (simp add: unsigned_of_nat take_bit_nat_eq_self)
  show s: "unat (b + of_nat i) = unat b + i"
    using assms by (simp add: unat_word_ariths i)
  then show "page_ok (b + of_nat i)"
    using assms by (simp add: page_ok_def word_less_nat_alt)
qed

lemma in_pages_Suc:
  fixes b :: u32
  assumes "unat b + n < 2 ^ 20"
  shows "in_pages b (Suc n) q \<longleftrightarrow> in_pages b n q \<or> q = b + of_nat n"
  using unat_page_plus(1) [OF assms] by (auto simp: in_pages_def word_unat_eq_iff)

text \<open>What mapping a run of pages does to one of the three tables.\<close>

definition mapped ::
    "bool \<Rightarrow> u32 \<Rightarrow> nat \<Rightarrow> u32 \<Rightarrow> (u32 \<Rightarrow> mem_ptr) \<Rightarrow> u32 \<Rightarrow> mem_ptr" where
  "mapped visible b n pa tbl q =
     (if visible \<and> in_pages b n q then get_mem_pointer (pa + (q - b) * 4096) else tbl q)"

definition user_visible :: "u32 \<Rightarrow> bool" where
  "user_visible va \<longleftrightarrow> va < 0x80000000"

definition sup_visible :: "u32 \<Rightarrow> bool" where
  "sup_visible va \<longleftrightarrow> va < 0x80000000 \<or> (0xC0000000 \<le> va \<and> va < 0xE0000000)"

lemma mapped_0 [simp]: "mapped c b 0 pa tbl = tbl"
  by (auto simp: mapped_def in_pages_def fun_eq_iff)

lemma mapped_Suc:
  assumes "unat b + n < 2 ^ 20"
  shows "mapped c b (Suc n) pa tbl =
         (if c then (mapped c b n pa tbl)(b + of_nat n := get_mem_pointer (pa + of_nat n * 4096))
          else mapped c b n pa tbl)"
  by (auto simp: mapped_def in_pages_Suc [OF assms] fun_eq_iff)

lemma map_page_eq:
  assumes "page_ok p"
  shows "map_page va p pa mode v =
         Inr (v\<lparr>kernel_vtlb := (kernel_vtlb v)(p := get_mem_pointer pa),
                sup_vtlb := (if sup_visible va then (sup_vtlb v)(p := get_mem_pointer pa)
                             else sup_vtlb v),
                user_vtlb := (if user_visible va then (user_vtlb v)(p := get_mem_pointer pa)
                              else user_vtlb v),
                vtlb_cache_mode := (vtlb_cache_mode v)(p := mode)\<rparr>)"
  using assms by (simp add: map_page_def Let_def sup_visible_def user_visible_def)

lemma map_loop:
  assumes "unat b + n \<le> 2 ^ 20"
  shows "\<exists>v'. for_upto n (\<lambda>i. map_page va (b + of_nat i) (pa + of_nat i * 4096) mode) v = Inr v' \<and>
              kernel_vtlb v' = mapped True b n pa (kernel_vtlb v) \<and>
              sup_vtlb v' = mapped (sup_visible va) b n pa (sup_vtlb v) \<and>
              user_vtlb v' = mapped (user_visible va) b n pa (user_vtlb v)"
  using assms
proof (induction n)
  case (Suc n)
  then have lt: "unat b + n < 2 ^ 20" by simp
  from Suc obtain v' where
    "for_upto n (\<lambda>i. map_page va (b + of_nat i) (pa + of_nat i * 4096) mode) v = Inr v'"
    "kernel_vtlb v' = mapped True b n pa (kernel_vtlb v)"
    "sup_vtlb v' = mapped (sup_visible va) b n pa (sup_vtlb v)"
    "user_vtlb v' = mapped (user_visible va) b n pa (user_vtlb v)"
    by auto
  then show ?case
    by (simp add: map_page_eq [OF unat_page_plus(2) [OF lt]] mapped_Suc [OF lt] fun_upd_def)
qed simp

definition half_mapped :: "tlb_entry \<Rightarrow> u32 \<Rightarrow> tlb_page \<Rightarrow> bool \<Rightarrow> (u32 \<Rightarrow> mem_ptr) \<Rightarrow> u32 \<Rightarrow> mem_ptr" where
  "half_mapped e page p visible tbl =
     (if tp_valid p then mapped visible page (page_count e) (phy_addr e p) tbl else tbl)"

lemma map_pages_spec:
  assumes "unat page + page_count e \<le> 2 ^ 20"
  shows "\<exists>v'. map_pages e page p v = Inr v' \<and>
              kernel_vtlb v' = half_mapped e page p True (kernel_vtlb v) \<and>
              sup_vtlb v' = half_mapped e page p (sup_visible (page * 4096)) (sup_vtlb v) \<and>
              user_vtlb v' = half_mapped e page p (user_visible (page * 4096)) (user_vtlb v)"
  using map_loop [OF assms] by (simp add: map_pages_def half_mapped_def)

lemma map_tlb_spec:
  assumes "entry_wf e" and "\<not> te_is_scratchpad e"
  shows "\<exists>v'. map_tlb e v = Inr v' \<and>
     kernel_vtlb v' = half_mapped e (odd_page e) (te_odd e) True
                        (half_mapped e (even_page e) (te_even e) True (kernel_vtlb v)) \<and>
     user_vtlb v' = half_mapped e (odd_page e) (te_odd e) (user_visible (odd_page e * 4096))
                      (half_mapped e (even_page e) (te_even e)
                         (user_visible (even_page e * 4096)) (user_vtlb v))"
proof -
  from entry_pages [OF assms(1)] obtain k where "page_count e = 2 ^ k"
    "unat (even_page e) = 2 * unat (te_vpn2 e)"
    "unat (odd_page e) = 2 * unat (te_vpn2 e) + 2 ^ k"
    "2 * unat (te_vpn2 e) + 2 * 2 ^ k \<le> 2 ^ 20"
    by metis
  then have "unat (even_page e) + page_count e \<le> 2 ^ 20"
    and "unat (odd_page e) + page_count e \<le> 2 ^ 20" by simp_all
  with map_pages_spec [of "even_page e" e "te_even e" v] obtain v1
    where v1: "map_pages e (even_page e) (te_even e) v = Inr v1"
      "kernel_vtlb v1 = half_mapped e (even_page e) (te_even e) True (kernel_vtlb v)"
      "user_vtlb v1 = half_mapped e (even_page e) (te_even e)
         (user_visible (even_page e * 4096)) (user_vtlb v)" by auto
  from map_pages_spec [OF \<open>unat (odd_page e) + page_count e \<le> 2 ^ 20\<close>, of "te_odd e" v1]
  show ?thesis using assms(2) by (auto simp: map_tlb_def v1)
qed

lemma halves_disjoint:
  assumes "entry_wf e"
  shows "\<not> (in_pages (even_page e) (page_count e) q \<and> in_pages (odd_page e) (page_count e) q)"
  using entry_pages [OF assms] by (metis in_pages_def linorder_not_le)

text \<open>What the loaded entry says a page translates to.\<close>

definition tlb_target :: "tlb_entry \<Rightarrow> u32 \<Rightarrow> mem_ptr option" where
  "tlb_target e q =
     (if tp_valid (te_even e) \<and> in_pages (even_page e) (page_count e) q
      then Some (get_mem_pointer (phy_addr e (te_even e) + (q - even_page e) * 4096))
      else if tp_valid (te_odd e) \<and> in_pages (odd_page e) (page_count e) q
      then Some (get_mem_pointer (phy_addr e (te_odd e) + (q - odd_page e) * 4096))
      else None)"

lemma kernel_after_map:
  assumes "entry_wf e" "\<not> te_is_scratchpad e" "map_tlb e v = Inr v'"
  shows "kernel_vtlb v' q = (case tlb_target e q of Some m \<Rightarrow> m | None \<Rightarrow> kernel_vtlb v q)"
  using map_tlb_spec [OF assms(1,2), of v] halves_disjoint [OF assms(1), of q] assms(3)
  by (auto simp: tlb_target_def half_mapped_def mapped_def)

lemma user_after_map:
  assumes "entry_wf e" "\<not> te_is_scratchpad e" "map_tlb e v = Inr v'"
    and "user_visible (even_page e * 4096)" "user_visible (odd_page e * 4096)"
  shows "user_vtlb v' q = (case tlb_target e q of Some m \<Rightarrow> m | None \<Rightarrow> user_vtlb v q)"
  using map_tlb_spec [OF assms(1,2), of v] halves_disjoint [OF assms(1), of q] assms(3-5)
  by (auto simp: tlb_target_def half_mapped_def mapped_def)

lemma set_tlb_steps:
  assumes "set_tlb i s = Inr s'"
  obtains v1 where "i < length (cop0_tlb s)"
    "unmap_tlb (cop0_tlb s ! i) (cop0_vtlb s) = Inr v1"
    "map_tlb (entry_of_regs (cop0_gpr s)) v1 = Inr (cop0_vtlb s')"
    "s' = s\<lparr>cop0_tlb := (cop0_tlb s)[i := entry_of_regs (cop0_gpr s)], cop0_vtlb := cop0_vtlb s'\<rparr>"
  using assms by (fastforce simp: set_tlb_def Let_def rbind_eq_Inr vec_at_Inr)

lemma set_tlb_frame:
  assumes "set_tlb i s = Inr s'"
  shows "i < length (cop0_tlb s)" and "cop0_gpr s' = cop0_gpr s"
    and "cop0_tlb s' = (cop0_tlb s)[i := entry_of_regs (cop0_gpr s)]"
proof -
  from set_tlb_steps [OF assms] have i: "i < length (cop0_tlb s)"
    and s': "s' = s\<lparr>cop0_tlb := (cop0_tlb s)[i := entry_of_regs (cop0_gpr s)], cop0_vtlb := cop0_vtlb s'\<rparr>"
    by metis+
  show "i < length (cop0_tlb s)" by (rule i)
  show "cop0_gpr s' = cop0_gpr s" by (subst s') simp
  show "cop0_tlb s' = (cop0_tlb s)[i := entry_of_regs (cop0_gpr s)]" by (subst s') simp
qed

lemma entry_of_regs_wf:
  assumes "legal_mask (fld (g 5) 13 12)" and "drop_bit 13 (g 10) AND fld (g 5) 13 12 = 0"
  shows "entry_wf (entry_of_regs g)"
proof -
  have "drop_bit 13 (g 10) < (0x80000 :: u32)"
  proof -
    have "unat (drop_bit 13 (g 10)) = unat (g 10) div 2 ^ 13"
      unfolding unat_drop_bit_eq by (simp add: drop_bit_eq_div)
    also have "\<dots> < 2 ^ 19"
      by (rule less_mult_imp_div_less) (use unsigned_less [of "g 10"] in \<open>simp del: unsigned_less\<close>)
    finally show ?thesis by (simp add: word_less_nat_alt)
  qed
  with assms show ?thesis
    by (simp add: entry_wf_def entry_of_regs_def Let_def)
qed

subsection \<open>Reading an entry back\<close>

lemma entry_lo_page_of_lo:
  "entry_lo (page_of_lo lo) g = (lo AND 0x03FFFFFE) OR flag_at 0 g"
  by (rule u32_eqI) (simp add: entry_lo_def page_of_lo_def reg_bits bit_simps)

subsection \<open>Properties\<close>


definition demo_tlb_state :: ee_core where
  "demo_tlb_state = (init_tlb (cop0_reset undefined))\<lparr>cop0_gpr :=
     (\<lambda>_. 0)(10 := 0x00400000, 2 := 0x46, 3 := 0x86)\<rparr>"

lemma demo_tlb_regs [simp]:
  "cop0_gpr demo_tlb_state 0 = 0" "cop0_gpr demo_tlb_state 5 = 0"
  "cop0_gpr demo_tlb_state 10 = 0x00400000" "cop0_gpr demo_tlb_state 2 = 0x46"
  "cop0_gpr demo_tlb_state 3 = 0x86" "cop0_tlb demo_tlb_state = replicate 48 zero_entry"
  by (simp_all add: demo_tlb_state_def init_tlb_def cop0_reset_def Let_def)


text \<open>\<open>TLBR\<close> after \<open>TLBWI\<close> does not read back what was written: EntryLo0 receives the
  frame, cache and flag bits that were written through EntryLo1, and EntryLo1 those written through
  EntryLo0, so the two halves of every entry come back exchanged.\<close>

lemma tlbr_exchanges_halves:
  assumes "tlbwi s = Inr s'" and "tlbr s' = Inr t"
  shows "cop0_gpr t 2 AND 0x03FFFFFE = cop0_gpr s 3 AND 0x03FFFFFE \<and>
         cop0_gpr t 3 AND 0x03FFFFFE = cop0_gpr s 2 AND 0x03FFFFFE"
proof -
  let ?e = "entry_of_regs (cop0_gpr s)"
  note frame = set_tlb_frame [OF assms(1) [unfolded tlbwi_def]]
  have t: "cop0_gpr t 2 = flag_at 31 (te_is_scratchpad ?e) OR entry_lo (te_odd ?e) (te_global ?e)"
    "cop0_gpr t 3 = entry_lo (te_even ?e) (te_global ?e)"
    using assms(2) frame by (auto simp: tlbr_def read_tlb_def Let_def)
  have halves: "te_odd ?e = page_of_lo (cop0_gpr s 3)" "te_even ?e = page_of_lo (cop0_gpr s 2)"
    by (simp_all add: entry_of_regs_def Let_def)
  show ?thesis
    unfolding t halves entry_lo_page_of_lo
    by (intro conjI u32_eqI) (simp_all add: reg_bits bit_simps)
qed

lemma tlbr_exchanges_halves_witness:
  "\<exists>s' t. tlbwi demo_tlb_state = Inr s' \<and> tlbr s' = Inr t \<and>
     cop0_gpr t 2 AND 0x03FFFFFE = 0x86 \<and> cop0_gpr t 3 AND 0x03FFFFFE = 0x46"
proof -
  have "succeeds (tlbwi demo_tlb_state)"
    by (simp add: tlbwi_def set_tlb_def unmap_tlb_def zero_entry_def zero_page_def map_tlb_def
        map_pages_def entry_of_regs_def page_of_lo_def Let_def map_page_def
        page_geometry_def page_count_def even_page_def odd_page_def page_ok_def phy_addr_def fld_def
        mask_eq_exp_minus_1 tst_def)
  then obtain s' where s': "tlbwi demo_tlb_state = Inr s'" by (auto simp: succeeds_iff)
  then have tlb: "length (cop0_tlb s') = 48" and r: "cop0_gpr s' = cop0_gpr demo_tlb_state"
    using set_tlb_frame [OF s' [unfolded tlbwi_def]] by simp_all
  have "succeeds (tlbr s')" by (simp add: tlbr_def read_tlb_def r tlb vec_at_def Let_def)
  then obtain t where t: "tlbr s' = Inr t" by (auto simp: succeeds_iff)
  show ?thesis using s' t tlbr_exchanges_halves [OF s' t] by auto
qed

end
