(* ===== verification/Ee_Intc.thy ===== *)
theory Ee_Intc
  imports Ee_Tlb
begin

unbundle bit_operations_syntax

section \<open>The EE interrupt controller\<close>

text \<open>
  \<open>src/core/ee/intc.cpp\<close> and \<open>intc.hpp\<close>. \<open>INTC\<close> latches the interrupt lines in
  \<open>INTC_STAT\<close> and drives INT0 of the Emotion Engine. An assertion only schedules the check,
  eight cycles later; a register write checks at once. A program that polls \<open>INTC_STAT\<close> a
  thousand times is halted until the controller next has something to say.
\<close>

subsection \<open>State and operations\<close>

datatype ee_irq = IRQ_GS | IRQ_SBUS | IRQ_VBLANK_START | IRQ_VBLANK_END | IRQ_VIF0 | IRQ_VIF1
  | IRQ_VU0 | IRQ_VU1 | IRQ_IPU | IRQ_TIMER0 | IRQ_TIMER1 | IRQ_TIMER2 | IRQ_TIMER3 | IRQ_SFIFO
  | IRQ_VU0_WATCHDOG

fun irq_id :: "ee_irq \<Rightarrow> nat" where
  "irq_id IRQ_GS = 0" | "irq_id IRQ_SBUS = 1" | "irq_id IRQ_VBLANK_START = 2"
| "irq_id IRQ_VBLANK_END = 3" | "irq_id IRQ_VIF0 = 4" | "irq_id IRQ_VIF1 = 5"
| "irq_id IRQ_VU0 = 6" | "irq_id IRQ_VU1 = 7" | "irq_id IRQ_IPU = 8" | "irq_id IRQ_TIMER0 = 9"
| "irq_id IRQ_TIMER1 = 10" | "irq_id IRQ_TIMER2 = 11" | "irq_id IRQ_TIMER3 = 12"
| "irq_id IRQ_SFIFO = 13" | "irq_id IRQ_VU0_WATCHDOG = 14"

record ee_intc = ee_core +
  INTC_MASK :: u32
  INTC_STAT :: u32
  read_stat_count :: int
  stat_speedhack_active :: bool
  int_check_event_id :: int

definition intc_reset :: "'a ee_intc_scheme \<Rightarrow> 'a ee_intc_scheme" where
  "intc_reset s =
     (let (i, s) = register_function Fn_int0_check
            (s\<lparr>INTC_MASK := 0, INTC_STAT := 0, read_stat_count := 0,
               stat_speedhack_active := False\<rparr>)
      in s\<lparr>int_check_event_id := i\<rparr>)"

definition wake_poller :: "'a ee_intc_scheme \<Rightarrow> 'a ee_intc_scheme" where
  "wake_poller s =
     (if stat_speedhack_active s
      then (unhalt s)\<lparr>stat_speedhack_active := False, read_stat_count := 0\<rparr> else s)"

definition int0_check :: "'a ee_intc_scheme \<Rightarrow> 'a ee_intc_scheme" where
  "int0_check s =
     (let s = (wake_poller s)\<lparr>read_stat_count := 0\<rparr>
      in set_int0_signal (INTC_STAT s AND INTC_MASK s \<noteq> 0) s)"

definition intc_read_mask :: "'a ee_intc_scheme \<Rightarrow> u32" where
  "intc_read_mask s = INTC_MASK s"

definition intc_read_stat :: "'a ee_intc_scheme \<Rightarrow> u32 \<times> 'a ee_intc_scheme" where
  "intc_read_stat s =
     (let s = s\<lparr>read_stat_count := read_stat_count s + 1\<rparr>;
          s = (if 1000 \<le> read_stat_count s
               then (halt s)\<lparr>stat_speedhack_active := True\<rparr> else s)
      in (INTC_STAT s, s))"

definition intc_write_mask :: "u32 \<Rightarrow> 'a ee_intc_scheme \<Rightarrow> 'a ee_intc_scheme" where
  "intc_write_mask value s =
     int0_check (s\<lparr>INTC_MASK := INTC_MASK s XOR (value AND 0x7FFF)\<rparr>)"

definition intc_write_stat :: "u32 \<Rightarrow> 'a ee_intc_scheme \<Rightarrow> 'a ee_intc_scheme" where
  "intc_write_stat value s = int0_check (s\<lparr>INTC_STAT := INTC_STAT s AND NOT value\<rparr>)"

definition assert_IRQ :: "nat \<Rightarrow> 'a ee_intc_scheme \<Rightarrow> 'a ee_intc_scheme res" where
  "assert_IRQ i s =
     (let s = wake_poller (s\<lparr>INTC_STAT := INTC_STAT s OR push_bit i 1\<rparr>)
      in rbind (add_event (int_check_event_id s) 8 0 s) (\<lambda>(_, s). Inr s))"

definition deassert_IRQ :: "nat \<Rightarrow> 'a ee_intc_scheme \<Rightarrow> 'a ee_intc_scheme" where
  "deassert_IRQ i s = int0_check (s\<lparr>INTC_STAT := INTC_STAT s AND NOT (push_bit i 1)\<rparr>)"

subsection \<open>The contract of an interrupt controller\<close>

text \<open>
  What a CPU expects of the device that drives one of its interrupt lines: after the device has
  re-evaluated it, the line is high exactly when a latched source is enabled. The IOP's
  controller keeps the same contract.
\<close>

locale irq_controller =
  fixes wanted :: "'s \<Rightarrow> bool" and line :: "'s \<Rightarrow> bool" and check :: "'s \<Rightarrow> 's"
  assumes check_line: "line (check s) = wanted s"
    and check_wanted: "wanted (check s) = wanted s"
begin

definition synced :: "'s \<Rightarrow> bool" where
  "synced s \<longleftrightarrow> line s = wanted s"

lemma synced_check: "synced (check s)"
  by (simp add: synced_def check_line check_wanted)

lemma line_after_update: "line (check (f s)) = wanted (f s)"
  by (rule check_line)

lemma check_settles: "line (check (check s)) = line (check s)"
  by (simp add: check_line check_wanted)

lemma line_low_without_source: "\<not> wanted s \<Longrightarrow> \<not> line (check s)"
  by (simp add: check_line)

end

definition intc_wanted :: "'a ee_intc_scheme \<Rightarrow> bool" where
  "intc_wanted s \<longleftrightarrow> INTC_STAT s AND INTC_MASK s \<noteq> 0"

definition int0_line :: "'a ee_core_scheme \<Rightarrow> bool" where
  "int0_line s \<longleftrightarrow> cc_int0_pending (cop0_cause s)"

lemma set_int0_signal_keeps [simp]:
  "INTC_STAT (set_int0_signal b s) = INTC_STAT s"
  "INTC_MASK (set_int0_signal b s) = INTC_MASK s"
  "read_stat_count (set_int0_signal b s) = read_stat_count s"
  "stat_speedhack_active (set_int0_signal b s) = stat_speedhack_active s"
  "int_check_event_id (set_int0_signal b s) = int_check_event_id s"
  by (simp_all add: set_int0_signal_def ee_int0_def ee_handle_exception_def unhalt_def
      cop0_mtc_def Let_def)

lemma set_int0_signal_sched [simp]:
  "events (set_int0_signal b s) = events s"
  "closest_event_time (set_int0_signal b s) = closest_event_time s"
  "registered_funcs (set_int0_signal b s) = registered_funcs s"
  "ee_cycles (set_int0_signal b s) = ee_cycles s"
  "int0_line (set_int0_signal b s) = b"
  by (simp_all add: set_int0_signal_def ee_int0_def ee_handle_exception_def unhalt_def
      cop0_mtc_def Let_def int0_line_def)

lemma wake_poller_keeps [simp]:
  "INTC_STAT (wake_poller s) = INTC_STAT s" "INTC_MASK (wake_poller s) = INTC_MASK s"
  "events (wake_poller s) = events s"
  "closest_event_time (wake_poller s) = closest_event_time s"
  "registered_funcs (wake_poller s) = registered_funcs s"
  "int_check_event_id (wake_poller s) = int_check_event_id s"
  "ee_cycles (wake_poller s) = ee_cycles s"
  "\<not> stat_speedhack_active (wake_poller s)"
  by (simp_all add: wake_poller_def unhalt_def Let_def)

lemma int0_check_keeps [simp]:
  "INTC_STAT (int0_check s) = INTC_STAT s" "INTC_MASK (int0_check s) = INTC_MASK s"
  "events (int0_check s) = events s"
  "closest_event_time (int0_check s) = closest_event_time s"
  "registered_funcs (int0_check s) = registered_funcs s"
  "int_check_event_id (int0_check s) = int_check_event_id s"
  "int0_line (int0_check s) = intc_wanted s"
  "read_stat_count (int0_check s) = 0"
  "\<not> stat_speedhack_active (int0_check s)"
  by (simp_all add: int0_check_def Let_def intc_wanted_def)

lemma intc_wanted_check [simp]: "intc_wanted (int0_check s) = intc_wanted s"
  by (simp add: intc_wanted_def)

interpretation ee_int0: irq_controller intc_wanted int0_line int0_check
  by unfold_locales simp_all

subsection \<open>The check as a scheduled event\<close>

definition intc_dispatch ::
    "(sched_fn \<Rightarrow> u64 \<Rightarrow> 'a ee_intc_scheme \<Rightarrow> 'a ee_intc_scheme res) \<Rightarrow>
     sched_fn \<Rightarrow> u64 \<Rightarrow> 'a ee_intc_scheme \<Rightarrow> 'a ee_intc_scheme res" where
  "intc_dispatch other f p s = (if f = Fn_int0_check then Inr (int0_check s) else other f p s)"

lemma distinct_erase_event: "distinct (event_ids es) \<Longrightarrow> distinct (event_ids (erase_event i es))"
proof (induction es)
  case (Cons e es)
  moreover have "set (event_ids (erase_event i es)) \<subseteq> set (event_ids es)"
    using set_erase_event [of i es] by (auto simp: event_ids_def)
  ultimately show ?case by auto
qed simp

interpretation ee_events: event_handlers "intc_dispatch other" "\<lambda>f. f = Fn_int0_check"
    "\<lambda>s. distinct (event_ids (events s))"
  for other
  by unfold_locales (auto simp: intc_dispatch_def appends_later_def distinct_erase_event)

subsection \<open>A pass of the dispatch loop\<close>

lemma erase_filter:
  "distinct (event_ids es) \<Longrightarrow> erase_event i es = filter (\<lambda>e. ev_id e \<noteq> i) es"
proof (induction es)
  case (Cons e es)
  then show ?case by (auto simp: event_ids_def intro!: filter_True [symmetric]) (metis imageI)
qed simp

definition int_check_event :: "'a ee_intc_scheme \<Rightarrow> sched_event \<Rightarrow> bool" where
  "int_check_event s e \<longleftrightarrow> nat (ev_func e) < length (registered_funcs s) \<and>
     registered_funcs s ! nat (ev_func e) = Fn_int0_check"

lemma dispatch_checks:
  assumes "distinct (event_ids (events s))" and "\<forall>e \<in> set es. int_check_event s e"
  shows "\<exists>s'. dispatch_all (intc_dispatch other) es s = Inr s' \<and>
     events s' = filter (\<lambda>e. ev_id e \<notin> ev_id ` set es) (events s) \<and>
     INTC_STAT s' = INTC_STAT s \<and> INTC_MASK s' = INTC_MASK s \<and>
     (es \<noteq> [] \<longrightarrow> int0_line s' = intc_wanted s)"
  using assms
proof (induction es arbitrary: s)
  case (Cons e es)
  let ?t = "(int0_check s)\<lparr>events := erase_event (ev_id e) (events s)\<rparr>"
  have run: "run_event (intc_dispatch other) e s = Inr (int0_check s)"
    using Cons.prems(2) by (simp add: run_event_def int_check_event_def intc_dispatch_def)
  have line: "int0_line ?t = intc_wanted s" "intc_wanted ?t = intc_wanted s"
    using int0_check_keeps(7) [of s] by (simp_all add: int0_line_def intc_wanted_def)
  have "\<exists>s'. dispatch_all (intc_dispatch other) es ?t = Inr s' \<and>
     events s' = filter (\<lambda>e. ev_id e \<notin> ev_id ` set es) (events ?t) \<and>
     INTC_STAT s' = INTC_STAT ?t \<and> INTC_MASK s' = INTC_MASK ?t \<and>
     (es \<noteq> [] \<longrightarrow> int0_line s' = intc_wanted ?t)"
    using Cons.prems by (intro Cons.IH) (simp_all add: distinct_erase_event int_check_event_def)
  then obtain s' where s': "dispatch_all (intc_dispatch other) es ?t = Inr s'"
    "events s' = filter (\<lambda>e. ev_id e \<notin> ev_id ` set es) (events ?t)"
    "INTC_STAT s' = INTC_STAT ?t" "INTC_MASK s' = INTC_MASK ?t"
    "es \<noteq> [] \<longrightarrow> int0_line s' = intc_wanted ?t" by metis
  have "int0_line s' = intc_wanted s" using s'(1,5) line by (cases es) simp_all
  moreover have "events s' = filter (\<lambda>x. ev_id x \<notin> ev_id ` set (e # es)) (events s)"
    using s'(2) by (simp add: erase_filter [OF Cons.prems(1)] conj_commute)
  ultimately show ?case using s' by (simp add: run)
qed simp

lemma distinct_ev_id:
  "distinct (event_ids es) \<Longrightarrow> a \<in> set es \<Longrightarrow> b \<in> set es \<Longrightarrow> ev_id a = ev_id b \<Longrightarrow> a = b"
  by (auto simp: event_ids_def distinct_map dest: inj_onD)

subsection \<open>Properties\<close>

text \<open>C3: When the events due in a pass of \<open>process_events\<close> are interrupt checks, the loop
  ends, removes exactly the due events, leaves \<open>closest_event_time\<close> a lower bound of the
  remaining ones again, and the EE's INT0 line then is high exactly when an enabled interrupt is
  latched.\<close>

theorem dispatch_interrupt_checks:
  fixes s :: "'a ee_intc_scheme"
  assumes "closest_event_time s \<le>s cc_count (ee_cycles s)" and "distinct (event_ids (events s))"
    and "\<forall>e \<in> set (events s). due s e \<longrightarrow> int_check_event s e"
    and "\<exists>e \<in> set (events s). due s e"
  shows "\<exists>s'. process_events (intc_dispatch other) s = Some (Inr s') \<and>
     events s' = filter (\<lambda>e. \<not> due s e) (events s) \<and> closest_ok s' \<and>
     int0_line s' = (INTC_STAT s' AND INTC_MASK s' \<noteq> 0)"
proof -
  let ?due = "filter (due s) (events s)"
  have good: "ee_events.good_event s e" if "e \<in> set (events s)" "due s e" for e
    using assms(3) that by (simp add: ee_events.good_event_def int_check_event_def)
  obtain s1 where s1: "dispatch_all (intc_dispatch other) ?due s = Inr s1"
    "events s1 = filter (\<lambda>e. ev_id e \<notin> ev_id ` set ?due) (events s)"
    "INTC_STAT s1 = INTC_STAT s" "INTC_MASK s1 = INTC_MASK s" "?due \<noteq> [] \<longrightarrow> int0_line s1 = intc_wanted s"
    using dispatch_checks [OF assms(2), of ?due other] assms(3) by auto
  let ?t = "s1\<lparr>closest_event_time := earliest (events s1)\<rparr>"
  have "process_events (intc_dispatch other) s = Some (Inr ?t)"
    using ee_events.process_events_spec [OF assms(2,1) good, of other] s1(1) by simp
  moreover have "events ?t = filter (\<lambda>e. \<not> due s e) (events s)"
    using distinct_ev_id [OF assms(2)] by (auto simp: s1(2) intro!: filter_cong)
  moreover have "closest_ok ?t" using earliest_le by (simp add: closest_ok_def)
  moreover have "int0_line ?t = (INTC_STAT ?t AND INTC_MASK ?t \<noteq> 0)"
    using s1(3-5) assms(4) by (auto simp: int0_line_def intc_wanted_def filter_empty_conv)
  ultimately show ?thesis by blast
qed

definition demo_intc :: ee_intc where
  "demo_intc = (undefined :: ee_intc)\<lparr>registered_funcs := [Fn_timer_event, Fn_int0_check],
     ee_cycles := \<lparr>cc_count = 20, cc_remainder = 0\<rparr>, closest_event_time := 18,
     events := [\<lparr>ev_id = 3, ev_time = 18, ev_param = 0, ev_func = 1\<rparr>,
                \<lparr>ev_id = 4, ev_time = 50, ev_param = 0, ev_func = 0\<rparr>]\<rparr>"

theorem dispatch_interrupt_checks_witness:
  "\<exists>s'. process_events (intc_dispatch (\<lambda>_ _. Inr)) demo_intc = Some (Inr s') \<and>
     map ev_id (events s') = [4]"
proof -
  have "\<exists>s'. process_events (intc_dispatch (\<lambda>_ _. Inr)) demo_intc = Some (Inr s') \<and>
     events s' = filter (\<lambda>e. \<not> due demo_intc e) (events demo_intc) \<and> closest_ok s' \<and>
     int0_line s' = (INTC_STAT s' AND INTC_MASK s' \<noteq> 0)"
    by (rule dispatch_interrupt_checks)
      (simp_all add: demo_intc_def due_def int_check_event_def sle_iff)
  then show ?thesis by (auto simp: demo_intc_def due_def sle_iff)
qed


text \<open>A device's interrupt is never lost: asserting it latches the bit, wakes a CPU halted by
  the polling speedhack and schedules the check of the INT0 line eight cycles later, before which
  the scheduler will not run past.\<close>

lemma assert_IRQ_schedules_check:
  assumes "assert_IRQ i s = Inr s'" and "i < 32"
  shows "tst (INTC_STAT s') i \<and> \<not> stat_speedhack_active s' \<and>
     (stat_speedhack_active s \<longrightarrow> \<not> ee_wait_for_IRQ s') \<and>
     (\<exists>e \<in> set (events s'). ev_func e = int_check_event_id s \<and> ev_time e = cc_count (ee_cycles s) + 8 \<and>
        closest_event_time s' \<le>s ev_time e)"
proof -
  let ?t = "wake_poller (s\<lparr>INTC_STAT := INTC_STAT s OR push_bit i 1\<rparr>)"
  obtain eid where a: "add_event (int_check_event_id s) 8 0 ?t = Inr (eid, s')"
    using assms(1) by (auto simp: assert_IRQ_def Let_def rbind_eq_Inr)
  have s': "INTC_STAT s' = INTC_STAT ?t" "stat_speedhack_active s' = stat_speedhack_active ?t"
    "ee_wait_for_IRQ s' = ee_wait_for_IRQ ?t"
    using a by (auto simp: add_event_def Let_def split: if_splits)
  have "tst (INTC_STAT s') i"
    using assms(2) by (simp add: s' reg_bits bit_simps)
  moreover have "stat_speedhack_active s \<longrightarrow> \<not> ee_wait_for_IRQ s'"
    by (simp add: s' wake_poller_def unhalt_def Let_def)
  moreover have "\<exists>e \<in> set (events s'). ev_func e = int_check_event_id s \<and>
      ev_time e = cc_count (ee_cycles s) + 8 \<and> closest_event_time s' \<le>s ev_time e"
    using a by (auto simp: add_event_def Let_def sle_iff sint_smin split: if_splits)
  ultimately show ?thesis by (simp add: s')
qed

lemma assert_IRQ_schedules_check_witness:
  "\<exists>s'. assert_IRQ 9 (demo_intc\<lparr>int_check_event_id := 1, stat_speedhack_active := True\<rparr>) = Inr s' \<and>
     tst (INTC_STAT s') 9 \<and> \<not> ee_wait_for_IRQ s'"
proof -
  let ?s = "demo_intc\<lparr>int_check_event_id := 1, stat_speedhack_active := True\<rparr>"
  have "succeeds (assert_IRQ 9 ?s)"
    by (simp add: assert_IRQ_def add_event_def Let_def) (simp add: demo_intc_def)
  then obtain s' where "assert_IRQ 9 ?s = Inr s'" by (auto simp: succeeds_iff)
  with assert_IRQ_schedules_check [OF this] show ?thesis by auto
qed

end
