(* ===== verification/Ee_Timers.thy ===== *)
theory Ee_Timers
  imports Ee_Intc
begin

unbundle bit_operations_syntax

section \<open>The EE timers\<close>

text \<open>
  \<open>src/core/ee/timers.cpp\<close> and \<open>timers.hpp\<close>: four 16-bit timers, each backed by a timer
  of the scheduler. The record keeps the array \<open>timers\<close> as a list and the array
  \<open>events\<close> (scheduler timer identifiers) as \<open>et_events\<close>. The counter is only read back
  from the scheduler; the field \<open>clocks\<close> is written and never read by the component.
\<close>

record ee_timer_control =
  tc_mode :: u8
  tc_gate_enable :: bool
  tc_gate_VBLANK :: bool
  tc_gate_mode :: u8
  tc_clear_on_reference :: bool
  tc_enabled :: bool
  tc_compare_int_enable :: bool
  tc_overflow_int_enable :: bool
  tc_compare_int :: bool
  tc_overflow_int :: bool

record ee_timer =
  tm_counter :: u32
  tm_control :: ee_timer_control
  tm_compare :: u32
  tm_clocks :: int
  tm_gated :: bool
  tm_clock_scale :: u32

record ee_timers = ee_intc +
  et_timers :: "ee_timer list"
  et_interrupt_event_id :: int
  et_events :: "nat list"

definition put_et :: "nat \<Rightarrow> (ee_timer \<Rightarrow> ee_timer) \<Rightarrow> 'a ee_timers_scheme \<Rightarrow> 'a ee_timers_scheme res" where
  "put_et i f s =
     rbind (vec_at (et_timers s) i) (\<lambda>t. Inr (s\<lparr>et_timers := (et_timers s)[i := f t]\<rparr>))"

definition reset_timer :: "ee_timer \<Rightarrow> ee_timer" where
  "reset_timer t =
     t\<lparr>tm_counter := 0, tm_clocks := 0, tm_gated := False, tm_compare := 0,
       tm_control := (tm_control t)\<lparr>tc_enabled := False, tc_gate_enable := False,
                                   tc_gate_VBLANK := False\<rparr>\<rparr>"

definition et_reset :: "'a ee_timers_scheme \<Rightarrow> 'a ee_timers_scheme res" where
  "et_reset s =
     (let s = s\<lparr>et_timers := map reset_timer (et_timers s)\<rparr>;
          (cb, s) = register_timer_callback Cb_EE_timer s;
          s = s\<lparr>et_interrupt_event_id := cb\<rparr>
      in for_upto 4 (\<lambda>i s. rbind (create_timer (et_interrupt_event_id s) 0xFFFF (of_nat i) s)
                         (\<lambda>(tid, s). Inr (s\<lparr>et_events := (et_events s)[i := tid]\<rparr>))) s)"

text \<open>\<open>scheduler->set_timer_counter(events[i], 0)\<close> with the emulated counter cleared.\<close>

definition clear_counter :: "nat \<Rightarrow> 'a ee_timers_scheme \<Rightarrow> 'a ee_timers_scheme res" where
  "clear_counter i s =
     rbind (put_et i (\<lambda>t. t\<lparr>tm_counter := 0\<rparr>) s) (\<lambda>s.
       rbind (vec_at (et_events s) i) (\<lambda>ev. set_timer_counter ev 0 s))"

definition timer_interrupt :: "nat \<Rightarrow> bool \<Rightarrow> 'a ee_timers_scheme \<Rightarrow> 'a ee_timers_scheme res" where
  "timer_interrupt i overflow s =
     rbind (vec_at (et_timers s) i) (\<lambda>t.
       if \<not> overflow
       then rbind (if tc_clear_on_reference (tm_control t) then clear_counter i s else Inr s) (\<lambda>s.
              if \<not> tc_compare_int (tm_control t)
              then rbind (put_et i (\<lambda>t. t\<lparr>tm_control := (tm_control t)\<lparr>tc_compare_int := True\<rparr>\<rparr>) s)
                     (assert_IRQ (irq_id IRQ_TIMER0 + i))
              else Inr s)
       else if \<not> tc_overflow_int (tm_control t)
       then rbind (put_et i (\<lambda>t. t\<lparr>tm_control := (tm_control t)\<lparr>tc_overflow_int := True\<rparr>\<rparr>) s)
              (assert_IRQ (irq_id IRQ_TIMER0 + i))
       else Inr s)"

definition timer_enabled :: "ee_timer \<Rightarrow> bool" where
  "timer_enabled t \<longleftrightarrow> \<not> tm_gated t \<and> tc_enabled (tm_control t)"

definition update_pause :: "nat \<Rightarrow> 'a ee_timers_scheme \<Rightarrow> 'a ee_timers_scheme res" where
  "update_pause i s =
     rbind (vec_at (et_timers s) i) (\<lambda>t.
       rbind (vec_at (et_events s) i) (\<lambda>ev. set_timer_pause ev (\<not> timer_enabled t) s))"

definition gate_one :: "bool \<Rightarrow> bool \<Rightarrow> nat \<Rightarrow> 'a ee_timers_scheme \<Rightarrow> 'a ee_timers_scheme res" where
  "gate_one VSYNC high i s =
     rbind (vec_at (et_timers s) i) (\<lambda>t.
       let ctrl = tm_control t;
           ungate = put_et i (\<lambda>t. t\<lparr>tm_gated := False\<rparr>)
       in if tc_gate_enable ctrl \<and> tc_gate_VBLANK ctrl = VSYNC
          then rbind
            (if tc_gate_mode ctrl = 0 then put_et i (\<lambda>t. t\<lparr>tm_gated := high\<rparr>) s
             else if tc_gate_mode ctrl = 1
             then rbind (if high then clear_counter i s else Inr s) ungate
             else if tc_gate_mode ctrl = 2
             then rbind (if \<not> high then clear_counter i s else Inr s) ungate
             else if tc_gate_mode ctrl = 3 then rbind (clear_counter i s) ungate
             else Inr s)
            (update_pause i)
          else Inr s)"

definition gate :: "bool \<Rightarrow> bool \<Rightarrow> 'a ee_timers_scheme \<Rightarrow> 'a ee_timers_scheme res" where
  "gate VSYNC high s = for_upto 4 (gate_one VSYNC high) s"

definition control_value :: "ee_timer_control \<Rightarrow> u32" where
  "control_value c =
     ucast (tc_mode c) OR flag_at 2 (tc_gate_enable c) OR flag_at 3 (tc_gate_VBLANK c)
     OR push_bit 4 (ucast (tc_gate_mode c)) OR flag_at 6 (tc_clear_on_reference c)
     OR flag_at 7 (tc_enabled c) OR flag_at 8 (tc_compare_int_enable c)
     OR flag_at 9 (tc_overflow_int_enable c) OR flag_at 10 (tc_compare_int c)
     OR flag_at 11 (tc_overflow_int c)"

definition load_control :: "u32 \<Rightarrow> ee_timer_control \<Rightarrow> ee_timer_control" where
  "load_control v c =
     \<lparr>tc_mode = ucast (v AND 3), tc_gate_enable = tst v 2, tc_gate_VBLANK = tst v 3,
      tc_gate_mode = ucast (fld v 4 2), tc_clear_on_reference = tst v 6,
      tc_enabled = tst v 7, tc_compare_int_enable = tst v 8,
      tc_overflow_int_enable = tst v 9,
      tc_compare_int = (tc_compare_int c \<and> \<not> tst v 10),
      tc_overflow_int = (tc_overflow_int c \<and> \<not> tst v 11)\<rparr>"

definition scale_of :: "u8 \<Rightarrow> u32 \<Rightarrow> u32" where
  "scale_of mode old =
     (if mode = 0 then 1 else if mode = 1 then 16 else if mode = 2 then 256
      else if mode = 3 then 9371 else old)"

definition et_write_control :: "nat \<Rightarrow> u32 \<Rightarrow> 'a ee_timers_scheme \<Rightarrow> 'a ee_timers_scheme res" where
  "et_write_control i v s =
     rbind (vec_at (et_timers s) i) (\<lambda>t.
       let c = load_control v (tm_control t)
       in if tc_gate_enable c \<and> tc_mode c \<noteq> 3 \<and> \<not> tc_gate_VBLANK c
          then Inl (Die ''[EE Timing] HSYNC gate is on'')
          else let scale = scale_of (tc_mode c) (tm_clock_scale t)
               in put_et i (\<lambda>t. t\<lparr>tm_control := c, tm_clock_scale := scale,
                     tm_gated := (tc_gate_enable c \<and> (tc_mode c \<noteq> 3 \<or> tc_gate_VBLANK c)),
                     tm_clocks := (if scale = 1 then 0 else tm_clocks t)\<rparr>) s)"

definition et_read32 :: "u32 \<Rightarrow> 'a ee_timers_scheme \<Rightarrow> (u32 \<times> 'a ee_timers_scheme) res" where
  "et_read32 addr s =
     (let i = unat (fld addr 11 2); reg = fld addr 4 2
      in rbind (vec_at (et_timers s) i) (\<lambda>t.
           if reg = 0
           then rbind (vec_at (et_events s) i) (\<lambda>ev.
                  rbind (get_timer_counter ev s) (\<lambda>(c, s).
                    rbind (put_et i (\<lambda>t. t\<lparr>tm_counter := ucast c\<rparr>) s) (\<lambda>s. Inr (ucast c, s))))
           else if reg = 1 then Inr (control_value (tm_control t), s)
           else if reg = 2 then Inr (tm_compare t AND 0xFFFF, s)
           else Inr (0, s)))"

definition et_write32 :: "u32 \<Rightarrow> u32 \<Rightarrow> 'a ee_timers_scheme \<Rightarrow> 'a ee_timers_scheme res" where
  "et_write32 addr value s =
     (let i = unat (fld addr 11 2); reg = fld addr 4 2
      in rbind (vec_at (et_events s) i) (\<lambda>ev.
           if reg = 0
           then rbind (put_et i (\<lambda>t. t\<lparr>tm_counter := value AND 0xFFFF\<rparr>) s)
                  (set_timer_counter ev (ucast (value AND 0xFFFF)))
           else if reg = 1
           then rbind (et_write_control i value s) (\<lambda>s.
                rbind (update_pause i s) (\<lambda>s.
                rbind (vec_at (et_timers s) i) (\<lambda>t.
                  if tm_clock_scale t = 0 then Inl (Undefined ''division by zero'')
                  else rbind (set_timer_clockrate ev (BUS_CLOCKRATE div ucast (tm_clock_scale t)) s)
                    (set_timer_int_mask ev (tc_overflow_int_enable (tm_control t))
                       (tc_compare_int_enable (tm_control t))))))
           else if reg = 2
           then rbind (put_et i (\<lambda>t. t\<lparr>tm_compare := value AND 0xFFFF\<rparr>) s)
                  (set_timer_target ev (ucast (value AND 0xFFFF)))
           else Inr s))"

subsection \<open>The control register\<close>

lemma control_roundtrip:
  "control_value (load_control v c) =
   (v AND 0x3FF) OR flag_at 10 (tc_compare_int c \<and> \<not> tst v 10) OR flag_at 11 (tc_overflow_int c \<and> \<not> tst v 11)"
  by (rule u32_eqI) (simp add: control_value_def load_control_def reg_bits bit_simps)

lemma load_control_mode: "tc_mode (load_control v c) < 4"
proof -
  have "unat (v AND 3) < 4"
    using word_and_le1 [of v 3] by (simp add: word_le_nat_alt)
  then have "unat (ucast (v AND 3) :: u8) < 4"
    by (simp add: unsigned_ucast_eq take_bit_nat_eq_self)
  then show ?thesis by (simp add: load_control_def word_less_nat_alt)
qed

lemma scale_of_legal: "m < 4 \<Longrightarrow> scale_of m old \<in> {1, 16, 256, 9371}"
proof -
  assume "m < (4 :: u8)"
  then have "m = 0 \<or> m = 1 \<or> m = 2 \<or> m = 3" by unat_arith
  then show ?thesis by (auto simp: scale_of_def)
qed

lemma write_control_effect:
  assumes "et_write_control i v s = Inr s'"
  shows "i < length (et_timers s)"
    and "tm_control (et_timers s' ! i) = load_control v (tm_control (et_timers s ! i))"
    and "tm_clock_scale (et_timers s' ! i) \<in> {1, 16, 256, 9371}"
    and "tm_gated (et_timers s' ! i) \<longleftrightarrow> tst v 2 \<and> tst v 3"
    and "sch_timers s' = sch_timers s"
proof -
  from assms have i: "i < length (et_timers s)"
    by (auto simp: et_write_control_def rbind_eq_Inr vec_at_Inr)
  let ?c = "load_control v (tm_control (et_timers s ! i))"
  from assms i have no_die: "\<not> (tc_gate_enable ?c \<and> tc_mode ?c \<noteq> 3 \<and> \<not> tc_gate_VBLANK ?c)"
    and s': "s' = s\<lparr>et_timers := (et_timers s)[i := (et_timers s ! i)\<lparr>tm_control := ?c,
       tm_clock_scale := scale_of (tc_mode ?c) (tm_clock_scale (et_timers s ! i)),
       tm_gated := (tc_gate_enable ?c \<and> (tc_mode ?c \<noteq> 3 \<or> tc_gate_VBLANK ?c)),
       tm_clocks := (if scale_of (tc_mode ?c) (tm_clock_scale (et_timers s ! i)) = 1 then 0
                     else tm_clocks (et_timers s ! i))\<rparr>]\<rparr>"
    by (auto simp: et_write_control_def put_et_def Let_def split: if_splits)
  show "i < length (et_timers s)" by (rule i)
  show "tm_control (et_timers s' ! i) = ?c" using i by (simp add: s')
  show "tm_clock_scale (et_timers s' ! i) \<in> {1, 16, 256, 9371}"
    using scale_of_legal [OF load_control_mode] i by (simp add: s')
  show "sch_timers s' = sch_timers s" by (simp add: s')
  show "tm_gated (et_timers s' ! i) \<longleftrightarrow> tst v 2 \<and> tst v 3"
    using no_die i by (auto simp: s' load_control_def)
qed

subsection \<open>Properties\<close>

text \<open>Writing a timer's mode register stores its ten mode bits, treats the two interrupt
  flags as write-one-to-clear (bit 10 and 11 read as before unless the written word has a one
  there), leaves the timer gated only when a VBLANK gate is enabled, and selects a bus clock divider
  of 1, 16, 256 or 9371 - never zero, so the clock rate derived from it is defined.\<close>

lemma ee_timer_control_write_read:
  assumes "et_write_control i v s = Inr s'"
  shows "let old = tm_control (et_timers s ! i); t = et_timers s' ! i in
     control_value (tm_control t) =
       (v AND 0x3FF) OR flag_at 10 (tc_compare_int old \<and> \<not> tst v 10)
         OR flag_at 11 (tc_overflow_int old \<and> \<not> tst v 11) \<and>
     (tm_gated t \<longleftrightarrow> tst v 2 \<and> tst v 3) \<and> tm_clock_scale t \<in> {1, 16, 256, 9371}"
  using write_control_effect [OF assms] by (simp add: Let_def control_roundtrip)

definition demo_et :: ee_timers where
  "demo_et = (undefined :: ee_timers)\<lparr>et_timers := [undefined, undefined, undefined, undefined]\<rparr>"

lemma ee_timer_control_write_read_witness:
  "\<exists>s'. et_write_control 2 0x183 demo_et = Inr s' \<and>
     tm_clock_scale (et_timers s' ! 2) \<in> {1, 16, 256, 9371} \<and> \<not> tm_gated (et_timers s' ! 2)"
proof -
  have "succeeds (et_write_control 2 0x183 demo_et)"
    by (simp add: et_write_control_def put_et_def demo_et_def load_control_def Let_def tst_def)
  then obtain s' where "et_write_control 2 0x183 demo_et = Inr s'" by (auto simp: succeeds_iff)
  with ee_timer_control_write_read [OF this] show ?thesis by (auto simp: Let_def tst_def)
qed

end
