(* ===== verification/Iop_Core.thy ===== *)
theory Iop_Core
  imports Ee_Timers
begin

unbundle bit_operations_syntax

section \<open>The IOP processor\<close>

text \<open>
  \<open>src/core/iop/iop.cpp\<close>, \<open>iop.hpp\<close>, \<open>iop_cop0.cpp\<close> and \<open>iop_cop0.hpp\<close>: the state
  of the R3000A, its exceptions, its memory accessors and the slice loop. Memory behind the
  accessors is the \<open>Emulator\<close>'s (\<open>e->iop_read8\<close> and so on): a record of functions on the
  whole machine, the argument \<open>bus\<close>. The C++ \<open>int\<close> counters are integers.
\<close>

subsection \<open>State\<close>

record iop_cop0_status =
  IEc :: bool
  KUc :: bool
  IEp :: bool
  KUp :: bool
  IEo :: bool
  KUo :: bool
  Im :: u8
  IsC :: bool
  iop_bev :: bool

record iop_cop0_cause =
  ic_code :: u8
  ic_int_pending :: u8
  ic_bd :: bool

record iop_core = ee_timers +
  iop_status :: iop_cop0_status
  iop_cause :: iop_cop0_cause
  iop_EPC :: u32
  iop_gpr :: "5 word \<Rightarrow> u32"
  iop_PC :: u32
  iop_LO :: u32
  iop_HI :: u32
  iop_icache_valid :: "8 word \<Rightarrow> bool"
  iop_new_PC :: u32
  iop_cache_control :: u32
  iop_branch_delay :: int
  iop_will_branch :: bool
  iop_wait_for_IRQ :: bool
  iop_muldiv_delay :: int
  iop_cycles_to_run :: int

text \<open>The memory interface of \<open>Emulator\<close> as the IOP uses it.\<close>

record 's iop_mem =
  mem_read8 :: "u32 \<Rightarrow> 's \<Rightarrow> (u8 \<times> 's) res"
  mem_read16 :: "u32 \<Rightarrow> 's \<Rightarrow> (u16 \<times> 's) res"
  mem_read32 :: "u32 \<Rightarrow> 's \<Rightarrow> (u32 \<times> 's) res"
  mem_write8 :: "u32 \<Rightarrow> u8 \<Rightarrow> 's \<Rightarrow> 's res"
  mem_write16 :: "u32 \<Rightarrow> u16 \<Rightarrow> 's \<Rightarrow> 's res"
  mem_write32 :: "u32 \<Rightarrow> u32 \<Rightarrow> 's \<Rightarrow> 's res"

subsection \<open>COP0\<close>

definition iop_cop0_reset :: "'a iop_core_scheme \<Rightarrow> 'a iop_core_scheme" where
  "iop_cop0_reset s =
     s\<lparr>iop_status := \<lparr>IEc = False, KUc = False, IEp = False, KUp = False, IEo = False,
         KUo = False, Im = 0, IsC = False, iop_bev = True\<rparr>,
       iop_cause := \<lparr>ic_code = 0, ic_int_pending = 0, ic_bd = False\<rparr>\<rparr>"

definition iop_status_value :: "iop_cop0_status \<Rightarrow> u32" where
  "iop_status_value st =
     flag_at 0 (IEc st) OR flag_at 1 (KUc st) OR flag_at 2 (IEp st) OR flag_at 3 (KUp st)
     OR flag_at 4 (IEo st) OR flag_at 5 (KUo st) OR push_bit 8 (ucast (Im st))
     OR flag_at 16 (IsC st) OR flag_at 22 (iop_bev st)"

definition iop_cause_value :: "iop_cop0_cause \<Rightarrow> u32" where
  "iop_cause_value c =
     push_bit 2 (ucast (ic_code c)) OR push_bit 8 (ucast (ic_int_pending c))
     OR flag_at 31 (ic_bd c)"

definition iop_cop0_mfc :: "5 word \<Rightarrow> 'a iop_core_scheme \<Rightarrow> u32" where
  "iop_cop0_mfc reg s =
     (if reg = 12 then iop_status_value (iop_status s)
      else if reg = 13 then iop_cause_value (iop_cause s)
      else if reg = 14 then iop_EPC s
      else if reg = 15 then 0x1F
      else 0)"

definition iop_status_of :: "u32 \<Rightarrow> iop_cop0_status" where
  "iop_status_of v =
     \<lparr>IEc = tst v 0, KUc = tst v 1, IEp = tst v 2, KUp = tst v 3, IEo = tst v 4,
      KUo = tst v 5, Im = ucast (fld v 8 8), IsC = tst v 16, iop_bev = tst v 22\<rparr>"

definition iop_cop0_mtc :: "5 word \<Rightarrow> u32 \<Rightarrow> 'a iop_core_scheme \<Rightarrow> 'a iop_core_scheme" where
  "iop_cop0_mtc reg v s = (if reg = 12 then s\<lparr>iop_status := iop_status_of v\<rparr> else s)"

subsection \<open>Registers, branches and exceptions\<close>

text \<open>\<open>gpr[1..31]\<close>, \<open>LO\<close>, \<open>HI\<close>, \<open>EPC\<close>, \<open>new_PC\<close> and
  \<open>cache_control\<close> keep their values over a reset.\<close>

definition iop_reset :: "'a iop_core_scheme \<Rightarrow> 'a iop_core_scheme" where
  "iop_reset s =
     (iop_cop0_reset s)\<lparr>iop_PC := 0xBFC00000, iop_icache_valid := (\<lambda>_. False),
        iop_gpr := (iop_gpr s)(0 := 0), iop_branch_delay := 0, iop_will_branch := False,
        iop_wait_for_IRQ := False, iop_muldiv_delay := 0, iop_cycles_to_run := 0\<rparr>"

definition translate_addr :: "u32 \<Rightarrow> u32" where
  "translate_addr addr =
     (if 0x80000000 \<le> addr \<and> addr < 0xA0000000 then addr - 0x80000000
      else if 0xA0000000 \<le> addr \<and> addr < 0xC0000000 then addr - 0xA0000000
      else addr)"

definition get_gpr :: "5 word \<Rightarrow> 'a iop_core_scheme \<Rightarrow> u32" where
  "get_gpr r s = iop_gpr s r"

definition set_gpr :: "5 word \<Rightarrow> u32 \<Rightarrow> 'a iop_core_scheme \<Rightarrow> 'a iop_core_scheme" where
  "set_gpr r v s = (if r \<noteq> 0 then s\<lparr>iop_gpr := (iop_gpr s)(r := v)\<rparr> else s)"

definition iop_halt :: "'a iop_core_scheme \<Rightarrow> 'a iop_core_scheme" where
  "iop_halt s = s\<lparr>iop_wait_for_IRQ := True\<rparr>"

definition iop_unhalt :: "'a iop_core_scheme \<Rightarrow> 'a iop_core_scheme" where
  "iop_unhalt s = s\<lparr>iop_wait_for_IRQ := False\<rparr>"

text \<open>The stall that \<open>get_LO\<close> and \<open>get_HI\<close> charge while a result is pending.\<close>

definition wait_muldiv :: "'a iop_core_scheme \<Rightarrow> 'a iop_core_scheme" where
  "wait_muldiv s =
     (if iop_muldiv_delay s \<noteq> 0
      then s\<lparr>iop_cycles_to_run := iop_cycles_to_run s - iop_muldiv_delay s,
             iop_muldiv_delay := 0\<rparr>
      else s)"

definition get_LO :: "'a iop_core_scheme \<Rightarrow> u32 \<times> 'a iop_core_scheme" where
  "get_LO s = (iop_LO s, wait_muldiv s)"

definition get_HI :: "'a iop_core_scheme \<Rightarrow> u32 \<times> 'a iop_core_scheme" where
  "get_HI s = (iop_HI s, wait_muldiv s)"

definition set_muldiv_delay :: "int \<Rightarrow> 'a iop_core_scheme \<Rightarrow> 'a iop_core_scheme" where
  "set_muldiv_delay d s =
     (let s = (if iop_muldiv_delay s \<noteq> 0
               then s\<lparr>iop_cycles_to_run := iop_cycles_to_run s - iop_muldiv_delay s\<rparr> else s)
      in s\<lparr>iop_muldiv_delay := d\<rparr>)"

definition jp :: "u32 \<Rightarrow> 'a iop_core_scheme \<Rightarrow> 'a iop_core_scheme" where
  "jp addr s =
     (if \<not> iop_will_branch s
      then s\<lparr>iop_new_PC := addr, iop_will_branch := True, iop_branch_delay := 1\<rparr> else s)"

definition iop_branch :: "bool \<Rightarrow> u32 \<Rightarrow> 'a iop_core_scheme \<Rightarrow> 'a iop_core_scheme" where
  "iop_branch condition offset s = (if condition then jp (iop_PC s + offset + 4) s else s)"

definition iop_handle_exception :: "u32 \<Rightarrow> u8 \<Rightarrow> 'a iop_core_scheme \<Rightarrow> 'a iop_core_scheme" where
  "iop_handle_exception addr code s =
     (let s = s\<lparr>iop_cause := (iop_cause s)\<lparr>ic_code := code\<rparr>\<rparr>;
          s = (if iop_will_branch s
               then s\<lparr>iop_EPC := iop_PC s - 4, iop_cause := (iop_cause s)\<lparr>ic_bd := True\<rparr>\<rparr>
               else s\<lparr>iop_EPC := iop_PC s, iop_cause := (iop_cause s)\<lparr>ic_bd := False\<rparr>\<rparr>);
          st = iop_status s
      in s\<lparr>iop_status := st\<lparr>IEo := IEp st, IEp := IEc st, IEc := False\<rparr>,
           iop_PC := addr - 4, iop_branch_delay := 0, iop_will_branch := False\<rparr>)"

definition iop_syscall_exception :: "'a iop_core_scheme \<Rightarrow> 'a iop_core_scheme" where
  "iop_syscall_exception = iop_handle_exception 0x80000080 0x08"

definition interrupt_check :: "bool \<Rightarrow> 'a iop_core_scheme \<Rightarrow> 'a iop_core_scheme" where
  "interrupt_check i_pass s =
     (let c = iop_cause s
      in s\<lparr>iop_cause := c\<lparr>ic_int_pending :=
             (if i_pass then ic_int_pending c OR 4 else ic_int_pending c AND NOT 4)\<rparr>\<rparr>)"

definition iop_interrupt :: "'a iop_core_scheme \<Rightarrow> 'a iop_core_scheme" where
  "iop_interrupt s = iop_unhalt (iop_handle_exception 0x80000084 0 s)"

definition iop_mfc :: "u32 \<Rightarrow> 5 word \<Rightarrow> 5 word \<Rightarrow> 'a iop_core_scheme \<Rightarrow> 'a iop_core_scheme res" where
  "iop_mfc cop_id cop_reg reg s =
     (if cop_id = 0 then Inr (set_gpr reg (iop_cop0_mfc cop_reg s) s)
      else Inl (Die ''[IOP] MFC: Unknown COP''))"

definition iop_mtc :: "u32 \<Rightarrow> 5 word \<Rightarrow> 5 word \<Rightarrow> 'a iop_core_scheme \<Rightarrow> 'a iop_core_scheme res" where
  "iop_mtc cop_id cop_reg reg s =
     (if cop_id = 0 then Inr (iop_cop0_mtc cop_reg (get_gpr reg s) s)
      else Inl (Die ''[IOP] MTC: Unknown COP''))"

definition rfe :: "'a iop_core_scheme \<Rightarrow> 'a iop_core_scheme" where
  "rfe s =
     (let st = iop_status s
      in s\<lparr>iop_status := st\<lparr>KUc := KUp st, KUp := KUo st, IEc := IEp st, IEp := IEo st\<rparr>\<rparr>)"

subsection \<open>Memory accessors\<close>

definition iop_read8 ::
    "'a iop_core_scheme iop_mem \<Rightarrow> u32 \<Rightarrow> 'a iop_core_scheme \<Rightarrow> (u8 \<times> 'a iop_core_scheme) res" where
  "iop_read8 bus addr = mem_read8 bus (translate_addr addr)"

definition iop_read16 ::
    "'a iop_core_scheme iop_mem \<Rightarrow> u32 \<Rightarrow> 'a iop_core_scheme \<Rightarrow> (u16 \<times> 'a iop_core_scheme) res" where
  "iop_read16 bus addr s =
     (if addr AND 1 \<noteq> 0 then Inl (Die ''[IOP] Invalid read16'')
      else mem_read16 bus (translate_addr addr) s)"

definition iop_read32 ::
    "'a iop_core_scheme iop_mem \<Rightarrow> u32 \<Rightarrow> 'a iop_core_scheme \<Rightarrow> (u32 \<times> 'a iop_core_scheme) res" where
  "iop_read32 bus addr s =
     (if addr AND 3 \<noteq> 0 then Inl (Die ''[IOP] Invalid read32'')
      else if addr = 0xFFFE0130 then Inr (iop_cache_control s, s)
      else mem_read32 bus (translate_addr addr) s)"

definition iop_read_instr ::
    "'a iop_core_scheme iop_mem \<Rightarrow> u32 \<Rightarrow> 'a iop_core_scheme \<Rightarrow> (u32 \<times> 'a iop_core_scheme) res" where
  "iop_read_instr bus addr s =
     (let s = (if 0xA0000000 \<le> addr \<or> \<not> tst (iop_cache_control s) 11
               then s\<lparr>iop_cycles_to_run := iop_cycles_to_run s - 4,
                      iop_muldiv_delay := max (iop_muldiv_delay s - 4) 0\<rparr>
               else s)
      in mem_read32 bus (addr AND 0x1FFFFFFF) s)"

definition iop_write8 ::
    "'a iop_core_scheme iop_mem \<Rightarrow> u32 \<Rightarrow> u8 \<Rightarrow> 'a iop_core_scheme \<Rightarrow> 'a iop_core_scheme res" where
  "iop_write8 bus addr v s =
     (if IsC (iop_status s) then Inr s else mem_write8 bus (translate_addr addr) v s)"

definition iop_write16 ::
    "'a iop_core_scheme iop_mem \<Rightarrow> u32 \<Rightarrow> u16 \<Rightarrow> 'a iop_core_scheme \<Rightarrow> 'a iop_core_scheme res" where
  "iop_write16 bus addr v s =
     (if IsC (iop_status s) then Inr s
      else if addr AND 1 \<noteq> 0 then Inl (Die ''[IOP] Invalid write16'')
      else mem_write16 bus (translate_addr addr) v s)"

definition iop_write32 ::
    "'a iop_core_scheme iop_mem \<Rightarrow> u32 \<Rightarrow> u32 \<Rightarrow> 'a iop_core_scheme \<Rightarrow> 'a iop_core_scheme res" where
  "iop_write32 bus addr v s =
     (if IsC (iop_status s)
      then Inr (s\<lparr>iop_icache_valid := (iop_icache_valid s)(ucast (fld addr 4 8) := False)\<rparr>)
      else if addr AND 3 \<noteq> 0 then Inl (Die ''[IOP] Invalid write32'')
      else mem_write32 bus (translate_addr addr) v
             (if addr = 0xFFFE0130 then s\<lparr>iop_cache_control := v\<rparr> else s))"

subsection \<open>COP0 and exceptions\<close>

lemma iop_status_roundtrip: "iop_status_value (iop_status_of v) = v AND 0x0041FF3F"
  by (rule u32_eqI) (simp add: iop_status_value_def iop_status_of_def reg_bits bit_simps)

lemma set_gpr_0 [simp]: "set_gpr 0 v s = s"
  by (simp add: set_gpr_def)

text \<open>What an exception followed by \<open>rfe\<close> restores.\<close>

lemma exception_then_rfe:
  fixes s :: "'a iop_core_scheme" and addr :: u32 and code :: u8
  defines "s' \<equiv> rfe (iop_handle_exception addr code s)"
  shows "IEc (iop_status s') = IEc (iop_status s)" and "IEp (iop_status s') = IEp (iop_status s)"
    and "KUc (iop_status s') = KUp (iop_status s)" and "KUp (iop_status s') = KUo (iop_status s)"
    and "iop_EPC s' = (if iop_will_branch s then iop_PC s - 4 else iop_PC s)"
    and "ic_bd (iop_cause s') = iop_will_branch s"
  by (simp_all add: s'_def rfe_def iop_handle_exception_def Let_def)

end
