(* ===== verification/Iop_Intc.thy ===== *)
theory Iop_Intc
  imports Iop_Core
begin

unbundle bit_operations_syntax

section \<open>The IOP interrupt controller\<close>

text \<open>
  \<open>src/core/iop/iop_intc.cpp\<close>. The controller drives bit 2 of the IOP's pending interrupts;
  reading \<open>I_CTRL\<close> returns and clears the master enable.
\<close>

record iop_intc = iop_core +
  I_STAT :: u32
  I_MASK :: u32
  I_CTRL :: u32

definition iop_int_check :: "'a iop_intc_scheme \<Rightarrow> 'a iop_intc_scheme" where
  "iop_int_check s = interrupt_check (I_CTRL s \<noteq> 0 \<and> I_STAT s AND I_MASK s \<noteq> 0) s"

definition iop_intc_reset :: "'a iop_intc_scheme \<Rightarrow> 'a iop_intc_scheme" where
  "iop_intc_reset s = s\<lparr>I_MASK := 0, I_STAT := 0, I_CTRL := 0\<rparr>"

definition assert_irq :: "nat \<Rightarrow> 'a iop_intc_scheme \<Rightarrow> 'a iop_intc_scheme" where
  "assert_irq i s = iop_int_check (s\<lparr>I_STAT := I_STAT s OR push_bit i 1\<rparr>)"

definition read_imask :: "'a iop_intc_scheme \<Rightarrow> u32" where "read_imask s = I_MASK s"

definition read_istat :: "'a iop_intc_scheme \<Rightarrow> u32" where "read_istat s = I_STAT s"

definition read_ictrl :: "'a iop_intc_scheme \<Rightarrow> u32 \<times> 'a iop_intc_scheme" where
  "read_ictrl s = (I_CTRL s, iop_int_check (s\<lparr>I_CTRL := 0\<rparr>))"

definition write_imask :: "u32 \<Rightarrow> 'a iop_intc_scheme \<Rightarrow> 'a iop_intc_scheme" where
  "write_imask v s = iop_int_check (s\<lparr>I_MASK := v\<rparr>)"

definition write_istat :: "u32 \<Rightarrow> 'a iop_intc_scheme \<Rightarrow> 'a iop_intc_scheme" where
  "write_istat v s = iop_int_check (s\<lparr>I_STAT := I_STAT s AND v\<rparr>)"

definition write_ictrl :: "u32 \<Rightarrow> 'a iop_intc_scheme \<Rightarrow> 'a iop_intc_scheme" where
  "write_ictrl v s = iop_int_check (s\<lparr>I_CTRL := v AND 1\<rparr>)"

definition iop_wanted :: "'a iop_intc_scheme \<Rightarrow> bool" where
  "iop_wanted s \<longleftrightarrow> I_CTRL s \<noteq> 0 \<and> I_STAT s AND I_MASK s \<noteq> 0"

definition iop_line :: "'a iop_core_scheme \<Rightarrow> bool" where
  "iop_line s \<longleftrightarrow> bit (ic_int_pending (iop_cause s)) 2"

lemma bit_four: "bit (4 :: u8) n \<longleftrightarrow> n = 2"
proof -
  have "(4 :: u8) = push_bit 2 1" by simp
  then show ?thesis by (simp only: bit_push_bit_iff bit_1_iff) auto
qed

lemma interrupt_check_line [simp]: "iop_line (interrupt_check b s) = b"
  by (simp add: iop_line_def interrupt_check_def Let_def bit_simps bit_four)

lemma interrupt_check_keeps [simp]:
  "I_STAT (interrupt_check b s) = I_STAT s" "I_MASK (interrupt_check b s) = I_MASK s"
  "I_CTRL (interrupt_check b s) = I_CTRL s"
  by (simp_all add: interrupt_check_def Let_def)

interpretation iop_irq: irq_controller iop_wanted iop_line iop_int_check
  by unfold_locales (simp_all add: iop_int_check_def iop_wanted_def)

text \<open>Every operation leaves the line in step with the registers.\<close>

lemma iop_ops_synced:
  "iop_irq.synced (assert_irq i s)" "iop_irq.synced (snd (read_ictrl s))"
  "iop_irq.synced (write_imask v s)" "iop_irq.synced (write_istat v s)"
  "iop_irq.synced (write_ictrl v s)"
  by (simp_all add: assert_irq_def read_ictrl_def write_imask_def write_istat_def
      write_ictrl_def iop_irq.synced_check)

end
