(* ===== verification/Iop_Timers.thy ===== *)
theory Iop_Timers
  imports Iop_Intc
begin

unbundle bit_operations_syntax

section \<open>The IOP timers\<close>

text \<open>
  \<open>src/core/iop/iop_timers.cpp\<close>: three 16-bit and three 32-bit timers on top of the
  scheduler's. \<open>int\<close> indices come from the memory map and are 0 to 5; the arrays are lists
  and an index outside them is \<open>Undefined\<close>.
\<close>

record iop_timer_control =
  ic_use_gate :: bool
  ic_gate_mode :: u8
  ic_zero_return :: bool
  ic_compare_interrupt_enabled :: bool
  ic_overflow_interrupt_enabled :: bool
  ic_repeat_int :: bool
  ic_toggle_int :: bool
  ic_int_enable :: bool
  ic_extern_signal :: bool
  ic_prescale :: u8
  ic_compare_interrupt :: bool
  ic_overflow_interrupt :: bool
  ic_started :: bool

record iop_timer =
  it_counter :: u64
  it_control :: iop_timer_control
  it_target :: u64

record iop_timers = iop_intc +
  it_timers :: "iop_timer list"
  it_interrupt_event_id :: int
  it_events :: "nat list"

definition put_it :: "nat \<Rightarrow> (iop_timer \<Rightarrow> iop_timer) \<Rightarrow> 'a iop_timers_scheme \<Rightarrow> 'a iop_timers_scheme res" where
  "put_it i f s =
     rbind (vec_at (it_timers s) i) (\<lambda>t. Inr (s\<lparr>it_timers := (it_timers s)[i := f t]\<rparr>))"

definition reset_iop_timer :: "iop_timer \<Rightarrow> iop_timer" where
  "reset_iop_timer t =
     t\<lparr>it_counter := 0, it_target := 0,
       it_control := (it_control t)\<lparr>ic_gate_mode := 0, ic_use_gate := False,
         ic_zero_return := False, ic_compare_interrupt_enabled := False,
         ic_overflow_interrupt_enabled := False, ic_repeat_int := False,
         ic_toggle_int := False, ic_int_enable := False, ic_extern_signal := False,
         ic_compare_interrupt := False, ic_overflow_interrupt := False\<rparr>\<rparr>"

definition it_reset :: "'a iop_timers_scheme \<Rightarrow> 'a iop_timers_scheme res" where
  "it_reset s =
     (let s = s\<lparr>it_timers := map reset_iop_timer (it_timers s)\<rparr>;
          (cb, s) = register_timer_callback Cb_IOP_timer s;
          s = s\<lparr>it_interrupt_event_id := cb\<rparr>;
          make = (\<lambda>i s. rbind (create_timer (it_interrupt_event_id s)
                          (if i < 3 then 0xFFFF else 0xFFFFFFFF) (of_nat i) s)
                    (\<lambda>(tid, s). Inr (s\<lparr>it_events := (it_events s)[i := tid]\<rparr>)))
      in rbind (for_upto 6 make s)
           (for_upto 6 (\<lambda>i s. rbind (vec_at (it_events s) i) (\<lambda>ev. set_timer_pause ev False s))))"

definition timer_IRQs :: "nat list" where
  "timer_IRQs = [4, 5, 6, 14, 15, 16]"

text \<open>What \<open>IRQ_test\<close> does to the control bits after raising the interrupt.\<close>

definition after_irq :: "bool \<Rightarrow> iop_timer_control \<Rightarrow> iop_timer_control" where
  "after_irq overflow c =
     (let c = (if ic_int_enable c
               then if overflow then c\<lparr>ic_overflow_interrupt := True\<rparr>
                    else c\<lparr>ic_compare_interrupt := True\<rparr>
               else c)
      in if \<not> ic_repeat_int c then c\<lparr>ic_int_enable := False\<rparr>
         else if ic_toggle_int c then c\<lparr>ic_int_enable := (\<not> ic_int_enable c)\<rparr>
         else c)"

definition IRQ_test :: "nat \<Rightarrow> bool \<Rightarrow> 'a iop_timers_scheme \<Rightarrow> 'a iop_timers_scheme res" where
  "IRQ_test i overflow s =
     rbind (vec_at (it_timers s) i) (\<lambda>t.
     rbind (if \<not> overflow \<and> ic_zero_return (it_control t)
            then rbind (put_it i (\<lambda>t. t\<lparr>it_counter := 0\<rparr>) s) (\<lambda>s.
                   rbind (vec_at (it_events s) i) (\<lambda>ev. set_timer_counter ev 0 s))
            else Inr s) (\<lambda>s.
     rbind (if ic_int_enable (it_control t)
            then rbind (vec_at timer_IRQs i) (\<lambda>irq. Inr (assert_irq irq s))
            else Inr s)
       (put_it i (\<lambda>t. t\<lparr>it_control := after_irq overflow (it_control t)\<rparr>))))"

definition it_read_counter :: "nat \<Rightarrow> 'a iop_timers_scheme \<Rightarrow> (u32 \<times> 'a iop_timers_scheme) res" where
  "it_read_counter i s =
     rbind (vec_at (it_events s) i) (\<lambda>ev.
     rbind (get_timer_counter ev s) (\<lambda>(c, s).
     rbind (put_it i (\<lambda>t. t\<lparr>it_counter := c\<rparr>) s) (\<lambda>s. Inr (ucast c, s))))"

definition it_read_target :: "nat \<Rightarrow> 'a iop_timers_scheme \<Rightarrow> u32 res" where
  "it_read_target i s = rbind (vec_at (it_timers s) i) (\<lambda>t. Inr (ucast (it_target t)))"

definition it_control_value :: "nat \<Rightarrow> iop_timer_control \<Rightarrow> u16" where
  "it_control_value i c =
     flag_at 0 (ic_use_gate c) OR push_bit 1 (ucast (ic_gate_mode c))
     OR flag_at 3 (ic_zero_return c) OR flag_at 4 (ic_compare_interrupt_enabled c)
     OR flag_at 5 (ic_overflow_interrupt_enabled c) OR flag_at 6 (ic_repeat_int c)
     OR flag_at 7 (ic_toggle_int c) OR flag_at 8 (ic_extern_signal c)
     OR flag_at 10 (ic_int_enable c) OR flag_at 11 (ic_compare_interrupt c)
     OR flag_at 12 (ic_overflow_interrupt c)
     OR (if i < 4 then push_bit 9 (ucast (ic_prescale c))
         else push_bit 13 (ucast (ic_prescale c)))"

definition it_read_control :: "nat \<Rightarrow> 'a iop_timers_scheme \<Rightarrow> (u16 \<times> 'a iop_timers_scheme) res" where
  "it_read_control i s =
     rbind (vec_at (it_timers s) i) (\<lambda>t.
     rbind (put_it i (\<lambda>t. t\<lparr>it_control := (it_control t)\<lparr>ic_compare_interrupt := False,
                               ic_overflow_interrupt := False\<rparr>\<rparr>) s) (\<lambda>s.
       Inr (it_control_value i (it_control t), s)))"

definition it_write_counter :: "nat \<Rightarrow> u32 \<Rightarrow> 'a iop_timers_scheme \<Rightarrow> 'a iop_timers_scheme res" where
  "it_write_counter i v s =
     rbind (put_it i (\<lambda>t. t\<lparr>it_counter := ucast v\<rparr>) s) (\<lambda>s.
     rbind (vec_at (it_events s) i) (\<lambda>ev. set_timer_counter ev (ucast v) s))"

definition it_load_control :: "nat \<Rightarrow> u16 \<Rightarrow> iop_timer_control \<Rightarrow> iop_timer_control" where
  "it_load_control i v c =
     c\<lparr>ic_use_gate := tst v 0, ic_started := True, ic_gate_mode := ucast (fld v 1 2),
       ic_zero_return := tst v 3, ic_compare_interrupt_enabled := tst v 4,
       ic_overflow_interrupt_enabled := tst v 5, ic_repeat_int := tst v 6,
       ic_toggle_int := tst v 7, ic_int_enable := True, ic_extern_signal := tst v 8,
       ic_prescale := (if i < 4 then ucast (fld v 9 1) else ucast (fld v 13 2))\<rparr>"

definition it_base_rate :: "nat \<Rightarrow> bool \<Rightarrow> u32" where
  "it_base_rate i extern =
     (if extern
      then if i = 0 then 15 * 1000 * 1000
           else if i = 1 \<or> i = 3 then ucast (IOP_CLOCKRATE div 2350)
           else ucast IOP_CLOCKRATE
      else ucast IOP_CLOCKRATE)"

definition it_clockrate :: "nat \<Rightarrow> iop_timer_control \<Rightarrow> u32" where
  "it_clockrate i c =
     (let r = it_base_rate i (ic_extern_signal c); p = ic_prescale c
      in if p = 1 then r div 8 else if p = 2 then r div 16 else if p = 3 then r div 256 else r)"

definition it_write_control :: "nat \<Rightarrow> u16 \<Rightarrow> 'a iop_timers_scheme \<Rightarrow> 'a iop_timers_scheme res" where
  "it_write_control i v s =
     rbind (vec_at (it_timers s) i) (\<lambda>t.
     if tst v 0 then Inl (Die ''IOPTiming timer control.use_gate is true'')
     else let c = it_load_control i v (it_control t) in
     rbind (put_it i (\<lambda>t. t\<lparr>it_control := c, it_counter := 0\<rparr>) s) (\<lambda>s.
     rbind (vec_at (it_events s) i) (\<lambda>ev.
     rbind (set_timer_clockrate ev (ucast (it_clockrate i c)) s) (\<lambda>s.
     rbind (set_timer_counter ev 0 s) (\<lambda>s.
     rbind (set_timer_pause ev (\<not> ic_started c) s)
       (set_timer_int_mask ev (ic_overflow_interrupt_enabled c)
          (ic_compare_interrupt_enabled c)))))))"

definition it_write_target :: "nat \<Rightarrow> u32 \<Rightarrow> 'a iop_timers_scheme \<Rightarrow> 'a iop_timers_scheme res" where
  "it_write_target i v s =
     rbind (put_it i (\<lambda>t. t\<lparr>it_target := ucast v\<rparr>) s) (\<lambda>s.
     rbind (vec_at (it_events s) i) (\<lambda>ev.
     rbind (set_timer_target ev (ucast v) s) (\<lambda>s.
     rbind (vec_at (it_timers s) i) (\<lambda>t.
       if \<not> ic_toggle_int (it_control t)
       then put_it i (\<lambda>t. t\<lparr>it_control := (it_control t)\<lparr>ic_int_enable := True\<rparr>\<rparr>) s
       else Inr s))))"

subsection \<open>Interrupt modes\<close>

text \<open>A one-shot timer raises at most one interrupt until it is rearmed; in toggle mode every
  second event raises one; in repeat mode every event does.\<close>

lemma after_irq_modes:
  "\<not> ic_repeat_int c \<Longrightarrow> \<not> ic_int_enable (after_irq ov c)"
  "ic_repeat_int c \<Longrightarrow> ic_toggle_int c \<Longrightarrow> ic_int_enable (after_irq ov c) = (\<not> ic_int_enable c)"
  "ic_repeat_int c \<Longrightarrow> \<not> ic_toggle_int c \<Longrightarrow> ic_int_enable (after_irq ov c) = ic_int_enable c"
  "ic_repeat_int (after_irq ov c) = ic_repeat_int c"
  "ic_toggle_int (after_irq ov c) = ic_toggle_int c"
  by (simp_all add: after_irq_def Let_def)

lemma it_clockrate_pos: "it_clockrate i c \<noteq> 0"
  by (simp add: it_clockrate_def it_base_rate_def Let_def IOP_CLOCKRATE_def EE_CLOCKRATE_def)

end
