(* ===== verification/Ee_Dmac.thy ===== *)
theory Ee_Dmac
  imports Iop_Timers
begin

unbundle bit_operations_syntax

section \<open>The EE DMA controller: registers and arbitration\<close>

text \<open>
  \<open>src/core/ee/dmac.cpp\<close>: the channel registers, starting and ending transfers, the request
  lines, and the queue that decides which channel runs. The channel array is a function of
  the channel number (every index in the code is a constant of \<open>DMAC_CHANNELS\<close>); a
  pointer to a channel is its number. The \<open>process_*\<close> functions that move data are not
  modelled here. \<open>gif_stop\<close> stands for \<open>gif->dma_running(false)\<close>.
\<close>

subsection \<open>State\<close>

abbreviation VIF0 :: nat where "VIF0 \<equiv> 0"
abbreviation VIF1 :: nat where "VIF1 \<equiv> 1"
abbreviation GIF :: nat where "GIF \<equiv> 2"
abbreviation IPU_FROM :: nat where "IPU_FROM \<equiv> 3"
abbreviation IPU_TO :: nat where "IPU_TO \<equiv> 4"
abbreviation EE_SIF0 :: nat where "EE_SIF0 \<equiv> 5"
abbreviation EE_SIF1 :: nat where "EE_SIF1 \<equiv> 6"
abbreviation SPR_FROM :: nat where "SPR_FROM \<equiv> 8"
abbreviation SPR_TO :: nat where "SPR_TO \<equiv> 9"
abbreviation DMA_STALL :: nat where "DMA_STALL \<equiv> 13"

record dma_channel =
  dc_control :: u32
  dc_address :: u32
  dc_quadword_count :: u32
  dc_tag_address :: u32
  dc_tag_save0 :: u32
  dc_tag_save1 :: u32
  dc_scratchpad_address :: u32
  dc_tag_end :: bool
  dc_interleaved_qwc :: u8
  dc_tag_id :: u8
  dc_started :: bool
  dc_can_stall_drain :: bool
  dc_has_dma_stalled :: bool
  dc_dma_req :: bool
  dc_is_spr :: bool

record d_ctrl =
  d_master_enable :: bool
  d_cycle_stealing :: bool
  d_mem_drain_channel :: u8
  d_stall_source_channel :: u8
  d_stall_dest_channel :: u8
  d_release_cycle :: u8

record dmac = iop_timers +
  dm_channels :: "nat \<Rightarrow> dma_channel"
  dm_active :: "nat option"
  dm_queue :: "nat list"
  dm_control :: d_ctrl
  dm_stat :: "nat \<Rightarrow> bool"
  dm_mask :: "nat \<Rightarrow> bool"
  dm_PCR :: u32
  dm_skip_qwc :: u8
  dm_transfer_qwc :: u8
  dm_RBOR :: u32
  dm_RBSR :: u32
  dm_STADR :: u32
  dm_mfifo_empty_triggered :: bool
  dm_cycles_to_run :: int
  dm_master_disable :: u32

definition put_chan :: "nat \<Rightarrow> (dma_channel \<Rightarrow> dma_channel) \<Rightarrow> 'a dmac_scheme \<Rightarrow> 'a dmac_scheme" where
  "put_chan i f s = s\<lparr>dm_channels := (dm_channels s)(i := f (dm_channels s i))\<rparr>"

definition dmac_reset :: "'a dmac_scheme \<Rightarrow> 'a dmac_scheme" where
  "dmac_reset s =
     s\<lparr>dm_master_disable := 0x1201, dm_control := (dm_control s)\<lparr>d_master_enable := False\<rparr>,
       dm_mfifo_empty_triggered := False, dm_PCR := 0, dm_STADR := 0, dm_cycles_to_run := 0,
       dm_active := None, dm_queue := [],
       dm_channels := (\<lambda>i. if i < 15
          then (dm_channels s i)\<lparr>dc_started := False, dc_control := 0,
                 dc_dma_req := (i \<in> {SPR_FROM, SPR_TO, IPU_TO, EE_SIF1, VIF0, VIF1})\<rparr>
          else dm_channels s i),
       dm_stat := (\<lambda>i. if i < 15 then False else dm_stat s i),
       dm_mask := (\<lambda>i. if i < 15 then False else dm_mask s i)\<rparr>"

subsection \<open>Interrupts\<close>

definition int1_check :: "'a dmac_scheme \<Rightarrow> 'a dmac_scheme" where
  "int1_check s = set_int1_signal (list_ex (\<lambda>i. dm_stat s i \<and> dm_mask s i) [0..<15]) s"

definition raise_stat :: "nat \<Rightarrow> 'a dmac_scheme \<Rightarrow> 'a dmac_scheme" where
  "raise_stat i s = int1_check (s\<lparr>dm_stat := (dm_stat s)(i := True)\<rparr>)"

subsection \<open>Arbitration\<close>

definition dm_find_new_active_channel :: "'a dmac_scheme \<Rightarrow> 'a dmac_scheme res" where
  "dm_find_new_active_channel s =
     (let q = dm_queue s @ (case dm_active s of None \<Rightarrow> [] | Some a \<Rightarrow> [a])
      in case q of
           [] \<Rightarrow> Inl (Undefined ''front of an empty list'')
         | c # rest \<Rightarrow> Inr (s\<lparr>dm_active := Some c, dm_queue := rest\<rparr>))"

definition dm_arbitrate :: "'a dmac_scheme \<Rightarrow> 'a dmac_scheme res" where
  "dm_arbitrate s = (if dm_queue s \<noteq> [] then dm_find_new_active_channel s else Inr s)"

definition deactivate_channel :: "nat \<Rightarrow> 'a dmac_scheme \<Rightarrow> 'a dmac_scheme res" where
  "deactivate_channel i s =
     (if dm_active s = Some i
      then let s = s\<lparr>dm_active := None\<rparr>
           in if dm_queue s \<noteq> [] then dm_find_new_active_channel s else Inr s
      else Inr (s\<lparr>dm_queue := remove1 i (dm_queue s)\<rparr>))"

definition stall_checked :: "nat \<Rightarrow> 'a dmac_scheme \<Rightarrow> bool" where
  "stall_checked i s \<longleftrightarrow>
     (let d = d_stall_dest_channel (dm_control s)
      in (d = 1 \<and> i = VIF1) \<or> (d = 2 \<and> i = GIF) \<or> (d = 3 \<and> i = EE_SIF1))"

definition check_for_activation :: "nat \<Rightarrow> 'a dmac_scheme \<Rightarrow> 'a dmac_scheme" where
  "check_for_activation i s =
     (let c = dm_channels s i in
      if dc_dma_req c \<and> dc_started c
      then if stall_checked i s \<and> dc_can_stall_drain c \<and> dc_address c = dm_STADR s
           then let s = (if \<not> dc_has_dma_stalled c
                         then put_chan i (\<lambda>c. c\<lparr>dc_has_dma_stalled := True\<rparr>) (raise_stat DMA_STALL s)
                         else s)
                in s\<lparr>dm_queue := dm_queue s @ [i]\<rparr>
           else if dm_active s = None then s\<lparr>dm_active := Some i\<rparr>
           else s\<lparr>dm_queue := dm_queue s @ [i]\<rparr>
      else s)"

definition dm_set_request :: "nat \<Rightarrow> 'a dmac_scheme \<Rightarrow> 'a dmac_scheme" where
  "dm_set_request i s =
     (let old_req = dc_dma_req (dm_channels s i);
          s = put_chan i (\<lambda>c. c\<lparr>dc_dma_req := True\<rparr>) s
      in if \<not> old_req then check_for_activation i s else s)"

definition dm_clear_request :: "nat \<Rightarrow> 'a dmac_scheme \<Rightarrow> 'a dmac_scheme res" where
  "dm_clear_request i s =
     (let old_req = dc_dma_req (dm_channels s i);
          s = put_chan i (\<lambda>c. c\<lparr>dc_dma_req := False\<rparr>) s
      in if old_req then deactivate_channel i s else Inr s)"

definition update_stadr :: "u32 \<Rightarrow> 'a dmac_scheme \<Rightarrow> 'a dmac_scheme res" where
  "update_stadr addr s =
     (let s = s\<lparr>dm_STADR := addr\<rparr>;
          d = d_stall_dest_channel (dm_control s);
          wake = (\<lambda>c. if dc_has_dma_stalled (dm_channels s c) then dm_set_request c s else s)
      in if d = 0 then Inr s
         else if d = 1 then Inr (wake VIF1)
         else if d = 2 then Inr (wake GIF)
         else if d = 3 then Inr (wake EE_SIF1)
         else Inl (Die ''DMAC::update_stadr: control.stall_dest_channel >= 4''))"

subsection \<open>Starting and ending a transfer\<close>

definition dm_transfer_end :: "nat \<Rightarrow> 'a dmac_scheme \<Rightarrow> 'a dmac_scheme res" where
  "dm_transfer_end i s =
     deactivate_channel i (raise_stat i
       (put_chan i (\<lambda>c. c\<lparr>dc_control := dc_control c AND NOT 0x100, dc_started := False\<rparr>) s))"

definition start_mode :: "u8 \<Rightarrow> dma_channel \<Rightarrow> dma_channel" where
  "start_mode transfer_qwc c =
     (let mode = fld (dc_control c) 2 2;
          (mode, c) = (if mode = 3 then (1, c\<lparr>dc_control := dc_control c AND NOT 8\<rparr>) else (mode, c));
          c = c\<lparr>dc_tag_end := (mode AND 1 = 0)\<rparr>;
          tag = fld (dc_control c) 28 3;
          tag_irq = tst (dc_control c) 31;
          TIE = tst (dc_control c) 7;
          c = c\<lparr>dc_can_stall_drain := (mode AND 1 = 0 \<or> tag = 4)\<rparr>;
          c = (if mode = 1
               then if 0 < dc_quadword_count c
                    then c\<lparr>dc_tag_end := (tag = 0 \<or> tag = 7 \<or> (TIE \<and> tag_irq)),
                           dc_tag_id := ucast tag\<rparr>
                    else c
               else if mode = 2 then c\<lparr>dc_interleaved_qwc := transfer_qwc\<rparr>
               else c);
          addr = dc_address c
      in c\<lparr>dc_is_spr := (tst addr 31 \<or> addr AND 0x70000000 = 0x70000000), dc_started := True\<rparr>)"

definition start_DMA :: "nat \<Rightarrow> 'a dmac_scheme \<Rightarrow> 'a dmac_scheme" where
  "start_DMA i s =
     (let s = put_chan i (start_mode (dm_transfer_qwc s)) s;
          s = (if dm_active s = None then s\<lparr>dm_cycles_to_run := 0\<rparr> else s)
      in check_for_activation i s)"

text \<open>A write to the \<open>CHCR\<close> of a channel that runs can only clear its start bit.\<close>

definition chcr_masked :: "u32 \<Rightarrow> dma_channel \<Rightarrow> dma_channel" where
  "chcr_masked v c =
     (let ctrl = dc_control c AND ((v AND 0x100) OR 0xFFFFFEFF)
      in c\<lparr>dc_control := ctrl, dc_started := tst ctrl 8\<rparr>)"

text \<open>A write to a channel's \<open>CHCR\<close>, the same for every channel but the GIF.\<close>

definition write_chcr :: "nat \<Rightarrow> u32 \<Rightarrow> 'a dmac_scheme \<Rightarrow> 'a dmac_scheme res" where
  "write_chcr i v s =
     (if \<not> tst (dc_control (dm_channels s i)) 8
      then let s = put_chan i (\<lambda>c. c\<lparr>dc_control := v\<rparr>) s
           in Inr (if tst v 8 then start_DMA i s
                   else put_chan i (\<lambda>c. c\<lparr>dc_started := False\<rparr>) s)
      else let s = put_chan i (chcr_masked v) s
           in if \<not> dc_started (dm_channels s i) then deactivate_channel i s else Inr s)"

definition write_chcr_gif ::
    "('a dmac_scheme \<Rightarrow> 'a dmac_scheme) \<Rightarrow> u32 \<Rightarrow> 'a dmac_scheme \<Rightarrow> 'a dmac_scheme res" where
  "write_chcr_gif gif_stop v s =
     (if \<not> tst (dc_control (dm_channels s GIF)) 8
      then let s = put_chan GIF (\<lambda>c. c\<lparr>dc_control := v\<rparr>) s
           in Inr (if tst v 8 then start_DMA GIF s
                   else put_chan GIF (\<lambda>c. c\<lparr>dc_started := False\<rparr>) (gif_stop s))
      else let s = put_chan GIF (chcr_masked v) s
           in if \<not> dc_started (dm_channels s GIF) then deactivate_channel GIF (gif_stop s)
              else Inr s)"

subsection \<open>The register file\<close>

text \<open>The channel registers \<open>read32\<close> knows, with what each case returns.\<close>

definition chan_read_map :: "(nat \<Rightarrow> dma_channel) \<Rightarrow> (u32 \<times> u32) list" where
  "chan_read_map c =
    [(0x10008000, dc_control (c VIF0)), (0x10008010, dc_address (c VIF0)),
     (0x10008020, dc_quadword_count (c VIF0)), (0x10008030, dc_tag_address (c VIF0)),
     (0x10008040, dc_tag_save0 (c VIF0)), (0x10008050, dc_tag_save1 (c VIF0)),
     (0x10009000, dc_control (c VIF1)), (0x10009010, dc_address (c VIF1)),
     (0x10009020, dc_quadword_count (c VIF1)), (0x10009030, dc_tag_address (c VIF1)),
     (0x10009040, dc_tag_save0 (c VIF1)), (0x10009050, dc_tag_save1 (c VIF1)),
     (0x1000A000, dc_control (c GIF)), (0x1000A010, dc_address (c GIF)),
     (0x1000A020, dc_quadword_count (c GIF)), (0x1000A030, dc_tag_address (c GIF)),
     (0x1000A040, dc_tag_save0 (c GIF)), (0x1000A050, dc_tag_save1 (c GIF)),
     (0x1000B000, dc_control (c IPU_FROM)), (0x1000B010, dc_address (c IPU_FROM)),
     (0x1000B020, dc_quadword_count (c IPU_FROM)), (0x1000B030, dc_tag_address (c IPU_FROM)),
     (0x1000B400, dc_control (c IPU_TO)), (0x1000B410, dc_address (c IPU_TO)),
     (0x1000B420, dc_quadword_count (c IPU_TO)), (0x1000B430, dc_tag_address (c IPU_TO)),
     (0x1000C000, dc_control (c EE_SIF0)), (0x1000C010, dc_address (c EE_SIF0)),
     (0x1000C020, dc_quadword_count (c EE_SIF0)), (0x1000C400, dc_control (c EE_SIF1)),
     (0x1000C410, dc_address (c EE_SIF1)), (0x1000C420, dc_quadword_count (c EE_SIF1)),
     (0x1000C430, dc_tag_address (c EE_SIF1)), (0x1000D000, dc_control (c SPR_FROM)),
     (0x1000D010, dc_address (c SPR_FROM)), (0x1000D020, dc_quadword_count (c SPR_FROM)),
     (0x1000D080, dc_scratchpad_address (c SPR_FROM)), (0x1000D400, dc_control (c SPR_TO)),
     (0x1000D410, dc_address (c SPR_TO)), (0x1000D420, dc_quadword_count (c SPR_TO)),
     (0x1000D430, dc_tag_address (c SPR_TO)), (0x1000D480, dc_scratchpad_address (c SPR_TO))]"

definition ctrl_value :: "d_ctrl \<Rightarrow> u32" where
  "ctrl_value d =
     flag_at 0 (d_master_enable d) OR flag_at 1 (d_cycle_stealing d)
     OR push_bit 2 (ucast (d_mem_drain_channel d)) OR push_bit 4 (ucast (d_stall_source_channel d))
     OR push_bit 6 (ucast (d_stall_dest_channel d)) OR push_bit 8 (ucast (d_release_cycle d))"

definition stat_value :: "'a dmac_scheme \<Rightarrow> u32" where
  "stat_value s =
     fold (\<lambda>i reg. reg OR flag_at i (dm_stat s i) OR flag_at (i + 16) (dm_mask s i)) [0..<15] 0"

definition dmac_read32 :: "u32 \<Rightarrow> 'a dmac_scheme \<Rightarrow> u32" where
  "dmac_read32 address s =
     (case map_of (chan_read_map (dm_channels s)) address of
        Some v \<Rightarrow> v
      | None \<Rightarrow>
          if address = 0x1000E000 then ctrl_value (dm_control s)
          else if address = 0x1000E010 then stat_value s
          else if address = 0x1000E020 then dm_PCR s
          else if address = 0x1000E040 then dm_RBSR s
          else if address = 0x1000E050 then dm_RBOR s
          else 0)"

definition dmac_read8 :: "u32 \<Rightarrow> 'a dmac_scheme \<Rightarrow> u8" where
  "dmac_read8 address s =
     ucast (drop_bit (unat (address AND 3) * 8) (dmac_read32 (address AND NOT 3) s))"

definition dmac_read16 :: "u32 \<Rightarrow> 'a dmac_scheme \<Rightarrow> u16" where
  "dmac_read16 address s =
     ucast (drop_bit (unat (address AND 2) * 8) (dmac_read32 (address AND NOT 2) s))"

text \<open>The plain channel registers \<open>write32\<close> knows.\<close>

type_synonym chan_write = "nat \<times> (u32 \<Rightarrow> dma_channel \<Rightarrow> dma_channel)"

definition set_madr :: "u32 \<Rightarrow> dma_channel \<Rightarrow> dma_channel" where
  "set_madr v c = c\<lparr>dc_address := v AND NOT 0xF\<rparr>"
definition set_qwc :: "u32 \<Rightarrow> dma_channel \<Rightarrow> dma_channel" where
  "set_qwc v c = c\<lparr>dc_quadword_count := v AND 0xFFFF\<rparr>"
definition set_tadr :: "u32 \<Rightarrow> dma_channel \<Rightarrow> dma_channel" where
  "set_tadr v c = c\<lparr>dc_tag_address := v AND NOT 0xF\<rparr>"
definition set_asr0 :: "u32 \<Rightarrow> dma_channel \<Rightarrow> dma_channel" where
  "set_asr0 v c = c\<lparr>dc_tag_save0 := v AND NOT 0xF\<rparr>"
definition set_asr1 :: "u32 \<Rightarrow> dma_channel \<Rightarrow> dma_channel" where
  "set_asr1 v c = c\<lparr>dc_tag_save1 := v AND NOT 0xF\<rparr>"
definition set_sadr :: "u32 \<Rightarrow> dma_channel \<Rightarrow> dma_channel" where
  "set_sadr v c = c\<lparr>dc_scratchpad_address := v AND 0x3FFC\<rparr>"

definition vif_write_map :: "(u32 \<times> chan_write) list" where
  "vif_write_map =
    [(0x10008010, VIF0, set_madr), (0x10008020, VIF0, set_qwc), (0x10008030, VIF0, set_tadr),
     (0x10008040, VIF0, set_asr0), (0x10008050, VIF0, set_asr1), (0x10009010, VIF1, set_madr),
     (0x10009020, VIF1, set_qwc), (0x10009030, VIF1, set_tadr), (0x10009040, VIF1, set_asr0),
     (0x10009050, VIF1, set_asr1)]"

definition gif_ipu_write_map :: "(u32 \<times> chan_write) list" where
  "gif_ipu_write_map =
    [(0x1000A010, GIF, set_madr), (0x1000A020, GIF, set_qwc), (0x1000A030, GIF, set_tadr),
     (0x1000A040, GIF, set_asr0), (0x1000A050, GIF, set_asr1), (0x1000B010, IPU_FROM, set_madr),
     (0x1000B020, IPU_FROM, set_qwc), (0x1000B410, IPU_TO, set_madr), (0x1000B420, IPU_TO, set_qwc),
     (0x1000B430, IPU_TO, set_tadr)]"

definition sif_write_map :: "(u32 \<times> chan_write) list" where
  "sif_write_map =
    [(0x1000C010, EE_SIF0, set_madr), (0x1000C020, EE_SIF0, set_qwc), (0x1000C410, EE_SIF1, set_madr),
     (0x1000C420, EE_SIF1, set_qwc), (0x1000C430, EE_SIF1, set_tadr)]"

definition spr_write_map :: "(u32 \<times> chan_write) list" where
  "spr_write_map =
    [(0x1000D010, SPR_FROM, set_madr), (0x1000D020, SPR_FROM, set_qwc), (0x1000D080, SPR_FROM, set_sadr),
     (0x1000D410, SPR_TO, set_madr), (0x1000D420, SPR_TO, set_qwc), (0x1000D430, SPR_TO, set_tadr),
     (0x1000D480, SPR_TO, set_sadr)]"

definition chcr_map :: "(u32 \<times> nat) list" where
  "chcr_map =
    [(0x10008000, VIF0), (0x10009000, VIF1), (0x1000B000, IPU_FROM), (0x1000B400, IPU_TO),
     (0x1000C000, EE_SIF0), (0x1000C400, EE_SIF1), (0x1000D000, SPR_FROM), (0x1000D400, SPR_TO)]"

definition load_ctrl :: "u32 \<Rightarrow> d_ctrl" where
  "load_ctrl v =
     \<lparr>d_master_enable = tst v 0, d_cycle_stealing = tst v 1,
      d_mem_drain_channel = ucast (fld v 2 2), d_stall_source_channel = ucast (fld v 4 2),
      d_stall_dest_channel = ucast (fld v 6 2), d_release_cycle = ucast (fld v 8 3)\<rparr>"

definition write_d_stat :: "u32 \<Rightarrow> 'a dmac_scheme \<Rightarrow> 'a dmac_scheme" where
  "write_d_stat v s =
     int1_check (s\<lparr>dm_stat := (\<lambda>i. dm_stat s i \<and> \<not> (i < 15 \<and> tst v i)),
                   dm_mask := (\<lambda>i. dm_mask s i \<noteq> (i < 15 \<and> tst v (i + 16)))\<rparr>)"

definition dmac_write32 ::
    "('a dmac_scheme \<Rightarrow> 'a dmac_scheme) \<Rightarrow> u32 \<Rightarrow> u32 \<Rightarrow> 'a dmac_scheme \<Rightarrow> 'a dmac_scheme res" where
  "dmac_write32 gif_stop address v s =
     (case map_of (vif_write_map @ gif_ipu_write_map @ sif_write_map @ spr_write_map) address of
        Some (i, f) \<Rightarrow> Inr (put_chan i (f v) s)
      | None \<Rightarrow>
      case map_of chcr_map address of
        Some i \<Rightarrow> write_chcr i v s
      | None \<Rightarrow>
      if address = 0x1000A000 then write_chcr_gif gif_stop v s
      else if address = 0x1000E000 then Inr (s\<lparr>dm_control := load_ctrl v\<rparr>)
      else if address = 0x1000E010 \<or> address = 0x1000E100 then Inr (write_d_stat v s)
      else if address = 0x1000E020 then Inr (s\<lparr>dm_PCR := v\<rparr>)
      else if address = 0x1000E030
           then Inr (s\<lparr>dm_skip_qwc := ucast (v AND 0xFF), dm_transfer_qwc := ucast (fld v 16 8)\<rparr>)
      else if address = 0x1000E040 then Inr (s\<lparr>dm_RBSR := v\<rparr>)
      else if address = 0x1000E050 then Inr (s\<lparr>dm_RBOR := v\<rparr>)
      else if address = 0x1000E060 then update_stadr v s
      else Inr s)"

definition chcr :: "nat \<Rightarrow> 'a dmac_scheme \<Rightarrow> u32" where
  "chcr i s = dc_control (dm_channels s i)"

definition set_low_byte :: "nat \<Rightarrow> u8 \<Rightarrow> 'a dmac_scheme \<Rightarrow> 'a dmac_scheme" where
  "set_low_byte i v s =
     put_chan i (\<lambda>c. c\<lparr>dc_control := (dc_control c AND NOT 0xFF) OR ucast v\<rparr>) s"

definition dmac_write8 ::
    "('a dmac_scheme \<Rightarrow> 'a dmac_scheme) \<Rightarrow> u32 \<Rightarrow> u8 \<Rightarrow> 'a dmac_scheme \<Rightarrow> 'a dmac_scheme res" where
  "dmac_write8 gif_stop address v s =
     (let high = (\<lambda>a i. dmac_write32 gif_stop a
                    ((chcr i s AND 0xFFFF00FF) OR push_bit 8 (ucast v)) s) in
      if address = 0x10008000 then Inr (set_low_byte VIF0 v s)
      else if address = 0x10008001 then high 0x10008000 VIF0
      else if address = 0x10009000 then Inr (set_low_byte VIF1 v s)
      else if address = 0x10009001 then high 0x10009000 VIF1
      else if address = 0x1000A001 then high 0x1000A000 GIF
      else if address = 0x1000D001 then high 0x1000D000 SPR_FROM
      else if address = 0x1000D401 then high 0x1000D400 SPR_TO
      else if address = 0x1000E000
           then let w = ucast v :: u32
                in Inr (s\<lparr>dm_control := (dm_control s)\<lparr>d_master_enable := tst w 0,
                       d_cycle_stealing := tst w 1, d_mem_drain_channel := ucast (fld w 2 2),
                       d_stall_source_channel := ucast (fld w 4 2),
                       d_stall_dest_channel := ucast (fld w 6 2)\<rparr>\<rparr>)
      else Inr s)"

definition dmac_write16 ::
    "('a dmac_scheme \<Rightarrow> 'a dmac_scheme) \<Rightarrow> u32 \<Rightarrow> u16 \<Rightarrow> 'a dmac_scheme \<Rightarrow> 'a dmac_scheme res" where
  "dmac_write16 gif_stop address v s =
     (let chan = map_of [(0x10008000, VIF0), (0x10009000, VIF1), (0x1000A000, GIF),
                   (0x1000B000, IPU_FROM), (0x1000B400, IPU_TO), (0x1000D000, SPR_FROM),
                   (0x1000D400, SPR_TO)] address
      in case chan of
           Some i \<Rightarrow> dmac_write32 gif_stop address ((chcr i s AND 0xFFFF0000) OR ucast v) s
         | None \<Rightarrow> Inr s)"

end
