(* ===== verification/Dma_Arbitration.thy ===== *)
theory Dma_Arbitration
  imports Ee_Dmac "HOL-Library.Multiset"
begin

unbundle bit_operations_syntax

section \<open>What a DMA controller owes its request lines\<close>

text \<open>
  Both DMA controllers keep one running channel and a queue, fed by request lines that devices
  raise and drop. The contract (\<open>dma_requests\<close>): the running and queued channels are, without
  repetition, exactly the channels that are started and requested, and the line of a device reads
  as that device last set it. The client is the SIF, which raises and drops lines of both
  controllers as its FIFOs fill and drain.
\<close>

locale dma_requests =
  fixes slots :: "'s \<Rightarrow> nat list"
    and ready :: "'s \<Rightarrow> nat \<Rightarrow> bool"
    and line :: "'s \<Rightarrow> nat \<Rightarrow> bool"
    and good :: "'s \<Rightarrow> bool"
    and raise :: "nat \<Rightarrow> 's \<Rightarrow> 's"
    and drop_req :: "nat \<Rightarrow> 's \<Rightarrow> 's res"
  assumes good_slots: "good s \<Longrightarrow> distinct (slots s) \<and> set (slots s) = {i. ready s i}"
    and raise_good: "good s \<Longrightarrow> good (raise i s)"
    and raise_line: "line (raise i s) j \<longleftrightarrow> j = i \<or> line s j"
    and drop_succeeds: "good s \<Longrightarrow> \<exists>s'. drop_req i s = Inr s'"
    and drop_good: "good s \<Longrightarrow> drop_req i s = Inr s' \<Longrightarrow> good s'"
    and drop_line: "good s \<Longrightarrow> drop_req i s = Inr s' \<Longrightarrow> line s' j \<longleftrightarrow> j \<noteq> i \<and> line s j"
begin

text \<open>What a device does with its line after an operation: raise it, drop it, or leave it.\<close>

definition drive :: "bool \<Rightarrow> bool \<Rightarrow> nat \<Rightarrow> 's \<Rightarrow> 's res" where
  "drive up down i s = (if up then Inr (raise i s) else if down then drop_req i s else Inr s)"

lemma drive_ok:
  assumes "good s"
  shows "\<exists>s'. drive up down i s = Inr s' \<and> good s' \<and>
    (\<forall>j. line s' j \<longleftrightarrow> (if j = i then up \<or> (\<not> down \<and> line s j) else line s j))"
  using assms drop_succeeds [OF assms, of i] raise_good raise_line drop_good drop_line
  by (auto simp: drive_def)

lemma ready_running: "good s \<Longrightarrow> ready s i \<Longrightarrow> i \<in> set (slots s)"
  using good_slots by blast

lemma running_ready: "good s \<Longrightarrow> i \<in> set (slots s) \<Longrightarrow> ready s i"
  using good_slots by blast

end

subsection \<open>The EE controller keeps the contract\<close>

definition dm_slots :: "'a dmac_scheme \<Rightarrow> nat list" where
  "dm_slots s = (case dm_active s of None \<Rightarrow> [] | Some a \<Rightarrow> [a]) @ dm_queue s"

definition dm_line :: "'a dmac_scheme \<Rightarrow> nat \<Rightarrow> bool" where
  "dm_line s i \<longleftrightarrow> dc_dma_req (dm_channels s i)"

definition dm_ready :: "'a dmac_scheme \<Rightarrow> nat \<Rightarrow> bool" where
  "dm_ready s i \<longleftrightarrow> dc_dma_req (dm_channels s i) \<and> dc_started (dm_channels s i)"

definition dm_good :: "'a dmac_scheme \<Rightarrow> bool" where
  "dm_good s \<longleftrightarrow> distinct (dm_slots s) \<and> set (dm_slots s) = {i. dm_ready s i}"

text \<open>\<open>started\<close> is bit 8 of \<open>CHCR\<close>.\<close>

definition chcr_ok :: "'a dmac_scheme \<Rightarrow> bool" where
  "chcr_ok s \<longleftrightarrow> (\<forall>i. dc_started (dm_channels s i) = bit (dc_control (dm_channels s i)) 8)"

lemma dm_ready_cong:
  "dm_channels s' = dm_channels s \<Longrightarrow> dm_ready s' = dm_ready s"
  "dm_channels s' = dm_channels s \<Longrightarrow> dm_line s' = dm_line s"
  by (simp_all add: dm_ready_def dm_line_def fun_eq_iff)

lemma int1_check_keeps [simp]:
  "dm_channels (int1_check s) = dm_channels s" "dm_active (int1_check s) = dm_active s"
  "dm_queue (int1_check s) = dm_queue s"
  by (simp_all add: int1_check_def set_int1_signal_def)

lemma raise_stat_keeps [simp]:
  "dm_channels (raise_stat i s) = dm_channels s" "dm_active (raise_stat i s) = dm_active s"
  "dm_queue (raise_stat i s) = dm_queue s"
  by (simp_all add: raise_stat_def)

lemma find_new_active_ok:
  assumes "dm_queue s \<noteq> [] \<or> dm_active s \<noteq> None"
  shows "\<exists>s'. dm_find_new_active_channel s = Inr s' \<and> dm_channels s' = dm_channels s \<and>
           mset (dm_slots s') = mset (dm_slots s)"
  using assms
  by (cases "dm_queue s"; cases "dm_active s")
    (auto simp: dm_find_new_active_channel_def dm_slots_def Let_def)

text \<open>Deactivating removes the channel and nothing else, and never fails.\<close>

lemma deactivate_channel_ok:
  assumes "distinct (dm_slots s)"
  shows "\<exists>s'. deactivate_channel i s = Inr s' \<and> dm_channels s' = dm_channels s \<and>
           distinct (dm_slots s') \<and> set (dm_slots s') = set (dm_slots s) - {i}"
proof (cases "dm_active s = Some i")
  case True
  then have i: "i \<notin> set (dm_queue s)" using assms by (simp add: dm_slots_def)
  show ?thesis
  proof (cases "dm_queue s = []")
    case True2: True
    then show ?thesis using True by (simp add: deactivate_channel_def dm_slots_def)
  next
    case False
    let ?s = "s\<lparr>dm_active := None\<rparr>"
    obtain s' where s': "dm_find_new_active_channel ?s = Inr s'" "dm_channels s' = dm_channels s"
      "mset (dm_slots s') = mset (dm_slots ?s)"
      using find_new_active_ok [of ?s] False by auto
    have "distinct (dm_slots ?s)" using assms by (simp add: dm_slots_def)
    then have "distinct (dm_slots s')" "set (dm_slots s') = set (dm_slots ?s)"
      using mset_eq_imp_distinct_iff [OF s'(3)] mset_eq_setD [OF s'(3)] by simp_all
    moreover have "set (dm_slots ?s) = set (dm_slots s) - {i}"
      using True i by (auto simp: dm_slots_def)
    ultimately show ?thesis using True False s' by (auto simp: deactivate_channel_def)
  qed
next
  case False
  then show ?thesis
    using assms by (auto simp: deactivate_channel_def dm_slots_def split: option.splits)
qed

lemma check_for_activation_ok:
  assumes "distinct (dm_slots s)" and "i \<notin> set (dm_slots s)"
  shows "distinct (dm_slots (check_for_activation i s))"
    and "set (dm_slots (check_for_activation i s)) =
         set (dm_slots s) \<union> {j. j = i \<and> dm_ready s i}"
    and "dm_ready (check_for_activation i s) = dm_ready s"
    and "dm_line (check_for_activation i s) = dm_line s"
  using assms
  by (auto simp: check_for_activation_def Let_def dm_slots_def dm_ready_def dm_line_def
      put_chan_def fun_eq_iff split: option.splits)

lemma chcr_ok_check: "chcr_ok (check_for_activation i s) = chcr_ok s"
  by (auto simp: check_for_activation_def Let_def chcr_ok_def put_chan_def)

lemma put_req_lines:
  "dm_line (put_chan i (\<lambda>c. c\<lparr>dc_dma_req := b\<rparr>) s) j \<longleftrightarrow> (if j = i then b else dm_line s j)"
  "dm_slots (put_chan i f s) = dm_slots s"
  by (simp_all add: dm_line_def dm_slots_def put_chan_def)

lemma put_req_same:
  "dc_dma_req (dm_channels s i) = b \<Longrightarrow> put_chan i (\<lambda>c. c\<lparr>dc_dma_req := b\<rparr>) s = s"
  by (simp add: put_chan_def fun_upd_idem)

lemma check_for_activation_line: "dm_line (check_for_activation i s) = dm_line s"
  by (auto simp: check_for_activation_def Let_def dm_line_def put_chan_def fun_eq_iff)

lemma dm_set_request_line: "dm_line (dm_set_request i s) j \<longleftrightarrow> j = i \<or> dm_line s j"
  by (auto simp: dm_set_request_def Let_def check_for_activation_line put_req_lines)

lemma dm_set_request_good:
  assumes good: "dm_good s"
  shows "dm_good (dm_set_request i s)"
proof (cases "dc_dma_req (dm_channels s i)")
  case True
  then show ?thesis using good put_req_same [of s i True] by (simp add: dm_set_request_def)
next
  case False
  define s1 where "s1 = put_chan i (\<lambda>c. c\<lparr>dc_dma_req := True\<rparr>) s"
  have slots: "dm_slots s1 = dm_slots s" by (simp add: s1_def put_req_lines)
  have new: "i \<notin> set (dm_slots s1)"
    using False good by (auto simp: slots dm_good_def dm_ready_def)
  have dist: "distinct (dm_slots s1)" using good by (simp add: slots dm_good_def)
  have ready: "dm_ready s1 j \<longleftrightarrow> dm_ready s j \<or> (j = i \<and> dm_ready s1 i)" for j
    using False by (auto simp: dm_ready_def put_chan_def s1_def)
  have c: "dm_set_request i s = check_for_activation i s1"
    using False by (simp add: dm_set_request_def Let_def s1_def)
  have "set (dm_slots (check_for_activation i s1)) = {j. dm_ready s j} \<union> {j. j = i \<and> dm_ready s1 i}"
    unfolding check_for_activation_ok(2) [OF dist new] slots using good by (simp add: dm_good_def)
  also have "\<dots> = {j. dm_ready s1 j}"
  proof (rule set_eqI)
    fix j show "j \<in> {j. dm_ready s j} \<union> {j. j = i \<and> dm_ready s1 i} \<longleftrightarrow> j \<in> {j. dm_ready s1 j}"
      using ready [of j] by blast
  qed
  finally show ?thesis
    using check_for_activation_ok(1,3) [OF dist new] by (simp add: dm_good_def c)
qed

lemma dm_clear_request_ok:
  assumes "dm_good s"
  shows "\<exists>s'. dm_clear_request i s = Inr s' \<and> dm_good s' \<and>
           (\<forall>j. dm_line s' j \<longleftrightarrow> j \<noteq> i \<and> dm_line s j)"
proof (cases "dc_dma_req (dm_channels s i)")
  case True
  define s1 where "s1 = put_chan i (\<lambda>c. c\<lparr>dc_dma_req := False\<rparr>) s"
  have slots: "dm_slots s1 = dm_slots s" by (simp add: s1_def put_req_lines)
  obtain s' where s': "deactivate_channel i s1 = Inr s'" "dm_channels s' = dm_channels s1"
    "distinct (dm_slots s')" "set (dm_slots s') = set (dm_slots s) - {i}"
    using deactivate_channel_ok [of s1 i] assms by (auto simp: slots dm_good_def)
  have same: "dm_ready s' = dm_ready s1" "dm_line s' = dm_line s1"
    using s'(2) by (rule dm_ready_cong)+
  have "dm_ready s1 j \<longleftrightarrow> j \<noteq> i \<and> dm_ready s j" for j
    by (simp add: dm_ready_def put_chan_def s1_def)
  then have "dm_good s'" using s'(3,4) assms by (auto simp: dm_good_def same)
  moreover have "dm_line s' j \<longleftrightarrow> j \<noteq> i \<and> dm_line s j" for j
    by (simp add: same s1_def put_req_lines)
  moreover have "dm_clear_request i s = Inr s'"
    using s'(1) True by (simp add: dm_clear_request_def Let_def s1_def)
  ultimately show ?thesis by blast
next
  case False
  then show ?thesis
    using assms put_req_same [of s i False] by (auto simp: dm_clear_request_def dm_line_def)
qed

interpretation ee_dma: dma_requests dm_slots dm_ready dm_line dm_good dm_set_request dm_clear_request
proof
  fix s :: "'a dmac_scheme" and s' :: "'a dmac_scheme" and i j
  show "dm_good s \<Longrightarrow> distinct (dm_slots s) \<and> set (dm_slots s) = {i. dm_ready s i}"
    by (simp add: dm_good_def)
  show "dm_good s \<Longrightarrow> dm_good (dm_set_request i s)" by (rule dm_set_request_good)
  show "dm_line (dm_set_request i s) j \<longleftrightarrow> j = i \<or> dm_line s j" by (rule dm_set_request_line)
  show "dm_good s \<Longrightarrow> \<exists>s'. dm_clear_request i s = Inr s'" using dm_clear_request_ok by blast
  show "dm_good s \<Longrightarrow> dm_clear_request i s = Inr s' \<Longrightarrow> dm_good s'"
    using dm_clear_request_ok [of s i] by auto
  show "dm_good s \<Longrightarrow> dm_clear_request i s = Inr s' \<Longrightarrow> dm_line s' j \<longleftrightarrow> j \<noteq> i \<and> dm_line s j"
    using dm_clear_request_ok [of s i] by auto
qed

end
