(* ===== verification/Dmac_Correct.thy ===== *)
theory Dmac_Correct
  imports Dma_Arbitration
begin

unbundle bit_operations_syntax

section \<open>Properties of the EE DMA controller\<close>

text \<open>
  The events of \<open>dmac.cpp\<close> - request lines, register writes of every width, arbitration and the
  end of a transfer - and the invariant they keep: the running and queued channels are exactly the
  channels that are started and requested, and \<open>started\<close> is bit 8 of \<open>CHCR\<close>. The transfers
  themselves are not part of the model. \<open>gif_stop\<close> stands for \<open>gif->dma_running(false)\<close>.
\<close>

definition gif_frame :: "('a dmac_scheme \<Rightarrow> 'a dmac_scheme) \<Rightarrow> bool" where
  "gif_frame g \<longleftrightarrow> (\<forall>t. dm_channels (g t) = dm_channels t \<and> dm_active (g t) = dm_active t \<and>
     dm_queue (g t) = dm_queue t \<and> dm_control (g t) = dm_control t)"

text \<open>\<open>control.stall_dest_channel\<close> is a two-bit field, the range \<open>update_stadr\<close> switches over.\<close>

definition stall_dest_ok :: "'a dmac_scheme \<Rightarrow> bool" where
  "stall_dest_ok s \<longleftrightarrow> d_stall_dest_channel (dm_control s) \<in> {0, 1, 2, 3}"

definition dmac_ok :: "'a dmac_scheme \<Rightarrow> bool" where
  "dmac_ok s \<longleftrightarrow> dm_good s \<and> chcr_ok s"

subsection \<open>Frames\<close>

lemma dm_good_cong:
  "dm_channels t = dm_channels s \<Longrightarrow> dm_active t = dm_active s \<Longrightarrow> dm_queue t = dm_queue s \<Longrightarrow>
     dm_good t = dm_good s"
  by (simp add: dm_good_def dm_slots_def dm_ready_def split: option.splits)

lemma dmac_ok_cong:
  "dm_channels t = dm_channels s \<Longrightarrow> dm_active t = dm_active s \<Longrightarrow> dm_queue t = dm_queue s \<Longrightarrow>
     dmac_ok t = dmac_ok s"
  using dm_good_cong [of t s] by (simp add: dmac_ok_def chcr_ok_def)

lemma put_chan_keeps_ok:
  assumes "dmac_ok s"
    and "dc_dma_req (f (dm_channels s i)) = dc_dma_req (dm_channels s i)"
    and "dc_started (f (dm_channels s i)) = dc_started (dm_channels s i)"
    and "bit (dc_control (f (dm_channels s i))) 8 = bit (dc_control (dm_channels s i)) 8"
  shows "dmac_ok (put_chan i f s)"
proof -
  have "dm_ready (put_chan i f s) = dm_ready s"
    using assms(2,3) by (auto simp: dm_ready_def put_chan_def fun_eq_iff)
  moreover have "chcr_ok (put_chan i f s)"
    using assms by (auto simp: dmac_ok_def chcr_ok_def put_chan_def)
  ultimately show ?thesis
    using assms(1) by (simp add: dmac_ok_def dm_good_def put_req_lines)
qed

text \<open>A channel leaves the slots when it stops, and enters them when it starts.\<close>

lemma stop_chan_ok:
  assumes "dmac_ok s" and "\<not> dc_started (f (dm_channels s i))"
    and "\<not> bit (dc_control (f (dm_channels s i))) 8"
    and "dm_channels u = dm_channels (put_chan i f s)" and "dm_active u = dm_active s"
    and "dm_queue u = dm_queue s"
  shows "\<exists>s'. deactivate_channel i u = Inr s' \<and> dmac_ok s'"
proof -
  have slots: "dm_slots u = dm_slots s" using assms(5,6) by (simp add: dm_slots_def)
  then have "distinct (dm_slots u)" using assms(1) by (simp add: dmac_ok_def dm_good_def)
  from deactivate_channel_ok [OF this, of i]
  obtain s' where s': "deactivate_channel i u = Inr s'" "dm_channels s' = dm_channels u"
    "distinct (dm_slots s')" "set (dm_slots s') = set (dm_slots s) - {i}"
    by (auto simp: slots)
  have "dm_ready s' j \<longleftrightarrow> dm_ready s j \<and> j \<noteq> i" for j
    using s'(2) assms(2,4) by (auto simp: dm_ready_def put_chan_def)
  then have "dm_good s'" using assms(1) s'(3,4) by (auto simp: dmac_ok_def dm_good_def)
  moreover have "chcr_ok s'"
    using assms(1-4) s'(2) by (auto simp: dmac_ok_def chcr_ok_def put_chan_def)
  ultimately show ?thesis using s'(1) by (simp add: dmac_ok_def)
qed

lemma start_chan_ok:
  assumes "dmac_ok s" and "\<not> dm_ready s i"
    and "dc_started (f (dm_channels s i)) = bit (dc_control (f (dm_channels s i))) 8"
  shows "dmac_ok (check_for_activation i (put_chan i f s))"
proof -
  let ?s = "put_chan i f s"
  have dist: "distinct (dm_slots ?s)" using assms(1) by (simp add: dmac_ok_def dm_good_def put_req_lines)
  have new: "i \<notin> set (dm_slots ?s)"
    using assms(1,2) by (simp add: dmac_ok_def dm_good_def put_req_lines)
  have "dm_ready ?s j \<longleftrightarrow> dm_ready s j \<or> (j = i \<and> dm_ready ?s i)" for j
    using assms(2) by (auto simp: dm_ready_def put_chan_def)
  then have "{j. dm_ready s j} \<union> {j. j = i \<and> dm_ready ?s i} = {j. dm_ready ?s j}" by blast
  moreover have "set (dm_slots s) = {j. dm_ready s j}" using assms(1) by (simp add: dmac_ok_def dm_good_def)
  ultimately have "dm_good (check_for_activation i ?s)"
    using check_for_activation_ok [OF dist new] by (simp only: dm_good_def put_req_lines)
  moreover have "chcr_ok ?s"
    using assms(1,3) by (auto simp: dmac_ok_def chcr_ok_def put_chan_def)
  ultimately show ?thesis by (simp add: dmac_ok_def chcr_ok_check)
qed

subsection \<open>Events\<close>

lemma set_request_ok: "dmac_ok s \<Longrightarrow> dmac_ok (dm_set_request i s)"
proof -
  assume ok: "dmac_ok s"
  then have "chcr_ok (put_chan i (\<lambda>c. c\<lparr>dc_dma_req := True\<rparr>) s)"
    by (auto simp: dmac_ok_def chcr_ok_def put_chan_def)
  with ok show ?thesis
    using dm_set_request_good [of s i] by (simp add: dmac_ok_def dm_set_request_def Let_def chcr_ok_check)
qed

lemma clear_request_ok:
  assumes "dmac_ok s"
  shows "\<exists>s'. dm_clear_request i s = Inr s' \<and> dmac_ok s'"
proof -
  obtain s' where s': "dm_clear_request i s = Inr s'" "dm_good s'"
    using dm_clear_request_ok [of s i] assms by (auto simp: dmac_ok_def)
  let ?s = "put_chan i (\<lambda>c. c\<lparr>dc_dma_req := False\<rparr>) s"
  have dist: "distinct (dm_slots ?s)" using assms by (simp add: dmac_ok_def dm_good_def put_req_lines)
  have "dm_channels s' = dm_channels ?s"
    using s'(1) deactivate_channel_ok [OF dist, of i] by (auto simp: dm_clear_request_def Let_def split: if_splits)
  then have "chcr_ok s'" using assms by (auto simp: dmac_ok_def chcr_ok_def put_chan_def)
  with s' show ?thesis by (simp add: dmac_ok_def)
qed

lemma not_8_bit_8: "bit (w AND - 9 :: u32) 8 = bit w 8"
  by (simp add: bit_simps)

lemma start_mode_ok:
  "dc_started (start_mode q c)" "bit (dc_control (start_mode q c)) 8 = bit (dc_control c) 8"
  "dc_dma_req (start_mode q c) = dc_dma_req c"
  unfolding start_mode_def Let_def
  by (auto simp: not_8_bit_8 split: prod.split)

lemma fold_record:
  "s\<lparr>dm_channels := c, dm_cycles_to_run := n\<rparr> = s\<lparr>dm_cycles_to_run := n, dm_channels := c\<rparr>"
  by simp

lemma start_DMA_ok:
  assumes "dmac_ok s" and "\<not> dm_ready s i" and "bit v 8"
  shows "dmac_ok (start_DMA i (put_chan i (\<lambda>c. c\<lparr>dc_control := v\<rparr>) s))"
proof -
  let ?f = "\<lambda>c. start_mode (dm_transfer_qwc s) (c\<lparr>dc_control := v\<rparr>)"
  define t where "t = (if dm_active s = None then s\<lparr>dm_cycles_to_run := 0\<rparr> else s)"
  have "dmac_ok t = dmac_ok s" by (rule dmac_ok_cong) (simp_all add: t_def)
  moreover have "dm_ready t = dm_ready s" by (rule dm_ready_cong) (simp add: t_def)
  ultimately have "dmac_ok (check_for_activation i (put_chan i ?f t))"
    using assms by (intro start_chan_ok) (simp_all add: start_mode_ok)
  moreover have "start_DMA i (put_chan i (\<lambda>c. c\<lparr>dc_control := v\<rparr>) s) =
      check_for_activation i (put_chan i ?f t)"
    by (cases "dm_active s") (simp_all add: start_DMA_def Let_def put_chan_def t_def fold_record)
  ultimately show ?thesis by simp
qed

lemma chcr_masked_fields:
  "dc_dma_req (chcr_masked v c) = dc_dma_req c"
  "dc_started (chcr_masked v c) = bit (dc_control (chcr_masked v c)) 8"
  by (simp_all add: chcr_masked_def Let_def tst_iff_bit)

lemma not_started: "dmac_ok s \<Longrightarrow> \<not> bit (dc_control (dm_channels s i)) 8 \<Longrightarrow> \<not> dc_started (dm_channels s i)"
  by (simp add: dmac_ok_def chcr_ok_def)

lemma park_chan_ok:
  assumes "dmac_ok s" and "\<not> bit (dc_control (dm_channels s i)) 8" and "\<not> bit v 8"
    and "dm_channels u = dm_channels (put_chan i (\<lambda>c. c\<lparr>dc_control := v\<rparr>) s)"
    and "dm_active u = dm_active s" and "dm_queue u = dm_queue s"
  shows "dmac_ok (put_chan i (\<lambda>c. c\<lparr>dc_started := False\<rparr>) u)"
proof -
  have "dmac_ok (put_chan i (\<lambda>c. c\<lparr>dc_control := v, dc_started := False\<rparr>) s)"
    by (rule put_chan_keeps_ok) (use assms not_started in auto)
  moreover have "dmac_ok (put_chan i (\<lambda>c. c\<lparr>dc_started := False\<rparr>) u) =
      dmac_ok (put_chan i (\<lambda>c. c\<lparr>dc_control := v, dc_started := False\<rparr>) s)"
    by (rule dmac_ok_cong) (simp_all add: assms(4-6) put_chan_def)
  ultimately show ?thesis by simp
qed

lemma mask_chan_ok:
  assumes "dmac_ok s" and "dm_channels u = dm_channels (put_chan i (chcr_masked v) s)"
    and "dm_active u = dm_active s" and "dm_queue u = dm_queue s"
  shows "dc_started (dm_channels u i) \<Longrightarrow> bit (dc_control (dm_channels s i)) 8 \<Longrightarrow> dmac_ok u"
    and "\<not> dc_started (dm_channels u i) \<Longrightarrow> \<exists>s'. deactivate_channel i u = Inr s' \<and> dmac_ok s'"
proof -
  have at: "dm_channels u i = chcr_masked v (dm_channels s i)" by (simp add: assms(2) put_chan_def)
  show "dmac_ok u" if "dc_started (dm_channels u i)" "bit (dc_control (dm_channels s i)) 8"
  proof -
    have "dmac_ok (put_chan i (chcr_masked v) s)"
      by (rule put_chan_keeps_ok)
        (use assms(1) that at in \<open>auto simp: chcr_masked_fields dmac_ok_def chcr_ok_def\<close>)
    then show ?thesis by (subst dmac_ok_cong [of u]) (simp_all add: assms(2-4) put_chan_def)
  qed
  show "\<exists>s'. deactivate_channel i u = Inr s' \<and> dmac_ok s'" if "\<not> dc_started (dm_channels u i)"
    using stop_chan_ok [of s "chcr_masked v" i u] assms that at by (simp add: chcr_masked_fields)
qed

lemma write_chcr_ok:
  assumes "dmac_ok s"
  shows "\<exists>s'. write_chcr i v s = Inr s' \<and> dmac_ok s'"
proof (cases "bit (dc_control (dm_channels s i)) 8")
  case False
  then have "\<not> dm_ready s i" using not_started [OF assms] by (simp add: dm_ready_def)
  then have "bit v 8 \<Longrightarrow> dmac_ok (start_DMA i (put_chan i (\<lambda>c. c\<lparr>dc_control := v\<rparr>) s))"
    using start_DMA_ok [OF assms] by blast
  moreover have "\<not> bit v 8 \<Longrightarrow>
      dmac_ok (put_chan i (\<lambda>c. c\<lparr>dc_started := False\<rparr>) (put_chan i (\<lambda>c. c\<lparr>dc_control := v\<rparr>) s))"
    by (rule park_chan_ok [OF assms False]) (simp_all add: put_chan_def)
  ultimately show ?thesis
    using False by (simp add: write_chcr_def Let_def tst_iff_bit)
next
  case True
  let ?u = "put_chan i (chcr_masked v) s"
  have "write_chcr i v s = (if \<not> dc_started (dm_channels ?u i) then deactivate_channel i ?u else Inr ?u)"
    using True by (simp add: write_chcr_def Let_def tst_iff_bit)
  then show ?thesis
    using mask_chan_ok [OF assms, of ?u i v] True by (simp add: put_chan_def)
qed


lemma write_chcr_gif_ok:
  assumes "dmac_ok s" and "gif_frame g"
  shows "\<exists>s'. write_chcr_gif g v s = Inr s' \<and> dmac_ok s'"
proof (cases "bit (dc_control (dm_channels s GIF)) 8")
  case False
  then have "\<not> dm_ready s GIF" using not_started [OF assms(1)] by (simp add: dm_ready_def)
  then have "bit v 8 \<Longrightarrow> dmac_ok (start_DMA GIF (put_chan GIF (\<lambda>c. c\<lparr>dc_control := v\<rparr>) s))"
    using start_DMA_ok [OF assms(1)] by blast
  moreover have "\<not> bit v 8 \<Longrightarrow> dmac_ok (put_chan GIF (\<lambda>c. c\<lparr>dc_started := False\<rparr>)
      (g (put_chan GIF (\<lambda>c. c\<lparr>dc_control := v\<rparr>) s)))"
    by (rule park_chan_ok [OF assms(1) False]) (use assms(2) in \<open>simp_all add: gif_frame_def put_chan_def\<close>)
  ultimately show ?thesis
    using False by (simp add: write_chcr_gif_def Let_def tst_iff_bit)
next
  case True
  let ?u = "put_chan GIF (chcr_masked v) s"
  have e: "write_chcr_gif g v s =
      (if \<not> dc_started (dm_channels ?u GIF) then deactivate_channel GIF (g ?u) else Inr ?u)"
    using True by (simp add: write_chcr_gif_def Let_def tst_iff_bit)
  have f: "dm_channels (g ?u) = dm_channels ?u" "dm_active (g ?u) = dm_active s" "dm_queue (g ?u) = dm_queue s"
    using assms(2) by (simp_all add: gif_frame_def put_chan_def)
  show ?thesis
    using mask_chan_ok(1) [OF assms(1), of ?u GIF v] mask_chan_ok(2) [OF assms(1) f] True
    by (simp add: e f(1)) (simp add: put_chan_def)
qed

text \<open>The plain registers touch neither \<open>CHCR\<close> nor the request state.\<close>

lemma plain_fields:
  assumes "map_of (vif_write_map @ gif_ipu_write_map @ sif_write_map @ spr_write_map) a = Some (i, f)"
  shows "dc_dma_req (f v c) = dc_dma_req c \<and> dc_started (f v c) = dc_started c \<and> dc_control (f v c) = dc_control c"
proof -
  have "f \<in> {set_madr, set_qwc, set_tadr, set_asr0, set_asr1, set_sadr}"
    using map_of_SomeD [OF assms]
    by (simp add: vif_write_map_def gif_ipu_write_map_def sif_write_map_def spr_write_map_def) blast
  then show ?thesis
    by (auto simp: set_madr_def set_qwc_def set_tadr_def set_asr0_def set_asr1_def set_sadr_def)
qed

lemma write_d_stat_keeps [simp]:
  "dm_channels (write_d_stat v s) = dm_channels s" "dm_active (write_d_stat v s) = dm_active s"
  "dm_queue (write_d_stat v s) = dm_queue s"
  by (simp_all add: write_d_stat_def)

lemma update_stadr_ok:
  assumes "dmac_ok s" and "stall_dest_ok s"
  shows "\<exists>s'. update_stadr a s = Inr s' \<and> dmac_ok s'"
proof -
  let ?s = "s\<lparr>dm_STADR := a\<rparr>"
  have "dmac_ok ?s" using assms(1) by (subst dmac_ok_cong [of ?s s]) simp_all
  moreover have "d_stall_dest_channel (dm_control s) \<in> {0, 1, 2, 3}"
    using assms(2) by (simp add: stall_dest_ok_def)
  ultimately show ?thesis
    using set_request_ok [of ?s] by (auto simp: update_stadr_def Let_def)
qed

lemma dmac_write32_ok:
  assumes ok: "dmac_ok s" and d: "stall_dest_ok s" and g: "gif_frame g"
  shows "\<exists>s'. dmac_write32 g a v s = Inr s' \<and> dmac_ok s'"
proof (cases "map_of (vif_write_map @ gif_ipu_write_map @ sif_write_map @ spr_write_map) a")
  case (Some p)
  obtain i f where p: "p = (i, f)" by (cases p)
  have "dmac_ok (put_chan i (f v) s)"
    by (rule put_chan_keeps_ok [OF ok]) (use plain_fields [OF Some [unfolded p]] in auto)
  then show ?thesis unfolding dmac_write32_def Some p option.case prod.case by blast
next
  case plain: None
  show ?thesis
  proof (cases "map_of chcr_map a")
    case (Some i)
    show ?thesis
      unfolding dmac_write32_def plain Some option.case by (rule write_chcr_ok [OF ok])
  next
    case None
    have cong: "dmac_ok t" if "dm_channels t = dm_channels s" "dm_active t = dm_active s" "dm_queue t = dm_queue s" for t
      using ok by (simp add: dmac_ok_cong [OF that])
    show ?thesis
      unfolding dmac_write32_def plain None option.case
      using write_chcr_gif_ok [OF ok g, of v] update_stadr_ok [OF ok d, of v] ok
      by (simp, intro conjI impI cong) simp_all
  qed
qed


lemma dmac_write16_ok:
  assumes "dmac_ok s" and "stall_dest_ok s" and "gif_frame g"
  shows "\<exists>s'. dmac_write16 g a v s = Inr s' \<and> dmac_ok s'"
  using dmac_write32_ok [OF assms] assms(1)
  unfolding dmac_write16_def Let_def by (simp split: option.split)

lemma low_byte_8: "bit ((w AND - 256) OR ucast (v :: u8) :: u32) 8 = bit w 8"
  using bit_imp_le_length [of v 8] by (auto simp: bit_simps)

lemma dmac_write8_ok:
  assumes "dmac_ok s" and "stall_dest_ok s" and "gif_frame g"
  shows "\<exists>s'. dmac_write8 g a v s = Inr s' \<and> dmac_ok s'"
proof -
  have low: "dmac_ok (set_low_byte i v s)" for i
    unfolding set_low_byte_def
    by (rule put_chan_keeps_ok [OF assms(1)]) (simp_all add: low_byte_8)
  have ctrl: "dmac_ok (s\<lparr>dm_control := c\<rparr>)" for c
    using assms(1) by (subst dmac_ok_cong [of _ s]) simp_all
  show ?thesis
    using dmac_write32_ok [OF assms] low ctrl assms(1)
    unfolding dmac_write8_def Let_def by simp
qed

lemma clear_start_bit: "\<not> bit (w AND - 257 :: u32) 8"
  by (simp add: bit_simps)

lemma transfer_end_ok:
  assumes "dmac_ok s"
  shows "\<exists>s'. dm_transfer_end i s = Inr s' \<and> dmac_ok s'"
proof -
  let ?f = "\<lambda>c. c\<lparr>dc_control := dc_control c AND NOT 0x100, dc_started := False\<rparr>"
  show ?thesis
    unfolding dm_transfer_end_def
    by (rule stop_chan_ok [OF assms, of ?f i]) (simp_all add: clear_start_bit put_chan_def)
qed

lemma arbitrate_ok:
  assumes "dmac_ok s"
  shows "\<exists>s'. dm_arbitrate s = Inr s' \<and> dmac_ok s'"
proof (cases "dm_queue s = []")
  case False
  then obtain s' where s': "dm_find_new_active_channel s = Inr s'" "dm_channels s' = dm_channels s"
    "mset (dm_slots s') = mset (dm_slots s)"
    using find_new_active_ok by blast
  then have "distinct (dm_slots s') = distinct (dm_slots s)" "set (dm_slots s') = set (dm_slots s)"
    using mset_eq_imp_distinct_iff [OF s'(3)] mset_eq_setD [OF s'(3)] by simp_all
  then have "dmac_ok s'"
    using assms dm_ready_cong(1) [OF s'(2)] s'(2) by (simp add: dmac_ok_def dm_good_def chcr_ok_def)
  then show ?thesis using s'(1) False by (simp add: dm_arbitrate_def)
qed (use assms in \<open>simp add: dm_arbitrate_def\<close>)


text \<open>The stall destination stays in the range of \<open>update_stadr\<close>.\<close>

lemma two_bits: "ucast (fld (w :: u32) k 2) \<in> {0, 1, 2, 3 :: u8}"
proof -
  let ?x = "ucast (fld w k 2) :: u8"
  have "unat ?x < 4"
    using fld_less [of 2 w k] unat_ucast_up [of "?x"]
    by (simp add: word_less_nat_alt unsigned_ucast_eq take_bit_nat_eq_self)
  then have "unat ?x \<in> {0, 1, 2, 3}" by auto
  then have "of_nat (unat ?x) \<in> (of_nat ` {0, 1, 2, 3} :: u8 set)" by (rule imageI)
  then show ?thesis by simp
qed

lemma control_keeps [simp]:
  "dm_control (put_chan i f s) = dm_control s" "dm_control (raise_stat i s) = dm_control s"
  "dm_control (check_for_activation i s) = dm_control s" "dm_control (dm_set_request i s) = dm_control s"
  "dm_control (start_DMA i s) = dm_control s" "dm_control (write_d_stat v s) = dm_control s"
  by (simp_all add: put_chan_def raise_stat_def int1_check_def set_int1_signal_def
      check_for_activation_def Let_def dm_set_request_def start_DMA_def write_d_stat_def)

lemma find_new_control: "ok_post (dm_find_new_active_channel s) (\<lambda>t. dm_control t = dm_control s)"
  by (auto simp: dm_find_new_active_channel_def Let_def split: list.split)

lemma deactivate_control: "ok_post (deactivate_channel i s) (\<lambda>t. dm_control t = dm_control s)"
  using find_new_control [of "s\<lparr>dm_active := None\<rparr>"] by (simp add: deactivate_channel_def Let_def)


lemma write_chcr_control: "ok_post (write_chcr i v s) (\<lambda>t. dm_control t = dm_control s)"
  using deactivate_control [of i "put_chan i (chcr_masked v) s"]
  by (simp add: write_chcr_def Let_def)

lemma write_chcr_gif_control:
  assumes "gif_frame g"
  shows "ok_post (write_chcr_gif g v s) (\<lambda>t. dm_control t = dm_control s)"
  using deactivate_control [of GIF "g (put_chan GIF (chcr_masked v) s)"] assms
  by (simp add: write_chcr_gif_def Let_def gif_frame_def)

lemma ok_post_option:
  "ok_post m P \<Longrightarrow> (\<And>y. ok_post (f y) P) \<Longrightarrow> ok_post (case x of None \<Rightarrow> m | Some y \<Rightarrow> f y) P"
  by (cases x) simp_all

lemma dmac_write32_stall:
  assumes "gif_frame g" and "stall_dest_ok s"
  shows "ok_post (dmac_write32 g a v s) stall_dest_ok"
proof -
  have keep: "ok_post m stall_dest_ok" if "ok_post m (\<lambda>t. dm_control t = dm_control s)" for m
    using that assms(2) by (cases m) (simp_all add: stall_dest_ok_def)
  have stadr: "ok_post (update_stadr v s) (\<lambda>t. dm_control t = dm_control s)"
    by (simp add: update_stadr_def Let_def)
  have load: "stall_dest_ok (s\<lparr>dm_control := load_ctrl v\<rparr>)"
    using two_bits [of v 6] by (simp add: stall_dest_ok_def load_ctrl_def)
  have same: "stall_dest_ok t" if "dm_control t = dm_control s" for t
    using that assms(2) by (simp add: stall_dest_ok_def)
  have plain: "ok_post (case p of (i, f) \<Rightarrow> Inr (put_chan i (f v) s)) stall_dest_ok" for p
    by (cases p) (simp add: same)
  note rules = ok_post_option ok_post_if ok_Inr load plain keep [OF write_chcr_control]
    keep [OF write_chcr_gif_control [OF assms(1)]] keep [OF stadr]
  show ?thesis
    unfolding dmac_write32_def
    by (intro rules same) simp_all
qed

lemma dmac_write16_stall:
  "gif_frame g \<Longrightarrow> stall_dest_ok s \<Longrightarrow> ok_post (dmac_write16 g a v s) stall_dest_ok"
  unfolding dmac_write16_def Let_def
  by (auto split: option.split intro: dmac_write32_stall simp del: map_of.simps)

lemma dmac_write8_stall:
  assumes "gif_frame g" and "stall_dest_ok s"
  shows "ok_post (dmac_write8 g a v s) stall_dest_ok"
proof -
  have low: "stall_dest_ok (set_low_byte i v s)" for i
    using assms(2) by (simp add: set_low_byte_def stall_dest_ok_def)
  have ctrl: "stall_dest_ok (s\<lparr>dm_control := dm_control s\<lparr>d_master_enable := b, d_cycle_stealing := c,
      d_mem_drain_channel := m, d_stall_source_channel := k,
      d_stall_dest_channel := ucast (fld (ucast v :: u32) 6 2)\<rparr>\<rparr>)" for b c m k
    using two_bits [of "ucast v" 6] by (simp add: stall_dest_ok_def)
  show ?thesis
    using dmac_write32_stall [OF assms] low ctrl assms(2)
    unfolding dmac_write8_def Let_def by simp
qed

subsection \<open>Runs of the controller\<close>

inductive dmac_step :: "('a dmac_scheme \<Rightarrow> 'a dmac_scheme) \<Rightarrow> 'a dmac_scheme \<Rightarrow> 'a dmac_scheme res \<Rightarrow> bool"
  for g where
  request: "dmac_step g s (Inr (dm_set_request i s))"
| drop: "dmac_step g s (dm_clear_request i s)"
| w32: "dmac_step g s (dmac_write32 g a v s)"
| w16: "dmac_step g s (dmac_write16 g a v' s)"
| w8: "dmac_step g s (dmac_write8 g a v'' s)"
| arbitrate: "dmac_step g s (dm_arbitrate s)"
| finish: "dmac_step g s (dm_transfer_end i s)"

inductive dmac_reachable :: "('a dmac_scheme \<Rightarrow> 'a dmac_scheme) \<Rightarrow> 'a dmac_scheme \<Rightarrow> bool" for g where
  start: "stall_dest_ok s \<Longrightarrow> (\<And>i. 15 \<le> i \<Longrightarrow> \<not> dc_started (dm_channels s i)) \<Longrightarrow>
     (\<And>i. 15 \<le> i \<Longrightarrow> \<not> bit (dc_control (dm_channels s i)) 8) \<Longrightarrow> dmac_reachable g (dmac_reset s)"
| step: "dmac_reachable g s \<Longrightarrow> dmac_step g s (Inr s') \<Longrightarrow> dmac_reachable g s'"

lemma dmac_step_ok:
  assumes "dmac_step g s r" and "dmac_ok s" and "stall_dest_ok s" and "gif_frame g"
  shows "\<exists>s'. r = Inr s' \<and> dmac_ok s' \<and> stall_dest_ok s'"
proof -
  have same: "stall_dest_ok t" if "dm_control t = dm_control s" for t
    using that assms(3) by (simp add: stall_dest_ok_def)
  have "\<exists>s'. r = Inr s' \<and> dmac_ok s'"
    using assms(1)
    by cases (use set_request_ok clear_request_ok dmac_write32_ok dmac_write16_ok dmac_write8_ok
        arbitrate_ok transfer_end_ok assms(2-4) in auto)
  moreover have "ok_post r stall_dest_ok"
    using assms(1)
  proof cases
    case (drop i)
    show ?thesis unfolding drop dm_clear_request_def Let_def
      by (intro ok_post_if ok_post_mono [OF deactivate_control]) (simp_all add: same)
  next
    case arbitrate
    show ?thesis unfolding arbitrate dm_arbitrate_def
      by (intro ok_post_if ok_post_mono [OF find_new_control]) (simp_all add: same assms(3))
  next
    case (finish i)
    show ?thesis unfolding finish dm_transfer_end_def
      by (intro ok_post_mono [OF deactivate_control]) (simp add: same)
  qed (simp_all add: same dmac_write32_stall dmac_write16_stall dmac_write8_stall assms(3,4))
  ultimately show ?thesis by auto
qed


lemma dmac_reset_ok:
  assumes "\<And>i. 15 \<le> i \<Longrightarrow> \<not> dc_started (dm_channels s i)"
    and "\<And>i. 15 \<le> i \<Longrightarrow> \<not> bit (dc_control (dm_channels s i)) 8"
  shows "dmac_ok (dmac_reset s)"
  using assms by (auto simp: dmac_ok_def dm_good_def dm_slots_def dm_ready_def chcr_ok_def dmac_reset_def)

lemma dmac_reachable_good:
  assumes "gif_frame g" and "dmac_reachable g s"
  shows "dmac_ok s \<and> stall_dest_ok s"
  using assms(2)
proof induction
  case (start s)
  then show ?case using dmac_reset_ok [of s] by (simp add: stall_dest_ok_def dmac_reset_def)
next
  case (step s s')
  then show ?case using dmac_step_ok [OF step.hyps(2)] assms(1) by auto
qed

section \<open>Properties\<close>

text \<open>C6: however devices raise and drop their request lines, software writes the registers and
  the controller arbitrates and ends transfers, the running and the queued channels are, each once,
  exactly the channels that are started and requested; \<open>started\<close> is bit 8 of \<open>CHCR\<close>.\<close>

theorem dmac_runs_ready_channels:
  assumes "gif_frame g" and "dmac_reachable g s"
  shows "distinct (dm_slots s) \<and>
    (i \<in> set (dm_slots s) \<longleftrightarrow> dc_started (dm_channels s i) \<and> dc_dma_req (dm_channels s i)) \<and>
    (dc_started (dm_channels s i) \<longleftrightarrow> bit (dc_control (dm_channels s i)) 8)"
  using dmac_reachable_good [OF assms] by (auto simp: dmac_ok_def dm_good_def dm_ready_def chcr_ok_def)

definition idle_dmac :: dmac where
  "idle_dmac = dmac_reset (undefined\<lparr>dm_control := load_ctrl 1, dm_channels := (\<lambda>_. undefined
     \<lparr>dc_control := 0, dc_started := False\<rparr>)\<rparr>)"

lemma idle_reachable: "dmac_reachable (\<lambda>t. t) idle_dmac"
  unfolding idle_dmac_def
  by (rule dmac_reachable.start) (simp_all add: stall_dest_ok_def load_ctrl_def fld_def)

lemma gif_frame_id: "gif_frame (\<lambda>t. t)"
  by (simp add: gif_frame_def)

definition spr_started :: dmac where
  "spr_started = (case dmac_write32 (\<lambda>t. t) 0x1000D000 0x100 idle_dmac of Inr s \<Rightarrow> s)"

lemma spr_reachable: "dmac_write32 (\<lambda>t. t) 0x1000D000 0x100 idle_dmac = Inr spr_started"
proof -
  obtain t where "dmac_write32 (\<lambda>t. t) 0x1000D000 0x100 idle_dmac = Inr t"
    using dmac_write32_ok [OF _ _ gif_frame_id, of idle_dmac] dmac_reachable_good [OF gif_frame_id idle_reachable]
    by blast
  then show ?thesis by (simp add: spr_started_def)
qed

lemma spr_started_reachable: "dmac_reachable (\<lambda>t. t) spr_started"
  by (metis dmac_reachable.step idle_reachable dmac_step.w32 spr_reachable)

lemma spr_started_active: "dm_active spr_started = Some 8"
  by (simp add: spr_started_def dmac_write32_def vif_write_map_def gif_ipu_write_map_def
      sif_write_map_def spr_write_map_def chcr_map_def write_chcr_def idle_dmac_def dmac_reset_def
      start_DMA_def start_mode_def check_for_activation_def stall_checked_def load_ctrl_def
      put_chan_def Let_def tst_iff_bit fld_def)

theorem dmac_runs_ready_channels_witness:
  "dc_started (dm_channels spr_started 8) \<and> dc_dma_req (dm_channels spr_started 8)"
  using dmac_runs_ready_channels [OF gif_frame_id spr_started_reachable, of 8] spr_started_active
  by (simp add: dm_slots_def)

text \<open>No event of a reachable controller fails: nothing reads an empty queue and
  \<open>update_stadr\<close> never meets a stall destination it does not know.\<close>

lemma dmac_events_succeed:
  assumes "gif_frame g" and "dmac_reachable g s" and "dmac_step g s r"
  shows "\<exists>s'. r = Inr s' \<and> dmac_reachable g s'"
  using dmac_step_ok [OF assms(3)] dmac_reachable_good [OF assms(1,2)] assms
    dmac_reachable.step [OF assms(2)] by blast

lemma dmac_events_succeed_witness:
  "\<exists>s'. dm_transfer_end 8 spr_started = Inr s' \<and> dmac_reachable (\<lambda>t. t) s'"
  by (rule dmac_events_succeed [OF gif_frame_id spr_started_reachable dmac_step.finish])

definition arbitrations :: "nat \<Rightarrow> 'a dmac_scheme \<Rightarrow> 'a dmac_scheme res" where
  "arbitrations k = for_upto k (\<lambda>_. dm_arbitrate)"

lemma arbitrate_rotates:
  assumes "dm_active s = Some a"
  shows "\<exists>s' b. dm_arbitrate s = Inr s' \<and> dm_active s' = Some b \<and> dm_slots s' = rotate1 (dm_slots s)"
  using assms
  by (cases "dm_queue s") (auto simp: dm_arbitrate_def dm_find_new_active_channel_def dm_slots_def)

lemma arbitrations_rotate:
  "dm_active s = Some a \<Longrightarrow>
     \<exists>s' b. arbitrations k s = Inr s' \<and> dm_active s' = Some b \<and> dm_slots s' = rotate k (dm_slots s)"
proof (induction k)
  case (Suc k)
  then obtain s' b where s': "arbitrations k s = Inr s'" "dm_active s' = Some b"
    "dm_slots s' = rotate k (dm_slots s)" by blast
  show ?case using arbitrate_rotates [OF s'(2)] s' by (auto simp: arbitrations_def)
qed (simp add: arbitrations_def)

text \<open>C32: arbitration is a round robin: with a channel running, \<open>k\<close> arbitrations make the
  channel in the \<open>k\<close>th place of the queue the running one and rotate the others behind it.\<close>

theorem dmac_round_robin:
  assumes "dm_active s = Some a" and "k < length (dm_slots s)"
  shows "\<exists>s'. arbitrations k s = Inr s' \<and> dm_active s' = Some (dm_slots s ! k) \<and>
           dm_slots s' = rotate k (dm_slots s)"
proof -
  obtain s' b where s': "arbitrations k s = Inr s'" "dm_active s' = Some b"
    "dm_slots s' = rotate k (dm_slots s)" using arbitrations_rotate [OF assms(1)] by blast
  then have "b = hd (rotate k (dm_slots s))" by (metis dm_slots_def option.simps(5) append_Cons list.sel(1))
  then have "b = dm_slots s ! k" using assms(2) by (cases "dm_slots s") (auto simp: hd_rotate_conv_nth)
  with s' show ?thesis by simp
qed

theorem dmac_round_robin_witness:
  "\<exists>s'. arbitrations 2 (undefined\<lparr>dm_active := Some 1, dm_queue := [2, 8]\<rparr> :: dmac) = Inr s' \<and>
     dm_active s' = Some 8 \<and> dm_slots s' = [8, 1, 2]"
  using dmac_round_robin [of "undefined\<lparr>dm_active := Some 1, dm_queue := [2, 8]\<rparr> :: dmac" 1 2]
  by (simp add: dm_slots_def rotate_def numeral_2_eq_2)


text \<open>A channel that is stalled at the moment it starts, with nothing running, is queued behind
  no running channel, and no later update of the stall address wakes it: \<open>update_stadr\<close> raises a
  request line that is already high, which does nothing.\<close>

lemma stalled_start_not_woken:
  assumes "dm_active s = None" and "dm_queue s = []" and "stall_checked i s" and "dm_ready s i"
    and "dc_can_stall_drain (dm_channels s i)" and "dc_address (dm_channels s i) = dm_STADR s"
  shows "\<exists>t. update_stadr addr (check_for_activation i s) = Inr t \<and> dm_active t = None \<and> dm_queue t = [i]"
proof -
  let ?t = "check_for_activation i s"
  have t: "dm_active ?t = None" "dm_queue ?t = [i]" "dc_dma_req (dm_channels ?t i)"
    using assms by (auto simp: check_for_activation_def Let_def dm_ready_def put_chan_def)
  have idle: "dm_set_request i u = u" if "dc_dma_req (dm_channels u i)" for u :: "'a dmac_scheme"
    using that put_req_same [of u i True] by (simp add: dm_set_request_def)
  show ?thesis
    using assms(3) t idle [of "?t\<lparr>dm_STADR := addr\<rparr>"]
    by (auto simp: update_stadr_def Let_def stall_checked_def)
qed

definition stalled_gif :: dmac where
  "stalled_gif = undefined\<lparr>dm_active := None, dm_queue := [], dm_STADR := 0x1000,
     dm_control := load_ctrl 0x80, dm_channels := (\<lambda>_. undefined\<lparr>dc_dma_req := True,
       dc_started := True, dc_can_stall_drain := True, dc_address := 0x1000\<rparr>)\<rparr>"

lemma stalled_start_not_woken_witness:
  "\<exists>t. update_stadr 0x8000 (check_for_activation GIF stalled_gif) = Inr t \<and>
     dm_active t = None \<and> dm_queue t = [GIF]"
  by (rule stalled_start_not_woken)
    (simp_all add: stalled_gif_def stall_checked_def load_ctrl_def fld_def dm_ready_def
      mask_eq_exp_minus_1)

lemma bit_fold_flags:
  "n < 32 \<Longrightarrow> bit (fold (\<lambda>i reg. reg OR flag_at i (P i) OR flag_at (i + 16) (Q i)) xs r :: u32) n \<longleftrightarrow>
     bit r n \<or> (\<exists>i\<in>set xs. n = i \<and> P i \<or> n = i + 16 \<and> Q i)"
  by (induction xs arbitrary: r) (simp_all add: bit_or_iff bit_flag_at disj_ac)

lemma bit_stat_value:
  "i < 15 \<Longrightarrow> bit (stat_value s) i = dm_stat s i"
  "i < 15 \<Longrightarrow> bit (stat_value s) (16 + i) = dm_mask s i"
  by (auto simp: stat_value_def bit_fold_flags)

lemma read_d_stat: "dmac_read32 0x1000E010 s = stat_value s"
  by (simp add: dmac_read32_def chan_read_map_def)

lemma write_d_stat_address: "dmac_write32 g 0x1000E010 v s = Inr (write_d_stat v s)"
  by (simp add: dmac_write32_def vif_write_map_def gif_ipu_write_map_def sif_write_map_def
      spr_write_map_def chcr_map_def)

lemma write_d_stat_bits:
  "dm_stat (write_d_stat v s) i \<longleftrightarrow> dm_stat s i \<and> \<not> (i < 15 \<and> bit v i)"
  "dm_mask (write_d_stat v s) i \<longleftrightarrow> dm_mask s i \<noteq> (i < 15 \<and> bit v (16 + i))"
  "cc_int1_pending (cop0_cause (write_d_stat v s)) \<longleftrightarrow>
     (\<exists>j<15. dm_stat (write_d_stat v s) j \<and> dm_mask (write_d_stat v s) j)"
  by (auto simp: write_d_stat_def int1_check_def set_int1_signal_def tst_iff_bit list_ex_iff
      add.commute atLeast0LessThan)

text \<open>The status register: a one written to a status bit clears it, a one written to a mask
  bit flips it, and INT1 is high afterwards exactly when an enabled channel has its bit set.\<close>

lemma d_stat_write:
  assumes "i < 15"
  shows "\<exists>t. dmac_write32 g 0x1000E010 v s = Inr t \<and>
    (bit (dmac_read32 0x1000E010 t) i \<longleftrightarrow> bit (dmac_read32 0x1000E010 s) i \<and> \<not> bit v i) \<and>
    (bit (dmac_read32 0x1000E010 t) (16 + i) \<longleftrightarrow>
       bit (dmac_read32 0x1000E010 s) (16 + i) \<noteq> bit v (16 + i)) \<and>
    (cc_int1_pending (cop0_cause t) \<longleftrightarrow>
       (\<exists>j<15. bit (dmac_read32 0x1000E010 t) j \<and> bit (dmac_read32 0x1000E010 t) (16 + j)))"
  using assms
  by (simp add: write_d_stat_address read_d_stat bit_stat_value write_d_stat_bits cong: conj_cong)

lemma d_stat_write_witness:
  "\<exists>t. dmac_write32 (\<lambda>t. t) 0x1000E010 0x40004 (undefined\<lparr>dm_stat := (\<lambda>_. True), dm_mask := (\<lambda>_. False)\<rparr> :: dmac) = Inr t \<and>
     \<not> bit (dmac_read32 0x1000E010 t) 2 \<and> bit (dmac_read32 0x1000E010 t) 18"
  using d_stat_write [of 2 "\<lambda>t. t" "0x40004" "undefined\<lparr>dm_stat := (\<lambda>_. True), dm_mask := (\<lambda>_. False)\<rparr> :: dmac"]
  by (auto simp: read_d_stat bit_stat_value bit_stat_value(2) [of 2, simplified] bit_simps)

end
