(* ===== verification/Iop_Dma.thy ===== *)
theory Iop_Dma
  imports Dma_Arbitration
begin

unbundle bit_operations_syntax

section \<open>The IOP DMA controller: registers and arbitration\<close>

text \<open>
  \<open>src/core/iop/iop_dma.cpp\<close> and \<open>iop_dma.hpp\<close> without the \<open>process_*\<close> functions (theory
  \<open>Iop_Dma_Run\<close>). The channel of the highest index runs and the others wait. A pointer to a
  channel is its index; the two-element arrays of \<open>DMA_DICR\<close> are functions of \<open>dicr2\<close>. The
  2 MB of IOP memory that \<open>RAM\<close> points to are part of this record. The entry points of the
  devices that are not modelled (SPU cores 0 and 1, CDVD drive) are the argument \<open>dev\<close>.
\<close>

subsection \<open>State\<close>

abbreviation IOP_CDVD :: nat where "IOP_CDVD \<equiv> 3"
abbreviation IOP_SPU :: nat where "IOP_SPU \<equiv> 4"
abbreviation IOP_SPU2 :: nat where "IOP_SPU2 \<equiv> 8"
abbreviation IOP_SIF0 :: nat where "IOP_SIF0 \<equiv> 10"
abbreviation IOP_SIF1 :: nat where "IOP_SIF1 \<equiv> 11"
abbreviation IOP_SIO2in :: nat where "IOP_SIO2in \<equiv> 12"
abbreviation IOP_SIO2out :: nat where "IOP_SIO2out \<equiv> 13"

record iop_chan_control =
  ch_direction_from :: bool
  ch_unk8 :: bool
  ch_sync_mode :: u8
  ch_busy :: bool
  ch_unk30 :: bool

record iop_dma_channel =
  ch_addr :: u32
  ch_word_count :: u32
  ch_size :: u32
  ch_block_size :: u16
  ch_control :: iop_chan_control
  ch_tag_addr :: u32
  ch_tag_end :: bool
  ch_dma_req :: bool
  ch_delay :: int

record iop_dma = dmac +
  iop_RAM :: "u32 \<Rightarrow> u8"
  id_channels :: "nat \<Rightarrow> iop_dma_channel"
  id_active :: "nat option"
  id_queue :: "nat list"
  id_priorities :: "nat \<Rightarrow> u8"
  id_enable :: "nat \<Rightarrow> bool"
  id_force_IRQ :: "bool \<Rightarrow> bool"
  id_STAT :: "bool \<Rightarrow> u8"
  id_MASK :: "bool \<Rightarrow> u8"
  id_master_int_enable :: "bool \<Rightarrow> bool"

record 's iop_dev =
  dev_spu_start_DMA :: "nat \<Rightarrow> u32 \<Rightarrow> 's \<Rightarrow> 's res"
  dev_spu_pause_DMA :: "nat \<Rightarrow> 's \<Rightarrow> 's res"
  dev_spu_running_ADMA :: "nat \<Rightarrow> 's \<Rightarrow> bool"
  dev_spu_write_ADMA :: "nat \<Rightarrow> u32 \<Rightarrow> 's \<Rightarrow> 's res"
  dev_spu_write_DMA :: "nat \<Rightarrow> u32 \<Rightarrow> 's \<Rightarrow> 's res"
  dev_spu_read_DMA :: "nat \<Rightarrow> 's \<Rightarrow> (u32 \<times> 's) res"
  dev_spu_finish_DMA :: "nat \<Rightarrow> 's \<Rightarrow> 's res"
  dev_cdvd_read_to_RAM :: "u32 \<Rightarrow> u32 \<Rightarrow> 's \<Rightarrow> (u32 \<times> 's) res"

definition put_ch ::
    "nat \<Rightarrow> (iop_dma_channel \<Rightarrow> iop_dma_channel) \<Rightarrow> 'a iop_dma_scheme \<Rightarrow> 'a iop_dma_scheme" where
  "put_ch i f s = s\<lparr>id_channels := (id_channels s)(i := f (id_channels s i))\<rparr>"

definition id_ready :: "'a iop_dma_scheme \<Rightarrow> nat \<Rightarrow> bool" where
  "id_ready s i \<longleftrightarrow> ch_dma_req (id_channels s i) \<and> ch_busy (ch_control (id_channels s i))"

subsection \<open>Arbitration\<close>

definition active_dma_check :: "nat \<Rightarrow> 'a iop_dma_scheme \<Rightarrow> 'a iop_dma_scheme" where
  "active_dma_check i s =
     (if id_ready s i
      then (case id_active s of
              None \<Rightarrow> s\<lparr>id_active := Some i\<rparr>
            | Some a \<Rightarrow> if a < i then s\<lparr>id_queue := id_queue s @ [a], id_active := Some i\<rparr>
                        else s\<lparr>id_queue := id_queue s @ [i]\<rparr>)
      else s)"

text \<open>The loop of \<open>find_new_active_channel\<close>: the largest index in the queue.\<close>

definition id_find_new_active_channel :: "'a iop_dma_scheme \<Rightarrow> 'a iop_dma_scheme" where
  "id_find_new_active_channel s =
     (if id_queue s = [] then s\<lparr>id_active := None\<rparr>
      else let m = fold max (id_queue s) 0
           in s\<lparr>id_active := Some m, id_queue := remove1 m (id_queue s)\<rparr>)"

definition deactivate_dma :: "nat \<Rightarrow> 'a iop_dma_scheme \<Rightarrow> 'a iop_dma_scheme" where
  "deactivate_dma i s =
     (if id_active s = Some i then id_find_new_active_channel s
      else s\<lparr>id_queue := remove1 i (id_queue s)\<rparr>)"

definition id_set_request :: "nat \<Rightarrow> 'a iop_dma_scheme \<Rightarrow> 'a iop_dma_scheme" where
  "id_set_request i s =
     (let old_req = ch_dma_req (id_channels s i);
          s = put_ch i (\<lambda>c. c\<lparr>ch_dma_req := True\<rparr>) s
      in if \<not> old_req then active_dma_check i s else s)"

definition id_clear_request :: "nat \<Rightarrow> 'a iop_dma_scheme \<Rightarrow> 'a iop_dma_scheme" where
  "id_clear_request i s =
     (let old_req = ch_dma_req (id_channels s i);
          s = put_ch i (\<lambda>c. c\<lparr>ch_dma_req := False\<rparr>) s
      in if old_req then deactivate_dma i s else s)"

definition id_reset :: "(u32 \<Rightarrow> u8) \<Rightarrow> 'a iop_dma_scheme \<Rightarrow> 'a iop_dma_scheme" where
  "id_reset RAM s =
     (let s = s\<lparr>iop_RAM := RAM, id_active := None, id_queue := [],
            id_channels := (\<lambda>i. if i < 16
              then (id_channels s i)\<lparr>ch_addr := 0, ch_word_count := 0, ch_block_size := 0,
                     ch_control := (ch_control (id_channels s i))\<lparr>ch_busy := False, ch_sync_mode := 0\<rparr>,
                     ch_dma_req := False\<rparr>
              else id_channels s i),
            id_enable := (\<lambda>i. if i < 16 then False else id_enable s i),
            id_priorities := (\<lambda>i. if i < 16 then 7 else id_priorities s i),
            id_STAT := (\<lambda>_. 0), id_MASK := (\<lambda>_. 0), id_master_int_enable := (\<lambda>_. False)\<rparr>
      in id_set_request IOP_SIF0 (id_set_request IOP_SIO2out (id_set_request IOP_SIO2in s)))"

subsection \<open>The end of a transfer\<close>

definition transfer_end :: "nat \<Rightarrow> 'a iop_dma_scheme \<Rightarrow> 'a iop_dma_scheme" where
  "transfer_end i s =
     (let s = put_ch i (\<lambda>c. c\<lparr>ch_control := (ch_control c)\<lparr>ch_busy := False\<rparr>,
                             ch_tag_end := False\<rparr>) s;
          s = (if id_active s = Some i then id_find_new_active_channel s else s);
          dicr2 = (7 < i);
          k = (if dicr2 then i - 8 else i)
      in if id_MASK s dicr2 AND push_bit k 1 \<noteq> 0
         then assert_irq 3
                (s\<lparr>id_STAT := (id_STAT s)(dicr2 := id_STAT s dicr2 OR push_bit k 1)\<rparr>)
         else s)"

subsection \<open>Registers\<close>

definition dpcr_value :: "nat \<Rightarrow> 'a iop_dma_scheme \<Rightarrow> u32" where
  "dpcr_value base s =
     fold (\<lambda>k reg. reg OR push_bit (4 * k) (ucast (id_priorities s (base + k)))
                      OR flag_at (4 * k + 3) (id_enable s (base + k))) [0..<8] 0"

definition get_DPCR :: "'a iop_dma_scheme \<Rightarrow> u32" where
  "get_DPCR s = dpcr_value 0 s"

definition get_DPCR2 :: "'a iop_dma_scheme \<Rightarrow> u32" where
  "get_DPCR2 s = dpcr_value 8 s"

definition dicr_value :: "bool \<Rightarrow> 'a iop_dma_scheme \<Rightarrow> u32" where
  "dicr_value d s =
     (let IRQ = (id_master_int_enable s d \<and> id_MASK s d AND id_STAT s d \<noteq> 0)
      in flag_at 15 (id_force_IRQ s d) OR push_bit 16 (ucast (id_MASK s d))
         OR flag_at 23 (id_master_int_enable s d) OR push_bit 24 (ucast (id_STAT s d))
         OR flag_at 31 IRQ)"

definition get_DICR :: "'a iop_dma_scheme \<Rightarrow> u32" where
  "get_DICR s = dicr_value False s"

definition get_DICR2 :: "'a iop_dma_scheme \<Rightarrow> u32" where
  "get_DICR2 s = dicr_value True s"

definition get_chan_addr :: "nat \<Rightarrow> 'a iop_dma_scheme \<Rightarrow> u32" where
  "get_chan_addr i s = ch_addr (id_channels s i)"

definition get_chan_block :: "nat \<Rightarrow> 'a iop_dma_scheme \<Rightarrow> u32" where
  "get_chan_block i s =
     ch_word_count (id_channels s i) OR push_bit 16 (ucast (ch_block_size (id_channels s i)))"

definition chan_control_value :: "iop_chan_control \<Rightarrow> u32" where
  "chan_control_value c =
     flag_at 0 (ch_direction_from c) OR flag_at 8 (ch_unk8 c)
     OR push_bit 9 (ucast (ch_sync_mode c)) OR flag_at 24 (ch_busy c) OR flag_at 30 (ch_unk30 c)"

definition get_chan_control :: "nat \<Rightarrow> 'a iop_dma_scheme \<Rightarrow> u32" where
  "get_chan_control i s = chan_control_value (ch_control (id_channels s i))"

definition load_dpcr_chan :: "nat \<Rightarrow> u32 \<Rightarrow> nat \<Rightarrow> 'a iop_dma_scheme \<Rightarrow> 'a iop_dma_scheme" where
  "load_dpcr_chan base v k s =
     (let i = base + k; old_enable = id_enable s i;
          s = s\<lparr>id_priorities := (id_priorities s)(i := ucast (fld v (4 * k) 3)),
                id_enable := (id_enable s)(i := tst v (4 * k + 3))\<rparr>
      in if \<not> old_enable \<and> id_enable s i
         then put_ch i (\<lambda>c. c\<lparr>ch_tag_end := False\<rparr>) s else s)"

definition load_dpcr :: "nat \<Rightarrow> u32 \<Rightarrow> 'a iop_dma_scheme \<Rightarrow> 'a iop_dma_scheme" where
  "load_dpcr base v s = fold (load_dpcr_chan base v) [0..<8] s"

definition set_DPCR :: "u32 \<Rightarrow> 'a iop_dma_scheme \<Rightarrow> 'a iop_dma_scheme" where
  "set_DPCR v s = load_dpcr 0 v s"

definition set_DPCR2 :: "u32 \<Rightarrow> 'a iop_dma_scheme \<Rightarrow> 'a iop_dma_scheme" where
  "set_DPCR2 v s = load_dpcr 8 v s"

definition load_dicr :: "bool \<Rightarrow> u32 \<Rightarrow> 'a iop_dma_scheme \<Rightarrow> 'a iop_dma_scheme" where
  "load_dicr d v s =
     (let s = s\<lparr>id_force_IRQ := (id_force_IRQ s)(d := tst v 15),
               id_MASK := (id_MASK s)(d := ucast (fld v 16 7)),
               id_master_int_enable := (id_master_int_enable s)(d := tst v 23),
               id_STAT := (id_STAT s)(d := id_STAT s d AND NOT (ucast (fld v 24 7)))\<rparr>
      in if id_force_IRQ s d then assert_irq 3 s else s)"

definition set_DICR :: "u32 \<Rightarrow> 'a iop_dma_scheme \<Rightarrow> 'a iop_dma_scheme" where
  "set_DICR v s = load_dicr False v s"

definition set_DICR2 :: "u32 \<Rightarrow> 'a iop_dma_scheme \<Rightarrow> 'a iop_dma_scheme" where
  "set_DICR2 v s = load_dicr True v s"

definition set_chan_addr :: "nat \<Rightarrow> u32 \<Rightarrow> 'a iop_dma_scheme \<Rightarrow> 'a iop_dma_scheme" where
  "set_chan_addr i v = put_ch i (\<lambda>c. c\<lparr>ch_addr := v\<rparr>)"

definition resize :: "iop_dma_channel \<Rightarrow> iop_dma_channel" where
  "resize c = c\<lparr>ch_size := ucast (ch_block_size c) * ch_word_count c\<rparr>"

definition set_chan_block :: "nat \<Rightarrow> u32 \<Rightarrow> 'a iop_dma_scheme \<Rightarrow> 'a iop_dma_scheme" where
  "set_chan_block i v =
     put_ch i (\<lambda>c. resize (c\<lparr>ch_block_size := ucast (v AND 0xFFFF), ch_word_count := drop_bit 16 v\<rparr>))"

definition set_chan_size :: "nat \<Rightarrow> u16 \<Rightarrow> 'a iop_dma_scheme \<Rightarrow> 'a iop_dma_scheme" where
  "set_chan_size i v = put_ch i (\<lambda>c. resize (c\<lparr>ch_block_size := v\<rparr>))"

definition set_chan_count :: "nat \<Rightarrow> u16 \<Rightarrow> 'a iop_dma_scheme \<Rightarrow> 'a iop_dma_scheme" where
  "set_chan_count i v = put_ch i (\<lambda>c. resize (c\<lparr>ch_word_count := ucast v\<rparr>))"

definition set_chan_tag_addr :: "nat \<Rightarrow> u32 \<Rightarrow> 'a iop_dma_scheme \<Rightarrow> 'a iop_dma_scheme" where
  "set_chan_tag_addr i v = put_ch i (\<lambda>c. c\<lparr>ch_tag_addr := v\<rparr>)"

definition load_chan_control :: "u32 \<Rightarrow> iop_chan_control \<Rightarrow> iop_chan_control" where
  "load_chan_control v c =
     c\<lparr>ch_direction_from := tst v 0, ch_unk8 := tst v 8, ch_sync_mode := ucast (fld v 9 2),
       ch_busy := tst v 24\<rparr>"

definition spu_core :: "nat \<Rightarrow> nat option" where
  "spu_core i = (if i = IOP_SPU then Some 0 else if i = IOP_SPU2 then Some 1 else None)"

definition set_chan_control ::
    "'a iop_dma_scheme iop_dev \<Rightarrow> nat \<Rightarrow> u32 \<Rightarrow> 'a iop_dma_scheme \<Rightarrow> 'a iop_dma_scheme res" where
  "set_chan_control dev i v s =
     (let old_busy = ch_busy (ch_control (id_channels s i));
          s = put_ch i (\<lambda>c. c\<lparr>ch_control := load_chan_control v (ch_control c)\<rparr>) s;
          busy = tst v 24
      in rbind
        (if \<not> old_busy \<and> busy
         then rbind (case spu_core i of
                       None \<Rightarrow> Inr s
                     | Some core \<Rightarrow>
                         rbind (dev_spu_start_DMA dev core (ch_size (id_channels s i) * 2) s)
                           (\<lambda>s. Inr (put_ch i (\<lambda>c. c\<lparr>ch_delay := 3\<rparr>) s)))
                (\<lambda>s. Inr (active_dma_check i s))
         else if old_busy \<and> \<not> busy
         then (case spu_core i of
                 None \<Rightarrow> Inr (deactivate_dma i s)
               | Some core \<Rightarrow> dev_spu_pause_DMA dev core (deactivate_dma i s))
         else Inr s)
        (\<lambda>s. Inr (put_ch i (\<lambda>c. c\<lparr>ch_control := (ch_control c)\<lparr>ch_unk30 := tst v 30\<rparr>\<rparr>) s)))"

subsection \<open>Arbitration keeps the highest ready channel running\<close>

definition id_slots :: "'a iop_dma_scheme \<Rightarrow> nat list" where
  "id_slots s = (case id_active s of None \<Rightarrow> [] | Some a \<Rightarrow> [a]) @ id_queue s"

definition id_line :: "'a iop_dma_scheme \<Rightarrow> nat \<Rightarrow> bool" where
  "id_line s i \<longleftrightarrow> ch_dma_req (id_channels s i)"

definition id_ordered :: "'a iop_dma_scheme \<Rightarrow> bool" where
  "id_ordered s \<longleftrightarrow>
     distinct (id_slots s) \<and>
     (case id_active s of None \<Rightarrow> id_queue s = [] | Some a \<Rightarrow> \<forall>q \<in> set (id_queue s). q < a)"

definition id_good :: "'a iop_dma_scheme \<Rightarrow> bool" where
  "id_good s \<longleftrightarrow> id_ordered s \<and> set (id_slots s) = {i. id_ready s i}"

lemma fold_max_in: "q \<noteq> [] \<Longrightarrow> fold max q (0 :: nat) \<in> set q \<and> (\<forall>x \<in> set q. x \<le> fold max q 0)"
proof -
  assume "q \<noteq> []"
  have "fold max q 0 = Max (set (0 # q))"
    using Max.set_eq_fold [of "0 :: nat" q] by simp
  moreover have "Max (set (0 # q)) = Max (set q)"
    using \<open>q \<noteq> []\<close> by simp
  ultimately show ?thesis using \<open>q \<noteq> []\<close> by simp
qed

lemma id_find_new_ok:
  assumes "distinct (id_queue s)"
  shows "id_ordered (id_find_new_active_channel s)"
    and "set (id_slots (id_find_new_active_channel s)) = set (id_queue s)"
    and "id_channels (id_find_new_active_channel s) = id_channels s"
proof -
  let ?m = "fold max (id_queue s) 0"
  show "id_channels (id_find_new_active_channel s) = id_channels s"
    by (simp add: id_find_new_active_channel_def Let_def)
  show "id_ordered (id_find_new_active_channel s)"
    using assms fold_max_in [of "id_queue s"]
    by (auto simp: id_find_new_active_channel_def Let_def id_ordered_def id_slots_def
        le_neq_implies_less)
  show "set (id_slots (id_find_new_active_channel s)) = set (id_queue s)"
    using assms fold_max_in [of "id_queue s"]
    by (auto simp: id_find_new_active_channel_def Let_def id_slots_def)
qed

lemma deactivate_dma_ok:
  assumes "id_ordered s"
  shows "id_ordered (deactivate_dma i s)"
    and "set (id_slots (deactivate_dma i s)) = set (id_slots s) - {i}"
    and "id_channels (deactivate_dma i s) = id_channels s"
proof -
  have d: "distinct (id_queue s)" using assms by (simp add: id_ordered_def id_slots_def)
  show "id_channels (deactivate_dma i s) = id_channels s"
    by (simp add: deactivate_dma_def id_find_new_ok(3) [OF d])
  show "id_ordered (deactivate_dma i s)"
    using assms id_find_new_ok(1) [OF d]
    by (auto simp: deactivate_dma_def id_ordered_def id_slots_def dest: notin_set_remove1
        dest!: subsetD [OF set_remove1_subset] split: option.splits)
  show "set (id_slots (deactivate_dma i s)) = set (id_slots s) - {i}"
    using assms id_find_new_ok(2) [OF d] d
    by (auto simp: deactivate_dma_def id_ordered_def id_slots_def split: option.splits)
qed

lemma active_dma_check_ok:
  assumes "id_ordered s" and "i \<notin> set (id_slots s)"
  shows "id_ordered (active_dma_check i s)"
    and "set (id_slots (active_dma_check i s)) = set (id_slots s) \<union> (if id_ready s i then {i} else {})"
    and "id_channels (active_dma_check i s) = id_channels s"
  using assms
  by (auto simp: active_dma_check_def id_ordered_def id_slots_def split: option.splits)

lemma id_ready_cong:
  "id_channels s' = id_channels s \<Longrightarrow> id_ready s' = id_ready s"
  "id_channels s' = id_channels s \<Longrightarrow> id_line s' = id_line s"
  by (simp_all add: id_ready_def id_line_def fun_eq_iff)

lemma put_ch_slots [simp]:
  "id_slots (put_ch i f s) = id_slots s" "id_ordered (put_ch i f s) = id_ordered s"
  by (simp_all add: put_ch_def id_slots_def id_ordered_def split: option.splits)

lemma put_ch_at [simp]: "id_channels (put_ch i f s) j = (if j = i then f (id_channels s i) else id_channels s j)"
  by (simp add: put_ch_def)

text \<open>A channel that has just become ready, or has just stopped being ready, is handed on.\<close>

lemma start_channel_good:
  assumes "id_good s" and "\<not> id_ready s i"
  shows "id_good (active_dma_check i (put_ch i f s))"
proof -
  let ?s = "put_ch i f s"
  have ord: "id_ordered ?s" and new: "i \<notin> set (id_slots ?s)"
    using assms by (simp_all add: id_good_def)
  have "j \<noteq> i \<Longrightarrow> id_ready ?s j \<longleftrightarrow> id_ready s j" for j
    by (simp add: id_ready_def)
  then have "{j. id_ready ?s j} = {j. id_ready s j} \<union> (if id_ready ?s i then {i} else {})"
    using assms(2) by (intro set_eqI) (case_tac "x = i"; force)
  then show ?thesis
    using active_dma_check_ok [OF ord new] assms(1)
    by (simp add: id_good_def id_ready_cong(1) [OF active_dma_check_ok(3) [OF ord new]])
qed

lemma stop_channel_good:
  assumes "id_good s" and "\<And>c. \<not> (ch_dma_req (f c) \<and> ch_busy (ch_control (f c)))"
  shows "id_good (deactivate_dma i (put_ch i f s))"
proof -
  let ?s = "put_ch i f s"
  have ord: "id_ordered ?s" using assms(1) by (simp add: id_good_def)
  have "{j. id_ready ?s j} = {j. id_ready s j} - {i}"
    using assms(2) [of "id_channels s i"] by (auto simp: id_ready_def)
  then show ?thesis
    using deactivate_dma_ok [OF ord, of i] assms(1)
    by (simp add: id_good_def id_ready_cong(1) [OF deactivate_dma_ok(3) [OF ord]])
qed

lemma put_ch_ready_same:
  assumes "id_good s" and "ch_dma_req (f (id_channels s i)) = ch_dma_req (id_channels s i) \<and>
    ch_busy (ch_control (f (id_channels s i))) = ch_busy (ch_control (id_channels s i))"
  shows "id_good (put_ch i f s)"
proof -
  have "id_ready (put_ch i f s) = id_ready s"
    using assms(2) by (auto simp: id_ready_def fun_eq_iff)
  then show ?thesis using assms(1) by (simp add: id_good_def)
qed

lemma id_set_request_good: "id_good s \<Longrightarrow> id_good (id_set_request i s)"
proof (cases "ch_dma_req (id_channels s i)")
  case True
  moreover have "put_ch i (\<lambda>c. c\<lparr>ch_dma_req := True\<rparr>) s = s"
    using True by (simp add: put_ch_def fun_upd_idem)
  moreover assume "id_good s"
  ultimately show ?thesis by (simp add: id_set_request_def)
next
  case False
  moreover assume "id_good s"
  ultimately show ?thesis
    using start_channel_good [of s i] by (simp add: id_set_request_def id_ready_def)
qed

lemma id_clear_request_good: "id_good s \<Longrightarrow> id_good (id_clear_request i s)"
proof (cases "ch_dma_req (id_channels s i)")
  case True
  moreover assume "id_good s"
  ultimately show ?thesis by (simp add: id_clear_request_def stop_channel_good)
next
  case False
  moreover have "put_ch i (\<lambda>c. c\<lparr>ch_dma_req := False\<rparr>) s = s"
    using False by (simp add: put_ch_def fun_upd_idem)
  moreover assume "id_good s"
  ultimately show ?thesis by (simp add: id_clear_request_def)
qed

lemma arbitration_lines [simp]:
  "id_line (active_dma_check i s) = id_line s" "id_line (deactivate_dma i s) = id_line s"
  by (auto simp: active_dma_check_def deactivate_dma_def id_find_new_active_channel_def Let_def
      id_line_def fun_eq_iff split: option.splits)

lemma id_set_request_line: "id_line (id_set_request i s) j \<longleftrightarrow> j = i \<or> id_line s j"
  by (simp add: id_set_request_def Let_def) (simp add: id_line_def)

lemma id_clear_request_line: "id_line (id_clear_request i s) j \<longleftrightarrow> j \<noteq> i \<and> id_line s j"
  by (simp add: id_clear_request_def Let_def) (auto simp: id_line_def)

interpretation iop_dma_req: dma_requests id_slots id_ready id_line id_good id_set_request
    "\<lambda>i s. Inr (id_clear_request i s)"
proof
  fix s :: "'a iop_dma_scheme" and s' :: "'a iop_dma_scheme" and i j
  show "id_good s \<Longrightarrow> distinct (id_slots s) \<and> set (id_slots s) = {i. id_ready s i}"
    by (simp add: id_good_def id_ordered_def)
  show "id_good s \<Longrightarrow> id_good (id_set_request i s)" by (rule id_set_request_good)
  show "id_line (id_set_request i s) j \<longleftrightarrow> j = i \<or> id_line s j" by (rule id_set_request_line)
  show "\<exists>s'. Inr (id_clear_request i s) = (Inr s' :: 'a iop_dma_scheme res)" by simp
  show "id_good s \<Longrightarrow> Inr (id_clear_request i s) = (Inr s' :: 'a iop_dma_scheme res) \<Longrightarrow> id_good s'"
    using id_clear_request_good by auto
  show "Inr (id_clear_request i s) = (Inr s' :: 'a iop_dma_scheme res)
      \<Longrightarrow> id_line s' j \<longleftrightarrow> j \<noteq> i \<and> id_line s j"
    using id_clear_request_line by auto
qed

subsection \<open>Every state the controller reaches\<close>

lemma id_set_chan_control_good:
  assumes "id_good s" and "spu_core i = None"
  shows "\<exists>s'. set_chan_control dev i v s = Inr s' \<and> id_good s' \<and> id_line s' = id_line s"
proof -
  let ?f = "\<lambda>c. c\<lparr>ch_control := load_chan_control v (ch_control c)\<rparr>"
  let ?g = "\<lambda>c. c\<lparr>ch_control := (ch_control c)\<lparr>ch_unk30 := tst v 30\<rparr>\<rparr>"
  have busy: "ch_busy (load_chan_control v c) = tst v 24" for c
    by (simp add: load_chan_control_def)
  have last: "id_good (put_ch i ?g t)" if "id_good t" for t
    using that by (simp add: put_ch_ready_same)
  have up: "id_good (active_dma_check i (put_ch i ?f s))" if "\<not> ch_busy (ch_control (id_channels s i))"
    using that assms(1) by (simp add: start_channel_good id_ready_def)
  have down: "id_good (deactivate_dma i (put_ch i ?f s))" if "\<not> tst v 24"
    using that assms(1) by (simp add: stop_channel_good busy)
  have same: "id_good (put_ch i ?f s)" if "tst v 24 = ch_busy (ch_control (id_channels s i))"
    using that assms(1) by (simp add: put_ch_ready_same busy)
  have line: "id_line (put_ch i ?g t) = id_line t" "id_line (put_ch i ?f t) = id_line t" for t
    by (simp_all add: id_line_def fun_eq_iff)
  show ?thesis
    using up down same by (auto simp: set_chan_control_def Let_def assms(2) last line)
qed

lemma deactivate_dma_active:
  "id_active s = Some i \<Longrightarrow> deactivate_dma i s = id_find_new_active_channel s"
  by (simp add: deactivate_dma_def)

lemma id_good_cong:
  "id_channels t = id_channels s \<Longrightarrow> id_active t = id_active s \<Longrightarrow> id_queue t = id_queue s
    \<Longrightarrow> id_good t = id_good s"
  by (simp add: id_good_def id_ordered_def id_slots_def id_ready_def split: option.splits)

lemma assert_irq_keeps_dma [simp]:
  "id_channels (assert_irq k s) = id_channels s" "id_active (assert_irq k s) = id_active s"
  "id_queue (assert_irq k s) = id_queue s" "id_STAT (assert_irq k s) = id_STAT s"
  "id_MASK (assert_irq k s) = id_MASK s" "id_force_IRQ (assert_irq k s) = id_force_IRQ s"
  "id_master_int_enable (assert_irq k s) = id_master_int_enable s"
  by (simp_all add: assert_irq_def iop_int_check_def interrupt_check_def Let_def)

lemma transfer_end_good:
  assumes "id_good s" and "id_active s = Some i"
  shows "id_good (transfer_end i s)" and "id_line (transfer_end i s) = id_line s"
proof -
  let ?f = "\<lambda>c. c\<lparr>ch_control := (ch_control c)\<lparr>ch_busy := False\<rparr>, ch_tag_end := False\<rparr>"
  have act: "id_active (put_ch i ?f s) = Some i" using assms(2) by (simp add: put_ch_def)
  have "id_good (id_find_new_active_channel (put_ch i ?f s))"
    using stop_channel_good [OF assms(1), of ?f i] by (simp add: deactivate_dma_active [OF act])
  then show "id_good (transfer_end i s)"
    by (auto simp: transfer_end_def Let_def act intro: id_good_cong [THEN iffD2, rotated 3])
  have "id_line (id_find_new_active_channel (put_ch i ?f s)) = id_line s"
    unfolding deactivate_dma_active [OF act, symmetric] by (simp add: id_line_def fun_eq_iff)
  then show "id_line (transfer_end i s) = id_line s"
    by (simp add: transfer_end_def Let_def act id_line_def fun_eq_iff)
qed

text \<open>
  The events of the controller: a device raises or drops its line, the IOP writes the control
  register of a channel other than the SPU's, or the running transfer ends. No other operation of
  this theory touches lines, busy bits, the active channel or the queue.
\<close>

inductive id_step :: "'a iop_dma_scheme \<Rightarrow> 'a iop_dma_scheme \<Rightarrow> bool" where
  raise: "id_step s (id_set_request i s)"
| drop: "id_step s (id_clear_request i s)"
| control: "spu_core i = None \<Longrightarrow> set_chan_control dev i v s = Inr s' \<Longrightarrow> id_step s s'"
| finish: "id_active s = Some i \<Longrightarrow> id_step s (transfer_end i s)"
| channel_address: "id_step s (set_chan_addr i v s)"
| channel_block: "id_step s (set_chan_block i v s)"
| dpcr: "id_step s (load_dpcr base v s)"
| dicr: "id_step s (load_dicr d v s)"

inductive id_reachable :: "'a iop_dma_scheme \<Rightarrow> 'a iop_dma_scheme \<Rightarrow> bool" for start where
  init: "id_reachable start (id_reset RAM start)"
| step: "id_reachable start s \<Longrightarrow> id_step s s' \<Longrightarrow> id_reachable start s'"

lemma load_dpcr_chan_good: "id_good s \<Longrightarrow> id_good (load_dpcr_chan base v k s)"
  by (auto simp: load_dpcr_chan_def Let_def intro!: put_ch_ready_same
      intro: id_good_cong [THEN iffD2, rotated 3])

lemma load_dpcr_good: "id_good s \<Longrightarrow> id_good (load_dpcr base v s)"
proof -
  have "id_good (fold (load_dpcr_chan base v) ks s)" if "id_good s" for ks s
    using that by (induction ks arbitrary: s) (simp_all add: load_dpcr_chan_good)
  then show "id_good s \<Longrightarrow> ?thesis" by (simp add: load_dpcr_def)
qed

lemma id_step_good: "id_step s s' \<Longrightarrow> id_good s \<Longrightarrow> id_good s'"
proof (induction rule: id_step.induct)
  case (control i dev v s s')
  then show ?case using id_set_chan_control_good [of s i dev v] by auto
next
  case (dicr s d v)
  then show ?case
    by (auto simp: load_dicr_def Let_def intro: id_good_cong [THEN iffD2, rotated 3])
qed (simp_all add: id_set_request_good id_clear_request_good transfer_end_good set_chan_addr_def
    set_chan_block_def resize_def put_ch_ready_same load_dpcr_good)

lemma id_reset_good:
  assumes "\<forall>i \<ge> 16. \<not> id_ready start i"
  shows "id_good (id_reset RAM start)"
proof -
  show ?thesis
    unfolding id_reset_def Let_def
    by (intro id_set_request_good)
      (use assms in \<open>auto simp: id_good_def id_ordered_def id_slots_def id_ready_def\<close>)
qed

lemma id_reachable_good:
  "id_reachable start s \<Longrightarrow> \<forall>i \<ge> 16. \<not> id_ready start i \<Longrightarrow> id_good s"
  by (induction rule: id_reachable.induct) (simp_all add: id_reset_good id_step_good)

lemma id_good_runs:
  assumes "id_good s"
  shows "id_active s = None \<longleftrightarrow> (\<forall>i. \<not> id_ready s i)"
    and "id_active s = Some a \<Longrightarrow> id_ready s a \<and> (\<forall>i. id_ready s i \<longrightarrow> i \<le> a)"
proof -
  have slots: "id_ready s i \<longleftrightarrow> i \<in> set (id_slots s)" for i
    using assms by (simp add: id_good_def)
  show "id_active s = None \<longleftrightarrow> (\<forall>i. \<not> id_ready s i)"
    using assms unfolding slots
    by (auto simp: id_good_def id_ordered_def id_slots_def split: option.splits)
  show "id_active s = Some a \<Longrightarrow> id_ready s a \<and> (\<forall>i. id_ready s i \<longrightarrow> i \<le> a)"
    using assms unfolding slots
    by (auto simp: id_good_def id_ordered_def id_slots_def less_imp_le)
qed

subsection \<open>Register round trips\<close>

lemma load_dpcr_at:
  "id_priorities (load_dpcr base v s) (base + j) =
     (if j < 8 then ucast (fld v (4 * j) 3) else id_priorities s (base + j))"
  "id_enable (load_dpcr base v s) (base + j) =
     (if j < 8 then tst v (4 * j + 3) else id_enable s (base + j))"
proof -
  have step: "id_priorities (load_dpcr_chan base v k s) (base + j) =
      (if j = k then ucast (fld v (4 * j) 3) else id_priorities s (base + j))"
    "id_enable (load_dpcr_chan base v k s) (base + j) =
      (if j = k then tst v (4 * j + 3) else id_enable s (base + j))" for k s
    by (auto simp: load_dpcr_chan_def Let_def put_ch_def)
  have "id_priorities (fold (load_dpcr_chan base v) ks s) (base + j) =
      (if j \<in> set ks then ucast (fld v (4 * j) 3) else id_priorities s (base + j))"
    "id_enable (fold (load_dpcr_chan base v) ks s) (base + j) =
      (if j \<in> set ks then tst v (4 * j + 3) else id_enable s (base + j))" for ks
    by (induction ks arbitrary: s) (auto simp: step)
  then show "id_priorities (load_dpcr base v s) (base + j) =
     (if j < 8 then ucast (fld v (4 * j) 3) else id_priorities s (base + j))"
    and "id_enable (load_dpcr base v s) (base + j) =
     (if j < 8 then tst v (4 * j + 3) else id_enable s (base + j))"
    by (simp_all add: load_dpcr_def)
qed

lemma dpcr_roundtrip: "dpcr_value base (load_dpcr base v s) = v"
proof -
  have "[0..<8] = [0, 1, 2, 3, 4, 5, 6, 7 :: nat]" by (simp add: upt_rec)
  then show ?thesis
    by (intro u32_eqI) (simp add: dpcr_value_def load_dpcr_at load_dpcr_at [of _ _ _ 0, simplified]
        reg_bits bit_simps)
qed

lemma u8_high_bit: "8 \<le> n \<Longrightarrow> \<not> bit (x :: u8) n"
  using bit_imp_le_length [of x n] by auto

lemma dicr_roundtrip:
  "dicr_value d (load_dicr d v s) AND 0x7FFF8000 =
     (v AND 0x00FF8000) OR (dicr_value d s AND 0x7F000000 AND NOT v)"
  by (rule u32_eqI)
    (simp add: dicr_value_def load_dicr_def Let_def reg_bits bit_simps u8_high_bit)

lemma chan_control_roundtrip:
  "chan_control_value ((load_chan_control v c)\<lparr>ch_unk30 := tst v 30\<rparr>) = v AND 0x41000701"
  by (rule u32_eqI) (simp add: chan_control_value_def load_chan_control_def reg_bits bit_simps)

end
