(* ===== verification/Sif.thy ===== *)
theory Sif
  imports Iop_Dma
begin

unbundle bit_operations_syntax

section \<open>The subsystem interface between EE and IOP\<close>

text \<open>
  \<open>src/core/sif.hpp\<close> and \<open>sif.cpp\<close>: the two word FIFOs, the request lines they drive at
  both DMA controllers, the mailbox registers and the log of remote procedure calls. A
  \<open>std::queue\<close> is a list whose head is the front. A registered lambda is its constructor in
  \<open>rpc_func\<close>; a lambda reads the caller's buffer and prints, so the EE's bus is a parameter.
  The automatic array of \<open>send_SIF0_junk\<close> starts with the indeterminate words \<open>garbage\<close>.
\<close>

subsection \<open>State\<close>

datatype rpc_func = Rpc_default | Rpc_iopheap | Rpc_cdncmd | Rpc_cdsearchfile

record sif_rpc_server =
  srv_name :: string
  srv_module_id :: u32
  srv_client_ptr :: u32
  srv_func :: rpc_func

record sif = iop_dma +
  mscom :: u32
  smcom :: u32
  msflag :: u32
  smflag :: u32
  sif_control :: u32
  oldest_SIF0_data :: "nat \<Rightarrow> u32"
  SIF0_FIFO :: "u32 list"
  SIF1_FIFO :: "u32 list"
  rpc_servers :: "sif_rpc_server list"

definition MAX_FIFO_SIZE :: nat where "MAX_FIFO_SIZE = 32"

definition register_server ::
    "string \<Rightarrow> u32 \<Rightarrow> rpc_func \<Rightarrow> sif_rpc_server list \<Rightarrow> sif_rpc_server list" where
  "register_server name module f servers =
     servers @ [\<lparr>srv_name = name, srv_module_id = module, srv_client_ptr = 0, srv_func = f\<rparr>]"

definition system_servers :: "sif_rpc_server list \<Rightarrow> sif_rpc_server list" where
  "system_servers =
     fold (\<lambda>(name, module, f). register_server name module f)
       [(''FILEIO'', 0x80000001, Rpc_default), (''IOPHEAP'', 0x80000003, Rpc_iopheap),
        (''LOADFILE'', 0x80000006, Rpc_default), (''PAD1'', 0x80000100, Rpc_default),
        (''PAD2'', 0x80000101, Rpc_default), (''MCMAN'', 0x80000400, Rpc_default),
        (''CDINIT'', 0x80000592, Rpc_default), (''CDSCMD'', 0x80000593, Rpc_default),
        (''CDNCMD'', 0x80000595, Rpc_cdncmd), (''CDSEARCHFILE'', 0x80000597, Rpc_cdsearchfile),
        (''CDDISKREADY'', 0x8000059A, Rpc_default), (''SDREMOTE'', 0x80000701, Rpc_default)]"

definition sif_reset :: "'a sif_scheme \<Rightarrow> 'a sif_scheme" where
  "sif_reset s = s\<lparr>SIF0_FIFO := [], SIF1_FIFO := [], mscom := 0, smcom := 0, msflag := 0,
                   smflag := 0, sif_control := 0, rpc_servers := system_servers []\<rparr>"

subsection \<open>The FIFOs\<close>

definition get_SIF0_size :: "'a sif_scheme \<Rightarrow> nat" where
  "get_SIF0_size s = length (SIF0_FIFO s)"

definition get_SIF1_size :: "'a sif_scheme \<Rightarrow> nat" where
  "get_SIF1_size s = length (SIF1_FIFO s)"

definition write_SIF0 :: "u32 \<Rightarrow> 'a sif_scheme \<Rightarrow> 'a sif_scheme" where
  "write_SIF0 w s =
     (let s = (if get_SIF0_size s < 4
               then s\<lparr>oldest_SIF0_data := (oldest_SIF0_data s)(get_SIF0_size s := w)\<rparr> else s);
          s = s\<lparr>SIF0_FIFO := SIF0_FIFO s @ [w]\<rparr>;
          s = (if MAX_FIFO_SIZE \<le> get_SIF0_size s then id_clear_request IOP_SIF0 s else s)
      in if 4 \<le> get_SIF0_size s then dm_set_request EE_SIF0 s else s)"

definition junk_temp :: "(nat \<Rightarrow> u32) \<Rightarrow> 'a sif_scheme \<Rightarrow> nat \<Rightarrow> u32" where
  "junk_temp garbage s i = (if i < 1 then oldest_SIF0_data s i else garbage i)"

definition send_SIF0_junk :: "(nat \<Rightarrow> u32) \<Rightarrow> nat \<Rightarrow> 'a sif_scheme \<Rightarrow> 'a sif_scheme" where
  "send_SIF0_junk garbage n s =
     (let temp = junk_temp garbage s
      in fold (\<lambda>i. write_SIF0 (temp i)) [4 - n..<4] s)"

definition write_SIF1 :: "128 word \<Rightarrow> 'a sif_scheme \<Rightarrow> 'a sif_scheme res" where
  "write_SIF1 quad s =
     (let s = s\<lparr>SIF1_FIFO := SIF1_FIFO s @ map (\<lambda>i. ucast (drop_bit (32 * i) quad)) [0..<4]\<rparr>;
          s = id_set_request IOP_SIF1 s
      in if MAX_FIFO_SIZE div 2 \<le> get_SIF1_size s then dm_clear_request EE_SIF1 s else Inr s)"

definition read_SIF0 :: "'a sif_scheme \<Rightarrow> (u32 \<times> 'a sif_scheme) res" where
  "read_SIF0 s =
     (case SIF0_FIFO s of
        [] \<Rightarrow> Inl (Undefined ''front of an empty queue'')
      | value # rest \<Rightarrow>
          let s = id_set_request IOP_SIF0 (s\<lparr>SIF0_FIFO := rest\<rparr>)
          in rbind (if get_SIF0_size s < 4 then dm_clear_request EE_SIF0 s else Inr s)
                   (\<lambda>s. Inr (value, s)))"

definition read_SIF1 :: "'a sif_scheme \<Rightarrow> (u32 \<times> 'a sif_scheme) res" where
  "read_SIF1 s =
     (case SIF1_FIFO s of
        [] \<Rightarrow> Inl (Undefined ''front of an empty queue'')
      | value # rest \<Rightarrow>
          let s = s\<lparr>SIF1_FIFO := rest\<rparr>;
              s = (if get_SIF1_size s = 0 then id_clear_request IOP_SIF1 s else s);
              s = (if get_SIF1_size s < MAX_FIFO_SIZE div 2 then dm_set_request EE_SIF1 s else s)
          in Inr (value, s))"

subsection \<open>The mailbox registers\<close>

definition get_mscom :: "'a sif_scheme \<Rightarrow> u32" where "get_mscom s = mscom s"
definition get_smcom :: "'a sif_scheme \<Rightarrow> u32" where "get_smcom s = smcom s"
definition get_msflag :: "'a sif_scheme \<Rightarrow> u32" where "get_msflag s = msflag s"
definition get_smflag :: "'a sif_scheme \<Rightarrow> u32" where "get_smflag s = smflag s"
definition get_control :: "'a sif_scheme \<Rightarrow> u32" where "get_control s = sif_control s"

definition set_mscom :: "u32 \<Rightarrow> 'a sif_scheme \<Rightarrow> 'a sif_scheme" where
  "set_mscom v s = s\<lparr>mscom := v\<rparr>"

definition set_smcom :: "u32 \<Rightarrow> 'a sif_scheme \<Rightarrow> 'a sif_scheme" where
  "set_smcom v s = s\<lparr>smcom := v\<rparr>"

definition set_msflag :: "u32 \<Rightarrow> 'a sif_scheme \<Rightarrow> 'a sif_scheme" where
  "set_msflag v s = s\<lparr>msflag := msflag s OR v\<rparr>"

definition reset_msflag :: "u32 \<Rightarrow> 'a sif_scheme \<Rightarrow> 'a sif_scheme" where
  "reset_msflag v s = s\<lparr>msflag := msflag s AND NOT v\<rparr>"

definition set_smflag :: "u32 \<Rightarrow> 'a sif_scheme \<Rightarrow> 'a sif_scheme" where
  "set_smflag v s = s\<lparr>smflag := smflag s OR v\<rparr>"

definition reset_smflag :: "u32 \<Rightarrow> 'a sif_scheme \<Rightarrow> 'a sif_scheme" where
  "reset_smflag v s = s\<lparr>smflag := smflag s AND NOT v\<rparr>"

definition set_control_EE :: "u32 \<Rightarrow> 'a sif_scheme \<Rightarrow> 'a sif_scheme" where
  "set_control_EE v s =
     (if v AND 0x100 = 0 then s\<lparr>sif_control := sif_control s AND NOT 0x100\<rparr>
      else s\<lparr>sif_control := sif_control s OR 0x100\<rparr>)"

definition set_control_IOP :: "u32 \<Rightarrow> 'a sif_scheme \<Rightarrow> 'a sif_scheme" where
  "set_control_IOP v s =
     (let bark = v AND 0xF0;
          c = sif_control s;
          c = (if v AND 0xA0 \<noteq> 0 then (c AND NOT 0xF000) OR 0x2000 else c)
      in s\<lparr>sif_control := (if c AND bark \<noteq> 0 then c AND NOT bark else c OR bark)\<rparr>)"

subsection \<open>Remote procedure calls\<close>

text \<open>\<open>sifrpc_bind\<close>: the first server of the module is bound, unless it already is.\<close>

fun sifrpc_bind :: "u32 \<Rightarrow> u32 \<Rightarrow> sif_rpc_server list \<Rightarrow> (sif_rpc_server list) option" where
  "sifrpc_bind module client [] = None"
| "sifrpc_bind module client (srv # rest) =
     (if srv_module_id srv = module
      then Some ((if srv_client_ptr srv = 0 then srv\<lparr>srv_client_ptr := client\<rparr> else srv) # rest)
      else map_option (Cons srv) (sifrpc_bind module client rest))"

record 's ee_bus =
  ee_read8 :: "u32 \<Rightarrow> 's \<Rightarrow> (u8 \<times> 's) res"
  ee_read32 :: "u32 \<Rightarrow> 's \<Rightarrow> (u32 \<times> 's) res"

text \<open>The loop that reads a file name: at most 256 characters, each fetched twice.\<close>

fun read_name :: "'s ee_bus \<Rightarrow> nat \<Rightarrow> u32 \<Rightarrow> 's \<Rightarrow> 's res" where
  "read_name bus n ptr s =
     rbind (ee_read8 bus ptr s) (\<lambda>(c, s).
       if c = 0 then Inr s
       else case n of
              0 \<Rightarrow> Inr s
            | Suc n \<Rightarrow> rbind (ee_read8 bus ptr s) (\<lambda>(_, s). read_name bus n (ptr + 1) s))"

fun run_rpc :: "'s ee_bus \<Rightarrow> rpc_func \<Rightarrow> u32 \<Rightarrow> u32 \<Rightarrow> 's \<Rightarrow> 's res" where
  "run_rpc bus Rpc_default fno buffer s = Inr s"
| "run_rpc bus Rpc_iopheap fno buffer s =
     (if fno = 1 \<or> fno = 2 then rbind (ee_read32 bus buffer s) (\<lambda>(_, s). Inr s) else Inr s)"
| "run_rpc bus Rpc_cdncmd fno buffer s =
     (if fno = 1
      then rbind (ee_read32 bus buffer s) (\<lambda>(_, s).
           rbind (ee_read32 bus (buffer + 4) s) (\<lambda>(_, s).
           rbind (ee_read32 bus (buffer + 8) s) (\<lambda>(_, s). Inr s)))
      else Inr s)"
| "run_rpc bus Rpc_cdsearchfile fno buffer s =
     (if fno = 0 then read_name bus 0x100 (buffer + 0x24) s else Inr s)"

definition bind_or_create :: "u32 \<Rightarrow> u32 \<Rightarrow> sif_rpc_server list \<Rightarrow> sif_rpc_server list" where
  "bind_or_create module client servers =
     (case sifrpc_bind module client servers of
        Some bound \<Rightarrow> bound
      | None \<Rightarrow>
          let servers = register_server ''CUSTOM'' module Rpc_default servers
          in case sifrpc_bind module client servers of Some bound \<Rightarrow> bound | None \<Rightarrow> servers)"

definition ee_log_sifrpc ::
    "'a sif_scheme ee_bus \<Rightarrow> u32 \<Rightarrow> int \<Rightarrow> 'a sif_scheme \<Rightarrow> 'a sif_scheme res" where
  "ee_log_sifrpc bus transfer_ptr len s =
     (if len < 1 then Inr s
      else
        rbind (ee_read32 bus (transfer_ptr + word_of_int (len * 0x10) - 0x10) s) (\<lambda>(pkt, s).
        rbind (ee_read32 bus (pkt + 0x8) s) (\<lambda>(rpc, s).
          if rpc = 0x80000002
          then Inr (s\<lparr>rpc_servers := map (\<lambda>v. v\<lparr>srv_client_ptr := 0\<rparr>) (rpc_servers s)\<rparr>)
          else if rpc = 0x80000009
          then rbind (ee_read32 bus (pkt + 0x20) s) (\<lambda>(module, s).
               rbind (ee_read32 bus (pkt + 0x1C) s) (\<lambda>(client, s).
                 Inr (s\<lparr>rpc_servers := bind_or_create module client (rpc_servers s)\<rparr>)))
          else if rpc = 0x8000000A
          then rbind (ee_read32 bus (pkt + 0x1C) s) (\<lambda>(client, s).
               rbind (ee_read32 bus (pkt + 0x20) s) (\<lambda>(fno, s).
                 case List.find (\<lambda>v. srv_client_ptr v = client) (rpc_servers s) of
                   None \<Rightarrow> Inr s
                 | Some v \<Rightarrow> rbind (ee_read32 bus transfer_ptr s) (\<lambda>(buffer, s).
                               run_rpc bus (srv_func v) fno buffer s)))
          else Inr s)))"

subsection \<open>The request lines follow the FIFOs\<close>

text \<open>
  EE channel SIF0 is requested while a quadword waits in the IOP-to-EE FIFO, IOP channel SIF1 while
  anything waits in the EE-to-IOP FIFO; EE channel SIF1 while that FIFO is below its half mark, and
  IOP channel SIF0 is held back only by a full FIFO.
\<close>

definition sif_lines :: "'a sif_scheme \<Rightarrow> bool" where
  "sif_lines s \<longleftrightarrow>
     (dm_line s EE_SIF0 \<longleftrightarrow> 4 \<le> length (SIF0_FIFO s)) \<and>
     (dm_line s EE_SIF1 \<longleftrightarrow> length (SIF1_FIFO s) < 16) \<and>
     (id_line s IOP_SIF1 \<longleftrightarrow> SIF1_FIFO s \<noteq> []) \<and>
     (\<not> id_line s IOP_SIF0 \<longrightarrow> 32 \<le> length (SIF0_FIFO s))"

definition sif_ok :: "'a sif_scheme \<Rightarrow> bool" where
  "sif_ok s \<longleftrightarrow> dm_good s \<and> id_good s \<and> sif_lines s"

text \<open>The two controllers do not disturb each other, nor the FIFOs.\<close>

named_theorems sif_frame \<open>what the arbitration of one controller leaves alone\<close>

lemma id_arbitration_frame [sif_frame]:
  "dm_channels (active_dma_check i s) = dm_channels s" "dm_active (active_dma_check i s) = dm_active s"
  "dm_queue (active_dma_check i s) = dm_queue s"
  "dm_channels (deactivate_dma i s) = dm_channels s" "dm_active (deactivate_dma i s) = dm_active s"
  "dm_queue (deactivate_dma i s) = dm_queue s"
  by (auto simp: active_dma_check_def deactivate_dma_def id_find_new_active_channel_def Let_def
      split: option.splits)

lemma id_request_frame [sif_frame]:
  "dm_channels (id_set_request i s) = dm_channels s" "dm_active (id_set_request i s) = dm_active s"
  "dm_queue (id_set_request i s) = dm_queue s"
  "dm_channels (id_clear_request i s) = dm_channels s" "dm_active (id_clear_request i s) = dm_active s"
  "dm_queue (id_clear_request i s) = dm_queue s"
  by (simp_all add: id_set_request_def id_clear_request_def Let_def id_arbitration_frame put_ch_def)

lemma id_request_fifos [sif_frame]:
  "SIF0_FIFO (id_set_request i s) = SIF0_FIFO s" "SIF1_FIFO (id_set_request i s) = SIF1_FIFO s"
  "SIF0_FIFO (id_clear_request i s) = SIF0_FIFO s" "SIF1_FIFO (id_clear_request i s) = SIF1_FIFO s"
  "oldest_SIF0_data (id_set_request i s) = oldest_SIF0_data s"
  "oldest_SIF0_data (id_clear_request i s) = oldest_SIF0_data s"
  by (simp_all add: id_set_request_def id_clear_request_def Let_def put_ch_def active_dma_check_def
      deactivate_dma_def id_find_new_active_channel_def split: option.splits)

lemma raise_stat_frame [sif_frame]:
  "id_channels (raise_stat i s) = id_channels s" "id_active (raise_stat i s) = id_active s"
  "id_queue (raise_stat i s) = id_queue s"
  by (simp_all add: raise_stat_def int1_check_def set_int1_signal_def)

lemma raise_stat_fifos [sif_frame]:
  "SIF0_FIFO (raise_stat i s) = SIF0_FIFO s" "SIF1_FIFO (raise_stat i s) = SIF1_FIFO s"
  "oldest_SIF0_data (raise_stat i s) = oldest_SIF0_data s"
  by (simp_all add: raise_stat_def int1_check_def set_int1_signal_def)

lemma dm_set_request_frame [sif_frame]:
  "id_channels (dm_set_request i s) = id_channels s" "id_active (dm_set_request i s) = id_active s"
  "id_queue (dm_set_request i s) = id_queue s"
  by (simp_all add: dm_set_request_def check_for_activation_def Let_def put_chan_def raise_stat_frame)

lemma dm_set_request_fifos [sif_frame]:
  "SIF0_FIFO (dm_set_request i s) = SIF0_FIFO s" "SIF1_FIFO (dm_set_request i s) = SIF1_FIFO s"
  "oldest_SIF0_data (dm_set_request i s) = oldest_SIF0_data s"
  by (simp_all add: dm_set_request_def check_for_activation_def Let_def put_chan_def raise_stat_fifos)

lemma dm_clear_request_frame [sif_frame]:
  "dm_clear_request i s = Inr s' \<Longrightarrow>
     id_channels s' = id_channels s \<and> id_active s' = id_active s \<and> id_queue s' = id_queue s \<and>
     SIF0_FIFO s' = SIF0_FIFO s \<and> SIF1_FIFO s' = SIF1_FIFO s"
  by (auto simp: dm_clear_request_def deactivate_channel_def dm_find_new_active_channel_def
      put_chan_def Let_def split: if_splits list.splits)

text \<open>An operation in two halves: the FIFO changes, then the lines are driven.\<close>

lemma good_frame:
  "dm_channels t = dm_channels s \<Longrightarrow> dm_active t = dm_active s \<Longrightarrow> dm_queue t = dm_queue s
    \<Longrightarrow> dm_good t = dm_good s"
  "dm_channels t = dm_channels s \<Longrightarrow> dm_line t = dm_line s"
  "id_channels t = id_channels s \<Longrightarrow> id_line t = id_line s"
  by (simp_all add: dm_good_def dm_slots_def dm_ready_def dm_line_def id_line_def fun_eq_iff)

lemma fifo_update_frame [sif_frame]:
  "dm_good (SIF0_FIFO_update f s) = dm_good s" "id_good (SIF0_FIFO_update f s) = id_good s"
  "dm_line (SIF0_FIFO_update f s) = dm_line s" "id_line (SIF0_FIFO_update f s) = id_line s"
  "dm_good (SIF1_FIFO_update f s) = dm_good s" "id_good (SIF1_FIFO_update f s) = id_good s"
  "dm_line (SIF1_FIFO_update f s) = dm_line s" "id_line (SIF1_FIFO_update f s) = id_line s"
  "dm_good (oldest_SIF0_data_update g s) = dm_good s" "id_good (oldest_SIF0_data_update g s) = id_good s"
  "dm_line (oldest_SIF0_data_update g s) = dm_line s" "id_line (oldest_SIF0_data_update g s) = id_line s"
  by (rule good_frame id_good_cong; simp)+

lemma cross_frame [sif_frame]:
  "dm_good (id_set_request i s) = dm_good s" "dm_good (id_clear_request i s) = dm_good s"
  "dm_line (id_set_request i s) = dm_line s" "dm_line (id_clear_request i s) = dm_line s"
  "id_good (dm_set_request i s) = id_good s" "id_line (dm_set_request i s) = id_line s"
  by (rule good_frame id_good_cong; simp add: sif_frame)+

lemma dm_clear_request_keeps_iop:
  assumes "dm_clear_request i s = Inr s'"
  shows "id_good s' = id_good s" "id_line s' = id_line s"
    "SIF0_FIFO s' = SIF0_FIFO s" "SIF1_FIFO s' = SIF1_FIFO s"
  using dm_clear_request_frame [OF assms] id_good_cong [of s' s] good_frame(3) [of s' s]
  by simp_all

lemmas sif_lines_rules = dm_set_request_line id_set_request_line id_clear_request_line
  dm_set_request_good id_set_request_good id_clear_request_good sif_frame

lemma write_SIF0_shape:
  "dm_good s \<Longrightarrow> dm_good (write_SIF0 w s)" "id_good s \<Longrightarrow> id_good (write_SIF0 w s)"
  "SIF0_FIFO (write_SIF0 w s) = SIF0_FIFO s @ [w]" "SIF1_FIFO (write_SIF0 w s) = SIF1_FIFO s"
  "dm_line (write_SIF0 w s) j \<longleftrightarrow> (j = EE_SIF0 \<and> 3 \<le> length (SIF0_FIFO s)) \<or> dm_line s j"
  "id_line (write_SIF0 w s) j \<longleftrightarrow>
     id_line s j \<and> \<not> (j = IOP_SIF0 \<and> 31 \<le> length (SIF0_FIFO s))"
  unfolding write_SIF0_def Let_def get_SIF0_size_def MAX_FIFO_SIZE_def
  by (simp_all add: sif_lines_rules, auto)

lemma write_SIF0_ok: "sif_ok s \<Longrightarrow> sif_ok (write_SIF0 w s)"
  by (auto simp: sif_ok_def sif_lines_def write_SIF0_shape)

lemma read_SIF1_shape:
  assumes "SIF1_FIFO s = w # rest"
  obtains s' where "read_SIF1 s = Inr (w, s')" "dm_good s \<Longrightarrow> dm_good s'" "id_good s \<Longrightarrow> id_good s'"
    "SIF1_FIFO s' = rest" "SIF0_FIFO s' = SIF0_FIFO s"
    "\<And>j. dm_line s' j \<longleftrightarrow> (j = EE_SIF1 \<and> length rest < 16) \<or> dm_line s j"
    "\<And>j. id_line s' j \<longleftrightarrow> id_line s j \<and> \<not> (j = IOP_SIF1 \<and> rest = [])"
proof -
  define t where "t = s\<lparr>SIF1_FIFO := rest\<rparr>"
  define u where "u = (if rest = [] then id_clear_request IOP_SIF1 t else t)"
  define s' where "s' = (if length rest < 16 then dm_set_request EE_SIF1 u else u)"
  have u: "SIF1_FIFO u = rest" "SIF0_FIFO u = SIF0_FIFO s" "dm_line u = dm_line s"
    "dm_good s \<Longrightarrow> dm_good u" "id_good s \<Longrightarrow> id_good u"
    "id_line u j \<longleftrightarrow> id_line s j \<and> \<not> (j = IOP_SIF1 \<and> rest = [])" for j
    by (auto simp: u_def t_def sif_lines_rules)
  show ?thesis
  proof (rule that)
    show "read_SIF1 s = Inr (w, s')"
      using assms u(1)
      by (simp add: read_SIF1_def get_SIF1_size_def MAX_FIFO_SIZE_def Let_def s'_def
          u_def t_def sif_frame)
  qed (auto simp: s'_def u sif_lines_rules)
qed

lemma read_SIF1_ok:
  assumes "sif_ok s" and "SIF1_FIFO s = w # rest"
  shows "\<exists>s'. read_SIF1 s = Inr (w, s') \<and> sif_ok s' \<and> SIF1_FIFO s' = rest \<and>
           SIF0_FIFO s' = SIF0_FIFO s"
proof (rule read_SIF1_shape [OF assms(2)])
  fix s' assume r: "read_SIF1 s = Inr (w, s')" "dm_good s \<Longrightarrow> dm_good s'" "id_good s \<Longrightarrow> id_good s'"
    "SIF1_FIFO s' = rest" "SIF0_FIFO s' = SIF0_FIFO s"
    "\<And>j. dm_line s' j \<longleftrightarrow> (j = EE_SIF1 \<and> length rest < 16) \<or> dm_line s j"
    "\<And>j. id_line s' j \<longleftrightarrow> id_line s j \<and> \<not> (j = IOP_SIF1 \<and> rest = [])"
  have "sif_ok s'" using assms by (auto simp: sif_ok_def sif_lines_def r)
  with r show ?thesis by blast
qed

lemma read_SIF0_ok:
  assumes "sif_ok s" and "SIF0_FIFO s = w # rest"
  shows "\<exists>s'. read_SIF0 s = Inr (w, s') \<and> sif_ok s' \<and> SIF0_FIFO s' = rest \<and>
           SIF1_FIFO s' = SIF1_FIFO s"
proof -
  define t where "t = id_set_request IOP_SIF0 (s\<lparr>SIF0_FIFO := rest\<rparr>)"
  have good: "dm_good t" "id_good t" and fifo: "SIF0_FIFO t = rest" "SIF1_FIFO t = SIF1_FIFO s"
    and lines: "dm_line t = dm_line s" "\<And>j. id_line t j \<longleftrightarrow> j = IOP_SIF0 \<or> id_line s j"
    using assms(1) by (simp_all add: t_def sif_ok_def sif_lines_rules)
  show ?thesis
  proof (cases "length rest < 4")
    case True
    obtain s' where s': "dm_clear_request EE_SIF0 t = Inr s'" "dm_good s'"
      "\<And>j. dm_line s' j \<longleftrightarrow> j \<noteq> EE_SIF0 \<and> dm_line t j"
      using dm_clear_request_ok [OF good(1)] by blast
    have "read_SIF0 s = Inr (w, s')"
      using assms(2) True s'(1) by (simp add: read_SIF0_def Let_def t_def get_SIF0_size_def sif_frame)
    moreover have "sif_ok s'"
      using assms True s'(2,3) good fifo lines dm_clear_request_keeps_iop [OF s'(1)]
      by (simp add: sif_ok_def sif_lines_def)
    ultimately show ?thesis using dm_clear_request_keeps_iop [OF s'(1)] fifo by simp
  next
    case False
    then have "read_SIF0 s = Inr (w, t)"
      using assms(2) by (simp add: read_SIF0_def Let_def t_def get_SIF0_size_def sif_frame)
    moreover have "sif_ok t"
      using assms False good fifo lines by (auto simp: sif_ok_def sif_lines_def)
    ultimately show ?thesis using fifo by simp
  qed
qed

lemma write_SIF1_ok:
  assumes "sif_ok s"
  shows "\<exists>s'. write_SIF1 q s = Inr s' \<and> sif_ok s' \<and> SIF0_FIFO s' = SIF0_FIFO s \<and>
           SIF1_FIFO s' = SIF1_FIFO s @ map (\<lambda>i. ucast (drop_bit (32 * i) q)) [0..<4]"
proof -
  let ?q = "SIF1_FIFO s @ map (\<lambda>i. ucast (drop_bit (32 * i) q)) [0..<4]"
  define t where "t = id_set_request IOP_SIF1 (s\<lparr>SIF1_FIFO := ?q\<rparr>)"
  have good: "dm_good t" "id_good t" and fifo: "SIF1_FIFO t = ?q" "SIF0_FIFO t = SIF0_FIFO s"
    and lines: "dm_line t = dm_line s" "\<And>j. id_line t j \<longleftrightarrow> j = IOP_SIF1 \<or> id_line s j"
    using assms(1) by (simp_all add: t_def sif_ok_def sif_lines_rules)
  show ?thesis
  proof (cases "16 \<le> length ?q")
    case True
    obtain s' where s': "dm_clear_request EE_SIF1 t = Inr s'" "dm_good s'"
      "\<And>j. dm_line s' j \<longleftrightarrow> j \<noteq> EE_SIF1 \<and> dm_line t j"
      using dm_clear_request_ok [OF good(1)] by blast
    have "write_SIF1 q s = Inr s'"
      using True s'(1) fifo
      by (simp add: write_SIF1_def Let_def t_def [symmetric] get_SIF1_size_def MAX_FIFO_SIZE_def)
    moreover have "sif_ok s'"
      using assms True s'(2,3) good fifo lines dm_clear_request_keeps_iop [OF s'(1)]
      by (simp add: sif_ok_def sif_lines_def)
    ultimately show ?thesis using dm_clear_request_keeps_iop [OF s'(1)] fifo by simp
  next
    case False
    then have "write_SIF1 q s = Inr t"
      using fifo
      by (simp add: write_SIF1_def Let_def t_def [symmetric] get_SIF1_size_def MAX_FIFO_SIZE_def)
    moreover have "sif_ok t"
      using assms False good fifo lines by (auto simp: sif_ok_def sif_lines_def)
    ultimately show ?thesis using fifo by simp
  qed
qed

end
