(* ===== verification/Gamepad.thy ===== *)
theory Gamepad
  imports Base
begin

unbundle bit_operations_syntax

section \<open>The DualShock 2 controller\<close>

text \<open>
  \<open>src/core/iop/gamepad.cpp\<close> and \<open>gamepad.hpp\<close>. The controller answers one byte for each
  byte the SIO2 sends. Arrays are lists of the C length and an index past the end is
  \<open>Undefined\<close>. \<open>set_result\<close> copies \<open>sizeof(pointer)\<close> bytes (8) out of 7-byte tables: the byte
  behind a table is whatever the linker put there, the parameter \<open>past\<close>. The static
  \<open>mask_mode\<close> table is written by one command and is part of the state.
\<close>

subsection \<open>State\<close>

datatype pad_mode = DIGITAL | ANALOG | DS2_NATIVE

fun pad_mode_code :: "pad_mode \<Rightarrow> u8" where
  "pad_mode_code DIGITAL = 0x41"
| "pad_mode_code ANALOG = 0x73"
| "pad_mode_code DS2_NATIVE = 0x79"

datatype pad_button = SELECT | L3 | R3 | START | UP | RIGHT | DOWN | LEFT | L2 | R2 | L1 | R1
  | TRIANGLE | CIRCLE | CROSS | SQUARE

fun button_id :: "pad_button \<Rightarrow> nat" where
  "button_id SELECT = 0" | "button_id L3 = 1" | "button_id R3 = 2" | "button_id START = 3"
| "button_id UP = 4" | "button_id RIGHT = 5" | "button_id DOWN = 6" | "button_id LEFT = 7"
| "button_id L2 = 8" | "button_id R2 = 9" | "button_id L1 = 10" | "button_id R1 = 11"
| "button_id TRIANGLE = 12" | "button_id CIRCLE = 13" | "button_id CROSS = 14"
| "button_id SQUARE = 15"

datatype stick = Stick_right | Stick_left
datatype stick_axis = Axis_x | Axis_y

record gamepad =
  gp_command_buffer :: "u8 list"
  gp_rumble_values :: "u8 list"
  gp_mode_lock :: u8
  gp_buttons :: u16
  gp_joysticks :: "stick \<Rightarrow> stick_axis \<Rightarrow> u8"
  gp_button_pressure :: "u8 list"
  gp_command :: u8
  gp_command_length :: nat
  gp_data_count :: nat
  gp_mask :: "u8 list"
  gp_mask_mode :: "u8 list"
  gp_mode :: pad_mode
  gp_config_mode :: bool

subsection \<open>Tables\<close>

definition vref_param :: "u8 list" where "vref_param = [0x5A, 0, 0, 2, 0, 0, 0x5A]"
definition config_exit :: "u8 list" where "config_exit = [0x5A, 0, 0, 0, 0, 0, 0]"
definition set_mode_reply :: "u8 list" where "set_mode_reply = [0x5A, 0, 0, 0, 0, 0, 0]"
definition query_model_DS2 :: "u8 list" where "query_model_DS2 = [0x5A, 3, 2, 0, 2, 1, 0]"
definition query_act :: "u8 list list" where
  "query_act = [[0x5A, 0, 0, 1, 2, 0, 0x0A], [0x5A, 0, 0, 1, 1, 1, 0x14]]"
definition query_comb :: "u8 list" where "query_comb = [0x5A, 0, 0, 2, 0, 1, 0]"
definition query_mode :: "u8 list" where "query_mode = [0x5A, 0, 0, 0, 0, 0, 0]"
definition native_mode :: "u8 list" where "native_mode = [0x5A, 0, 0, 0, 0, 0, 0x5A]"

subsection \<open>Operations\<close>

definition reset_vibrate :: "gamepad \<Rightarrow> gamepad" where
  "reset_vibrate g = g\<lparr>gp_rumble_values := [0x5A, 0xFF, 0xFF, 0xFF, 0xFF, 0xFF, 0xFF, 0xFF]\<rparr>"

definition pad_reset :: "gamepad \<Rightarrow> gamepad" where
  "pad_reset g =
     reset_vibrate (g\<lparr>gp_command_buffer := (gp_command_buffer g)[0 := 0xFF],
       gp_config_mode := False, gp_buttons := 0xFFFF, gp_joysticks := (\<lambda>_ _. 0x80),
       gp_command_length := 0, gp_mode := DIGITAL, gp_command := 0, gp_data_count := 0,
       gp_mask := [0xFF, 0xFF], gp_mode_lock := 0\<rparr>)"

definition press_button :: "pad_button \<Rightarrow> gamepad \<Rightarrow> gamepad" where
  "press_button b g =
     g\<lparr>gp_buttons := gp_buttons g AND NOT (push_bit (button_id b) 1),
       gp_button_pressure := (gp_button_pressure g)[button_id b := 0xFF]\<rparr>"

definition release_button :: "pad_button \<Rightarrow> gamepad \<Rightarrow> gamepad" where
  "release_button b g =
     g\<lparr>gp_buttons := gp_buttons g OR push_bit (button_id b) 1,
       gp_button_pressure := (gp_button_pressure g)[button_id b := 0]\<rparr>"

definition update_joystick :: "stick \<Rightarrow> stick_axis \<Rightarrow> u8 \<Rightarrow> gamepad \<Rightarrow> gamepad" where
  "update_joystick j a v g =
     g\<lparr>gp_joysticks := (\<lambda>j' a'. if j' = j \<and> a' = a then v else gp_joysticks g j' a')\<rparr>"

text \<open>Consecutive stores \<open>command_buffer[i] = x, command_buffer[i + 1] = y, ...\<close>.\<close>

fun put_bytes :: "nat \<Rightarrow> u8 list \<Rightarrow> u8 list \<Rightarrow> u8 list" where
  "put_bytes i [] buf = buf"
| "put_bytes i (x # xs) buf = put_bytes (Suc i) xs (buf[i := x])"

definition set_result :: "(u8 list \<Rightarrow> u8) \<Rightarrow> u8 list \<Rightarrow> gamepad \<Rightarrow> gamepad" where
  "set_result past result g =
     g\<lparr>gp_command_buffer := put_bytes 2 (result @ [past result]) (gp_command_buffer g),
       gp_command_length := 10\<rparr>"

definition pad_start_transfer :: "u8 \<Rightarrow> gamepad \<Rightarrow> u8 \<times> gamepad" where
  "pad_start_transfer v g = (0xFF, g\<lparr>gp_data_count := 0, gp_command_length := 5\<rparr>)"

definition pressures :: "pad_button list" where
  "pressures = [RIGHT, LEFT, UP, DOWN, TRIANGLE, CIRCLE, CROSS, SQUARE, L1, R1, L2, R2]"

text \<open>Command \<open>B\<close> (0x42), the poll.\<close>

definition read_data :: "gamepad \<Rightarrow> u8 \<times> gamepad" where
  "read_data g =
     (let buf = put_bytes 2 [0x5A, ucast (gp_buttons g AND 0xFF),
                   ucast (drop_bit 8 (gp_buttons g))] (gp_command_buffer g);
          j = gp_joysticks g;
          g' = (if gp_mode g \<noteq> DIGITAL
                then let buf = put_bytes 5 [j Stick_right Axis_x, j Stick_right Axis_y,
                           j Stick_left Axis_x, j Stick_left Axis_y] buf
                     in if gp_mode g \<noteq> ANALOG \<and> \<not> gp_config_mode g
                        then g\<lparr>gp_command_buffer :=
                                 put_bytes 9 (map (\<lambda>b. gp_button_pressure g ! button_id b) pressures)
                                   buf,
                               gp_command_length := 21\<rparr>
                        else g\<lparr>gp_command_buffer := buf, gp_command_length := 9\<rparr>
                else g\<lparr>gp_command_buffer := buf, gp_command_length := 5\<rparr>)
      in (pad_mode_code (gp_mode g), g'))"

definition load_mask_mode :: "gamepad \<Rightarrow> gamepad" where
  "load_mask_mode g =
     g\<lparr>gp_mask_mode :=
        (if gp_mode g = DIGITAL
         then (gp_mask_mode g)[3 := 0, 2 := 0, 1 := 0, 6 := 0]
         else (gp_mask_mode g)[1 := gp_mask g ! 0, 2 := gp_mask g ! 1, 3 := 3, 6 := 0x5A])\<rparr>"

definition pad_command :: "(u8 list \<Rightarrow> u8) \<Rightarrow> u8 \<Rightarrow> gamepad \<Rightarrow> (u8 \<times> gamepad) res" where
  "pad_command past v g =
     (if v = 0x43 \<and> gp_config_mode g then Inr (0xF3, set_result past config_exit g)
      else if v = 0x43 \<or> v = 0x42 then Inr (read_data g)
      else if v = 0x40 then Inr (0xF3, set_result past vref_param g)
      else if v = 0x41
      then let g = load_mask_mode g in Inr (0xF3, set_result past (gp_mask_mode g) g)
      else if v = 0x44 then Inr (0xF3, reset_vibrate (set_result past set_mode_reply g))
      else if v = 0x45
      then let g = set_result past query_model_DS2 g
           in Inr (0xF3, g\<lparr>gp_command_buffer := (gp_command_buffer g)
                [5 := of_bool (pad_mode_code (gp_mode g) AND 0xF \<noteq> 1)]\<rparr>)
      else if v = 0x46 then Inr (0xF3, set_result past (query_act ! 0) g)
      else if v = 0x47 then Inr (0xF3, set_result past query_comb g)
      else if v = 0x4C then Inr (0xF3, set_result past query_mode g)
      else if v = 0x4D
      then Inr (0xF3, reset_vibrate (g\<lparr>gp_command_length := 9,
             gp_command_buffer := put_bytes 2 (take 7 (gp_rumble_values g)) (gp_command_buffer g)\<rparr>))
      else if v = 0x4F then Inr (0xF3, set_result past native_mode g)
      else Inl (Die ''[PAD] Unrecognized command''))"

text \<open>The second \<open>switch\<close>: a parameter byte of the current command, \<open>data_count\<close>
  already incremented.\<close>

definition pad_param :: "(u8 list \<Rightarrow> u8) \<Rightarrow> u8 \<Rightarrow> gamepad \<Rightarrow> gamepad res" where
  "pad_param past v g =
     (let n = gp_data_count g; c = gp_command g in
      if c = 0x43 then Inr (if n = 3 then g\<lparr>gp_config_mode := (v \<noteq> 0)\<rparr> else g)
      else if c = 0x44
      then Inr (if n = 3
                then if v < 2 \<and> gp_mode_lock g = 0
                     then g\<lparr>gp_mode := (if v \<noteq> 0 then ANALOG else DIGITAL)\<rparr> else g
                else if n = 4 then g\<lparr>gp_mode_lock := (if v = 3 then 3 else 0)\<rparr>
                else g)
      else if c = 0x46
      then Inr (if n = 3 \<and> v < 2 then set_result past (query_act ! unat v) g else g)
      else if c = 0x4C
      then Inr (if n = 3 \<and> v < 2
                then g\<lparr>gp_command_buffer := (gp_command_buffer g)[6 := 4 + v * 3]\<rparr> else g)
      else if c = 0x4D
      then if 3 \<le> n
           then rbind (vec_set (gp_rumble_values g) (n - 2) v) (\<lambda>r. Inr (g\<lparr>gp_rumble_values := r\<rparr>))
           else Inr g
      else if c = 0x4F
      then Inr (if n = 3 \<or> n = 4 then g\<lparr>gp_mask := (gp_mask g)[n - 3 := v]\<rparr>
                else if n = 5
                then g\<lparr>gp_mode := (if v AND 1 = 0 then DIGITAL
                                  else if v AND 2 = 0 then ANALOG else DS2_NATIVE)\<rparr>
                else g)
      else Inr g)"

definition pad_write_SIO :: "(u8 list \<Rightarrow> u8) \<Rightarrow> u8 \<Rightarrow> gamepad \<Rightarrow> (u8 \<times> gamepad) res" where
  "pad_write_SIO past v g =
     (if gp_command_length g < gp_data_count g then Inr (0, g)
      else if gp_data_count g = 0
      then if \<not> gp_config_mode g \<and> v \<noteq> 0x42 \<and> v \<noteq> 0x43
           then Inr (0xF3, g\<lparr>gp_command_length := 0, gp_data_count := 1\<rparr>)
           else pad_command past v (g\<lparr>gp_command := v, gp_data_count := gp_data_count g + 1\<rparr>)
      else rbind (pad_param past v (g\<lparr>gp_data_count := gp_data_count g + 1\<rparr>)) (\<lambda>g.
           rbind (vec_at (gp_command_buffer g) (gp_data_count g)) (\<lambda>r. Inr (r, g))))"

subsection \<open>Bounds\<close>

lemma length_put_bytes [simp]: "length (put_bytes i xs buf) = length buf"
  by (induction i xs buf rule: put_bytes.induct) simp_all

definition pad_wf :: "gamepad \<Rightarrow> bool" where
  "pad_wf g \<longleftrightarrow>
     length (gp_command_buffer g) = 25 \<and> length (gp_rumble_values g) = 8 \<and>
     length (gp_button_pressure g) = 16 \<and> length (gp_mask g) = 2 \<and>
     length (gp_mask_mode g) = 7 \<and> gp_command_length g \<le> 21 \<and> gp_data_count g \<le> 22 \<and>
     (gp_data_count g \<le> gp_command_length g + 1)"

lemmas pad_defs = set_result_def reset_vibrate_def read_data_def load_mask_mode_def Let_def

lemma pad_reset_wf:
  assumes "length (gp_command_buffer g) = 25" "length (gp_button_pressure g) = 16"
    "length (gp_mask_mode g) = 7"
  shows "pad_wf (pad_reset g)"
  using assms by (simp add: pad_reset_def pad_wf_def reset_vibrate_def)

lemma pad_input_wf:
  "pad_wf g \<Longrightarrow> pad_wf (press_button b g)" "pad_wf g \<Longrightarrow> pad_wf (release_button b g)"
  "pad_wf g \<Longrightarrow> pad_wf (update_joystick j a v g)"
  "pad_wf g \<Longrightarrow> pad_wf (snd (pad_start_transfer v g))"
  by (simp_all add: press_button_def release_button_def update_joystick_def
      pad_start_transfer_def pad_wf_def)

definition pad_shape :: "gamepad \<Rightarrow> bool" where
  "pad_shape g \<longleftrightarrow>
     length (gp_command_buffer g) = 25 \<and> length (gp_rumble_values g) = 8 \<and>
     length (gp_button_pressure g) = 16 \<and> length (gp_mask g) = 2 \<and>
     length (gp_mask_mode g) = 7"

lemma pad_wf_iff:
  "pad_wf g \<longleftrightarrow> pad_shape g \<and> gp_command_length g \<le> 21 \<and> gp_data_count g \<le> 22 \<and>
     gp_data_count g \<le> gp_command_length g + 1"
  by (auto simp: pad_wf_def pad_shape_def)

lemma set_result_fields [simp]:
  "pad_shape (set_result past r g) = pad_shape g"
  "gp_command_length (set_result past r g) = 10"
  "gp_data_count (set_result past r g) = gp_data_count g"
  "gp_mode (set_result past r g) = gp_mode g"
  by (simp_all add: set_result_def pad_shape_def)

lemma reset_vibrate_fields [simp]:
  "pad_shape g \<Longrightarrow> pad_shape (reset_vibrate g)"
  "gp_command_length (reset_vibrate g) = gp_command_length g"
  "gp_data_count (reset_vibrate g) = gp_data_count g"
  by (simp_all add: reset_vibrate_def pad_shape_def)

lemma read_data_fields:
  assumes "pad_shape g"
  shows "pad_shape (snd (read_data g))" "gp_data_count (snd (read_data g)) = gp_data_count g"
    "5 \<le> gp_command_length (snd (read_data g))" "gp_command_length (snd (read_data g)) \<le> 21"
  using assms by (simp_all add: read_data_def pad_shape_def Let_def)

lemma load_mask_mode_fields [simp]:
  "pad_shape g \<Longrightarrow> pad_shape (load_mask_mode g)"
  "gp_data_count (load_mask_mode g) = gp_data_count g"
  by (simp_all add: load_mask_mode_def pad_shape_def)

lemma pad_shape_upds [simp]:
  "pad_shape (g\<lparr>gp_command_length := n\<rparr>) = pad_shape g"
  "pad_shape (g\<lparr>gp_data_count := n\<rparr>) = pad_shape g"
  "pad_shape (g\<lparr>gp_command := c\<rparr>) = pad_shape g"
  "pad_shape (g\<lparr>gp_mode := m\<rparr>) = pad_shape g"
  "pad_shape (g\<lparr>gp_mode_lock := l\<rparr>) = pad_shape g"
  "pad_shape (g\<lparr>gp_config_mode := b\<rparr>) = pad_shape g"
  "length buf = length (gp_command_buffer g) \<Longrightarrow>
     pad_shape (g\<lparr>gp_command_buffer := buf\<rparr>) = pad_shape g"
  "length r = length (gp_rumble_values g) \<Longrightarrow>
     pad_shape (g\<lparr>gp_rumble_values := r\<rparr>) = pad_shape g"
  "length mk = length (gp_mask g) \<Longrightarrow> pad_shape (g\<lparr>gp_mask := mk\<rparr>) = pad_shape g"
  by (simp_all add: pad_shape_def)

lemma pad_command_wf:
  assumes "pad_shape g" and "gp_data_count g = 1"
  shows "ok_post (pad_command past v g) (\<lambda>(r, g'). pad_wf g')"
  using assms read_data_fields [OF assms(1)]
  by (auto simp: pad_command_def pad_wf_iff Let_def split: prod.splits intro!: ok_postI)

lemma pad_command_no_undefined: "pad_command past v g \<noteq> Inl (Undefined m)"
  by (simp add: pad_command_def Let_def)

lemma pad_param_wf:
  assumes "pad_shape g" and "gp_command_length g \<le> 21" and "gp_data_count g \<le> 22"
    and "gp_data_count g \<le> gp_command_length g + 1"
  shows "ok_post (pad_param past v g) pad_wf"
  using assms
  by (auto simp: pad_param_def Let_def pad_wf_iff vec_set_def pad_shape_def set_result_def)

lemma pad_param_undefined:
  assumes "pad_shape g" and "pad_param past v g = Inl (Undefined m)"
  shows "gp_command g = 0x4D \<and> 10 \<le> gp_data_count g"
  using assms
  by (auto simp: pad_param_def Let_def vec_set_def pad_shape_def rbind_eq_Inl split: if_splits)

lemma pad_param_keeps:
  assumes "pad_param past v g = Inr g'"
  shows "gp_data_count g' = gp_data_count g"
  using assms
  by (auto simp: pad_param_def Let_def rbind_eq_Inr split: if_splits)

text \<open>One byte in, one byte out, and the controller stays within its arrays, except for the
  tenth parameter byte of the vibration command.\<close>

lemma pad_write_wf:
  assumes "pad_wf g" and "pad_write_SIO past v g = Inr (r, g')"
  shows "pad_wf g'"
proof -
  have shape: "pad_shape g" and len: "gp_command_length g \<le> 21" using assms(1) by (auto simp: pad_wf_iff)
  show ?thesis
  proof (cases "gp_command_length g < gp_data_count g \<or> gp_data_count g = 0")
    case True
    then show ?thesis
      using assms shape pad_command_wf [of "g\<lparr>gp_command := v, gp_data_count := 1\<rparr>" past v]
      by (auto simp: pad_write_SIO_def pad_wf_iff split: if_splits)
  next
    case False
    then have "ok_post (pad_param past v (g\<lparr>gp_data_count := gp_data_count g + 1\<rparr>)) pad_wf"
      using shape len by (intro pad_param_wf) auto
    then show ?thesis using False assms(2) by (auto simp: pad_write_SIO_def rbind_eq_Inr)
  qed
qed

lemma pad_write_undefined:
  assumes "pad_wf g" and "pad_write_SIO past v g = Inl (Undefined m)"
  shows "gp_command g = 0x4D \<and> 9 \<le> gp_data_count g"
proof -
  let ?g = "g\<lparr>gp_data_count := gp_data_count g + 1\<rparr>"
  have shape: "pad_shape g" and len: "gp_command_length g \<le> 21" using assms(1) by (auto simp: pad_wf_iff)
  have go: "gp_data_count g \<noteq> 0" "gp_data_count g \<le> gp_command_length g"
    using assms(2) pad_command_no_undefined by (auto simp: pad_write_SIO_def split: if_splits)
  have "pad_param past v ?g = Inl (Undefined m)"
  proof (rule ccontr)
    assume *: "pad_param past v ?g \<noteq> Inl (Undefined m)"
    then obtain g1 where g1: "pad_param past v ?g = Inr g1"
      using go assms(2) by (auto simp: pad_write_SIO_def rbind_eq_Inl split: if_splits)
    have "pad_wf g1"
      using pad_param_wf [of ?g past v] shape len go g1 by auto
    then have "gp_data_count g1 < length (gp_command_buffer g1)" by (auto simp: pad_wf_def)
    then show False using go assms(2) g1 by (simp add: pad_write_SIO_def split: if_splits)
  qed
  then show ?thesis using pad_param_undefined [of ?g past v m] shape by simp
qed

lemma pad_rumble_overrun:
  assumes "pad_wf g" "gp_command g = 0x4D" "gp_data_count g = 9" "9 \<le> gp_command_length g"
  shows "pad_write_SIO past v g = Inl (Undefined ''index out of range'')"
  using assms by (simp add: pad_write_SIO_def pad_param_def Let_def vec_set_def pad_wf_def)

end
