(* ===== verification/Memcard.thy ===== *)
theory Memcard
  imports Base
begin

unbundle bit_operations_syntax

section \<open>The memory card\<close>

text \<open>
  \<open>src/core/iop/memcard.cpp\<close> and \<open>memcard.hpp\<close>: the serial protocol of a PS2 memory card.
  The card's storage is a function on byte offsets with its size (0 while no card is open); an
  access outside it, like a store outside \<open>response_buffer\<close>, is \<open>Undefined\<close>. The host
  file is a parameter of \<open>mc_open\<close>; writing it back is not modelled beyond the dirty flag.
\<close>

subsection \<open>State\<close>

record memcard =
  mc_page_size :: u16
  mc_erase_block_pages :: u16
  mc_page_count :: u32
  mc_mem :: "nat \<Rightarrow> u8"
  mc_size :: nat
  mc_cmd_length :: nat
  mc_cmd_params :: nat
  mc_cmd :: u8
  mc_terminator :: u8
  mc_file_opened :: bool
  mc_is_dirty :: bool
  mc_response_buffer :: "u8 list"
  mc_read_pos :: nat
  mc_write_pos :: nat
  mc_response_size :: nat
  mc_mem_addr :: u32
  mc_mem_write_size :: u8
  mc_auth_f0_do_xor :: bool
  mc_auth_f0_checksum :: u8

subsection \<open>Opening and resetting\<close>

definition mc_start_transfer :: "memcard \<Rightarrow> memcard" where
  "mc_start_transfer m =
     m\<lparr>mc_cmd_length := 0, mc_cmd_params := 0, mc_read_pos := 0, mc_write_pos := 0,
       mc_response_size := 0, mc_auth_f0_do_xor := False,
       mc_response_buffer := replicate 1024 0\<rparr>"

definition mc_reset :: "memcard \<Rightarrow> memcard" where
  "mc_reset m = (mc_start_transfer (m\<lparr>mc_is_dirty := False\<rparr>))\<lparr>mc_terminator := 0x55\<rparr>"

definition mc_open :: "(nat \<Rightarrow> u8) option \<Rightarrow> memcard \<Rightarrow> memcard" where
  "mc_open file m =
     (case file of
        Some contents \<Rightarrow>
          m\<lparr>mc_page_size := 0x200, mc_erase_block_pages := 16, mc_page_count := 0x4000,
            mc_file_opened := True, mc_mem := contents, mc_size := (0x200 + 16) * 0x4000\<rparr>
      | None \<Rightarrow> m\<lparr>mc_size := 0, mc_file_opened := False\<rparr>)"

definition is_connected :: "memcard \<Rightarrow> bool" where
  "is_connected m = mc_file_opened m"

definition save_if_dirty :: "memcard \<Rightarrow> memcard" where
  "save_if_dirty m =
     (if mc_is_dirty m \<and> mc_file_opened m then m\<lparr>mc_is_dirty := False\<rparr> else m)"

subsection \<open>Responses\<close>

definition set_response :: "nat \<Rightarrow> u8 \<Rightarrow> memcard \<Rightarrow> memcard res" where
  "set_response i v m =
     rbind (vec_set (mc_response_buffer m) i v) (\<lambda>b. Inr (m\<lparr>mc_response_buffer := b\<rparr>))"

definition read_response :: "memcard \<Rightarrow> (u8 \<times> memcard) res" where
  "read_response m =
     (if 1024 \<le> mc_read_pos m
      then Inl (Die ''[Memcard] Reading more response data than is available!'')
      else rbind (vec_at (mc_response_buffer m) (mc_read_pos m)) (\<lambda>v.
             Inr (v, m\<lparr>mc_read_pos := mc_read_pos m + 1\<rparr>)))"

definition write_response :: "u8 \<Rightarrow> memcard \<Rightarrow> memcard res" where
  "write_response v m =
     rbind (set_response (mc_write_pos m) v m) (\<lambda>m.
       let m = m\<lparr>mc_write_pos := mc_write_pos m + 1,
                 mc_response_size := mc_response_size m + 1\<rparr>
       in if 1024 \<le> mc_write_pos m
          then Inl (Die ''[Memcard] Response size exceeds buffer length!'')
          else Inr m)"

fun write_responses :: "u8 list \<Rightarrow> memcard \<Rightarrow> memcard res" where
  "write_responses [] m = Inr m"
| "write_responses (v # vs) m = rbind (write_response v m) (write_responses vs)"

definition response_end :: "memcard \<Rightarrow> memcard res" where
  "response_end m =
     rbind (set_response (mc_cmd_length m - 2) 0x2B m) (\<lambda>m.
       set_response (mc_cmd_length m - 1) (mc_terminator m) m)"

definition do_checksum :: "u8 list \<Rightarrow> u8" where
  "do_checksum bytes = fold (XOR) bytes 0"

text \<open>The bytes of \<open>specs\<close> in memory order.\<close>

definition specs_bytes :: "memcard \<Rightarrow> u8 list" where
  "specs_bytes m =
     [ucast (mc_page_size m), ucast (drop_bit 8 (mc_page_size m)),
      ucast (mc_erase_block_pages m), ucast (drop_bit 8 (mc_erase_block_pages m)),
      ucast (mc_page_count m), ucast (drop_bit 8 (mc_page_count m)),
      ucast (drop_bit 16 (mc_page_count m)), ucast (drop_bit 24 (mc_page_count m))]"

subsection \<open>Storage\<close>

definition mem_range :: "nat \<Rightarrow> nat \<Rightarrow> memcard \<Rightarrow> u8 list res" where
  "mem_range a n m =
     (if a + n \<le> mc_size m then Inr (map (mc_mem m) [a..<a + n])
      else Inl (Undefined ''memory card index out of range''))"

definition erase_sector :: "memcard \<Rightarrow> memcard res" where
  "erase_sector m =
     (let a = unat (mc_mem_addr m); m = m\<lparr>mc_is_dirty := True\<rparr>
      in if a + 528 * 16 \<le> mc_size m
         then Inr (m\<lparr>mc_mem := (\<lambda>i. if a \<le> i \<and> i < a + 528 * 16 then 0xFF else mc_mem m i)\<rparr>)
         else Inl (Undefined ''memory card index out of range''))"

definition sector_op :: "u8 \<Rightarrow> memcard \<Rightarrow> memcard" where
  "sector_op v m =
     (let n = mc_cmd_params m; a = mc_mem_addr m in
      if n = 0 then m\<lparr>mc_mem_addr := ucast v\<rparr>
      else if n = 1 then m\<lparr>mc_mem_addr := a OR push_bit 8 (ucast v)\<rparr>
      else if n = 2 then m\<lparr>mc_mem_addr := a OR push_bit 16 (ucast v)\<rparr>
      else if n = 3 then m\<lparr>mc_mem_addr := (a OR push_bit 24 (ucast v)) * (512 + 16)\<rparr>
      else m)"

definition read_mem :: "u32 \<Rightarrow> u8 \<Rightarrow> memcard \<Rightarrow> memcard res" where
  "read_mem addr n m =
     rbind (mem_range (unat addr) (unat n) m) (\<lambda>bytes.
     rbind (write_responses bytes m) (\<lambda>m.
     rbind (write_response (do_checksum bytes) m) (\<lambda>m.
       write_response (mc_terminator m) m)))"

definition write_mem :: "u8 \<Rightarrow> memcard \<Rightarrow> memcard res" where
  "write_mem data m =
     (if mc_cmd_params m = 0
      then set_response (unat data + 3) (mc_terminator m) (m\<lparr>mc_mem_write_size := data\<rparr>)
      else if mc_cmd_params m - 1 < unat (mc_mem_write_size m)
      then let a = unat (mc_mem_addr m); m = m\<lparr>mc_is_dirty := True\<rparr>
           in if a < mc_size m
              then Inr (m\<lparr>mc_mem := (mc_mem m)(a := data), mc_mem_addr := mc_mem_addr m + 1\<rparr>)
              else Inl (Undefined ''memory card index out of range'')
      else Inr m)"

definition do_auth_f0 :: "u8 \<Rightarrow> memcard \<Rightarrow> memcard res" where
  "do_auth_f0 v m =
     (if mc_cmd_params m = 0
      then if v \<in> {0x06, 0x07, 0x0B}
           then response_end (m\<lparr>mc_cmd_length := 12, mc_auth_f0_do_xor := False\<rparr>)
           else if v \<in> {0x01, 0x02, 0x04, 0x0F, 0x11, 0x13}
           then write_response 0 (m\<lparr>mc_auth_f0_do_xor := True, mc_auth_f0_checksum := 0\<rparr>)
           else response_end (m\<lparr>mc_auth_f0_do_xor := False\<rparr>)
      else if mc_auth_f0_do_xor m
      then if mc_cmd_params m = 1 then write_response 0x2B m
           else if mc_cmd_params m = 10
           then rbind (write_response (mc_auth_f0_checksum m) m)
                  (\<lambda>m. write_response (mc_terminator m) m)
           else write_response 0
                  (m\<lparr>mc_auth_f0_checksum := mc_auth_f0_checksum m XOR v\<rparr>)
      else Inr m)"

subsection \<open>The serial interface\<close>

definition mc_begin :: "u8 \<Rightarrow> memcard \<Rightarrow> memcard res" where
  "mc_begin data m =
     (let m = m\<lparr>mc_cmd := data\<rparr>;
          respond_in = (\<lambda>n. response_end (m\<lparr>mc_cmd_length := n\<rparr>))
      in if data \<in> {0x11, 0x12, 0x81} then respond_in 2
         else if data \<in> {0x21, 0x22, 0x23} then respond_in 7
         else if data = 0x26
         then write_responses ([0x2B] @ specs_bytes m @ [do_checksum (specs_bytes m), mc_terminator m])
                (m\<lparr>mc_cmd_length := 11\<rparr>)
         else if data \<in> {0x27, 0xBF, 0xF3, 0xF7} then respond_in 3
         else if data = 0x28
         then rbind (write_responses [0x2B, mc_terminator m, 0x55] m)
                (\<lambda>m. Inr (m\<lparr>mc_cmd_length := 3\<rparr>))
         else if data \<in> {0x42, 0x43}
         then write_responses [0x2B, mc_terminator m] (m\<lparr>mc_cmd_length := 132\<rparr>)
         else if data = 0x82 then rbind (respond_in 2) erase_sector
         else if data = 0xF0 then Inr (m\<lparr>mc_cmd_length := 3\<rparr>)
         else Inl (Die ''[Memcard] Unrecognized command''))"

definition mc_continue :: "u8 \<Rightarrow> memcard \<Rightarrow> memcard res" where
  "mc_continue data m =
     (let c = mc_cmd m in
      if c \<in> {0x21, 0x22, 0x23} then Inr (sector_op data m)
      else if c = 0x27
      then if mc_cmd_params m = 0 then response_end (m\<lparr>mc_terminator := data\<rparr>) else Inr m
      else if c = 0x42 then write_mem data m
      else if c = 0x43
      then if mc_cmd_params m = 0
           then rbind (read_mem (mc_mem_addr m) data m)
                  (\<lambda>m. Inr (m\<lparr>mc_mem_addr := mc_mem_addr m + ucast data\<rparr>))
           else Inr m
      else if c = 0xF0 then do_auth_f0 data m
      else Inr m)"

definition mc_write_serial :: "u8 \<Rightarrow> memcard \<Rightarrow> (u8 \<times> memcard) res" where
  "mc_write_serial data m =
     (if mc_cmd_length m = 0 then rbind (mc_begin data m) (\<lambda>m. Inr (0xFF, m))
      else rbind (mc_continue data m) (\<lambda>m.
             read_response (m\<lparr>mc_cmd_params := mc_cmd_params m + 1\<rparr>)))"

text \<open>A whole exchange: the bytes sent and the bytes that come back.\<close>

fun mc_exchange :: "u8 list \<Rightarrow> memcard \<Rightarrow> (u8 list \<times> memcard) res" where
  "mc_exchange [] m = Inr ([], m)"
| "mc_exchange (b # bs) m =
     rbind (mc_write_serial b m) (\<lambda>(r, m).
     rbind (mc_exchange bs m) (\<lambda>(rs, m). Inr (r # rs, m)))"

subsection \<open>The response buffer\<close>

definition mc_wf :: "memcard \<Rightarrow> bool" where
  "mc_wf m \<longleftrightarrow> length (mc_response_buffer m) = 1024 \<and> mc_write_pos m < 1024"

lemma mc_wf_start [simp]: "mc_wf (mc_start_transfer m)"
  by (simp add: mc_start_transfer_def mc_wf_def)

lemma set_response_ok:
  "mc_wf m \<Longrightarrow> i < 1024 \<Longrightarrow>
   set_response i v m = Inr (m\<lparr>mc_response_buffer := (mc_response_buffer m)[i := v]\<rparr>)"
  by (simp add: set_response_def mc_wf_def)

lemma write_response_eq:
  assumes "mc_wf m" and "mc_write_pos m < 1023"
  shows "write_response v m =
         Inr (m\<lparr>mc_response_buffer := (mc_response_buffer m)[mc_write_pos m := v],
                mc_write_pos := mc_write_pos m + 1,
                mc_response_size := mc_response_size m + 1\<rparr>)"
  using assms by (simp add: write_response_def set_response_def mc_wf_def)

lemma write_responses_eq:
  assumes "mc_wf m" and "mc_write_pos m + length vs < 1024"
  shows "\<exists>m'. write_responses vs m = Inr m' \<and> mc_wf m' \<and>
     m' = m\<lparr>mc_response_buffer := take (mc_write_pos m) (mc_response_buffer m) @ vs @
              drop (mc_write_pos m + length vs) (mc_response_buffer m),
            mc_write_pos := mc_write_pos m + length vs,
            mc_response_size := mc_response_size m + length vs\<rparr>"
  using assms
proof (induction vs arbitrary: m)
  case Nil
  then show ?case by (simp add: mc_wf_def)
next
  case (Cons v vs)
  let ?p = "mc_write_pos m" and ?b = "mc_response_buffer m"
  let ?m = "m\<lparr>mc_response_buffer := ?b[?p := v], mc_write_pos := ?p + 1,
              mc_response_size := mc_response_size m + 1\<rparr>"
  have w: "write_response v m = Inr ?m"
    using Cons.prems by (intro write_response_eq) auto
  have wf: "mc_wf ?m" using Cons.prems by (simp add: mc_wf_def)
  have "?p < length ?b" using Cons.prems by (simp add: mc_wf_def)
  then have "take (?p + 1) (?b[?p := v]) = take ?p ?b @ [v]"
    by (simp add: take_Suc_conv_app_nth)
  then show ?case
    using Cons.IH [OF wf] Cons.prems(2) w by (auto simp: mc_wf_def)
qed

subsection \<open>Exchanges\<close>

lemma mc_exchange_append:
  "mc_exchange (xs @ ys) m =
   rbind (mc_exchange xs m) (\<lambda>(rs, m). rbind (mc_exchange ys m) (\<lambda>(rs', m). Inr (rs @ rs', m)))"
proof (induction xs arbitrary: m)
  case Nil
  then show ?case by (cases "mc_exchange ys m") (auto split: prod.splits)
next
  case (Cons x xs)
  then show ?case
    by (simp add: rbind_assoc split_def)
qed

text \<open>Bytes that the current command ignores just clock the response out.\<close>

definition idle :: "memcard \<Rightarrow> bool" where
  "idle m \<longleftrightarrow> mc_cmd_length m \<noteq> 0 \<and> mc_cmd m = 0x43 \<and> 0 < mc_cmd_params m"

lemma clock_out:
  assumes "idle m" "mc_wf m" "mc_read_pos m + length ds \<le> 1024"
  shows "mc_exchange ds m =
         Inr (take (length ds) (drop (mc_read_pos m) (mc_response_buffer m)),
              m\<lparr>mc_cmd_params := mc_cmd_params m + length ds,
                mc_read_pos := mc_read_pos m + length ds\<rparr>)"
  using assms
proof (induction ds arbitrary: m)
  case (Cons d ds)
  let ?m = "m\<lparr>mc_cmd_params := mc_cmd_params m + 1, mc_read_pos := mc_read_pos m + 1\<rparr>"
  have "mc_read_pos m < length (mc_response_buffer m)" using Cons.prems by (simp add: mc_wf_def)
  then have "mc_write_serial d m = Inr (mc_response_buffer m ! mc_read_pos m, ?m)"
    using Cons.prems
    by (simp add: mc_write_serial_def mc_continue_def idle_def read_response_def mc_wf_def)
  moreover have "mc_exchange ds ?m =
      Inr (take (length ds) (drop (mc_read_pos m + 1) (mc_response_buffer m)),
           m\<lparr>mc_cmd_params := mc_cmd_params m + length (d # ds),
             mc_read_pos := mc_read_pos m + length (d # ds)\<rparr>)"
    using Cons.prems Cons.IH [of ?m] by (simp add: idle_def mc_wf_def)
  moreover have "drop (mc_read_pos m) (mc_response_buffer m) =
      mc_response_buffer m ! mc_read_pos m # drop (mc_read_pos m + 1) (mc_response_buffer m)"
    using \<open>mc_read_pos m < length (mc_response_buffer m)\<close> by (simp add: Cons_nth_drop_Suc)
  ultimately show ?case by simp
qed simp

lemma begin_read:
  assumes "m = mc_start_transfer m0"
  shows "\<exists>m'. mc_write_serial 0x43 m = Inr (0xFF, m') \<and> mc_wf m' \<and> mc_cmd m' = 0x43 \<and>
     mc_cmd_length m' = 132 \<and> mc_cmd_params m' = 0 \<and> mc_read_pos m' = 0 \<and>
     mc_write_pos m' = 2 \<and> take 2 (mc_response_buffer m') = [0x2B, mc_terminator m0] \<and>
     mc_mem m' = mc_mem m0 \<and> mc_size m' = mc_size m0 \<and> mc_mem_addr m' = mc_mem_addr m0 \<and>
     mc_terminator m' = mc_terminator m0"
proof -
  let ?m = "m\<lparr>mc_cmd := 0x43, mc_cmd_length := 132\<rparr>"
  have wf: "mc_wf ?m" and pos: "mc_write_pos ?m = 0"
    by (simp_all add: assms mc_wf_def mc_start_transfer_def)
  from write_responses_eq [OF wf, of "[0x2B, mc_terminator m0]"] pos
  obtain m' where "write_responses [0x2B, mc_terminator m0] ?m = Inr m'" "mc_wf m'"
    "m' = ?m\<lparr>mc_response_buffer := [0x2B, mc_terminator m0] @ drop 2 (mc_response_buffer ?m),
             mc_write_pos := 2, mc_response_size := mc_response_size ?m + 2\<rparr>"
    by (auto simp: numeral_2_eq_2)
  then show ?thesis
    by (intro exI [of _ m'])
      (simp add: mc_write_serial_def mc_begin_def Let_def assms mc_start_transfer_def)
qed

definition mem_bytes :: "nat \<Rightarrow> nat \<Rightarrow> memcard \<Rightarrow> u8 list" where
  "mem_bytes a n m = map (mc_mem m) [a..<a + n]"

lemma write_responses_append:
  "write_responses (xs @ ys) m = rbind (write_responses xs m) (write_responses ys)"
proof (induction xs arbitrary: m)
  case (Cons x xs)
  then show ?case by (cases "write_response x m") simp_all
qed simp

lemma rbind_write_responses_Nil [simp]: "rbind r (write_responses []) = r"
  by (cases r) simp_all

lemma write_response_terminator:
  "write_response v m = Inr m' \<Longrightarrow> mc_terminator m' = mc_terminator m"
  by (auto simp: write_response_def set_response_def rbind_eq_Inr Let_def split: if_splits)

lemma write_responses_terminator:
  "write_responses vs m = Inr m' \<Longrightarrow> mc_terminator m' = mc_terminator m"
  by (induction vs arbitrary: m) (auto simp: rbind_eq_Inr write_response_terminator)

text \<open>A read appends the bytes, their checksum and the terminator to the response.\<close>

lemma read_mem_eq:
  assumes "unat a + unat n \<le> mc_size m"
  shows "read_mem a n m =
         write_responses (mem_bytes (unat a) (unat n) m @
           [do_checksum (mem_bytes (unat a) (unat n) m), mc_terminator m]) m"
proof (cases "write_responses (mem_bytes (unat a) (unat n) m) m")
  case (Inr x)
  have "mc_terminator x = mc_terminator m" by (rule write_responses_terminator [OF Inr])
  then show ?thesis
    using assms Inr
    by (cases "write_response (do_checksum (mem_bytes (unat a) (unat n) m)) x")
      (auto simp: read_mem_def mem_range_def mem_bytes_def write_responses_append
        dest: write_response_terminator)
qed (use assms in \<open>simp add: read_mem_def mem_range_def mem_bytes_def write_responses_append\<close>)

definition read_reply :: "u8 \<Rightarrow> memcard \<Rightarrow> u8 list" where
  "read_reply n m =
     (let bytes = mem_bytes (unat (mc_mem_addr m)) (unat n) m
      in [0x2B, mc_terminator m] @ bytes @ [do_checksum bytes, mc_terminator m])"

lemma length_read_reply [simp]: "length (read_reply n m) = unat n + 4"
  by (simp add: read_reply_def mem_bytes_def Let_def)

lemma read_length_byte:
  assumes m1: "mc_wf m" "mc_cmd m = 0x43" "mc_cmd_length m = 132" "mc_cmd_params m = 0"
      "mc_read_pos m = 0" "mc_write_pos m = 2"
      "take 2 (mc_response_buffer m) = [0x2B, mc_terminator m]"
    and range: "unat (mc_mem_addr m) + unat n \<le> mc_size m"
  shows "\<exists>m'. mc_write_serial n m = Inr (0x2B, m') \<and> idle m' \<and> mc_wf m' \<and>
     mc_read_pos m' = 1 \<and> take (unat n + 4) (mc_response_buffer m') = read_reply n m \<and>
     mc_mem m' = mc_mem m \<and> mc_mem_addr m' = mc_mem_addr m + ucast n"
proof -
  let ?tail = "mem_bytes (unat (mc_mem_addr m)) (unat n) m @
      [do_checksum (mem_bytes (unat (mc_mem_addr m)) (unat n) m), mc_terminator m]"
  have n256: "unat n < 256" using unsigned_less [of n] by (simp del: unsigned_less)
  have len: "length ?tail = unat n + 2" by (simp add: mem_bytes_def)
  from write_responses_eq [OF m1(1), of ?tail] len n256 m1(6)
  obtain m2 where m2: "write_responses ?tail m = Inr m2" "mc_wf m2"
    and m2_eq: "m2 = m\<lparr>mc_response_buffer := take 2 (mc_response_buffer m) @ ?tail @
              drop (2 + length ?tail) (mc_response_buffer m),
            mc_write_pos := 2 + length ?tail,
            mc_response_size := mc_response_size m + length ?tail\<rparr>"
    by auto
  let ?m3 = "m2\<lparr>mc_mem_addr := mc_mem_addr m + ucast n, mc_cmd_params := 1, mc_read_pos := 1\<rparr>"
  have buf: "take (unat n + 4) (mc_response_buffer m2) = read_reply n m"
  proof -
    have "mc_response_buffer m2 = read_reply n m @ drop (2 + length ?tail) (mc_response_buffer m)"
      using m1(7) by (simp add: m2_eq read_reply_def Let_def)
    then show ?thesis by simp
  qed
  have hd: "mc_response_buffer m2 ! 0 = 0x2B"
    using m1(7) by (simp add: m2_eq)
  have fields: "mc_cmd m2 = 0x43" "mc_cmd_length m2 = 132" "mc_cmd_params m2 = 0"
    "mc_read_pos m2 = 0" "mc_mem m2 = mc_mem m" "mc_mem_addr m2 = mc_mem_addr m"
    using m1 by (simp_all add: m2_eq)
  have "mc_write_serial n m = Inr (0x2B, ?m3)"
    using m1 m2 read_mem_eq [OF range] hd fields
    by (simp add: mc_write_serial_def mc_continue_def Let_def read_response_def vec_at_def mc_wf_def)
  moreover have "idle ?m3" "mc_wf ?m3" using m2(2) fields by (simp_all add: idle_def mc_wf_def)
  ultimately show ?thesis using buf fields by auto
qed

lemma read_exchange:
  assumes "unat (mc_mem_addr m0) + unat n \<le> mc_size m0" and "length ds = unat n + 3"
  shows "\<exists>m'. mc_exchange (0x43 # n # ds) (mc_start_transfer m0) =
           Inr (0xFF # read_reply n m0, m') \<and>
         mc_mem m' = mc_mem m0 \<and> mc_mem_addr m' = mc_mem_addr m0 + ucast n"
proof -
  have n256: "unat n < 256" using unsigned_less [of n] by (simp del: unsigned_less)
  from begin_read [OF refl, of m0] obtain m1 where
    m1: "mc_write_serial 0x43 (mc_start_transfer m0) = Inr (0xFF, m1)" "mc_wf m1"
      "mc_cmd m1 = 0x43" "mc_cmd_length m1 = 132" "mc_cmd_params m1 = 0" "mc_read_pos m1 = 0"
      "mc_write_pos m1 = 2" "take 2 (mc_response_buffer m1) = [0x2B, mc_terminator m1]"
      "mc_mem m1 = mc_mem m0" "mc_size m1 = mc_size m0" "mc_mem_addr m1 = mc_mem_addr m0"
      "mc_terminator m1 = mc_terminator m0" by auto
  have reply: "read_reply n m1 = read_reply n m0"
    by (simp add: read_reply_def mem_bytes_def m1(9,11,12))
  from read_length_byte [OF m1(2-8), of n] assms(1) m1(9-11) obtain m2 where
    m2: "mc_write_serial n m1 = Inr (0x2B, m2)" "idle m2" "mc_wf m2" "mc_read_pos m2 = 1"
      "take (unat n + 4) (mc_response_buffer m2) = read_reply n m0" "mc_mem m2 = mc_mem m0"
      "mc_mem_addr m2 = mc_mem_addr m0 + ucast n"
    by (auto simp: reply)
  have "mc_exchange ds m2 = Inr (take (length ds) (drop 1 (mc_response_buffer m2)),
      m2\<lparr>mc_cmd_params := mc_cmd_params m2 + length ds, mc_read_pos := 1 + length ds\<rparr>)"
    using clock_out [of m2 ds] m2 assms(2) n256 by simp
  moreover have "take (length ds) (drop 1 (mc_response_buffer m2)) = drop 1 (read_reply n m0)"
    using assms(2) by (simp add: m2(5) [symmetric] drop_take add.commute)
  moreover have "0x2B # drop 1 (read_reply n m0) = read_reply n m0"
    by (simp add: read_reply_def Let_def)
  ultimately show ?thesis using m1(1) m2 by auto
qed

text \<open>Selecting a sector, and writing the bytes of a page.\<close>

definition page_addr :: "u8 \<Rightarrow> u8 \<Rightarrow> u8 \<Rightarrow> u8 \<Rightarrow> u32" where
  "page_addr b0 b1 b2 b3 =
     (ucast b0 OR push_bit 8 (ucast b1) OR push_bit 16 (ucast b2) OR push_bit 24 (ucast b3)) * 528"

lemma response_end_ok:
  assumes "mc_wf m" "2 \<le> mc_cmd_length m" "mc_cmd_length m \<le> 1024"
  shows "\<exists>b. response_end m = Inr (m\<lparr>mc_response_buffer := b\<rparr>) \<and> length b = 1024"
  using assms
  by (intro exI [where x = "(mc_response_buffer m)[mc_cmd_length m - 2 := 0x2B,
        mc_cmd_length m - 1 := mc_terminator m]"])
    (simp add: response_end_def set_response_def mc_wf_def)

lemma sector_exchange:
  assumes "c \<in> {0x21, 0x22, 0x23}"
  shows "\<exists>rs m'. mc_exchange [c, b0, b1, b2, b3] (mc_start_transfer m) = Inr (rs, m') \<and>
           mc_mem_addr m' = page_addr b0 b1 b2 b3 \<and> mc_mem m' = mc_mem m \<and>
           mc_size m' = mc_size m \<and> mc_terminator m' = mc_terminator m"
proof -
  let ?m = "mc_start_transfer m\<lparr>mc_cmd := c, mc_cmd_length := 7\<rparr>"
  have "mc_wf ?m" by (simp add: mc_start_transfer_def mc_wf_def)
  from response_end_ok [OF this] obtain b where
    b: "response_end ?m = Inr (?m\<lparr>mc_response_buffer := b\<rparr>)" "length b = 1024" by auto
  have "mc_write_serial c (mc_start_transfer m) = Inr (0xFF, ?m\<lparr>mc_response_buffer := b\<rparr>)"
    using assms b by (auto simp: mc_write_serial_def mc_begin_def Let_def mc_start_transfer_def)
  then show ?thesis
    using assms b(2)
    by (auto simp: mc_write_serial_def mc_continue_def Let_def sector_op_def read_response_def
        vec_at_def mc_start_transfer_def page_addr_def or.assoc)
qed

definition stored :: "nat \<Rightarrow> u8 list \<Rightarrow> (nat \<Rightarrow> u8) \<Rightarrow> nat \<Rightarrow> u8" where
  "stored a ds f i = (if a \<le> i \<and> i < a + length ds then ds ! (i - a) else f i)"

lemma stored_Cons: "stored (Suc a) ds (f(a := d)) = stored a (d # ds) f"
  by (auto simp: stored_def fun_eq_iff nth_Cons' Suc_le_eq)

lemma write_bytes:
  assumes "mc_cmd m = 0x42" "mc_cmd_length m \<noteq> 0" "0 < mc_cmd_params m"
    "mc_cmd_params m - 1 + length ds \<le> unat (mc_mem_write_size m)" "mc_wf m"
    "mc_read_pos m + length ds \<le> 1024"
    "unat (mc_mem_addr m) + length ds \<le> mc_size m" "mc_size m < 2 ^ 32"
  shows "\<exists>rs m'. mc_exchange ds m = Inr (rs, m') \<and>
           mc_mem m' = stored (unat (mc_mem_addr m)) ds (mc_mem m) \<and>
           mc_size m' = mc_size m \<and> mc_terminator m' = mc_terminator m"
  using assms
proof (induction ds arbitrary: m)
  case Nil
  then show ?case by (auto simp: stored_def fun_eq_iff)
next
  case (Cons d ds)
  let ?a = "unat (mc_mem_addr m)"
  let ?m = "m\<lparr>mc_is_dirty := True, mc_mem := (mc_mem m)(?a := d),
              mc_mem_addr := mc_mem_addr m + 1, mc_cmd_params := mc_cmd_params m + 1,
              mc_read_pos := mc_read_pos m + 1\<rparr>"
  have next_addr: "unat (mc_mem_addr m + 1) = Suc ?a"
    using Cons.prems(7,8) by (simp add: unat_word_ariths)
  have "mc_write_serial d m = Inr (mc_response_buffer m ! mc_read_pos m, ?m)"
    using Cons.prems
    by (auto simp: mc_write_serial_def mc_continue_def write_mem_def Let_def read_response_def
        vec_at_def mc_wf_def)
  moreover have "\<exists>rs m'. mc_exchange ds ?m = Inr (rs, m') \<and>
      mc_mem m' = stored (unat (mc_mem_addr ?m)) ds (mc_mem ?m) \<and>
      mc_size m' = mc_size m \<and> mc_terminator m' = mc_terminator m"
    using Cons.IH [of ?m] Cons.prems next_addr by (simp add: mc_wf_def fun_upd_def)
  ultimately show ?case
    by (auto simp: next_addr stored_Cons [unfolded fun_upd_def] fun_upd_def)
qed

lemma write_exchange:
  assumes "length ds = unat n" and "unat (mc_mem_addr m) + unat n \<le> mc_size m"
    and "mc_size m < 2 ^ 32"
  shows "\<exists>rs m'. mc_exchange (0x42 # n # ds) (mc_start_transfer m) = Inr (rs, m') \<and>
           mc_mem m' = stored (unat (mc_mem_addr m)) ds (mc_mem m) \<and>
           mc_size m' = mc_size m \<and> mc_terminator m' = mc_terminator m"
proof -
  have n256: "unat n < 256" using unsigned_less [of n] by (simp del: unsigned_less)
  let ?m = "mc_start_transfer m\<lparr>mc_cmd := 0x42, mc_cmd_length := 132\<rparr>"
  have wf: "mc_wf ?m" and pos: "mc_write_pos ?m = 0"
    by (simp_all add: mc_wf_def mc_start_transfer_def)
  define b where "b = [0x2B, mc_terminator m] @ replicate 1022 0"
  have "length b = 1024" by (simp add: b_def)
  have b: "write_responses [0x2B, mc_terminator m] ?m =
        Inr (?m\<lparr>mc_response_buffer := b, mc_write_pos := 2, mc_response_size := 2\<rparr>)"
    using write_responses_eq [OF wf, of "[0x2B, mc_terminator m]"] pos
    by (auto simp: b_def numeral_2_eq_2 mc_start_transfer_def)
  let ?m1 = "?m\<lparr>mc_response_buffer := b, mc_write_pos := 2, mc_response_size := 2\<rparr>"
  let ?m2 = "?m1\<lparr>mc_mem_write_size := n, mc_response_buffer := b[unat n + 3 := mc_terminator m],
               mc_cmd_params := 1, mc_read_pos := 1\<rparr>"
  have first: "mc_write_serial 0x42 (mc_start_transfer m) = Inr (0xFF, ?m1)"
    using b by (simp add: mc_write_serial_def mc_begin_def Let_def mc_start_transfer_def)
  have second: "mc_write_serial n ?m1 = Inr (b[unat n + 3 := mc_terminator m] ! 0, ?m2)"
    using \<open>length b = 1024\<close> n256
    by (simp add: mc_write_serial_def mc_continue_def write_mem_def Let_def set_response_def
        read_response_def vec_at_def vec_set_def mc_start_transfer_def)
  have "\<exists>rs m'. mc_exchange ds ?m2 = Inr (rs, m') \<and>
      mc_mem m' = stored (unat (mc_mem_addr m)) ds (mc_mem m) \<and>
      mc_size m' = mc_size m \<and> mc_terminator m' = mc_terminator m"
    using write_bytes [of ?m2 ds] assms n256 \<open>length b = 1024\<close>
    by (simp add: mc_wf_def mc_start_transfer_def)
  then show ?thesis using first second by auto
qed

lemma mem_bytes_stored:
  assumes "mc_mem m' = stored a ds (mc_mem m)"
  shows "mem_bytes a (length ds) m' = ds"
  by (rule nth_equalityI) (simp_all add: mem_bytes_def assms stored_def)

end
