(* ===== verification/Sio2.thy ===== *)
theory Sio2
  imports Sif Gamepad Memcard
begin

unbundle bit_operations_syntax

section \<open>The serial interface\<close>

text \<open>
  \<open>src/core/iop/sio2.hpp\<close> and \<open>sio2.cpp\<close>. The interface feeds bytes to the pad or the memory
  card and queues their replies; \<open>SEND3\<close> holds the length and port of up to sixteen commands.
  \<open>pad\<close> and \<open>memcard\<close> are fields of the state. The argument \<open>past\<close> of the pad is what lies
  behind its eight-byte reply tables (theory \<open>Gamepad\<close>). \<open>std::queue\<close> is a list, front first.
\<close>

datatype sio_device = SIO_NONE | SIO_PAD | SIO_MEMCARD | SIO_DUMMY

record sio2 = sif +
  sio_pad :: gamepad
  sio_memcard :: memcard
  sio_send1 :: "u32 list"
  sio_send2 :: "u32 list"
  sio_send3 :: "u32 list"
  sio_RECV1 :: u32
  sio_port :: nat
  dma_bytes_received :: nat
  sio_FIFO :: "u8 list"
  sio_control :: u32
  sio_new_command :: bool
  active_command :: sio_device
  sio_command_length :: nat
  send3_port :: nat

subsection \<open>Registers\<close>

definition dma_reset :: "'a sio2_scheme \<Rightarrow> 'a sio2_scheme" where
  "dma_reset s = s\<lparr>dma_bytes_received := 0\<rparr>"

definition sio2_reset :: "'a sio2_scheme \<Rightarrow> 'a sio2_scheme" where
  "sio2_reset s =
     dma_reset (s\<lparr>sio_FIFO := [], active_command := SIO_NONE, sio_control := 0,
                  sio_new_command := False, sio_RECV1 := 0x1D100, sio_port := 0\<rparr>)"

definition read_serial :: "'a sio2_scheme \<Rightarrow> (u8 \<times> 'a sio2_scheme) res" where
  "read_serial s =
     (case sio_FIFO s of
        [] \<Rightarrow> Inl (Undefined ''front of an empty queue'')
      | value # rest \<Rightarrow> Inr (value, s\<lparr>sio_FIFO := rest\<rparr>))"

definition sio_get_control :: "'a sio2_scheme \<Rightarrow> u32" where "sio_get_control s = sio_control s"
definition get_RECV1 :: "'a sio2_scheme \<Rightarrow> u32" where "get_RECV1 s = sio_RECV1 s"
definition get_RECV2 :: "'a sio2_scheme \<Rightarrow> u32" where "get_RECV2 s = 0xF"
definition get_RECV3 :: "'a sio2_scheme \<Rightarrow> u32" where "get_RECV3 s = 0"

text \<open>The three setters store first and check the index afterwards.\<close>

definition set_send1 :: "nat \<Rightarrow> u32 \<Rightarrow> 'a sio2_scheme \<Rightarrow> 'a sio2_scheme res" where
  "set_send1 i v s =
     rbind (vec_set (sio_send1 s) i v) (\<lambda>xs.
       if 4 \<le> i then Inl (Die ''SIO2 set_send1 index out of range'') else Inr (s\<lparr>sio_send1 := xs\<rparr>))"

definition set_send2 :: "nat \<Rightarrow> u32 \<Rightarrow> 'a sio2_scheme \<Rightarrow> 'a sio2_scheme res" where
  "set_send2 i v s =
     rbind (vec_set (sio_send2 s) i v) (\<lambda>xs.
       if 4 \<le> i then Inl (Die ''SIO2 set_send2 index out of range'') else Inr (s\<lparr>sio_send2 := xs\<rparr>))"

definition set_send3 :: "nat \<Rightarrow> u32 \<Rightarrow> 'a sio2_scheme \<Rightarrow> 'a sio2_scheme res" where
  "set_send3 i v s =
     rbind (vec_set (sio_send3 s) i v) (\<lambda>xs.
       if 16 \<le> i then Inl (Die ''SIO2 set_send3 index out of range'') else Inr (s\<lparr>sio_send3 := xs\<rparr>))"

definition sio_set_control :: "u32 \<Rightarrow> 'a sio2_scheme \<Rightarrow> 'a sio2_scheme" where
  "sio_set_control v s =
     (let s = s\<lparr>sio_control := v AND 1\<rparr>
      in if v AND 1 \<noteq> 0
         then (assert_irq 17 s)\<lparr>sio_control := sio_control s AND NOT 1\<rparr>
         else s\<lparr>active_command := SIO_NONE, send3_port := 0, sio_command_length := 0\<rparr>)"

subsection \<open>A byte to the selected device\<close>

definition sio_push :: "u8 \<Rightarrow> 'a sio2_scheme \<Rightarrow> 'a sio2_scheme" where
  "sio_push r s = s\<lparr>sio_FIFO := sio_FIFO s @ [r]\<rparr>"

definition pad_byte :: "(u8 list \<Rightarrow> u8) \<Rightarrow> u8 \<Rightarrow> 'a sio2_scheme \<Rightarrow> 'a sio2_scheme res" where
  "pad_byte past v s =
     (let s = s\<lparr>sio_RECV1 := 0x1100\<rparr> in
      if sio_port s \<noteq> 0 then Inr (sio_push 0 s)
      else if sio_new_command s
      then let (reply, pad) = pad_start_transfer v (sio_pad s)
           in Inr (sio_push reply (s\<lparr>sio_new_command := False, sio_pad := pad\<rparr>))
      else rbind (pad_write_SIO past v (sio_pad s)) (\<lambda>(reply, pad).
             Inr (sio_push reply (s\<lparr>sio_pad := pad\<rparr>))))"

definition memcard_byte :: "u8 \<Rightarrow> 'a sio2_scheme \<Rightarrow> 'a sio2_scheme res" where
  "memcard_byte v s =
     (let s = s\<lparr>sio_RECV1 := (if is_connected (sio_memcard s) then 0x1100 else 0x1D100)\<rparr> in
      if sio_port s \<noteq> 0 \<or> sio_RECV1 s = 0x1D100 then Inr (sio_push 0 s)
      else if sio_new_command s
      then Inr (if v = 0x81
                then sio_push 0xFF (s\<lparr>sio_new_command := False,
                                      sio_memcard := mc_start_transfer (sio_memcard s)\<rparr>)
                else sio_push 0 s)
      else rbind (mc_write_serial v (sio_memcard s)) (\<lambda>(reply, card).
             Inr (sio_push reply (s\<lparr>sio_memcard := card\<rparr>))))"

fun select_device :: "u8 \<Rightarrow> sio_device \<Rightarrow> sio_device" where
  "select_device v SIO_NONE = (if v = 0x01 then SIO_PAD else if v = 0x81 then SIO_MEMCARD else SIO_DUMMY)"
| "select_device v d = d"

text \<open>With no active device the byte selects one and is sent to it.\<close>

definition write_device :: "(u8 list \<Rightarrow> u8) \<Rightarrow> u8 \<Rightarrow> 'a sio2_scheme \<Rightarrow> 'a sio2_scheme res" where
  "write_device past v s =
     (let s = s\<lparr>active_command := select_device v (active_command s)\<rparr>
      in case active_command s of
           SIO_PAD \<Rightarrow> pad_byte past v s
         | SIO_MEMCARD \<Rightarrow> memcard_byte v s
         | SIO_DUMMY \<Rightarrow> Inr ((sio_push 0 s)\<lparr>sio_RECV1 := 0x1D100\<rparr>)
         | SIO_NONE \<Rightarrow> Inl (Die ''[SIO2] Unrecognized active command!''))"

definition next_command :: "'a sio2_scheme \<Rightarrow> 'a sio2_scheme res" where
  "next_command s =
     (if sio_command_length s = 0
      then rbind (vec_at (sio_send3 s) (send3_port s)) (\<lambda>w.
             if w \<noteq> 0
             then Inr (s\<lparr>sio_command_length := unat (fld w 8 9), sio_port := unat (w AND 1),
                         send3_port := send3_port s + 1, sio_new_command := True\<rparr>)
             else Inr s)
      else Inr s)"

definition write_serial :: "(u8 list \<Rightarrow> u8) \<Rightarrow> u8 \<Rightarrow> 'a sio2_scheme \<Rightarrow> 'a sio2_scheme res" where
  "write_serial past v s =
     rbind (next_command s) (\<lambda>s.
       if sio_command_length s \<noteq> 0
       then write_device past v (s\<lparr>sio_command_length := sio_command_length s - 1\<rparr>)
       else Inr (sio_push 0xFF s))"

definition write_dma :: "(u8 list \<Rightarrow> u8) \<Rightarrow> u8 \<Rightarrow> 'a sio2_scheme \<Rightarrow> 'a sio2_scheme res" where
  "write_dma past v s =
     (if sio_command_length s = 0 \<and> dma_bytes_received s mod 0x90 \<noteq> 0
      then Inr (sio_push 0 (s\<lparr>dma_bytes_received := dma_bytes_received s + 1\<rparr>))
      else write_serial past v (s\<lparr>dma_bytes_received := dma_bytes_received s + 1\<rparr>))"

subsection \<open>Every byte sent is answered by one byte\<close>

definition one_reply :: "'a sio2_scheme \<Rightarrow> 'a sio2_scheme \<Rightarrow> bool" where
  "one_reply s s' \<longleftrightarrow> (\<exists>r. sio_FIFO s' = sio_FIFO s @ [r]) \<and> SIF0_FIFO s' = SIF0_FIFO s \<and>
     SIF1_FIFO s' = SIF1_FIFO s \<and> id_channels s' = id_channels s \<and> id_active s' = id_active s \<and>
     id_queue s' = id_queue s \<and> iop_RAM s' = iop_RAM s \<and> dm_channels s' = dm_channels s \<and>
     dm_active s' = dm_active s \<and> dm_queue s' = dm_queue s"

lemma push_reply: "one_reply s (sio_push r s)"
  by (simp add: one_reply_def sio_push_def)

lemma one_reply_set:
  "one_reply s (sio_push r (sio_RECV1_update f s))"
  "one_reply s (sio_push r (sio_pad_update p (sio_RECV1_update f s)))"
  "one_reply s (sio_push r (sio_memcard_update m (sio_RECV1_update f s)))"
  "one_reply s (sio_push r (sio_pad_update p (sio_new_command_update b (sio_RECV1_update f s))))"
  "one_reply s (sio_push r (sio_memcard_update m (sio_new_command_update b (sio_RECV1_update f s))))"
  "one_reply s (sio_RECV1_update f (sio_push r s))"
  "one_reply (active_command_update g s) s' = one_reply s s'"
  by (simp_all add: one_reply_def sio_push_def)

lemma pad_byte_reply: "ok_post (pad_byte past v s) (one_reply s)"
  by (cases "pad_write_SIO past v (sio_pad s)")
    (simp_all add: pad_byte_def Let_def pad_start_transfer_def one_reply_set split: prod.split)

lemma memcard_byte_reply: "ok_post (memcard_byte v s) (one_reply s)"
  by (cases "mc_write_serial v (sio_memcard s)")
    (simp_all add: memcard_byte_def Let_def one_reply_set split: prod.split)

lemma write_device_reply: "ok_post (write_device past v s) (one_reply s)"
  using pad_byte_reply [of past v "s\<lparr>active_command := select_device v (active_command s)\<rparr>"]
    memcard_byte_reply [of v "s\<lparr>active_command := select_device v (active_command s)\<rparr>"]
    one_reply_set(6) [of "s\<lparr>active_command := select_device v (active_command s)\<rparr>"]
  by (cases "select_device v (active_command s)")
    (simp_all add: write_device_def Let_def one_reply_set(7) [abs_def])

lemma one_reply_cong:
  "one_reply (s\<lparr>sio_command_length := n\<rparr>) = one_reply s"
  "one_reply (s\<lparr>dma_bytes_received := n\<rparr>) = one_reply s"
  by (simp_all add: one_reply_def fun_eq_iff)

lemma one_reply_command:
  "one_reply (s\<lparr>sio_command_length := a, sio_port := b, send3_port := c, sio_new_command := d\<rparr>)
     = one_reply s"
  by (simp add: one_reply_def fun_eq_iff)

lemma optional_update:
  "(if c then rbind m (\<lambda>w. if p w then Inr (f w) else Inr s) else Inr s) = Inr s'
    \<Longrightarrow> s' = s \<or> (\<exists>w. s' = f w)"
  by (auto simp: rbind_eq_Inr split: if_splits)

lemma next_command_cases:
  assumes "next_command s = Inr s'"
  obtains "s' = s"
  | a b c d where
      "s' = s\<lparr>sio_command_length := a, sio_port := b, send3_port := c, sio_new_command := d\<rparr>"
  using optional_update [OF assms [unfolded next_command_def]] that by blast

lemma next_command_keeps: "next_command s = Inr s' \<Longrightarrow> one_reply s' = one_reply s"
  by (erule next_command_cases) (simp_all only: one_reply_command)

lemma write_serial_reply: "ok_post (write_serial past v s) (one_reply s)"
proof (rule ok_postI)
  fix s' assume "write_serial past v s = Inr s'"
  then obtain t where t: "next_command s = Inr t"
    and s': "(if sio_command_length t \<noteq> 0
       then write_device past v (t\<lparr>sio_command_length := sio_command_length t - 1\<rparr>)
       else Inr (sio_push 0xFF t)) = Inr s'"
    unfolding write_serial_def rbind_eq_Inr by blast
  have "one_reply t s'"
    using s' ok_postD [OF write_device_reply, of past v "t\<lparr>sio_command_length := sio_command_length t - 1\<rparr>"]
    by (cases "sio_command_length t = 0") (auto simp: one_reply_cong push_reply)
  with next_command_keeps [OF t] show "one_reply s s'" by simp
qed

lemma write_dma_reply: "ok_post (write_dma past v s) (one_reply s)"
  unfolding write_dma_def
proof (rule ok_post_if)
  let ?t = "s\<lparr>dma_bytes_received := dma_bytes_received s + 1\<rparr>"
  show "ok_post (Inr (sio_push 0 ?t)) (one_reply s)"
    using push_reply [of ?t 0] by (simp only: one_reply_cong ok_post.simps)
  show "ok_post (write_serial past v ?t) (one_reply s)"
    using write_serial_reply [of past v ?t] by (simp only: one_reply_cong)
qed

end
