(* ===== verification/Iop_Dma_Run.thy ===== *)
theory Iop_Dma_Run
  imports Sio2
begin

unbundle bit_operations_syntax

section \<open>The IOP DMA controller: transfers\<close>

text \<open>
  The \<open>process_*\<close> functions and \<open>run\<close> of \<open>src/core/iop/iop_dma.cpp\<close>. The IOP's memory has
  2 MB; the channel addresses are not masked, so an access behind it is undefined. The function
  static \<open>junk_words\<close> is a field of the state. Parameters: \<open>dev\<close> the entry points of SPU and
  CDVD, \<open>past\<close> the bytes behind the pad's tables, \<open>garbage\<close> the indeterminate words of
  \<open>send_SIF0_junk\<close>.
\<close>

record iop_dma_run = sio2 +
  junk_words :: nat

definition IOP_RAM_SIZE :: nat where "IOP_RAM_SIZE = 0x200000"

definition ram_get8 :: "u32 \<Rightarrow> 'a iop_dma_scheme \<Rightarrow> u8 res" where
  "ram_get8 a s =
     (if unat a < IOP_RAM_SIZE then Inr (iop_RAM s a) else Inl (Undefined ''behind IOP RAM''))"

definition ram_get32 :: "u32 \<Rightarrow> 'a iop_dma_scheme \<Rightarrow> u32 res" where
  "ram_get32 a s =
     (if unat a + 4 \<le> IOP_RAM_SIZE
      then Inr (ucast (iop_RAM s a) OR push_bit 8 (ucast (iop_RAM s (a + 1)))
                OR push_bit 16 (ucast (iop_RAM s (a + 2))) OR push_bit 24 (ucast (iop_RAM s (a + 3))))
      else Inl (Undefined ''behind IOP RAM''))"

definition ram_put8 :: "u32 \<Rightarrow> u8 \<Rightarrow> 'a iop_dma_scheme \<Rightarrow> 'a iop_dma_scheme res" where
  "ram_put8 a v s =
     (if unat a < IOP_RAM_SIZE then Inr (s\<lparr>iop_RAM := (iop_RAM s)(a := v)\<rparr>)
      else Inl (Undefined ''behind IOP RAM''))"

definition ram_put32 :: "u32 \<Rightarrow> u32 \<Rightarrow> 'a iop_dma_scheme \<Rightarrow> 'a iop_dma_scheme res" where
  "ram_put32 a v s =
     (if unat a + 4 \<le> IOP_RAM_SIZE
      then Inr (s\<lparr>iop_RAM := (iop_RAM s)(a := ucast v, a + 1 := ucast (drop_bit 8 v),
                    a + 2 := ucast (drop_bit 16 v), a + 3 := ucast (drop_bit 24 v))\<rparr>)
      else Inl (Undefined ''behind IOP RAM''))"

subsection \<open>CDVD and SPU\<close>

definition chan_bytes :: "nat \<Rightarrow> 'a iop_dma_scheme \<Rightarrow> u32" where
  "chan_bytes i s =
     ch_word_count (id_channels s i) * ucast (ch_block_size (id_channels s i)) * 4"

definition process_CDVD ::
    "'a iop_dma_scheme iop_dev \<Rightarrow> 'a iop_dma_scheme \<Rightarrow> 'a iop_dma_scheme res" where
  "process_CDVD dev s =
     (let n = chan_bytes IOP_CDVD s
      in rbind (dev_cdvd_read_to_RAM dev (ch_addr (id_channels s IOP_CDVD)) n s) (\<lambda>(bytes_read, s).
           if n \<le> bytes_read then Inr (set_chan_block IOP_CDVD 0 (transfer_end IOP_CDVD s))
           else if ch_block_size (id_channels s IOP_CDVD) = 0
           then Inl (Undefined ''division by zero'')
           else Inr (put_ch IOP_CDVD (\<lambda>c. c\<lparr>ch_addr := ch_addr c + bytes_read,
                       ch_word_count := ch_word_count c - bytes_read div (ucast (ch_block_size c) * 4)\<rparr>) s)))"

text \<open>\<open>process_SPU\<close> and \<open>process_SPU2\<close>: the same code for channel \<open>i\<close> and core \<open>k\<close>.\<close>

definition advance_word :: "iop_dma_channel \<Rightarrow> iop_dma_channel" where
  "advance_word c = c\<lparr>ch_size := ch_size c - 1, ch_addr := ch_addr c + 4\<rparr>"

definition spu_word ::
    "'a iop_dma_scheme iop_dev \<Rightarrow> nat \<Rightarrow> nat \<Rightarrow> 'a iop_dma_scheme \<Rightarrow> 'a iop_dma_scheme res" where
  "spu_word dev i k s =
     rbind
       (if ch_direction_from (ch_control (id_channels s i))
        then rbind (ram_get32 (ch_addr (id_channels s i)) s) (\<lambda>v. dev_spu_write_DMA dev k v s)
        else rbind (dev_spu_read_DMA dev k s) (\<lambda>(v, s). ram_put32 (ch_addr (id_channels s i)) v s))
       (\<lambda>s. Inr (put_ch i (\<lambda>c. (advance_word c)\<lparr>ch_delay := 3\<rparr>) s))"

definition process_SPU ::
    "'a iop_dma_scheme iop_dev \<Rightarrow> nat \<Rightarrow> nat \<Rightarrow> 'a iop_dma_scheme \<Rightarrow> 'a iop_dma_scheme res" where
  "process_SPU dev i k s =
     rbind
       (if dev_spu_running_ADMA dev k s
        then if \<not> ch_direction_from (ch_control (id_channels s i))
             then Inl (Die ''[IOP_DMA] SPU doing ADMA read!'')
             else rbind (dev_spu_write_ADMA dev k (ch_addr (id_channels s i)) s)
                    (\<lambda>s. Inr (put_ch i advance_word s))
        else if ch_delay (id_channels s i) \<le> 0 then spu_word dev i k s
        else Inr (put_ch i (\<lambda>c. c\<lparr>ch_delay := ch_delay c - 1\<rparr>) s))
       (\<lambda>s. if ch_size (id_channels s i) = 0
             then dev_spu_finish_DMA dev k (transfer_end i (put_ch i (\<lambda>c. c\<lparr>ch_word_count := 0\<rparr>) s))
             else Inr s)"

subsection \<open>SIF\<close>

definition ends_chain :: "u32 \<Rightarrow> bool" where
  "ends_chain data \<longleftrightarrow> tst data 31 \<or> tst data 30"

definition sif0_word ::
    "(nat \<Rightarrow> u32) \<Rightarrow> 'a iop_dma_run_scheme \<Rightarrow> 'a iop_dma_run_scheme res" where
  "sif0_word garbage s =
     rbind (ram_get32 (ch_addr (id_channels s IOP_SIF0)) s) (\<lambda>data.
       let s = put_ch IOP_SIF0 (\<lambda>c. c\<lparr>ch_addr := ch_addr c + 4, ch_word_count := ch_word_count c - 1\<rparr>)
                 (write_SIF0 data s)
       in Inr (if ch_word_count (id_channels s IOP_SIF0) = 0
               then let s = send_SIF0_junk garbage (junk_words s) s
                    in if ch_tag_end (id_channels s IOP_SIF0) then transfer_end IOP_SIF0 s else s
               else s))"

definition sif0_tag :: "'a iop_dma_run_scheme \<Rightarrow> 'a iop_dma_run_scheme res" where
  "sif0_tag s =
     (let tag = ch_tag_addr (id_channels s IOP_SIF0) in
      rbind (ram_get32 tag s) (\<lambda>data.
      rbind (ram_get32 (tag + 4) s) (\<lambda>words.
      rbind (ram_get32 (tag + 8) s) (\<lambda>eetag0.
        let s = write_SIF0 eetag0 s in
      rbind (ram_get32 (tag + 12) s) (\<lambda>eetag1.
        let s = write_SIF0 eetag1 s;
            low = unat (words AND 3)
        in Inr ((put_ch IOP_SIF0 (\<lambda>c. c\<lparr>ch_addr := data AND 0xFFFFFF, ch_word_count := words AND 0xFFFFF,
                    ch_tag_addr := ch_tag_addr c + 16, ch_tag_end := ch_tag_end c \<or> ends_chain data\<rparr>) s)
                \<lparr>junk_words := (if low \<noteq> 0 then 4 - low else 0)\<rparr>))))))"

definition process_SIF0 ::
    "(nat \<Rightarrow> u32) \<Rightarrow> 'a iop_dma_run_scheme \<Rightarrow> 'a iop_dma_run_scheme res" where
  "process_SIF0 garbage s =
     (if ch_word_count (id_channels s IOP_SIF0) \<noteq> 0 then sif0_word garbage s
      else if get_SIF0_size s \<le> MAX_FIFO_SIZE - 2 then sif0_tag s
      else Inr s)"

definition sif1_word :: "'a sif_scheme \<Rightarrow> 'a sif_scheme res" where
  "sif1_word s =
     rbind (read_SIF1 s) (\<lambda>(data, s).
     rbind (ram_put32 (ch_addr (id_channels s IOP_SIF1)) data s) (\<lambda>s.
       let s = put_ch IOP_SIF1 (\<lambda>c. c\<lparr>ch_addr := ch_addr c + 4, ch_word_count := ch_word_count c - 1\<rparr>) s;
           c = id_channels s IOP_SIF1
       in Inr (if ch_word_count c = 0 \<and> ch_tag_end c then transfer_end IOP_SIF1 s else s)))"

definition sif1_tag :: "'a sif_scheme \<Rightarrow> 'a sif_scheme res" where
  "sif1_tag s =
     rbind (read_SIF1 s) (\<lambda>(data, s).
       let s = put_ch IOP_SIF1 (\<lambda>c. c\<lparr>ch_addr := data AND 0xFFFFFF\<rparr>) s in
     rbind (read_SIF1 s) (\<lambda>(words, s).
       let s = put_ch IOP_SIF1 (\<lambda>c. c\<lparr>ch_word_count := words AND 0xFFFFC\<rparr>) s in
     rbind (read_SIF1 s) (\<lambda>(_, s).
     rbind (read_SIF1 s) (\<lambda>(_, s).
       Inr (if ends_chain data then put_ch IOP_SIF1 (\<lambda>c. c\<lparr>ch_tag_end := True\<rparr>) s else s)))))"

definition process_SIF1 :: "'a sif_scheme \<Rightarrow> 'a sif_scheme res" where
  "process_SIF1 s =
     (if ch_word_count (id_channels s IOP_SIF1) \<noteq> 0 then sif1_word s
      else if 4 \<le> get_SIF1_size s then sif1_tag s
      else Inr s)"

subsection \<open>SIO2\<close>

definition next_byte :: "nat \<Rightarrow> 'a iop_dma_scheme \<Rightarrow> 'a iop_dma_scheme" where
  "next_byte i = put_ch i (\<lambda>c. c\<lparr>ch_addr := ch_addr c + 1\<rparr>)"

fun sio2in_bytes :: "(u8 list \<Rightarrow> u8) \<Rightarrow> nat \<Rightarrow> 'a sio2_scheme \<Rightarrow> 'a sio2_scheme res" where
  "sio2in_bytes past 0 s = Inr s"
| "sio2in_bytes past (Suc n) s =
     rbind (ram_get8 (ch_addr (id_channels s IOP_SIO2in)) s) (\<lambda>v.
     rbind (write_dma past v s) (\<lambda>s. sio2in_bytes past n (next_byte IOP_SIO2in s)))"

definition finish_sio :: "nat \<Rightarrow> 'a iop_dma_scheme \<Rightarrow> 'a iop_dma_scheme" where
  "finish_sio i s = transfer_end i (put_ch i (\<lambda>c. c\<lparr>ch_word_count := 0\<rparr>) s)"

definition process_SIO2in :: "(u8 list \<Rightarrow> u8) \<Rightarrow> 'a sio2_scheme \<Rightarrow> 'a sio2_scheme res" where
  "process_SIO2in past s =
     (let s = dma_reset s
      in rbind (sio2in_bytes past (unat (chan_bytes IOP_SIO2in s)) s) (\<lambda>s. Inr (finish_sio IOP_SIO2in s)))"

fun sio2out_bytes :: "nat \<Rightarrow> 'a sio2_scheme \<Rightarrow> 'a sio2_scheme res" where
  "sio2out_bytes 0 s = Inr s"
| "sio2out_bytes (Suc n) s =
     rbind (read_serial s) (\<lambda>(v, s).
     rbind (ram_put8 (ch_addr (id_channels s IOP_SIO2out)) v s) (\<lambda>s.
       sio2out_bytes n (next_byte IOP_SIO2out s)))"

definition process_SIO2out :: "'a sio2_scheme \<Rightarrow> 'a sio2_scheme res" where
  "process_SIO2out s =
     rbind (sio2out_bytes (unat (chan_bytes IOP_SIO2out s)) s) (\<lambda>s. Inr (finish_sio IOP_SIO2out s))"

subsection \<open>Running\<close>

definition process_channel ::
    "'a iop_dma_run_scheme iop_dev \<Rightarrow> (u8 list \<Rightarrow> u8) \<Rightarrow> (nat \<Rightarrow> u32) \<Rightarrow> nat \<Rightarrow>
     'a iop_dma_run_scheme \<Rightarrow> 'a iop_dma_run_scheme res" where
  "process_channel dev past garbage i s =
     (if i = IOP_CDVD then process_CDVD dev s
      else if i = IOP_SPU then process_SPU dev IOP_SPU 0 s
      else if i = IOP_SPU2 then process_SPU dev IOP_SPU2 1 s
      else if i = IOP_SIF0 then process_SIF0 garbage s
      else if i = IOP_SIF1 then process_SIF1 s
      else if i = IOP_SIO2in then process_SIO2in past s
      else if i = IOP_SIO2out then process_SIO2out s
      else Inl (Undefined ''call through a null member pointer''))"

fun iop_dma_run_for ::
    "'a iop_dma_run_scheme iop_dev \<Rightarrow> (u8 list \<Rightarrow> u8) \<Rightarrow> (nat \<Rightarrow> u32) \<Rightarrow> nat \<Rightarrow>
     'a iop_dma_run_scheme \<Rightarrow> 'a iop_dma_run_scheme res" where
  "iop_dma_run_for dev past garbage 0 s = Inr s"
| "iop_dma_run_for dev past garbage (Suc cycles) s =
     (case id_active s of
        None \<Rightarrow> Inr s
      | Some i \<Rightarrow> rbind (process_channel dev past garbage i s) (iop_dma_run_for dev past garbage cycles))"

subsection \<open>Transfers keep both controllers and the interface consistent\<close>

lemma sif_ok_cong:
  assumes "dm_channels t = dm_channels s" "dm_active t = dm_active s" "dm_queue t = dm_queue s"
    and "id_channels t = id_channels s" "id_active t = id_active s" "id_queue t = id_queue s"
    and "SIF0_FIFO t = SIF0_FIFO s" "SIF1_FIFO t = SIF1_FIFO s"
  shows "sif_ok t = sif_ok s"
  using good_frame(1) [OF assms(1-3)] good_frame(2) [OF assms(1)] good_frame(3) [OF assms(4)]
    id_good_cong [OF assms(4-6)] assms(7,8)
  by (simp add: sif_ok_def sif_lines_def)

lemma put_ch_sif_ok:
  assumes "sif_ok s"
    and "ch_dma_req (f (id_channels s i)) = ch_dma_req (id_channels s i) \<and>
         ch_busy (ch_control (f (id_channels s i))) = ch_busy (ch_control (id_channels s i))"
  shows "sif_ok (put_ch i f s)"
proof -
  have "id_good (put_ch i f s)" using assms by (simp add: sif_ok_def put_ch_ready_same)
  moreover have "id_line (put_ch i f s) = id_line s"
    using assms(2) by (simp add: id_line_def fun_eq_iff)
  moreover have "dm_good (put_ch i f s) = dm_good s" "dm_line (put_ch i f s) = dm_line s"
    by (rule good_frame; simp add: put_ch_def)+
  moreover have "SIF0_FIFO (put_ch i f s) = SIF0_FIFO s" "SIF1_FIFO (put_ch i f s) = SIF1_FIFO s"
    by (simp_all add: put_ch_def)
  ultimately show ?thesis using assms(1) by (simp add: sif_ok_def sif_lines_def)
qed

text \<open>A transfer may end while its channel runs, or after its line has dropped.\<close>

lemma transfer_end_stopped:
  assumes "id_good s" and "\<not> id_ready s i"
  shows "id_good (transfer_end i s)" and "id_line (transfer_end i s) = id_line s"
proof -
  let ?f = "\<lambda>c. c\<lparr>ch_control := (ch_control c)\<lparr>ch_busy := False\<rparr>, ch_tag_end := False\<rparr>"
  have off: "id_active s \<noteq> Some i" and good: "id_good (put_ch i ?f s)"
  proof -
    have "set (id_slots s) = {j. id_ready s j}" using assms(1) by (simp add: id_good_def)
    then have new: "i \<notin> set (id_slots s)" using assms(2) by blast
    then show "id_active s \<noteq> Some i" by (auto simp: id_slots_def)
    have "id_ready (put_ch i ?f s) = id_ready s"
      using assms(2) by (auto simp: id_ready_def fun_eq_iff)
    then show "id_good (put_ch i ?f s)" using assms(1) by (simp add: id_good_def)
  qed
  have act: "id_active (put_ch i ?f s) \<noteq> Some i" using off by (simp add: put_ch_def)
  show "id_good (transfer_end i s)"
    using good act
    by (auto simp: transfer_end_def Let_def intro: id_good_cong [THEN iffD2, rotated 3])
  show "id_line (transfer_end i s) = id_line s"
    using act by (simp add: transfer_end_def Let_def id_line_def fun_eq_iff)
qed

lemma transfer_end_frame:
  "dm_channels (transfer_end i s) = dm_channels s" "dm_active (transfer_end i s) = dm_active s"
  "dm_queue (transfer_end i s) = dm_queue s"
  by (simp_all add: transfer_end_def Let_def put_ch_def id_find_new_active_channel_def assert_irq_def
      iop_int_check_def interrupt_check_def)

lemma transfer_end_fifos:
  "SIF0_FIFO (transfer_end i s) = SIF0_FIFO s" "SIF1_FIFO (transfer_end i s) = SIF1_FIFO s"
  by (simp_all add: transfer_end_def Let_def put_ch_def id_find_new_active_channel_def assert_irq_def
      iop_int_check_def interrupt_check_def)

lemma transfer_end_sif_ok:
  assumes "sif_ok s" and "id_active s = Some i \<or> \<not> id_ready s i"
  shows "sif_ok (transfer_end i s)"
proof -
  have "id_good s" using assms(1) by (simp add: sif_ok_def)
  then have "id_good (transfer_end i s)" "id_line (transfer_end i s) = id_line s"
    using assms(2) transfer_end_good [of s i] transfer_end_stopped [of s i] by blast+
  moreover have "dm_good (transfer_end i s) = dm_good s" "dm_line (transfer_end i s) = dm_line s"
    by (rule good_frame; simp add: transfer_end_frame)+
  ultimately show ?thesis
    using assms(1) by (simp add: sif_ok_def sif_lines_def transfer_end_fifos)
qed

definition may_end :: "nat \<Rightarrow> 'a sif_scheme \<Rightarrow> bool" where
  "may_end i s \<longleftrightarrow> sif_ok s \<and> (id_active s = Some i \<or> \<not> id_ready s i)"

lemma may_endD: "may_end i s \<Longrightarrow> sif_ok s" "may_end i s \<Longrightarrow> sif_ok (transfer_end i s)"
  by (simp_all add: may_end_def transfer_end_sif_ok)

lemma put_ch_may_end:
  assumes "may_end i s"
    and "ch_dma_req (f (id_channels s i)) = ch_dma_req (id_channels s i) \<and>
         ch_busy (ch_control (f (id_channels s i))) = ch_busy (ch_control (id_channels s i))"
  shows "may_end i (put_ch i f s)"
  using assms put_ch_sif_ok [of s f i]
  by (auto simp: may_end_def id_ready_def) (simp_all add: put_ch_def)

lemma cleared_not_ready: "\<not> id_line s i \<Longrightarrow> \<not> id_ready s i"
  by (simp add: id_line_def id_ready_def)

lemma write_SIF0_active:
  "length (SIF0_FIFO s) < 31 \<Longrightarrow>
     id_active (write_SIF0 w s) = id_active s \<and> id_channels (write_SIF0 w s) = id_channels s"
  by (simp add: write_SIF0_def Let_def get_SIF0_size_def MAX_FIFO_SIZE_def sif_frame)

lemma write_SIF0_may_end: "may_end IOP_SIF0 s \<Longrightarrow> may_end IOP_SIF0 (write_SIF0 w s)"
proof (cases "length (SIF0_FIFO s) < 31")
  case True
  moreover assume "may_end IOP_SIF0 s"
  ultimately show ?thesis
    using write_SIF0_active [of s w] by (simp add: may_end_def write_SIF0_ok id_ready_def)
next
  case False
  then have "\<not> id_line (write_SIF0 w s) IOP_SIF0" by (simp add: write_SIF0_shape)
  moreover assume "may_end IOP_SIF0 s"
  ultimately show ?thesis by (simp add: may_end_def write_SIF0_ok cleared_not_ready)
qed

lemma fold_write_SIF0_may_end:
  "may_end IOP_SIF0 s \<Longrightarrow> may_end IOP_SIF0 (fold (\<lambda>i. write_SIF0 (g i)) is s)"
  by (induction "is" arbitrary: s) (simp_all add: write_SIF0_may_end)

lemma junk_words_may_end: "may_end IOP_SIF0 s \<Longrightarrow> may_end IOP_SIF0 (send_SIF0_junk garbage n s)"
  by (simp add: send_SIF0_junk_def Let_def fold_write_SIF0_may_end)

lemma process_SIF0_ok:
  assumes "may_end IOP_SIF0 s"
  shows "ok_post (process_SIF0 garbage s) sif_ok"
proof -
  have word: "ok_post (sif0_word garbage s) sif_ok"
  proof (cases "ram_get32 (ch_addr (id_channels s IOP_SIF0)) s")
    case (Inr data)
    let ?t = "put_ch IOP_SIF0 (\<lambda>c. c\<lparr>ch_addr := ch_addr c + 4, ch_word_count := ch_word_count c - 1\<rparr>)
                (write_SIF0 data s)"
    have t: "may_end IOP_SIF0 ?t"
      by (rule put_ch_may_end [OF write_SIF0_may_end [OF assms]]) simp
    note u = junk_words_may_end [OF t, of garbage "junk_words ?t"]
    show ?thesis
      unfolding sif0_word_def Inr rbind.simps Let_def ok_post.simps
      using may_endD [OF t] may_endD [OF u] by (simp only: if_split simp_thms)
  qed (simp add: sif0_word_def)
  have tag: "ok_post (sif0_tag s) sif_ok"
  proof (rule ok_postI)
    fix s' assume "sif0_tag s = Inr s'"
    then obtain e0 e1 f n where
      s': "s' = (put_ch IOP_SIF0 f (write_SIF0 e1 (write_SIF0 e0 s)))\<lparr>junk_words := n\<rparr>"
      and f: "\<And>c. ch_dma_req (f c) = ch_dma_req c \<and> ch_control (f c) = ch_control c"
      unfolding sif0_tag_def Let_def rbind_eq_Inr by fastforce
    have "sif_ok (put_ch IOP_SIF0 f (write_SIF0 e1 (write_SIF0 e0 s)))"
      using f may_endD(1) [OF assms] by (intro put_ch_sif_ok write_SIF0_ok) simp_all
    then show "sif_ok s'" unfolding s' by (subst sif_ok_cong; simp)
  qed
  show ?thesis using word tag may_endD(1) [OF assms] by (simp add: process_SIF0_def)
qed

lemma read_SIF1_may_end:
  assumes "may_end IOP_SIF1 s" and "read_SIF1 s = Inr (w, s')"
  shows "may_end IOP_SIF1 s'"
proof -
  obtain rest where q: "SIF1_FIFO s = w # rest"
    using assms(2) by (auto simp: read_SIF1_def Let_def split: list.splits)
  have ok: "sif_ok s'" and rest: "SIF1_FIFO s' = rest"
    using read_SIF1_ok [OF may_endD(1) [OF assms(1)] q] assms(2) by auto
  show ?thesis
  proof (cases "rest = []")
    case True
    then have "\<not> id_line s' IOP_SIF1" using ok rest by (simp add: sif_ok_def sif_lines_def)
    then show ?thesis using ok by (simp add: may_end_def cleared_not_ready)
  next
    case False
    then have "id_active s' = id_active s" "id_channels s' = id_channels s"
      using assms(2) q
      by (auto simp: read_SIF1_def Let_def get_SIF1_size_def sif_frame split: if_splits)
    then show ?thesis using ok assms(1) by (simp add: may_end_def id_ready_def)
  qed
qed

lemma ram_put32_may_end:
  assumes "may_end i s" and "ram_put32 a v s = Inr s'"
  shows "may_end i s'"
proof -
  have frame: "id_channels s' = id_channels s \<and> id_active s' = id_active s \<and> id_queue s' = id_queue s \<and>
      dm_channels s' = dm_channels s \<and> dm_active s' = dm_active s \<and> dm_queue s' = dm_queue s \<and>
      SIF0_FIFO s' = SIF0_FIFO s \<and> SIF1_FIFO s' = SIF1_FIFO s"
    using assms(2) by (auto simp: ram_put32_def split: if_splits)
  then have "sif_ok s' = sif_ok s" by (intro sif_ok_cong) simp_all
  with frame show ?thesis using assms(1) by (simp add: may_end_def id_ready_def)
qed

lemma read_SIF1_post: "may_end IOP_SIF1 s \<Longrightarrow> ok_post (read_SIF1 s) (\<lambda>x. may_end IOP_SIF1 (snd x))"
  using read_SIF1_may_end [of s "fst x" "snd x" for x] by (intro ok_postI) simp

lemma ram_put32_post: "may_end i s \<Longrightarrow> ok_post (ram_put32 a v s) (may_end i)"
  by (rule ok_postI) (rule ram_put32_may_end)

lemmas sif1_seq = ok_seq [OF read_SIF1_post] ok_seq [OF ram_put32_post] ok_prod ok_Inr

lemma put_ch_fields_may_end:
  "may_end i s \<Longrightarrow> may_end i (put_ch i (ch_addr_update f) s)"
  "may_end i s \<Longrightarrow> may_end i (put_ch i (ch_word_count_update f) s)"
  "may_end i s \<Longrightarrow> may_end i (put_ch i (ch_tag_end_update b) s)"
  "may_end i s \<Longrightarrow> may_end i (put_ch i (\<lambda>c. c\<lparr>ch_addr := ch_addr c + 4, ch_word_count := ch_word_count c - 1\<rparr>) s)"
  by (rule put_ch_may_end; simp)+

lemma sif1_word_ok: "may_end IOP_SIF1 s \<Longrightarrow> ok_post (sif1_word s) sif_ok"
  unfolding sif1_word_def Let_def
  by (intro sif1_seq)
    (auto intro: put_ch_fields_may_end(4) may_endD(1) [where i = IOP_SIF1] may_endD(2))

lemma sif1_tag_ok: "may_end IOP_SIF1 s \<Longrightarrow> ok_post (sif1_tag s) sif_ok"
  unfolding sif1_tag_def Let_def
  by (intro sif1_seq)
    (auto intro: put_ch_fields_may_end may_endD(1) [where i = IOP_SIF1])

lemma process_SIF1_ok: "may_end IOP_SIF1 s \<Longrightarrow> ok_post (process_SIF1 s) sif_ok"
  by (simp add: process_SIF1_def sif1_word_ok sif1_tag_ok may_endD)

lemma one_reply_may_end: "one_reply s s' \<Longrightarrow> may_end i s' = may_end i s"
proof -
  assume r: "one_reply s s'"
  then have "sif_ok s' = sif_ok s" by (intro sif_ok_cong) (simp_all add: one_reply_def)
  with r show ?thesis by (simp add: may_end_def one_reply_def id_ready_def)
qed

text \<open>A transfer to the serial interface queues one reply for every byte it sends.\<close>

lemma next_byte_fields:
  "sio_FIFO (next_byte i s) = sio_FIFO s"
  "may_end i s \<Longrightarrow> may_end i (next_byte i s)"
  by (simp add: next_byte_def put_ch_def) (simp add: next_byte_def put_ch_may_end)

lemma ram_put8_fifo: "ram_put8 a v s = Inr t \<Longrightarrow> sio_FIFO t = sio_FIFO s"
  by (auto simp: ram_put8_def split: if_splits)

lemma sio2in_bytes_post:
  "ok_post (sio2in_bytes past n s) (\<lambda>s'.
     length (sio_FIFO s') = length (sio_FIFO s) + n \<and>
     (may_end IOP_SIO2in s \<longrightarrow> may_end IOP_SIO2in s'))"
proof (induction n arbitrary: s)
  case (Suc n)
  show ?case
  proof (cases "ram_get8 (ch_addr (id_channels s IOP_SIO2in)) s")
    case (Inr v)
    show ?thesis
    proof (cases "write_dma past v s")
      case W: (Inr t)
      then have r: "one_reply s t" using write_dma_reply [of past v s] by simp
      then have len: "length (sio_FIFO t) = length (sio_FIFO s) + 1" by (auto simp: one_reply_def)
      show ?thesis
        using Suc [of "next_byte IOP_SIO2in t"] one_reply_may_end [OF r, of IOP_SIO2in]
          next_byte_fields(2) [of IOP_SIO2in t]
        by (simp add: Inr W next_byte_fields(1) len) (auto elim!: ok_post_mono)
    qed (simp add: Inr)
  qed simp
qed simp

lemma sio2out_bytes_post:
  "ok_post (sio2out_bytes n s) (\<lambda>s'. length (sio_FIFO s) = length (sio_FIFO s') + n)"
proof (induction n arbitrary: s)
  case (Suc n)
  show ?case
  proof (cases "sio_FIFO s")
    case (Cons v rest)
    let ?s = "s\<lparr>sio_FIFO := rest\<rparr>"
    have r: "read_serial s = Inr (v, ?s)" by (simp add: read_serial_def Cons)
    show ?thesis
    proof (cases "ram_put8 (ch_addr (id_channels ?s IOP_SIO2out)) v ?s")
      case (Inr t)
      show ?thesis
        using Suc [of "next_byte IOP_SIO2out t"] ram_put8_fifo [OF Inr]
        by (simp only: sio2out_bytes.simps r rbind.simps prod.case Inr next_byte_fields(1) Cons)
          simp
    qed (simp only: sio2out_bytes.simps r rbind.simps prod.case ok_post.simps)
  qed (simp add: read_serial_def)
qed simp

end
