(* ===== verification/Sif_Correct.thy ===== *)
theory Sif_Correct
  imports Iop_Dma_Run Dmac_Correct
begin

unbundle bit_operations_syntax

section \<open>Properties of the SIF and of the IOP's DMA controller\<close>

text \<open>
  The two FIFOs of the SIF refine two plain queues while the request lines of both DMA controllers
  follow their fill levels; arbitration, register round trips and transfers of the IOP's DMA
  controller.
\<close>

subsection \<open>The SIF as two queues\<close>

datatype sif_op = Write0 u32 | Read0 | Write1 "128 word" | Read1

type_synonym fifos = "u32 list \<times> u32 list"

definition sif_abs :: "'a sif_scheme \<Rightarrow> fifos" where
  "sif_abs s = (SIF0_FIFO s, SIF1_FIFO s)"

definition quad_words :: "128 word \<Rightarrow> u32 list" where
  "quad_words q = map (\<lambda>i. ucast (drop_bit (32 * i) q)) [0..<4]"

fun sif_do :: "sif_op \<Rightarrow> 'a sif_scheme \<Rightarrow> (u32 list \<times> 'a sif_scheme) res" where
  "sif_do (Write0 w) s = Inr ([], write_SIF0 w s)"
| "sif_do Read0 s = rbind (read_SIF0 s) (\<lambda>(w, s). Inr ([w], s))"
| "sif_do (Write1 q) s = rbind (write_SIF1 q s) (\<lambda>s. Inr ([], s))"
| "sif_do Read1 s = rbind (read_SIF1 s) (\<lambda>(w, s). Inr ([w], s))"

definition queue_take :: "u32 list \<Rightarrow> (u32 \<times> u32 list) res" where
  "queue_take q = (case q of [] \<Rightarrow> Inl (Undefined ''front of an empty queue'') | w # r \<Rightarrow> Inr (w, r))"

fun queue_do :: "sif_op \<Rightarrow> fifos \<Rightarrow> (u32 list \<times> fifos) res" where
  "queue_do (Write0 w) (p, q) = Inr ([], p @ [w], q)"
| "queue_do Read0 (p, q) = rbind (queue_take p) (\<lambda>(w, p). Inr ([w], p, q))"
| "queue_do (Write1 v) (p, q) = Inr ([], p, q @ quad_words v)"
| "queue_do Read1 (p, q) = rbind (queue_take q) (\<lambda>(w, q). Inr ([w], p, q))"

text \<open>A run of either, with the words read in order.\<close>

fun run_ops :: "(sif_op \<Rightarrow> 's \<Rightarrow> (u32 list \<times> 's) res) \<Rightarrow> sif_op list \<Rightarrow> 's \<Rightarrow> (u32 list \<times> 's) res" where
  "run_ops f [] s = Inr ([], s)"
| "run_ops f (x # xs) s =
     rbind (f x s) (\<lambda>(v, s). rbind (run_ops f xs s) (\<lambda>(vs, s). Inr (v @ vs, s)))"

definition simulates :: "(u32 list \<times> 'a sif_scheme) res \<Rightarrow> (u32 list \<times> fifos) res \<Rightarrow> bool" where
  "simulates r q \<longleftrightarrow> map_sum id (map_prod id sif_abs) r = q \<and> ok_post r (\<lambda>(_, s). sif_ok s)"

lemma sif_do_simulates:
  assumes "sif_ok s"
  shows "simulates (sif_do x s) (queue_do x (sif_abs s))"
proof (cases x)
  case (Write0 w)
  then show ?thesis
    using write_SIF0_ok [OF assms] by (simp add: simulates_def sif_abs_def write_SIF0_shape)
next
  case Read0
  then show ?thesis
    using read_SIF0_ok [OF assms]
    by (cases "SIF0_FIFO s") (force simp: simulates_def sif_abs_def queue_take_def read_SIF0_def)+
next
  case (Write1 q)
  then show ?thesis
    using write_SIF1_ok [OF assms, of q] by (auto simp: simulates_def sif_abs_def quad_words_def)
next
  case Read1
  then show ?thesis
    using read_SIF1_ok [OF assms]
    by (cases "SIF1_FIFO s") (force simp: simulates_def sif_abs_def queue_take_def read_SIF1_def)+
qed

lemma run_simulates:
  "sif_ok s \<Longrightarrow> simulates (run_ops sif_do xs s) (run_ops queue_do xs (sif_abs s))"
proof (induction xs arbitrary: s)
  case (Cons x xs)
  show ?case
  proof (cases "sif_do x s")
    case (Inl e)
    then have "queue_do x (sif_abs s) = Inl e"
      using sif_do_simulates [OF Cons.prems, of x] by (simp add: simulates_def)
    with Inl show ?thesis by (simp add: simulates_def)
  next
    case (Inr r)
    obtain v t where r: "r = (v, t)" by (cases r)
    have x: "queue_do x (sif_abs s) = Inr (v, sif_abs t)" "sif_ok t"
      using sif_do_simulates [OF Cons.prems, of x] by (auto simp: simulates_def Inr r)
    have "run_ops queue_do xs (sif_abs t) = map_sum id (map_prod id sif_abs) (run_ops sif_do xs t)"
      "ok_post (run_ops sif_do xs t) (\<lambda>(_, s). sif_ok s)"
      using Cons.IH [OF x(2)] by (simp_all add: simulates_def)
    then show ?thesis
      using x(1) Inr r by (cases "run_ops sif_do xs t") (auto simp: simulates_def)
  qed
qed (simp add: simulates_def)


text \<open>The state of the three components after their resets.\<close>

definition sif_boot :: "(u32 \<Rightarrow> u8) \<Rightarrow> 'a sif_scheme \<Rightarrow> 'a sif_scheme" where
  "sif_boot RAM s = sif_reset (id_reset RAM (dmac_reset s))"

lemma id_reset_frame:
  "dm_channels (id_reset RAM s) = dm_channels s" "dm_active (id_reset RAM s) = dm_active s"
  "dm_queue (id_reset RAM s) = dm_queue s"
  by (simp_all add: id_reset_def Let_def id_request_frame)

lemma id_reset_lines:
  "i < 16 \<Longrightarrow> id_line (id_reset RAM s) i \<longleftrightarrow> i \<in> {IOP_SIF0, IOP_SIO2in, IOP_SIO2out}"
  by (simp add: id_reset_def Let_def id_set_request_line) (auto simp: id_line_def)

lemma sif_boot_ok:
  assumes "\<And>i. 15 \<le> i \<Longrightarrow> \<not> dc_started (dm_channels s i)"
    and "\<And>i. 15 \<le> i \<Longrightarrow> \<not> bit (dc_control (dm_channels s i)) 8"
    and "\<And>i. 16 \<le> i \<Longrightarrow> \<not> id_ready s i"
  shows "sif_ok (sif_boot RAM s)"
proof -
  let ?d = "dmac_reset s" let ?i = "id_reset RAM (dmac_reset s)"
  have "dm_good ?d" using dmac_reset_ok [OF assms(1,2)] by (simp add: dmac_ok_def)
  moreover have "dm_good ?i = dm_good ?d" by (rule good_frame) (simp_all add: id_reset_frame)
  moreover have "dm_good (sif_boot RAM s) = dm_good ?i"
    by (rule good_frame) (simp_all add: sif_boot_def sif_reset_def)
  moreover have "id_good (sif_boot RAM s) = id_good ?i"
    by (rule id_good_cong) (simp_all add: sif_boot_def sif_reset_def)
  moreover have "id_good ?i"
    by (rule id_reset_good) (use assms(3) in \<open>simp add: dmac_reset_def id_ready_def\<close>)
  moreover have "dm_line (sif_boot RAM s) = dm_line ?d" "id_line (sif_boot RAM s) = id_line ?i"
    by (rule good_frame; simp add: sif_boot_def sif_reset_def id_reset_frame)+
  moreover have "dm_line ?d EE_SIF1" "\<not> dm_line ?d EE_SIF0" by (simp_all add: dm_line_def dmac_reset_def)
  ultimately show ?thesis
    by (simp add: sif_ok_def sif_lines_def id_reset_lines) (simp add: sif_boot_def sif_reset_def)
qed

text \<open>C7: The SIF is two queues of words: over any sequence of reads and writes from both sides it
  returns the words two plain queues return, in the same order, and stops exactly where they are
  read while empty; and at every moment the four request lines say what the queues hold.\<close>

theorem sif_refines_queues:
  assumes "sif_ok s"
  shows "map_sum id (map_prod id sif_abs) (run_ops sif_do xs s) = run_ops queue_do xs (sif_abs s) \<and>
    ok_post (run_ops sif_do xs s) (\<lambda>(_, t). sif_lines t)"
  using run_simulates [OF assms, of xs] by (auto simp: simulates_def sif_ok_def elim!: ok_post_mono)

definition boot_machine :: sif where
  "boot_machine = sif_boot (\<lambda>_. 0)
     (undefined\<lparr>dm_channels := (\<lambda>_. undefined\<lparr>dc_control := 0, dc_started := False\<rparr>),
        id_channels := (\<lambda>_. undefined\<lparr>ch_dma_req := False\<rparr>)\<rparr>)"

lemma boot_machine_ok: "sif_ok boot_machine" "sif_abs boot_machine = ([], [])"
  unfolding boot_machine_def
  by (rule sif_boot_ok, simp_all add: id_ready_def) (simp add: sif_boot_def sif_reset_def sif_abs_def)

theorem sif_refines_queues_witness:
  "map_sum id (map_prod id sif_abs)
     (run_ops sif_do [Write0 7, Write1 0x20000000100000000, Read1, Write0 8, Read1, Read0] boot_machine) =
   Inr ([0, 1, 7], [8], [2, 0])"
  unfolding sif_refines_queues [OF boot_machine_ok(1), THEN conjunct1] boot_machine_ok(2)
  by (simp add: quad_words_def queue_take_def upt_rec)


subsection \<open>Transfers of the IOP keep the interface consistent\<close>

text \<open>What is asked of the drive and the sound units: they leave the interface consistent and do not
  stop the channel they serve.\<close>

definition dev_keeps :: "'a iop_dma_run_scheme iop_dev \<Rightarrow> bool" where
  "dev_keeps dev \<longleftrightarrow>
     (\<forall>i k a v s. may_end i s \<longrightarrow>
        ok_post (dev_spu_write_ADMA dev k a s) (may_end i) \<and>
        ok_post (dev_spu_write_DMA dev k v s) (may_end i) \<and>
        ok_post (dev_spu_read_DMA dev k s) (\<lambda>(_, t). may_end i t) \<and>
        ok_post (dev_cdvd_read_to_RAM dev a v s) (\<lambda>(_, t). may_end i t)) \<and>
     (\<forall>k s. sif_ok s \<longrightarrow> ok_post (dev_spu_finish_DMA dev k s) sif_ok)"

lemma active_may_end: "sif_ok s \<Longrightarrow> id_active s = Some i \<Longrightarrow> may_end i s"
  by (simp add: may_end_def)

lemma dev_rules:
  assumes "dev_keeps dev" and "may_end i s"
  shows "ok_post (dev_spu_write_ADMA dev k a s) (may_end i)"
    and "ok_post (dev_spu_write_DMA dev k v s) (may_end i)"
    and "ok_post (dev_spu_read_DMA dev k s) (\<lambda>(_, t). may_end i t)"
    and "ok_post (dev_cdvd_read_to_RAM dev a v s) (\<lambda>(_, t). may_end i t)"
  using assms by (simp_all add: dev_keeps_def)

lemma put_plain_may_end:
  "may_end i s \<Longrightarrow> (\<And>c. ch_dma_req (f c) = ch_dma_req c \<and> ch_control (f c) = ch_control c) \<Longrightarrow>
     may_end i (put_ch i f s)"
  by (rule put_ch_may_end) simp_all

lemma process_CDVD_ok:
  assumes "dev_keeps dev" and "may_end IOP_CDVD s"
  shows "ok_post (process_CDVD dev s) sif_ok"
proof -
  have "sif_ok (set_chan_block IOP_CDVD 0 (transfer_end IOP_CDVD t))" if "may_end IOP_CDVD t" for t :: "'a iop_dma_run_scheme"
    unfolding set_chan_block_def
    by (rule put_ch_sif_ok [OF may_endD(2) [OF that]]) (simp add: resize_def)
  moreover have "sif_ok (put_ch IOP_CDVD (\<lambda>c. c\<lparr>ch_addr := a c, ch_word_count := b c\<rparr>) t)"
    if "may_end IOP_CDVD t" for t :: "'a iop_dma_run_scheme" and a b
    by (rule put_ch_sif_ok [OF may_endD(1) [OF that]]) simp
  ultimately show ?thesis
    unfolding process_CDVD_def Let_def
    by (intro ok_seq [OF dev_rules(4) [OF assms]]) (auto split: prod.splits)
qed

lemma spu_word_ok:
  assumes "dev_keeps dev" and "may_end i s"
  shows "ok_post (spu_word dev i k s) (may_end i)"
proof -
  have put: "may_end i (put_ch i (\<lambda>c. (advance_word c)\<lparr>ch_delay := 3\<rparr>) t)"
    if "may_end i t" for t :: "'a iop_dma_run_scheme"
    by (rule put_plain_may_end [OF that]) (simp add: advance_word_def)
  have "ok_post (rbind (ram_get32 a s) (\<lambda>v. dev_spu_write_DMA dev k v s)) (may_end i)" for a
    using dev_rules(2) [OF assms] by (cases "ram_get32 a s") simp_all
  moreover have "ok_post (rbind (dev_spu_read_DMA dev k s) (\<lambda>(v, s). ram_put32 (g s) v s)) (may_end i)" for g
    by (rule ok_seq [OF dev_rules(3) [OF assms]]) (auto intro: ram_put32_post split: prod.split)
  ultimately show ?thesis
    unfolding spu_word_def by (intro ok_seq [where P = "may_end i"]) (auto simp: put)
qed

lemma process_SPU_ok:
  assumes "dev_keeps dev" and "may_end i s"
  shows "ok_post (process_SPU dev i k s) sif_ok"
proof -
  have adv: "may_end i (put_ch i advance_word t)" "may_end i (put_ch i (\<lambda>c. c\<lparr>ch_delay := ch_delay c - 1\<rparr>) t)"
    "may_end i (put_ch i (\<lambda>c. c\<lparr>ch_word_count := 0\<rparr>) t)"
    if "may_end i t" for t :: "'a iop_dma_run_scheme"
    by (rule put_plain_may_end [OF that]; simp add: advance_word_def)+
  have fin: "ok_post (dev_spu_finish_DMA dev k (transfer_end i (put_ch i (\<lambda>c. c\<lparr>ch_word_count := 0\<rparr>) t))) sif_ok"
    if "may_end i t" for t :: "'a iop_dma_run_scheme"
    using assms(1) may_endD(2) [OF adv(3) [OF that]] by (simp add: dev_keeps_def)
  show ?thesis
    unfolding process_SPU_def
    by (rule ok_seq [where P = "may_end i"])
      (auto intro!: ok_seq [OF dev_rules(1) [OF assms]] spu_word_ok [OF assms] adv
        simp: fin assms(2) may_endD(1) [where i = i])
qed

lemma finish_sio_ok: "may_end i s \<Longrightarrow> sif_ok (finish_sio i s)"
  unfolding finish_sio_def by (rule may_endD(2), rule put_plain_may_end) simp_all

lemma process_SIO2in_ok:
  assumes "may_end IOP_SIO2in s"
  shows "ok_post (process_SIO2in past s) sif_ok"
proof -
  have "may_end IOP_SIO2in (dma_reset s) = may_end IOP_SIO2in s"
    using sif_ok_cong [of "dma_reset s" s] by (simp add: may_end_def dma_reset_def id_ready_def)
  then have "ok_post (sio2in_bytes past n (dma_reset s)) (may_end IOP_SIO2in)" for n
    using assms by (intro ok_post_mono [OF sio2in_bytes_post]) simp
  then show ?thesis
    unfolding process_SIO2in_def Let_def
    by (intro ok_seq [where P = "may_end IOP_SIO2in"]) (simp_all add: finish_sio_ok)
qed

lemma sio2out_bytes_ok: "may_end IOP_SIO2out s \<Longrightarrow> ok_post (sio2out_bytes n s) (may_end IOP_SIO2out)"
proof (induction n arbitrary: s)
  case (Suc n)
  have read: "ok_post (read_serial s) (\<lambda>(_, t). may_end IOP_SIO2out t)"
    using Suc.prems sif_ok_cong [of "s\<lparr>sio_FIFO := q\<rparr>" s for q]
    by (auto simp: read_serial_def may_end_def id_ready_def split: list.split)
  have put: "ok_post (ram_put8 a v t) (may_end IOP_SIO2out)" if "may_end IOP_SIO2out t" for a v and t :: "'a sio2_scheme"
    using that sif_ok_cong [of "t\<lparr>iop_RAM := m\<rparr>" t for m]
    by (auto simp: ram_put8_def may_end_def id_ready_def)
  show ?case
    unfolding sio2out_bytes.simps
    by (rule ok_seq [OF read], rule ok_prod, rule ok_seq [OF put])
      (auto intro: Suc.IH next_byte_fields(2))
qed simp

lemma process_channel_ok:
  assumes "dev_keeps dev" and "may_end i s"
  shows "ok_post (process_channel dev past garbage i s) sif_ok"
proof -
  have "ok_post (process_SIO2out s) sif_ok" if "i = IOP_SIO2out"
    using assms(2) that unfolding process_SIO2out_def
    by (intro ok_seq [OF sio2out_bytes_ok]) (simp_all add: finish_sio_ok)
  then show ?thesis
    using assms process_CDVD_ok process_SPU_ok process_SIF0_ok process_SIF1_ok process_SIO2in_ok
    unfolding process_channel_def by (intro ok_post_if) auto
qed


text \<open>C24: However many steps the IOP's DMA controller runs, whatever its channels transfer and whoever
  they hand over to, the request lines keep telling what the SIF's queues hold and both controllers
  keep running exactly the channels that are ready, as long as the drive and the sound units do
  their part.\<close>

theorem iop_dma_run_keeps_sif:
  assumes "dev_keeps dev" and "sif_ok s"
  shows "ok_post (iop_dma_run_for dev past garbage n s) sif_ok"
  using assms(2)
proof (induction n arbitrary: s)
  case (Suc n)
  show ?case
  proof (cases "id_active s")
    case (Some i)
    then show ?thesis
      using ok_seq [OF process_channel_ok [OF assms(1) active_may_end [OF Suc.prems Some]] Suc.IH]
      by simp
  qed (use Suc.prems in simp)
qed simp

definition idle_dev :: "'s iop_dev" where
  "idle_dev =
     \<lparr>dev_spu_start_DMA = (\<lambda>_ _. Inr), dev_spu_pause_DMA = (\<lambda>_. Inr),
      dev_spu_running_ADMA = (\<lambda>_ _. False), dev_spu_write_ADMA = (\<lambda>_ _. Inr),
      dev_spu_write_DMA = (\<lambda>_ _. Inr), dev_spu_read_DMA = (\<lambda>_ s. Inr (0, s)),
      dev_spu_finish_DMA = (\<lambda>_. Inr), dev_cdvd_read_to_RAM = (\<lambda>_ n s. Inr (n, s))\<rparr>"

lemma set_chan_control_frame:
  assumes "spu_core i = None" and "set_chan_control dev i v s = Inr s'"
  shows "dm_channels s' = dm_channels s" "dm_active s' = dm_active s" "dm_queue s' = dm_queue s"
    "SIF0_FIFO s' = SIF0_FIFO s" "SIF1_FIFO s' = SIF1_FIFO s"
  using assms(2)
  by (auto simp: set_chan_control_def assms(1) Let_def put_ch_def active_dma_check_def deactivate_dma_def
      id_find_new_active_channel_def split: if_splits option.splits)

lemma set_chan_control_sif_ok:
  assumes "sif_ok s" and "spu_core i = None"
  shows "\<exists>s'. set_chan_control dev i v s = Inr s' \<and> sif_ok s'"
proof -
  obtain s' where s': "set_chan_control dev i v s = Inr s'" "id_good s'" "id_line s' = id_line s"
    using id_set_chan_control_good [OF _ assms(2), of s dev v] assms(1) by (auto simp: sif_ok_def)
  note f = set_chan_control_frame [OF assms(2) s'(1)]
  have "sif_ok s'"
    using assms(1) s'(2,3) f(4,5) good_frame(1,2) [OF f(1)] f(2,3) by (simp add: sif_ok_def sif_lines_def)
  with s'(1) show ?thesis by blast
qed

definition run_boot :: iop_dma_run where
  "run_boot = sif_boot (\<lambda>_. 0)
     (undefined\<lparr>dm_channels := (\<lambda>_. undefined\<lparr>dc_control := 0, dc_started := False\<rparr>),
        id_channels := (\<lambda>_. undefined\<lparr>ch_dma_req := False\<rparr>)\<rparr>)"

definition sif0_running :: iop_dma_run where
  "sif0_running = (case set_chan_control idle_dev IOP_SIF0 0x1000001 run_boot of Inr s \<Rightarrow> s)"

lemma sif0_running_ok: "sif_ok sif0_running"
proof -
  have "sif_ok run_boot" unfolding run_boot_def by (rule sif_boot_ok) (simp_all add: id_ready_def)
  then obtain t where "set_chan_control idle_dev IOP_SIF0 0x1000001 run_boot = Inr t" "sif_ok t"
    using set_chan_control_sif_ok [of run_boot IOP_SIF0] by (auto simp: spu_core_def)
  then show ?thesis by (simp add: sif0_running_def)
qed

theorem iop_dma_run_keeps_sif_witness:
  "ok_post (iop_dma_run_for idle_dev (\<lambda>_. 0) (\<lambda>_. 0) 40 sif0_running) sif_ok"
  by (rule iop_dma_run_keeps_sif [OF _ sif0_running_ok]) (simp add: dev_keeps_def idle_dev_def)

subsection \<open>Arbitration and registers\<close>


definition iop_dma_idle :: iop_dma where
  "iop_dma_idle = undefined\<lparr>id_channels := (\<lambda>_. undefined\<lparr>ch_dma_req := False,
     ch_control := undefined\<lparr>ch_busy := False\<rparr>\<rparr>)\<rparr>"

definition sio2_started :: iop_dma where
  "sio2_started = (case set_chan_control idle_dev IOP_SIO2out 0x1000000 (id_reset (\<lambda>_. 0) iop_dma_idle)
     of Inr s \<Rightarrow> s)"

lemma sio2_control:
  "\<exists>t. set_chan_control idle_dev IOP_SIO2out 0x1000000 (id_reset (\<lambda>_. 0) iop_dma_idle) = Inr t"
proof -
  have "id_good (id_reset (\<lambda>_. 0) iop_dma_idle)"
    by (rule id_reset_good) (simp add: iop_dma_idle_def id_ready_def)
  from id_set_chan_control_good [OF this, of IOP_SIO2out idle_dev] show ?thesis
    by (auto simp: spu_core_def)
qed

lemma sio2_started_reachable: "id_reachable iop_dma_idle sio2_started"
proof -
  obtain t where t: "set_chan_control idle_dev IOP_SIO2out 0x1000000 (id_reset (\<lambda>_. 0) iop_dma_idle) = Inr t"
    using sio2_control by blast
  have "id_reachable iop_dma_idle t"
    by (rule id_reachable.step [OF id_reachable.init id_step.control [OF _ t]]) (simp add: spu_core_def)
  with t show ?thesis by (simp add: sio2_started_def)
qed

lemma sio2_started_ready: "id_ready sio2_started IOP_SIO2out"
  by (simp add: sio2_started_def set_chan_control_def spu_core_def id_reset_def id_set_request_def
      iop_dma_idle_def active_dma_check_def id_ready_def put_ch_def load_chan_control_def tst_iff_bit Let_def)


lemma set_chan_control_value:
  assumes "spu_core i = None" and "set_chan_control dev i w s = Inr s'"
  shows "ch_control (id_channels s' i) = (load_chan_control w (ch_control (id_channels s i)))\<lparr>ch_unk30 := tst w 30\<rparr>"
  using assms(2)
  by (auto simp: set_chan_control_def assms(1) Let_def active_dma_check_def deactivate_dma_def
      id_find_new_active_channel_def split: if_splits option.splits)

text \<open>The control registers of the IOP's DMA controller read back what was written: all bits of
  \<open>DPCR\<close> and \<open>DPCR2\<close>, and the implemented bits of a channel's control register, whatever the
  write starts or stops.\<close>

lemma iop_dma_registers_read_back:
  assumes "spu_core i = None" and "set_chan_control dev i w s = Inr s'"
  shows "get_DPCR (set_DPCR v s) = v \<and> get_DPCR2 (set_DPCR2 v s) = v \<and>
    get_chan_control i s' = w AND 0x41000701"
  by (simp_all add: get_DPCR_def set_DPCR_def get_DPCR2_def set_DPCR2_def dpcr_roundtrip get_chan_control_def
      set_chan_control_value [OF assms] chan_control_roundtrip del: iop_chan_control.simps)

lemma iop_dma_registers_read_back_witness:
  "get_chan_control IOP_SIO2out sio2_started = 0x1000000"
proof -
  obtain t where t: "set_chan_control idle_dev IOP_SIO2out 0x1000000 (id_reset (\<lambda>_. 0) iop_dma_idle) = Inr t"
    using sio2_control by blast
  then show ?thesis
    using iop_dma_registers_read_back [OF _ t] by (simp add: sio2_started_def spu_core_def)
qed

text \<open>A channel's block register does not read back: \<open>set_chan_block\<close> takes the block size from
  the low half and the count from the high half, \<open>get_chan_block\<close> puts them back the other way
  round.\<close>

lemma chan_block_reads_swapped:
  "get_chan_block i (set_chan_block i v s) = drop_bit 16 v OR push_bit 16 v"
  by (rule u32_eqI) (simp add: get_chan_block_def set_chan_block_def resize_def reg_bits bit_simps)

lemma junk_fold: "SIF0_FIFO (fold (\<lambda>i. write_SIF0 (f i)) xs s) = SIF0_FIFO s @ map f xs"
  by (induction xs arbitrary: s) (simp_all add: write_SIF0_shape)

text \<open>The filler words the IOP's controller sends behind a SIF0 transfer of up to three of four
  words are never the words of the transfer: \<open>memcpy\<close> copies four bytes where four words are
  meant, so all of them are the indeterminate words of the stack.\<close>

lemma sif0_junk_indeterminate:
  assumes "n \<le> 3"
  shows "SIF0_FIFO (send_SIF0_junk garbage n s) = SIF0_FIFO s @ map garbage [4 - n..<4]"
proof -
  have "map (junk_temp garbage s) [4 - n..<4] = map garbage [4 - n..<4]"
    using assms by (simp add: junk_temp_def)
  then show ?thesis by (simp add: send_SIF0_junk_def junk_fold)
qed

lemma sif0_junk_indeterminate_witness:
  "SIF0_FIFO (send_SIF0_junk (\<lambda>i. of_nat i) 2 boot_machine) = [2, 3]"
  using sif0_junk_indeterminate [of 2 "\<lambda>i. of_nat i" boot_machine] boot_machine_ok(2)
  by (simp add: sif_abs_def upt_rec)

subsection \<open>Transfers to the serial interface\<close>

text \<open>A DMA transfer to the serial interface that completes queues exactly one reply for every
  byte it sends, whatever devices answer.\<close>

lemma sio2in_one_reply_each:
  assumes "process_SIO2in past s = Inr s'"
  shows "length (sio_FIFO s') = length (sio_FIFO s) + unat (chan_bytes IOP_SIO2in s)"
proof -
  have fifo: "sio_FIFO (finish_sio i t) = sio_FIFO t" for i and t :: "'a sio2_scheme"
    by (simp add: finish_sio_def transfer_end_def Let_def put_ch_def id_find_new_active_channel_def
        assert_irq_def iop_int_check_def interrupt_check_def)
  show ?thesis
    using assms ok_postD [OF sio2in_bytes_post, of past _ "dma_reset s"]
    by (auto simp: process_SIO2in_def Let_def rbind_eq_Inr fifo) (simp_all add: dma_reset_def chan_bytes_def)
qed

definition sio2in_demo :: sio2 where
  "sio2in_demo = undefined\<lparr>sio_FIFO := [], sio_send3 := replicate 16 0, sio_command_length := 0,
     send3_port := 0, id_active := None, id_MASK := (\<lambda>_. 0), iop_RAM := (\<lambda>_. 0),
     id_channels := (\<lambda>_. undefined\<lparr>ch_addr := 0x1000, ch_word_count := 1, ch_block_size := 1\<rparr>)\<rparr>"

lemma sio2in_demo_bytes:
  "unat (chan_bytes IOP_SIO2in (dma_reset sio2in_demo)) = Suc (Suc (Suc (Suc 0)))"
  by (simp add: chan_bytes_def sio2in_demo_def dma_reset_def)

lemma sio2in_demo_runs: "\<exists>s'. process_SIO2in (\<lambda>_. 0) sio2in_demo = Inr s'"
  unfolding process_SIO2in_def Let_def sio2in_demo_bytes
  by (simp add: sio2in_demo_def dma_reset_def ram_get8_def IOP_RAM_SIZE_def write_dma_def
      write_serial_def next_command_def sio_push_def next_byte_def put_ch_def vec_at_def)

lemma sio2in_one_reply_each_witness:
  "\<exists>s'. process_SIO2in (\<lambda>_. 0) sio2in_demo = Inr s' \<and> length (sio_FIFO s') = 4"
proof -
  obtain s' where s': "process_SIO2in (\<lambda>_. 0) sio2in_demo = Inr s'" using sio2in_demo_runs by blast
  then show ?thesis
    using sio2in_one_reply_each [OF s'] by (simp add: chan_bytes_def) (simp add: sio2in_demo_def)
qed

end
