(* ===== verification/Firewire.thy ===== *)
theory Firewire
  imports Iop_Dma_Run
begin

unbundle bit_operations_syntax

section \<open>The FireWire controller\<close>

text \<open>
  \<open>src/core/iop/firewire.cpp\<close>: a few control registers and the sixteen registers of the PHY,
  which are accessed through \<open>PHYAccess\<close>. \<open>PHYregisters\<close> has sixteen entries and every index is
  four bits wide, so it is a function of a 4-bit word.
\<close>

record firewire = iop_dma_run +
  fw_intr0 :: u32
  fw_intr1 :: u32
  fw_intr2 :: u32
  fw_intr0mask :: u32
  fw_intr1mask :: u32
  fw_intr2mask :: u32
  fw_ctrl0 :: u32
  fw_ctrl1 :: u32
  fw_ctrl2 :: u32
  fw_dmaCtrlSR0 :: u32
  fw_dmaCtrlSR1 :: u32
  PHYAccess :: u32
  PHYregisters :: "4 word \<Rightarrow> u8"

definition fw_reset :: "'a firewire_scheme \<Rightarrow> 'a firewire_scheme" where
  "fw_reset s =
     s\<lparr>fw_intr0 := 0, fw_intr1 := 0, fw_intr2 := 0, fw_intr0mask := 0, fw_intr1mask := 0,
       fw_intr2mask := 0, fw_ctrl0 := 0, fw_ctrl1 := 0, fw_ctrl2 := 0, fw_dmaCtrlSR0 := 0,
       PHYAccess := 0, PHYregisters := (\<lambda>_. 0)\<rparr>"

definition readPHY :: "'a firewire_scheme \<Rightarrow> 'a firewire_scheme" where
  "readPHY s =
     (let reg = ucast (drop_bit 24 (PHYAccess s)) :: 4 word;
          s = s\<lparr>PHYAccess := PHYAccess s AND NOT 0x80000000\<rparr>;
          s = s\<lparr>PHYAccess := PHYAccess s OR (ucast (PHYregisters s reg) OR push_bit 8 (ucast reg))\<rparr>
      in if fw_intr0mask s AND 0x40000000 \<noteq> 0
         then assert_irq 24 (s\<lparr>fw_intr0 := fw_intr0 s OR 0x40000000\<rparr>)
         else s)"

definition writePHY :: "'a firewire_scheme \<Rightarrow> 'a firewire_scheme" where
  "writePHY s =
     (let reg = ucast (drop_bit 8 (PHYAccess s)) :: 4 word;
          val = ucast (PHYAccess s AND 0xFF)
      in s\<lparr>PHYregisters := (PHYregisters s)(reg := val),
           PHYAccess := PHYAccess s AND NOT 0x4000FFFF\<rparr>)"

definition fw_write32 :: "u32 \<Rightarrow> u32 \<Rightarrow> 'a firewire_scheme \<Rightarrow> 'a firewire_scheme" where
  "fw_write32 addr v s =
     (let a = addr AND 0x1FF in
      if a = 0x8 then s\<lparr>fw_ctrl0 := v AND NOT 0x3800000\<rparr>
      else if a = 0x10 then (if v AND 0x2 \<noteq> 0 then s\<lparr>fw_ctrl2 := fw_ctrl2 s OR 0x8\<rparr> else s)
      else if a = 0x14 then
        (let s = s\<lparr>PHYAccess := v\<rparr> in
         if v AND 0x40000000 \<noteq> 0 then writePHY s
         else if v AND 0x80000000 \<noteq> 0 then readPHY s
         else s)
      else if a = 0x20 then s\<lparr>fw_intr0 := fw_intr0 s AND NOT v\<rparr>
      else if a = 0x24 then s\<lparr>fw_intr0mask := v\<rparr>
      else if a = 0x28 then s\<lparr>fw_intr1 := fw_intr1 s AND NOT v\<rparr>
      else if a = 0x2C then s\<lparr>fw_intr1mask := v\<rparr>
      else if a = 0x30 then s\<lparr>fw_intr2 := fw_intr2 s AND NOT v\<rparr>
      else if a = 0x34 then s\<lparr>fw_intr2mask := v\<rparr>
      else if a = 0xB8 then s\<lparr>fw_dmaCtrlSR0 := v\<rparr>
      else if a = 0x138 then s\<lparr>fw_dmaCtrlSR1 := v\<rparr>
      else s)"

definition fw_read32 :: "u32 \<Rightarrow> 'a firewire_scheme \<Rightarrow> u32" where
  "fw_read32 addr s =
     (let a = addr AND 0x1FF in
      if a = 0x0 then 0xFFC00001
      else if a = 0x8 then fw_ctrl0 s
      else if a = 0x10 then fw_ctrl2 s
      else if a = 0x14 then PHYAccess s
      else if a = 0x20 then fw_intr0 s
      else if a = 0x24 then fw_intr0mask s
      else if a = 0x28 then fw_intr1 s
      else if a = 0x2C then fw_intr1mask s
      else if a = 0x30 then fw_intr2 s
      else if a = 0x34 then fw_intr2mask s
      else if a = 0x7C then 0x10000001
      else 0)"

subsection \<open>PHY accesses\<close>

lemma assert_irq_fw [simp]:
  "PHYAccess (assert_irq i s) = PHYAccess s" "PHYregisters (assert_irq i s) = PHYregisters s"
  by (simp_all add: assert_irq_def iop_int_check_def interrupt_check_def Let_def)

lemma bit_ucast_u4 [reg_bits]: "bit (ucast (r :: 4 word) :: u32) n \<longleftrightarrow> bit r n"
  by (auto simp: bit_simps dest: bit_imp_le_length)

lemma bit_ucast_to_u4 [reg_bits]: "bit (ucast (x :: u32) :: 4 word) n \<longleftrightarrow> n < 4 \<and> bit x n"
  by (auto simp: bit_simps dest: bit_imp_le_length)

lemma u4_high_bit [simp]: "4 \<le> n \<Longrightarrow> \<not> bit (r :: 4 word) n"
  by (auto dest: bit_imp_le_length)

definition phy_write_request :: "4 word \<Rightarrow> u8 \<Rightarrow> u32" where
  "phy_write_request r v = push_bit 30 1 OR push_bit 8 (ucast r) OR ucast v"

definition phy_read_request :: "4 word \<Rightarrow> u32" where
  "phy_read_request r = push_bit 31 1 OR push_bit 24 (ucast r)"

lemma phy_tests:
  "(x :: u32) AND 0x40000000 \<noteq> 0 \<longleftrightarrow> bit x 30" "(x :: u32) AND 0x80000000 \<noteq> 0 \<longleftrightarrow> bit x 31"
proof -
  have "(0x40000000 :: u32) = push_bit 30 1" "(0x80000000 :: u32) = push_bit 31 1" by simp_all
  then show "(x :: u32) AND 0x40000000 \<noteq> 0 \<longleftrightarrow> bit x 30" "(x :: u32) AND 0x80000000 \<noteq> 0 \<longleftrightarrow> bit x 31"
    using tst_iff_bit [of x 30] tst_iff_bit [of x 31] by (simp_all only: tst_def)
qed

lemma u4_eqI:
  fixes a b :: "4 word"
  assumes "list_all (\<lambda>n. bit a n = bit b n) [0, 1, 2, 3]"
  shows "a = b"
proof (rule bit_word_eqI)
  fix n assume "n < LENGTH(4)"
  then have "n \<in> set [0, 1, 2, 3]" by simp presburger
  then show "bit a n = bit b n" using assms by (simp only: list_all_iff)
qed

lemma write_request_fields:
  "bit (phy_write_request r v) 30" "ucast (drop_bit 8 (phy_write_request r v)) = r"
  "ucast (phy_write_request r v AND 0xFF) = v"
proof -
  show "bit (phy_write_request r v) 30"
    by (simp add: phy_write_request_def bit_simps)
  show "ucast (drop_bit 8 (phy_write_request r v)) = r"
    by (rule u4_eqI) (simp add: phy_write_request_def reg_bits bit_simps u8_high_bit)
  have "phy_write_request r v AND 0xFF = take_bit 8 (phy_write_request r v)"
    by (simp add: take_bit_eq_mask mask_eq_exp_minus_1)
  also have "(ucast \<dots> :: u8) = v"
    by (rule bit_word_eqI) (auto simp: phy_write_request_def reg_bits bit_simps)
  finally show "ucast (phy_write_request r v AND 0xFF) = v" .
qed

lemma read_request_fields:
  "\<not> bit (phy_read_request r) 30" "bit (phy_read_request r) 31"
  "ucast (drop_bit 24 (phy_read_request r)) = r"
  "phy_read_request r AND - 2147483649 = push_bit 24 (ucast r)"
proof -
  show "\<not> bit (phy_read_request r) 30" "bit (phy_read_request r) 31"
    by (simp_all add: phy_read_request_def bit_simps)
  show "ucast (drop_bit 24 (phy_read_request r)) = r"
    by (rule u4_eqI) (simp add: phy_read_request_def reg_bits bit_simps)
  show "phy_read_request r AND - 2147483649 = push_bit 24 (ucast r)"
    by (rule u32_eqI) (simp add: phy_read_request_def reg_bits bit_simps)
qed

lemma fw_phy:
  "fw_read32 0x14 s = PHYAccess s"
  "fw_write32 0x14 v s =
     (if bit v 30 then writePHY (s\<lparr>PHYAccess := v\<rparr>)
      else if bit v 31 then readPHY (s\<lparr>PHYAccess := v\<rparr>) else s\<lparr>PHYAccess := v\<rparr>)"
  by (simp_all add: fw_read32_def fw_write32_def phy_tests Let_def)

text \<open>A value written to a PHY register through a write request in \<open>PHYAccess\<close> is what a
  read request for that register then shows in the low byte, together with the register's number;
  neither request bit is left set.\<close>

lemma phy_write_read:
  "fw_read32 0x14 (fw_write32 0x14 (phy_read_request r) (fw_write32 0x14 (phy_write_request r v) s)) =
    push_bit 24 (ucast r) OR (ucast v OR push_bit 8 (ucast r))"
  unfolding fw_phy
  by (simp add: write_request_fields read_request_fields writePHY_def readPHY_def Let_def)

end
