(* ===== verification/Mips_Fields.thy ===== *)
theory Mips_Fields
  imports Base
begin

unbundle bit_operations_syntax

section \<open>The fields of a MIPS instruction\<close>

text \<open>
  Both processors decode the same instruction format: \<open>rs\<close>, \<open>rt\<close>, \<open>rd\<close>, the shift amount and
  the immediate operand, zero or sign extended.
\<close>

definition i_rs :: "u32 \<Rightarrow> 5 word" where "i_rs i = ucast (fld i 21 5)"
definition i_rt :: "u32 \<Rightarrow> 5 word" where "i_rt i = ucast (fld i 16 5)"
definition i_rd :: "u32 \<Rightarrow> 5 word" where "i_rd i = ucast (fld i 11 5)"
definition i_sa :: "u32 \<Rightarrow> nat" where "i_sa i = unat (fld i 6 5)"
definition i_imm :: "u32 \<Rightarrow> u32" where "i_imm i = i AND 0xFFFF"
definition i_simm :: "u32 \<Rightarrow> u32" where "i_simm i = scast (ucast i :: u16)"
definition i_offset :: "u32 \<Rightarrow> u32" where "i_offset i = push_bit 2 (i_simm i)"

end
