(* ===== verification/Iop_Interp.thy ===== *)
theory Iop_Interp
  imports Iop_Core Mips_Fields
begin

unbundle bit_operations_syntax

section \<open>The IOP interpreter\<close>

text \<open>
  \<open>src/core/iop/iop_interpreter.cpp\<close>: one definition per instruction, the four decoders and
  \<open>IOP::run\<close>'s loop body. An instruction that reaches memory is fallible (alignment, and
  whatever the bus reports); an unknown opcode is \<open>Die\<close>. Conversions from C: \<open>(int16_t)(instruction
  & 0xFFFF)\<close> widened to 32 bits is \<open>i_simm\<close>, \<open>int32_t\<close> comparisons are the
  signed word orders, \<open>>>\<close> on \<open>int32_t\<close> is \<open>signed_drop_bit\<close>.
\<close>

subsection \<open>Operands\<close>

definition bool32 :: "bool \<Rightarrow> u32" where "bool32 b = of_bool b"

text \<open>\<open>cpu.get_gpr(base) + offset\<close>.\<close>

definition i_addr :: "u32 \<Rightarrow> 'a iop_core_scheme \<Rightarrow> u32" where
  "i_addr i s = get_gpr (i_rs i) s + i_simm i"

definition unknown_op :: "'b res" where
  "unknown_op = Inl (Die ''[IOP_Interpreter] Unrecognized op'')"

subsection \<open>Jumps and branches\<close>

definition jump_target :: "u32 \<Rightarrow> u32 \<Rightarrow> u32" where
  "jump_target i pc = push_bit 2 (i AND 0x3FFFFFF) + ((pc + 4) AND 0xF0000000)"

definition iop_j :: "u32 \<Rightarrow> 'a iop_core_scheme \<Rightarrow> 'a iop_core_scheme" where
  "iop_j i s =
     (let addr = jump_target i (iop_PC s);
          s = (if addr = iop_PC s then iop_halt s else s)
      in jp addr s)"

definition iop_jal :: "u32 \<Rightarrow> 'a iop_core_scheme \<Rightarrow> 'a iop_core_scheme" where
  "iop_jal i s =
     (let pc = iop_PC s in set_gpr 31 (pc + 8) (jp (jump_target i pc) s))"

definition iop_beq :: "u32 \<Rightarrow> 'a iop_core_scheme \<Rightarrow> 'a iop_core_scheme" where
  "iop_beq i s = iop_branch (get_gpr (i_rs i) s = get_gpr (i_rt i) s) (i_offset i) s"

definition iop_bne :: "u32 \<Rightarrow> 'a iop_core_scheme \<Rightarrow> 'a iop_core_scheme" where
  "iop_bne i s = iop_branch (get_gpr (i_rs i) s \<noteq> get_gpr (i_rt i) s) (i_offset i) s"

definition iop_blez :: "u32 \<Rightarrow> 'a iop_core_scheme \<Rightarrow> 'a iop_core_scheme" where
  "iop_blez i s = iop_branch (get_gpr (i_rs i) s \<le>s 0) (i_offset i) s"

definition iop_bgtz :: "u32 \<Rightarrow> 'a iop_core_scheme \<Rightarrow> 'a iop_core_scheme" where
  "iop_bgtz i s = iop_branch (0 <s get_gpr (i_rs i) s) (i_offset i) s"

definition iop_bltz :: "u32 \<Rightarrow> 'a iop_core_scheme \<Rightarrow> 'a iop_core_scheme" where
  "iop_bltz i s = iop_branch (get_gpr (i_rs i) s <s 0) (i_offset i) s"

definition iop_bgez :: "u32 \<Rightarrow> 'a iop_core_scheme \<Rightarrow> 'a iop_core_scheme" where
  "iop_bgez i s = iop_branch (0 \<le>s get_gpr (i_rs i) s) (i_offset i) s"

definition iop_bltzal :: "u32 \<Rightarrow> 'a iop_core_scheme \<Rightarrow> 'a iop_core_scheme" where
  "iop_bltzal i s =
     (let reg = get_gpr (i_rs i) s;
          s = set_gpr 31 (iop_PC s + 8) s
      in iop_branch (reg <s 0) (i_offset i) s)"

definition iop_bgezal :: "u32 \<Rightarrow> 'a iop_core_scheme \<Rightarrow> 'a iop_core_scheme" where
  "iop_bgezal i s =
     (let reg = get_gpr (i_rs i) s;
          s = set_gpr 31 (iop_PC s + 8) s
      in iop_branch (0 \<le>s reg) (i_offset i) s)"

definition iop_jr :: "u32 \<Rightarrow> 'a iop_core_scheme \<Rightarrow> 'a iop_core_scheme" where
  "iop_jr i s = jp (get_gpr (i_rs i) s) s"

definition iop_jalr :: "u32 \<Rightarrow> 'a iop_core_scheme \<Rightarrow> 'a iop_core_scheme" where
  "iop_jalr i s =
     (let return_addr = iop_PC s + 8
      in set_gpr (i_rd i) return_addr (jp (get_gpr (i_rs i) s) s))"

subsection \<open>Arithmetic and logic\<close>

definition iop_addi :: "u32 \<Rightarrow> 'a iop_core_scheme \<Rightarrow> 'a iop_core_scheme" where
  "iop_addi i s = set_gpr (i_rt i) (get_gpr (i_rs i) s + i_simm i) s"

definition iop_addiu :: "u32 \<Rightarrow> 'a iop_core_scheme \<Rightarrow> 'a iop_core_scheme" where
  "iop_addiu i s = set_gpr (i_rt i) (get_gpr (i_rs i) s + i_simm i) s"

definition iop_slti :: "u32 \<Rightarrow> 'a iop_core_scheme \<Rightarrow> 'a iop_core_scheme" where
  "iop_slti i s = set_gpr (i_rt i) (bool32 (get_gpr (i_rs i) s <s i_simm i)) s"

definition iop_sltiu :: "u32 \<Rightarrow> 'a iop_core_scheme \<Rightarrow> 'a iop_core_scheme" where
  "iop_sltiu i s = set_gpr (i_rt i) (bool32 (get_gpr (i_rs i) s < i_simm i)) s"

definition iop_andi :: "u32 \<Rightarrow> 'a iop_core_scheme \<Rightarrow> 'a iop_core_scheme" where
  "iop_andi i s = set_gpr (i_rt i) (get_gpr (i_rs i) s AND i_imm i) s"

definition iop_ori :: "u32 \<Rightarrow> 'a iop_core_scheme \<Rightarrow> 'a iop_core_scheme" where
  "iop_ori i s = set_gpr (i_rt i) (get_gpr (i_rs i) s OR i_imm i) s"

definition iop_xori :: "u32 \<Rightarrow> 'a iop_core_scheme \<Rightarrow> 'a iop_core_scheme" where
  "iop_xori i s = set_gpr (i_rt i) (get_gpr (i_rs i) s XOR i_imm i) s"

definition iop_lui :: "u32 \<Rightarrow> 'a iop_core_scheme \<Rightarrow> 'a iop_core_scheme" where
  "iop_lui i s = set_gpr (i_rt i) (push_bit 16 (i_imm i)) s"

definition iop_sll :: "u32 \<Rightarrow> 'a iop_core_scheme \<Rightarrow> 'a iop_core_scheme" where
  "iop_sll i s = set_gpr (i_rd i) (push_bit (i_sa i) (get_gpr (i_rt i) s)) s"

definition iop_srl :: "u32 \<Rightarrow> 'a iop_core_scheme \<Rightarrow> 'a iop_core_scheme" where
  "iop_srl i s = set_gpr (i_rd i) (drop_bit (i_sa i) (get_gpr (i_rt i) s)) s"

definition iop_sra :: "u32 \<Rightarrow> 'a iop_core_scheme \<Rightarrow> 'a iop_core_scheme" where
  "iop_sra i s = set_gpr (i_rd i) (signed_drop_bit (i_sa i) (get_gpr (i_rt i) s)) s"

definition iop_sllv :: "u32 \<Rightarrow> 'a iop_core_scheme \<Rightarrow> 'a iop_core_scheme" where
  "iop_sllv i s =
     set_gpr (i_rd i) (push_bit (unat (get_gpr (i_rs i) s AND 0x1F)) (get_gpr (i_rt i) s)) s"

definition iop_srlv :: "u32 \<Rightarrow> 'a iop_core_scheme \<Rightarrow> 'a iop_core_scheme" where
  "iop_srlv i s =
     set_gpr (i_rd i) (drop_bit (unat (get_gpr (i_rs i) s AND 0x1F)) (get_gpr (i_rt i) s)) s"

definition iop_srav :: "u32 \<Rightarrow> 'a iop_core_scheme \<Rightarrow> 'a iop_core_scheme" where
  "iop_srav i s =
     set_gpr (i_rd i) (signed_drop_bit (unat (get_gpr (i_rs i) s AND 0x1F)) (get_gpr (i_rt i) s)) s"

definition iop_add :: "u32 \<Rightarrow> 'a iop_core_scheme \<Rightarrow> 'a iop_core_scheme" where
  "iop_add i s =
     (let op1 = get_gpr (i_rs i) s; op2 = get_gpr (i_rt i) s
      in set_gpr (i_rd i) (op1 + op2) s)"

definition iop_addu :: "u32 \<Rightarrow> 'a iop_core_scheme \<Rightarrow> 'a iop_core_scheme" where
  "iop_addu i s =
     (let op1 = get_gpr (i_rs i) s; op2 = get_gpr (i_rt i) s
      in set_gpr (i_rd i) (op1 + op2) s)"

definition iop_sub :: "u32 \<Rightarrow> 'a iop_core_scheme \<Rightarrow> 'a iop_core_scheme" where
  "iop_sub i s =
     (let op1 = get_gpr (i_rs i) s; op2 = get_gpr (i_rt i) s
      in set_gpr (i_rd i) (op1 - op2) s)"

definition iop_subu :: "u32 \<Rightarrow> 'a iop_core_scheme \<Rightarrow> 'a iop_core_scheme" where
  "iop_subu i s =
     (let op1 = get_gpr (i_rs i) s; op2 = get_gpr (i_rt i) s
      in set_gpr (i_rd i) (op1 - op2) s)"

definition iop_and_cpu :: "u32 \<Rightarrow> 'a iop_core_scheme \<Rightarrow> 'a iop_core_scheme" where
  "iop_and_cpu i s =
     (let op1 = get_gpr (i_rs i) s; op2 = get_gpr (i_rt i) s
      in set_gpr (i_rd i) (op1 AND op2) s)"

definition iop_or_cpu :: "u32 \<Rightarrow> 'a iop_core_scheme \<Rightarrow> 'a iop_core_scheme" where
  "iop_or_cpu i s =
     (let op1 = get_gpr (i_rs i) s; op2 = get_gpr (i_rt i) s
      in set_gpr (i_rd i) (op1 OR op2) s)"

definition iop_xor_cpu :: "u32 \<Rightarrow> 'a iop_core_scheme \<Rightarrow> 'a iop_core_scheme" where
  "iop_xor_cpu i s =
     (let op1 = get_gpr (i_rs i) s; op2 = get_gpr (i_rt i) s
      in set_gpr (i_rd i) (op1 XOR op2) s)"

definition iop_nor :: "u32 \<Rightarrow> 'a iop_core_scheme \<Rightarrow> 'a iop_core_scheme" where
  "iop_nor i s =
     (let op1 = get_gpr (i_rs i) s; op2 = get_gpr (i_rt i) s
      in set_gpr (i_rd i) (NOT (op1 OR op2)) s)"

definition iop_slt :: "u32 \<Rightarrow> 'a iop_core_scheme \<Rightarrow> 'a iop_core_scheme" where
  "iop_slt i s =
     (let op1 = get_gpr (i_rs i) s; op2 = get_gpr (i_rt i) s
      in set_gpr (i_rd i) (bool32 (op1 <s op2)) s)"

definition iop_sltu :: "u32 \<Rightarrow> 'a iop_core_scheme \<Rightarrow> 'a iop_core_scheme" where
  "iop_sltu i s =
     (let op1 = get_gpr (i_rs i) s; op2 = get_gpr (i_rt i) s
      in set_gpr (i_rd i) (bool32 (op1 < op2)) s)"

subsection \<open>Multiplication and division\<close>

definition iop_mfhi :: "u32 \<Rightarrow> 'a iop_core_scheme \<Rightarrow> 'a iop_core_scheme" where
  "iop_mfhi i s = (let (v, s) = get_HI s in set_gpr (i_rd i) v s)"

definition iop_mflo :: "u32 \<Rightarrow> 'a iop_core_scheme \<Rightarrow> 'a iop_core_scheme" where
  "iop_mflo i s = (let (v, s) = get_LO s in set_gpr (i_rd i) v s)"

definition iop_mthi :: "u32 \<Rightarrow> 'a iop_core_scheme \<Rightarrow> 'a iop_core_scheme" where
  "iop_mthi i s = s\<lparr>iop_HI := get_gpr (i_rs i) s\<rparr>"

definition iop_mtlo :: "u32 \<Rightarrow> 'a iop_core_scheme \<Rightarrow> 'a iop_core_scheme" where
  "iop_mtlo i s = s\<lparr>iop_LO := get_gpr (i_rs i) s\<rparr>"

text \<open>The literals \<open>0xFFFFF800\<close> and \<open>0xFF000000\<close> are \<open>unsigned int\<close>; against the
  \<open>int64_t\<close> operand they are positive.\<close>

definition mult_delay :: "int \<Rightarrow> int" where
  "mult_delay op1 =
     (if 0 \<le> op1
      then if op1 < 0x800 then 6 else if op1 < 0x100000 then 9 else 13
      else if 0xFFFFF800 \<le> op1 then 6 else if 0xFF000000 < op1 then 9 else 13)"

definition iop_mult :: "u32 \<Rightarrow> 'a iop_core_scheme \<Rightarrow> 'a iop_core_scheme" where
  "iop_mult i s =
     (let op1 = scast (get_gpr (i_rs i) s) :: 64 word;
          op2 = scast (get_gpr (i_rt i) s) :: 64 word;
          temp = op1 * op2
      in set_muldiv_delay (mult_delay (sint op1))
           (s\<lparr>iop_LO := ucast (temp AND 0xFFFFFFFF),
              iop_HI := ucast (signed_drop_bit 32 temp)\<rparr>))"

definition iop_multu :: "u32 \<Rightarrow> 'a iop_core_scheme \<Rightarrow> 'a iop_core_scheme" where
  "iop_multu i s =
     (let op1 = ucast (get_gpr (i_rs i) s) :: 64 word;
          op2 = ucast (get_gpr (i_rt i) s) :: 64 word;
          s = set_muldiv_delay (if op1 < 0x800 then 6 else if op1 < 0x100000 then 9 else 13) s;
          temp = op1 * op2
      in s\<lparr>iop_LO := ucast (temp AND 0xFFFFFFFF), iop_HI := ucast (drop_bit 32 temp)\<rparr>)"

text \<open>In \<open>op1 > 0x80000000\<close> and \<open>op1 == 0x80000000\<close> the \<open>int32_t\<close> is converted to
  unsigned. \<open>/\<close> and \<open>%\<close> on \<open>int32_t\<close> truncate towards zero.\<close>

definition iop_div :: "u32 \<Rightarrow> 'a iop_core_scheme \<Rightarrow> 'a iop_core_scheme" where
  "iop_div i s =
     (let op1 = get_gpr (i_rs i) s; op2 = get_gpr (i_rt i) s;
          s = (if op2 = 0
               then s\<lparr>iop_HI := op1, iop_LO := (if 0x80000000 < op1 then 1 else 0xFFFFFFFF)\<rparr>
               else if op1 = 0x80000000 \<and> op2 = 0xFFFFFFFF
               then s\<lparr>iop_LO := 0x80000000, iop_HI := 0\<rparr>
               else s\<lparr>iop_LO := word_of_int (sint op1 sdiv sint op2),
                      iop_HI := word_of_int (sint op1 smod sint op2)\<rparr>)
      in set_muldiv_delay 36 s)"

definition iop_divu :: "u32 \<Rightarrow> 'a iop_core_scheme \<Rightarrow> 'a iop_core_scheme" where
  "iop_divu i s =
     (let op1 = get_gpr (i_rs i) s; op2 = get_gpr (i_rt i) s;
          s = (if op2 = 0 then s\<lparr>iop_LO := 0xFFFFFFFF, iop_HI := op1\<rparr>
               else s\<lparr>iop_LO := op1 div op2, iop_HI := op1 mod op2\<rparr>)
      in set_muldiv_delay 36 s)"

subsection \<open>Loads and stores\<close>

definition iop_lb :: "'a iop_core_scheme iop_mem \<Rightarrow> u32 \<Rightarrow> 'a iop_core_scheme \<Rightarrow> 'a iop_core_scheme res" where
  "iop_lb bus i s =
     rbind (iop_read8 bus (i_addr i s) s) (\<lambda>(v, s). Inr (set_gpr (i_rt i) (scast v) s))"

definition iop_lbu :: "'a iop_core_scheme iop_mem \<Rightarrow> u32 \<Rightarrow> 'a iop_core_scheme \<Rightarrow> 'a iop_core_scheme res" where
  "iop_lbu bus i s =
     rbind (iop_read8 bus (i_addr i s) s) (\<lambda>(v, s). Inr (set_gpr (i_rt i) (ucast v) s))"

definition iop_lh :: "'a iop_core_scheme iop_mem \<Rightarrow> u32 \<Rightarrow> 'a iop_core_scheme \<Rightarrow> 'a iop_core_scheme res" where
  "iop_lh bus i s =
     rbind (iop_read16 bus (i_addr i s) s) (\<lambda>(v, s). Inr (set_gpr (i_rt i) (scast v) s))"

definition iop_lhu :: "'a iop_core_scheme iop_mem \<Rightarrow> u32 \<Rightarrow> 'a iop_core_scheme \<Rightarrow> 'a iop_core_scheme res" where
  "iop_lhu bus i s =
     rbind (iop_read16 bus (i_addr i s) s) (\<lambda>(v, s). Inr (set_gpr (i_rt i) (ucast v) s))"

definition iop_lw :: "'a iop_core_scheme iop_mem \<Rightarrow> u32 \<Rightarrow> 'a iop_core_scheme \<Rightarrow> 'a iop_core_scheme res" where
  "iop_lw bus i s =
     rbind (iop_read32 bus (i_addr i s) s) (\<lambda>(v, s). Inr (set_gpr (i_rt i) (v) s))"

definition iop_sb :: "'a iop_core_scheme iop_mem \<Rightarrow> u32 \<Rightarrow> 'a iop_core_scheme \<Rightarrow> 'a iop_core_scheme res" where
  "iop_sb bus i s = iop_write8 bus (i_addr i s) (ucast (get_gpr (i_rt i) s AND 0xFF)) s"

definition iop_sh :: "'a iop_core_scheme iop_mem \<Rightarrow> u32 \<Rightarrow> 'a iop_core_scheme \<Rightarrow> 'a iop_core_scheme res" where
  "iop_sh bus i s = iop_write16 bus (i_addr i s) (ucast (get_gpr (i_rt i) s AND 0xFFFF)) s"

definition iop_sw :: "'a iop_core_scheme iop_mem \<Rightarrow> u32 \<Rightarrow> 'a iop_core_scheme \<Rightarrow> 'a iop_core_scheme res" where
  "iop_sw bus i s = iop_write32 bus (i_addr i s) (get_gpr (i_rt i) s) s"

text \<open>The static tables of the unaligned accesses, indexed by \<open>addr & 3\<close>.\<close>

definition LWL_MASK :: "u32 list" where "LWL_MASK = [0x00FFFFFF, 0x0000FFFF, 0x000000FF, 0]"
definition LWL_SHIFT :: "nat list" where "LWL_SHIFT = [24, 16, 8, 0]"
definition LWR_MASK :: "u32 list" where "LWR_MASK = [0, 0xFF000000, 0xFFFF0000, 0xFFFFFF00]"
definition LWR_SHIFT :: "nat list" where "LWR_SHIFT = [0, 8, 16, 24]"
definition SWL_MASK :: "u32 list" where "SWL_MASK = [0xFFFFFF00, 0xFFFF0000, 0xFF000000, 0]"
definition SWL_SHIFT :: "nat list" where "SWL_SHIFT = [24, 16, 8, 0]"
definition SWR_MASK :: "u32 list" where "SWR_MASK = [0, 0x000000FF, 0x0000FFFF, 0x00FFFFFF]"
definition SWR_SHIFT :: "nat list" where "SWR_SHIFT = [0, 8, 16, 24]"

definition byte_of :: "u32 \<Rightarrow> nat" where
  "byte_of addr = unat (addr AND 3)"

definition iop_lwl :: "'a iop_core_scheme iop_mem \<Rightarrow> u32 \<Rightarrow> 'a iop_core_scheme \<Rightarrow> 'a iop_core_scheme res" where
  "iop_lwl bus i s =
     (let addr = i_addr i s; k = byte_of addr
      in rbind (iop_read32 bus (addr AND NOT 3) s) (\<lambda>(mem, s).
           Inr (set_gpr (i_rt i) ((get_gpr (i_rt i) s AND LWL_MASK ! k) OR push_bit (LWL_SHIFT ! k) mem) s)))"

definition iop_lwr :: "'a iop_core_scheme iop_mem \<Rightarrow> u32 \<Rightarrow> 'a iop_core_scheme \<Rightarrow> 'a iop_core_scheme res" where
  "iop_lwr bus i s =
     (let addr = i_addr i s; k = byte_of addr
      in rbind (iop_read32 bus (addr AND NOT 3) s) (\<lambda>(mem, s).
           Inr (set_gpr (i_rt i) ((get_gpr (i_rt i) s AND LWR_MASK ! k) OR drop_bit (LWR_SHIFT ! k) mem) s)))"

definition iop_swl :: "'a iop_core_scheme iop_mem \<Rightarrow> u32 \<Rightarrow> 'a iop_core_scheme \<Rightarrow> 'a iop_core_scheme res" where
  "iop_swl bus i s =
     (let addr = i_addr i s; k = byte_of addr
      in rbind (iop_read32 bus (addr AND NOT 3) s) (\<lambda>(mem, s).
           iop_write32 bus (addr AND NOT 3) (drop_bit (SWL_SHIFT ! k) (get_gpr (i_rt i) s) OR (mem AND SWL_MASK ! k)) s))"

definition iop_swr :: "'a iop_core_scheme iop_mem \<Rightarrow> u32 \<Rightarrow> 'a iop_core_scheme \<Rightarrow> 'a iop_core_scheme res" where
  "iop_swr bus i s =
     (let addr = i_addr i s; k = byte_of addr
      in rbind (iop_read32 bus (addr AND NOT 3) s) (\<lambda>(mem, s).
           iop_write32 bus (addr AND NOT 3) (push_bit (SWR_SHIFT ! k) (get_gpr (i_rt i) s) OR (mem AND SWR_MASK ! k)) s))"

subsection \<open>The decoders\<close>

definition iop_special :: "u32 \<Rightarrow> 'a iop_core_scheme \<Rightarrow> 'a iop_core_scheme res" where
  "iop_special i s =
     (let op = i AND 0x3F in
      if op = 0x00 then Inr (iop_sll i s)
      else if op = 0x02 then Inr (iop_srl i s)
      else if op = 0x03 then Inr (iop_sra i s)
      else if op = 0x04 then Inr (iop_sllv i s)
      else if op = 0x06 then Inr (iop_srlv i s)
      else if op = 0x07 then Inr (iop_srav i s)
      else if op = 0x08 then Inr (iop_jr i s)
      else if op = 0x09 then Inr (iop_jalr i s)
      else if op = 0x0C then Inr (iop_syscall_exception s)
      else if op = 0x10 then Inr (iop_mfhi i s)
      else if op = 0x11 then Inr (iop_mthi i s)
      else if op = 0x12 then Inr (iop_mflo i s)
      else if op = 0x13 then Inr (iop_mtlo i s)
      else if op = 0x18 then Inr (iop_mult i s)
      else if op = 0x19 then Inr (iop_multu i s)
      else if op = 0x1A then Inr (iop_div i s)
      else if op = 0x1B then Inr (iop_divu i s)
      else if op = 0x20 then Inr (iop_add i s)
      else if op = 0x21 then Inr (iop_addu i s)
      else if op = 0x22 then Inr (iop_sub i s)
      else if op = 0x23 then Inr (iop_subu i s)
      else if op = 0x24 then Inr (iop_and_cpu i s)
      else if op = 0x25 then Inr (iop_or_cpu i s)
      else if op = 0x26 then Inr (iop_xor_cpu i s)
      else if op = 0x27 then Inr (iop_nor i s)
      else if op = 0x2A then Inr (iop_slt i s)
      else if op = 0x2B then Inr (iop_sltu i s)
      else unknown_op)"

definition iop_regimm :: "u32 \<Rightarrow> 'a iop_core_scheme \<Rightarrow> 'a iop_core_scheme res" where
  "iop_regimm i s =
     (let op = fld i 16 5 in
      if op = 0x00 then Inr (iop_bltz i s)
      else if op = 0x01 then Inr (iop_bgez i s)
      else if op = 0x10 then Inr (iop_bltzal i s)
      else if op = 0x11 then Inr (iop_bgezal i s)
      else unknown_op)"

definition iop_cop :: "u32 \<Rightarrow> 'a iop_core_scheme \<Rightarrow> 'a iop_core_scheme res" where
  "iop_cop i s =
     (let cop_id = fld i 26 2; op = fld i 21 5 OR push_bit 8 cop_id in
      if op = 0x000 then iop_mfc cop_id (i_rd i) (i_rt i) s
      else if op = 0x004 then iop_mtc cop_id (i_rd i) (i_rt i) s
      else if op = 0x010 then Inr (rfe s)
      else unknown_op)"

definition iop_interpret :: "'a iop_core_scheme iop_mem \<Rightarrow> u32 \<Rightarrow> 'a iop_core_scheme \<Rightarrow> 'a iop_core_scheme res" where
  "iop_interpret bus i s =
     (if i = 0 then Inr s else
      let op = drop_bit 26 i in
      if op = 0x00 then iop_special i s
      else if op = 0x01 then iop_regimm i s
      else if op = 0x02 then Inr (iop_j i s)
      else if op = 0x03 then Inr (iop_jal i s)
      else if op = 0x04 then Inr (iop_beq i s)
      else if op = 0x05 then Inr (iop_bne i s)
      else if op = 0x06 then Inr (iop_blez i s)
      else if op = 0x07 then Inr (iop_bgtz i s)
      else if op = 0x08 then Inr (iop_addi i s)
      else if op = 0x09 then Inr (iop_addiu i s)
      else if op = 0x0A then Inr (iop_slti i s)
      else if op = 0x0B then Inr (iop_sltiu i s)
      else if op = 0x0C then Inr (iop_andi i s)
      else if op = 0x0D then Inr (iop_ori i s)
      else if op = 0x0E then Inr (iop_xori i s)
      else if op = 0x0F then Inr (iop_lui i s)
      else if op \<in> {0x10, 0x11, 0x12, 0x13} then iop_cop i s
      else if op = 0x20 then iop_lb bus i s
      else if op = 0x21 then iop_lh bus i s
      else if op = 0x22 then iop_lwl bus i s
      else if op = 0x23 then iop_lw bus i s
      else if op = 0x24 then iop_lbu bus i s
      else if op = 0x25 then iop_lhu bus i s
      else if op = 0x26 then iop_lwr bus i s
      else if op = 0x28 then iop_sb bus i s
      else if op = 0x29 then iop_sh bus i s
      else if op = 0x2A then iop_swl bus i s
      else if op = 0x2B then iop_sw bus i s
      else if op = 0x2E then iop_swr bus i s
      else unknown_op)"

subsection \<open>The slice\<close>

text \<open>One iteration of the loop of \<open>IOP::run\<close>: the two counters, the instruction, and then the
  program counter with its delay slot.\<close>

definition iop_tick :: "'a iop_core_scheme \<Rightarrow> 'a iop_core_scheme" where
  "iop_tick s =
     (let s = s\<lparr>iop_cycles_to_run := iop_cycles_to_run s - 1\<rparr>
      in if 0 < iop_muldiv_delay s
         then s\<lparr>iop_muldiv_delay := iop_muldiv_delay s - 1\<rparr> else s)"

definition iop_next_PC :: "'a iop_core_scheme \<Rightarrow> 'a iop_core_scheme res" where
  "iop_next_PC s =
     (let s = s\<lparr>iop_PC := iop_PC s + 4\<rparr>
      in if iop_will_branch s
         then if iop_branch_delay s = 0
              then let s = s\<lparr>iop_will_branch := False, iop_PC := iop_new_PC s\<rparr>
                   in if iop_PC s AND 3 \<noteq> 0 then Inl (Die ''[IOP] Invalid PC address'')
                      else Inr s
              else Inr (s\<lparr>iop_branch_delay := iop_branch_delay s - 1\<rparr>)
         else Inr s)"

definition iop_step ::
    "'a iop_core_scheme iop_mem \<Rightarrow> 'a iop_core_scheme \<Rightarrow> 'a iop_core_scheme res" where
  "iop_step bus s =
     (let s = iop_tick s
      in rbind (iop_read_instr bus (iop_PC s) s) (\<lambda>(instr, s).
         rbind (iop_interpret bus instr s) iop_next_PC))"

text \<open>\<open>while (cycles_to_run > 0)\<close>; \<open>None\<close> is a loop that does not end.\<close>

partial_function (option) iop_loop ::
    "'a iop_core_scheme iop_mem \<Rightarrow> 'a iop_core_scheme \<Rightarrow> 'a iop_core_scheme res option" where
  "iop_loop bus s =
     (if 0 < iop_cycles_to_run s
      then (case iop_step bus s of Inl e \<Rightarrow> Some (Inl e) | Inr s' \<Rightarrow> iop_loop bus s')
      else Some (Inr s))"

definition iop_take_interrupt :: "'a iop_core_scheme \<Rightarrow> 'a iop_core_scheme" where
  "iop_take_interrupt s =
     (if IEc (iop_status s) \<and> Im (iop_status s) AND ic_int_pending (iop_cause s) \<noteq> 0
      then iop_interrupt s else s)"

definition iop_run ::
    "'a iop_core_scheme iop_mem \<Rightarrow> int \<Rightarrow> 'a iop_core_scheme \<Rightarrow> 'a iop_core_scheme res option" where
  "iop_run bus cycles s =
     map_option (\<lambda>r. rbind r (\<lambda>s. Inr (iop_take_interrupt s)))
       (if \<not> iop_wait_for_IRQ s
        then iop_loop bus (s\<lparr>iop_cycles_to_run := iop_cycles_to_run s + cycles\<rparr>)
        else if iop_muldiv_delay s \<noteq> 0
        then Some (Inr (s\<lparr>iop_muldiv_delay := iop_muldiv_delay s - 1\<rparr>))
        else Some (Inr s))"

end
