(* ===== verification/Iop_Cpu.thy ===== *)
theory Iop_Cpu
  imports Iop_Interp
begin

unbundle bit_operations_syntax

section \<open>What the IOP's interpreter guarantees\<close>

text \<open>
  Lemmas about \<open>iop_interpreter.cpp\<close> and \<open>IOP::run\<close>. The contract of the memory bus the CPU
  runs on is the locale \<open>iop_bus\<close>: an access may change devices, but not the CPU's registers.
  The locale \<open>cpu_invariant\<close> is what a predicate on the CPU must satisfy to survive every
  instruction but \<open>syscall\<close>; it is used for the cycle budget, for the program counter and for a
  pending branch.
\<close>

subsection \<open>The contracts\<close>

definition is_syscall :: "u32 \<Rightarrow> bool" where
  "is_syscall i \<longleftrightarrow> drop_bit 26 i = 0 \<and> i AND 0x3F = 0x0C"

definition cpu_frame :: "'a iop_core_scheme \<Rightarrow> 'a iop_core_scheme \<Rightarrow> bool" where
  "cpu_frame s s' \<longleftrightarrow>
     iop_gpr s' = iop_gpr s \<and> iop_PC s' = iop_PC s \<and> iop_new_PC s' = iop_new_PC s \<and>
     iop_will_branch s' = iop_will_branch s \<and> iop_branch_delay s' = iop_branch_delay s \<and>
     iop_LO s' = iop_LO s \<and> iop_HI s' = iop_HI s \<and> iop_status s' = iop_status s \<and>
     iop_muldiv_delay s' = iop_muldiv_delay s \<and> iop_cycles_to_run s' = iop_cycles_to_run s \<and>
     iop_wait_for_IRQ s' = iop_wait_for_IRQ s"

locale iop_bus =
  fixes bus :: "'a iop_core_scheme iop_mem"
  assumes frame_read8: "mem_read8 bus a s = Inr (v8, s') \<Longrightarrow> cpu_frame s s'"
    and frame_read16: "mem_read16 bus a s = Inr (v16, s') \<Longrightarrow> cpu_frame s s'"
    and frame_read32: "mem_read32 bus a s = Inr (v32, s') \<Longrightarrow> cpu_frame s s'"
    and frame_write8: "mem_write8 bus a v8 s = Inr s' \<Longrightarrow> cpu_frame s s'"
    and frame_write16: "mem_write16 bus a v16 s = Inr s' \<Longrightarrow> cpu_frame s s'"
    and frame_write32: "mem_write32 bus a v32 s = Inr s' \<Longrightarrow> cpu_frame s s'"

locale cpu_invariant =
  fixes Q :: "'a iop_core_scheme \<Rightarrow> bool"
  assumes Q_set_gpr: "Q s \<Longrightarrow> Q (set_gpr r v s)"
    and Q_jp: "Q s \<Longrightarrow> Q (jp a s)"
    and Q_LO: "Q s \<Longrightarrow> Q (s\<lparr>iop_LO := v\<rparr>)" and Q_HI: "Q s \<Longrightarrow> Q (s\<lparr>iop_HI := v\<rparr>)"
    and Q_halt: "Q s \<Longrightarrow> Q (iop_halt s)"
    and Q_status: "Q s \<Longrightarrow> Q (s\<lparr>iop_status := st\<rparr>)"
    and Q_wait_muldiv: "Q s \<Longrightarrow> Q (wait_muldiv s)"
    and Q_set_muldiv: "Q s \<Longrightarrow> 0 \<le> d \<Longrightarrow> Q (set_muldiv_delay d s)"
    and Q_cache_control: "Q s \<Longrightarrow> Q (s\<lparr>iop_cache_control := v\<rparr>)"
    and Q_icache: "Q s \<Longrightarrow> Q (s\<lparr>iop_icache_valid := ic\<rparr>)"
    and Q_frame: "cpu_frame s s' \<Longrightarrow> Q s \<Longrightarrow> Q s'"
begin

lemmas Q_rules = Q_set_gpr Q_jp Q_LO Q_HI Q_status Q_wait_muldiv Q_set_muldiv Q_cache_control Q_icache Q_halt

lemma Q_branch: "Q s \<Longrightarrow> Q (iop_branch b off s)"
  by (simp add: iop_branch_def Q_jp)

lemma Q_rfe: "Q s \<Longrightarrow> Q (rfe s)"
  by (simp add: rfe_def Let_def Q_status)

lemma Q_jumps:
  assumes "Q s"
  shows "Q (iop_j i s)" "Q (iop_jal i s)" "Q (iop_beq i s)" "Q (iop_bne i s)"
    "Q (iop_blez i s)" "Q (iop_bgtz i s)" "Q (iop_bltz i s)" "Q (iop_bgez i s)"
    "Q (iop_bltzal i s)" "Q (iop_bgezal i s)" "Q (iop_jr i s)" "Q (iop_jalr i s)"
  using assms
  by (simp_all add: iop_j_def iop_jal_def iop_beq_def iop_bne_def iop_blez_def iop_bgtz_def
      iop_bltz_def iop_bgez_def iop_bltzal_def iop_bgezal_def iop_jr_def iop_jalr_def Let_def
      Q_rules Q_branch)

lemma Q_immediate:
  assumes "Q s"
  shows "Q (iop_addi i s)" "Q (iop_addiu i s)" "Q (iop_slti i s)"
    "Q (iop_sltiu i s)" "Q (iop_andi i s)" "Q (iop_ori i s)" "Q (iop_xori i s)"
    "Q (iop_lui i s)" "Q (iop_sll i s)" "Q (iop_srl i s)" "Q (iop_sra i s)"
  using assms
  by (simp_all add: iop_addi_def iop_addiu_def iop_slti_def iop_sltiu_def iop_andi_def iop_ori_def
      iop_xori_def iop_lui_def iop_sll_def iop_srl_def iop_sra_def Q_set_gpr)

lemma Q_register:
  assumes "Q s"
  shows "Q (iop_sllv i s)" "Q (iop_srlv i s)" "Q (iop_srav i s)" "Q (iop_add i s)"
    "Q (iop_addu i s)" "Q (iop_sub i s)" "Q (iop_subu i s)" "Q (iop_and_cpu i s)"
    "Q (iop_or_cpu i s)" "Q (iop_xor_cpu i s)" "Q (iop_nor i s)" "Q (iop_slt i s)"
    "Q (iop_sltu i s)"
  using assms
  by (simp_all add: iop_sllv_def iop_srlv_def iop_srav_def iop_add_def iop_addu_def iop_sub_def
      iop_subu_def iop_and_cpu_def iop_or_cpu_def iop_xor_cpu_def iop_nor_def iop_slt_def
      iop_sltu_def Let_def Q_set_gpr)

lemma Q_muldiv:
  assumes "Q s"
  shows "Q (iop_mfhi i s)" "Q (iop_mflo i s)" "Q (iop_mthi i s)" "Q (iop_mtlo i s)"
    "Q (iop_mult i s)" "Q (iop_multu i s)" "Q (iop_div i s)" "Q (iop_divu i s)"
  using assms
  by (simp_all add: iop_mfhi_def iop_mflo_def iop_mthi_def iop_mtlo_def iop_mult_def iop_multu_def
      iop_div_def iop_divu_def get_HI_def get_LO_def Let_def mult_delay_def Q_rules)

lemma Q_special:
  "Q s \<Longrightarrow> Q (iop_syscall_exception s) \<or> i AND 0x3F \<noteq> 0x0C \<Longrightarrow> ok_post (iop_special i s) Q"
  unfolding iop_special_def Let_def unknown_op_def
  by (intro ok_post_if ok_Inr ok_Inl Q_jumps Q_immediate Q_register Q_muldiv) blast+

lemma Q_regimm: "Q s \<Longrightarrow> ok_post (iop_regimm i s) Q"
  unfolding iop_regimm_def Let_def unknown_op_def
  by (intro ok_post_if ok_Inr ok_Inl Q_jumps)

lemma Q_cop: "Q s \<Longrightarrow> ok_post (iop_cop i s) Q"
  by (simp add: iop_cop_def Let_def iop_mfc_def iop_mtc_def iop_cop0_mtc_def unknown_op_def
      Q_rules Q_rfe)

end

locale cpu_on_bus = cpu_invariant Q + iop_bus bus
  for Q :: "'a iop_core_scheme \<Rightarrow> bool" and bus :: "'a iop_core_scheme iop_mem"
begin

lemma Q_bus_read:
  assumes "Q s"
  shows "ok_post (mem_read8 bus a s) (\<lambda>x. Q (snd x))"
    and "ok_post (mem_read16 bus a s) (\<lambda>x. Q (snd x))"
    and "ok_post (mem_read32 bus a s) (\<lambda>x. Q (snd x))"
  using assms
  by (auto intro!: ok_postI intro: Q_frame [OF frame_read8] Q_frame [OF frame_read16]
      Q_frame [OF frame_read32])

lemma Q_bus_write:
  assumes "Q s"
  shows "ok_post (mem_write8 bus a v8 s) Q" and "ok_post (mem_write16 bus a v16 s) Q"
    and "ok_post (mem_write32 bus a v32 s) Q"
  using assms
  by (auto intro!: ok_postI intro: Q_frame [OF frame_write8] Q_frame [OF frame_write16]
      Q_frame [OF frame_write32])

lemma Q_read:
  assumes "Q s"
  shows "ok_post (iop_read8 bus a s) (\<lambda>x. Q (snd x))"
    and "ok_post (iop_read16 bus a s) (\<lambda>x. Q (snd x))"
    and "ok_post (iop_read32 bus a s) (\<lambda>x. Q (snd x))"
  using Q_bus_read [OF assms] assms
  by (simp_all add: iop_read8_def iop_read16_def iop_read32_def)

lemma Q_write:
  assumes "Q s"
  shows "ok_post (iop_write8 bus a v8 s) Q" and "ok_post (iop_write16 bus a v16 s) Q"
    and "ok_post (iop_write32 bus a v32 s) Q"
  using Q_bus_write [OF assms] Q_bus_write(3) [OF Q_cache_control [OF assms, of v32]] assms
  by (simp_all add: iop_write8_def iop_write16_def iop_write32_def Q_icache)

lemma Q_loads:
  assumes "Q s"
  shows "ok_post (iop_lb bus i s) Q" "ok_post (iop_lbu bus i s) Q"
    "ok_post (iop_lh bus i s) Q" "ok_post (iop_lhu bus i s) Q"
    "ok_post (iop_lw bus i s) Q" "ok_post (iop_lwl bus i s) Q"
    "ok_post (iop_lwr bus i s) Q"
  unfolding iop_lb_def iop_lbu_def iop_lh_def iop_lhu_def iop_lw_def iop_lwl_def iop_lwr_def Let_def
  by (rule ok_seq [OF Q_read(1) [OF assms]] ok_seq [OF Q_read(2) [OF assms]]
      ok_seq [OF Q_read(3) [OF assms]]; auto simp: Q_set_gpr)+

lemma Q_stores:
  assumes "Q s"
  shows "ok_post (iop_sb bus i s) Q" "ok_post (iop_sh bus i s) Q"
    "ok_post (iop_sw bus i s) Q" "ok_post (iop_swl bus i s) Q"
    "ok_post (iop_swr bus i s) Q"
proof -
  show "ok_post (iop_sb bus i s) Q" "ok_post (iop_sh bus i s) Q"
    "ok_post (iop_sw bus i s) Q"
    unfolding iop_sb_def iop_sh_def iop_sw_def by (rule Q_write [OF assms])+
  show "ok_post (iop_swl bus i s) Q" "ok_post (iop_swr bus i s) Q"
    unfolding iop_swl_def iop_swr_def Let_def
    by (rule ok_seq [OF Q_read(3) [OF assms]]; auto intro!: Q_write)+
qed

lemma Q_interpret:
  assumes "Q s" and "Q (iop_syscall_exception s) \<or> \<not> is_syscall i"
  shows "ok_post (iop_interpret bus i s) Q"
proof -
  have special: "ok_post (iop_special i s) Q" if "i \<noteq> 0" "drop_bit 26 i = 0"
    using assms that by (intro Q_special) (auto simp: is_syscall_def)
  show ?thesis
    unfolding iop_interpret_def Let_def unknown_op_def
    by (intro ok_post_if ok_Inr ok_Inl special Q_regimm Q_cop Q_jumps Q_immediate Q_loads Q_stores
        assms)
qed

end

subsection \<open>The cycle budget\<close>

definition calm :: "int \<Rightarrow> 'a iop_core_scheme \<Rightarrow> bool" where
  "calm c s \<longleftrightarrow> iop_gpr s 0 = 0 \<and> 0 \<le> iop_muldiv_delay s \<and> iop_cycles_to_run s \<le> c"

interpretation calm: cpu_invariant "calm c" for c
  by unfold_locales
    (auto simp: calm_def set_gpr_def jp_def wait_muldiv_def set_muldiv_delay_def Let_def iop_halt_def
      cpu_frame_def)

lemma calm_syscall: "calm c s \<Longrightarrow> calm c (iop_syscall_exception s)"
  by (simp add: iop_syscall_exception_def iop_handle_exception_def Let_def calm_def)

lemma calm_tick: "calm c s \<Longrightarrow> calm (c - 1) (iop_tick s)"
  by (simp add: iop_tick_def calm_def Let_def)

lemma calm_next_PC: "calm c s \<Longrightarrow> ok_post (iop_next_PC s) (calm c)"
  by (simp add: iop_next_PC_def Let_def calm_def)

context iop_bus begin

lemma calm_on_bus: "cpu_on_bus (calm c) bus"
  by (intro cpu_on_bus.intro calm.cpu_invariant_axioms iop_bus_axioms)

lemma calm_read_instr:
  "calm c s \<Longrightarrow> ok_post (iop_read_instr bus a s) (\<lambda>x. calm c (snd x))"
  unfolding iop_read_instr_def Let_def
  by (intro cpu_on_bus.Q_bus_read(3) [OF calm_on_bus]) (simp add: calm_def)

lemma calm_step:
  assumes "calm c s"
  shows "ok_post (iop_step bus s) (calm (c - 1))"
  unfolding iop_step_def Let_def
  by (rule ok_seq [OF calm_read_instr [OF calm_tick [OF assms]]])
    (auto intro!: ok_seq [OF cpu_on_bus.Q_interpret [OF calm_on_bus]] calm_next_PC
      intro: calm_syscall)

lemma iop_loop_total:
  assumes "calm c s"
  shows "\<exists>r. iop_loop bus s = Some r \<and> ok_post r (\<lambda>s'. calm 0 s')"
  using assms
proof (induction "nat c" arbitrary: c s rule: less_induct)
  case less
  show ?case
  proof (cases "0 < iop_cycles_to_run s")
    case False
    then show ?thesis using less.prems by (subst iop_loop.simps) (simp add: calm_def)
  next
    case True
    then have "0 < c" using less.prems by (simp add: calm_def)
    show ?thesis
    proof (cases "iop_step bus s")
      case (Inl e)
      then show ?thesis using True by (subst iop_loop.simps) simp
    next
      case (Inr s')
      have "calm (c - 1) s'" using calm_step [OF less.prems] Inr by simp
      with less.hyps [of "c - 1" s'] \<open>0 < c\<close> show ?thesis
        using True Inr by (subst iop_loop.simps) simp
    qed
  qed
qed

end

subsection \<open>Delay slots\<close>

definition fresh :: "u32 \<Rightarrow> 'a iop_core_scheme \<Rightarrow> bool" where
  "fresh p s \<longleftrightarrow> iop_PC s = p \<and> (iop_will_branch s \<longrightarrow> iop_branch_delay s = 1)"

definition in_slot :: "u32 \<Rightarrow> u32 \<Rightarrow> 'a iop_core_scheme \<Rightarrow> bool" where
  "in_slot p t s \<longleftrightarrow>
     iop_PC s = p \<and> iop_will_branch s \<and> iop_branch_delay s = 0 \<and> iop_new_PC s = t"

lemmas cpu_ops = set_gpr_def jp_def wait_muldiv_def set_muldiv_delay_def Let_def iop_halt_def
  cpu_frame_def

interpretation fresh: cpu_invariant "fresh p" for p
  by unfold_locales (auto simp: fresh_def cpu_ops)

interpretation in_slot: cpu_invariant "in_slot p t" for p t
  by unfold_locales (auto simp: in_slot_def cpu_ops)

lemma interpret_syscall:
  assumes "is_syscall i"
  shows "iop_interpret bus i s = Inr (iop_syscall_exception s)"
proof -
  have "i \<noteq> 0" using assms by (auto simp: is_syscall_def)
  then show ?thesis
    using assms by (simp add: is_syscall_def iop_interpret_def iop_special_def Let_def)
qed

lemma tick_keeps:
  "fresh p (iop_tick s) = fresh p s" "in_slot p t (iop_tick s) = in_slot p t s"
  "iop_PC (iop_tick s) = iop_PC s"
  by (simp_all add: iop_tick_def Let_def fresh_def in_slot_def)

lemma step_cases:
  assumes "iop_step bus s = Inr s'"
  obtains i u v where "iop_read_instr bus (iop_PC s) (iop_tick s) = Inr (i, u)"
    and "iop_interpret bus i u = Inr v" and "iop_next_PC v = Inr s'"
  using assms by (auto simp: iop_step_def Let_def rbind_eq_Inr tick_keeps(3))

context iop_bus begin

lemma fresh_on_bus: "cpu_on_bus (fresh p) bus"
  by (intro cpu_on_bus.intro fresh.cpu_invariant_axioms iop_bus_axioms)

lemma in_slot_on_bus: "cpu_on_bus (in_slot p t) bus"
  by (intro cpu_on_bus.intro in_slot.cpu_invariant_axioms iop_bus_axioms)

lemma fetch_keeps:
  assumes "iop_read_instr bus a s = Inr (i, u)"
  shows "fresh p s \<Longrightarrow> fresh p u" and "in_slot p t s \<Longrightarrow> in_slot p t u"
proof -
  let ?s = "if 0xA0000000 \<le> a \<or> \<not> tst (iop_cache_control s) 11
     then s\<lparr>iop_cycles_to_run := iop_cycles_to_run s - 4,
            iop_muldiv_delay := max (iop_muldiv_delay s - 4) 0\<rparr> else s"
  have frame: "cpu_frame ?s u"
    using assms frame_read32 by (auto simp: iop_read_instr_def Let_def)
  show "fresh p s \<Longrightarrow> fresh p u" using frame by (auto simp: fresh_def cpu_frame_def split: if_splits)
  show "in_slot p t s \<Longrightarrow> in_slot p t u"
    using frame by (auto simp: in_slot_def cpu_frame_def split: if_splits)
qed

lemma branch_step:
  assumes "iop_step bus s = Inr s'" and "\<not> iop_will_branch s" and "iop_will_branch s'"
  shows "in_slot (iop_PC s + 4) (iop_new_PC s') s'"
proof -
  obtain i u v where step: "iop_read_instr bus (iop_PC s) (iop_tick s) = Inr (i, u)"
    "iop_interpret bus i u = Inr v" "iop_next_PC v = Inr s'"
    by (rule step_cases [OF assms(1)])
  have "fresh (iop_PC s) u"
    using fetch_keeps(1) [OF step(1)] assms(2) by (simp add: fresh_def iop_tick_def Let_def)
  moreover have "\<not> is_syscall i"
  proof
    assume "is_syscall i"
    then have "v = iop_syscall_exception u" using step(2) by (simp add: interpret_syscall)
    with step(3) assms(3) show False
      by (auto simp: iop_next_PC_def iop_syscall_exception_def iop_handle_exception_def Let_def)
  qed
  ultimately have "fresh (iop_PC s) v"
    using ok_postD [OF cpu_on_bus.Q_interpret [OF fresh_on_bus] step(2)] by blast
  then show ?thesis
    using step(3) assms(3) by (auto simp: iop_next_PC_def Let_def fresh_def in_slot_def split: if_splits)
qed

lemma slot_step:
  assumes "iop_step bus s = Inr s'" and "in_slot p t s"
    and "iop_read_instr bus (iop_PC s) (iop_tick s) = Inr (i, u)" and "\<not> is_syscall i"
  shows "iop_PC s' = t \<and> \<not> iop_will_branch s'"
proof -
  obtain v where v: "iop_interpret bus i u = Inr v" "iop_next_PC v = Inr s'"
    using step_cases [OF assms(1)] assms(3) by (metis Inr_inject Pair_inject)
  have "in_slot p t u" using fetch_keeps(2) [OF assms(3)] assms(2) by (simp add: tick_keeps)
  then have "in_slot p t v"
    using ok_postD [OF cpu_on_bus.Q_interpret [OF in_slot_on_bus] v(1)] assms(4) by blast
  then show ?thesis
    using v(2) by (auto simp: iop_next_PC_def Let_def in_slot_def split: if_splits)
qed

end

end
