(* ===== verification/Iop_Bus.thy ===== *)
theory Iop_Bus
  imports Firewire Iop_Cpu
begin

unbundle bit_operations_syntax

section \<open>The memory map of the IOP\<close>

text \<open>
  \<open>Emulator::iop_read8\<close> to \<open>iop_write32\<close> of \<open>src/core/emulator.cpp\<close>: RAM, BIOS, the scratchpad
  and the registers of every device on the IOP's bus. The register switches are tables from an
  address to the register, followed by one function that accesses it. The CD drive and the two
  sound units are not modelled: they are the argument \<open>ports\<close>, functions on a state of their own
  which report what they do to the rest of the machine as a list of effects.
\<close>

subsection \<open>State\<close>

record 'd iop_sys = firewire +
  emu_BIOS :: "u32 \<Rightarrow> u8"
  iop_scratchpad :: "u32 \<Rightarrow> u8"
  iop_scratchpad_start :: u32
  IOP_POST :: u8
  io_state :: 'd

datatype io_effect =
  Io_irq nat
| Io_set_request nat
| Io_clear_request nat
| Io_event int u64

datatype cdvd_read_port =
  Read_N_command | Read_N_status | Read_ISTAT | Read_drive_status | Read_disc_type
| Read_S_command | Read_S_status | Read_S_data | Read_cdkey nat

datatype cdvd_write_port =
  Send_N_command | Write_N_data | Write_BREAK | Write_ISTAT | Send_S_command | Write_S_data
| Write_mecha_decode

record 'd io_ports =
  cdvd_read :: "cdvd_read_port \<Rightarrow> 'd \<Rightarrow> (u8 \<times> 'd \<times> io_effect list) res"
  cdvd_write :: "cdvd_write_port \<Rightarrow> u8 \<Rightarrow> 'd \<Rightarrow> ('d \<times> io_effect list) res"
  spu_read16 :: "nat \<Rightarrow> u32 \<Rightarrow> 'd \<Rightarrow> (u16 \<times> 'd \<times> io_effect list) res"
  spu_write16 :: "nat \<Rightarrow> u32 \<Rightarrow> u16 \<Rightarrow> 'd \<Rightarrow> ('d \<times> io_effect list) res"
  spu_start_DMA :: "nat \<Rightarrow> u32 \<Rightarrow> 'd \<Rightarrow> ('d \<times> io_effect list) res"
  spu_pause_DMA :: "nat \<Rightarrow> 'd \<Rightarrow> ('d \<times> io_effect list) res"

definition io_effect :: "io_effect \<Rightarrow> ('d, 'a) iop_sys_scheme \<Rightarrow> ('d, 'a) iop_sys_scheme res" where
  "io_effect e s =
     (case e of
        Io_irq i \<Rightarrow> Inr (assert_irq i s)
      | Io_set_request i \<Rightarrow> Inr (id_set_request i s)
      | Io_clear_request i \<Rightarrow> Inr (id_clear_request i s)
      | Io_event f d \<Rightarrow> rbind (add_event f d 0 s) (\<lambda>(_, s). Inr s))"

fun io_effects :: "io_effect list \<Rightarrow> ('d, 'a) iop_sys_scheme \<Rightarrow> ('d, 'a) iop_sys_scheme res" where
  "io_effects [] s = Inr s"
| "io_effects (e # es) s = rbind (io_effect e s) (io_effects es)"

definition io_get ::
    "('d \<Rightarrow> ('v \<times> 'd \<times> io_effect list) res) \<Rightarrow> ('d, 'a) iop_sys_scheme \<Rightarrow>
     ('v \<times> ('d, 'a) iop_sys_scheme) res" where
  "io_get f s =
     rbind (f (io_state s)) (\<lambda>(v, d, es).
     rbind (io_effects es (s\<lparr>io_state := d\<rparr>)) (\<lambda>s. Inr (v, s)))"

definition io_put ::
    "('d \<Rightarrow> ('d \<times> io_effect list) res) \<Rightarrow> ('d, 'a) iop_sys_scheme \<Rightarrow> ('d, 'a) iop_sys_scheme res" where
  "io_put f s = rbind (f (io_state s)) (\<lambda>(d, es). io_effects es (s\<lparr>io_state := d\<rparr>))"

text \<open>The sound units as the DMA controller's registers see them.\<close>

definition dma_ports :: "'d io_ports \<Rightarrow> ('d, 'a) iop_sys_scheme iop_dev" where
  "dma_ports ports = undefined
     \<lparr>dev_spu_start_DMA := (\<lambda>k n. io_put (spu_start_DMA ports k n)),
      dev_spu_pause_DMA := (\<lambda>k. io_put (spu_pause_DMA ports k))\<rparr>"

subsection \<open>Byte arrays\<close>

definition arr_get8 :: "nat \<Rightarrow> (u32 \<Rightarrow> u8) \<Rightarrow> u32 \<Rightarrow> u8 res" where
  "arr_get8 n m a = (if unat a < n then Inr (m a) else Inl (Undefined ''behind the array''))"

definition arr_get16 :: "nat \<Rightarrow> (u32 \<Rightarrow> u8) \<Rightarrow> u32 \<Rightarrow> u16 res" where
  "arr_get16 n m a =
     (if unat a + 2 \<le> n then Inr (ucast (m a) OR push_bit 8 (ucast (m (a + 1))))
      else Inl (Undefined ''behind the array''))"

definition arr_get32 :: "nat \<Rightarrow> (u32 \<Rightarrow> u8) \<Rightarrow> u32 \<Rightarrow> u32 res" where
  "arr_get32 n m a =
     (if unat a + 4 \<le> n
      then Inr (ucast (m a) OR push_bit 8 (ucast (m (a + 1)))
                OR push_bit 16 (ucast (m (a + 2))) OR push_bit 24 (ucast (m (a + 3))))
      else Inl (Undefined ''behind the array''))"

definition arr_put8 :: "nat \<Rightarrow> u32 \<Rightarrow> u8 \<Rightarrow> (u32 \<Rightarrow> u8) \<Rightarrow> (u32 \<Rightarrow> u8) res" where
  "arr_put8 n a v m = (if unat a < n then Inr (m(a := v)) else Inl (Undefined ''behind the array''))"

definition arr_put16 :: "nat \<Rightarrow> u32 \<Rightarrow> u16 \<Rightarrow> (u32 \<Rightarrow> u8) \<Rightarrow> (u32 \<Rightarrow> u8) res" where
  "arr_put16 n a v m =
     (if unat a + 2 \<le> n then Inr (m(a := ucast v, a + 1 := ucast (drop_bit 8 v)))
      else Inl (Undefined ''behind the array''))"

definition arr_put32 :: "nat \<Rightarrow> u32 \<Rightarrow> u32 \<Rightarrow> (u32 \<Rightarrow> u8) \<Rightarrow> (u32 \<Rightarrow> u8) res" where
  "arr_put32 n a v m =
     (if unat a + 4 \<le> n
      then Inr (m(a := ucast v, a + 1 := ucast (drop_bit 8 v), a + 2 := ucast (drop_bit 16 v),
                  a + 3 := ucast (drop_bit 24 v)))
      else Inl (Undefined ''behind the array''))"

definition BIOS_SIZE :: nat where "BIOS_SIZE = 0x400000"

definition SCRATCHPAD_SIZE :: nat where "SCRATCHPAD_SIZE = 0x400"

definition in_scratchpad :: "u32 \<Rightarrow> ('d, 'a) iop_sys_scheme \<Rightarrow> bool" where
  "in_scratchpad a s \<longleftrightarrow> iop_scratchpad_start s \<le> a \<and> a < iop_scratchpad_start s + 0x400"

definition in_BIOS :: "u32 \<Rightarrow> bool" where
  "in_BIOS a \<longleftrightarrow> 0x1FC00000 \<le> a \<and> a < 0x20000000"

definition with_state :: "'v res \<Rightarrow> 's \<Rightarrow> ('v \<times> 's) res" where
  "with_state r s = rbind r (\<lambda>v. Inr (v, s))"

definition put_scratchpad ::
    "((u32 \<Rightarrow> u8) \<Rightarrow> (u32 \<Rightarrow> u8) res) \<Rightarrow> ('d, 'a) iop_sys_scheme \<Rightarrow> ('d, 'a) iop_sys_scheme res" where
  "put_scratchpad f s = rbind (f (iop_scratchpad s)) (\<lambda>m. Inr (s\<lparr>iop_scratchpad := m\<rparr>))"

definition put_RAM ::
    "((u32 \<Rightarrow> u8) \<Rightarrow> (u32 \<Rightarrow> u8) res) \<Rightarrow> 'a iop_dma_scheme \<Rightarrow> 'a iop_dma_scheme res" where
  "put_RAM f s = rbind (f (iop_RAM s)) (\<lambda>m. Inr (s\<lparr>iop_RAM := m\<rparr>))"

subsection \<open>Bytes\<close>

definition cdvd_read_ports :: "(u32 \<times> cdvd_read_port) list" where
  "cdvd_read_ports =
     [(0x1F402004, Read_N_command), (0x1F402005, Read_N_status), (0x1F402008, Read_ISTAT),
      (0x1F40200A, Read_drive_status), (0x1F40200F, Read_disc_type), (0x1F402016, Read_S_command),
      (0x1F402017, Read_S_status), (0x1F402018, Read_S_data),
      (0x1F402020, Read_cdkey 0), (0x1F402021, Read_cdkey 1), (0x1F402022, Read_cdkey 2),
      (0x1F402023, Read_cdkey 3), (0x1F402024, Read_cdkey 4),
      (0x1F402028, Read_cdkey 5), (0x1F402029, Read_cdkey 6), (0x1F40202A, Read_cdkey 7),
      (0x1F40202B, Read_cdkey 8), (0x1F40202C, Read_cdkey 9),
      (0x1F402030, Read_cdkey 10), (0x1F402031, Read_cdkey 11), (0x1F402032, Read_cdkey 12),
      (0x1F402033, Read_cdkey 13), (0x1F402034, Read_cdkey 14), (0x1F402038, Read_cdkey 15)]"

definition emu_iop_read8 ::
    "'d io_ports \<Rightarrow> u32 \<Rightarrow> ('d, 'a) iop_sys_scheme \<Rightarrow> (u8 \<times> ('d, 'a) iop_sys_scheme) res" where
  "emu_iop_read8 ports a s =
     (if a < 0x00200000 then with_state (arr_get8 IOP_RAM_SIZE (iop_RAM s) a) s
      else if in_BIOS a then with_state (arr_get8 BIOS_SIZE (emu_BIOS s) (a AND 0x3FFFFF)) s
      else case map_of cdvd_read_ports a of
        Some p \<Rightarrow> io_get (cdvd_read ports p) s
      | None \<Rightarrow>
          if a = 0x1F402013 then Inr (4, s)
          else if a = 0x1F808264 then read_serial s
          else if a = 0x1FA00000 then Inr (IOP_POST s, s)
          else if in_scratchpad a s
          then with_state (arr_get8 SCRATCHPAD_SIZE (iop_scratchpad s) (a AND 0x3FF)) s
          else Inr (0, s))"

definition cdvd_write_ports :: "(u32 \<times> cdvd_write_port) list" where
  "cdvd_write_ports =
     [(0x1F402004, Send_N_command), (0x1F402005, Write_N_data), (0x1F402007, Write_BREAK),
      (0x1F402008, Write_ISTAT), (0x1F402016, Send_S_command), (0x1F402017, Write_S_data),
      (0x1F40203A, Write_mecha_decode)]"

definition emu_iop_write8 ::
    "'d io_ports \<Rightarrow> (u8 list \<Rightarrow> u8) \<Rightarrow> u32 \<Rightarrow> u8 \<Rightarrow>
     ('d, 'a) iop_sys_scheme \<Rightarrow> ('d, 'a) iop_sys_scheme res" where
  "emu_iop_write8 ports past a v s =
     (if a < 0x00200000 then put_RAM (arr_put8 IOP_RAM_SIZE a v) s
      else case map_of cdvd_write_ports a of
        Some p \<Rightarrow> io_put (cdvd_write ports p v) s
      | None \<Rightarrow>
          if a \<in> {0x1F402006, 0x1F802070} then Inr s
          else if a = 0x1F808260 then write_serial past v s
          else if a = 0x1FA00000 then Inr (s\<lparr>IOP_POST := v\<rparr>)
          else if in_scratchpad a s
          then put_scratchpad (arr_put8 SCRATCHPAD_SIZE (a AND 0x3FF) v) s
          else Inr s)"

subsection \<open>Halfwords\<close>

datatype timer_port =
  T_counter nat | T_counter_lo nat | T_counter_hi nat | T_control nat
| T_target nat | T_target_lo nat | T_target_hi nat

definition timer_ports_read16 :: "(u32 \<times> timer_port) list" where
  "timer_ports_read16 =
     [(0x1F801100, T_counter_lo 0), (0x1F801402, T_counter_hi 0), (0x1F801104, T_control 0),
      (0x1F801108, T_target_lo 0), (0x1F80140A, T_target_hi 0),
      (0x1F801110, T_counter_lo 1), (0x1F801412, T_counter_hi 1), (0x1F801114, T_control 1),
      (0x1F801118, T_target_lo 1), (0x1F80141A, T_target_hi 1),
      (0x1F801120, T_counter_lo 2), (0x1F801422, T_counter_hi 2), (0x1F801124, T_control 2),
      (0x1F801128, T_target_lo 2), (0x1F80142A, T_target_hi 2),
      (0x1F801480, T_counter_lo 3), (0x1F801482, T_counter_hi 3), (0x1F801484, T_control 3),
      (0x1F801488, T_target_lo 3), (0x1F80148A, T_target_hi 3),
      (0x1F801490, T_counter_lo 4), (0x1F801492, T_counter_hi 4), (0x1F801494, T_control 4),
      (0x1F801498, T_target_lo 4), (0x1F80149A, T_target_hi 4),
      (0x1F8014A0, T_counter_lo 5), (0x1F8014A2, T_counter_hi 5), (0x1F8014A4, T_control 5),
      (0x1F8014A8, T_target_lo 5), (0x1F8014AA, T_target_hi 5)]"

definition lo_half :: "u32 \<Rightarrow> u16" where "lo_half v = ucast (v AND 0xFFFF)"

definition hi_half :: "u32 \<Rightarrow> u16" where "hi_half v = ucast (drop_bit 16 v)"

fun timer_read ::
    "timer_port \<Rightarrow> 'a iop_timers_scheme \<Rightarrow> (u32 \<times> 'a iop_timers_scheme) res" where
  "timer_read (T_counter i) s = it_read_counter i s"
| "timer_read (T_counter_lo i) s = rbind (it_read_counter i s) (\<lambda>(v, s). Inr (ucast (lo_half v), s))"
| "timer_read (T_counter_hi i) s = rbind (it_read_counter i s) (\<lambda>(v, s). Inr (ucast (hi_half v), s))"
| "timer_read (T_control i) s = rbind (it_read_control i s) (\<lambda>(v, s). Inr (ucast v, s))"
| "timer_read (T_target i) s = with_state (it_read_target i s) s"
| "timer_read (T_target_lo i) s = rbind (it_read_target i s) (\<lambda>v. Inr (ucast (lo_half v), s))"
| "timer_read (T_target_hi i) s = rbind (it_read_target i s) (\<lambda>v. Inr (ucast (hi_half v), s))"

text \<open>A write to half of a 32-bit register reads the register first.\<close>

fun timer_write :: "timer_port \<Rightarrow> u32 \<Rightarrow> 'a iop_timers_scheme \<Rightarrow> 'a iop_timers_scheme res" where
  "timer_write (T_counter i) v s = it_write_counter i v s"
| "timer_write (T_counter_lo i) v s =
     rbind (it_read_counter i s) (\<lambda>(old, s). it_write_counter i (v OR (old AND 0xFFFF0000)) s)"
| "timer_write (T_counter_hi i) v s =
     rbind (it_read_counter i s) (\<lambda>(old, s). it_write_counter i (push_bit 16 v OR (old AND 0xFFFF)) s)"
| "timer_write (T_control i) v s = it_write_control i (ucast v) s"
| "timer_write (T_target i) v s = it_write_target i v s"
| "timer_write (T_target_lo i) v s =
     rbind (it_read_target i s) (\<lambda>old. it_write_target i (v OR (old AND 0xFFFF0000)) s)"
| "timer_write (T_target_hi i) v s =
     rbind (it_read_target i s) (\<lambda>old. it_write_target i (push_bit 16 v OR (old AND 0xFFFF)) s)"

definition emu_iop_read16 ::
    "'d io_ports \<Rightarrow> u32 \<Rightarrow> ('d, 'a) iop_sys_scheme \<Rightarrow> (u16 \<times> ('d, 'a) iop_sys_scheme) res" where
  "emu_iop_read16 ports a s =
     (if a < 0x00200000 then with_state (arr_get16 IOP_RAM_SIZE (iop_RAM s) a) s
      else if in_BIOS a then with_state (arr_get16 BIOS_SIZE (emu_BIOS s) (a AND 0x3FFFFF)) s
      else if 0x1F900000 \<le> a \<and> a < 0x1F900400 then io_get (spu_read16 ports 0 a) s
      else if 0x1F900400 \<le> a \<and> a < 0x1F900800 then io_get (spu_read16 ports 1 a) s
      else case map_of timer_ports_read16 a of
        Some p \<Rightarrow> rbind (timer_read p s) (\<lambda>(v, s). Inr (ucast v, s))
      | None \<Rightarrow>
          if in_scratchpad a s
          then with_state (arr_get16 SCRATCHPAD_SIZE (iop_scratchpad s) (a AND 0x3FF)) s
          else Inr (0, s))"

definition timer_ports_write16 :: "(u32 \<times> timer_port) list" where
  "timer_ports_write16 =
     [(0x1F801100, T_counter 0), (0x1F801104, T_control 0), (0x1F801108, T_target 0),
      (0x1F801110, T_counter 1), (0x1F801114, T_control 1), (0x1F801118, T_target 1),
      (0x1F801120, T_counter 2), (0x1F801124, T_control 2), (0x1F801128, T_target 2),
      (0x1F801480, T_counter_lo 3), (0x1F801482, T_counter_hi 3), (0x1F801484, T_control 3),
      (0x1F801488, T_target_lo 3), (0x1F80148A, T_target_hi 3),
      (0x1F801490, T_counter_lo 4), (0x1F801492, T_counter_hi 4), (0x1F801494, T_control 4),
      (0x1F801498, T_target_lo 4), (0x1F80149A, T_target_hi 4),
      (0x1F8014A0, T_counter_lo 5), (0x1F8014A2, T_counter_hi 5), (0x1F8014A4, T_control 5),
      (0x1F8014A8, T_target_lo 5), (0x1F8014AA, T_target_hi 5)]"

datatype dma_half = Chan_size nat | Chan_count nat

definition dma_ports_write16 :: "(u32 \<times> dma_half) list" where
  "dma_ports_write16 =
     [(0x1F8010B4, Chan_size 3), (0x1F8010B6, Chan_count 3),
      (0x1F8010C4, Chan_size 4), (0x1F8010C6, Chan_count 4),
      (0x1F801504, Chan_size 8), (0x1F801506, Chan_count 8), (0x1F801524, Chan_size 10),
      (0x1F801534, Chan_size 11), (0x1F801536, Chan_count 11)]"

fun dma_write16 :: "dma_half \<Rightarrow> u16 \<Rightarrow> 'a iop_dma_scheme \<Rightarrow> 'a iop_dma_scheme" where
  "dma_write16 (Chan_size i) v s = set_chan_size i v s"
| "dma_write16 (Chan_count i) v s = set_chan_count i v s"

definition emu_iop_write16 ::
    "'d io_ports \<Rightarrow> u32 \<Rightarrow> u16 \<Rightarrow> ('d, 'a) iop_sys_scheme \<Rightarrow> ('d, 'a) iop_sys_scheme res" where
  "emu_iop_write16 ports a v s =
     (if a < 0x00200000 then put_RAM (arr_put16 IOP_RAM_SIZE a v) s
      else if (0x1F900000 \<le> a \<and> a < 0x1F900400) \<or> (0x1F900760 \<le> a \<and> a < 0x1F900788)
      then io_put (spu_write16 ports 0 a v) s
      else if 0x1F900400 \<le> a \<and> a < 0x1F900800 then io_put (spu_write16 ports 1 a v) s
      else case map_of timer_ports_write16 a of
        Some p \<Rightarrow> timer_write p (ucast v) s
      | None \<Rightarrow>
          (case map_of dma_ports_write16 a of
             Some p \<Rightarrow> Inr (dma_write16 p v s)
           | None \<Rightarrow>
               if in_scratchpad a s
               then put_scratchpad (arr_put16 SCRATCHPAD_SIZE (a AND 0x3FF) v) s
               else Inr s))"

subsection \<open>Words\<close>

definition timer_ports32 :: "(u32 \<times> timer_port) list" where
  "timer_ports32 =
     [(0x1F801100, T_counter 0), (0x1F801104, T_control 0), (0x1F801108, T_target 0),
      (0x1F801110, T_counter 1), (0x1F801114, T_control 1), (0x1F801118, T_target 1),
      (0x1F801120, T_counter 2), (0x1F801124, T_control 2), (0x1F801128, T_target 2),
      (0x1F801480, T_counter 3), (0x1F801484, T_control 3), (0x1F801488, T_target 3),
      (0x1F801490, T_counter 4), (0x1F801494, T_control 4), (0x1F801498, T_target 4),
      (0x1F8014A0, T_counter 5), (0x1F8014A4, T_control 5), (0x1F8014A8, T_target 5)]"

datatype dma_port =
  D_addr nat | D_block nat | D_control nat | D_tag_addr nat | D_DPCR | D_DPCR2 | D_DICR | D_DICR2

definition dma_ports_read32 :: "(u32 \<times> dma_port) list" where
  "dma_ports_read32 =
     [(0x1F8010B0, D_addr 3), (0x1F8010B8, D_control 3), (0x1F8010C0, D_addr 4),
      (0x1F8010C8, D_control 4), (0x1F8010F0, D_DPCR), (0x1F8010F4, D_DICR),
      (0x1F801500, D_addr 8), (0x1F801508, D_control 8), (0x1F801528, D_control 10),
      (0x1F801548, D_control 12), (0x1F801558, D_control 13), (0x1F801570, D_DPCR2),
      (0x1F801574, D_DICR2)]"

fun dma_read32 :: "dma_port \<Rightarrow> 'a iop_dma_scheme \<Rightarrow> u32" where
  "dma_read32 (D_addr i) s = get_chan_addr i s"
| "dma_read32 (D_block i) s = get_chan_block i s"
| "dma_read32 (D_control i) s = get_chan_control i s"
| "dma_read32 (D_tag_addr i) s = ch_tag_addr (id_channels s i)"
| "dma_read32 D_DPCR s = get_DPCR s"
| "dma_read32 D_DPCR2 s = get_DPCR2 s"
| "dma_read32 D_DICR s = get_DICR s"
| "dma_read32 D_DICR2 s = get_DICR2 s"

definition dma_ports_write32 :: "(u32 \<times> dma_port) list" where
  "dma_ports_write32 =
     [(0x1F8010B0, D_addr 3), (0x1F8010B4, D_block 3), (0x1F8010B8, D_control 3),
      (0x1F8010C0, D_addr 4), (0x1F8010C4, D_block 4), (0x1F8010C8, D_control 4),
      (0x1F8010F0, D_DPCR), (0x1F8010F4, D_DICR),
      (0x1F801500, D_addr 8), (0x1F801504, D_block 8), (0x1F801508, D_control 8),
      (0x1F801520, D_addr 10), (0x1F801524, D_block 10), (0x1F801528, D_control 10),
      (0x1F80152C, D_tag_addr 10),
      (0x1F801530, D_addr 11), (0x1F801534, D_block 11), (0x1F801538, D_control 11),
      (0x1F801540, D_addr 12), (0x1F801544, D_block 12), (0x1F801548, D_control 12),
      (0x1F801550, D_addr 13), (0x1F801554, D_block 13), (0x1F801558, D_control 13),
      (0x1F801570, D_DPCR2), (0x1F801574, D_DICR2)]"

fun dma_write32 ::
    "'a iop_dma_scheme iop_dev \<Rightarrow> dma_port \<Rightarrow> u32 \<Rightarrow> 'a iop_dma_scheme \<Rightarrow> 'a iop_dma_scheme res" where
  "dma_write32 dev (D_addr i) v s = Inr (set_chan_addr i v s)"
| "dma_write32 dev (D_block i) v s = Inr (set_chan_block i v s)"
| "dma_write32 dev (D_control i) v s = set_chan_control dev i v s"
| "dma_write32 dev (D_tag_addr i) v s = Inr (set_chan_tag_addr i v s)"
| "dma_write32 dev D_DPCR v s = Inr (set_DPCR v s)"
| "dma_write32 dev D_DPCR2 v s = Inr (set_DPCR2 v s)"
| "dma_write32 dev D_DICR v s = Inr (set_DICR v s)"
| "dma_write32 dev D_DICR2 v s = Inr (set_DICR2 v s)"

text \<open>The remaining registers: SIF mailbox, interrupt controller, SIO2.\<close>

definition misc_read32 ::
    "u32 \<Rightarrow> 'a sio2_scheme \<Rightarrow> (u32 \<times> 'a sio2_scheme) option" where
  "misc_read32 a s =
     (if a = 0x1D000000 then Some (get_mscom s, s)
      else if a = 0x1D000010 then Some (get_smcom s, s)
      else if a = 0x1D000020 then Some (get_msflag s, s)
      else if a = 0x1D000030 then Some (get_smflag s, s)
      else if a = 0x1D000040 then Some (get_control s OR 0xF0000002, s)
      else if a = 0x1F801070 then Some (read_istat s, s)
      else if a = 0x1F801074 then Some (read_imask s, s)
      else if a = 0x1F801078 then Some (read_ictrl s)
      else if a = 0x1F801450 then Some (0, s)
      else if a = 0x1F801578 then Some (0, s)
      else if a = 0x1F808268 then Some (sio_get_control s, s)
      else if a = 0x1F80826C then Some (get_RECV1 s, s)
      else if a = 0x1F808270 then Some (get_RECV2 s, s)
      else if a = 0x1F808274 then Some (get_RECV3 s, s)
      else if a = 0xFFFE0130 then Some (0, s)
      else None)"

definition emu_iop_read32 ::
    "u32 \<Rightarrow> ('d, 'a) iop_sys_scheme \<Rightarrow> (u32 \<times> ('d, 'a) iop_sys_scheme) res" where
  "emu_iop_read32 a s =
     (if a < 0x00200000 then with_state (arr_get32 IOP_RAM_SIZE (iop_RAM s) a) s
      else if in_BIOS a then with_state (arr_get32 BIOS_SIZE (emu_BIOS s) (a AND 0x3FFFFF)) s
      else if 0x1F808400 \<le> a \<and> a < 0x1F808550 then Inr (fw_read32 a s, s)
      else case map_of timer_ports32 a of
        Some p \<Rightarrow> timer_read p s
      | None \<Rightarrow>
          (case map_of dma_ports_read32 a of
             Some p \<Rightarrow> Inr (dma_read32 p s, s)
           | None \<Rightarrow>
               (case misc_read32 a s of
                  Some r \<Rightarrow> Inr r
                | None \<Rightarrow>
                    if in_scratchpad a s
                    then with_state (arr_get32 SCRATCHPAD_SIZE (iop_scratchpad s) (a AND 0x3FF)) s
                    else Inr (0, s))))"

definition misc_write32 :: "u32 \<Rightarrow> u32 \<Rightarrow> 'a sio2_scheme \<Rightarrow> 'a sio2_scheme option" where
  "misc_write32 a v s =
     (if a = 0x1D000000 then Some s
      else if a = 0x1D000010 then Some (set_smcom v s)
      else if a = 0x1D000020 then Some (reset_msflag v s)
      else if a = 0x1D000030 then Some (set_smflag v s)
      else if a = 0x1D000040 then Some (set_control_IOP v s)
      else if a \<in> {0x1F801010, 0x1F801014} then Some s
      else if a = 0x1F801070 then Some (write_istat v s)
      else if a = 0x1F801074 then Some (write_imask v s)
      else if a = 0x1F801078 then Some (write_ictrl v s)
      else if a \<in> {0x1F801404, 0x1F801450, 0x1F801578} then Some s
      else if a = 0x1F808268 then Some (sio_set_control v s)
      else if a \<in> {0x1F802070, 0xFFFE0130} then Some s
      else None)"

definition send_buffer_write :: "u32 \<Rightarrow> u32 \<Rightarrow> 'a sio2_scheme \<Rightarrow> 'a sio2_scheme res" where
  "send_buffer_write a v s =
     (if a < 0x1F808240 then set_send3 (unat (a - 0x1F808200) div 4) v s
      else if a AND 0x4 \<noteq> 0 then set_send2 (unat (a - 0x1F808240) div 8) v s
      else set_send1 (unat (a - 0x1F808240) div 8) v s)"

definition emu_iop_write32 ::
    "'d io_ports \<Rightarrow> u32 \<Rightarrow> u32 \<Rightarrow> ('d, 'a) iop_sys_scheme \<Rightarrow> ('d, 'a) iop_sys_scheme res" where
  "emu_iop_write32 ports a v s =
     (if a < 0x00200000 then put_RAM (arr_put32 IOP_RAM_SIZE a v) s
      else if 0x1F808200 \<le> a \<and> a < 0x1F808260 then send_buffer_write a v s
      else if 0x1F808400 \<le> a \<and> a < 0x1F808550 then Inr (fw_write32 a v s)
      else case map_of timer_ports32 a of
        Some p \<Rightarrow> timer_write p v s
      | None \<Rightarrow>
          (case map_of dma_ports_write32 a of
             Some p \<Rightarrow> dma_write32 (dma_ports ports) p v s
           | None \<Rightarrow>
               (case misc_write32 a v s of
                  Some s \<Rightarrow> Inr s
                | None \<Rightarrow>
                    if a = 0xFFFE0144 then Inr (s\<lparr>iop_scratchpad_start := v\<rparr>)
                    else if in_scratchpad a s
                    then put_scratchpad (arr_put32 SCRATCHPAD_SIZE (a AND 0x3FF) v) s
                    else Inr s)))"

definition emu_iop_mem ::
    "'d io_ports \<Rightarrow> (u8 list \<Rightarrow> u8) \<Rightarrow> ('d, 'a) iop_sys_scheme iop_mem" where
  "emu_iop_mem ports past =
     \<lparr>mem_read8 = emu_iop_read8 ports, mem_read16 = emu_iop_read16 ports,
      mem_read32 = emu_iop_read32, mem_write8 = emu_iop_write8 ports past,
      mem_write16 = emu_iop_write16 ports, mem_write32 = emu_iop_write32 ports\<rparr>"

end
