(* ===== verification/Ee_Dmac_Run.thy ===== *)
theory Ee_Dmac_Run
  imports Iop_Bus
begin

unbundle bit_operations_syntax

section \<open>The EE DMA controller: transfers\<close>

text \<open>
  The \<open>process_*\<close> functions, the chains and \<open>run\<close> of \<open>src/core/ee/dmac.cpp\<close>. Main memory and
  the scratchpad are byte functions; the SIF is the model's own; the VIFs, the GIF, the IPU and the
  memories of the vector units are the argument \<open>dev\<close>. A \<open>process_*\<close> function returns the
  number of quadwords it moved.
\<close>

type_synonym quad = "128 word"

record 'd ee_sys = "'d iop_sys" +
  ee_RDRAM :: "u32 \<Rightarrow> u8"
  ee_scratchpad :: "u32 \<Rightarrow> u8"

datatype vu_memory = Vu0_instr | Vu0_mem | Vu1_instr | Vu1_mem

record 's ee_dev =
  dev_vu_fetch :: "vu_memory \<Rightarrow> u32 \<Rightarrow> 's \<Rightarrow> quad"
  dev_vu_store :: "vu_memory \<Rightarrow> u32 \<Rightarrow> quad \<Rightarrow> 's \<Rightarrow> 's"
  dev_vif_feed_DMA :: "nat \<Rightarrow> quad \<Rightarrow> 's \<Rightarrow> (bool \<times> 's) res"
  dev_vif_transfer_DMAtag :: "nat \<Rightarrow> quad \<Rightarrow> 's \<Rightarrow> (bool \<times> 's) res"
  dev_vif1_readFIFO :: "'s \<Rightarrow> ((quad \<times> bool) \<times> 's) res"
  dev_gif_dma_running :: "bool \<Rightarrow> 's \<Rightarrow> 's res"
  dev_gif_deactivate_PATH3 :: "'s \<Rightarrow> 's res"
  dev_gif_can_send :: "'s \<Rightarrow> bool"
  dev_gif_send_PATH3 :: "quad \<Rightarrow> 's \<Rightarrow> 's res"
  dev_ipu_can_read_FIFO :: "'s \<Rightarrow> bool"
  dev_ipu_read_FIFO :: "'s \<Rightarrow> (quad \<times> 's) res"
  dev_ipu_can_write_FIFO :: "'s \<Rightarrow> bool"
  dev_ipu_write_FIFO :: "quad \<Rightarrow> 's \<Rightarrow> 's res"

subsection \<open>Memory\<close>

definition quad_get :: "(u32 \<Rightarrow> u8) \<Rightarrow> u32 \<Rightarrow> quad" where
  "quad_get m a = fold (\<lambda>i q. q OR push_bit (8 * i) (ucast (m (a + of_nat i)))) [0..<16] 0"

definition quad_put :: "u32 \<Rightarrow> quad \<Rightarrow> (u32 \<Rightarrow> u8) \<Rightarrow> u32 \<Rightarrow> u8" where
  "quad_put a v m b = (if unat (b - a) < 16 then ucast (drop_bit (8 * unat (b - a)) v) else m b)"

definition spr_address :: "u32 \<Rightarrow> bool" where
  "spr_address a \<longleftrightarrow> tst a 31 \<or> a AND 0x70000000 = 0x70000000"

definition vu_region :: "u32 \<Rightarrow> vu_memory option" where
  "vu_region a =
     (if 0x11000000 \<le> a \<and> a < 0x11010000
      then Some (if a < 0x11004000 then Vu0_instr else if a < 0x11008000 then Vu0_mem
                 else if a < 0x1100C000 then Vu1_instr else Vu1_mem)
      else None)"

definition fetch128 :: "('d, 'a) ee_sys_scheme ee_dev \<Rightarrow> u32 \<Rightarrow> ('d, 'a) ee_sys_scheme \<Rightarrow> quad" where
  "fetch128 dev a s =
     (if spr_address a then quad_get (ee_scratchpad s) (a AND 0x3FF0)
      else case vu_region a of
             Some v \<Rightarrow> dev_vu_fetch dev v a s
           | None \<Rightarrow> quad_get (ee_RDRAM s) (a AND 0x01FFFFF0))"

definition store128 ::
    "('d, 'a) ee_sys_scheme ee_dev \<Rightarrow> u32 \<Rightarrow> quad \<Rightarrow> ('d, 'a) ee_sys_scheme \<Rightarrow> ('d, 'a) ee_sys_scheme" where
  "store128 dev a v s =
     (if spr_address a then s\<lparr>ee_scratchpad := quad_put (a AND 0x3FF0) v (ee_scratchpad s)\<rparr>
      else case vu_region a of
             Some u \<Rightarrow> dev_vu_store dev u a v s
           | None \<Rightarrow> s\<lparr>ee_RDRAM := quad_put (a AND 0x01FFFFF0) v (ee_RDRAM s)\<rparr>)"

subsection \<open>Advancing a channel\<close>

definition chan_mode :: "nat \<Rightarrow> 'a dmac_scheme \<Rightarrow> u32" where
  "chan_mode i s = fld (dc_control (dm_channels s i)) 2 2"

definition ring_addr :: "u32 \<Rightarrow> 'a dmac_scheme \<Rightarrow> u32" where
  "ring_addr a s = dm_RBOR s OR (a AND dm_RBSR s)"

text \<open>\<open>mfifo_handler\<close>: the result is false when the ring of the memory FIFO is empty.\<close>

definition mfifo_handler :: "nat \<Rightarrow> 'a dmac_scheme \<Rightarrow> bool \<times> 'a dmac_scheme" where
  "mfifo_handler i s =
     (if int (unat (d_mem_drain_channel (dm_control s))) - 1 = int i
      then let id = fld (dc_control (dm_channels s i)) 28 3;
               s = put_chan i (\<lambda>c. c\<lparr>dc_tag_address := ring_addr (dc_tag_address c) s\<rparr>) s;
               outside = id \<in> {0, 3, 4};
               qwc = dc_quadword_count (dm_channels s i);
               s = (if qwc \<noteq> 0 \<and> \<not> outside
                    then put_chan i (\<lambda>c. c\<lparr>dc_address := ring_addr (dc_address c) s\<rparr>) s else s);
               addr = (if qwc \<noteq> 0 then dc_address (dm_channels s i) else dc_tag_address (dm_channels s i))
           in if addr = dc_address (dm_channels s SPR_FROM)
              then (qwc \<noteq> 0 \<and> outside,
                    if \<not> dm_mfifo_empty_triggered s
                    then (raise_stat 14 s)\<lparr>dm_mfifo_empty_triggered := True\<rparr> else s)
              else (True, s\<lparr>dm_mfifo_empty_triggered := False\<rparr>)
      else (True, s))"

definition advance_source_dma :: "nat \<Rightarrow> 'a dmac_scheme \<Rightarrow> 'a dmac_scheme" where
  "advance_source_dma i s =
     (let mode = chan_mode i s;
          s = put_chan i (\<lambda>c. c\<lparr>dc_address := dc_address c + 16\<rparr>) s;
          s = (if dc_quadword_count (dm_channels s i) = 1 then snd (mfifo_handler i s) else s);
          s = put_chan i (\<lambda>c. c\<lparr>dc_quadword_count := dc_quadword_count c - 1\<rparr>) s
      in if mode = 1 \<and> dc_tag_id (dm_channels s i) = 1
         then put_chan i (\<lambda>c. c\<lparr>dc_tag_address := dc_address c\<rparr>) s else s)"

definition advance_dest_dma :: "nat \<Rightarrow> 'a dmac_scheme \<Rightarrow> 'a dmac_scheme res" where
  "advance_dest_dma i s =
     (let s = put_chan i (\<lambda>c. c\<lparr>dc_address := dc_address c + 16,
                              dc_quadword_count := dc_quadword_count c - 1\<rparr>) s;
          c = dm_channels s i;
          source = d_stall_source_channel (dm_control s)
      in if (chan_mode i s \<noteq> 1 \<or> dc_tag_id c = 0) \<and>
            ((i = EE_SIF0 \<and> source = 1) \<or> (i = SPR_FROM \<and> source = 2) \<or> (i = IPU_FROM \<and> source = 3))
         then update_stadr (dc_address c) s else Inr s)"

subsection \<open>Tags\<close>

text \<open>What a source chain tag, its low word \<open>tag\<close> and its address word \<open>addr\<close>, does to the channel.\<close>

definition put_asp :: "u32 \<Rightarrow> dma_channel \<Rightarrow> dma_channel" where
  "put_asp asp c = c\<lparr>dc_control := (dc_control c AND NOT 0x30) OR push_bit 4 asp\<rparr>"

definition source_tag_call :: "u32 \<Rightarrow> dma_channel \<Rightarrow> dma_channel res" where
  "source_tag_call addr c =
     (let c = c\<lparr>dc_address := dc_tag_address c + 16\<rparr>;
          asp = fld (dc_control c) 4 2;
          saved = dc_address c + push_bit 4 (dc_quadword_count c)
      in if asp = 2 then Inl (Die ''[DMAC] DMAtag 'call' sent when ASP == 2!'')
         else let c = (if asp = 0 then c\<lparr>dc_tag_save0 := saved\<rparr>
                       else if asp = 1 then c\<lparr>dc_tag_save1 := saved\<rparr> else c)
              in Inr ((put_asp (asp + 1) c)\<lparr>dc_tag_address := addr\<rparr>))"

definition source_tag_ret :: "dma_channel \<Rightarrow> dma_channel" where
  "source_tag_ret c =
     (let c = c\<lparr>dc_address := dc_tag_address c + 16\<rparr>;
          asp = fld (dc_control c) 4 2
      in if asp = 0 then put_asp asp (c\<lparr>dc_tag_end := True\<rparr>)
         else if asp = 1 then put_asp 0 (c\<lparr>dc_tag_address := dc_tag_save0 c\<rparr>)
         else if asp = 2 then put_asp 1 (c\<lparr>dc_tag_address := dc_tag_save1 c\<rparr>)
         else put_asp asp c)"

definition source_tag :: "u32 \<Rightarrow> u32 \<Rightarrow> dma_channel \<Rightarrow> dma_channel res" where
  "source_tag tag word1 c =
     (let addr = word1 AND 0xFFFFFFF0;
          id = fld tag 28 3;
          c = c\<lparr>dc_control := (dc_control c AND 0xFFFF) OR (tag AND 0xFFFF0000),
                dc_is_spr := spr_address addr, dc_tag_id := ucast id,
                dc_quadword_count := tag AND 0xFFFF, dc_can_stall_drain := False\<rparr>;
          TIE = tst (dc_control c) 7
      in rbind
        (if id = 0 then Inr (c\<lparr>dc_address := addr, dc_tag_address := dc_tag_address c + 16, dc_tag_end := True\<rparr>)
         else if id = 1 then Inr (c\<lparr>dc_address := dc_tag_address c + 16, dc_tag_address := dc_tag_address c + 16\<rparr>)
         else if id = 2 then Inr (c\<lparr>dc_address := dc_tag_address c + 16, dc_tag_address := addr\<rparr>)
         else if id = 3 then Inr (c\<lparr>dc_address := addr, dc_tag_address := dc_tag_address c + 16\<rparr>)
         else if id = 4 then Inr (c\<lparr>dc_address := addr, dc_tag_address := dc_tag_address c + 16,
                                    dc_can_stall_drain := True\<rparr>)
         else if id = 5 then source_tag_call addr c
         else if id = 6 then Inr (source_tag_ret c)
         else Inr (c\<lparr>dc_address := dc_tag_address c + 16, dc_tag_end := True\<rparr>))
        (\<lambda>c. Inr (if tst tag 31 \<and> TIE then c\<lparr>dc_tag_end := True\<rparr> else c)))"

definition toggle_PCR :: "u32 \<Rightarrow> 'a dmac_scheme \<Rightarrow> 'a dmac_scheme res" where
  "toggle_PCR tag s =
     (let t = fld tag 26 2
      in if t = 1 then Inl (Die ''[DMAC] PCR info set to 1!'')
         else Inr (if t = 2 then s\<lparr>dm_PCR := dm_PCR s AND NOT 0x80000000\<rparr>
                   else if t = 3 then s\<lparr>dm_PCR := dm_PCR s OR 0x80000000\<rparr> else s))"

definition quad_word :: "nat \<Rightarrow> quad \<Rightarrow> u32" where
  "quad_word k q = ucast (drop_bit (32 * k) q)"

definition handle_source_chain ::
    "('d, 'a) ee_sys_scheme ee_dev \<Rightarrow> nat \<Rightarrow> ('d, 'a) ee_sys_scheme \<Rightarrow> ('d, 'a) ee_sys_scheme res" where
  "handle_source_chain dev i s =
     (let q = fetch128 dev (dc_tag_address (dm_channels s i)) s;
          tag = quad_word 0 q
      in rbind (source_tag tag (quad_word 1 q) (dm_channels s i)) (\<lambda>c.
         rbind (toggle_PCR tag (put_chan i (\<lambda>_. c) s)) dm_arbitrate))"

text \<open>A destination chain tag, as SIF0 and SPR_FROM read it.\<close>

definition dest_tag :: "u32 \<Rightarrow> u32 \<Rightarrow> dma_channel \<Rightarrow> dma_channel" where
  "dest_tag tag word1 c =
     (let id = fld tag 28 3
      in c\<lparr>dc_quadword_count := tag AND 0xFFFF, dc_address := word1, dc_tag_id := ucast id,
           dc_tag_end := (dc_tag_end c \<or> id = 7 \<or> (tst tag 31 \<and> tst (dc_control c) 7)),
           dc_control := (dc_control c AND 0xFFFF) OR (tag AND 0xFFFF0000)\<rparr>)"


subsection \<open>Loops over quadwords\<close>

text \<open>How one turn of such a loop ends: go on, go on no further, break, or return from the function.\<close>

datatype loop_exit = Next | Last | Break | Return

fun quad_loop :: "('s \<Rightarrow> (loop_exit \<times> 's) res) \<Rightarrow> nat \<Rightarrow> nat \<Rightarrow> 's \<Rightarrow> (nat \<times> bool \<times> 's) res" where
  "quad_loop f 0 cnt s = Inr (cnt, False, s)"
| "quad_loop f (Suc n) cnt s =
     rbind (f s) (\<lambda>(x, s). case x of
         Next \<Rightarrow> quad_loop f n (cnt + 1) s
       | Last \<Rightarrow> Inr (cnt + 1, False, s)
       | Break \<Rightarrow> Inr (cnt, False, s)
       | Return \<Rightarrow> Inr (cnt, True, s))"

definition quads_to_transfer :: "nat \<Rightarrow> 'a dmac_scheme \<Rightarrow> nat" where
  "quads_to_transfer i s =
     (let c = dm_channels s i; max_qwc = 8 - (drop_bit 4 (dc_address c) AND 7)
      in unat (min (dc_quadword_count c) max_qwc))"

definition counted :: "nat \<Rightarrow> 's res \<Rightarrow> (nat \<times> 's) res" where
  "counted cnt r = rbind r (\<lambda>s. Inr (cnt, s))"

definition qwc :: "nat \<Rightarrow> 'a dmac_scheme \<Rightarrow> u32" where
  "qwc i s = dc_quadword_count (dm_channels s i)"

text \<open>The loop behind the test \<open>if (quadword_count)\<close>.\<close>

definition transfer_quads ::
    "nat \<Rightarrow> ('a dmac_scheme \<Rightarrow> (loop_exit \<times> 'a dmac_scheme) res) \<Rightarrow> 'a dmac_scheme \<Rightarrow>
     (nat \<times> bool \<times> 'a dmac_scheme) res" where
  "transfer_quads i f s =
     (if qwc i s \<noteq> 0 then quad_loop f (quads_to_transfer i s) 0 s else Inr (0, False, s))"

definition stop_arbitrating :: "'a dmac_scheme \<Rightarrow> (loop_exit \<times> 'a dmac_scheme) res" where
  "stop_arbitrating s = rbind (dm_arbitrate s) (\<lambda>s. Inr (Return, s))"

text \<open>The stall test: with the transfer running past the stall address the channel drops its request.\<close>

definition stall_test ::
    "nat \<Rightarrow> ('a dmac_scheme \<Rightarrow> 'a dmac_scheme res) \<Rightarrow> 'a dmac_scheme \<Rightarrow> (bool \<times> 'a dmac_scheme) res" where
  "stall_test i on_stall s =
     (let c = dm_channels s i
      in if dm_STADR s < dc_address c + of_nat (quads_to_transfer i s * 16)
         then rbind
           (if \<not> dc_has_dma_stalled c
            then rbind (on_stall (raise_stat DMA_STALL s))
                   (\<lambda>s. Inr (put_chan i (\<lambda>c. c\<lparr>dc_has_dma_stalled := True\<rparr>) s))
            else Inr s)
           (\<lambda>s. rbind (dm_clear_request i s) (\<lambda>s. Inr (True, s)))
         else Inr (False, put_chan i (\<lambda>c. c\<lparr>dc_has_dma_stalled := False\<rparr>) s))"

subsection \<open>The VIFs\<close>

definition vif_quad ::
    "('d, 'a) ee_sys_scheme ee_dev \<Rightarrow> nat \<Rightarrow> ('d, 'a) ee_sys_scheme \<Rightarrow>
     (loop_exit \<times> ('d, 'a) ee_sys_scheme) res" where
  "vif_quad dev i s =
     rbind (dev_vif_feed_DMA dev i (fetch128 dev (dc_address (dm_channels s i)) s) s) (\<lambda>(ok, s).
       Inr (if ok then (Next, advance_source_dma i s) else (Break, s)))"

definition vif_tag ::
    "('d, 'a) ee_sys_scheme ee_dev \<Rightarrow> nat \<Rightarrow> ('d, 'a) ee_sys_scheme \<Rightarrow> ('d, 'a) ee_sys_scheme res" where
  "vif_tag dev i s =
     (if tst (dc_control (dm_channels s i)) 6
      then rbind (dev_vif_transfer_DMAtag dev i (fetch128 dev (dc_tag_address (dm_channels s i)) s) s)
             (\<lambda>(ok, s). if ok then handle_source_chain dev i s else dm_arbitrate s)
      else handle_source_chain dev i s)"

definition process_VIF0 ::
    "('d, 'a) ee_sys_scheme ee_dev \<Rightarrow> ('d, 'a) ee_sys_scheme \<Rightarrow> (nat \<times> ('d, 'a) ee_sys_scheme) res" where
  "process_VIF0 dev s =
     rbind (transfer_quads VIF0 (vif_quad dev VIF0) s) (\<lambda>(cnt, _, s). counted cnt
       (if qwc VIF0 s = 0
        then if dc_tag_end (dm_channels s VIF0) then dm_transfer_end VIF0 s else vif_tag dev VIF0 s
        else dm_arbitrate s))"

definition vif1_quad ::
    "('d, 'a) ee_sys_scheme ee_dev \<Rightarrow> ('d, 'a) ee_sys_scheme \<Rightarrow>
     (loop_exit \<times> ('d, 'a) ee_sys_scheme) res" where
  "vif1_quad dev s =
     (let (ready, s) = mfifo_handler VIF1 s
      in if \<not> ready then stop_arbitrating s
         else if tst (dc_control (dm_channels s VIF1)) 0 then vif_quad dev VIF1 s
         else rbind (dev_vif1_readFIFO dev s) (\<lambda>((data, ok), s).
                if ok then Inr (Next, advance_source_dma VIF1
                                 (store128 dev (dc_address (dm_channels s VIF1)) data s))
                else stop_arbitrating s))"

definition process_VIF1 ::
    "('d, 'a) ee_sys_scheme ee_dev \<Rightarrow> ('d, 'a) ee_sys_scheme \<Rightarrow> (nat \<times> ('d, 'a) ee_sys_scheme) res" where
  "process_VIF1 dev s =
     (let c = dm_channels s VIF1 in
      rbind
        (if qwc VIF1 s \<noteq> 0 \<and> tst (dc_control c) 0 \<and> d_stall_dest_channel (dm_control s) = 1 \<and>
            dc_can_stall_drain c
         then stall_test VIF1 Inr s else Inr (False, s))
        (\<lambda>(stalled, s).
      if stalled then Inr (0, s)
      else rbind (transfer_quads VIF1 (vif1_quad dev) s) (\<lambda>(cnt, returned, s).
        if returned then Inr (cnt, s)
        else counted cnt
          (if qwc VIF1 s = 0
           then if dc_tag_end (dm_channels s VIF1) then dm_transfer_end VIF1 s
                else let (ready, s) = mfifo_handler VIF1 s
                     in if ready then vif_tag dev VIF1 s else dm_arbitrate s
           else dm_arbitrate s))))"

subsection \<open>The GIF\<close>

definition gif_starve ::
    "('d, 'a) ee_sys_scheme ee_dev \<Rightarrow> ('d, 'a) ee_sys_scheme \<Rightarrow> ('d, 'a) ee_sys_scheme res" where
  "gif_starve dev s = rbind (dm_arbitrate s) (dev_gif_deactivate_PATH3 dev)"

definition gif_quad ::
    "('d, 'a) ee_sys_scheme ee_dev \<Rightarrow> ('d, 'a) ee_sys_scheme \<Rightarrow>
     (loop_exit \<times> ('d, 'a) ee_sys_scheme) res" where
  "gif_quad dev s =
     (let (ready, s) = mfifo_handler GIF s
      in if \<not> ready then rbind (gif_starve dev s) (\<lambda>s. Inr (Return, s))
         else if dev_gif_can_send dev s
         then rbind (dev_gif_send_PATH3 dev (fetch128 dev (dc_address (dm_channels s GIF)) s) s)
                (\<lambda>s. Inr (Next, advance_source_dma GIF s))
         else Inr (Break, s))"

definition process_GIF ::
    "('d, 'a) ee_sys_scheme ee_dev \<Rightarrow> ('d, 'a) ee_sys_scheme \<Rightarrow> (nat \<times> ('d, 'a) ee_sys_scheme) res" where
  "process_GIF dev s =
     rbind (dev_gif_dma_running dev True s) (\<lambda>s.
     rbind
       (if qwc GIF s \<noteq> 0 \<and> d_stall_dest_channel (dm_control s) = 2 \<and>
           dc_can_stall_drain (dm_channels s GIF)
        then stall_test GIF (dev_gif_deactivate_PATH3 dev) s else Inr (False, s))
       (\<lambda>(stalled, s).
     if stalled then Inr (0, s)
     else rbind (transfer_quads GIF (gif_quad dev) s) (\<lambda>(cnt, returned, s).
       if returned then Inr (cnt, s)
       else counted cnt
         (if qwc GIF s = 0
          then if dc_tag_end (dm_channels s GIF)
               then rbind (dev_gif_dma_running dev False s) (dm_transfer_end GIF)
               else let (ready, s) = mfifo_handler GIF s
                    in if ready then handle_source_chain dev GIF s else gif_starve dev s
          else dm_arbitrate s))))"


subsection \<open>The IPU\<close>

definition ipu_from_quad ::
    "('d, 'a) ee_sys_scheme ee_dev \<Rightarrow> ('d, 'a) ee_sys_scheme \<Rightarrow>
     (loop_exit \<times> ('d, 'a) ee_sys_scheme) res" where
  "ipu_from_quad dev s =
     (if dev_ipu_can_read_FIFO dev s
      then rbind (dev_ipu_read_FIFO dev s) (\<lambda>(data, s).
           rbind (advance_dest_dma IPU_FROM (store128 dev (dc_address (dm_channels s IPU_FROM)) data s))
             (\<lambda>s. Inr (Next, s)))
      else Inr (Break, s))"

definition process_IPU_FROM ::
    "('d, 'a) ee_sys_scheme ee_dev \<Rightarrow> ('d, 'a) ee_sys_scheme \<Rightarrow> (nat \<times> ('d, 'a) ee_sys_scheme) res" where
  "process_IPU_FROM dev s =
     rbind (transfer_quads IPU_FROM (ipu_from_quad dev) s) (\<lambda>(cnt, _, s).
     rbind (if d_stall_source_channel (dm_control s) = 3
            then update_stadr (dc_address (dm_channels s IPU_FROM)) s else Inr s) (\<lambda>s.
     counted cnt
       (if qwc IPU_FROM s = 0
        then if dc_tag_end (dm_channels s IPU_FROM) then dm_transfer_end IPU_FROM s
             else Inl (Die ''[DMAC] IPU_FROM uses dest chain!'')
        else dm_arbitrate s)))"

definition ipu_to_quad ::
    "('d, 'a) ee_sys_scheme ee_dev \<Rightarrow> ('d, 'a) ee_sys_scheme \<Rightarrow>
     (loop_exit \<times> ('d, 'a) ee_sys_scheme) res" where
  "ipu_to_quad dev s =
     (if dev_ipu_can_write_FIFO dev s
      then rbind (dev_ipu_write_FIFO dev (fetch128 dev (dc_address (dm_channels s IPU_TO)) s) s)
             (\<lambda>s. Inr (Next, advance_source_dma IPU_TO s))
      else Inr (Break, s))"

definition process_IPU_TO ::
    "('d, 'a) ee_sys_scheme ee_dev \<Rightarrow> ('d, 'a) ee_sys_scheme \<Rightarrow> (nat \<times> ('d, 'a) ee_sys_scheme) res" where
  "process_IPU_TO dev s =
     rbind (transfer_quads IPU_TO (ipu_to_quad dev) s) (\<lambda>(cnt, _, s). counted cnt
       (if qwc IPU_TO s = 0
        then if dc_tag_end (dm_channels s IPU_TO) then dm_transfer_end IPU_TO s
             else handle_source_chain dev IPU_TO s
        else dm_arbitrate s))"

subsection \<open>The SIF\<close>

definition words_quad :: "u32 \<Rightarrow> u32 \<Rightarrow> u32 \<Rightarrow> u32 \<Rightarrow> quad" where
  "words_quad w0 w1 w2 w3 =
     ucast w0 OR push_bit 32 (ucast w1) OR push_bit 64 (ucast w2) OR push_bit 96 (ucast w3)"

definition ee_sif0_quad ::
    "('d, 'a) ee_sys_scheme ee_dev \<Rightarrow> ('d, 'a) ee_sys_scheme \<Rightarrow>
     (loop_exit \<times> ('d, 'a) ee_sys_scheme) res" where
  "ee_sif0_quad dev s =
     rbind (read_SIF0 s) (\<lambda>(w0, s). rbind (read_SIF0 s) (\<lambda>(w1, s).
     rbind (read_SIF0 s) (\<lambda>(w2, s). rbind (read_SIF0 s) (\<lambda>(w3, s).
     rbind (advance_dest_dma EE_SIF0
              (store128 dev (dc_address (dm_channels s EE_SIF0)) (words_quad w0 w1 w2 w3) s))
       (\<lambda>s. Inr (Next, s))))))"

definition ee_process_SIF0 ::
    "('d, 'a) ee_sys_scheme ee_dev \<Rightarrow> ('d, 'a) ee_sys_scheme \<Rightarrow> (nat \<times> ('d, 'a) ee_sys_scheme) res" where
  "ee_process_SIF0 dev s =
     rbind (quad_loop (ee_sif0_quad dev) (min (quads_to_transfer EE_SIF0 s) (get_SIF0_size s div 4)) 0 s)
       (\<lambda>(cnt, _, s). counted cnt
         (if qwc EE_SIF0 s = 0
          then if dc_tag_end (dm_channels s EE_SIF0) then dm_transfer_end EE_SIF0 s
               else if 2 \<le> get_SIF0_size s
               then rbind (read_SIF0 s) (\<lambda>(w0, s). rbind (read_SIF0 s) (\<lambda>(w1, s).
                      dm_arbitrate (put_chan EE_SIF0
                        (\<lambda>c. (dest_tag w0 w1 c)\<lparr>dc_is_spr := spr_address w1\<rparr>) s)))
               else Inr s
          else dm_arbitrate s))"

definition ee_sif1_quad ::
    "('d, 'a) ee_sys_scheme ee_dev \<Rightarrow> ('d, 'a) ee_sys_scheme \<Rightarrow>
     (loop_exit \<times> ('d, 'a) ee_sys_scheme) res" where
  "ee_sif1_quad dev s =
     rbind (write_SIF1 (fetch128 dev (dc_address (dm_channels s EE_SIF1)) s) s)
       (\<lambda>s. Inr (Next, advance_source_dma EE_SIF1 s))"

definition ee_process_SIF1 ::
    "('d, 'a) ee_sys_scheme ee_dev \<Rightarrow> ('d, 'a) ee_sys_scheme \<Rightarrow> (nat \<times> ('d, 'a) ee_sys_scheme) res" where
  "ee_process_SIF1 dev s =
     rbind
       (if qwc EE_SIF1 s \<noteq> 0 \<and> d_stall_dest_channel (dm_control s) = 3 \<and>
           dc_can_stall_drain (dm_channels s EE_SIF1)
        then stall_test EE_SIF1 Inr s else Inr (False, s))
       (\<lambda>(stalled, s).
     if stalled then Inr (0, s)
     else rbind (transfer_quads EE_SIF1 (ee_sif1_quad dev) s) (\<lambda>(cnt, _, s). counted cnt
       (if qwc EE_SIF1 s = 0
        then if dc_tag_end (dm_channels s EE_SIF1) then dm_transfer_end EE_SIF1 s
             else handle_source_chain dev EE_SIF1 s
        else Inr s)))"

subsection \<open>The scratchpad\<close>

text \<open>The end of a turn in interleave mode, shared by both directions.\<close>

definition interleave :: "nat \<Rightarrow> 'a dmac_scheme \<Rightarrow> (loop_exit \<times> 'a dmac_scheme) res" where
  "interleave i s =
     (if chan_mode i s = 2
      then let s = put_chan i (\<lambda>c. c\<lparr>dc_interleaved_qwc := dc_interleaved_qwc c - 1\<rparr>) s
           in if dc_interleaved_qwc (dm_channels s i) = 0
              then rbind (dm_arbitrate (put_chan i (\<lambda>c. c\<lparr>dc_interleaved_qwc := dm_transfer_qwc s,
                       dc_address := dc_address c + ucast (dm_skip_qwc s) * 16\<rparr>) s)) (\<lambda>s. Inr (Last, s))
              else Inr (Next, s)
      else Inr (Next, s))"

definition drain_ring :: "'a dmac_scheme \<Rightarrow> 'a dmac_scheme" where
  "drain_ring s =
     (if d_mem_drain_channel (dm_control s) \<noteq> 0
      then put_chan SPR_FROM (\<lambda>c. c\<lparr>dc_address := ring_addr (dc_address c) s\<rparr>) s else s)"

definition next_spr :: "nat \<Rightarrow> 'a dmac_scheme \<Rightarrow> 'a dmac_scheme" where
  "next_spr i = put_chan i (\<lambda>c. c\<lparr>dc_scratchpad_address := dc_scratchpad_address c + 16\<rparr>)"

definition spr_from_quad ::
    "('d, 'a) ee_sys_scheme ee_dev \<Rightarrow> ('d, 'a) ee_sys_scheme \<Rightarrow>
     (loop_exit \<times> ('d, 'a) ee_sys_scheme) res" where
  "spr_from_quad dev s =
     (let s = drain_ring s;
          c = dm_channels s SPR_FROM;
          data = fetch128 dev (dc_scratchpad_address c OR 0x80000000) s;
          s = store128 dev (dc_address c AND 0x7FFFFFFF) data s
      in rbind (advance_dest_dma SPR_FROM (next_spr SPR_FROM s)) (\<lambda>s.
         rbind (interleave SPR_FROM s) (\<lambda>(x, s).
           Inr (x, if x = Next then drain_ring s else s))))"

definition process_SPR_FROM ::
    "('d, 'a) ee_sys_scheme ee_dev \<Rightarrow> ('d, 'a) ee_sys_scheme \<Rightarrow> (nat \<times> ('d, 'a) ee_sys_scheme) res" where
  "process_SPR_FROM dev s =
     rbind (transfer_quads SPR_FROM (spr_from_quad dev) s) (\<lambda>(cnt, _, s). counted cnt
       (if qwc SPR_FROM s = 0
        then if dc_tag_end (dm_channels s SPR_FROM) then dm_transfer_end SPR_FROM s
             else let q = fetch128 dev (dc_scratchpad_address (dm_channels s SPR_FROM) OR 0x80000000) s
                  in dm_arbitrate (put_chan SPR_FROM
                       (\<lambda>c. (dest_tag (quad_word 0 q) (quad_word 1 q) c)
                              \<lparr>dc_scratchpad_address := (dc_scratchpad_address c + 16) AND 0x3FFF\<rparr>) s)
        else Inr s))"

definition spr_to_quad ::
    "('d, 'a) ee_sys_scheme ee_dev \<Rightarrow> ('d, 'a) ee_sys_scheme \<Rightarrow>
     (loop_exit \<times> ('d, 'a) ee_sys_scheme) res" where
  "spr_to_quad dev s =
     (let c = dm_channels s SPR_TO;
          data = fetch128 dev (dc_address c AND 0x7FFFFFFF) s;
          s = store128 dev (dc_scratchpad_address c OR 0x80000000) data s
      in interleave SPR_TO (advance_source_dma SPR_TO (next_spr SPR_TO s)))"

definition process_SPR_TO ::
    "('d, 'a) ee_sys_scheme ee_dev \<Rightarrow> ('d, 'a) ee_sys_scheme \<Rightarrow> (nat \<times> ('d, 'a) ee_sys_scheme) res" where
  "process_SPR_TO dev s =
     rbind (transfer_quads SPR_TO (spr_to_quad dev) s) (\<lambda>(cnt, _, s). counted cnt
       (if qwc SPR_TO s = 0
        then if dc_tag_end (dm_channels s SPR_TO) then dm_transfer_end SPR_TO s
             else let c = dm_channels s SPR_TO;
                      tag = fetch128 dev (dc_tag_address c) s
                  in handle_source_chain dev SPR_TO
                       (if tst (dc_control c) 6
                        then next_spr SPR_TO (store128 dev (dc_scratchpad_address c OR 0x80000000) tag s)
                        else s)
        else Inr s))"

subsection \<open>Running\<close>

definition ee_process_channel ::
    "('d, 'a) ee_sys_scheme ee_dev \<Rightarrow> nat \<Rightarrow> ('d, 'a) ee_sys_scheme \<Rightarrow> (nat \<times> ('d, 'a) ee_sys_scheme) res" where
  "ee_process_channel dev i s =
     (if i = VIF0 then process_VIF0 dev s
      else if i = VIF1 then process_VIF1 dev s
      else if i = GIF then process_GIF dev s
      else if i = IPU_FROM then process_IPU_FROM dev s
      else if i = IPU_TO then process_IPU_TO dev s
      else if i = EE_SIF0 then ee_process_SIF0 dev s
      else if i = EE_SIF1 then ee_process_SIF1 dev s
      else if i = SPR_FROM then process_SPR_FROM dev s
      else if i = SPR_TO then process_SPR_TO dev s
      else Inl (Undefined ''call through an unset member pointer''))"

text \<open>One turn of the loop of \<open>run\<close>, for the running channel \<open>i\<close>.\<close>

definition dmac_turn ::
    "('d, 'a) ee_sys_scheme ee_dev \<Rightarrow> nat \<Rightarrow> ('d, 'a) ee_sys_scheme \<Rightarrow> ('d, 'a) ee_sys_scheme res" where
  "dmac_turn dev i s =
     rbind (ee_process_channel dev i s) (\<lambda>(n, s).
       let s = s\<lparr>dm_cycles_to_run := dm_cycles_to_run s - max (int n) 1\<rparr>;
           s = (if \<not> dc_is_spr (dm_channels s i) then s\<lparr>dm_cycles_to_run := dm_cycles_to_run s - 12\<rparr> else s)
       in Inr (if dm_active s = None then s\<lparr>dm_cycles_to_run := 0\<rparr> else s))"

partial_function (option) dmac_loop ::
    "('d, 'a) ee_sys_scheme ee_dev \<Rightarrow> ('d, 'a) ee_sys_scheme \<Rightarrow> ('d, 'a) ee_sys_scheme res option" where
  "dmac_loop dev s =
     (if 0 < dm_cycles_to_run s
      then case dm_active s of
             None \<Rightarrow> Some (Inl (Undefined ''null channel''))
           | Some i \<Rightarrow> (case dmac_turn dev i s of Inl e \<Rightarrow> Some (Inl e) | Inr s \<Rightarrow> dmac_loop dev s)
      else Some (Inr s))"

definition dmac_run ::
    "('d, 'a) ee_sys_scheme ee_dev \<Rightarrow> int \<Rightarrow> ('d, 'a) ee_sys_scheme \<Rightarrow> ('d, 'a) ee_sys_scheme res option" where
  "dmac_run dev cycles s =
     (if \<not> d_master_enable (dm_control s) \<or> tst (dm_master_disable s) 16 then Some (Inr s)
      else if dm_active s = None then Some (Inr s)
      else dmac_loop dev (s\<lparr>dm_cycles_to_run := dm_cycles_to_run s + cycles\<rparr>))"

end
