(* ===== verification/Ee_Dmac_Transfer.thy ===== *)
theory Ee_Dmac_Transfer
  imports Ee_Dmac_Run Sif_Correct
begin

unbundle bit_operations_syntax

section \<open>Properties of the transfers of the EE DMA controller\<close>

text \<open>
  Every transfer function keeps the controller's invariant and leaves the cycle budget alone, so
  that \<open>run\<close> returns; a transfer to the scratchpad copies the block of memory; chains of tags.
\<close>

subsection \<open>What every transfer keeps\<close>

definition steady :: "int \<Rightarrow> 'a dmac_scheme \<Rightarrow> bool" where
  "steady n s \<longleftrightarrow> dmac_ok s \<and> stall_dest_ok s \<and> dm_cycles_to_run s = n"

lemma steady_cong:
  assumes "dm_channels t = dm_channels s" "dm_active t = dm_active s" "dm_queue t = dm_queue s"
    and "dm_control t = dm_control s" "dm_cycles_to_run t = dm_cycles_to_run s"
  shows "steady n t = steady n s"
  using dmac_ok_cong [OF assms(1-3)] assms(4,5) by (simp add: steady_def stall_dest_ok_def)

lemma cycles_keep [simp]:
  "dm_cycles_to_run (put_chan i f s) = dm_cycles_to_run s" "dm_cycles_to_run (raise_stat i s) = dm_cycles_to_run s"
  "dm_cycles_to_run (check_for_activation i s) = dm_cycles_to_run s"
  "dm_cycles_to_run (dm_set_request i s) = dm_cycles_to_run s"
  by (simp_all add: put_chan_def raise_stat_def int1_check_def set_int1_signal_def
      check_for_activation_def Let_def dm_set_request_def)

lemma find_new_cycles: "ok_post (dm_find_new_active_channel s) (\<lambda>t. dm_cycles_to_run t = dm_cycles_to_run s)"
  by (auto simp: dm_find_new_active_channel_def Let_def split: list.split)

lemma deactivate_cycles: "ok_post (deactivate_channel i s) (\<lambda>t. dm_cycles_to_run t = dm_cycles_to_run s)"
  using find_new_cycles [of "s\<lparr>dm_active := None\<rparr>"] by (simp add: deactivate_channel_def Let_def)

lemma steady_put:
  assumes "steady n s" and "\<And>c. dc_dma_req (f c) = dc_dma_req c \<and> dc_started (f c) = dc_started c \<and>
    bit (dc_control (f c)) 8 = bit (dc_control c) 8"
  shows "steady n (put_chan i f s)"
  using assms put_chan_keeps_ok [of s f i] by (simp add: steady_def stall_dest_ok_def)

lemma steady_set_request: "steady n s \<Longrightarrow> steady n (dm_set_request i s)"
  by (simp add: steady_def set_request_ok stall_dest_ok_def)

lemma steady_raise_stat: "steady n (raise_stat i s) = steady n s"
  by (rule steady_cong) simp_all

lemma steadyI:
  assumes "\<exists>t. m = Inr t \<and> dmac_ok t" and "ok_post m (\<lambda>t. dm_control t = dm_control s)"
    and "ok_post m (\<lambda>t. dm_cycles_to_run t = dm_cycles_to_run s)" and "steady n s"
  shows "ok_post m (steady n)"
  using assms by (auto simp: steady_def stall_dest_ok_def)

lemma steady_clear_request:
  assumes "steady n s" shows "ok_post (dm_clear_request i s) (steady n)"
proof (rule steadyI [OF _ _ _ assms])
  show "\<exists>t. dm_clear_request i s = Inr t \<and> dmac_ok t" using clear_request_ok [of s i] assms by (simp add: steady_def)
  show "ok_post (dm_clear_request i s) (\<lambda>t. dm_control t = dm_control s)"
    unfolding dm_clear_request_def Let_def
    by (intro ok_post_if ok_post_mono [OF deactivate_control]) simp_all
  show "ok_post (dm_clear_request i s) (\<lambda>t. dm_cycles_to_run t = dm_cycles_to_run s)"
    unfolding dm_clear_request_def Let_def
    by (intro ok_post_if ok_post_mono [OF deactivate_cycles]) simp_all
qed

lemma steady_arbitrate:
  assumes "steady n s" shows "ok_post (dm_arbitrate s) (steady n)"
proof (rule steadyI [OF _ _ _ assms])
  show "\<exists>t. dm_arbitrate s = Inr t \<and> dmac_ok t" using arbitrate_ok [of s] assms by (simp add: steady_def)
qed (auto simp: dm_arbitrate_def intro: find_new_control find_new_cycles)

lemma steady_transfer_end:
  assumes "steady n s" shows "ok_post (dm_transfer_end i s) (steady n)"
proof (rule steadyI [OF _ _ _ assms])
  show "\<exists>t. dm_transfer_end i s = Inr t \<and> dmac_ok t" using transfer_end_ok [of s i] assms by (simp add: steady_def)
qed (auto simp: dm_transfer_end_def intro: ok_post_mono [OF deactivate_control] ok_post_mono [OF deactivate_cycles])

lemma steady_update_stadr:
  assumes "steady n s" shows "ok_post (update_stadr a s) (steady n)"
proof -
  have "steady n (s\<lparr>dm_STADR := a\<rparr>)" using assms by (subst steady_cong [of _ s]) simp_all
  then show ?thesis by (simp add: update_stadr_def Let_def steady_set_request)
qed

text \<open>The IOP side of the SIF does not touch the controller.\<close>

lemma steady_iop_request:
  "steady n (id_set_request i s) = steady n s" "steady n (id_clear_request i s) = steady n s"
proof -
  have f: "dm_control (id_set_request i s) = dm_control s" "dm_cycles_to_run (id_set_request i s) = dm_cycles_to_run s"
    "dm_control (id_clear_request i s) = dm_control s" "dm_cycles_to_run (id_clear_request i s) = dm_cycles_to_run s"
    by (simp_all add: id_set_request_def id_clear_request_def Let_def put_ch_def active_dma_check_def
        deactivate_dma_def id_find_new_active_channel_def split: option.splits)
  show "steady n (id_set_request i s) = steady n s" by (rule steady_cong) (simp_all add: id_request_frame f)
  show "steady n (id_clear_request i s) = steady n s" by (rule steady_cong) (simp_all add: id_request_frame f)
qed

lemma steady_read_SIF0:
  assumes "steady n s" shows "ok_post (read_SIF0 s) (\<lambda>(_, t). steady n t)"
proof (cases "SIF0_FIFO s")
  case (Cons w rest)
  let ?t = "id_set_request IOP_SIF0 (s\<lparr>SIF0_FIFO := rest\<rparr>)"
  have "steady n (s\<lparr>SIF0_FIFO := rest\<rparr>)" using assms by (subst steady_cong [of _ s]) simp_all
  then have t: "steady n ?t" by (simp add: steady_iop_request)
  then have "ok_post (if get_SIF0_size ?t < 4 then dm_clear_request EE_SIF0 ?t else Inr ?t) (steady n)"
    by (simp add: steady_clear_request)
  then show ?thesis
    unfolding read_SIF0_def Cons list.case Let_def by (rule ok_seq) simp
qed (simp add: read_SIF0_def)

lemma steady_write_SIF1:
  assumes "steady n s" shows "ok_post (write_SIF1 q s) (steady n)"
proof -
  have "steady n (s\<lparr>SIF1_FIFO := x\<rparr>)" for x using assms by (subst steady_cong [of _ s]) simp_all
  then show ?thesis
    by (simp add: write_SIF1_def Let_def steady_iop_request steady_clear_request)
qed


subsection \<open>The devices' part, and the transfer functions\<close>

text \<open>What is asked of VIFs, GIF, IPU and vector unit memories: they keep the controller's invariant
  and its budget. They may raise and drop request lines.\<close>

definition dev_steady :: "('d, 'a) ee_sys_scheme ee_dev \<Rightarrow> bool" where
  "dev_steady dev \<longleftrightarrow> (\<forall>n s. steady n s \<longrightarrow>
     (\<forall>v a q. steady n (dev_vu_store dev v a q s)) \<and>
     (\<forall>i q. ok_post (dev_vif_feed_DMA dev i q s) (\<lambda>(_, t). steady n t)) \<and>
     (\<forall>i q. ok_post (dev_vif_transfer_DMAtag dev i q s) (\<lambda>(_, t). steady n t)) \<and>
     ok_post (dev_vif1_readFIFO dev s) (\<lambda>(_, t). steady n t) \<and>
     (\<forall>b. ok_post (dev_gif_dma_running dev b s) (steady n)) \<and>
     ok_post (dev_gif_deactivate_PATH3 dev s) (steady n) \<and>
     (\<forall>q. ok_post (dev_gif_send_PATH3 dev q s) (steady n)) \<and>
     ok_post (dev_ipu_read_FIFO dev s) (\<lambda>(_, t). steady n t) \<and>
     (\<forall>q. ok_post (dev_ipu_write_FIFO dev q s) (steady n)))"

lemma steady_store128: "dev_steady dev \<Longrightarrow> steady n s \<Longrightarrow> steady n (store128 dev a q s)"
  using steady_cong [of "s\<lparr>ee_scratchpad := m\<rparr>" s n for m] steady_cong [of "s\<lparr>ee_RDRAM := m\<rparr>" s n for m]
  by (simp add: store128_def dev_steady_def split: option.split)

lemma steady_mfifo: "steady n s \<Longrightarrow> steady n (snd (mfifo_handler i s))"
proof -
  assume ok: "steady n s"
  have put: "steady n (put_chan i (\<lambda>c. c\<lparr>dc_tag_address := f c\<rparr>) t)"
    "steady n (put_chan i (\<lambda>c. c\<lparr>dc_address := f c\<rparr>) t)" if "steady n t" for f and t :: "'a dmac_scheme"
    using that by (simp_all add: steady_put)
  have trig: "steady n (t\<lparr>dm_mfifo_empty_triggered := b\<rparr>) = steady n t" for b and t :: "'a dmac_scheme"
    by (rule steady_cong) simp_all
  show ?thesis
    unfolding mfifo_handler_def Let_def
    using put(1) [OF ok] put(2) [OF put(1) [OF ok]] ok by (simp add: trig steady_raise_stat)
qed

lemma steady_advance_source: "steady n s \<Longrightarrow> steady n (advance_source_dma i s)"
  unfolding advance_source_dma_def Let_def
  by (auto intro!: steady_put steady_mfifo)

lemma steady_advance_dest: "steady n s \<Longrightarrow> ok_post (advance_dest_dma i s) (steady n)"
  unfolding advance_dest_dma_def Let_def
  by (auto intro!: steady_put steady_update_stadr)

lemma control_merge_8: "bit ((w AND 0xFFFF) OR (t AND 0xFFFF0000) :: u32) 8 = bit w 8"
  by (simp add: bit_simps)

subsection \<open>Tags\<close>

text \<open>What reading a tag leaves of a channel: its request line, and whether it runs.\<close>

definition same_run :: "dma_channel \<Rightarrow> dma_channel \<Rightarrow> bool" where
  "same_run c d \<longleftrightarrow> dc_dma_req d = dc_dma_req c \<and> dc_started d = dc_started c \<and>
     bit (dc_control d) 8 = bit (dc_control c) 8"

lemma put_asp_run: "a \<in> {0, 1, 2, 3, 4} \<Longrightarrow> same_run c d \<Longrightarrow> same_run c (put_asp a d)"
  by (auto simp: same_run_def put_asp_def bit_simps)

lemma asp_cases: "fld (c :: u32) k 2 \<in> {0, 1, 2, 3}"
proof -
  have "unat (fld c k 2) < 4" using fld_less [of 2 c k] by (simp add: word_less_nat_alt)
  then have "unat (fld c k 2) \<in> {0, 1, 2, 3}" by auto
  then have "(of_nat (unat (fld c k 2)) :: u32) \<in> of_nat ` {0, 1, 2, 3}" by blast
  then show ?thesis by simp
qed

lemma source_tag_call_run: "same_run c d \<Longrightarrow> ok_post (source_tag_call addr d) (same_run c)"
  using asp_cases [of "dc_control d" 4]
  by (auto simp: source_tag_call_def Let_def same_run_def put_asp_def bit_simps)

lemma source_tag_ret_run: "same_run c d \<Longrightarrow> same_run c (source_tag_ret d)"
  using asp_cases [of "dc_control d" 4]
  by (auto simp: source_tag_ret_def Let_def same_run_def put_asp_def bit_simps)

lemma source_tag_run: "ok_post (source_tag tag w c) (same_run c)"
proof -
  have "same_run c (c\<lparr>dc_control := (dc_control c AND 0xFFFF) OR (tag AND 0xFFFF0000),
      dc_is_spr := spr_address (w AND 0xFFFFFFF0), dc_tag_id := ucast (fld tag 28 3),
      dc_quadword_count := tag AND 0xFFFF, dc_can_stall_drain := False\<rparr>)" (is "same_run c ?d")
    by (simp add: same_run_def control_merge_8)
  then have "ok_post (source_tag_call (w AND 0xFFFFFFF0) ?d) (same_run c)"
    and "same_run c (source_tag_ret ?d)" and "same_run c ?d"
    by (simp_all add: source_tag_call_run source_tag_ret_run)
  then show ?thesis
    unfolding source_tag_def Let_def
    by (intro ok_seq [where P = "same_run c"] ok_post_if) (simp_all add: same_run_def)
qed

lemma steady_put_at:
  assumes "steady n s" "same_run (dm_channels s i) c" shows "steady n (put_chan i (\<lambda>_. c) s)"
proof -
  have "put_chan i (\<lambda>_. c) s = put_chan i (\<lambda>d. if d = dm_channels s i then c else d) s"
    by (simp add: put_chan_def)
  then show ?thesis
    using steady_put [OF assms(1), of "\<lambda>d. if d = dm_channels s i then c else d" i] assms(2)
    by (auto simp: same_run_def)
qed

lemma steady_toggle:
  assumes "steady n s" shows "ok_post (toggle_PCR tag s) (steady n)"
proof -
  have "steady n (s\<lparr>dm_PCR := x\<rparr>)" for x using assms by (subst steady_cong [of _ s]) simp_all
  then show ?thesis using assms by (simp add: toggle_PCR_def Let_def)
qed

lemma steady_chain:
  assumes "steady n s" shows "ok_post (handle_source_chain dev i s) (steady n)"
  unfolding handle_source_chain_def Let_def
  by (intro ok_seq [OF source_tag_run] ok_seq [where P = "steady n"])
    (simp_all add: assms steady_put_at steady_arbitrate steady_toggle)

lemma steady_dest_tag: "steady n s \<Longrightarrow> steady n (put_chan i (dest_tag t w) s)"
  by (rule steady_put) (simp_all add: dest_tag_def Let_def control_merge_8)

subsection \<open>The transfer functions\<close>

abbreviation steady2 :: "int \<Rightarrow> 'b \<times> 'a dmac_scheme \<Rightarrow> bool" where
  "steady2 n \<equiv> \<lambda>(_, t). steady n t"

abbreviation steady3 :: "int \<Rightarrow> 'b \<times> 'c \<times> 'a dmac_scheme \<Rightarrow> bool" where
  "steady3 n \<equiv> \<lambda>(_, _, t). steady n t"

lemma steady_loop:
  assumes step: "\<And>s. steady n s \<Longrightarrow> ok_post (f s) (steady2 n)"
  shows "steady n s \<Longrightarrow> ok_post (quad_loop f k c s) (steady3 n)"
proof (induction k arbitrary: c s)
  case (Suc k)
  show ?case
    unfolding quad_loop.simps
    by (rule ok_seq [OF step [OF Suc.prems]], rule ok_prod)
      (auto simp: Suc.IH split: loop_exit.split)
qed simp

lemma steady_transfer_quads:
  assumes "\<And>s. steady n s \<Longrightarrow> ok_post (f s) (steady2 n)" "steady n s"
  shows "ok_post (transfer_quads i f s) (steady3 n)"
  using assms steady_loop [of n f s] by (simp add: transfer_quads_def)

lemma steady_counted: "ok_post r (steady n) \<Longrightarrow> ok_post (counted c r) (steady2 n)"
  by (cases r) (simp_all add: counted_def)

lemma seq2: "ok_post m (steady2 n) \<Longrightarrow> (\<And>x t. steady n t \<Longrightarrow> ok_post (f (x, t)) Q) \<Longrightarrow> ok_post (rbind m f) Q"
  by (cases m) auto

lemma seq3: "ok_post m (steady3 n) \<Longrightarrow> (\<And>x y t. steady n t \<Longrightarrow> ok_post (f (x, y, t)) Q) \<Longrightarrow> ok_post (rbind m f) Q"
  by (cases m) auto

lemma seq1: "ok_post m (steady n) \<Longrightarrow> (\<And>t. steady n t \<Longrightarrow> ok_post (f t) Q) \<Longrightarrow> ok_post (rbind m f) Q"
  by (cases m) auto

lemma steady_stop: "steady n s \<Longrightarrow> ok_post (stop_arbitrating s) (steady2 n)"
  unfolding stop_arbitrating_def by (rule seq1 [OF steady_arbitrate]) simp_all

lemma steady_stall:
  assumes "\<And>s. steady n s \<Longrightarrow> ok_post (f s) (steady n)" "steady n s"
  shows "ok_post (stall_test i f s) (steady2 n)"
proof -
  have put: "steady n t \<Longrightarrow> steady n (put_chan i (\<lambda>c. c\<lparr>dc_has_dma_stalled := b\<rparr>) t)" for t b
    by (rule steady_put) simp_all
  show ?thesis
    unfolding stall_test_def Let_def
    by (intro ok_post_if seq1 [OF steady_clear_request] seq1 [where n = n] assms(1))
      (simp_all add: assms put steady_raise_stat)
qed

lemma dev_keeps:
  assumes "dev_steady dev" and "steady n s"
  shows "steady n (store128 dev a q s)" "ok_post (dev_vif_feed_DMA dev i q s) (steady2 n)"
    "ok_post (dev_vif_transfer_DMAtag dev i q s) (steady2 n)" "ok_post (dev_vif1_readFIFO dev s) (steady2 n)"
    "ok_post (dev_gif_dma_running dev b s) (steady n)" "ok_post (dev_gif_deactivate_PATH3 dev s) (steady n)"
    "ok_post (dev_gif_send_PATH3 dev q s) (steady n)" "ok_post (dev_ipu_read_FIFO dev s) (steady2 n)"
    "ok_post (dev_ipu_write_FIFO dev q s) (steady n)"
  using assms(1) assms(2) steady_store128 [OF assms] by (auto simp: dev_steady_def)

lemma steady_vif_quad: "dev_steady dev \<Longrightarrow> steady n s \<Longrightarrow> ok_post (vif_quad dev i s) (steady2 n)"
  unfolding vif_quad_def
  by (rule seq2 [where n = n, OF dev_keeps(2)]) (simp_all add: steady_advance_source)

lemma steady_vif_tag: "dev_steady dev \<Longrightarrow> steady n s \<Longrightarrow> ok_post (vif_tag dev i s) (steady n)"
  unfolding vif_tag_def
  by (intro ok_post_if seq2 [where n = n, OF dev_keeps(3)]) (simp_all add: steady_chain steady_arbitrate)

lemma steady_vif1_quad:
  assumes "dev_steady dev" "steady n s" shows "ok_post (vif1_quad dev s) (steady2 n)"
proof -
  have m: "steady n (snd (mfifo_handler VIF1 s))" using assms(2) by (rule steady_mfifo)
  show ?thesis
    unfolding vif1_quad_def Let_def
    by (rule ok_prod, intro ok_post_if seq2 [where n = n, OF dev_keeps(4)] ok_prod)
      (use m assms in \<open>simp_all add: steady_stop steady_vif_quad steady_advance_source steady_store128 split: prod.split\<close>)
qed

lemma steady_gif_starve: "dev_steady dev \<Longrightarrow> steady n s \<Longrightarrow> ok_post (gif_starve dev s) (steady n)"
  unfolding gif_starve_def by (rule seq1 [where n = n, OF steady_arbitrate]) (simp_all add: dev_keeps)

lemma steady_gif_quad:
  assumes "dev_steady dev" "steady n s" shows "ok_post (gif_quad dev s) (steady2 n)"
proof -
  have m: "steady n (snd (mfifo_handler GIF s))" using assms(2) by (rule steady_mfifo)
  show ?thesis
    unfolding gif_quad_def Let_def
    by (rule ok_prod, intro ok_post_if seq1 [where n = n, OF dev_keeps(7)] seq1 [where n = n, OF steady_gif_starve])
      (use m assms in \<open>simp_all add: steady_advance_source\<close>)
qed

lemma steady_ipu_quads:
  assumes "dev_steady dev" "steady n s"
  shows "ok_post (ipu_from_quad dev s) (steady2 n)" "ok_post (ipu_to_quad dev s) (steady2 n)"
  unfolding ipu_from_quad_def ipu_to_quad_def
  by (intro ok_post_if seq2 [where n = n, OF dev_keeps(8)] seq1 [where n = n, OF steady_advance_dest] seq1 [where n = n, OF dev_keeps(9)];
      simp add: assms steady_store128 steady_advance_source)+

lemma steady_ee_sif_quads:
  assumes "dev_steady dev" "steady n s"
  shows "ok_post (ee_sif0_quad dev s) (steady2 n)" "ok_post (ee_sif1_quad dev s) (steady2 n)"
  unfolding ee_sif0_quad_def ee_sif1_quad_def
  by (intro seq2 [where n = n, OF steady_read_SIF0] seq1 [where n = n, OF steady_advance_dest] seq1 [where n = n, OF steady_write_SIF1] ok_prod;
      simp add: assms steady_store128 steady_advance_source)+

lemma steady_interleave:
  assumes "steady n s" shows "ok_post (interleave i s) (steady2 n)"
proof -
  have put: "steady n (put_chan i (\<lambda>c. c\<lparr>dc_interleaved_qwc := f c\<rparr>) t)"
    "steady n (put_chan i (\<lambda>c. c\<lparr>dc_interleaved_qwc := f c, dc_address := g c\<rparr>) t)" if "steady n t" for f g t
    using that by (simp_all add: steady_put)
  show ?thesis
    unfolding interleave_def Let_def
    by (intro ok_post_if seq1 [where n = n, OF steady_arbitrate]) (simp_all add: assms put)
qed

lemma steady_drain: "steady n s \<Longrightarrow> steady n (drain_ring s)"
  by (simp add: drain_ring_def steady_put)

lemma steady_next_spr: "steady n s \<Longrightarrow> steady n (next_spr i s)"
  by (simp add: next_spr_def steady_put)

lemma steady_spr_quads:
  assumes "dev_steady dev" "steady n s"
  shows "ok_post (spr_from_quad dev s) (steady2 n)" "ok_post (spr_to_quad dev s) (steady2 n)"
  unfolding spr_from_quad_def spr_to_quad_def Let_def
  by (intro seq1 [where n = n, OF steady_advance_dest] seq2 [where n = n, OF steady_interleave] ok_prod steady_interleave;
      simp add: assms steady_store128 steady_advance_source steady_drain steady_next_spr)+

text \<open>The rules of one step, for the proofs about whole turns.\<close>

lemmas steady_steps = steady_transfer_end steady_vif_tag steady_arbitrate steady_chain steady_gif_starve
  steady_update_stadr steady_store128 steady_next_spr steady_mfifo

lemma steady_after_stall:
  assumes "ok_post m (steady2 n)" "\<And>t. steady n t \<Longrightarrow> ok_post (g t) (steady2 n)"
  shows "ok_post (rbind m (\<lambda>(st, t). if st then Inr (0, t) else g t)) (steady2 n)"
  using assms by (cases m) auto

lemma steady_moved:
  assumes "ok_post m (steady3 n)" "\<And>t. steady n t \<Longrightarrow> ok_post (h t) (steady n)"
  shows "ok_post (rbind m (\<lambda>(cnt, _, t). counted cnt (h t))) (steady2 n)"
    "ok_post (rbind m (\<lambda>(cnt, r, t). if r then Inr (cnt, t) else counted cnt (h t))) (steady2 n)"
  using assms by (cases m; auto intro!: steady_counted)+

lemma steady_ready:
  assumes "\<And>t. steady n t \<Longrightarrow> ok_post (g t) (steady n)" "\<And>t. steady n t \<Longrightarrow> ok_post (h t) (steady n)" "steady n s"
  shows "ok_post (case mfifo_handler i s of (ready, t) \<Rightarrow> if ready then g t else h t) (steady n)"
  using assms steady_mfifo [OF assms(3), of i] by (auto split: prod.split)

lemma steady_process_VIF:
  assumes "dev_steady dev" "steady n s"
  shows "ok_post (process_VIF0 dev s) (steady2 n)" "ok_post (process_VIF1 dev s) (steady2 n)"
  unfolding process_VIF0_def process_VIF1_def Let_def
  by (intro steady_moved steady_transfer_quads steady_vif_quad ok_post_if steady_steps assms; assumption)
    (intro steady_after_stall ok_post_if steady_stall ok_Inr steady_moved steady_transfer_quads
      steady_vif1_quad steady_ready steady_steps assms; simp add: assms)

lemma steady_process_GIF:
  assumes "dev_steady dev" "steady n s" shows "ok_post (process_GIF dev s) (steady2 n)"
  unfolding process_GIF_def Let_def
  by (intro seq1 [where n = n, OF dev_keeps(5)] steady_after_stall ok_post_if steady_stall ok_Inr steady_moved
      steady_transfer_quads steady_gif_quad steady_ready steady_steps assms; simp add: assms dev_keeps)

lemma steady_process_IPU:
  assumes "dev_steady dev" "steady n s"
  shows "ok_post (process_IPU_FROM dev s) (steady2 n)" "ok_post (process_IPU_TO dev s) (steady2 n)"
proof -
  have stadr: "ok_post (rbind (if c then update_stadr a t else Inr t) (\<lambda>t. counted k (h t))) (steady2 n)"
    if "\<And>t. steady n t \<Longrightarrow> ok_post (h t) (steady n)" "steady n t" for c a t k and h :: "('a, 'b) ee_sys_scheme \<Rightarrow> _"
    by (intro seq1 [where n = n] ok_post_if steady_update_stadr ok_Inr steady_counted that)
  show "ok_post (process_IPU_FROM dev s) (steady2 n)"
    unfolding process_IPU_FROM_def
    by (intro seq3 [where n = n] ok_prod steady_transfer_quads steady_ipu_quads assms; assumption?)
      (simp only: prod.case, intro stadr ok_post_if steady_steps assms; simp)
  show "ok_post (process_IPU_TO dev s) (steady2 n)"
    unfolding process_IPU_TO_def
    by (intro steady_moved steady_transfer_quads steady_ipu_quads ok_post_if steady_steps assms; assumption)
qed

lemma steady_process_SIF:
  assumes "dev_steady dev" "steady n s"
  shows "ok_post (ee_process_SIF0 dev s) (steady2 n)" "ok_post (ee_process_SIF1 dev s) (steady2 n)"
proof -
  have tag: "steady n (put_chan EE_SIF0 (\<lambda>c. (dest_tag w v c)\<lparr>dc_is_spr := b\<rparr>) t)" if "steady n t" for w v b t
    using that by (rule steady_put) (simp_all add: dest_tag_def Let_def control_merge_8)
  show "ok_post (ee_process_SIF0 dev s) (steady2 n)"
    unfolding ee_process_SIF0_def
    by (intro steady_moved steady_loop steady_ee_sif_quads ok_post_if steady_steps assms
        seq2 [where n = n, OF steady_read_SIF0] ok_prod tag ok_Inr; (simp only: prod.case)?;
        (intro seq2 [where n = n, OF steady_read_SIF0] ok_prod steady_steps tag)?;
        (simp only: prod.case)?; (intro steady_steps tag)?; simp)
  show "ok_post (ee_process_SIF1 dev s) (steady2 n)"
    unfolding ee_process_SIF1_def
    by (intro steady_after_stall ok_post_if steady_stall ok_Inr steady_moved steady_transfer_quads
      steady_ee_sif_quads steady_steps assms; simp add: assms)
qed

lemma steady_process_SPR:
  assumes "dev_steady dev" "steady n s"
  shows "ok_post (process_SPR_FROM dev s) (steady2 n)" "ok_post (process_SPR_TO dev s) (steady2 n)"
proof -
  have tag: "steady n (put_chan SPR_FROM (\<lambda>c. (dest_tag w v c)\<lparr>dc_scratchpad_address := f c\<rparr>) t)"
    if "steady n t" for w v f t
    using that by (rule steady_put) (simp_all add: dest_tag_def Let_def control_merge_8)
  show "ok_post (process_SPR_FROM dev s) (steady2 n)"
    unfolding process_SPR_FROM_def Let_def
    by (intro steady_moved steady_transfer_quads steady_spr_quads ok_post_if steady_steps assms tag ok_Inr; assumption)
  have "steady n (if c then next_spr SPR_TO (store128 dev a q t) else t)" if "steady n t" for c a q t
    using that assms(1) by (simp add: steady_steps)
  then show "ok_post (process_SPR_TO dev s) (steady2 n)"
    unfolding process_SPR_TO_def Let_def
    by (intro steady_moved steady_transfer_quads steady_spr_quads ok_post_if steady_transfer_end steady_chain assms
      ok_Inr) assumption+
qed

lemma steady_process:
  assumes "dev_steady dev" "steady n s" shows "ok_post (ee_process_channel dev i s) (steady2 n)"
  unfolding ee_process_channel_def
  by (intro ok_post_if steady_process_VIF steady_process_GIF steady_process_IPU steady_process_SIF
      steady_process_SPR assms) simp

subsection \<open>Running ends\<close>

lemma steady_cycles: "steady n s \<Longrightarrow> steady m (s\<lparr>dm_cycles_to_run := m\<rparr>)"
  using dmac_ok_cong [of "s\<lparr>dm_cycles_to_run := m\<rparr>" s] by (simp add: steady_def stall_dest_ok_def)

text \<open>A turn costs at least one cycle of the budget, and leaves none when no channel is active.\<close>

definition turn_post :: "int \<Rightarrow> 'a dmac_scheme \<Rightarrow> bool" where
  "turn_post n s \<longleftrightarrow> (\<exists>m < n. steady m s \<and> (dm_active s = None \<longrightarrow> m = 0))"

lemma turn_spends:
  fixes s :: "('d, 'a) ee_sys_scheme"
  assumes "dev_steady dev" "steady n s" "0 < n"
  shows "ok_post (dmac_turn dev i s) (turn_post n)"
  unfolding dmac_turn_def
proof (rule ok_seq [OF steady_process [OF assms(1,2)]], rule ok_prod)
  fix x k and t :: "('d, 'a) ee_sys_scheme"
  assume t: "steady2 n x" and x: "x = (k :: nat, t)"
  define t1 where "t1 = t\<lparr>dm_cycles_to_run := dm_cycles_to_run t - max (int k) 1\<rparr>"
  define t2 where "t2 = (if \<not> dc_is_spr (dm_channels t1 i)
      then t1\<lparr>dm_cycles_to_run := dm_cycles_to_run t1 - 12\<rparr> else t1)"
  have t1: "steady (n - max (int k) 1) t1"
    using t x steady_cycles [of n t] by (simp add: t1_def steady_def)
  then have t2: "steady (dm_cycles_to_run t2) t2" "dm_cycles_to_run t2 < n"
    using steady_cycles [OF t1] by (auto simp: t2_def steady_def)
  have "turn_post n (if dm_active t2 = None then t2\<lparr>dm_cycles_to_run := 0\<rparr> else t2)"
    using t2 steady_cycles [OF t2(1), of 0] assms(3) by (auto simp: turn_post_def)
  then show "ok_post (let s = t\<lparr>dm_cycles_to_run := dm_cycles_to_run t - max (int k) 1\<rparr>;
        s = if \<not> dc_is_spr (dm_channels s i) then s\<lparr>dm_cycles_to_run := dm_cycles_to_run s - 12\<rparr> else s
      in Inr (if dm_active s = None then s\<lparr>dm_cycles_to_run := 0\<rparr> else s)) (turn_post n)"
    unfolding Let_def t2_def t1_def ok_post.simps .
qed

definition run_post :: "'a dmac_scheme \<Rightarrow> bool" where
  "run_post t \<longleftrightarrow> dmac_ok t \<and> stall_dest_ok t \<and> dm_cycles_to_run t \<le> 0"

lemma loop_returns:
  assumes dev: "dev_steady dev"
  shows "steady n s \<Longrightarrow> (dm_active s = None \<Longrightarrow> n \<le> 0) \<Longrightarrow> \<exists>r. dmac_loop dev s = Some r \<and> ok_post r run_post"
proof (induction "nat n" arbitrary: n s rule: less_induct)
  case less
  note unfold = dmac_loop.simps [of dev s]
  have n: "dm_cycles_to_run s = n" using less.prems(1) by (simp add: steady_def)
  show ?case
  proof (cases "0 < n")
    case True
    then obtain i where i: "dm_active s = Some i" using less.prems(2) by fastforce
    have post: "ok_post (dmac_turn dev i s) (turn_post n)" by (rule turn_spends [OF dev less.prems(1) True])
    show ?thesis
    proof (cases "dmac_turn dev i s")
      case (Inr t)
      then obtain m where m: "m < n" "steady m t" "dm_active t = None \<longrightarrow> m = 0"
        using post by (auto simp: turn_post_def)
      have "\<exists>r. dmac_loop dev t = Some r \<and> ok_post r run_post"
        by (rule less.hyps [OF _ m(2)]) (use m True in auto)
      then show ?thesis using unfold n True i Inr by simp
    qed (use unfold n True i in simp)
  next
    case False
    then show ?thesis using unfold n less.prems(1) by (simp add: run_post_def steady_def)
  qed
qed


text \<open>Devices that take everything, give nothing, and touch nothing.\<close>

definition quiet_devices :: "('d, 'a) ee_sys_scheme ee_dev" where
  "quiet_devices =
     \<lparr>dev_vu_fetch = (\<lambda>_ _ _. 0), dev_vu_store = (\<lambda>_ _ _ s. s),
      dev_vif_feed_DMA = (\<lambda>_ _ s. Inr (True, s)), dev_vif_transfer_DMAtag = (\<lambda>_ _ s. Inr (True, s)),
      dev_vif1_readFIFO = (\<lambda>s. Inr ((0, False), s)), dev_gif_dma_running = (\<lambda>_ s. Inr s),
      dev_gif_deactivate_PATH3 = Inr, dev_gif_can_send = (\<lambda>_. True), dev_gif_send_PATH3 = (\<lambda>_. Inr),
      dev_ipu_can_read_FIFO = (\<lambda>_. False), dev_ipu_read_FIFO = (\<lambda>s. Inr (0, s)),
      dev_ipu_can_write_FIFO = (\<lambda>_. True), dev_ipu_write_FIFO = (\<lambda>_. Inr)\<rparr>"

lemma quiet_devices_steady: "dev_steady quiet_devices"
  by (simp add: dev_steady_def quiet_devices_def)

text \<open>The toSPR channel alone runs, with one quadword to move.\<close>

definition spr_to_running :: "unit ee_sys" where
  "spr_to_running = (undefined :: unit ee_sys)
     \<lparr>dm_channels := (\<lambda>i. (undefined :: dma_channel)\<lparr>dc_dma_req := (i = SPR_TO), dc_started := (i = SPR_TO),
        dc_control := (if i = SPR_TO then 0x100 else 0)\<rparr>),
      dm_control := load_ctrl 1,
      dm_active := Some SPR_TO, dm_queue := [], dm_cycles_to_run := 0\<rparr>"

lemma spr_to_running_ok: "dmac_ok spr_to_running" "stall_dest_ok spr_to_running"
  by (auto simp: dmac_ok_def dm_good_def chcr_ok_def dm_slots_def dm_ready_def stall_dest_ok_def spr_to_running_def
      bit_simps load_ctrl_def fld_def)


subsection \<open>Chains\<close>

abbreviation asp_of :: "dma_channel \<Rightarrow> u32" where
  "asp_of c \<equiv> fld (dc_control c) 4 2"

lemma asp_merge: "fld (((c :: u32) AND 0xFFFF) OR (t AND 0xFFFF0000)) 4 2 = fld c 4 2"
  by (rule u32_eqI) (auto simp: reg_bits bit_simps)

lemma asp_put: "a \<in> {0, 1, 2, 3} \<Longrightarrow> asp_of (put_asp a c) = a"
  by (rule u32_eqI) (auto simp: put_asp_def reg_bits bit_simps less_Suc_eq numeral_eq_Suc)

text \<open>The tags, from the fields they set.\<close>

definition call_tag :: "u32 \<Rightarrow> bool" where "call_tag t \<longleftrightarrow> fld t 28 3 = 5"
definition ret_tag :: "u32 \<Rightarrow> bool" where "ret_tag t \<longleftrightarrow> fld t 28 3 = 6"

lemma put_asp_keeps [simp]:
  "dc_tag_address (put_asp a c) = dc_tag_address c" "dc_tag_save0 (put_asp a c) = dc_tag_save0 c"
  "dc_tag_save1 (put_asp a c) = dc_tag_save1 c"
  by (simp_all add: put_asp_def)

lemma call_effect:
  assumes "call_tag t" "asp_of c \<in> {0, 1}" "source_tag t w c = Inr d"
  shows "dc_tag_address d = w AND 0xFFFFFFF0" "asp_of d = asp_of c + 1"
    "dc_tag_save0 d = (if asp_of c = 0 then dc_tag_address c + 16 + push_bit 4 (t AND 0xFFFF) else dc_tag_save0 c)"
    "dc_tag_save1 d = (if asp_of c = 1 then dc_tag_address c + 16 + push_bit 4 (t AND 0xFFFF) else dc_tag_save1 c)"
  using assms
  by (auto simp: source_tag_def call_tag_def source_tag_call_def Let_def asp_merge asp_put split: if_splits)

lemma ret_effect:
  assumes "ret_tag t" "asp_of c \<in> {1, 2}" "source_tag t w c = Inr d"
  shows "dc_tag_address d = (if asp_of c = 1 then dc_tag_save0 c else dc_tag_save1 c)" "asp_of d = asp_of c - 1"
    "dc_tag_save0 d = dc_tag_save0 c" "dc_tag_save1 d = dc_tag_save1 c"
  using assms
  by (auto simp: source_tag_def ret_tag_def source_tag_ret_def Let_def asp_merge asp_put split: if_splits)

text \<open>What moving the quadwords between two tags leaves alone.\<close>

definition chain_kept :: "dma_channel \<Rightarrow> dma_channel \<Rightarrow> bool" where
  "chain_kept c d \<longleftrightarrow> asp_of d = asp_of c \<and> dc_tag_save0 d = dc_tag_save0 c \<and> dc_tag_save1 d = dc_tag_save1 c"

lemma chain_kept_refl [simp]: "chain_kept c c"
  by (simp add: chain_kept_def)

lemma mfifo_keeps_chain: "chain_kept (dm_channels s i) (dm_channels (snd (mfifo_handler i s)) i)"
  by (auto simp: mfifo_handler_def Let_def chain_kept_def put_chan_def raise_stat_def int1_check_def
      set_int1_signal_def)

lemma advance_keeps_chain: "chain_kept (dm_channels s i) (dm_channels (advance_source_dma i s) i)"
  using mfifo_keeps_chain [of "put_chan i (\<lambda>c. c\<lparr>dc_address := dc_address c + 16\<rparr>) s" i]
  by (auto simp: advance_source_dma_def Let_def chain_kept_def put_chan_def)

text \<open>C10: source chains nest calls two deep: after two calls and two returns, whatever the channel
  moved in between, each return continues behind the block of its own call, at the call tag's address
  plus the tag and its quadwords, and the stack pointer is back at zero.\<close>

theorem chain_calls_nest:
  assumes "call_tag t1" "call_tag t2" "ret_tag t3" "ret_tag t4" "asp_of c = 0"
    and "source_tag t1 w1 c = Inr c1" "chain_kept c1 d1" "source_tag t2 w2 d1 = Inr c2" "chain_kept c2 d2"
    and "source_tag t3 w3 d2 = Inr c3" "chain_kept c3 d3" "source_tag t4 w4 d3 = Inr c4"
  shows "dc_tag_address c1 = w1 AND 0xFFFFFFF0 \<and> dc_tag_address c2 = w2 AND 0xFFFFFFF0 \<and>
    dc_tag_address c3 = dc_tag_address d1 + 16 + push_bit 4 (t2 AND 0xFFFF) \<and>
    dc_tag_address c4 = dc_tag_address c + 16 + push_bit 4 (t1 AND 0xFFFF) \<and> asp_of c4 = 0"
proof -
  note c1 = call_effect [OF assms(1) _ assms(6)]
  have d1: "asp_of d1 = 1" "dc_tag_save0 d1 = dc_tag_address c + 16 + push_bit 4 (t1 AND 0xFFFF)"
    using c1 assms(5,7) by (simp_all add: chain_kept_def)
  note c2 = call_effect [OF assms(2) _ assms(8)]
  have d2: "asp_of d2 = 2" "dc_tag_save0 d2 = dc_tag_save0 d1"
    "dc_tag_save1 d2 = dc_tag_address d1 + 16 + push_bit 4 (t2 AND 0xFFFF)"
    using c2 d1 assms(9) by (simp_all add: chain_kept_def)
  note c3 = ret_effect [OF assms(3) _ assms(10)]
  have d3: "asp_of d3 = 1" "dc_tag_save0 d3 = dc_tag_save0 d2"
    using c3 d2 assms(11) by (simp_all add: chain_kept_def)
  note c4 = ret_effect [OF assms(4) _ assms(12)]
  show ?thesis using c1 c2 c3 c4 d1 d2 d3 assms(5) by simp
qed

lemma call_defined:
  "call_tag t \<Longrightarrow> asp_of c \<in> {0, 1} \<Longrightarrow> \<exists>d. source_tag t w c = Inr d"
  by (auto simp: source_tag_def call_tag_def source_tag_call_def Let_def asp_merge)

lemma ret_defined: "ret_tag t \<Longrightarrow> \<exists>d. source_tag t w c = Inr d"
  by (auto simp: source_tag_def ret_tag_def Let_def)

definition chain_start :: dma_channel where
  "chain_start = (undefined :: dma_channel)\<lparr>dc_control := 0x105, dc_tag_address := 0x100\<rparr>"

theorem chain_calls_nest_witness:
  "\<exists>c1 c2 c3 c4. source_tag 0x50000002 0x1000 chain_start = Inr c1 \<and>
     source_tag 0x50000001 0x2000 c1 = Inr c2 \<and> source_tag 0x60000000 0 c2 = Inr c3 \<and>
     source_tag 0x60000000 0 c3 = Inr c4 \<and> dc_tag_address c3 = 0x1020 \<and> dc_tag_address c4 = 0x130"
proof -
  have t: "call_tag 0x50000002" "call_tag 0x50000001" "ret_tag 0x60000000" and z: "asp_of chain_start = 0"
    by (simp_all add: call_tag_def ret_tag_def fld_def mask_eq_exp_minus_1 chain_start_def)
  obtain c1 where c1: "source_tag 0x50000002 0x1000 chain_start = Inr c1"
    using call_defined [OF t(1)] z by auto
  have a1: "asp_of c1 = 1" using call_effect [OF t(1) _ c1] z by simp
  obtain c2 where c2: "source_tag 0x50000001 0x2000 c1 = Inr c2"
    using call_defined [OF t(2)] a1 by auto
  obtain c3 where c3: "source_tag 0x60000000 0 c2 = Inr c3" using ret_defined [OF t(3)] by auto
  obtain c4 where c4: "source_tag 0x60000000 0 c3 = Inr c4" using ret_defined [OF t(3)] by auto
  show ?thesis
    using chain_calls_nest [OF t(1,2,3,3) z c1 chain_kept_refl c2 chain_kept_refl c3 chain_kept_refl c4]
      c1 c2 c3 c4 by (simp add: chain_start_def)
qed

subsection \<open>Blocks to the scratchpad\<close>

text \<open>A byte of a quadword read from memory, and of one written.\<close>

lemma bit_byte_fold:
  "n < 128 \<Longrightarrow> bit (fold (\<lambda>i q. q OR push_bit (8 * i) (ucast (m i :: u8))) [0..<k] (0 :: quad)) n \<longleftrightarrow>
     n div 8 < k \<and> bit (m (n div 8)) (n mod 8)"
proof (induction k)
  case (Suc k)
  have "8 * k \<le> n \<and> bit (m k) (n - 8 * k) \<longleftrightarrow> n div 8 = k \<and> bit (m k) (n mod 8)" (is "?l \<longleftrightarrow> ?r")
  proof
    assume l: ?l
    then have "n - 8 * k < 8" using bit_imp_le_length [of "m k" "n - 8 * k"] by simp
    then have "n div 8 = k" using l by (intro div_nat_eqI) auto
    then show ?r using l by (auto simp: modulo_nat_def mult.commute)
  qed (auto simp: modulo_nat_def mult.commute)
  then show ?case using Suc by (auto simp: bit_simps less_Suc_eq)
qed simp

lemma quad_get_byte:
  assumes "k < 16" shows "ucast (drop_bit (8 * k) (quad_get m a)) = m (a + of_nat k)"
proof (rule bit_word_eqI)
  fix j assume j: "j < LENGTH(8)"
  then have "(8 * k + j) div 8 = k" "(8 * k + j) mod 8 = j" by (auto intro: div_nat_eqI)
  then show "bit (ucast (drop_bit (8 * k) (quad_get m a)) :: u8) j = bit (m (a + of_nat k)) j"
    using j assms bit_byte_fold [of "8 * k + j" "\<lambda>i. m (a + of_nat i)" 16]
    by (simp add: quad_get_def bit_simps)
qed

text \<open>Writing the quadword read at \<open>b\<close> to \<open>a\<close> copies sixteen bytes.\<close>

lemma quad_copy:
  "quad_put a (quad_get m b) m' x = (if unat (x - a) < 16 then m (b + (x - a)) else m' x)"
  using quad_get_byte [of "unat (x - a)" m b] by (simp add: quad_put_def)

text \<open>A block of whole quadwords below a power of two.\<close>

definition quads_in :: "nat \<Rightarrow> u32 \<Rightarrow> nat \<Rightarrow> bool" where
  "quads_in k a n \<longleftrightarrow> unat a mod 16 = 0 \<and> unat a + 16 * n \<le> 2 ^ k"

lemma quads_in_bits:
  assumes "quads_in k a (Suc n)" "k < 32" "bit a i" shows "4 \<le> i \<and> i < k"
proof -
  have t: "unat (take_bit m a) = unat a mod 2 ^ m" for m
    by (simp add: unsigned_take_bit_eq take_bit_nat_def)
  have "take_bit 4 a = 0" "take_bit k a = a"
    using assms(1,2) t [of 4] t [of k] by (auto simp: quads_in_def word_unat_eq_iff)
  then show ?thesis using assms(3) by (metis bit_0_eq bit_take_bit_iff bot_apply bot_bool_def not_le)
qed

lemma quads_in_next:
  assumes "quads_in k a (Suc n)" "k < 32" shows "quads_in k (a + 16) n" "unat (a + 16) = unat a + 16"
proof -
  have "(2 :: nat) ^ k \<le> 2 ^ 31" using assms(2) by (intro power_increasing) auto
  then have "unat a + 16 < 2 ^ 32" using assms(1) by (simp add: quads_in_def)
  then show u: "unat (a + 16) = unat a + 16" by (simp add: unat_word_ariths)
  then show "quads_in k (a + 16) n" using assms(1) by (simp add: quads_in_def)
qed

lemma fetch_ram:
  assumes "quads_in 25 a (Suc n)"
  shows "fetch128 dev (a AND 0x7FFFFFFF) s = quad_get (ee_RDRAM s) a"
proof -
  note b = quads_in_bits [OF assms]
  have 1: "a AND 0x7FFFFFFF = a" and 2: "a AND 0x1FFFFF0 = a"
    by (rule u32_eqI; use b in \<open>auto simp: bit_simps less_Suc_eq numeral_eq_Suc\<close>)+
  have "bit (a AND 0x70000000) 30 = bit a 30" "bit (0x70000000 :: u32) 30" by (simp_all add: bit_simps)
  then have "\<not> spr_address a"
    using b [of 31] b [of 30] by (auto simp: spr_address_def tst_iff_bit)
  moreover have "\<not> 0x11000000 \<le> a"
    using assms by (simp add: quads_in_def word_le_nat_alt)
  ultimately show ?thesis
    by (simp add: fetch128_def 1 2 vu_region_def)
qed

lemma store_spr:
  assumes "quads_in 14 a (Suc n)"
  shows "store128 dev (a OR 0x80000000) q s = s\<lparr>ee_scratchpad := quad_put a q (ee_scratchpad s)\<rparr>"
proof -
  note b = quads_in_bits [OF assms]
  have "(a OR 0x80000000) AND 0x3FF0 = a"
    by (rule u32_eqI; use b in \<open>auto simp: bit_simps less_Suc_eq numeral_eq_Suc\<close>)
  moreover have "spr_address (a OR 0x80000000)" by (simp add: spr_address_def reg_bits bit_simps)
  ultimately show ?thesis by (simp add: store128_def)
qed

text \<open>A toSPR channel that moves whole blocks: normal mode, not the drain of a memory FIFO.\<close>

definition spr_block :: "('d, 'a) ee_sys_scheme \<Rightarrow> bool" where
  "spr_block s \<longleftrightarrow> chan_mode SPR_TO s = 0 \<and> d_mem_drain_channel (dm_control s) \<le> 3"

text \<open>Memory \<open>m'\<close> with \<open>k\<close> quadwords copied to \<open>b\<close> from \<open>a\<close> in \<open>m\<close>.\<close>

definition copied :: "u32 \<Rightarrow> u32 \<Rightarrow> u32 \<Rightarrow> (u32 \<Rightarrow> u8) \<Rightarrow> (u32 \<Rightarrow> u8) \<Rightarrow> u32 \<Rightarrow> u8" where
  "copied k a b m m' x = (if unat (x - b) < 16 * unat k then m (a + (x - b)) else m' x)"

definition spr_moved :: "u32 \<Rightarrow> ('d, 'a) ee_sys_scheme \<Rightarrow> ('d, 'a) ee_sys_scheme" where
  "spr_moved k s = (let c = dm_channels s SPR_TO in
     put_chan SPR_TO (\<lambda>c. c\<lparr>dc_scratchpad_address := dc_scratchpad_address c + 16 * k,
         dc_address := dc_address c + 16 * k, dc_quadword_count := dc_quadword_count c - k\<rparr>)
       (s\<lparr>ee_scratchpad := copied k (dc_address c) (dc_scratchpad_address c) (ee_RDRAM s) (ee_scratchpad s)\<rparr>))"

lemma quad_copy_fun: "quad_put b (quad_get m a) m' = copied 1 a b m m'"
  by (rule ext) (simp add: quad_copy copied_def)

lemma spr_quad_moves:
  assumes "spr_block s" "quads_in 25 (dc_address (dm_channels s SPR_TO)) (Suc n)"
    and "quads_in 14 (dc_scratchpad_address (dm_channels s SPR_TO)) (Suc m)"
  shows "spr_to_quad dev s = Inr (Next, spr_moved 1 s)"
proof -
  have d: "int (unat (d_mem_drain_channel (dm_control s))) - 1 \<noteq> int SPR_TO"
  proof -
    have "unat (d_mem_drain_channel (dm_control s)) \<le> 3"
      using assms(1) by (simp add: spr_block_def word_le_nat_alt)
    then show ?thesis by linarith
  qed
  have "mfifo_handler SPR_TO t = (True, t)" if "dm_control t = dm_control s" for t :: "('a, 'b) ee_sys_scheme"
    using d that by (simp add: mfifo_handler_def)
  then have adv: "advance_source_dma SPR_TO t = put_chan SPR_TO
      (\<lambda>c. c\<lparr>dc_address := dc_address c + 16, dc_quadword_count := dc_quadword_count c - 1\<rparr>) t"
    if "dm_control t = dm_control s" "chan_mode SPR_TO t = 0" for t :: "('a, 'b) ee_sys_scheme"
    using that by (simp add: advance_source_dma_def put_chan_def Let_def)
  have il: "interleave SPR_TO t = Inr (Next, t)" if "chan_mode SPR_TO t = 0" for t :: "('a, 'b) ee_sys_scheme"
    using that by (simp add: interleave_def)
  have m: "chan_mode SPR_TO s = 0" using assms(1) by (simp add: spr_block_def)
  show ?thesis
    unfolding spr_to_quad_def Let_def fetch_ram [OF assms(2)] store_spr [OF assms(3)] next_spr_def quad_copy_fun
    by (subst adv; (subst il)?; use m in \<open>simp add: chan_mode_def put_chan_def spr_moved_def Let_def\<close>)
qed

lemma block_extends:
  fixes d j k :: u32
  assumes "unat j + unat k \<le> 1024"
  shows "unat d < 16 * (unat j + unat k) \<longleftrightarrow> unat d < 16 * unat k \<or> unat (d - 16 * k) < 16 * unat j"
proof -
  have "unat d < 2 ^ LENGTH(32)" by (rule unsigned_less)
  moreover have "unat (16 * k) = 16 * unat k" using assms by (simp add: unat_word_ariths)
  ultimately show ?thesis using assms by (auto simp: unat_sub_if')
qed

lemma copied_step:
  assumes "unat j + unat k \<le> 1024"
  shows "copied j (a + 16 * k) (b + 16 * k) m (copied k a b m m') = copied (j + k) a b m m'"
proof (rule ext)
  fix x
  have u: "unat (j + k) = unat j + unat k" using assms by (simp add: unat_word_ariths)
  have src: "a + 16 * k + (x - (b + 16 * k)) = a + (x - b)" by simp
  show "copied j (a + 16 * k) (b + 16 * k) m (copied k a b m m') x = copied (j + k) a b m m' x"
    using block_extends [OF assms, of "x - b"] unfolding copied_def u src by (simp add: diff_diff_eq)
qed

lemma spr_moved_step:
  assumes "unat j + unat k \<le> 1024" shows "spr_moved j (spr_moved k s) = spr_moved (j + k) s"
  using copied_step [OF assms]
  by (simp add: spr_moved_def Let_def put_chan_def distrib_left diff_diff_eq ac_simps)

lemma spr_block_moved [simp]: "spr_block (spr_moved k s) = spr_block s"
  by (simp add: spr_block_def spr_moved_def Let_def chan_mode_def put_chan_def)

lemma spr_loop_moves:
  assumes "spr_block s" "quads_in 25 (dc_address (dm_channels s SPR_TO)) n"
    and "quads_in 14 (dc_scratchpad_address (dm_channels s SPR_TO)) n"
  shows "quad_loop (spr_to_quad dev) n c s = Inr (c + n, False, spr_moved (of_nat n) s)"
  using assms
proof (induction n arbitrary: c s)
  case 0
  then show ?case by (simp add: spr_moved_def Let_def put_chan_def copied_def [abs_def])
next
  case (Suc n)
  let ?t = "spr_moved 1 s"
  have n: "n < 1024" using Suc.prems(3) by (simp add: quads_in_def)
  have t: "quads_in 25 (dc_address (dm_channels ?t SPR_TO)) n"
    "quads_in 14 (dc_scratchpad_address (dm_channels ?t SPR_TO)) n"
    using quads_in_next [OF Suc.prems(2)] quads_in_next [OF Suc.prems(3)]
    by (simp_all add: spr_moved_def Let_def put_chan_def)
  have moved: "spr_moved (of_nat n) ?t = spr_moved (of_nat (Suc n)) s"
  proof -
    have "unat (of_nat n :: u32) + unat (1 :: u32) \<le> 1024"
      using n by (simp add: unat_of_nat take_bit_nat_eq_self)
    from spr_moved_step [OF this] show ?thesis by (simp only: of_nat_Suc add.commute)
  qed
  have step: "quad_loop (spr_to_quad dev) (Suc n) c s = quad_loop (spr_to_quad dev) n (c + 1) ?t"
    by (simp add: spr_quad_moves [OF Suc.prems])
  have rest: "quad_loop (spr_to_quad dev) n (c + 1) ?t = Inr (c + 1 + n, False, spr_moved (of_nat n) ?t)"
    by (rule Suc.IH [OF _ t]) (simp only: spr_block_moved Suc.prems(1))
  have "c + 1 + n = c + Suc n" by simp
  then show ?case by (simp only: step rest moved)
qed

text \<open>C9: a turn of the toSPR channel in normal mode moves the smaller of the quadwords left and
  those up to the next boundary of eight: exactly those bytes of memory are now in the scratchpad, and
  nothing else in it has changed; address, scratchpad address and count have advanced with them, and
  a channel whose count reaches zero with its end flag set ends its transfer.\<close>

theorem spr_to_copies_block:
  fixes s :: "('d, 'a) ee_sys_scheme"
  assumes "spr_block s" and "qwc SPR_TO s \<noteq> 0" and n: "n = quads_to_transfer SPR_TO s"
    and "quads_in 25 (dc_address (dm_channels s SPR_TO)) n"
    and "quads_in 14 (dc_scratchpad_address (dm_channels s SPR_TO)) n"
    and "dc_tag_end (dm_channels s SPR_TO)"
  shows "process_SPR_TO dev s = (if qwc SPR_TO s = of_nat n
    then rbind (dm_transfer_end SPR_TO (spr_moved (of_nat n) s)) (\<lambda>t. Inr (n, t))
    else Inr (n, spr_moved (of_nat n) s))"
proof -
  have "qwc SPR_TO (spr_moved (of_nat n) s) = qwc SPR_TO s - of_nat n"
    "dc_tag_end (dm_channels (spr_moved (of_nat n) s) SPR_TO)"
    using assms(6) by (simp_all add: qwc_def spr_moved_def Let_def put_chan_def)
  then show ?thesis
    using spr_loop_moves [OF assms(1,4,5), of dev 0] assms(2) n
    by (auto simp: process_SPR_TO_def transfer_quads_def counted_def)
qed

definition spr_copying :: "unit ee_sys" where
  "spr_copying = (undefined :: unit ee_sys)
     \<lparr>dm_channels := (\<lambda>_. (undefined :: dma_channel)\<lparr>dc_control := 0x100, dc_address := 0x1000,
        dc_scratchpad_address := 0, dc_quadword_count := 9, dc_tag_end := True\<rparr>),
      dm_control := load_ctrl 1, ee_RDRAM := \<lambda>a. ucast a\<rparr>"

theorem spr_to_copies_block_witness:
  "\<exists>t. process_SPR_TO quiet_devices spr_copying = Inr (8, t) \<and> ee_scratchpad t 0x7E = 0x7E"
proof -
  have b: "spr_block spr_copying" and q: "qwc SPR_TO spr_copying = 9"
    and d: "dc_address (dm_channels spr_copying SPR_TO) = 0x1000"
      "dc_scratchpad_address (dm_channels spr_copying SPR_TO) = 0" "dc_tag_end (dm_channels spr_copying SPR_TO)"
    by (simp_all add: spr_copying_def spr_block_def chan_mode_def load_ctrl_def fld_def qwc_def mask_eq_exp_minus_1)
  have "(min 9 (8 - (drop_bit 4 0x1000 AND 7)) :: u32) = 8" by simp
  then have n: "8 = quads_to_transfer SPR_TO spr_copying"
    using q d by (simp add: quads_to_transfer_def qwc_def)
  have "process_SPR_TO quiet_devices spr_copying = Inr (8, spr_moved 8 spr_copying)"
    using spr_to_copies_block [OF b _ n, of quiet_devices] q d by (simp add: quads_in_def)
  moreover have "ee_scratchpad (spr_moved 8 spr_copying) 0x7E = 0x7E"
    by (simp add: spr_moved_def Let_def put_chan_def copied_def d) (simp add: spr_copying_def)
  ultimately show ?thesis by blast
qed

end
