(* ===== verification/Serial_Correct.thy ===== *)
theory Serial_Correct
  imports Gamepad Memcard
begin

unbundle bit_operations_syntax

section \<open>Properties of the pad and the memory card\<close>

text \<open>
  Sessions of the two devices of the serial interface: what a poll of the pad returns in each mode,
  the bounds of the pad's buffers, the write/read round trip of the memory card over whole
  transactions, and where either leaves its arrays.
\<close>

subsection \<open>The pad\<close>

text \<open>The bytes of one transaction behind the selecting byte, and what comes back.\<close>

fun pad_feed :: "(u8 list \<Rightarrow> u8) \<Rightarrow> u8 list \<Rightarrow> gamepad \<Rightarrow> (u8 list \<times> gamepad) res" where
  "pad_feed past [] g = Inr ([], g)"
| "pad_feed past (b # bs) g =
     rbind (pad_write_SIO past b g) (\<lambda>(r, g). rbind (pad_feed past bs g) (\<lambda>(rs, g). Inr (r # rs, g)))"

lemma put_bytes_eq:
  "i + length xs \<le> length buf \<Longrightarrow> put_bytes i xs buf = take i buf @ xs @ drop (i + length xs) buf"
proof (induction i xs buf rule: put_bytes.induct)
  case (2 i x xs buf)
  then have "i < length buf" by simp
  then have "take (Suc i) (buf[i := x]) = take i buf @ [x]" by (simp add: take_Suc_conv_app_nth)
  with 2 show ?case by simp
qed simp

text \<open>While a poll is answered, each byte fetches the next one of the buffer.\<close>

lemma poll_bytes:
  assumes "gp_command g = 0x42" and "0 < gp_data_count g"
    and "gp_data_count g + length bs \<le> gp_command_length g + 1"
    and "gp_data_count g + length bs < length (gp_command_buffer g)"
  shows "pad_feed past bs g =
           Inr (take (length bs) (drop (Suc (gp_data_count g)) (gp_command_buffer g)),
                g\<lparr>gp_data_count := gp_data_count g + length bs\<rparr>)"
  using assms
proof (induction bs arbitrary: g)
  case (Cons b bs)
  let ?g = "g\<lparr>gp_data_count := Suc (gp_data_count g)\<rparr>" and ?i = "Suc (gp_data_count g)"
  have "pad_write_SIO past b g = Inr (gp_command_buffer g ! ?i, ?g)"
    using Cons.prems by (simp add: pad_write_SIO_def pad_param_def Let_def)
  moreover have "pad_feed past bs ?g =
      Inr (take (length bs) (drop (Suc ?i) (gp_command_buffer g)),
           g\<lparr>gp_data_count := gp_data_count g + length (b # bs)\<rparr>)"
    using Cons.IH [of ?g] Cons.prems by simp
  moreover have "drop ?i (gp_command_buffer g) = gp_command_buffer g ! ?i # drop (Suc ?i) (gp_command_buffer g)"
    using Cons.prems by (simp add: Cons_nth_drop_Suc)
  ultimately show ?case by simp
qed simp

text \<open>What the buffer holds for a poll.\<close>

definition stick_bytes :: "gamepad \<Rightarrow> u8 list" where
  "stick_bytes g = [gp_joysticks g Stick_right Axis_x, gp_joysticks g Stick_right Axis_y,
     gp_joysticks g Stick_left Axis_x, gp_joysticks g Stick_left Axis_y]"

definition pressure_bytes :: "gamepad \<Rightarrow> u8 list" where
  "pressure_bytes g = map (\<lambda>b. gp_button_pressure g ! button_id b) pressures"

definition poll_reply :: "gamepad \<Rightarrow> u8 list" where
  "poll_reply g =
     [0x5A, ucast (gp_buttons g AND 0xFF), ucast (drop_bit 8 (gp_buttons g))] @
     (if gp_mode g = DIGITAL then [] else stick_bytes g) @
     (if gp_mode g = DS2_NATIVE \<and> \<not> gp_config_mode g then pressure_bytes g else [])"

lemma length_pressures [simp]: "length pressures = 12" "length (pressure_bytes g) = 12"
  by (simp_all add: pressures_def pressure_bytes_def)

lemma put_bytes_append: "put_bytes i (xs @ ys) buf = put_bytes (i + length xs) ys (put_bytes i xs buf)"
  by (induction i xs buf rule: put_bytes.induct) simp_all

lemma put_bytes_read:
  "i + length xs \<le> length buf \<Longrightarrow> take (length xs) (drop i (put_bytes i xs buf)) = xs"
  by (simp add: put_bytes_eq)

lemma length_poll_reply:
  "length (poll_reply g) = (if gp_mode g = DIGITAL then 3 else if gp_mode g = ANALOG \<or> gp_config_mode g then 7 else 19)"
  by (cases "gp_mode g") (simp_all add: poll_reply_def stick_bytes_def)

lemma read_data_eq:
  "read_data g = (pad_mode_code (gp_mode g),
     g\<lparr>gp_command_buffer := put_bytes 2 (poll_reply g) (gp_command_buffer g),
       gp_command_length := length (poll_reply g) + 2\<rparr>)"
  unfolding length_poll_reply
  by (cases "gp_mode g"; cases "gp_config_mode g")
    (simp_all only: read_data_def Let_def poll_reply_def put_bytes_append stick_bytes_def
      pressure_bytes_def, simp_all)


definition demo_pad :: gamepad where
  "demo_pad = (pad_reset (undefined\<lparr>gp_command_buffer := replicate 25 0, gp_button_pressure := replicate 16 0,
     gp_mask_mode := replicate 7 0\<rparr>))\<lparr>gp_mode := ANALOG\<rparr>"

lemma demo_pad_wf: "pad_wf demo_pad"
  by (simp add: demo_pad_def pad_wf_def pad_reset_def reset_vibrate_def)



lemma pad_feed_wf: "pad_wf g \<Longrightarrow> ok_post (pad_feed past bs g) (\<lambda>(rs, g'). pad_wf g' \<and> length rs = length bs)"
proof (induction bs arbitrary: g)
  case (Cons b bs)
  have "ok_post (pad_write_SIO past b g) (\<lambda>(r, g'). pad_wf g')"
    using pad_write_wf [OF Cons.prems] by (intro ok_postI) auto
  then show ?case
    unfolding pad_feed.simps
    by (rule ok_seq) (auto intro!: ok_seq [OF Cons.IH])
qed simp

lemma pad_feed_undefined:
  "pad_wf g \<Longrightarrow> pad_feed past bs g = Inl (Undefined m) \<Longrightarrow>
     \<exists>k rs g'. k < length bs \<and> pad_feed past (take k bs) g = Inr (rs, g') \<and>
       gp_command g' = 0x4D \<and> 9 \<le> gp_data_count g'"
proof (induction bs arbitrary: g)
  case (Cons b bs)
  show ?case
  proof (cases "pad_write_SIO past b g")
    case (Inl e)
    then have "gp_command g = 0x4D \<and> 9 \<le> gp_data_count g"
      using Cons.prems pad_write_undefined by auto
    then show ?thesis by (intro exI [of _ 0]) simp
  next
    case (Inr x)
    obtain r g1 where x: "x = (r, g1)" by (cases x)
    have wf: "pad_wf g1" using pad_write_wf [OF Cons.prems(1)] Inr x by simp
    have "pad_feed past bs g1 = Inl (Undefined m)"
      using Cons.prems(2) Inr x by (auto simp: rbind_eq_Inl)
    from Cons.IH [OF wf this] obtain k rs g' where k: "k < length bs"
      "pad_feed past (take k bs) g1 = Inr (rs, g')" "gp_command g' = 0x4D" "9 \<le> gp_data_count g'"
      by blast
    then show ?thesis
      using Inr x by (intro exI [of _ "Suc k"] exI [of _ "r # rs"] exI [of _ g']) simp
  qed
qed simp



lemma vibration_bytes:
  assumes "pad_wf g" "gp_command g = 0x4D" "gp_command_length g = 9" "0 < gp_data_count g"
    and "gp_data_count g + length bs \<le> 9"
  shows "\<exists>rs g'. pad_feed past bs g = Inr (rs, g') \<and> pad_wf g' \<and> gp_command g' = 0x4D \<and>
           gp_command_length g' = 9 \<and> gp_data_count g' = gp_data_count g + length bs"
  using assms
proof (induction bs arbitrary: g)
  case (Cons b bs)
  let ?g = "g\<lparr>gp_data_count := gp_data_count g + 1\<rparr>"
  let ?h = "if 2 \<le> gp_data_count g then ?g\<lparr>gp_rumble_values := (gp_rumble_values g)[gp_data_count g - 1 := b]\<rparr> else ?g"
  have h: "pad_param past b ?g = Inr ?h"
    using Cons.prems by (simp add: pad_param_def Let_def pad_wf_def)
  then obtain r where step: "pad_write_SIO past b g = Inr (r, ?h)"
    using Cons.prems by (simp add: pad_write_SIO_def pad_wf_def del: One_nat_def)
  have "pad_wf ?h" by (rule pad_write_wf [OF Cons.prems(1) step])
  then show ?case using step Cons.IH [of ?h] Cons.prems by auto
qed simp

lemma pad_feed_snoc:
  "pad_feed past bs g = Inr (rs, g') \<Longrightarrow> pad_write_SIO past v g' = Inl e \<Longrightarrow>
     pad_feed past (bs @ [v]) g = Inl e"
  by (induction bs arbitrary: g rs) (auto simp: rbind_eq_Inr)

text \<open>A ninth parameter byte of the vibration command is stored behind the array of eight rumble
  values.\<close>

lemma pad_vibration_overrun:
  assumes "pad_wf g" and "gp_config_mode g" and "length bs = 8"
  shows "pad_feed past (0x4D # bs @ [v]) (snd (pad_start_transfer w g)) =
           Inl (Undefined ''index out of range'')"
proof -
  let ?g0 = "snd (pad_start_transfer w g)"
  let ?g1 = "?g0\<lparr>gp_command := 0x4D, gp_data_count := 1\<rparr>"
  obtain h where h: "pad_write_SIO past 0x4D ?g0 = Inr (0xF3, h)" "gp_command h = 0x4D"
    "gp_command_length h = 9" "gp_data_count h = 1"
    using assms(2) by (simp add: pad_start_transfer_def pad_write_SIO_def pad_command_def reset_vibrate_def)
  have "pad_wf h" by (rule pad_write_wf [OF pad_input_wf(4) [OF assms(1)] h(1)])
  from vibration_bytes [OF this h(2,3), of bs past] obtain rs k where k: "pad_feed past bs h = Inr (rs, k)"
    "pad_wf k" "gp_command k = 0x4D" "gp_command_length k = 9" "gp_data_count k = 9"
    using h(4) assms(3) by auto
  have "pad_write_SIO past v k = Inl (Undefined ''index out of range'')"
    by (rule pad_rumble_overrun) (simp_all add: k)
  from pad_feed_snoc [OF k(1) this] show ?thesis using h(1) by simp
qed

lemma pad_vibration_overrun_witness:
  "pad_feed (\<lambda>_. 0) (0x4D # replicate 8 0 @ [1])
     (snd (pad_start_transfer 1 (demo_pad\<lparr>gp_config_mode := True\<rparr>))) = Inl (Undefined ''index out of range'')"
  by (rule pad_vibration_overrun) (use demo_pad_wf in \<open>simp_all add: pad_wf_def\<close>)

subsection \<open>The memory card\<close>

text \<open>Transactions: each begins with the byte that selects the card.\<close>

fun transactions :: "u8 list list \<Rightarrow> memcard \<Rightarrow> (u8 list list \<times> memcard) res" where
  "transactions [] m = Inr ([], m)"
| "transactions (bs # rest) m =
     rbind (mc_exchange bs (mc_start_transfer m)) (\<lambda>(r, m).
     rbind (transactions rest m) (\<lambda>(rs, m). Inr (r # rs, m)))"

text \<open>C11: What is written to the memory card is read back: selecting a page and writing bytes, then
  selecting the page again and reading as many, returns the acknowledgement, the terminator, the
  bytes, their checksum and the terminator, for every page and length inside the card.\<close>

theorem memcard_write_read:
  assumes "unat (page_addr b0 b1 b2 b3) + unat n \<le> mc_size m" and "mc_size m < 2 ^ 32"
    and "length ds = unat n" and "length cs = unat n + 3"
  shows "\<exists>r1 r2 r3 m'. transactions [[0x22, b0, b1, b2, b3], 0x42 # n # ds,
             [0x23, b0, b1, b2, b3], 0x43 # n # cs] m =
           Inr ([r1, r2, r3, [0xFF, 0x2B, mc_terminator m] @ ds @ [do_checksum ds, mc_terminator m]], m') \<and>
         mc_mem m' = stored (unat (page_addr b0 b1 b2 b3)) ds (mc_mem m)"
proof -
  let ?a = "page_addr b0 b1 b2 b3"
  obtain r1 m1 where m1: "mc_exchange [0x22, b0, b1, b2, b3] (mc_start_transfer m) = Inr (r1, m1)"
    "mc_mem_addr m1 = ?a" "mc_mem m1 = mc_mem m" "mc_size m1 = mc_size m" "mc_terminator m1 = mc_terminator m"
    using sector_exchange [of "0x22" b0 b1 b2 b3 m] by auto
  obtain r2 m2 where m2: "mc_exchange (0x42 # n # ds) (mc_start_transfer m1) = Inr (r2, m2)"
    "mc_mem m2 = stored (unat ?a) ds (mc_mem m)" "mc_size m2 = mc_size m" "mc_terminator m2 = mc_terminator m"
    using write_exchange [of ds n m1] assms m1 by auto
  obtain r3 m3 where m3: "mc_exchange [0x23, b0, b1, b2, b3] (mc_start_transfer m2) = Inr (r3, m3)"
    "mc_mem_addr m3 = ?a" "mc_mem m3 = mc_mem m2" "mc_size m3 = mc_size m" "mc_terminator m3 = mc_terminator m"
    using sector_exchange [of "0x23" b0 b1 b2 b3 m2] m2(3,4) by auto
  obtain m4 where m4: "mc_exchange (0x43 # n # cs) (mc_start_transfer m3) = Inr (0xFF # read_reply n m3, m4)"
    "mc_mem m4 = mc_mem m3"
    using read_exchange [of m3 n cs] assms m3 by auto
  have "mem_bytes (unat ?a) (unat n) m3 = ds"
    using mem_bytes_stored [of m3 "unat ?a" ds m] m2(2) m3(3) assms(3) by simp
  then have "read_reply n m3 = [0x2B, mc_terminator m] @ ds @ [do_checksum ds, mc_terminator m]"
    by (simp add: read_reply_def Let_def m3(2,5))
  then show ?thesis using m1 m2 m3 m4 by simp
qed

definition demo_card :: memcard where
  "demo_card = mc_reset (mc_open (Some (\<lambda>_. 0xFF)) undefined)"

theorem memcard_write_read_witness:
  "\<exists>r1 r2 r3 m'. transactions [[0x22, 5, 0, 0, 0], [0x42, 2, 0xAB, 0xCD], [0x23, 5, 0, 0, 0],
       [0x43, 2, 0, 0, 0, 0, 0]] demo_card =
     Inr ([r1, r2, r3, [0xFF, 0x2B, 0x55, 0xAB, 0xCD, 0x66, 0x55]], m')"
  using memcard_write_read [of 5 0 0 0 2 demo_card "[0xAB, 0xCD]" "[0, 0, 0, 0, 0]"]
  by (auto simp: page_addr_def demo_card_def mc_reset_def mc_open_def mc_start_transfer_def do_checksum_def
      simp del: transactions.simps)

text \<open>The card's address is not checked: reading or erasing a page behind the card's memory is an
  access outside its array.\<close>

lemma memcard_address_unchecked:
  assumes "mc_size m < unat (page_addr b0 b1 b2 b3) + unat n" and "c \<in> {0x21, 0x22, 0x23}"
  shows "transactions [[c, b0, b1, b2, b3], [0x43, n]] m =
           Inl (Undefined ''memory card index out of range'')"
proof -
  obtain r1 m1 where m1: "mc_exchange [c, b0, b1, b2, b3] (mc_start_transfer m) = Inr (r1, m1)"
    "mc_mem_addr m1 = page_addr b0 b1 b2 b3" "mc_size m1 = mc_size m"
    using sector_exchange [OF assms(2), of b0 b1 b2 b3 m] by auto
  obtain m2 where m2: "mc_write_serial 0x43 (mc_start_transfer m1) = Inr (0xFF, m2)"
    "mc_cmd m2 = 0x43" "mc_cmd_length m2 = 132" "mc_cmd_params m2 = 0" "mc_mem_addr m2 = page_addr b0 b1 b2 b3"
    "mc_size m2 = mc_size m"
    using begin_read [OF refl, of m1] m1 by auto
  have "mc_write_serial n m2 = Inl (Undefined ''memory card index out of range'')"
    using m2 assms(1) by (simp add: mc_write_serial_def mc_continue_def Let_def read_mem_def mem_range_def)
  then show ?thesis using m1(1) m2(1) by simp
qed

lemma memcard_address_unchecked_witness:
  "transactions [[0x23, 0, 0x40, 0, 0], [0x43, 1]] demo_card =
     Inl (Undefined ''memory card index out of range'')"
  by (rule memcard_address_unchecked)
    (simp_all add: page_addr_def demo_card_def mc_reset_def mc_open_def mc_start_transfer_def)

end
