(* ===== verification/Iop_Bus_Frame.thy ===== *)
theory Iop_Bus_Frame
  imports Iop_Bus
begin

unbundle bit_operations_syntax

section \<open>The bus keeps its contract with the IOP\<close>

text \<open>
  No access through the memory map of theory \<open>Iop_Bus\<close> changes a register of the IOP: the proof
  goes through every operation the map reaches, and ends in the interpretation of \<open>iop_bus\<close> on
  the map, under which a slice of the IOP on the real bus ends with register 0 still zero.
\<close>

subsection \<open>Scheduler operations\<close>

definition sched_frame :: "'a sched_scheme \<Rightarrow> 'a sched_scheme \<Rightarrow> bool" where
  "sched_frame s s' \<longleftrightarrow> sched.more s' = sched.more s"

lemma ok_after: "(\<And>x. ok_post (f x) Q) \<Longrightarrow> ok_post (rbind m f) Q"
  by (cases m) simp_all

lemma sched_frame_refl: "sched_frame s s"
  by (simp add: sched_frame_def)

lemma sched_frame_set:
  "sched_frame s0 (s\<lparr>events := x\<rparr>) = sched_frame s0 s"
  "sched_frame s0 (s\<lparr>sch_timers := t\<rparr>) = sched_frame s0 s"
  "sched_frame s0 (s\<lparr>next_event_id := i\<rparr>) = sched_frame s0 s"
  "sched_frame s0 (s\<lparr>closest_event_time := c\<rparr>) = sched_frame s0 s"
  by (simp_all add: sched_frame_def)

lemma frame_put_timer: "sched_frame s0 s \<Longrightarrow> ok_post (put_timer tid f s) (sched_frame s0)"
  by (simp add: put_timer_def vec_at_def sched_frame_set)

lemma frame_update_counter:
  "sched_frame s0 s \<Longrightarrow> ok_post (update_timer_counter tid s) (sched_frame s0)"
  unfolding update_timer_counter_def
  by (auto simp: vec_at_def sched_frame_set intro!: ok_postI dest!: rbind_eq_Inr [THEN iffD1])

lemma frame_event_time:
  "sched_frame s0 s \<Longrightarrow> ok_post (update_timer_event_time tid s) (sched_frame s0)"
  unfolding update_timer_event_time_def Let_def
  by (auto simp: vec_at_def sched_frame_set intro!: ok_postI dest!: rbind_eq_Inr [THEN iffD1])

lemmas frame_timer = frame_put_timer frame_event_time frame_update_counter

lemma frame_get_counter:
  "sched_frame s0 s \<Longrightarrow> ok_post (get_timer_counter tid s) (\<lambda>x. sched_frame s0 (snd x))"
  unfolding get_timer_counter_def
  by (intro ok_after ok_seq [where P = "sched_frame s0"])
    (auto intro: frame_timer intro!: ok_after)

lemma frame_set_field:
  "sched_frame s0 s \<Longrightarrow> ok_post (set_timer_field f tid s) (sched_frame s0)"
  unfolding set_timer_field_def
  by (rule ok_seq [OF ok_vec_at])
    (auto intro!: ok_seq [where P = "sched_frame s0"] ok_seq [OF ok_vec_at] frame_timer)

lemma frame_set_pause:
  assumes "sched_frame s0 s"
  shows "ok_post (set_timer_pause tid b s) (sched_frame s0)"
proof -
  have park: "ok_post (rbind (update_timer_counter tid s) (\<lambda>s1.
      rbind (get_event_ptr i s1) (\<lambda>_. Inr (s1\<lparr>events := f s1\<rparr>)))) (sched_frame s0)" for i f
    by (rule ok_seq [OF frame_update_counter [OF assms]]) (auto intro!: ok_after simp: sched_frame_set)
  have resume: "ok_post (rbind (update_timer_event_time tid s) (put_timer tid f)) (sched_frame s0)" for f
    by (rule ok_seq [OF frame_event_time [OF assms]]) (rule frame_put_timer)
  show ?thesis
    unfolding set_timer_pause_def
    by (intro ok_after ok_post_if ok_Inr assms
        ok_seq [OF ok_post_if [OF park resume] frame_put_timer])
qed

lemma frame_add_event: "sched_frame s0 s \<Longrightarrow> ok_post (add_event f d p s) (\<lambda>x. sched_frame s0 (snd x))"
  by (simp add: add_event_def Let_def sched_frame_set)

subsection \<open>From the scheduler to the CPU\<close>

lemma sched_frame_cpu: "sched_frame s s' \<Longrightarrow> cpu_frame s s'" for s s' :: "'a iop_core_scheme"
  by (cases s, cases s') (simp add: sched_frame_def cpu_frame_def)

lemma cpu_frame_refl [simp]: "cpu_frame s s"
  by (simp add: cpu_frame_def)

lemma cpu_frame_trans: "cpu_frame s t \<Longrightarrow> cpu_frame t u \<Longrightarrow> cpu_frame s u"
  by (simp add: cpu_frame_def)

named_theorems cpu_rules \<open>operations of the bus that keep the CPU's registers\<close>

lemma sched_cpu [cpu_rules]:
  fixes s s0 :: "'a iop_core_scheme"
  assumes "cpu_frame s0 s"
  shows "ok_post (set_timer_counter tid c s) (cpu_frame s0)"
    and "ok_post (set_timer_target tid c s) (cpu_frame s0)"
    and "ok_post (set_timer_clockrate tid c s) (cpu_frame s0)"
    and "ok_post (set_timer_pause tid b s) (cpu_frame s0)"
    and "ok_post (set_timer_int_mask tid b b' s) (cpu_frame s0)"
    and "ok_post (get_timer_counter tid s) (\<lambda>x. cpu_frame s0 (snd x))"
    and "ok_post (add_event f d p s) (\<lambda>x. cpu_frame s0 (snd x))"
  unfolding set_timer_counter_def set_timer_target_def set_timer_clockrate_def set_timer_int_mask_def
  by (rule ok_post_mono [OF frame_set_field [OF sched_frame_refl]]
      ok_post_mono [OF frame_set_pause [OF sched_frame_refl]]
      ok_post_mono [OF frame_put_timer [OF sched_frame_refl]]
      ok_post_mono [OF frame_get_counter [OF sched_frame_refl]]
      ok_post_mono [OF frame_add_event [OF sched_frame_refl]];
      rule cpu_frame_trans [OF assms sched_frame_cpu]; assumption)+

subsection \<open>Devices\<close>

lemma cpu_frame_irq [simp]: "cpu_frame s0 (assert_irq i s) = cpu_frame s0 s"
  "cpu_frame s0 (iop_int_check s) = cpu_frame s0 s"
  by (simp_all add: assert_irq_def iop_int_check_def interrupt_check_def Let_def cpu_frame_def)

lemma cpu_frame_intc [simp]:
  "cpu_frame s0 (s\<lparr>I_STAT := x\<rparr>) = cpu_frame s0 s" "cpu_frame s0 (s\<lparr>I_MASK := x\<rparr>) = cpu_frame s0 s"
  "cpu_frame s0 (s\<lparr>I_CTRL := x\<rparr>) = cpu_frame s0 s"
  "cpu_frame s0 (u\<lparr>it_timers := ts\<rparr>) = cpu_frame s0 u"
  by (simp_all add: cpu_frame_def)

lemma cpu_put_it: "cpu_frame s0 s \<Longrightarrow> ok_post (put_it i f s) (cpu_frame s0)"
  by (simp add: put_it_def vec_at_def)

lemma cpu_timers:
  assumes "cpu_frame s0 s"
  shows "ok_post (it_read_counter i s) (\<lambda>x. cpu_frame s0 (snd x))"
    and "ok_post (it_read_control i s) (\<lambda>x. cpu_frame s0 (snd x))"
    and "ok_post (it_write_counter i v s) (cpu_frame s0)"
    and "ok_post (it_write_target i v s) (cpu_frame s0)"
proof -
  show "ok_post (it_read_counter i s) (\<lambda>x. cpu_frame s0 (snd x))"
    unfolding it_read_counter_def
    by (rule ok_after, rule ok_seq [OF sched_cpu(6) [OF assms]], rule ok_prod,
        rule ok_seq [OF cpu_put_it]) simp_all
  show "ok_post (it_read_control i s) (\<lambda>x. cpu_frame s0 (snd x))"
    unfolding it_read_control_def
    by (rule ok_after, rule ok_seq [OF cpu_put_it [OF assms]]) simp
  show "ok_post (it_write_counter i v s) (cpu_frame s0)"
    unfolding it_write_counter_def
    by (rule ok_seq [OF cpu_put_it [OF assms]]) (intro ok_after sched_cpu)
  show "ok_post (it_write_target i v s) (cpu_frame s0)"
    unfolding it_write_target_def
    by (rule ok_seq [OF cpu_put_it [OF assms]])
      (intro ok_after ok_seq [OF sched_cpu(2)] ok_post_if cpu_put_it ok_Inr)
qed

lemma cpu_timer_control:
  assumes "cpu_frame s0 s"
  shows "ok_post (it_write_control i v s) (cpu_frame s0)"
  unfolding it_write_control_def Let_def
  by (intro ok_after ok_post_if ok_Inl ok_seq [OF cpu_put_it [OF assms]] ok_seq [OF sched_cpu(3)]
      ok_seq [OF sched_cpu(1)] ok_seq [OF sched_cpu(4)] sched_cpu(5))

lemma cpu_timer_read: "cpu_frame s0 s \<Longrightarrow> ok_post (timer_read p s) (\<lambda>x. cpu_frame s0 (snd x))"
  by (cases p)
    (auto simp: with_state_def it_read_target_def vec_at_def intro!: cpu_timers(1)
      ok_seq [OF cpu_timers(1)] ok_seq [OF cpu_timers(2)])

lemma cpu_timer_write: "cpu_frame s0 s \<Longrightarrow> ok_post (timer_write p v s) (cpu_frame s0)"
proof (cases p)
  case (T_target_lo i)
  then show ?thesis if "cpu_frame s0 s" using that by (auto intro!: ok_after cpu_timers(4))
next
  case (T_target_hi i)
  then show ?thesis if "cpu_frame s0 s" using that by (auto intro!: ok_after cpu_timers(4))
qed (auto intro!: cpu_timers cpu_timer_control ok_prod ok_seq [OF cpu_timers(1)])

lemma cpu_frame_dma [simp]:
  "cpu_frame s0 (s\<lparr>iop_RAM := m\<rparr>) = cpu_frame s0 s"
  "cpu_frame s0 (s\<lparr>id_channels := cs\<rparr>) = cpu_frame s0 s"
  "cpu_frame s0 (s\<lparr>id_active := a\<rparr>) = cpu_frame s0 s"
  "cpu_frame s0 (s\<lparr>id_queue := q\<rparr>) = cpu_frame s0 s"
  "cpu_frame s0 (s\<lparr>id_priorities := pr\<rparr>) = cpu_frame s0 s"
  "cpu_frame s0 (s\<lparr>id_enable := en\<rparr>) = cpu_frame s0 s"
  "cpu_frame s0 (s\<lparr>id_force_IRQ := fi\<rparr>) = cpu_frame s0 s"
  "cpu_frame s0 (s\<lparr>id_STAT := st\<rparr>) = cpu_frame s0 s"
  "cpu_frame s0 (s\<lparr>id_MASK := ma\<rparr>) = cpu_frame s0 s"
  "cpu_frame s0 (s\<lparr>id_master_int_enable := me\<rparr>) = cpu_frame s0 s"
  by (simp_all add: cpu_frame_def)

lemma cpu_frame_requests [simp]:
  "cpu_frame s0 (put_ch i f s) = cpu_frame s0 s"
  "cpu_frame s0 (active_dma_check i s) = cpu_frame s0 s"
  "cpu_frame s0 (id_find_new_active_channel s) = cpu_frame s0 s"
  "cpu_frame s0 (deactivate_dma i s) = cpu_frame s0 s"
  "cpu_frame s0 (id_set_request i s) = cpu_frame s0 s"
  "cpu_frame s0 (id_clear_request i s) = cpu_frame s0 s"
proof -
  show put: "cpu_frame s0 (put_ch i f s) = cpu_frame s0 s" for f s
    by (simp add: put_ch_def)
  show check: "cpu_frame s0 (active_dma_check i s) = cpu_frame s0 s" for s
    by (simp add: active_dma_check_def split: option.split)
  show find: "cpu_frame s0 (id_find_new_active_channel s) = cpu_frame s0 s" for s
    by (simp add: id_find_new_active_channel_def Let_def)
  show drop: "cpu_frame s0 (deactivate_dma i s) = cpu_frame s0 s" for s
    by (simp add: deactivate_dma_def find)
  show "cpu_frame s0 (id_set_request i s) = cpu_frame s0 s"
    by (simp add: id_set_request_def Let_def check put)
  show "cpu_frame s0 (id_clear_request i s) = cpu_frame s0 s"
    by (simp add: id_clear_request_def Let_def drop put)
qed

lemma cpu_frame_dpcr [simp]: "cpu_frame s0 (load_dpcr base v s) = cpu_frame s0 s"
proof -
  have "cpu_frame s0 (fold (load_dpcr_chan base v) ks s) = cpu_frame s0 s" for ks
    by (induction ks arbitrary: s) (simp_all add: load_dpcr_chan_def Let_def)
  then show ?thesis by (simp add: load_dpcr_def)
qed

lemma cpu_frame_dicr [simp]: "cpu_frame s0 (load_dicr d v s) = cpu_frame s0 s"
  by (simp add: load_dicr_def Let_def)

lemma cpu_frame_sif [simp]:
  "cpu_frame s0 (set_smcom v s) = cpu_frame s0 s" "cpu_frame s0 (reset_msflag v s) = cpu_frame s0 s"
  "cpu_frame s0 (set_smflag v s) = cpu_frame s0 s" "cpu_frame s0 (set_control_IOP v s) = cpu_frame s0 s"
  by (simp_all add: set_smcom_def reset_msflag_def set_smflag_def set_control_IOP_def Let_def
      cpu_frame_def)

lemma cpu_frame_sio [simp]:
  "cpu_frame s0 (s\<lparr>sio_FIFO := q\<rparr>) = cpu_frame s0 s" "cpu_frame s0 (s\<lparr>sio_RECV1 := r\<rparr>) = cpu_frame s0 s"
  "cpu_frame s0 (s\<lparr>sio_pad := p\<rparr>) = cpu_frame s0 s" "cpu_frame s0 (s\<lparr>sio_memcard := m\<rparr>) = cpu_frame s0 s"
  "cpu_frame s0 (s\<lparr>sio_new_command := b\<rparr>) = cpu_frame s0 s"
  "cpu_frame s0 (s\<lparr>active_command := ac\<rparr>) = cpu_frame s0 s"
  "cpu_frame s0 (s\<lparr>sio_command_length := n\<rparr>) = cpu_frame s0 s"
  "cpu_frame s0 (s\<lparr>sio_port := pt\<rparr>) = cpu_frame s0 s" "cpu_frame s0 (s\<lparr>send3_port := sp\<rparr>) = cpu_frame s0 s"
  "cpu_frame s0 (s\<lparr>sio_control := c\<rparr>) = cpu_frame s0 s" "cpu_frame s0 (s\<lparr>sio_send1 := xs\<rparr>) = cpu_frame s0 s"
  "cpu_frame s0 (s\<lparr>sio_send2 := xs\<rparr>) = cpu_frame s0 s" "cpu_frame s0 (s\<lparr>sio_send3 := xs\<rparr>) = cpu_frame s0 s"
  by (simp_all add: cpu_frame_def)

lemma cpu_frame_push [simp]: "cpu_frame s0 (sio_push r s) = cpu_frame s0 s"
  by (simp add: sio_push_def)

lemma cpu_write_device:
  "cpu_frame s0 s \<Longrightarrow> ok_post (write_device past v s) (cpu_frame s0)"
  unfolding write_device_def pad_byte_def memcard_byte_def pad_start_transfer_def Let_def
  by (auto intro!: ok_after split: sio_device.split prod.split)

lemma cpu_write_serial: "cpu_frame s0 s \<Longrightarrow> ok_post (write_serial past v s) (cpu_frame s0)"
  unfolding write_serial_def next_command_def
  by (rule ok_seq [where P = "cpu_frame s0"]) (auto intro!: ok_after cpu_write_device)

lemma cpu_sio:
  assumes "cpu_frame s0 s"
  shows "ok_post (read_serial s) (\<lambda>x. cpu_frame s0 (snd x))"
    and "ok_post (send_buffer_write a v s) (cpu_frame s0)" and "cpu_frame s0 (sio_set_control v s)"
  using assms
  by (auto simp: read_serial_def send_buffer_write_def set_send1_def set_send2_def set_send3_def
      sio_set_control_def vec_set_def Let_def split: list.split)

lemma cpu_misc_read: "cpu_frame s0 s \<Longrightarrow> misc_read32 a s = Some x \<Longrightarrow> cpu_frame s0 (snd x)"
  by (auto simp: misc_read32_def read_ictrl_def split: if_splits)

lemma cpu_misc_write: "cpu_frame s0 s \<Longrightarrow> misc_write32 a v s = Some s' \<Longrightarrow> cpu_frame s0 s'"
  by (auto simp: misc_write32_def write_istat_def write_imask_def write_ictrl_def cpu_sio(3)
      split: if_splits)

lemma cpu_frame_firewire [simp]: "cpu_frame s0 (fw_write32 a v s) = cpu_frame s0 s"
proof -
  have fields: "cpu_frame s0 (readPHY s) = cpu_frame s0 s" "cpu_frame s0 (writePHY s) = cpu_frame s0 s"
    "cpu_frame s0 (s\<lparr>PHYAccess := v\<rparr>) = cpu_frame s0 s" for s :: "'a firewire_scheme"
    by (simp_all add: readPHY_def writePHY_def Let_def) (simp_all add: cpu_frame_def)
  have regs: "cpu_frame s0 (s\<lparr>fw_ctrl0 := x\<rparr>) = cpu_frame s0 s" "cpu_frame s0 (s\<lparr>fw_ctrl2 := x\<rparr>) = cpu_frame s0 s"
    "cpu_frame s0 (s\<lparr>fw_intr0 := x\<rparr>) = cpu_frame s0 s" "cpu_frame s0 (s\<lparr>fw_intr0mask := x\<rparr>) = cpu_frame s0 s"
    "cpu_frame s0 (s\<lparr>fw_intr1 := x\<rparr>) = cpu_frame s0 s" "cpu_frame s0 (s\<lparr>fw_intr1mask := x\<rparr>) = cpu_frame s0 s"
    "cpu_frame s0 (s\<lparr>fw_intr2 := x\<rparr>) = cpu_frame s0 s" "cpu_frame s0 (s\<lparr>fw_intr2mask := x\<rparr>) = cpu_frame s0 s"
    "cpu_frame s0 (s\<lparr>fw_dmaCtrlSR0 := x\<rparr>) = cpu_frame s0 s" "cpu_frame s0 (s\<lparr>fw_dmaCtrlSR1 := x\<rparr>) = cpu_frame s0 s"
    for x by (simp_all add: cpu_frame_def)
  show ?thesis by (simp add: fw_write32_def Let_def fields regs)
qed

subsection \<open>The unmodelled devices\<close>

lemma cpu_frame_sys [simp]:
  "cpu_frame s0 (s\<lparr>io_state := d\<rparr>) = cpu_frame s0 s" "cpu_frame s0 (s\<lparr>IOP_POST := p\<rparr>) = cpu_frame s0 s"
  "cpu_frame s0 (s\<lparr>iop_scratchpad := m\<rparr>) = cpu_frame s0 s"
  "cpu_frame s0 (s\<lparr>iop_scratchpad_start := a\<rparr>) = cpu_frame s0 s"
  by (simp_all add: cpu_frame_def)

lemma cpu_effect: "cpu_frame s0 s \<Longrightarrow> ok_post (io_effect e s) (cpu_frame s0)"
  unfolding io_effect_def
  by (auto split: io_effect.split intro!: ok_seq [OF sched_cpu(7)])

lemma cpu_effects: "cpu_frame s0 s \<Longrightarrow> ok_post (io_effects es s) (cpu_frame s0)"
  by (induction es arbitrary: s) (auto intro: ok_seq [OF cpu_effect])

lemma cpu_io:
  assumes "cpu_frame s0 s"
  shows "ok_post (io_get f s) (\<lambda>x. cpu_frame s0 (snd x))" and "ok_post (io_put g s) (cpu_frame s0)"
proof -
  have d: "cpu_frame s0 (s\<lparr>io_state := d\<rparr>)" for d using assms by simp
  show "ok_post (io_get f s) (\<lambda>x. cpu_frame s0 (snd x))"
    unfolding io_get_def
    by (rule ok_after, intro ok_prod, rule ok_seq [OF cpu_effects [OF d]]) simp
  show "ok_post (io_put g s) (cpu_frame s0)"
    unfolding io_put_def by (rule ok_after, intro ok_prod) (rule cpu_effects [OF d])
qed

lemma cpu_set_chan_control:
  assumes "cpu_frame s0 s"
  shows "ok_post (set_chan_control (dma_ports ports) i v s) (cpu_frame s0)"
proof -
  have start: "ok_post (dev_spu_start_DMA (dma_ports ports) k n t) (cpu_frame s0)"
    "ok_post (dev_spu_pause_DMA (dma_ports ports) k t) (cpu_frame s0)" if "cpu_frame s0 t" for k n t
    using cpu_io(2) [OF that] by (simp_all add: dma_ports_def)
  show ?thesis
    unfolding set_chan_control_def Let_def
    by (rule ok_seq [where P = "cpu_frame s0"])
      (auto simp: assms intro!: ok_seq [where P = "cpu_frame s0"] start split: option.split)
qed

subsection \<open>The accesses\<close>

lemma cpu_arrays:
  assumes "cpu_frame s0 s"
  shows "ok_post (with_state r s) (\<lambda>x. cpu_frame s0 (snd x))" and "ok_post (put_RAM f s) (cpu_frame s0)"
  using assms by (auto simp: with_state_def put_RAM_def intro!: ok_after)

lemma cpu_scratchpad: "cpu_frame s0 s \<Longrightarrow> ok_post (put_scratchpad f s) (cpu_frame s0)"
  by (auto simp: put_scratchpad_def intro!: ok_after)

lemma cpu_dma_write16: "cpu_frame s0 s \<Longrightarrow> cpu_frame s0 (dma_write16 p v s)"
  by (cases p) (simp_all add: set_chan_size_def set_chan_count_def)

lemma cpu_dma_write32: "cpu_frame s0 s \<Longrightarrow> ok_post (dma_write32 (dma_ports ports) p v s) (cpu_frame s0)"
  by (cases p) (simp_all add: set_chan_addr_def set_chan_block_def set_chan_tag_addr_def set_DPCR_def
      set_DPCR2_def set_DICR_def set_DICR2_def cpu_set_chan_control)

lemma cpu_reads:
  assumes "cpu_frame s0 s"
  shows "ok_post (emu_iop_read8 ports a s) (\<lambda>x. cpu_frame s0 (snd x))"
    and "ok_post (emu_iop_read16 ports a s) (\<lambda>x. cpu_frame s0 (snd x))"
    and "ok_post (emu_iop_read32 a s) (\<lambda>x. cpu_frame s0 (snd x))"
  unfolding emu_iop_read8_def emu_iop_read16_def emu_iop_read32_def
  using assms
  by (auto intro!: cpu_arrays cpu_io cpu_sio cpu_timer_read ok_seq [OF cpu_timer_read]
      dest: cpu_misc_read split: option.split)

lemma cpu_writes:
  assumes "cpu_frame s0 s"
  shows "ok_post (emu_iop_write8 ports past a b s) (cpu_frame s0)"
    and "ok_post (emu_iop_write16 ports a h s) (cpu_frame s0)"
    and "ok_post (emu_iop_write32 ports a v s) (cpu_frame s0)"
  unfolding emu_iop_write8_def emu_iop_write16_def emu_iop_write32_def
  using assms
  by (auto intro!: cpu_arrays cpu_io cpu_sio cpu_timer_write cpu_write_serial cpu_scratchpad
      cpu_dma_write16 cpu_dma_write32 dest: cpu_misc_write split: option.split)

interpretation emu_bus: iop_bus "emu_iop_mem ports past" for ports past
  using ok_postD [OF cpu_reads(1) [OF cpu_frame_refl]] ok_postD [OF cpu_reads(2) [OF cpu_frame_refl]]
    ok_postD [OF cpu_reads(3) [OF cpu_frame_refl]] ok_postD [OF cpu_writes(1) [OF cpu_frame_refl]]
    ok_postD [OF cpu_writes(2) [OF cpu_frame_refl]] ok_postD [OF cpu_writes(3) [OF cpu_frame_refl]]
  by unfold_locales (fastforce simp: emu_iop_mem_def)+

interpretation emu_cpu: cpu_on_bus "calm c" "emu_iop_mem ports past" for c ports past
  by (rule emu_bus.calm_on_bus)

text \<open>A drive and sound units that answer zero and do nothing.\<close>

definition quiet_ports :: "unit io_ports" where
  "quiet_ports =
     \<lparr>cdvd_read = (\<lambda>_ d. Inr (0, d, [])), cdvd_write = (\<lambda>_ _ d. Inr (d, [])),
      spu_read16 = (\<lambda>_ _ d. Inr (0, d, [])), spu_write16 = (\<lambda>_ _ _ d. Inr (d, [])),
      spu_start_DMA = (\<lambda>_ _ d. Inr (d, [])), spu_pause_DMA = (\<lambda>_ d. Inr (d, []))\<rparr>"

end
