(* ===== verification/Iop_Correct.thy ===== *)
theory Iop_Correct
  imports Iop_Bus_Frame
begin

unbundle bit_operations_syntax

section \<open>Properties of the IOP on its bus\<close>

text \<open>
  The properties of \<open>iop_interpreter.cpp\<close>, \<open>iop.cpp\<close> and \<open>iop_intc.cpp\<close>, with the memory
  map of theory \<open>Iop_Bus\<close> where an instruction accesses memory.
\<close>

subsection \<open>Slices\<close>

text \<open>C5: A slice of the IOP on its memory map returns, whatever program it runs and however the
  CD drive and the sound units respond, unless the code stops with an error: register 0 is still
  zero, the stall counter is not negative, and if the processor was running the whole budget is
  used up.\<close>

theorem iop_run_returns:
  assumes "iop_gpr s 0 = 0" and "0 \<le> iop_muldiv_delay s"
  shows "\<exists>r. iop_run (emu_iop_mem ports past) cycles s = Some r \<and>
           ok_post r (\<lambda>s'. iop_gpr s' 0 = 0 \<and> 0 \<le> iop_muldiv_delay s' \<and>
             (\<not> iop_wait_for_IRQ s \<longrightarrow> iop_cycles_to_run s' \<le> 0))"
proof (cases "iop_wait_for_IRQ s")
  case True
  with assms show ?thesis
    by (auto simp: iop_run_def iop_take_interrupt_def iop_interrupt_def iop_handle_exception_def
        iop_unhalt_def Let_def)
next
  case False
  let ?s = "s\<lparr>iop_cycles_to_run := iop_cycles_to_run s + cycles\<rparr>"
  have start: "calm (iop_cycles_to_run ?s) ?s" using assms by (simp add: calm_def)
  obtain r where r: "iop_loop (emu_iop_mem ports past) ?s = Some r" "ok_post r (calm 0)"
    using emu_bus.iop_loop_total [OF start] by blast
  have "ok_post (rbind r (\<lambda>s. Inr (iop_take_interrupt s))) (calm 0)"
    by (rule ok_seq [OF r(2)])
      (simp add: iop_take_interrupt_def iop_interrupt_def iop_handle_exception_def iop_unhalt_def
        Let_def calm_def)
  with False r(1) show ?thesis by (auto simp: iop_run_def calm_def elim: ok_post_mono)
qed

subsection \<open>Arithmetic of the 64-bit results\<close>

lemma split64: "push_bit 32 (ucast (ucast (drop_bit 32 t) :: u32)) OR ucast (ucast (t AND 0xFFFFFFFF) :: u32) = (t :: u64)"
proof -
  have m: "(0xFFFFFFFF :: u64) = mask 32" by (simp add: mask_eq_exp_minus_1)
  show ?thesis unfolding m
  by (rule bit_word_eqI) (auto simp: bit_simps)
qed
lemma split64s: "push_bit 32 (ucast (ucast (signed_drop_bit 32 t) :: u32)) OR ucast (ucast (t AND 0xFFFFFFFF) :: u32) = (t :: u64)"
proof -
  have m: "(0xFFFFFFFF :: u64) = mask 32" by (simp add: mask_eq_exp_minus_1)
  show ?thesis unfolding m
  proof (rule bit_word_eqI)
    fix n assume "n < LENGTH(64)"
    then show "bit (push_bit 32 (ucast (ucast (signed_drop_bit 32 t) :: u32)) OR ucast (ucast (t AND mask 32) :: u32) :: u64) n = bit t n"
      by (cases "32 \<le> n") (auto simp: bit_simps)
  qed
qed

lemma uint_product: "uint (ucast (a::u32) * ucast (b::u32) :: u64) = uint a * uint b"
proof -
  have up: "uint (ucast w :: u64) = uint w" for w :: u32 by (simp add: uint_up_ucast is_up)
  have "uint a < 2^32" "uint b < 2^32" using uint_lt2p[of a] uint_lt2p[of b] by simp_all
  then have "uint a * uint b < 2^32 * 2^32" by (intro mult_strict_mono') simp_all
  then have "take_bit 64 (uint a * uint b) = uint a * uint b" by (intro take_bit_int_eq_self) simp_all
  then show ?thesis
    by (simp only: uint_word_ariths up take_bit_eq_mod) simp
qed
lemma sint_product: "sint (scast (a::u32) * scast (b::u32) :: u64) = sint a * sint b"
proof -
  have up: "sint (scast w :: u64) = sint w" for w :: u32 by (simp add: sint_up_scast is_up)
  have "\<bar>sint a\<bar> \<le> 2^31" "\<bar>sint b\<bar> \<le> 2^31" using sint_less[of a] sint_less[of b] sint_ge[of a] sint_ge[of b] by simp_all
  then have "\<bar>sint a * sint b\<bar> \<le> 2^31 * 2^31" unfolding abs_mult by (intro mult_mono) simp_all
  then have "signed_take_bit 63 (sint a * sint b) = sint a * sint b" by (intro signed_take_bit_int_eq_self) simp_all
  then show ?thesis
    by (simp add: sint_word_ariths up del: scast_id)
qed

lemma int_sdiv:
  fixes n d :: int
  assumes "d \<noteq> 0"
  shows "n = (n sdiv d) * d + n smod d" and "\<bar>n smod d\<bar> < \<bar>d\<bar>" and "0 \<le> n * (n smod d)"
proof -
  have "(n sdiv d) * d = sgn n * (\<bar>n\<bar> div \<bar>d\<bar> * \<bar>d\<bar>)"
    using assms by (simp add: signed_divide_int_def abs_sgn algebra_simps)
  also have "\<dots> = sgn n * (\<bar>n\<bar> - \<bar>n\<bar> mod \<bar>d\<bar>)" by (simp add: minus_mod_eq_div_mult)
  also have "\<dots> = n - sgn n * (\<bar>n\<bar> mod \<bar>d\<bar>)" by (simp add: right_diff_distrib mult_sgn_abs)
  finally show "n = (n sdiv d) * d + n smod d"
    by (simp add: signed_modulo_int_def)
  have "0 \<le> \<bar>n\<bar> mod \<bar>d\<bar>" "\<bar>n\<bar> mod \<bar>d\<bar> < \<bar>d\<bar>" using assms by simp_all
  then show "\<bar>n smod d\<bar> < \<bar>d\<bar>" "0 \<le> n * (n smod d)"
    by (auto simp: signed_modulo_int_def abs_mult sgn_if zero_le_mult_iff)
qed

lemma sdiv_range:
  fixes n d :: u32
  assumes "d \<noteq> 0" and "\<not> (n = 0x80000000 \<and> d = 0xFFFFFFFF)"
  shows "- (2 ^ 31) \<le> sint n sdiv sint d \<and> sint n sdiv sint d < 2 ^ 31"
proof -
  let ?n = "sint n" and ?d = "sint d"
  have n: "- (2 ^ 31) \<le> ?n" "?n < 2 ^ 31" using sint_ge [of n] sint_less [of n] by simp_all
  have d: "?d \<noteq> 0" using assms(1) by (metis signed_word_eqI signed_0)
  have abs: "\<bar>?n sdiv ?d\<bar> = \<bar>?n\<bar> div \<bar>?d\<bar>"
    using d by (auto simp: signed_divide_int_def abs_mult abs_sgn_eq pos_imp_zdiv_nonneg_iff)
  consider "?d = 1" | "?d = - 1" | "2 \<le> \<bar>?d\<bar>" using d by linarith
  then show ?thesis
  proof cases
    case 2
    then have "sint d = sint (0xFFFFFFFF :: u32)" by simp
    then have "d = 0xFFFFFFFF" by (rule signed_word_eqI)
    with assms(2) have "sint n \<noteq> sint (0x80000000 :: u32)" by (metis signed_word_eqI)
    with 2 n show ?thesis by simp
  next
    case 3
    then have "\<bar>?n\<bar> div \<bar>?d\<bar> \<le> \<bar>?n\<bar> div 2" by (intro zdiv_mono2) simp_all
    with abs n show ?thesis by linarith
  qed (use n in simp)
qed
lemma sint_word_of_int: 
  assumes "- (2 ^ 31) \<le> k" "k < 2 ^ 31"
  shows "sint (word_of_int k :: u32) = k"
  using assms by (simp add: signed_of_int signed_take_bit_int_eq_self)

subsection \<open>Multiplication and division\<close>

lemma set_muldiv_delay_keeps [simp]:
  "iop_LO (set_muldiv_delay d s) = iop_LO s" "iop_HI (set_muldiv_delay d s) = iop_HI s"
  by (simp_all add: set_muldiv_delay_def Let_def)

definition hi_lo :: "'a iop_core_scheme \<Rightarrow> u64" where
  "hi_lo s = push_bit 32 (ucast (iop_HI s)) OR ucast (iop_LO s)"

text \<open>After \<open>mult\<close> the pair HI:LO is the full 64-bit product of the operands read as signed
  integers, after \<open>multu\<close> as unsigned integers.\<close>

lemma iop_mult_product:
  "sint (hi_lo (iop_mult i s)) = sint (get_gpr (i_rs i) s) * sint (get_gpr (i_rt i) s) \<and>
   uint (hi_lo (iop_multu i s)) = uint (get_gpr (i_rs i) s) * uint (get_gpr (i_rt i) s)"
  by (simp add: hi_lo_def iop_mult_def iop_multu_def Let_def split64 split64s sint_product
      uint_product del: scast_id)

text \<open>C33: \<open>div\<close> leaves a quotient in LO and a remainder in HI with dividend = quotient * divisor +
  remainder, the remainder smaller than the divisor and with the dividend's sign; \<open>divu\<close>
  does the same for unsigned operands.\<close>

theorem iop_div_euclid:
  fixes s :: "'a iop_core_scheme" and i :: u32
  defines "n \<equiv> get_gpr (i_rs i) s" and "d \<equiv> get_gpr (i_rt i) s"
  assumes "d \<noteq> 0" and "\<not> (n = 0x80000000 \<and> d = 0xFFFFFFFF)"
  shows "sint n = sint (iop_LO (iop_div i s)) * sint d + sint (iop_HI (iop_div i s)) \<and>
     \<bar>sint (iop_HI (iop_div i s))\<bar> < \<bar>sint d\<bar> \<and> 0 \<le> sint n * sint (iop_HI (iop_div i s)) \<and>
     uint n = uint (iop_LO (iop_divu i s)) * uint d + uint (iop_HI (iop_divu i s)) \<and>
     uint (iop_HI (iop_divu i s)) < uint d"
proof -
  have d: "sint d \<noteq> 0" using assms(3) by (metis signed_word_eqI signed_0)
  have "uint d \<noteq> 0" using assms(3) by (metis unsigned_word_eqI unsigned_0)
  with uint_ge_0 [of d] have "0 < uint d" by linarith
  note arith = int_sdiv [OF d, of "sint n"]
  have q: "sint (iop_LO (iop_div i s)) = sint n sdiv sint d"
    using sdiv_range [OF assms(3,4)] assms(3,4)
    by (auto simp: iop_div_def Let_def n_def d_def sint_word_of_int)
  have "\<bar>sint d\<bar> \<le> 2 ^ 31" using sint_ge [of d] sint_less [of d] by simp
  then have "- (2 ^ 31) \<le> sint n smod sint d" "sint n smod sint d < 2 ^ 31" using arith(2) by linarith+
  then have r: "sint (iop_HI (iop_div i s)) = sint n smod sint d"
    using assms(3,4) by (auto simp: iop_div_def Let_def n_def d_def sint_word_of_int)
  have u: "iop_LO (iop_divu i s) = n div d" "iop_HI (iop_divu i s) = n mod d"
    using assms(3) by (simp_all add: iop_divu_def Let_def n_def d_def)
  show ?thesis
    using arith \<open>0 < uint d\<close> by (simp add: q r u uint_div uint_mod)
qed

theorem iop_run_returns_witness:
  "\<exists>r. iop_run (emu_iop_mem quiet_ports (\<lambda>_. 0)) 100
        ((undefined :: unit iop_sys)\<lparr>iop_gpr := (\<lambda>_. 0), iop_muldiv_delay := 0,
           iop_wait_for_IRQ := False\<rparr>) = Some r \<and>
      ok_post r (\<lambda>s'. iop_cycles_to_run s' \<le> 0)"
  using iop_run_returns [of "(undefined :: unit iop_sys)\<lparr>iop_gpr := (\<lambda>_. 0), iop_muldiv_delay := 0,
      iop_wait_for_IRQ := False\<rparr>" quiet_ports "\<lambda>_. 0" 100]
  by (auto elim: ok_post_mono)

definition demo_operands :: "u32 \<Rightarrow> u32 \<Rightarrow> iop_core" where
  "demo_operands n d = (undefined :: iop_core)\<lparr>iop_gpr := (\<lambda>r. if r = 4 then n else d),
     iop_muldiv_delay := 0\<rparr>"

lemma demo_registers:
  "get_gpr (i_rs 0x0085001A) (demo_operands n d) = n" "get_gpr (i_rt 0x0085001A) (demo_operands n d) = d"
  by (simp_all add: get_gpr_def demo_operands_def i_rs_def i_rt_def fld_def
      mask_eq_exp_minus_1)

theorem iop_div_euclid_witness:
  "- 7 = sint (iop_LO (iop_div 0x0085001A (demo_operands (- 7) 2))) * 2
       + sint (iop_HI (iop_div 0x0085001A (demo_operands (- 7) 2)))"
  using iop_div_euclid [where s = "demo_operands (- 7) 2" and i = "0x0085001A"]
  by (simp add: demo_registers)

subsection \<open>Branches\<close>

text \<open>C28: A branch takes effect after exactly one more instruction: when an instruction outside
  a delay slot makes a branch pending, the next instruction executed is the one behind it, and the
  one after that is the branch's target - whatever the instruction in the delay slot is, another
  branch included, as long as it is not \<open>syscall\<close>.\<close>

theorem iop_delay_slot:
  assumes "iop_step (emu_iop_mem ports past) s = Inr s1" and "\<not> iop_will_branch s"
    and "iop_will_branch s1"
    and "iop_read_instr (emu_iop_mem ports past) (iop_PC s1) (iop_tick s1) = Inr (i, u)"
    and "\<not> is_syscall i" and "iop_step (emu_iop_mem ports past) s1 = Inr s2"
  shows "iop_PC s1 = iop_PC s + 4 \<and> iop_PC s2 = iop_new_PC s1 \<and> \<not> iop_will_branch s2"
proof -
  note slot = emu_bus.branch_step [OF assms(1-3)]
  show ?thesis
    using slot emu_bus.slot_step [OF assms(6) slot assms(4,5)] by (simp add: in_slot_def)
qed

text \<open>A \<open>j 0x1400\<close> at 0x1000 followed by \<open>j 0x1800\<close> in its delay slot.\<close>

definition demo_jump :: "unit iop_sys" where
  "demo_jump = (undefined :: unit iop_sys)\<lparr>iop_PC := 0x1000, iop_will_branch := False,
     iop_cache_control := 0x800, iop_muldiv_delay := 0, iop_cycles_to_run := 10,
     iop_RAM := (\<lambda>a. if a = 0x1001 then 0x05 else if a = 0x1003 then 0x08
                    else if a = 0x1005 then 0x06 else if a = 0x1007 then 0x08 else 0)\<rparr>"

lemma demo_jump_runs:
  "\<exists>s1. iop_step (emu_iop_mem ports past) demo_jump = Inr s1 \<and> iop_will_branch s1 \<and>
     iop_new_PC s1 = 0x1400 \<and>
     (\<exists>u. iop_read_instr (emu_iop_mem ports past) (iop_PC s1) (iop_tick s1) = Inr (0x08000600, u)) \<and>
     (\<exists>s2. iop_step (emu_iop_mem ports past) s1 = Inr s2)"
  by (simp add: demo_jump_def iop_step_def iop_tick_def Let_def iop_read_instr_def emu_iop_mem_def
      emu_iop_read32_def arr_get32_def IOP_RAM_SIZE_def with_state_def iop_interpret_def iop_j_def
      jump_target_def jp_def iop_next_PC_def tst_def)

theorem iop_delay_slot_witness:
  "\<exists>s1 s2. iop_step (emu_iop_mem quiet_ports (\<lambda>_. 0)) demo_jump = Inr s1 \<and>
     iop_step (emu_iop_mem quiet_ports (\<lambda>_. 0)) s1 = Inr s2 \<and> iop_PC s1 = 0x1004 \<and> iop_PC s2 = 0x1400"
proof -
  obtain s1 u s2 where s1: "iop_step (emu_iop_mem quiet_ports (\<lambda>_. 0)) demo_jump = Inr s1" "iop_will_branch s1"
    "iop_new_PC s1 = 0x1400"
    "iop_read_instr (emu_iop_mem quiet_ports (\<lambda>_. 0)) (iop_PC s1) (iop_tick s1) = Inr (0x08000600, u)"
    "iop_step (emu_iop_mem quiet_ports (\<lambda>_. 0)) s1 = Inr s2"
    using demo_jump_runs by blast
  have "\<not> iop_will_branch demo_jump" "iop_PC demo_jump = 0x1000" by (simp_all add: demo_jump_def)
  moreover have "\<not> is_syscall 0x08000600" by (simp add: is_syscall_def)
  ultimately show ?thesis
    using iop_delay_slot [OF s1(1) _ s1(2,4) _ s1(5)] s1(1,3,5) by auto
qed

subsection \<open>Status register, exceptions and interrupts\<close>

text \<open>Writing the IOP's Status register with \<open>mtc0\<close> and reading it with \<open>mfc0\<close> returns
  exactly the implemented bits of the word (mask 0x0041FF3F).\<close>

lemma iop_status_write_read: "iop_cop0_mfc 12 (iop_cop0_mtc 12 v s) = v AND 0x0041FF3F"
  by (simp add: iop_cop0_mfc_def iop_cop0_mtc_def iop_status_roundtrip)

text \<open>An exception disables interrupts, records where to resume (the branch, for an
  instruction in a delay slot) and is undone by \<open>rfe\<close> as far as the interrupt enables go; the
  processor mode bit however becomes the previous one, because the exception never pushed it.\<close>

lemma iop_exception_rfe:
  "let t = iop_handle_exception addr code s; u = rfe t in
     \<not> IEc (iop_status t) \<and> iop_PC t = addr - 4 \<and> \<not> iop_will_branch t \<and>
     iop_EPC t = (if iop_will_branch s then iop_PC s - 4 else iop_PC s) \<and>
     ic_bd (iop_cause t) = iop_will_branch s \<and>
     IEc (iop_status u) = IEc (iop_status s) \<and> IEp (iop_status u) = IEp (iop_status s) \<and>
     KUc (iop_status u) = KUp (iop_status s)"
  using exception_then_rfe [of addr code s]
  by (simp add: Let_def rfe_def iop_handle_exception_def)

text \<open>After every access to the interrupt controller's registers and every interrupt a
  device raises, the IOP's interrupt input is high exactly when the master enable is on and an
  enabled interrupt is latched; reading \<open>I_CTRL\<close> also turns the enable off.\<close>

lemma iop_line_follows_registers:
  "iop_line (assert_irq i s) = iop_wanted (assert_irq i s) \<and>
   iop_line (write_imask v s) = iop_wanted (write_imask v s) \<and>
   iop_line (write_istat v s) = iop_wanted (write_istat v s) \<and>
   iop_line (write_ictrl v s) = iop_wanted (write_ictrl v s) \<and>
   \<not> iop_line (snd (read_ictrl s)) \<and> I_CTRL (snd (read_ictrl s)) = 0"
  by (simp add: iop_ops_synced(1,3-5) [unfolded iop_irq.synced_def] read_ictrl_def iop_int_check_def)

lemma sched_frame_it: "sched_frame s s' \<Longrightarrow> it_timers s' = it_timers s" for s s' :: "'a iop_timers_scheme"
  by (cases s, cases s') (simp add: sched_frame_def)

lemma IRQ_test_control:
  assumes "i < length (it_timers s)"
  shows "ok_post (IRQ_test i ov s)
           (\<lambda>s'. it_control (it_timers s' ! i) = after_irq ov (it_control (it_timers s ! i)))"
proof -
  let ?keeps = "\<lambda>s'. length (it_timers s') = length (it_timers s) \<and>
    it_control (it_timers s' ! i) = it_control (it_timers s ! i)"
  have zero: "ok_post (rbind (put_it i (\<lambda>t. t\<lparr>it_counter := 0\<rparr>) s) (\<lambda>s.
      rbind (vec_at (it_events s) i) (\<lambda>ev. set_timer_counter ev 0 s))) ?keeps"
  proof (rule ok_seq [where P = ?keeps])
    show "ok_post (put_it i (\<lambda>t. t\<lparr>it_counter := 0\<rparr>) s) ?keeps"
      using assms by (simp add: put_it_def)
    show "ok_post (rbind (vec_at (it_events x) i) (\<lambda>ev. set_timer_counter ev 0 x)) ?keeps"
      if "?keeps x" for x
      unfolding set_timer_counter_def using that
      by (intro ok_after ok_post_mono [OF frame_set_field [OF sched_frame_refl]])
        (simp add: sched_frame_it)
  qed
  have irq: "ok_post (if b then rbind (vec_at timer_IRQs i) (\<lambda>irq. Inr (assert_irq irq x)) else Inr x) ?keeps"
    if "?keeps x" for b and x :: "'a iop_timers_scheme"
    using that
    by (auto intro!: ok_after simp: assert_irq_def iop_int_check_def interrupt_check_def Let_def)
  show ?thesis
    unfolding IRQ_test_def vec_at_in [OF assms] rbind.simps
    by (rule ok_seq [OF ok_post_if [OF zero]], use assms in simp, rule ok_seq [OF irq])
      (use assms in \<open>auto simp: put_it_def\<close>)
qed

text \<open>What a timer event does to a timer's interrupt enable: a one-shot timer is disabled, in
  toggle mode the enable is inverted so that every second event interrupts, in repeat mode it
  stays; an enabled timer latches the reason, and the mode bits are never changed.\<close>

lemma iop_timer_irq_modes:
  assumes "IRQ_test i ov s = Inr s'" and "i < length (it_timers s)"
  shows "let c = it_control (it_timers s ! i); c' = it_control (it_timers s' ! i) in
     ic_int_enable c' = (ic_repeat_int c \<and> (ic_int_enable c \<noteq> ic_toggle_int c)) \<and>
     ic_overflow_interrupt c' = (ic_overflow_interrupt c \<or> ic_int_enable c \<and> ov) \<and>
     ic_compare_interrupt c' = (ic_compare_interrupt c \<or> ic_int_enable c \<and> \<not> ov) \<and>
     ic_repeat_int c' = ic_repeat_int c \<and> ic_toggle_int c' = ic_toggle_int c"
  using ok_postD [OF IRQ_test_control [OF assms(2)] assms(1)]
  by (auto simp: after_irq_def Let_def)

definition demo_it :: iop_timers where
  "demo_it = (undefined :: iop_timers)\<lparr>it_timers := [undefined\<lparr>it_control := undefined
     \<lparr>ic_zero_return := False, ic_int_enable := True, ic_repeat_int := True, ic_toggle_int := True\<rparr>\<rparr>]\<rparr>"

lemma iop_timer_irq_modes_witness:
  "\<exists>s'. IRQ_test 0 True demo_it = Inr s' \<and> \<not> ic_int_enable (it_control (it_timers s' ! 0)) \<and>
     ic_overflow_interrupt (it_control (it_timers s' ! 0))"
proof -
  have "succeeds (IRQ_test 0 True demo_it)"
    by (simp add: IRQ_test_def demo_it_def put_it_def timer_IRQs_def assert_irq_def iop_int_check_def
        interrupt_check_def Let_def)
  then obtain s' where s': "IRQ_test 0 True demo_it = Inr s'" by (auto simp: succeeds_iff)
  show ?thesis
    using s' iop_timer_irq_modes [OF s'] by (simp add: Let_def demo_it_def)
qed

end
