(* ===== verification/Iop_Unaligned.thy ===== *)
theory Iop_Unaligned
  imports Iop_Bus_Frame
begin

unbundle bit_operations_syntax

section \<open>Unaligned loads and stores\<close>

text \<open>
  \<open>lwl\<close>/\<open>lwr\<close> and \<open>swl\<close>/\<open>swr\<close> of \<open>iop_interpreter.cpp\<close> on the IOP's RAM: a pair of them
  is one unaligned access of four bytes, little endian. The masks and shifts of the four static
  tables are evaluated bit by bit.
\<close>

subsection \<open>Addresses\<close>

lemma low_bits:
  fixes b :: u32
  assumes "b AND 3 = 0"
  shows "\<not> bit b 0" and "\<not> bit b 1" and "\<not> bit b (Suc 0)"
proof -
  have "bit (b AND 3) 0 = bit b 0" "bit (b AND 3) 1 = bit b 1" by (simp_all add: bit_simps)
  with assms show "\<not> bit b 0" "\<not> bit b 1" "\<not> bit b (Suc 0)" by simp_all
qed
lemma aligned_parts:
  fixes b j :: u32
  assumes "b AND 3 = 0" and "j \<in> {0, 1, 2, 3}"
  shows "(b + j) AND - 4 = b" and "byte_of (b + j) = unat j"
proof -
  have "b AND j = 0"
    using assms(2) by (auto intro!: u32_eqI simp: bit_simps low_bits [OF assms(1)])
  then have sum: "b + j = b OR j" by (simp add: disjunctive_add_eq_or)
  show "(b + j) AND - 4 = b" unfolding sum
    using assms(2) by (auto intro!: u32_eqI simp: bit_simps low_bits [OF assms(1)])
  have "(b OR j) AND 3 = j"
    using assms(2) by (auto intro!: u32_eqI simp: bit_simps low_bits [OF assms(1)])
  then show "byte_of (b + j) = unat j" by (simp add: byte_of_def sum)
qed
lemma and_3_cases: "a AND 3 \<in> {0, 1, 2, 3 :: u32}"
proof -
  have "a AND 3 = (if bit a 0 then if bit a 1 then 3 else 1 else if bit a 1 then 2 else 0)"
    by (auto intro!: u32_eqI simp: bit_simps)
  then show ?thesis by simp
qed

subsection \<open>Merging bytes\<close>

lemma u8_eqI:
  fixes a b :: u8
  assumes "list_all (\<lambda>n. bit a n = bit b n) [0, 1, 2, 3, 4, 5, 6, 7]"
  shows "a = b"
proof (rule bit_word_eqI)
  fix n assume "n < LENGTH(8)"
  then have "n \<in> set [0, 1, 2, 3, 4, 5, 6, 7]" by simp presburger
  then show "bit a n = bit b n" using assms by (simp only: list_all_iff)
qed

definition bytes32 :: "(u32 \<Rightarrow> u8) \<Rightarrow> u32 \<Rightarrow> u32" where
  "bytes32 m a = ucast (m a) OR push_bit 8 (ucast (m (a + 1))) OR push_bit 16 (ucast (m (a + 2)))
     OR push_bit 24 (ucast (m (a + 3)))"

definition lwl_merge :: "nat \<Rightarrow> u32 \<Rightarrow> u32 \<Rightarrow> u32" where
  "lwl_merge k reg mem = (reg AND LWL_MASK ! k) OR push_bit (LWL_SHIFT ! k) mem"

definition lwr_merge :: "nat \<Rightarrow> u32 \<Rightarrow> u32 \<Rightarrow> u32" where
  "lwr_merge k reg mem = (reg AND LWR_MASK ! k) OR drop_bit (LWR_SHIFT ! k) mem"

lemma merge_loads:
  "lwr_merge 0 (lwl_merge 3 reg (bytes32 m b)) (bytes32 m b) = bytes32 m b"
  "lwr_merge 1 (lwl_merge 0 reg (bytes32 m (b + 4))) (bytes32 m b) = bytes32 m (b + 1)"
  "lwr_merge 2 (lwl_merge 1 reg (bytes32 m (b + 4))) (bytes32 m b) = bytes32 m (b + 2)"
  "lwr_merge 3 (lwl_merge 2 reg (bytes32 m (b + 4))) (bytes32 m b) = bytes32 m (b + 3)"
  by (rule u32_eqI; simp add: lwl_merge_def lwr_merge_def bytes32_def LWL_MASK_def LWL_SHIFT_def
      LWR_MASK_def LWR_SHIFT_def reg_bits bit_simps u8_high_bit add.assoc numeral_3_eq_3)+

definition put32 :: "u32 \<Rightarrow> u32 \<Rightarrow> (u32 \<Rightarrow> u8) \<Rightarrow> u32 \<Rightarrow> u8" where
  "put32 b w m = m(b := ucast w, b + 1 := ucast (drop_bit 8 w), b + 2 := ucast (drop_bit 16 w),
     b + 3 := ucast (drop_bit 24 w))"

definition swl_merge :: "nat \<Rightarrow> u32 \<Rightarrow> u32 \<Rightarrow> u32" where
  "swl_merge k reg mem = drop_bit (SWL_SHIFT ! k) reg OR (mem AND SWL_MASK ! k)"

definition swr_merge :: "nat \<Rightarrow> u32 \<Rightarrow> u32 \<Rightarrow> u32" where
  "swr_merge k reg mem = push_bit (SWR_SHIFT ! k) reg OR (mem AND SWR_MASK ! k)"

lemma store_byte_values:
  "k \<in> {0, 1, 2, 3} \<Longrightarrow> i \<in> {0, 1, 2, 3} \<Longrightarrow>
     (ucast (drop_bit (8 * i) (swl_merge k v (bytes32 m b))) :: u8) =
       (if i \<le> k then ucast (drop_bit (8 * (3 - k + i)) v) else m (b + of_nat i))"
  "k \<in> {0, 1, 2, 3} \<Longrightarrow> i \<in> {0, 1, 2, 3} \<Longrightarrow>
     (ucast (drop_bit (8 * i) (swr_merge k v (bytes32 m b))) :: u8) =
       (if k \<le> i then ucast (drop_bit (8 * (i - k)) v) else m (b + of_nat i))"
  by (auto intro!: u8_eqI simp: swl_merge_def swr_merge_def bytes32_def SWL_MASK_def SWL_SHIFT_def
      SWR_MASK_def SWR_SHIFT_def reg_bits bit_simps u8_high_bit numeral_3_eq_3 numeral_2_eq_2)

lemma swl_put:
  "put32 b (swl_merge 0 v (bytes32 m b)) m = m(b := ucast (drop_bit 24 v))"
  "put32 b (swl_merge 1 v (bytes32 m b)) m = m(b := ucast (drop_bit 16 v), b + 1 := ucast (drop_bit 24 v))"
  "put32 b (swl_merge 2 v (bytes32 m b)) m =
     m(b := ucast (drop_bit 8 v), b + 1 := ucast (drop_bit 16 v), b + 2 := ucast (drop_bit 24 v))"
  "put32 b (swl_merge 3 v (bytes32 m b)) m = put32 b v m"
proof -
  note byte = store_byte_values(1) [of _ 0, simplified] store_byte_values(1) [of _ 1, simplified]
    store_byte_values(1) [of _ 2, simplified] store_byte_values(1) [of _ 3, simplified]
  show "put32 b (swl_merge 0 v (bytes32 m b)) m = m(b := ucast (drop_bit 24 v))"
    by (simp add: put32_def byte fun_eq_iff)
  show "put32 b (swl_merge 1 v (bytes32 m b)) m = m(b := ucast (drop_bit 16 v), b + 1 := ucast (drop_bit 24 v))"
    by (simp add: put32_def byte fun_eq_iff)
  show "put32 b (swl_merge 2 v (bytes32 m b)) m =
     m(b := ucast (drop_bit 8 v), b + 1 := ucast (drop_bit 16 v), b + 2 := ucast (drop_bit 24 v))"
    by (simp add: put32_def byte fun_eq_iff)
  show "put32 b (swl_merge 3 v (bytes32 m b)) m = put32 b v m"
    by (simp add: put32_def byte fun_eq_iff)
qed

lemma swr_put:
  "put32 b (swr_merge 0 v (bytes32 m b)) m = put32 b v m"
  "put32 b (swr_merge 1 v (bytes32 m b)) m =
     m(b + 1 := ucast v, b + 2 := ucast (drop_bit 8 v), b + 3 := ucast (drop_bit 16 v))"
  "put32 b (swr_merge 2 v (bytes32 m b)) m = m(b + 2 := ucast v, b + 3 := ucast (drop_bit 8 v))"
  "put32 b (swr_merge 3 v (bytes32 m b)) m = m(b + 3 := ucast v)"
proof -
  note byte = store_byte_values(2) [of _ 0, simplified] store_byte_values(2) [of _ 1, simplified]
    store_byte_values(2) [of _ 2, simplified] store_byte_values(2) [of _ 3, simplified]
  show "put32 b (swr_merge 0 v (bytes32 m b)) m = put32 b v m"
    by (simp add: put32_def byte fun_eq_iff)
  show "put32 b (swr_merge 1 v (bytes32 m b)) m =
     m(b + 1 := ucast v, b + 2 := ucast (drop_bit 8 v), b + 3 := ucast (drop_bit 16 v))"
    by (simp add: put32_def byte fun_eq_iff)
  show "put32 b (swr_merge 2 v (bytes32 m b)) m = m(b + 2 := ucast v, b + 3 := ucast (drop_bit 8 v))"
    by (simp add: put32_def byte fun_eq_iff)
  show "put32 b (swr_merge 3 v (bytes32 m b)) m = m(b + 3 := ucast v)"
    by (simp add: put32_def byte fun_eq_iff)
qed

lemma merge_stores:
  "put32 b (swr_merge 0 v (bytes32 (put32 b (swl_merge 3 v (bytes32 m b)) m) b))
     (put32 b (swl_merge 3 v (bytes32 m b)) m) = put32 b v m"
  "put32 b (swr_merge 1 v (bytes32 (put32 (b + 4) (swl_merge 0 v (bytes32 m (b + 4))) m) b))
     (put32 (b + 4) (swl_merge 0 v (bytes32 m (b + 4))) m) = put32 (b + 1) v m"
  "put32 b (swr_merge 2 v (bytes32 (put32 (b + 4) (swl_merge 1 v (bytes32 m (b + 4))) m) b))
     (put32 (b + 4) (swl_merge 1 v (bytes32 m (b + 4))) m) = put32 (b + 2) v m"
  "put32 b (swr_merge 3 v (bytes32 (put32 (b + 4) (swl_merge 2 v (bytes32 m (b + 4))) m) b))
     (put32 (b + 4) (swl_merge 2 v (bytes32 m (b + 4))) m) = put32 (b + 3) v m"
  unfolding swr_put swl_put by (auto simp: put32_def fun_eq_iff add.assoc)

lemma bytes_put32: "bytes32 (put32 a v m) a = v"
  by (rule u32_eqI) (simp add: bytes32_def put32_def reg_bits bit_simps u8_high_bit)

subsection \<open>Accesses to RAM\<close>

lemma word_in_RAM:
  assumes "unat b + 4 \<le> IOP_RAM_SIZE"
  shows "b < 0x200000" and "translate_addr b = b" and "b \<noteq> 0xFFFE0130"
proof -
  have "unat b < unat (0x200000 :: u32)" using assms by (simp add: IOP_RAM_SIZE_def)
  then show less: "b < 0x200000" by (simp only: word_less_nat_alt)
  then have "b < 0x80000000" "b < 0xA0000000" by (auto intro: less_trans)
  then show "translate_addr b = b" "b \<noteq> 0xFFFE0130"
    by (auto simp: translate_addr_def linorder_not_less [symmetric])
qed

lemma ram_access:
  assumes "unat b + 4 \<le> IOP_RAM_SIZE" and "b AND 3 = 0"
  shows "iop_read32 (emu_iop_mem ports past) b s = Inr (bytes32 (iop_RAM s) b, s)"
    and "\<not> IsC (iop_status s) \<Longrightarrow>
         iop_write32 (emu_iop_mem ports past) b v s = Inr (s\<lparr>iop_RAM := put32 b v (iop_RAM s)\<rparr>)"
  using assms word_in_RAM [OF assms(1)]
  by (simp_all add: iop_read32_def iop_write32_def emu_iop_mem_def emu_iop_read32_def
      emu_iop_write32_def arr_get32_def arr_put32_def with_state_def put_RAM_def bytes32_def put32_def)

text \<open>The bases of the two halves of an access at \<open>a\<close>.\<close>

lemma unat_and_3: "unat (x AND 3 :: u32) = unat x mod 4"
proof -
  have "x AND 3 = take_bit 2 x" by (simp add: take_bit_eq_mask mask_eq_exp_minus_1)
  also have "\<dots> = x mod 4" by (simp add: take_bit_eq_mod)
  finally show ?thesis by (simp add: unat_mod)
qed

lemma and_3_eq_0: "(x AND 3 :: u32) = 0 \<longleftrightarrow> unat x mod 4 = 0"
  unfolding unat_and_3 [symmetric] by (metis unsigned_0 unsigned_word_eqI)

lemma unaligned_bases:
  fixes a :: u32
  assumes "unat a + 4 \<le> IOP_RAM_SIZE"
  obtains "a AND 3 = 0"
  | b j where "b AND 3 = 0" "unat b + 4 \<le> IOP_RAM_SIZE" "(b + 4) AND 3 = 0"
      "unat (b + 4) + 4 \<le> IOP_RAM_SIZE" "a = b + j" "j \<in> {1, 2, 3}"
proof (cases "a AND 3 = 0")
  case False
  let ?j = "a AND 3" and ?b = "a - (a AND 3)"
  have le: "?j \<le> a" unfolding word_le_nat_alt unat_and_3 by (rule mod_less_eq_dividend)
  then have b: "unat ?b = unat a - unat a mod 4" by (simp add: unat_sub unat_and_3)
  have j: "0 < unat a mod 4" using False by (simp add: and_3_eq_0)
  have base: "unat ?b mod 4 = 0" "unat ?b + 4 \<le> IOP_RAM_SIZE" "unat ?b + 8 \<le> IOP_RAM_SIZE"
    using assms j unfolding b IOP_RAM_SIZE_def by presburger+
  then have b4: "unat (?b + 4) = unat ?b + 4"
    by (subst unat_plus_simple [THEN iffD1]) (simp_all add: no_olen_add_nat IOP_RAM_SIZE_def)
  have "?j \<in> {1, 2, 3}" using and_3_cases [of a] False by blast
  then show ?thesis
    using that(2) [of ?b ?j] base b4 by (simp add: and_3_eq_0)
qed (use that in blast)

subsection \<open>The instruction pairs\<close>

lemma lwl_RAM:
  assumes "i_addr i s = b + j" and "b AND 3 = 0" and "j \<in> {0, 1, 2, 3}" and "unat b + 4 \<le> IOP_RAM_SIZE"
  shows "iop_lwl (emu_iop_mem ports past) i s =
           Inr (set_gpr (i_rt i) (lwl_merge (unat j) (get_gpr (i_rt i) s) (bytes32 (iop_RAM s) b)) s)"
    and "iop_lwr (emu_iop_mem ports past) i s =
           Inr (set_gpr (i_rt i) (lwr_merge (unat j) (get_gpr (i_rt i) s) (bytes32 (iop_RAM s) b)) s)"
  using assms
  by (simp_all add: iop_lwl_def iop_lwr_def Let_def aligned_parts ram_access lwl_merge_def lwr_merge_def)

lemma swl_RAM:
  assumes "i_addr i s = b + j" and "b AND 3 = 0" and "j \<in> {0, 1, 2, 3}" and "unat b + 4 \<le> IOP_RAM_SIZE"
    and "\<not> IsC (iop_status s)"
  shows "iop_swl (emu_iop_mem ports past) i s = Inr (s\<lparr>iop_RAM :=
           put32 b (swl_merge (unat j) (get_gpr (i_rt i) s) (bytes32 (iop_RAM s) b)) (iop_RAM s)\<rparr>)"
    and "iop_swr (emu_iop_mem ports past) i s = Inr (s\<lparr>iop_RAM :=
           put32 b (swr_merge (unat j) (get_gpr (i_rt i) s) (bytes32 (iop_RAM s) b)) (iop_RAM s)\<rparr>)"
  using assms
  by (simp_all add: iop_swl_def iop_swr_def Let_def aligned_parts ram_access swl_merge_def swr_merge_def)

lemma registers_frame [simp]:
  "i_addr i (s\<lparr>iop_RAM := m\<rparr>) = i_addr i s" "get_gpr r (s\<lparr>iop_RAM := m\<rparr>) = get_gpr r s"
  "i_rs i \<noteq> r \<Longrightarrow> i_addr i (set_gpr r v s) = i_addr i s"
  "r \<noteq> 0 \<Longrightarrow> get_gpr r (set_gpr r v s) = v" "set_gpr r v (set_gpr r w s) = set_gpr r v s"
  "iop_RAM (set_gpr r v u) = iop_RAM u"
  by (simp_all add: i_addr_def get_gpr_def set_gpr_def)

lemma store_pair:
  assumes "i_addr l s = c + k" and "c AND 3 = 0" and "k \<in> {0, 1, 2, 3}" and "unat c + 4 \<le> IOP_RAM_SIZE"
    and "i_addr r s = b + j" and "b AND 3 = 0" and "j \<in> {0, 1, 2, 3}" and "unat b + 4 \<le> IOP_RAM_SIZE"
    and "\<not> IsC (iop_status s)" and "i_rt r = i_rt l"
  defines "v \<equiv> get_gpr (i_rt l) s"
    and "m \<equiv> put32 c (swl_merge (unat k) (get_gpr (i_rt l) s) (bytes32 (iop_RAM s) c)) (iop_RAM s)"
  shows "rbind (iop_swl (emu_iop_mem ports past) l s) (iop_swr (emu_iop_mem ports past) r) =
           Inr (s\<lparr>iop_RAM := put32 b (swr_merge (unat j) v (bytes32 m b)) m\<rparr>)"
proof -
  have "i_addr r (s\<lparr>iop_RAM := m\<rparr>) = b + j" "\<not> IsC (iop_status (s\<lparr>iop_RAM := m\<rparr>))"
    using assms(5,9) by simp_all
  note second = swl_RAM(2) [OF this(1) assms(6-8) this(2)]
  show ?thesis
    unfolding swl_RAM(1) [OF assms(1-4,9)] rbind.simps m_def [symmetric] second
    by (simp add: v_def assms(10))
qed

text \<open>C27: \<open>lwl\<close> at a + 3 followed by \<open>lwr\<close> at a loads the four bytes at a, little endian, for
  every a in RAM, aligned or not, and changes nothing but the target register.\<close>

theorem iop_unaligned_load:
  assumes "i_addr l s = a + 3" and "i_addr r s = a" and "i_rt r = i_rt l" and "i_rt l \<noteq> 0"
    and "i_rs r \<noteq> i_rt l" and "unat a + 4 \<le> IOP_RAM_SIZE"
  shows "rbind (iop_lwl (emu_iop_mem ports past) l s) (iop_lwr (emu_iop_mem ports past) r) =
           Inr (set_gpr (i_rt l) (bytes32 (iop_RAM s) a) s)"
  using assms(6)
proof (cases rule: unaligned_bases)
  case 1
  then show ?thesis
    using assms by (simp add: lwl_RAM(1) [of l _ a 3] lwl_RAM(2) [of r _ a 0] merge_loads)
next
  case (2 b j)
  have "a + 3 = (b + 4) + (j - 1)" "j - 1 \<in> {0, 1, 2, 3}" "unat j = Suc (unat (j - 1))"
    using 2(5,6) by auto
  then show ?thesis
    using assms 2
    by (auto simp: lwl_RAM(1) [of l _ "b + 4" "j - 1"] lwl_RAM(2) [of r _ b j] merge_loads
        merge_loads [unfolded One_nat_def numeral_2_eq_2])
qed

definition demo_unaligned :: "unit iop_sys" where
  "demo_unaligned = (undefined :: unit iop_sys)\<lparr>iop_gpr := (\<lambda>r. if r = 4 then 0x1000 else 0xAABBCCDD),
     iop_status := (undefined :: iop_cop0_status)\<lparr>IsC := False\<rparr>,
     iop_RAM := (\<lambda>a. ucast a)\<rparr>"

lemma demo_addresses:
  "i_addr 0x88850004 demo_unaligned = 0x1001 + 3" "i_addr 0x98850001 demo_unaligned = 0x1001"
  "i_addr 0xA8850004 demo_unaligned = 0x1001 + 3" "i_addr 0xB8850001 demo_unaligned = 0x1001"
  "i_rt 0x88850004 = 5" "i_rt 0x98850001 = 5" "i_rt 0xA8850004 = 5" "i_rt 0xB8850001 = 5"
  "i_rs 0x98850001 = 4" "get_gpr 5 demo_unaligned = 0xAABBCCDD"
  by (simp_all add: i_addr_def i_rs_def i_rt_def i_simm_def get_gpr_def demo_unaligned_def fld_def
      mask_eq_exp_minus_1)

theorem iop_unaligned_load_witness:
  "rbind (iop_lwl (emu_iop_mem quiet_ports (\<lambda>_. 0)) 0x88850004 demo_unaligned)
     (iop_lwr (emu_iop_mem quiet_ports (\<lambda>_. 0)) 0x98850001) =
   Inr (set_gpr 5 (bytes32 (iop_RAM demo_unaligned) 0x1001) demo_unaligned)"
  using iop_unaligned_load [OF demo_addresses(1,2)]
  by (simp add: demo_addresses IOP_RAM_SIZE_def)

text \<open>\<open>swl\<close> at a + 3 followed by \<open>swr\<close> at a stores the four bytes of the register at a,
  little endian, for every a in RAM, aligned or not, and changes no other byte and nothing else
  in the machine.\<close>

lemma iop_unaligned_store:
  assumes "i_addr l s = a + 3" and "i_addr r s = a" and "i_rt r = i_rt l"
    and "unat a + 4 \<le> IOP_RAM_SIZE" and "\<not> IsC (iop_status s)"
  shows "rbind (iop_swl (emu_iop_mem ports past) l s) (iop_swr (emu_iop_mem ports past) r) =
           Inr (s\<lparr>iop_RAM := put32 a (get_gpr (i_rt l) s) (iop_RAM s)\<rparr>)"
  using assms(4)
proof (cases rule: unaligned_bases)
  case 1
  then show ?thesis
    using store_pair [of l s a 3 r a 0 ports past] assms by (simp add: merge_stores)
next
  case (2 b j)
  have parts: "a + 3 = (b + 4) + (j - 1)" "j - 1 \<in> {0, 1, 2, 3}" "j \<in> {0, 1, 2, 3}"
    using 2(5,6) by auto
  have "i_addr l s = (b + 4) + (j - 1)" "i_addr r s = b + j" using assms(1,2) parts(1) 2(5) by simp_all
  note pair = store_pair [OF this(1) 2(3) parts(2) 2(4) this(2) 2(1) parts(3) 2(2) assms(5,3)]
  have "j = 1 \<or> j = 2 \<or> j = 3" using 2(6) by simp
  moreover have "unat (1 - 1 :: u32) = 0" "unat (1 :: u32) = 1" "unat (2 - 1 :: u32) = 1"
    "unat (2 :: u32) = 2" "unat (3 - 1 :: u32) = 2" "unat (3 :: u32) = 3"
    by simp_all
  ultimately show ?thesis
    unfolding pair 2(5) by (elim disjE) (simp_all only: merge_stores)
qed

lemma iop_unaligned_store_witness:
  "rbind (iop_swl (emu_iop_mem quiet_ports (\<lambda>_. 0)) 0xA8850004 demo_unaligned)
     (iop_swr (emu_iop_mem quiet_ports (\<lambda>_. 0)) 0xB8850001) =
   Inr (demo_unaligned\<lparr>iop_RAM := put32 0x1001 0xAABBCCDD (iop_RAM demo_unaligned)\<rparr>)"
proof -
  have "\<not> IsC (iop_status demo_unaligned)" by (simp add: demo_unaligned_def)
  then show ?thesis
    using iop_unaligned_store [OF demo_addresses(3,4)] by (simp add: demo_addresses IOP_RAM_SIZE_def)
qed

end
