(* ===== verification/Ee_Gpr.thy ===== *)
theory Ee_Gpr
  imports Ee_Core Mips_Fields
begin

unbundle bit_operations_syntax

section \<open>The registers of the Emotion Engine\<close>

text \<open>
  The general registers, \<open>LO\<close>, \<open>HI\<close> and \<open>SA\<close> of \<open>EmotionEngine\<close>
  (\<open>src/core/ee/emotion.hpp\<close>). A register has 128 bits; \<open>get_gpr<T>(id, offset)\<close> and
  \<open>set_gpr<T>(id, value, offset)\<close> reach the \<open>offset\<close>-th element of type \<open>T\<close> in
  it. They are \<open>eget\<close> and \<open>eset\<close> here, the type being that of the word read or written.
\<close>

type_synonym quad = "128 word"

record ee_cpu = ee_core +
  ee_gpr :: "5 word \<Rightarrow> quad"
  ee_LO :: quad
  ee_HI :: quad
  ee_SA :: u64

subsection \<open>Lanes of a quadword\<close>

definition lane :: "nat \<Rightarrow> quad \<Rightarrow> 'w::len word" where
  "lane k q = ucast (drop_bit (LENGTH('w) * k) q)"

definition put_lane :: "nat \<Rightarrow> 'w::len word \<Rightarrow> quad \<Rightarrow> quad" where
  "put_lane k v q =
     (q AND NOT (push_bit (LENGTH('w) * k) (mask LENGTH('w)))) OR push_bit (LENGTH('w) * k) (ucast v)"

text \<open>The quadword of the lanes \<open>f 0\<close>, \<open>f 1\<close>, ..., as the code assembles it in a local variable.\<close>

definition of_lanes :: "nat \<Rightarrow> (nat \<Rightarrow> 'w::len word) \<Rightarrow> quad" where
  "of_lanes n f = fold (\<lambda>k. put_lane k (f k)) [0..<n] 0"

lemma bit_lane: "bit (lane k q :: 'w::len word) j \<longleftrightarrow> j < LENGTH('w) \<and> bit q (LENGTH('w) * k + j)"
  by (auto simp: lane_def bit_simps dest: bit_imp_le_length)

lemma bit_put_lane:
  fixes v :: "'w::len word"
  assumes "n < 128"
  shows "bit (put_lane k v q) n =
    (if LENGTH('w) * k \<le> n \<and> n < LENGTH('w) * k + LENGTH('w) then bit v (n - LENGTH('w) * k) else bit q n)"
  using assms by (auto simp: put_lane_def bit_simps dest: bit_imp_le_length)

lemma block_unique:
  fixes w :: nat
  assumes "w * j \<le> n" "n < w * j + w" "w * k \<le> n" "n < w * k + w" shows "j = k"
proof -
  have "n div w = j" "n div w = k"
    using assms by (auto intro!: div_nat_eqI simp: mult.commute)
  then show ?thesis by simp
qed

lemma lane_put_lane:
  fixes v :: "'w::len word"
  assumes "LENGTH('w) * j + LENGTH('w) \<le> 128"
  shows "lane j (put_lane k v q) = (if j = k then v else lane j q)"
proof (rule bit_word_eqI)
  fix n assume n: "n < LENGTH('w)"
  have "j = k" if "LENGTH('w) * k \<le> LENGTH('w) * j + n" "LENGTH('w) * j + n < LENGTH('w) * k + LENGTH('w)"
    using block_unique [of "LENGTH('w)" j "LENGTH('w) * j + n" k] that n by simp
  then show "bit (lane j (put_lane k v q) :: 'w word) n = bit (if j = k then v else lane j q) n"
    using n assms by (auto simp: bit_lane bit_put_lane)
qed

lemma lane_eqI:
  assumes w: "LENGTH('w::len) * n = 128" and "\<And>k. k < n \<Longrightarrow> (lane k p :: 'w word) = lane k q"
  shows "p = q"
proof (rule bit_word_eqI)
  fix i assume i: "i < LENGTH(128)"
  let ?w = "LENGTH('w)"
  have "i div ?w < n" using i w by (simp add: less_mult_imp_div_less mult.commute)
  then have "bit (lane (i div ?w) p :: 'w word) (i mod ?w) = bit (lane (i div ?w) q :: 'w word) (i mod ?w)"
    using assms(2) by simp
  then show "bit p i = bit q i" by (simp add: bit_lane)
qed

lemma lane_fold:
  fixes f :: "nat \<Rightarrow> 'w::len word"
  assumes "LENGTH('w) * j + LENGTH('w) \<le> 128"
  shows "lane j (fold (\<lambda>k. put_lane k (f k)) [0..<n] q) = (if j < n then f j else lane j q)"
  by (induction n) (auto simp: lane_put_lane [OF assms] less_Suc_eq)

lemma lane_of_lanes:
  fixes f :: "nat \<Rightarrow> 'w::len word"
  assumes "LENGTH('w) * n = 128" "j < n"
  shows "lane j (of_lanes n f) = f j"
proof -
  have "LENGTH('w) * Suc j \<le> LENGTH('w) * n" using assms(2) by (intro mult_left_mono) auto
  then show ?thesis using lane_fold [of j f n 0] assms by (simp add: of_lanes_def)
qed

subsection \<open>Register access\<close>

definition eget :: "5 word \<Rightarrow> nat \<Rightarrow> 'a ee_cpu_scheme \<Rightarrow> 'w::len word" where
  "eget r k s = lane k (ee_gpr s r)"

definition eset :: "5 word \<Rightarrow> 'w::len word \<Rightarrow> nat \<Rightarrow> 'a ee_cpu_scheme \<Rightarrow> 'a ee_cpu_scheme" where
  "eset r v k s = (if r \<noteq> 0 then s\<lparr>ee_gpr := (ee_gpr s)(r := put_lane k v (ee_gpr s r))\<rparr> else s)"

abbreviation eget8 :: "5 word \<Rightarrow> nat \<Rightarrow> 'a ee_cpu_scheme \<Rightarrow> u8" where "eget8 \<equiv> eget"
abbreviation eget16 :: "5 word \<Rightarrow> nat \<Rightarrow> 'a ee_cpu_scheme \<Rightarrow> u16" where "eget16 \<equiv> eget"
abbreviation eget32 :: "5 word \<Rightarrow> nat \<Rightarrow> 'a ee_cpu_scheme \<Rightarrow> u32" where "eget32 \<equiv> eget"
abbreviation eget64 :: "5 word \<Rightarrow> nat \<Rightarrow> 'a ee_cpu_scheme \<Rightarrow> u64" where "eget64 \<equiv> eget"
abbreviation eget128 :: "5 word \<Rightarrow> 'a ee_cpu_scheme \<Rightarrow> quad" where "eget128 r \<equiv> eget r 0"

definition get_LO :: "'a ee_cpu_scheme \<Rightarrow> u64" where "get_LO s = lane 0 (ee_LO s)"
definition get_LO1 :: "'a ee_cpu_scheme \<Rightarrow> u64" where "get_LO1 s = lane 1 (ee_LO s)"
definition get_HI :: "'a ee_cpu_scheme \<Rightarrow> u64" where "get_HI s = lane 0 (ee_HI s)"
definition get_HI1 :: "'a ee_cpu_scheme \<Rightarrow> u64" where "get_HI1 s = lane 1 (ee_HI s)"
definition get_SA :: "'a ee_cpu_scheme \<Rightarrow> u64" where "get_SA s = ee_SA s"
definition set_SA :: "u64 \<Rightarrow> 'a ee_cpu_scheme \<Rightarrow> 'a ee_cpu_scheme" where "set_SA v s = s\<lparr>ee_SA := v\<rparr>"

definition set_LO_HI :: "u64 \<Rightarrow> u64 \<Rightarrow> bool \<Rightarrow> 'a ee_cpu_scheme \<Rightarrow> 'a ee_cpu_scheme" where
  "set_LO_HI a b hi s =
     (if hi then s\<lparr>ee_LO := put_lane 1 a (ee_LO s), ee_HI := put_lane 1 b (ee_HI s)\<rparr>
      else s\<lparr>ee_LO := put_lane 0 a (ee_LO s), ee_HI := put_lane 0 b (ee_HI s)\<rparr>)"

subsection \<open>Moves between the registers\<close>

definition ee_mfhi :: "5 word \<Rightarrow> 'a ee_cpu_scheme \<Rightarrow> 'a ee_cpu_scheme" where "ee_mfhi r s = eset r (get_HI s) 0 s"
definition ee_mthi :: "5 word \<Rightarrow> 'a ee_cpu_scheme \<Rightarrow> 'a ee_cpu_scheme" where
  "ee_mthi r s = s\<lparr>ee_HI := put_lane 0 (eget64 r 0 s) (ee_HI s)\<rparr>"
definition ee_mflo :: "5 word \<Rightarrow> 'a ee_cpu_scheme \<Rightarrow> 'a ee_cpu_scheme" where "ee_mflo r s = eset r (get_LO s) 0 s"
definition ee_mtlo :: "5 word \<Rightarrow> 'a ee_cpu_scheme \<Rightarrow> 'a ee_cpu_scheme" where
  "ee_mtlo r s = s\<lparr>ee_LO := put_lane 0 (eget64 r 0 s) (ee_LO s)\<rparr>"
definition ee_mfhi1 :: "5 word \<Rightarrow> 'a ee_cpu_scheme \<Rightarrow> 'a ee_cpu_scheme" where "ee_mfhi1 r s = eset r (get_HI1 s) 0 s"
definition ee_mthi1 :: "5 word \<Rightarrow> 'a ee_cpu_scheme \<Rightarrow> 'a ee_cpu_scheme" where
  "ee_mthi1 r s = s\<lparr>ee_HI := put_lane 1 (eget64 r 0 s) (ee_HI s)\<rparr>"
definition ee_mflo1 :: "5 word \<Rightarrow> 'a ee_cpu_scheme \<Rightarrow> 'a ee_cpu_scheme" where "ee_mflo1 r s = eset r (get_LO1 s) 0 s"
definition ee_mtlo1 :: "5 word \<Rightarrow> 'a ee_cpu_scheme \<Rightarrow> 'a ee_cpu_scheme" where
  "ee_mtlo1 r s = s\<lparr>ee_LO := put_lane 1 (eget64 r 0 s) (ee_LO s)\<rparr>"
definition ee_mfsa :: "5 word \<Rightarrow> 'a ee_cpu_scheme \<Rightarrow> 'a ee_cpu_scheme" where "ee_mfsa r s = eset r (ee_SA s) 0 s"
definition ee_mtsa :: "5 word \<Rightarrow> 'a ee_cpu_scheme \<Rightarrow> 'a ee_cpu_scheme" where
  "ee_mtsa r s = s\<lparr>ee_SA := eget64 r 0 s AND 0xF\<rparr>"
definition ee_pmfhi :: "5 word \<Rightarrow> 'a ee_cpu_scheme \<Rightarrow> 'a ee_cpu_scheme" where
  "ee_pmfhi r s = eset r (get_HI1 s) 1 (eset r (get_HI s) 0 s)"
definition ee_pmflo :: "5 word \<Rightarrow> 'a ee_cpu_scheme \<Rightarrow> 'a ee_cpu_scheme" where
  "ee_pmflo r s = eset r (get_LO1 s) 1 (eset r (get_LO s) 0 s)"
definition ee_pmthi :: "5 word \<Rightarrow> 'a ee_cpu_scheme \<Rightarrow> 'a ee_cpu_scheme" where
  "ee_pmthi r s = s\<lparr>ee_HI := put_lane 1 (eget64 r 1 s) (put_lane 0 (eget64 r 0 s) (ee_HI s))\<rparr>"
definition ee_pmtlo :: "5 word \<Rightarrow> 'a ee_cpu_scheme \<Rightarrow> 'a ee_cpu_scheme" where
  "ee_pmtlo r s = s\<lparr>ee_LO := put_lane 1 (eget64 r 1 s) (put_lane 0 (eget64 r 0 s) (ee_LO s))\<rparr>"

end
