(* ===== verification/Ee_Machine.thy ===== *)
theory Ee_Machine
  imports Ee_Gpr
begin

unbundle bit_operations_syntax

section \<open>The Emotion Engine and its memory\<close>

text \<open>
  The rest of the state of \<open>EmotionEngine\<close> (\<open>src/core/ee/emotion.hpp\<close>, \<open>emotion.cpp\<close>): branch
  state, instruction cache, the tables of the DECI2 calls, the registers of the floating point unit,
  and the three memories that the pages of the TLB can name. Memory mapped registers and the vector
  units belong to other components: what the Emotion Engine calls of them is a record of functions
  on the machine state, the argument \<open>env\<close>.
\<close>

record icache_line =
  ic_lfu0 :: bool
  ic_lfu1 :: bool
  ic_tag0 :: u32
  ic_tag1 :: u32

record deci2_handler =
  dh_active :: bool
  dh_device :: u32
  dh_addr :: u32

record fpu_control =
  fc_su :: bool
  fc_so :: bool
  fc_sd :: bool
  fc_si :: bool
  fc_u :: bool
  fc_o :: bool
  fc_d :: bool
  fc_i :: bool
  fc_condition :: bool

record ee_mach = ee_cpu +
  ee_new_PC :: u32
  ee_PC_now :: u32
  ee_icache :: "icache_line list"
  ee_deci2handlers :: "deci2_handler list"
  ee_deci2size :: nat
  ee_flush_jit :: bool
  ee_osd_config :: u32
  em_rdram :: "u32 \<Rightarrow> u8"
  em_bios :: "u32 \<Rightarrow> u8"
  em_spr :: "u32 \<Rightarrow> u8"
  fpu_control :: fpu_control
  fpu_gpr :: "5 word \<Rightarrow> u32"
  fpu_acc :: u32

text \<open>The functions of \<open>Emulator\<close>, \<open>SubsystemInterface\<close> and \<open>VectorUnit\<close> that are called.\<close>

record 's ee_env =
  io_read8 :: "u32 \<Rightarrow> 's \<Rightarrow> (u8 \<times> 's) res"
  io_read16 :: "u32 \<Rightarrow> 's \<Rightarrow> (u16 \<times> 's) res"
  io_read32 :: "u32 \<Rightarrow> 's \<Rightarrow> (u32 \<times> 's) res"
  io_read64 :: "u32 \<Rightarrow> 's \<Rightarrow> (u64 \<times> 's) res"
  io_read128 :: "u32 \<Rightarrow> 's \<Rightarrow> (quad \<times> 's) res"
  io_write8 :: "u32 \<Rightarrow> u8 \<Rightarrow> 's \<Rightarrow> 's res"
  io_write16 :: "u32 \<Rightarrow> u16 \<Rightarrow> 's \<Rightarrow> 's res"
  io_write32 :: "u32 \<Rightarrow> u32 \<Rightarrow> 's \<Rightarrow> 's res"
  io_write64 :: "u32 \<Rightarrow> u64 \<Rightarrow> 's \<Rightarrow> 's res"
  io_write128 :: "u32 \<Rightarrow> quad \<Rightarrow> 's \<Rightarrow> 's res"
  io_fast_boot :: "'s \<Rightarrow> 's"
  io_skip_BIOS :: "'s \<Rightarrow> 's"
  io_log_sifrpc :: "u32 \<Rightarrow> u32 \<Rightarrow> 's \<Rightarrow> 's res"
  io_deci2send :: "u32 \<Rightarrow> u32 \<Rightarrow> 's \<Rightarrow> 's res"
  io_kputs :: "u32 \<Rightarrow> 's \<Rightarrow> 's res"
  io_d_stat :: "'s \<Rightarrow> u32"
  io_d_pcr :: "'s \<Rightarrow> u32"
  vu_clear_interlock :: "'s \<Rightarrow> 's"
  vu_interlock_check :: "'s \<Rightarrow> bool \<times> 's"
  vu0_running :: "'s \<Rightarrow> bool"
  vu1_running :: "'s \<Rightarrow> bool"
  vu0_tbit :: "'s \<Rightarrow> bool"
  vu1_tbit :: "'s \<Rightarrow> bool"
  vu0_interlocked :: "'s \<Rightarrow> bool"
  vu0_update_pipes :: "'s \<Rightarrow> 's res"
  vu0_run :: "'s \<Rightarrow> 's res"
  vu0_cfc :: "5 word \<Rightarrow> 's \<Rightarrow> u32"
  vu0_ctc :: "5 word \<Rightarrow> u32 \<Rightarrow> 's \<Rightarrow> 's res"
  vu1_start :: "u32 \<Rightarrow> 's \<Rightarrow> 's res"
  vu0_get_gpr :: "5 word \<Rightarrow> nat \<Rightarrow> 's \<Rightarrow> u32"
  vu0_set_gpr :: "5 word \<Rightarrow> nat \<Rightarrow> u32 \<Rightarrow> 's \<Rightarrow> 's"

definition ee_reset :: "'a ee_mach_scheme \<Rightarrow> 'a ee_mach_scheme" where
  "ee_reset s =
     s\<lparr>ee_PC := 0xBFC00000, ee_PC_now := 0xBFC00000, ee_cycle_count := 0, ee_cycles_to_run := 0,
       ee_branch_on := False, ee_wait_for_IRQ := False, ee_delay_slot := 0,
       ee_osd_config := push_bit 4 1 OR push_bit 13 1 OR push_bit 16 1,
       ee_icache := map (\<lambda>l. l\<lparr>ic_tag0 := push_bit 31 1, ic_tag1 := push_bit 31 1, ic_lfu0 := False, ic_lfu1 := False\<rparr>)
                      (ee_icache s),
       ee_gpr := (ee_gpr s)(0 := 0), ee_deci2size := 0,
       ee_deci2handlers := map (\<lambda>h. h\<lparr>dh_active := False\<rparr>) (ee_deci2handlers s),
       ee_flush_jit := True\<rparr>"

definition set_PC :: "u32 \<Rightarrow> 'a ee_mach_scheme \<Rightarrow> 'a ee_mach_scheme" where
  "set_PC a s = s\<lparr>ee_PC := a, ee_PC_now := a\<rparr>"

subsection \<open>Bytes in memory\<close>

text \<open>Reading and writing a value through a pointer to it, least significant byte first.\<close>

definition get_le :: "(u32 \<Rightarrow> u8) \<Rightarrow> u32 \<Rightarrow> 'w::len word" where
  "get_le m a = foldr (\<lambda>k v. push_bit 8 v OR ucast (m (a + of_nat k))) [0..<LENGTH('w) div 8] 0"

definition put_le :: "u32 \<Rightarrow> 'w::len word \<Rightarrow> (u32 \<Rightarrow> u8) \<Rightarrow> u32 \<Rightarrow> u8" where
  "put_le a v m x = (if x - a < of_nat (LENGTH('w) div 8) then ucast (drop_bit (8 * unat (x - a)) v) else m x)"

lemma bit_get_bytes:
  fixes m :: "u32 \<Rightarrow> u8"
  shows "bit (foldr (\<lambda>k v. push_bit 8 v OR ucast (m (a + of_nat k))) [i..<n] 0 :: 'w::len word) j \<longleftrightarrow>
     j < LENGTH('w) \<and> i + j div 8 < n \<and> bit (m (a + of_nat (i + j div 8))) (j mod 8)"
proof (induction "n - i" arbitrary: i j)
  case 0
  then show ?case by simp
next
  case (Suc d)
  then have i: "i < n" "d = n - Suc i" by linarith+
  have IH: "bit (foldr (\<lambda>k v. push_bit 8 v OR ucast (m (a + of_nat k))) [Suc i..<n] 0 :: 'w word) j' \<longleftrightarrow>
     j' < LENGTH('w) \<and> Suc i + j' div 8 < n \<and> bit (m (a + of_nat (Suc i + j' div 8))) (j' mod 8)" for j'
    using Suc.hyps(1) [OF i(2)] by blast
  show ?case
  proof (cases "j < 8")
    case True
    then show ?thesis using i by (auto simp: upt_conv_Cons bit_simps dest: bit_imp_le_length)
  next
    case False
    then have "j div 8 = Suc ((j - 8) div 8)" "j mod 8 = (j - 8) mod 8"
      by (simp_all add: le_div_geq le_mod_geq)
    moreover have "\<not> bit x j" for x :: u8 using False by (auto dest: bit_imp_le_length)
    ultimately show ?thesis using i False IH [of "j - 8"]
      by (auto simp: upt_conv_Cons bit_simps)
  qed
qed

lemma bit_get_le:
  "bit (get_le m a :: 'w::len word) j \<longleftrightarrow>
     j < LENGTH('w) \<and> j div 8 < LENGTH('w) div 8 \<and> bit (m (a + of_nat (j div 8))) (j mod 8)"
  unfolding get_le_def bit_get_bytes by simp

lemma get_put_le:
  fixes v :: "'w::len word"
  assumes w: "LENGTH('w) mod 8 = 0" "LENGTH('w) div 8 < 2 ^ 32"
  shows "get_le (put_le a v m) a = v"
proof (rule bit_word_eqI)
  fix j assume j: "j < LENGTH('w)"
  have k: "j div 8 < LENGTH('w) div 8" using j w by (metis div_less_iff_less_mult div_mult_mod_eq add.right_neutral zero_less_numeral)
  have "unat (of_nat (j div 8) :: u32) = j div 8" "unat (of_nat (LENGTH('w) div 8) :: u32) = LENGTH('w) div 8"
    using k w(2) by (simp_all add: unat_of_nat)
  then have "put_le a v m (a + of_nat (j div 8)) = ucast (drop_bit (8 * (j div 8)) v)"
    using k by (simp add: put_le_def word_less_nat_alt)
  then show "bit (get_le (put_le a v m) a :: 'w word) j = bit v j"
    using j k by (simp add: bit_get_le bit_simps)
qed

subsection \<open>Access through the page tables\<close>

definition page_ptr :: "u32 \<Rightarrow> 'a ee_mach_scheme \<Rightarrow> mem_ptr" where
  "page_ptr a s =
     (case ee_tlb_map s of Kernel_vtlb \<Rightarrow> kernel_vtlb | Sup_vtlb \<Rightarrow> sup_vtlb | User_vtlb \<Rightarrow> user_vtlb)
       (cop0_vtlb s) (drop_bit 12 a)"

definition ee_get :: "mem_ptr \<Rightarrow> u32 \<Rightarrow> 'a ee_mach_scheme \<Rightarrow> 'w::len word" where
  "ee_get p a s =
     (case p of Rdram d \<Rightarrow> get_le (em_rdram s) (d + (a AND 4095))
      | Bios d \<Rightarrow> get_le (em_bios s) (d + (a AND 4095))
      | Spr d \<Rightarrow> get_le (em_spr s) (d + (a AND 4095)) | _ \<Rightarrow> 0)"

definition ee_put :: "mem_ptr \<Rightarrow> u32 \<Rightarrow> 'w::len word \<Rightarrow> 'a ee_mach_scheme \<Rightarrow> 'a ee_mach_scheme" where
  "ee_put p a v s =
     (case p of Rdram d \<Rightarrow> s\<lparr>em_rdram := put_le (d + (a AND 4095)) v (em_rdram s)\<rparr>
      | Bios d \<Rightarrow> s\<lparr>em_bios := put_le (d + (a AND 4095)) v (em_bios s)\<rparr>
      | Spr d \<Rightarrow> s\<lparr>em_spr := put_le (d + (a AND 4095)) v (em_spr s)\<rparr> | _ \<Rightarrow> s)"

definition ee_load ::
    "(u32 \<Rightarrow> 'a ee_mach_scheme \<Rightarrow> ('w::len word \<times> 'a ee_mach_scheme) res) \<Rightarrow> u32 \<Rightarrow>
     'a ee_mach_scheme \<Rightarrow> ('w word \<times> 'a ee_mach_scheme) res" where
  "ee_load io a s =
     (case page_ptr a s of Null_ptr \<Rightarrow> Inl (Die ''[EE] Read from invalid address'')
      | Mmio \<Rightarrow> io (a AND 0x1FFFFFFF) s
      | p \<Rightarrow> Inr (ee_get p a s, s))"

definition ee_store ::
    "(u32 \<Rightarrow> 'w::len word \<Rightarrow> 'a ee_mach_scheme \<Rightarrow> 'a ee_mach_scheme res) \<Rightarrow> u32 \<Rightarrow> 'w word \<Rightarrow>
     'a ee_mach_scheme \<Rightarrow> 'a ee_mach_scheme res" where
  "ee_store io a v s =
     (case page_ptr a s of Null_ptr \<Rightarrow> Inl (Die ''[EE] Write to invalid address'')
      | Mmio \<Rightarrow> io (a AND 0x1FFFFFFF) v s
      | p \<Rightarrow> Inr (ee_put p a v (set_tlb_modified (drop_bit 12 a) s)))"

definition aligned :: "u32 \<Rightarrow> u32 \<Rightarrow> 'b res \<Rightarrow> 'b res" where
  "aligned bits a r = (if a AND bits \<noteq> 0 then Inl (Die ''[EE] Access to invalid address'') else r)"

definition ee_read8 :: "'a ee_mach_scheme ee_env \<Rightarrow> u32 \<Rightarrow> 'a ee_mach_scheme \<Rightarrow> (u8 \<times> 'a ee_mach_scheme) res" where
  "ee_read8 env = ee_load (io_read8 env)"
definition ee_read16 :: "'a ee_mach_scheme ee_env \<Rightarrow> u32 \<Rightarrow> 'a ee_mach_scheme \<Rightarrow> (u16 \<times> 'a ee_mach_scheme) res" where
  "ee_read16 env a s = aligned 1 a (ee_load (io_read16 env) a s)"
definition ee_read32 :: "'a ee_mach_scheme ee_env \<Rightarrow> u32 \<Rightarrow> 'a ee_mach_scheme \<Rightarrow> (u32 \<times> 'a ee_mach_scheme) res" where
  "ee_read32 env a s = aligned 3 a (ee_load (io_read32 env) a s)"
definition ee_read64 :: "'a ee_mach_scheme ee_env \<Rightarrow> u32 \<Rightarrow> 'a ee_mach_scheme \<Rightarrow> (u64 \<times> 'a ee_mach_scheme) res" where
  "ee_read64 env a s = aligned 7 a (ee_load (io_read64 env) a s)"
definition ee_read128 :: "'a ee_mach_scheme ee_env \<Rightarrow> u32 \<Rightarrow> 'a ee_mach_scheme \<Rightarrow> (quad \<times> 'a ee_mach_scheme) res" where
  "ee_read128 env = ee_load (io_read128 env)"

definition ee_write8 :: "'a ee_mach_scheme ee_env \<Rightarrow> u32 \<Rightarrow> u8 \<Rightarrow> 'a ee_mach_scheme \<Rightarrow> 'a ee_mach_scheme res" where
  "ee_write8 env = ee_store (io_write8 env)"
definition ee_write16 :: "'a ee_mach_scheme ee_env \<Rightarrow> u32 \<Rightarrow> u16 \<Rightarrow> 'a ee_mach_scheme \<Rightarrow> 'a ee_mach_scheme res" where
  "ee_write16 env a v s = aligned 1 a (ee_store (io_write16 env) a v s)"
definition ee_write32 :: "'a ee_mach_scheme ee_env \<Rightarrow> u32 \<Rightarrow> u32 \<Rightarrow> 'a ee_mach_scheme \<Rightarrow> 'a ee_mach_scheme res" where
  "ee_write32 env a v s = aligned 3 a (ee_store (io_write32 env) a v s)"
definition ee_write64 :: "'a ee_mach_scheme ee_env \<Rightarrow> u32 \<Rightarrow> u64 \<Rightarrow> 'a ee_mach_scheme \<Rightarrow> 'a ee_mach_scheme res" where
  "ee_write64 env a v s = aligned 7 a (ee_store (io_write64 env) a v s)"
definition ee_write128 :: "'a ee_mach_scheme ee_env \<Rightarrow> u32 \<Rightarrow> quad \<Rightarrow> 'a ee_mach_scheme \<Rightarrow> 'a ee_mach_scheme res" where
  "ee_write128 env = ee_store (io_write128 env)"

subsection \<open>Fetching instructions\<close>

definition is_cached :: "u32 \<Rightarrow> 'a ee_core_scheme \<Rightarrow> bool" where
  "is_cached a s \<longleftrightarrow> vtlb_cache_mode (cop0_vtlb s) (drop_bit 12 a) = CACHED"

definition icache_fill :: "u32 \<Rightarrow> icache_line \<Rightarrow> icache_line" where
  "icache_fill tag l =
     (if tst (ic_tag0 l) 31 then l\<lparr>ic_lfu0 := \<not> ic_lfu0 l, ic_tag0 := tag\<rparr>
      else if tst (ic_tag1 l) 31 then l\<lparr>ic_lfu1 := \<not> ic_lfu1 l, ic_tag1 := tag\<rparr>
      else if ic_lfu0 l \<noteq> ic_lfu1 l then l\<lparr>ic_lfu1 := \<not> ic_lfu1 l, ic_tag1 := tag\<rparr>
      else l\<lparr>ic_lfu0 := \<not> ic_lfu0 l, ic_tag0 := tag\<rparr>)"

text \<open>The tag is a \<open>uint16_t\<close>.\<close>

definition icache_tag :: "u32 \<Rightarrow> u32" where
  "icache_tag a = ucast (ucast (drop_bit 13 a) :: u16)"

definition icache_index :: "u32 \<Rightarrow> nat" where
  "icache_index a = unat (drop_bit 6 a AND 0x7F)"

definition icache_access :: "u32 \<Rightarrow> 'a ee_mach_scheme \<Rightarrow> 'a ee_mach_scheme" where
  "icache_access a s =
     (let l = ee_icache s ! icache_index a; tag = icache_tag a
      in if ic_tag0 l = tag \<or> ic_tag1 l = tag then s
         else s\<lparr>ee_cycles_to_run := ee_cycles_to_run s - 40,
                ee_icache := (ee_icache s)[icache_index a := icache_fill tag l]\<rparr>)"

definition read_instr :: "u32 \<Rightarrow> 'a ee_mach_scheme \<Rightarrow> (u32 \<times> 'a ee_mach_scheme) res" where
  "read_instr a s =
     (let s = (if is_cached a s then icache_access a s
               else s\<lparr>ee_cycles_to_run := ee_cycles_to_run s - 16\<rparr>);
          p = page_ptr a s
      in if p = Null_ptr \<or> p = Mmio then Inl (Die ''[EE] Instruction read from invalid address'')
         else Inr (ee_get p a s, s))"

definition invalidate_icache_indexed :: "u32 \<Rightarrow> 'a ee_mach_scheme \<Rightarrow> 'a ee_mach_scheme" where
  "invalidate_icache_indexed a s =
     (let k = icache_index a; l = ee_icache s ! k
      in s\<lparr>ee_icache := (ee_icache s)[k := if tst a 0 then l\<lparr>ic_tag1 := ic_tag1 l OR push_bit 31 1\<rparr>
                                            else l\<lparr>ic_tag0 := ic_tag0 l OR push_bit 31 1\<rparr>]\<rparr>)"

subsection \<open>Branches and exceptions\<close>

definition ee_jp :: "u32 \<Rightarrow> 'a ee_mach_scheme \<Rightarrow> 'a ee_mach_scheme" where
  "ee_jp a s = s\<lparr>ee_branch_on := True, ee_new_PC := a, ee_delay_slot := 1\<rparr>"

definition ee_branch :: "bool \<Rightarrow> u32 \<Rightarrow> 'a ee_mach_scheme \<Rightarrow> 'a ee_mach_scheme" where
  "ee_branch c offset s =
     (if c then s\<lparr>ee_branch_on := True, ee_new_PC := ee_PC s + offset + 4, ee_delay_slot := 1\<rparr> else s)"

definition ee_branch_likely :: "bool \<Rightarrow> u32 \<Rightarrow> 'a ee_mach_scheme \<Rightarrow> 'a ee_mach_scheme" where
  "ee_branch_likely c offset s =
     (if c then s\<lparr>ee_branch_on := True, ee_new_PC := ee_PC s + offset + 4, ee_delay_slot := 1\<rparr>
      else set_PC (ee_PC s + 4) s)"

definition mach_exception :: "u32 \<Rightarrow> u8 \<Rightarrow> 'a ee_mach_scheme \<Rightarrow> 'a ee_mach_scheme" where
  "mach_exception a code s = (let s = ee_handle_exception a code s in set_PC (ee_PC s) s)"

end
