(* ===== verification/Ee_Mmi.thy ===== *)
theory Ee_Mmi
  imports Ee_Gpr
begin

unbundle bit_operations_syntax

section \<open>The multimedia instructions\<close>

text \<open>
  \<open>src/core/ee/emotion_mmi.cpp\<close>, one definition per instruction. Most of the functions are a
  loop over the lanes of the registers that reads the operands of each turn from the register file
  and writes the result back before the next turn (\<open>par_rw\<close>, \<open>par_rt\<close>); others read both
  quadwords first (\<open>par_qw\<close>). The order matters where the destination is also a source.
\<close>

subsection \<open>The loops\<close>

definition par_rw ::
    "nat \<Rightarrow> ('w::len word \<Rightarrow> 'w word \<Rightarrow> 'w word) \<Rightarrow> u32 \<Rightarrow> 'a ee_cpu_scheme \<Rightarrow> 'a ee_cpu_scheme" where
  "par_rw n f i s =
     fold (\<lambda>k s. eset (i_rd i) (f (eget (i_rs i) k s) (eget (i_rt i) k s)) k s) [0..<n] s"

definition par_rt ::
    "nat \<Rightarrow> ('w::len word \<Rightarrow> 'w word) \<Rightarrow> u32 \<Rightarrow> 'a ee_cpu_scheme \<Rightarrow> 'a ee_cpu_scheme" where
  "par_rt n f i s = fold (\<lambda>k s. eset (i_rd i) (f (eget (i_rt i) k s)) k s) [0..<n] s"

definition par_qw ::
    "nat \<Rightarrow> ('w::len word \<Rightarrow> 'w word \<Rightarrow> 'w word) \<Rightarrow> u32 \<Rightarrow> 'a ee_cpu_scheme \<Rightarrow> 'a ee_cpu_scheme" where
  "par_qw n f i s =
     (let qw1 = eget128 (i_rs i) s; qw2 = eget128 (i_rt i) s
      in eset (i_rd i) (of_lanes n (\<lambda>k. f (lane k qw1) (lane k qw2))) 0 s)"

text \<open>Interleaving the elements of two doublewords, and packing the low halves of two quadwords.\<close>

definition extend ::
    "nat \<Rightarrow> (u64 \<Rightarrow> 'w::len word) \<Rightarrow> u64 \<Rightarrow> u64 \<Rightarrow> u32 \<Rightarrow> 'a ee_cpu_scheme \<Rightarrow> 'a ee_cpu_scheme" where
  "extend n low dw1 dw2 i s =
     fold (\<lambda>k s. eset (i_rd i) (low (drop_bit (k * LENGTH('w)) dw1)) (k * 2 + 1)
                   (eset (i_rd i) (low (drop_bit (k * LENGTH('w)) dw2)) (k * 2) s)) [0..<n] s"

definition pack ::
    "nat \<Rightarrow> ('v::len word \<Rightarrow> 'w::len word) \<Rightarrow> u32 \<Rightarrow> 'a ee_cpu_scheme \<Rightarrow> 'a ee_cpu_scheme" where
  "pack n low i s =
     (let qw1 = eget128 (i_rs i) s; qw2 = eget128 (i_rt i) s
      in fold (\<lambda>k s. eset (i_rd i) (low (lane k qw2)) k (eset (i_rd i) (low (lane k qw1)) (k + n) s)) [0..<n] s)"

definition quad4 :: "u32 \<Rightarrow> u32 \<Rightarrow> u32 \<Rightarrow> u32 \<Rightarrow> quad" where
  "quad4 a b c d = put_lane 3 d (put_lane 2 c (put_lane 1 b (put_lane 0 a 0)))"

definition quad2 :: "u64 \<Rightarrow> u64 \<Rightarrow> quad" where
  "quad2 a b = put_lane 1 b (put_lane 0 a 0)"

definition eset4 :: "5 word \<Rightarrow> u32 \<Rightarrow> u32 \<Rightarrow> u32 \<Rightarrow> u32 \<Rightarrow> 'a ee_cpu_scheme \<Rightarrow> 'a ee_cpu_scheme" where
  "eset4 r a b c d s = eset r d 3 (eset r c 2 (eset r b 1 (eset r a 0 s)))"

definition eset2 :: "5 word \<Rightarrow> u64 \<Rightarrow> u64 \<Rightarrow> 'a ee_cpu_scheme \<Rightarrow> 'a ee_cpu_scheme" where
  "eset2 r a b s = eset r b 1 (eset r a 0 s)"

text \<open>Both halves of \<open>LO\<close> and \<open>HI\<close> from two local quadwords.\<close>

definition set_both :: "quad \<Rightarrow> quad \<Rightarrow> 'a ee_cpu_scheme \<Rightarrow> 'a ee_cpu_scheme" where
  "set_both lo hi s =
     set_LO_HI (lane 1 lo) (lane 1 hi) True (set_LO_HI (lane 0 lo) (lane 0 hi) False s)"

definition both_LO :: "'a ee_cpu_scheme \<Rightarrow> quad" where "both_LO s = quad2 (get_LO s) (get_LO1 s)"
definition both_HI :: "'a ee_cpu_scheme \<Rightarrow> quad" where "both_HI s = quad2 (get_HI s) (get_HI1 s)"

text \<open>A 32-bit value sign extended to 64 bits.\<close>

definition sext :: "u32 \<Rightarrow> u64" where "sext w = scast w"

definition low32 :: "u64 \<Rightarrow> u32" where "low32 v = ucast v"
definition high32 :: "u64 \<Rightarrow> u32" where "high32 v = ucast (drop_bit 32 v)"

subsection \<open>Arithmetic, comparison, minimum and maximum\<close>

definition paddw :: "u32 \<Rightarrow> 'a ee_cpu_scheme \<Rightarrow> 'a ee_cpu_scheme" where "paddw = par_rw 4 (\<lambda>a b :: u32. a + b)"
definition paddh :: "u32 \<Rightarrow> 'a ee_cpu_scheme \<Rightarrow> 'a ee_cpu_scheme" where "paddh = par_rw 8 (\<lambda>a b :: u16. a + b)"
definition paddb :: "u32 \<Rightarrow> 'a ee_cpu_scheme \<Rightarrow> 'a ee_cpu_scheme" where "paddb = par_rw 16 (\<lambda>a b :: u8. a + b)"
definition psubw :: "u32 \<Rightarrow> 'a ee_cpu_scheme \<Rightarrow> 'a ee_cpu_scheme" where "psubw = par_rw 4 (\<lambda>a b :: u32. a - b)"
definition psubh :: "u32 \<Rightarrow> 'a ee_cpu_scheme \<Rightarrow> 'a ee_cpu_scheme" where "psubh = par_rw 8 (\<lambda>a b :: u16. a - b)"
definition psubb :: "u32 \<Rightarrow> 'a ee_cpu_scheme \<Rightarrow> 'a ee_cpu_scheme" where "psubb = par_rw 16 (\<lambda>a b :: u8. a - b)"

definition cmp_gt :: "'w::len word \<Rightarrow> 'w word \<Rightarrow> 'w word" where "cmp_gt a b = (if b <s a then -1 else 0)"
definition cmp_eq :: "'w::len word \<Rightarrow> 'w word \<Rightarrow> 'w word" where "cmp_eq a b = (if a = b then -1 else 0)"
definition lane_max :: "'w::len word \<Rightarrow> 'w word \<Rightarrow> 'w word" where "lane_max a b = (if b <s a then a else b)"
definition lane_min :: "'w::len word \<Rightarrow> 'w word \<Rightarrow> 'w word" where "lane_min a b = (if a <s b then a else b)"

definition pcgtw :: "u32 \<Rightarrow> 'a ee_cpu_scheme \<Rightarrow> 'a ee_cpu_scheme" where "pcgtw = par_qw 4 (cmp_gt :: u32 \<Rightarrow> _)"
definition pcgth :: "u32 \<Rightarrow> 'a ee_cpu_scheme \<Rightarrow> 'a ee_cpu_scheme" where "pcgth = par_qw 8 (cmp_gt :: u16 \<Rightarrow> _)"
definition pcgtb :: "u32 \<Rightarrow> 'a ee_cpu_scheme \<Rightarrow> 'a ee_cpu_scheme" where "pcgtb = par_qw 16 (cmp_gt :: u8 \<Rightarrow> _)"
definition pceqw :: "u32 \<Rightarrow> 'a ee_cpu_scheme \<Rightarrow> 'a ee_cpu_scheme" where "pceqw = par_qw 4 (cmp_eq :: u32 \<Rightarrow> _)"
definition pceqh :: "u32 \<Rightarrow> 'a ee_cpu_scheme \<Rightarrow> 'a ee_cpu_scheme" where "pceqh = par_qw 8 (cmp_eq :: u16 \<Rightarrow> _)"
definition pceqb :: "u32 \<Rightarrow> 'a ee_cpu_scheme \<Rightarrow> 'a ee_cpu_scheme" where "pceqb = par_qw 16 (cmp_eq :: u8 \<Rightarrow> _)"
definition pmaxw :: "u32 \<Rightarrow> 'a ee_cpu_scheme \<Rightarrow> 'a ee_cpu_scheme" where "pmaxw = par_rw 4 (lane_max :: u32 \<Rightarrow> _)"
definition pmaxh :: "u32 \<Rightarrow> 'a ee_cpu_scheme \<Rightarrow> 'a ee_cpu_scheme" where "pmaxh = par_rw 8 (lane_max :: u16 \<Rightarrow> _)"
definition pminw :: "u32 \<Rightarrow> 'a ee_cpu_scheme \<Rightarrow> 'a ee_cpu_scheme" where "pminw = par_rw 4 (lane_min :: u32 \<Rightarrow> _)"
definition pminh :: "u32 \<Rightarrow> 'a ee_cpu_scheme \<Rightarrow> 'a ee_cpu_scheme" where "pminh = par_rw 8 (lane_min :: u16 \<Rightarrow> _)"

subsection \<open>Saturating arithmetic\<close>

definition sat_w :: "u64 \<Rightarrow> u32" where
  "sat_w value =
     (let value = (if 0x7FFFFFFF <s value then 0x7FFFFFFF else value);
          value = (if value <s - 0x80000000 then - 0x80000000 else value)
      in ucast value)"

definition sat_h :: "u32 \<Rightarrow> u16" where
  "sat_h value =
     (let value = (if 0x7FFF <s value then 0x7FFF else value);
          value = (if value <s - 0x8000 then - 0x8000 else value)
      in ucast value)"

definition sat_b :: "u16 \<Rightarrow> u8" where
  "sat_b value =
     (let value = (if 0x7F <s value then 0x7F else value);
          value = (if value <s - 0x80 then - 0x80 else value)
      in ucast value)"

definition paddsw :: "u32 \<Rightarrow> 'a ee_cpu_scheme \<Rightarrow> 'a ee_cpu_scheme" where
  "paddsw = par_rw 4 (\<lambda>a b. sat_w (scast a + scast b))"
definition paddsh :: "u32 \<Rightarrow> 'a ee_cpu_scheme \<Rightarrow> 'a ee_cpu_scheme" where
  "paddsh = par_rw 8 (\<lambda>a b. sat_h (scast a + scast b))"
definition paddsb :: "u32 \<Rightarrow> 'a ee_cpu_scheme \<Rightarrow> 'a ee_cpu_scheme" where
  "paddsb = par_rw 16 (\<lambda>a b. sat_b (scast a + scast b))"
definition psubsw :: "u32 \<Rightarrow> 'a ee_cpu_scheme \<Rightarrow> 'a ee_cpu_scheme" where
  "psubsw = par_rw 4 (\<lambda>a b. sat_w (scast a - scast b))"
definition psubsh :: "u32 \<Rightarrow> 'a ee_cpu_scheme \<Rightarrow> 'a ee_cpu_scheme" where
  "psubsh = par_rw 8 (\<lambda>a b. sat_h (scast a - scast b))"
definition psubsb :: "u32 \<Rightarrow> 'a ee_cpu_scheme \<Rightarrow> 'a ee_cpu_scheme" where
  "psubsb = par_rw 16 (\<lambda>a b. sat_b (scast a - scast b))"

definition padduw :: "u32 \<Rightarrow> 'a ee_cpu_scheme \<Rightarrow> 'a ee_cpu_scheme" where
  "padduw = par_rw 4 (\<lambda>a b :: u32. let result = ucast a + ucast b :: u64
     in ucast (if 0xFFFFFFFF < result then 0xFFFFFFFF else result))"
definition padduh :: "u32 \<Rightarrow> 'a ee_cpu_scheme \<Rightarrow> 'a ee_cpu_scheme" where
  "padduh = par_rw 8 (\<lambda>a b :: u16. let result = ucast a + ucast b :: u32
     in ucast (if 0xFFFF < result then 0xFFFF else result))"
definition paddub :: "u32 \<Rightarrow> 'a ee_cpu_scheme \<Rightarrow> 'a ee_cpu_scheme" where
  "paddub = par_rw 16 (\<lambda>a b :: u8. let result = ucast a + ucast b :: u16
     in ucast (if 0xFF < result then 0xFF else result))"
definition psubuw :: "u32 \<Rightarrow> 'a ee_cpu_scheme \<Rightarrow> 'a ee_cpu_scheme" where
  "psubuw = par_rw 4 (\<lambda>a b :: u32. let result = ucast a - ucast b :: u64
     in ucast (if 0xFFFFFFFF < result then 0 else result))"
definition psubuh :: "u32 \<Rightarrow> 'a ee_cpu_scheme \<Rightarrow> 'a ee_cpu_scheme" where
  "psubuh = par_rw 8 (\<lambda>a b :: u16. let result = ucast a - ucast b :: u32
     in ucast (if 0xFFFF < result then 0 else result))"
definition psubub :: "u32 \<Rightarrow> 'a ee_cpu_scheme \<Rightarrow> 'a ee_cpu_scheme" where
  "psubub = par_rw 16 (\<lambda>a b :: u8. let result = ucast a - ucast b :: u16
     in ucast (if 0xFF < result then 0 else result))"

definition pabsw :: "u32 \<Rightarrow> 'a ee_cpu_scheme \<Rightarrow> 'a ee_cpu_scheme" where
  "pabsw = par_rt 4 (\<lambda>w :: u32. if w = 0x80000000 then 0x7FFFFFFF else if w <s 0 then - w else w)"
definition pabsh :: "u32 \<Rightarrow> 'a ee_cpu_scheme \<Rightarrow> 'a ee_cpu_scheme" where
  "pabsh = par_rt 8 (\<lambda>w :: u16. if w = 0x8000 then 0x7FFF else if w <s 0 then - w else w)"

definition padsbh :: "u32 \<Rightarrow> 'a ee_cpu_scheme \<Rightarrow> 'a ee_cpu_scheme" where
  "padsbh i s = fold (\<lambda>k s.
     let hw1 = eget16 (i_rs i) k s - eget (i_rt i) k s;
         hw2 = eget16 (i_rs i) (k + 4) s + eget (i_rt i) (k + 4) s
     in eset (i_rd i) hw2 (k + 4) (eset (i_rd i) hw1 k s)) [0..<4] s"

subsection \<open>Interleaving, packing and permuting\<close>

definition pextlw :: "u32 \<Rightarrow> 'a ee_cpu_scheme \<Rightarrow> 'a ee_cpu_scheme" where
  "pextlw i s = extend 2 (ucast :: _ \<Rightarrow> u32) (eget64 (i_rs i) 0 s) (eget64 (i_rt i) 0 s) i s"
definition pextlh :: "u32 \<Rightarrow> 'a ee_cpu_scheme \<Rightarrow> 'a ee_cpu_scheme" where
  "pextlh i s = extend 4 (ucast :: _ \<Rightarrow> u16) (eget64 (i_rs i) 0 s) (eget64 (i_rt i) 0 s) i s"
definition pextlb :: "u32 \<Rightarrow> 'a ee_cpu_scheme \<Rightarrow> 'a ee_cpu_scheme" where
  "pextlb i s = extend 8 (ucast :: _ \<Rightarrow> u8) (eget64 (i_rs i) 0 s) (eget64 (i_rt i) 0 s) i s"
definition pextuw :: "u32 \<Rightarrow> 'a ee_cpu_scheme \<Rightarrow> 'a ee_cpu_scheme" where
  "pextuw i s = extend 2 (ucast :: _ \<Rightarrow> u32) (eget64 (i_rs i) 1 s) (eget64 (i_rt i) 1 s) i s"
definition pextuh :: "u32 \<Rightarrow> 'a ee_cpu_scheme \<Rightarrow> 'a ee_cpu_scheme" where
  "pextuh i s = extend 4 (ucast :: _ \<Rightarrow> u16) (eget64 (i_rs i) 1 s) (eget64 (i_rt i) 1 s) i s"
definition pextub :: "u32 \<Rightarrow> 'a ee_cpu_scheme \<Rightarrow> 'a ee_cpu_scheme" where
  "pextub i s = extend 8 (ucast :: _ \<Rightarrow> u8) (eget64 (i_rs i) 1 s) (eget64 (i_rt i) 1 s) i s"

definition ppacw :: "u32 \<Rightarrow> 'a ee_cpu_scheme \<Rightarrow> 'a ee_cpu_scheme" where
  "ppacw i s =
     (let qw1 = eget128 (i_rs i) s; qw2 = eget128 (i_rt i) s
      in eset4 (i_rd i) (low32 (lane 0 qw2)) (low32 (lane 1 qw2)) (low32 (lane 0 qw1)) (low32 (lane 1 qw1)) s)"
definition ppach :: "u32 \<Rightarrow> 'a ee_cpu_scheme \<Rightarrow> 'a ee_cpu_scheme" where
  "ppach = pack 4 (ucast :: u32 \<Rightarrow> u16)"
definition ppacb :: "u32 \<Rightarrow> 'a ee_cpu_scheme \<Rightarrow> 'a ee_cpu_scheme" where
  "ppacb = pack 8 (ucast :: u16 \<Rightarrow> u8)"

definition pinth :: "u32 \<Rightarrow> 'a ee_cpu_scheme \<Rightarrow> 'a ee_cpu_scheme" where
  "pinth i s = fold (\<lambda>k s.
     let hw1 = eget16 (i_rs i) (k + 4) s; hw2 = eget16 (i_rt i) k s
     in eset (i_rd i) hw2 (k * 2) (eset (i_rd i) hw1 (k * 2 + 1) s)) [0..<4] s"
definition pinteh :: "u32 \<Rightarrow> 'a ee_cpu_scheme \<Rightarrow> 'a ee_cpu_scheme" where
  "pinteh i s = fold (\<lambda>k s.
     let hw1 = ucast (eget32 (i_rs i) k s) :: u16; hw2 = ucast (eget32 (i_rt i) k s) :: u16
     in eset (i_rd i) hw2 (k * 2) (eset (i_rd i) hw1 (k * 2 + 1) s)) [0..<4] s"

text \<open>\<open>std::swap\<close> of two elements.\<close>

definition swap16 :: "nat \<Rightarrow> nat \<Rightarrow> quad \<Rightarrow> quad" where
  "swap16 j k q = put_lane k (lane j q :: u16) (put_lane j (lane k q :: u16) q)"

definition swap32 :: "nat \<Rightarrow> nat \<Rightarrow> quad \<Rightarrow> quad" where
  "swap32 j k q = put_lane k (lane j q :: u32) (put_lane j (lane k q :: u32) q)"

definition pexeh :: "u32 \<Rightarrow> 'a ee_cpu_scheme \<Rightarrow> 'a ee_cpu_scheme" where
  "pexeh i s = eset (i_rd i) (swap16 4 6 (swap16 0 2 (eget128 (i_rt i) s))) 0 s"
definition prevh :: "u32 \<Rightarrow> 'a ee_cpu_scheme \<Rightarrow> 'a ee_cpu_scheme" where
  "prevh i s = eset (i_rd i) (swap16 5 6 (swap16 4 7 (swap16 1 2 (swap16 0 3 (eget128 (i_rt i) s))))) 0 s"
definition pexew :: "u32 \<Rightarrow> 'a ee_cpu_scheme \<Rightarrow> 'a ee_cpu_scheme" where
  "pexew i s = eset (i_rd i) (swap32 0 2 (eget128 (i_rt i) s)) 0 s"
definition prot3w :: "u32 \<Rightarrow> 'a ee_cpu_scheme \<Rightarrow> 'a ee_cpu_scheme" where
  "prot3w i s =
     (let q = eget128 (i_rt i) s
      in eset (i_rd i) (quad4 (lane 1 q) (lane 2 q) (lane 0 q) (lane 3 q)) 0 s)"
definition pexch :: "u32 \<Rightarrow> 'a ee_cpu_scheme \<Rightarrow> 'a ee_cpu_scheme" where
  "pexch i s =
     (let data = swap16 5 6 (swap16 1 2 (of_lanes 8 (\<lambda>k. eget16 (i_rt i) k s)))
      in fold (\<lambda>k. eset (i_rd i) (lane k data :: u16) k) [0..<8] s)"
definition pexcw :: "u32 \<Rightarrow> 'a ee_cpu_scheme \<Rightarrow> 'a ee_cpu_scheme" where
  "pexcw i s =
     (let data = swap32 1 2 (of_lanes 4 (\<lambda>k. eget32 (i_rt i) k s))
      in fold (\<lambda>k. eset (i_rd i) (lane k data :: u32) k) [0..<4] s)"
definition pcpyh :: "u32 \<Rightarrow> 'a ee_cpu_scheme \<Rightarrow> 'a ee_cpu_scheme" where
  "pcpyh i s =
     fold (\<lambda>k s. eset (i_rd i) (eget16 (i_rt i) 4 s) k s) [4..<8]
       (fold (\<lambda>k s. eset (i_rd i) (eget16 (i_rt i) 0 s) k s) [0..<4] s)"
definition pcpyld :: "u32 \<Rightarrow> 'a ee_cpu_scheme \<Rightarrow> 'a ee_cpu_scheme" where
  "pcpyld i s =
     (let high = eget64 (i_rs i) 0 s; low = eget64 (i_rt i) 0 s in eset2 (i_rd i) low high s)"
definition pcpyud :: "u32 \<Rightarrow> 'a ee_cpu_scheme \<Rightarrow> 'a ee_cpu_scheme" where
  "pcpyud i s =
     (let high = eget64 (i_rs i) 1 s; low = eget64 (i_rt i) 1 s in eset2 (i_rd i) high low s)"

subsection \<open>Logic and shifts\<close>

text \<open>The bitwise operations work on the two doublewords one after the other.\<close>

definition par_logic ::
    "(u64 \<Rightarrow> u64 \<Rightarrow> u64) \<Rightarrow> u32 \<Rightarrow> 'a ee_cpu_scheme \<Rightarrow> 'a ee_cpu_scheme" where
  "par_logic f i s =
     (let s = eset (i_rd i) (f (eget64 (i_rs i) 0 s) (eget64 (i_rt i) 0 s)) 0 s
      in eset (i_rd i) (f (eget64 (i_rs i) 1 s) (eget64 (i_rt i) 1 s)) 1 s)"

definition pand :: "u32 \<Rightarrow> 'a ee_cpu_scheme \<Rightarrow> 'a ee_cpu_scheme" where
  "pand = par_logic (\<lambda>a b. a AND b)"
definition por :: "u32 \<Rightarrow> 'a ee_cpu_scheme \<Rightarrow> 'a ee_cpu_scheme" where
  "por = par_logic (\<lambda>a b. a OR b)"
definition pxor :: "u32 \<Rightarrow> 'a ee_cpu_scheme \<Rightarrow> 'a ee_cpu_scheme" where
  "pxor = par_logic (\<lambda>a b. a XOR b)"
definition pnor :: "u32 \<Rightarrow> 'a ee_cpu_scheme \<Rightarrow> 'a ee_cpu_scheme" where
  "pnor = par_logic (\<lambda>a b. NOT (a OR b))"

definition psllh :: "u32 \<Rightarrow> 'a ee_cpu_scheme \<Rightarrow> 'a ee_cpu_scheme" where
  "psllh i s = par_rt 8 (\<lambda>w :: u16. push_bit (i_sa i mod 16) w) i s"
definition psrlh :: "u32 \<Rightarrow> 'a ee_cpu_scheme \<Rightarrow> 'a ee_cpu_scheme" where
  "psrlh i s = par_rt 8 (\<lambda>w :: u16. drop_bit (i_sa i mod 16) w) i s"
definition psrah :: "u32 \<Rightarrow> 'a ee_cpu_scheme \<Rightarrow> 'a ee_cpu_scheme" where
  "psrah i s = par_rt 8 (\<lambda>w :: u16. signed_drop_bit (i_sa i mod 16) w) i s"
definition psllw :: "u32 \<Rightarrow> 'a ee_cpu_scheme \<Rightarrow> 'a ee_cpu_scheme" where
  "psllw i s = par_rt 4 (\<lambda>w :: u32. push_bit (i_sa i) w) i s"
definition psrlw :: "u32 \<Rightarrow> 'a ee_cpu_scheme \<Rightarrow> 'a ee_cpu_scheme" where
  "psrlw i s = par_rt 4 (\<lambda>w :: u32. drop_bit (i_sa i) w) i s"
definition psraw :: "u32 \<Rightarrow> 'a ee_cpu_scheme \<Rightarrow> 'a ee_cpu_scheme" where
  "psraw i s = par_rt 4 (\<lambda>w :: u32. signed_drop_bit (i_sa i) w) i s"

text \<open>The variable shifts: the amounts are in the doublewords of \<open>rs\<close>, each doubleword is
  written before the next is read.\<close>

definition par_shiftv ::
    "(nat \<Rightarrow> u32 \<Rightarrow> u32) \<Rightarrow> u32 \<Rightarrow> 'a ee_cpu_scheme \<Rightarrow> 'a ee_cpu_scheme" where
  "par_shiftv f i s =
     (let amount = \<lambda>k s. unat (eget64 (i_rs i) k s AND 0x1F);
          s = eset (i_rd i) (sext (f (amount 0 s) (low32 (eget64 (i_rt i) 0 s)))) 0 s
      in eset (i_rd i) (sext (f (amount 1 s) (low32 (eget64 (i_rt i) 1 s)))) 1 s)"

definition psllvw :: "u32 \<Rightarrow> 'a ee_cpu_scheme \<Rightarrow> 'a ee_cpu_scheme" where
  "psllvw = par_shiftv push_bit"
definition psrlvw :: "u32 \<Rightarrow> 'a ee_cpu_scheme \<Rightarrow> 'a ee_cpu_scheme" where
  "psrlvw = par_shiftv drop_bit"
definition psravw :: "u32 \<Rightarrow> 'a ee_cpu_scheme \<Rightarrow> 'a ee_cpu_scheme" where
  "psravw = par_shiftv signed_drop_bit"

text \<open>The funnel shift. A shift amount outside the quadword is undefined behaviour of the source.\<close>

definition funnel :: "nat \<Rightarrow> quad \<Rightarrow> quad \<Rightarrow> quad" where
  "funnel shift rs rt =
     (if shift = 0 then rt
      else if shift < 64
      then quad2 (drop_bit shift (lane 0 rt) OR push_bit (64 - shift) (lane 1 rt))
                 (drop_bit shift (lane 1 rt) OR push_bit (64 - shift) (lane 0 rs))
      else let d0 = drop_bit (shift - 64) (lane 1 rt); d1 = drop_bit (shift - 64) (lane 0 rs)
           in if shift \<noteq> 64
              then quad2 (d0 OR push_bit (128 - shift) (lane 0 rs)) (d1 OR push_bit (128 - shift) (lane 1 rs))
              else quad2 d0 d1)"

definition qfsrv :: "u32 \<Rightarrow> 'a ee_cpu_scheme \<Rightarrow> 'a ee_cpu_scheme res" where
  "qfsrv i s =
     (let rs = eget128 (i_rs i) s; rt = eget128 (i_rt i) s;
          shift = sint (ucast (get_SA s * 8) :: u32)
      in if 0 \<le> shift \<and> shift < 128 then Inr (eset (i_rd i) (funnel (nat shift) rs rt) 0 s)
         else Inl (Undefined ''shift amount''))"

subsection \<open>Colours and leading bits\<close>

definition expand5 :: "u32 \<Rightarrow> u32" where
  "expand5 w =
     (let packed = w AND 0xFFFF
      in push_bit 16 (packed AND push_bit 15 1) OR push_bit 19 (drop_bit 10 packed AND 0x1F) OR
         push_bit 11 (drop_bit 5 packed AND 0x1F) OR push_bit 3 (packed AND 0x1F))"

definition pack5 :: "u32 \<Rightarrow> u32" where
  "pack5 unpacked =
     (drop_bit 3 unpacked AND 0x1F) OR push_bit 5 (drop_bit 11 unpacked AND 0x1F) OR
     push_bit 10 (drop_bit 19 unpacked AND 0x1F) OR drop_bit 16 (unpacked AND push_bit 31 1)"

definition pext5 :: "u32 \<Rightarrow> 'a ee_cpu_scheme \<Rightarrow> 'a ee_cpu_scheme" where
  "pext5 = par_rt 4 expand5"
definition ppac5 :: "u32 \<Rightarrow> 'a ee_cpu_scheme \<Rightarrow> 'a ee_cpu_scheme" where
  "ppac5 = par_rt 4 pack5"

fun leading_from :: "nat \<Rightarrow> u32 \<Rightarrow> nat" where
  "leading_from 0 w = 0"
| "leading_from (Suc j) w = (if bit w j = bit w 31 then Suc (leading_from j w) else 0)"

definition plzcw :: "u32 \<Rightarrow> 'a ee_cpu_scheme \<Rightarrow> 'a ee_cpu_scheme" where
  "plzcw i s =
     (let words = \<lambda>k. of_nat (leading_from 31 (eget32 (i_rs i) k s)) :: u32
      in eset (i_rd i) (words 1) 1 (eset (i_rd i) (words 0) 0 s))"

subsection \<open>LO and HI\<close>

definition clamp_doubleword :: "u64 \<Rightarrow> u64" where
  "clamp_doubleword w =
     (if 0x7FFFFFFF \<le>s w then 0x7FFFFFFF
      else if w \<le>s 0xFFFFFFFF80000000 then 0xFFFFFFFF80000000 else sext (low32 w))"

text \<open>The literal of the lower bound, \<open>0xFFFF80000\<close>, has nine digits: converted to 32 bits it
  is \<open>0xFFF80000\<close>.\<close>

definition clamp_halfword :: "u32 \<Rightarrow> u16" where
  "clamp_halfword w =
     (if 0x7FFF <s w then 0x7FFF
      else if w <s ucast (0xFFFF80000 :: u64) then 0x8000 else ucast w)"

definition pmthllw :: "u32 \<Rightarrow> 'a ee_cpu_scheme \<Rightarrow> 'a ee_cpu_scheme" where
  "pmthllw i s =
     (let source = eget128 (i_rs i) s;
          lo = put_lane 2 (lane 2 source :: u32) (put_lane 0 (lane 0 source :: u32) (both_LO s));
          hi = put_lane 2 (lane 3 source :: u32) (put_lane 0 (lane 1 source :: u32) (both_HI s))
      in set_both lo hi s)"
definition pmfhllw :: "u32 \<Rightarrow> 'a ee_cpu_scheme \<Rightarrow> 'a ee_cpu_scheme" where
  "pmfhllw i s =
     (let lo = both_LO s; hi = both_HI s
      in eset (i_rd i) (quad4 (lane 0 lo) (lane 0 hi) (lane 2 lo) (lane 2 hi)) 0 s)"
definition pmfhluw :: "u32 \<Rightarrow> 'a ee_cpu_scheme \<Rightarrow> 'a ee_cpu_scheme" where
  "pmfhluw i s =
     (let lo = both_LO s; hi = both_HI s
      in eset (i_rd i) (quad4 (lane 1 lo) (lane 1 hi) (lane 3 lo) (lane 3 hi)) 0 s)"
definition pmfhlslw :: "u32 \<Rightarrow> 'a ee_cpu_scheme \<Rightarrow> 'a ee_cpu_scheme" where
  "pmfhlslw i s =
     (let lo = both_LO s; hi = both_HI s
      in eset (i_rd i) (quad2 (clamp_doubleword (ucast (lane 0 lo :: u32) OR push_bit 32 (ucast (lane 0 hi :: u32))))
                       (clamp_doubleword (ucast (lane 2 lo :: u32) OR push_bit 32 (ucast (lane 2 hi :: u32))))) 0 s)"
definition pmfhllh :: "u32 \<Rightarrow> 'a ee_cpu_scheme \<Rightarrow> 'a ee_cpu_scheme" where
  "pmfhllh i s =
     (let lo = both_LO s; hi = both_HI s
      in eset (i_rd i) (let data = of_lanes 8 (\<lambda>k. if even k then lane k lo else lane (k - 1) hi :: u16)
         in swap16 5 6 (swap16 1 2 data)) 0 s)"
definition pmfhlsh :: "u32 \<Rightarrow> 'a ee_cpu_scheme \<Rightarrow> 'a ee_cpu_scheme" where
  "pmfhlsh i s =
     (let lo = both_LO s; hi = both_HI s
      in eset (i_rd i) (of_lanes 8 (\<lambda>k. clamp_halfword
        ([lane 0 lo, lane 1 lo, lane 0 hi, lane 1 hi, lane 2 lo, lane 3 lo, lane 2 hi, lane 3 hi] ! k))) 0 s)"

definition pmfhi :: "u32 \<Rightarrow> 'a ee_cpu_scheme \<Rightarrow> 'a ee_cpu_scheme" where
  "pmfhi i = ee_pmfhi (i_rd i)"
definition pmflo :: "u32 \<Rightarrow> 'a ee_cpu_scheme \<Rightarrow> 'a ee_cpu_scheme" where
  "pmflo i = ee_pmflo (i_rd i)"
definition pmthi :: "u32 \<Rightarrow> 'a ee_cpu_scheme \<Rightarrow> 'a ee_cpu_scheme" where
  "pmthi i = ee_pmthi (i_rs i)"
definition pmtlo :: "u32 \<Rightarrow> 'a ee_cpu_scheme \<Rightarrow> 'a ee_cpu_scheme" where
  "pmtlo i = ee_pmtlo (i_rs i)"
definition mfhi1 :: "u32 \<Rightarrow> 'a ee_cpu_scheme \<Rightarrow> 'a ee_cpu_scheme" where
  "mfhi1 i = ee_mfhi1 (i_rd i)"
definition mflo1 :: "u32 \<Rightarrow> 'a ee_cpu_scheme \<Rightarrow> 'a ee_cpu_scheme" where
  "mflo1 i = ee_mflo1 (i_rd i)"
definition mthi1 :: "u32 \<Rightarrow> 'a ee_cpu_scheme \<Rightarrow> 'a ee_cpu_scheme" where
  "mthi1 i = ee_mthi1 (i_rs i)"
definition mtlo1 :: "u32 \<Rightarrow> 'a ee_cpu_scheme \<Rightarrow> 'a ee_cpu_scheme" where
  "mtlo1 i = ee_mtlo1 (i_rs i)"

subsection \<open>Multiplication and division\<close>

text \<open>The product of two signed halfwords as an \<open>int\<close>.\<close>

definition hmul :: "nat \<Rightarrow> quad \<Rightarrow> quad \<Rightarrow> u32" where
  "hmul k a b = scast (lane k a :: u16) * scast (lane k b :: u16)"

definition pmaddh :: "u32 \<Rightarrow> 'a ee_cpu_scheme \<Rightarrow> 'a ee_cpu_scheme" where
  "pmaddh i s =
     (let a = eget128 (i_rs i) s; b = eget128 (i_rt i) s; lo0 = both_LO s; hi0 = both_HI s;
          lo = quad4 (lane 0 lo0 + hmul 0 a b) (lane 1 lo0 + hmul 1 a b) (lane 2 lo0 + hmul 4 a b) (lane 3 lo0 + hmul 5 a b);
          hi = quad4 (lane 0 hi0 + hmul 2 a b) (lane 1 hi0 + hmul 3 a b) (lane 2 hi0 + hmul 6 a b) (lane 3 hi0 + hmul 7 a b)
      in set_both lo hi (eset4 (i_rd i) (lane 0 lo) (lane 0 hi) (lane 2 lo) (lane 2 hi) s))"
definition pmsubh :: "u32 \<Rightarrow> 'a ee_cpu_scheme \<Rightarrow> 'a ee_cpu_scheme" where
  "pmsubh i s =
     (let a = eget128 (i_rs i) s; b = eget128 (i_rt i) s; lo0 = both_LO s; hi0 = both_HI s;
          lo = quad4 (lane 0 lo0 - hmul 0 a b) (lane 1 lo0 - hmul 1 a b) (lane 2 lo0 - hmul 4 a b) (lane 3 lo0 - hmul 5 a b);
          hi = quad4 (lane 0 hi0 - hmul 2 a b) (lane 1 hi0 - hmul 3 a b) (lane 2 hi0 - hmul 6 a b) (lane 3 hi0 - hmul 7 a b)
      in set_both lo hi (eset4 (i_rd i) (lane 0 lo) (lane 0 hi) (lane 2 lo) (lane 2 hi) s))"
definition phmadh :: "u32 \<Rightarrow> 'a ee_cpu_scheme \<Rightarrow> 'a ee_cpu_scheme" where
  "phmadh i s =
     (let a = eget128 (i_rs i) s; b = eget128 (i_rt i) s;
          lo = quad4 (hmul 1 a b + hmul 0 a b) (hmul 1 a b) (hmul 5 a b + hmul 4 a b) (hmul 5 a b);
          hi = quad4 (hmul 3 a b + hmul 2 a b) (hmul 3 a b) (hmul 7 a b + hmul 6 a b) (hmul 7 a b)
      in set_both lo hi (eset4 (i_rd i) (lane 0 lo) (lane 0 hi) (lane 2 lo) (lane 2 hi) s))"
definition phmsbh :: "u32 \<Rightarrow> 'a ee_cpu_scheme \<Rightarrow> 'a ee_cpu_scheme" where
  "phmsbh i s =
     (let a = eget128 (i_rs i) s; b = eget128 (i_rt i) s;
          lo = quad4 (hmul 1 a b - hmul 0 a b) (NOT (hmul 1 a b)) (hmul 5 a b - hmul 4 a b) (NOT (hmul 5 a b));
          hi = quad4 (hmul 3 a b - hmul 2 a b) (NOT (hmul 3 a b)) (hmul 7 a b - hmul 6 a b) (NOT (hmul 7 a b))
      in set_both lo hi (eset4 (i_rd i) (lane 0 lo) (lane 0 hi) (lane 2 lo) (lane 2 hi) s))"
definition pmulth :: "u32 \<Rightarrow> 'a ee_cpu_scheme \<Rightarrow> 'a ee_cpu_scheme" where
  "pmulth i s =
     (let a = eget128 (i_rs i) s; b = eget128 (i_rt i) s;
          lo = quad4 (hmul 0 a b) (hmul 1 a b) (hmul 4 a b) (hmul 5 a b);
          hi = quad4 (hmul 2 a b) (hmul 3 a b) (hmul 6 a b) (hmul 7 a b)
      in set_both lo hi (eset4 (i_rd i) (hmul 0 a b) (hmul 2 a b) (hmul 4 a b) (hmul 6 a b) s))"

text \<open>The 64-bit products of words \<open>2 * k\<close>, signed and unsigned.\<close>

definition smul :: "nat \<Rightarrow> quad \<Rightarrow> quad \<Rightarrow> u64" where
  "smul k a b = sext (lane (2 * k) a) * sext (lane (2 * k) b)"

definition umul :: "nat \<Rightarrow> quad \<Rightarrow> quad \<Rightarrow> u64" where
  "umul k a b = ucast (lane (2 * k) a :: u32) * ucast (lane (2 * k) b :: u32)"

definition pmultw :: "u32 \<Rightarrow> 'a ee_cpu_scheme \<Rightarrow> 'a ee_cpu_scheme" where
  "pmultw i s =
     (let a = eget128 (i_rs i) s; b = eget128 (i_rt i) s;
          lo = quad2 (sext (low32 (smul 0 a b))) (sext (low32 (smul 1 a b)));
          hi = quad2 (sext (high32 (smul 0 a b))) (sext (high32 (smul 1 a b)))
      in set_both lo hi (eset2 (i_rd i) (smul 0 a b) (smul 1 a b) s))"
definition pmultuw :: "u32 \<Rightarrow> 'a ee_cpu_scheme \<Rightarrow> 'a ee_cpu_scheme" where
  "pmultuw i s =
     (let a = eget128 (i_rs i) s; b = eget128 (i_rt i) s;
          lo = quad2 (sext (low32 (umul 0 a b))) (sext (low32 (umul 1 a b)));
          hi = quad2 (sext (high32 (umul 0 a b))) (sext (high32 (umul 1 a b)))
      in set_both lo hi (eset2 (i_rd i) (umul 0 a b) (umul 1 a b) s))"
definition pmadduw :: "u32 \<Rightarrow> 'a ee_cpu_scheme \<Rightarrow> 'a ee_cpu_scheme" where
  "pmadduw i s =
     (let a = eget128 (i_rs i) s; b = eget128 (i_rt i) s; lo0 = both_LO s; hi0 = both_HI s;
          result = \<lambda>k. (ucast (lane (2 * k) lo0 :: u32) OR push_bit 32 (ucast (lane (2 * k) hi0 :: u32))) + umul k a b;
          lo = quad2 (sext (low32 (result 0))) (sext (low32 (result 1)));
          hi = quad2 (sext (high32 (result 0))) (sext (high32 (result 1)))
      in set_both lo hi (eset2 (i_rd i) (result 0) (result 1) s))"

text \<open>The signed multiply-add and multiply-subtract of words imitate the rounding of the hardware:
  the high word is a quotient by \<open>2\<^sup>3\<^sup>2 - 1\<close>, and \<open>pmaddw\<close> corrects it in its low half.\<close>

definition high_quotient :: "u64 \<Rightarrow> u64" where
  "high_quotient v = sext (word_of_int (sint v sdiv 4294967295))"

definition maddw_adjust :: "u64 \<Rightarrow> u64 \<Rightarrow> u64 \<Rightarrow> u64" where
  "maddw_adjust op1 op2 v =
     (if (op2 AND 0x7FFFFFFF = 0 \<or> op2 AND 0x7FFFFFFF = 0x7FFFFFFF) \<and> op1 \<noteq> op2
      then v + 0x70000000 else v)"

definition pmaddw :: "u32 \<Rightarrow> 'a ee_cpu_scheme \<Rightarrow> 'a ee_cpu_scheme" where
  "pmaddw i s =
     (let a = eget128 (i_rs i) s; b = eget128 (i_rt i) s; lo0 = both_LO s; hi0 = both_HI s;
          v = \<lambda>k. smul k a b + push_bit 32 (sext (lane (2 * k) hi0));
          hi = quad2 (high_quotient (maddw_adjust (sext (lane 0 a)) (sext (lane 0 b)) (v 0))) (high_quotient (v 1));
          lo = quad2 (sext (low32 (smul 0 a b) + lane 0 lo0)) (sext (low32 (smul 1 a b) + lane 2 lo0))
      in set_both lo hi (eset4 (i_rd i) (lane 0 lo) (lane 0 hi) (lane 2 lo) (lane 2 hi) s))"
definition pmsubw :: "u32 \<Rightarrow> 'a ee_cpu_scheme \<Rightarrow> 'a ee_cpu_scheme" where
  "pmsubw i s =
     (let a = eget128 (i_rs i) s; b = eget128 (i_rt i) s; lo0 = both_LO s; hi0 = both_HI s;
          v = \<lambda>k. push_bit 32 (sext (lane (2 * k) hi0)) - smul k a b;
          hi = quad2 (high_quotient (v 0)) (high_quotient (v 1));
          lo = quad2 (sext (lane 0 lo0 - low32 (smul 0 a b))) (sext (lane 2 lo0 - low32 (smul 1 a b)))
      in set_both lo hi (eset4 (i_rd i) (lane 0 lo) (lane 0 hi) (lane 2 lo) (lane 2 hi) s))"

text \<open>Signed and unsigned division of words, with the results the code gives for a zero divisor
  and for the quotient that does not fit.\<close>

definition div_signed :: "u32 \<Rightarrow> u32 \<Rightarrow> u32 \<times> u32" where
  "div_signed n d =
     (if n = 0x80000000 \<and> d = 0xFFFFFFFF then (0x80000000, 0)
      else if d \<noteq> 0 then (word_of_int (sint n sdiv sint d), word_of_int (sint n smod sint d))
      else (if n <s 0 then 1 else - 1, n))"

definition div_unsigned :: "u32 \<Rightarrow> u32 \<Rightarrow> u32 \<times> u32" where
  "div_unsigned n d = (if d \<noteq> 0 then (n div d, n mod d) else (- 1, n))"

definition par_div ::
    "(u32 \<Rightarrow> u32 \<Rightarrow> u32 \<times> u32) \<Rightarrow> u32 \<Rightarrow> 'a ee_cpu_scheme \<Rightarrow> 'a ee_cpu_scheme" where
  "par_div f i s =
     (let a = eget128 (i_rs i) s; b = eget128 (i_rt i) s;
          r = \<lambda>k. f (lane (2 * k) a) (lane (2 * k) b)
      in set_both (quad2 (sext (fst (r 0))) (sext (fst (r 1)))) (quad2 (sext (snd (r 0))) (sext (snd (r 1)))) s)"

definition pdivw :: "u32 \<Rightarrow> 'a ee_cpu_scheme \<Rightarrow> 'a ee_cpu_scheme" where
  "pdivw = par_div div_signed"
definition pdivuw :: "u32 \<Rightarrow> 'a ee_cpu_scheme \<Rightarrow> 'a ee_cpu_scheme" where
  "pdivuw = par_div div_unsigned"
definition pdivbw :: "u32 \<Rightarrow> 'a ee_cpu_scheme \<Rightarrow> 'a ee_cpu_scheme" where
  "pdivbw i s =
     (let a = eget128 (i_rs i) s; d = scast (lane 0 (eget128 (i_rt i) s) :: u16) :: u32;
          r = \<lambda>k. div_signed (lane k a) d
      in set_both (of_lanes 4 (\<lambda>k. fst (r k))) (of_lanes 4 (\<lambda>k. snd (r k))) s)"

text \<open>The instructions of the second multiplier, and the scalar multiply-add.\<close>

definition mult1 :: "u32 \<Rightarrow> 'a ee_cpu_scheme \<Rightarrow> 'a ee_cpu_scheme" where
  "mult1 i s =
     (let temp = sext (eget32 (i_rs i) 0 s) * sext (eget32 (i_rt i) 0 s) :: u64
      in ee_mflo1 (i_rd i) (set_LO_HI (sext (low32 temp)) (sext (high32 temp)) True s))"
definition multu1 :: "u32 \<Rightarrow> 'a ee_cpu_scheme \<Rightarrow> 'a ee_cpu_scheme" where
  "multu1 i s =
     (let temp = ucast (eget32 (i_rs i) 0 s) * ucast (eget32 (i_rt i) 0 s) :: u64
      in ee_mflo1 (i_rd i) (set_LO_HI (sext (low32 temp)) (signed_drop_bit 32 temp) True s))"
definition div1 :: "u32 \<Rightarrow> 'a ee_cpu_scheme \<Rightarrow> 'a ee_cpu_scheme" where
  "div1 i s =
     (let r = div_signed (eget32 (i_rs i) 0 s) (eget32 (i_rt i) 0 s)
      in set_LO_HI (sext (fst r)) (sext (snd r)) True s)"
definition divu1 :: "u32 \<Rightarrow> 'a ee_cpu_scheme \<Rightarrow> 'a ee_cpu_scheme" where
  "divu1 i s =
     (let r = div_unsigned (eget32 (i_rs i) 0 s) (eget32 (i_rt i) 0 s)
      in set_LO_HI (sext (fst r)) (sext (snd r)) True s)"
definition madd :: "u32 \<Rightarrow> 'a ee_cpu_scheme \<Rightarrow> 'a ee_cpu_scheme" where
  "madd i s =
     (let lo = low32 (get_LO s); hi = low32 (get_HI s);
          temp = (ucast lo OR push_bit 32 (ucast hi)) + sext (eget32 (i_rs i) 0 s) * sext (eget32 (i_rt i) 0 s);
          lo = sext (low32 temp); hi = sext (high32 temp)
      in eset (i_rd i) lo 0 (set_LO_HI lo hi False s))"
definition maddu :: "u32 \<Rightarrow> 'a ee_cpu_scheme \<Rightarrow> 'a ee_cpu_scheme" where
  "maddu i s =
     (let lo = low32 (get_LO s); hi = low32 (get_HI s);
          temp = (ucast lo OR push_bit 32 (ucast hi)) + ucast (eget32 (i_rs i) 0 s) * ucast (eget32 (i_rt i) 0 s);
          lo = sext (low32 temp); hi = sext (high32 temp)
      in eset (i_rd i) lo 0 (set_LO_HI lo hi False s))"
definition madd1 :: "u32 \<Rightarrow> 'a ee_cpu_scheme \<Rightarrow> 'a ee_cpu_scheme" where
  "madd1 i s =
     (let lo = low32 (get_LO1 s); hi = low32 (get_HI1 s);
          temp = (ucast lo OR push_bit 32 (ucast hi)) + sext (eget32 (i_rs i) 0 s) * sext (eget32 (i_rt i) 0 s);
          lo = sext (low32 temp); hi = sext (high32 temp)
      in eset (i_rd i) lo 0 (set_LO_HI lo hi True s))"
definition maddu1 :: "u32 \<Rightarrow> 'a ee_cpu_scheme \<Rightarrow> 'a ee_cpu_scheme" where
  "maddu1 i s =
     (let lo = low32 (get_LO1 s); hi = low32 (get_HI1 s);
          temp = (ucast lo OR push_bit 32 (ucast hi)) + ucast (eget32 (i_rs i) 0 s) * ucast (eget32 (i_rt i) 0 s);
          lo = sext (low32 temp); hi = sext (high32 temp)
      in eset (i_rd i) lo 0 (set_LO_HI lo hi True s))"

end
