(* ===== verification/Ee_Interp.thy ===== *)
theory Ee_Interp
  imports Ee_Machine Ee_Mmi
begin

unbundle bit_operations_syntax

section \<open>The scalar instructions of the Emotion Engine\<close>

text \<open>
  \<open>src/core/ee/emotioninterpreter.cpp\<close> and \<open>src/core/ee/emotion_special.cpp\<close>, one definition per
  instruction. Arithmetic works on the low doubleword of a register; an instruction that reaches
  memory takes the environment and can fail. \<open>(int16_t)(instruction & 0xFFFF)\<close> widened to 64 bits is
  \<open>imm64\<close>; \<open>int32_t\<close> results stored with \<open>set_gpr<int64_t>\<close> are sign extended, \<open>sext\<close>.
\<close>

subsection \<open>Operands\<close>

definition imm64 :: "u32 \<Rightarrow> u64" where "imm64 i = scast (ucast i :: u16)"
definition uimm64 :: "u32 \<Rightarrow> u64" where "uimm64 i = ucast (i AND 0xFFFF)"
definition bool64 :: "bool \<Rightarrow> u64" where "bool64 b = of_bool b"

abbreviation rs64 :: "u32 \<Rightarrow> 'a ee_cpu_scheme \<Rightarrow> u64" where "rs64 i s \<equiv> eget64 (i_rs i) 0 s"
abbreviation rt64 :: "u32 \<Rightarrow> 'a ee_cpu_scheme \<Rightarrow> u64" where "rt64 i s \<equiv> eget64 (i_rt i) 0 s"
abbreviation rs32 :: "u32 \<Rightarrow> 'a ee_cpu_scheme \<Rightarrow> u32" where "rs32 i s \<equiv> eget32 (i_rs i) 0 s"
abbreviation rt32 :: "u32 \<Rightarrow> 'a ee_cpu_scheme \<Rightarrow> u32" where "rt32 i s \<equiv> eget32 (i_rt i) 0 s"

definition e_addr :: "u32 \<Rightarrow> 'a ee_cpu_scheme \<Rightarrow> u32" where
  "e_addr i s = rs32 i s + i_simm i"

subsection \<open>Branches and jumps\<close>

definition link :: "5 word \<Rightarrow> 'a ee_mach_scheme \<Rightarrow> 'a ee_mach_scheme" where
  "link r s = eset r (ucast (ee_PC s + 8) :: u64) 0 s"

definition ee_bltz :: "u32 \<Rightarrow> 'a ee_mach_scheme \<Rightarrow> 'a ee_mach_scheme" where
  "ee_bltz i s = ee_branch (rs64 i s <s 0) (i_offset i) s"
definition ee_bltzl :: "u32 \<Rightarrow> 'a ee_mach_scheme \<Rightarrow> 'a ee_mach_scheme" where
  "ee_bltzl i s = ee_branch_likely (rs64 i s <s 0) (i_offset i) s"
definition ee_bltzal :: "u32 \<Rightarrow> 'a ee_mach_scheme \<Rightarrow> 'a ee_mach_scheme" where
  "ee_bltzal i s = ee_branch (rs64 i s <s 0) (i_offset i) (link 31 s)"
definition ee_bltzall :: "u32 \<Rightarrow> 'a ee_mach_scheme \<Rightarrow> 'a ee_mach_scheme" where
  "ee_bltzall i s = ee_branch_likely (rs64 i s <s 0) (i_offset i) (link 31 s)"
definition ee_bgez :: "u32 \<Rightarrow> 'a ee_mach_scheme \<Rightarrow> 'a ee_mach_scheme" where
  "ee_bgez i s = ee_branch (0 \<le>s rs64 i s) (i_offset i) s"
definition ee_bgezl :: "u32 \<Rightarrow> 'a ee_mach_scheme \<Rightarrow> 'a ee_mach_scheme" where
  "ee_bgezl i s = ee_branch_likely (0 \<le>s rs64 i s) (i_offset i) s"
definition ee_bgezal :: "u32 \<Rightarrow> 'a ee_mach_scheme \<Rightarrow> 'a ee_mach_scheme" where
  "ee_bgezal i s = ee_branch (0 \<le>s rs64 i s) (i_offset i) (link 31 s)"
definition ee_bgezall :: "u32 \<Rightarrow> 'a ee_mach_scheme \<Rightarrow> 'a ee_mach_scheme" where
  "ee_bgezall i s = ee_branch_likely (0 \<le>s rs64 i s) (i_offset i) (link 31 s)"
definition ee_beq :: "u32 \<Rightarrow> 'a ee_mach_scheme \<Rightarrow> 'a ee_mach_scheme" where
  "ee_beq i s = ee_branch (rs64 i s = rt64 i s) (i_offset i) s"
definition ee_beql :: "u32 \<Rightarrow> 'a ee_mach_scheme \<Rightarrow> 'a ee_mach_scheme" where
  "ee_beql i s = ee_branch_likely (rs64 i s = rt64 i s) (i_offset i) s"
definition ee_bne :: "u32 \<Rightarrow> 'a ee_mach_scheme \<Rightarrow> 'a ee_mach_scheme" where
  "ee_bne i s = ee_branch (rs64 i s \<noteq> rt64 i s) (i_offset i) s"
definition ee_bnel :: "u32 \<Rightarrow> 'a ee_mach_scheme \<Rightarrow> 'a ee_mach_scheme" where
  "ee_bnel i s = ee_branch_likely (rs64 i s \<noteq> rt64 i s) (i_offset i) s"
definition ee_blez :: "u32 \<Rightarrow> 'a ee_mach_scheme \<Rightarrow> 'a ee_mach_scheme" where
  "ee_blez i s = ee_branch (rs64 i s \<le>s 0) (i_offset i) s"
definition ee_blezl :: "u32 \<Rightarrow> 'a ee_mach_scheme \<Rightarrow> 'a ee_mach_scheme" where
  "ee_blezl i s = ee_branch_likely (rs64 i s \<le>s 0) (i_offset i) s"
definition ee_bgtz :: "u32 \<Rightarrow> 'a ee_mach_scheme \<Rightarrow> 'a ee_mach_scheme" where
  "ee_bgtz i s = ee_branch (0 <s rs64 i s) (i_offset i) s"
definition ee_bgtzl :: "u32 \<Rightarrow> 'a ee_mach_scheme \<Rightarrow> 'a ee_mach_scheme" where
  "ee_bgtzl i s = ee_branch_likely (0 <s rs64 i s) (i_offset i) s"
definition jump_target :: "u32 \<Rightarrow> u32 \<Rightarrow> u32" where
  "jump_target i pc = push_bit 2 (i AND 0x3FFFFFF) + ((pc + 4) AND 0xF0000000)"
definition ee_j :: "u32 \<Rightarrow> 'a ee_mach_scheme \<Rightarrow> 'a ee_mach_scheme" where
  "ee_j i s = ee_jp (jump_target i (ee_PC s)) s"
definition ee_jal :: "u32 \<Rightarrow> 'a ee_mach_scheme \<Rightarrow> 'a ee_mach_scheme" where
  "ee_jal i s = eset 31 (ucast (ee_PC s + 8) :: u64) 0 (ee_jp (jump_target i (ee_PC s)) s)"
definition ee_jr :: "u32 \<Rightarrow> 'a ee_mach_scheme \<Rightarrow> 'a ee_mach_scheme" where
  "ee_jr i s = ee_jp (rs32 i s) s"
definition ee_jalr :: "u32 \<Rightarrow> 'a ee_mach_scheme \<Rightarrow> 'a ee_mach_scheme" where
  "ee_jalr i s = eset (i_rd i) (ucast (ee_PC s + 8) :: u64) 0 (ee_jp (rs32 i s) s)"

subsection \<open>Immediate operands\<close>

definition ee_addi :: "u32 \<Rightarrow> 'a ee_cpu_scheme \<Rightarrow> 'a ee_cpu_scheme" where
  "ee_addi i s = eset (i_rt i) (sext (low32 (rs64 i s + imm64 i))) 0 s"
definition ee_addiu :: "u32 \<Rightarrow> 'a ee_cpu_scheme \<Rightarrow> 'a ee_cpu_scheme" where
  "ee_addiu i s = eset (i_rt i) (sext (low32 (rs64 i s + imm64 i))) 0 s"
definition ee_slti :: "u32 \<Rightarrow> 'a ee_cpu_scheme \<Rightarrow> 'a ee_cpu_scheme" where
  "ee_slti i s = eset (i_rt i) (bool64 (rs64 i s <s imm64 i)) 0 s"
definition ee_sltiu :: "u32 \<Rightarrow> 'a ee_cpu_scheme \<Rightarrow> 'a ee_cpu_scheme" where
  "ee_sltiu i s = eset (i_rt i) (bool64 (rs64 i s < imm64 i)) 0 s"
definition ee_andi :: "u32 \<Rightarrow> 'a ee_cpu_scheme \<Rightarrow> 'a ee_cpu_scheme" where
  "ee_andi i s = eset (i_rt i) (rs64 i s AND uimm64 i) 0 s"
definition ee_ori :: "u32 \<Rightarrow> 'a ee_cpu_scheme \<Rightarrow> 'a ee_cpu_scheme" where
  "ee_ori i s = eset (i_rt i) (rs64 i s OR uimm64 i) 0 s"
definition ee_xori :: "u32 \<Rightarrow> 'a ee_cpu_scheme \<Rightarrow> 'a ee_cpu_scheme" where
  "ee_xori i s = eset (i_rt i) (rs64 i s XOR uimm64 i) 0 s"
definition ee_lui :: "u32 \<Rightarrow> 'a ee_cpu_scheme \<Rightarrow> 'a ee_cpu_scheme" where
  "ee_lui i s = eset (i_rt i) (sext (push_bit 16 (i AND 0xFFFF))) 0 s"
definition ee_daddi :: "u32 \<Rightarrow> 'a ee_cpu_scheme \<Rightarrow> 'a ee_cpu_scheme" where
  "ee_daddi i s = eset (i_rt i) (rs64 i s + imm64 i) 0 s"
definition ee_daddiu :: "u32 \<Rightarrow> 'a ee_cpu_scheme \<Rightarrow> 'a ee_cpu_scheme" where
  "ee_daddiu i s = eset (i_rt i) (rs64 i s + imm64 i) 0 s"
definition ee_mtsab :: "u32 \<Rightarrow> 'a ee_cpu_scheme \<Rightarrow> 'a ee_cpu_scheme" where
  "ee_mtsab i s = set_SA (ucast ((rs32 i s AND 0xF) XOR (i AND 0xF))) s"
definition ee_mtsah :: "u32 \<Rightarrow> 'a ee_cpu_scheme \<Rightarrow> 'a ee_cpu_scheme" where
  "ee_mtsah i s = set_SA (ucast (((rs32 i s AND 7) XOR (i AND 7)) * 2)) s"

subsection \<open>Shifts\<close>

definition ee_sll :: "u32 \<Rightarrow> 'a ee_cpu_scheme \<Rightarrow> 'a ee_cpu_scheme" where
  "ee_sll i s = eset (i_rd i) (sext (push_bit (i_sa i) (rt32 i s))) 0 s"
definition ee_sllv :: "u32 \<Rightarrow> 'a ee_cpu_scheme \<Rightarrow> 'a ee_cpu_scheme" where
  "ee_sllv i s = eset (i_rd i) (sext (push_bit (unat (eget8 (i_rs i) 0 s AND 0x1F)) (rt32 i s))) 0 s"
definition ee_dsll :: "u32 \<Rightarrow> 'a ee_cpu_scheme \<Rightarrow> 'a ee_cpu_scheme" where
  "ee_dsll i s = eset (i_rd i) (push_bit (i_sa i) (rt64 i s)) 0 s"
definition ee_dsll32 :: "u32 \<Rightarrow> 'a ee_cpu_scheme \<Rightarrow> 'a ee_cpu_scheme" where
  "ee_dsll32 i s = eset (i_rd i) (push_bit (i_sa i + 32) (rt64 i s)) 0 s"
definition ee_dsllv :: "u32 \<Rightarrow> 'a ee_cpu_scheme \<Rightarrow> 'a ee_cpu_scheme" where
  "ee_dsllv i s = eset (i_rd i) (push_bit (unat (eget8 (i_rs i) 0 s AND 0x3F)) (rt64 i s)) 0 s"
definition ee_srl :: "u32 \<Rightarrow> 'a ee_cpu_scheme \<Rightarrow> 'a ee_cpu_scheme" where
  "ee_srl i s = eset (i_rd i) (sext (drop_bit (i_sa i) (rt32 i s))) 0 s"
definition ee_srlv :: "u32 \<Rightarrow> 'a ee_cpu_scheme \<Rightarrow> 'a ee_cpu_scheme" where
  "ee_srlv i s = eset (i_rd i) (sext (drop_bit (unat (eget8 (i_rs i) 0 s AND 0x1F)) (rt32 i s))) 0 s"
definition ee_dsrl :: "u32 \<Rightarrow> 'a ee_cpu_scheme \<Rightarrow> 'a ee_cpu_scheme" where
  "ee_dsrl i s = eset (i_rd i) (drop_bit (i_sa i) (rt64 i s)) 0 s"
definition ee_dsrl32 :: "u32 \<Rightarrow> 'a ee_cpu_scheme \<Rightarrow> 'a ee_cpu_scheme" where
  "ee_dsrl32 i s = eset (i_rd i) (drop_bit (i_sa i + 32) (rt64 i s)) 0 s"
definition ee_dsrlv :: "u32 \<Rightarrow> 'a ee_cpu_scheme \<Rightarrow> 'a ee_cpu_scheme" where
  "ee_dsrlv i s = eset (i_rd i) (drop_bit (unat (eget8 (i_rs i) 0 s AND 0x3F)) (rt64 i s)) 0 s"
definition ee_sra :: "u32 \<Rightarrow> 'a ee_cpu_scheme \<Rightarrow> 'a ee_cpu_scheme" where
  "ee_sra i s = eset (i_rd i) (sext (signed_drop_bit (i_sa i) (rt32 i s))) 0 s"
definition ee_srav :: "u32 \<Rightarrow> 'a ee_cpu_scheme \<Rightarrow> 'a ee_cpu_scheme" where
  "ee_srav i s = eset (i_rd i) (sext (signed_drop_bit (unat (eget8 (i_rs i) 0 s AND 0x1F)) (rt32 i s))) 0 s"
definition ee_dsra :: "u32 \<Rightarrow> 'a ee_cpu_scheme \<Rightarrow> 'a ee_cpu_scheme" where
  "ee_dsra i s = eset (i_rd i) (signed_drop_bit (i_sa i) (rt64 i s)) 0 s"
definition ee_dsra32 :: "u32 \<Rightarrow> 'a ee_cpu_scheme \<Rightarrow> 'a ee_cpu_scheme" where
  "ee_dsra32 i s = eset (i_rd i) (signed_drop_bit (i_sa i + 32) (rt64 i s)) 0 s"
definition ee_dsrav :: "u32 \<Rightarrow> 'a ee_cpu_scheme \<Rightarrow> 'a ee_cpu_scheme" where
  "ee_dsrav i s = eset (i_rd i) (signed_drop_bit (unat (eget8 (i_rs i) 0 s AND 0x3F)) (rt64 i s)) 0 s"

subsection \<open>Register operands\<close>

definition ee_movz :: "u32 \<Rightarrow> 'a ee_cpu_scheme \<Rightarrow> 'a ee_cpu_scheme" where
  "ee_movz i s = (if rt64 i s = 0 then eset (i_rd i) (rs64 i s) 0 s else s)"
definition ee_movn :: "u32 \<Rightarrow> 'a ee_cpu_scheme \<Rightarrow> 'a ee_cpu_scheme" where
  "ee_movn i s = (if rt64 i s \<noteq> 0 then eset (i_rd i) (rs64 i s) 0 s else s)"
definition ee_add :: "u32 \<Rightarrow> 'a ee_cpu_scheme \<Rightarrow> 'a ee_cpu_scheme" where
  "ee_add i s = eset (i_rd i) (sext (low32 (rs64 i s) + low32 (rt64 i s))) 0 s"
definition ee_addu :: "u32 \<Rightarrow> 'a ee_cpu_scheme \<Rightarrow> 'a ee_cpu_scheme" where
  "ee_addu i s = eset (i_rd i) (sext (low32 (rs64 i s) + low32 (rt64 i s))) 0 s"
definition ee_sub :: "u32 \<Rightarrow> 'a ee_cpu_scheme \<Rightarrow> 'a ee_cpu_scheme" where
  "ee_sub i s = eset (i_rd i) (sext (rs32 i s - rt32 i s)) 0 s"
definition ee_subu :: "u32 \<Rightarrow> 'a ee_cpu_scheme \<Rightarrow> 'a ee_cpu_scheme" where
  "ee_subu i s = eset (i_rd i) (sext (rs32 i s - rt32 i s)) 0 s"
definition ee_and_ee :: "u32 \<Rightarrow> 'a ee_cpu_scheme \<Rightarrow> 'a ee_cpu_scheme" where
  "ee_and_ee i s = eset (i_rd i) (rs64 i s AND rt64 i s) 0 s"
definition ee_or_ee :: "u32 \<Rightarrow> 'a ee_cpu_scheme \<Rightarrow> 'a ee_cpu_scheme" where
  "ee_or_ee i s = eset (i_rd i) (rs64 i s OR rt64 i s) 0 s"
definition ee_xor_ee :: "u32 \<Rightarrow> 'a ee_cpu_scheme \<Rightarrow> 'a ee_cpu_scheme" where
  "ee_xor_ee i s = eset (i_rd i) (rs64 i s XOR rt64 i s) 0 s"
definition ee_nor :: "u32 \<Rightarrow> 'a ee_cpu_scheme \<Rightarrow> 'a ee_cpu_scheme" where
  "ee_nor i s = eset (i_rd i) (NOT (rs64 i s OR rt64 i s)) 0 s"
definition ee_slt :: "u32 \<Rightarrow> 'a ee_cpu_scheme \<Rightarrow> 'a ee_cpu_scheme" where
  "ee_slt i s = eset (i_rd i) (bool64 (rs64 i s <s rt64 i s)) 0 s"
definition ee_sltu :: "u32 \<Rightarrow> 'a ee_cpu_scheme \<Rightarrow> 'a ee_cpu_scheme" where
  "ee_sltu i s = eset (i_rd i) (bool64 (rs64 i s < rt64 i s)) 0 s"
definition ee_dadd :: "u32 \<Rightarrow> 'a ee_cpu_scheme \<Rightarrow> 'a ee_cpu_scheme" where
  "ee_dadd i s = eset (i_rd i) (rs64 i s + rt64 i s) 0 s"
definition ee_daddu :: "u32 \<Rightarrow> 'a ee_cpu_scheme \<Rightarrow> 'a ee_cpu_scheme" where
  "ee_daddu i s = eset (i_rd i) (rs64 i s + rt64 i s) 0 s"
definition ee_dsub :: "u32 \<Rightarrow> 'a ee_cpu_scheme \<Rightarrow> 'a ee_cpu_scheme" where
  "ee_dsub i s = eset (i_rd i) (rs64 i s - rt64 i s) 0 s"
definition ee_dsubu :: "u32 \<Rightarrow> 'a ee_cpu_scheme \<Rightarrow> 'a ee_cpu_scheme" where
  "ee_dsubu i s = eset (i_rd i) (rs64 i s - rt64 i s) 0 s"

subsection \<open>LO, HI and SA\<close>

definition mfhi_ee :: "u32 \<Rightarrow> 'a ee_cpu_scheme \<Rightarrow> 'a ee_cpu_scheme" where "mfhi_ee i = ee_mfhi (i_rd i)"
definition mthi_ee :: "u32 \<Rightarrow> 'a ee_cpu_scheme \<Rightarrow> 'a ee_cpu_scheme" where "mthi_ee i = ee_mthi (i_rs i)"
definition mflo_ee :: "u32 \<Rightarrow> 'a ee_cpu_scheme \<Rightarrow> 'a ee_cpu_scheme" where "mflo_ee i = ee_mflo (i_rd i)"
definition mtlo_ee :: "u32 \<Rightarrow> 'a ee_cpu_scheme \<Rightarrow> 'a ee_cpu_scheme" where "mtlo_ee i = ee_mtlo (i_rs i)"
definition mfsa_ee :: "u32 \<Rightarrow> 'a ee_cpu_scheme \<Rightarrow> 'a ee_cpu_scheme" where "mfsa_ee i = ee_mfsa (i_rd i)"
definition mtsa_ee :: "u32 \<Rightarrow> 'a ee_cpu_scheme \<Rightarrow> 'a ee_cpu_scheme" where "mtsa_ee i = ee_mtsa (i_rs i)"
definition ee_mult :: "u32 \<Rightarrow> 'a ee_cpu_scheme \<Rightarrow> 'a ee_cpu_scheme" where
  "ee_mult i s =
     (let temp = sext (rs32 i s) * sext (rt32 i s)
      in ee_mflo (i_rd i) (set_LO_HI (sext (low32 temp)) (sext (high32 temp)) False s))"
definition ee_multu :: "u32 \<Rightarrow> 'a ee_cpu_scheme \<Rightarrow> 'a ee_cpu_scheme" where
  "ee_multu i s =
     (let temp = ucast (rs32 i s) * ucast (rt32 i s) :: u64
      in ee_mflo (i_rd i) (set_LO_HI (sext (low32 temp)) (sext (high32 temp)) False s))"
definition ee_div :: "u32 \<Rightarrow> 'a ee_cpu_scheme \<Rightarrow> 'a ee_cpu_scheme" where
  "ee_div i s =
     (let r = div_signed (rs32 i s) (rt32 i s) in set_LO_HI (sext (fst r)) (sext (snd r)) False s)"
definition ee_divu :: "u32 \<Rightarrow> 'a ee_cpu_scheme \<Rightarrow> 'a ee_cpu_scheme" where
  "ee_divu i s =
     (let r = div_unsigned (rs32 i s) (rt32 i s) in set_LO_HI (sext (fst r)) (sext (snd r)) False s)"

end
