(* ===== verification/Ee_Info.thy ===== *)
theory Ee_Info
  imports Ee_Gpr
begin

unbundle bit_operations_syntax

section \<open>What the decoder says about an instruction\<close>

text \<open>
  \<open>EE_InstrInfo\<close> of \<open>src/core/ee/emotioninterpreter.hpp\<close>: the function that interprets the
  instruction, the pipelines it occupies, latency and throughput, and the registers it is declared
  to read and to write. A dependency is the pair of a register file and a number in it; the special
  registers \<open>LO\<close> to \<open>SA\<close> are numbered behind the 32 general registers.
\<close>

datatype reg_type = Unk_file | Gpr_file | Cop0_file | Cop1_file | Cop1_control | Cop2_file | Cop2_control

type_synonym dep = "reg_type \<times> nat"

definition gpr :: "5 word \<Rightarrow> dep" where "gpr r = (Gpr_file, unat r)"
definition cp0r :: "5 word \<Rightarrow> dep" where "cp0r r = (Cop0_file, unat r)"
definition cp1r :: "5 word \<Rightarrow> dep" where "cp1r r = (Cop1_file, unat r)"
definition cp2r :: "5 word \<Rightarrow> dep" where "cp2r r = (Cop2_file, unat r)"
definition cp1c :: "5 word \<Rightarrow> dep" where "cp1c r = (Cop1_control, unat r)"
definition cp2c :: "5 word \<Rightarrow> dep" where "cp2c r = (Cop2_control, unat r)"

definition R_LO :: dep where "R_LO = (Gpr_file, 32)"
definition R_LO1 :: dep where "R_LO1 = (Gpr_file, 33)"
definition R_HI :: dep where "R_HI = (Gpr_file, 34)"
definition R_HI1 :: dep where "R_HI1 = (Gpr_file, 35)"
definition R_SA :: dep where "R_SA = (Gpr_file, 36)"

lemmas dep_defs = gpr_def cp0r_def cp1r_def cp2r_def cp1c_def cp2c_def R_LO_def R_LO1_def R_HI_def R_HI1_def R_SA_def

text \<open>\<open>Pipeline\<close>: an instruction that needs several has their bits.\<close>

abbreviation P_Unk :: u16 where "P_Unk \<equiv> 0"
abbreviation Int0 :: u16 where "Int0 \<equiv> 1"
abbreviation Int1 :: u16 where "Int1 \<equiv> 2"
abbreviation IntWide :: u16 where "IntWide \<equiv> 3"
abbreviation IntGeneric :: u16 where "IntGeneric \<equiv> 4"
abbreviation LoadStore :: u16 where "LoadStore \<equiv> 8"
abbreviation P_Branch :: u16 where "P_Branch \<equiv> 0x10"
abbreviation P_COP0 :: u16 where "P_COP0 \<equiv> 0x20"
abbreviation P_COP1 :: u16 where "P_COP1 \<equiv> 0x40"
abbreviation P_COP2 :: u16 where "P_COP2 \<equiv> 0x80"
abbreviation P_SA :: u16 where "P_SA \<equiv> 0x100"
abbreviation P_ERET :: u16 where "P_ERET \<equiv> 0x200"
abbreviation P_SYNC :: u16 where "P_SYNC \<equiv> 0x400"
abbreviation LZC :: u16 where "LZC \<equiv> 0x800"
abbreviation MAC0 :: u16 where "MAC0 \<equiv> 0x1000"
abbreviation MAC1 :: u16 where "MAC1 \<equiv> 0x2000"

text \<open>The operators on pipelines, with their casts to eight bits.\<close>

definition pipe_and :: "u16 \<Rightarrow> u16 \<Rightarrow> u16" where
  "pipe_and x y = ucast ((ucast x :: u8) AND ucast y)"

definition pipe_or :: "u16 \<Rightarrow> u16 \<Rightarrow> u16" where
  "pipe_or x y = ucast ((ucast x :: u8) OR ucast y)"

datatype instr_type = OTHER | MULT | MULT1 | DIV | DIV1 | MADD | MADD1 | FPU_DIV | FPU_SQRT | FPU_RSQRT

record 's instr_info =
  interpreter_fn :: "(u32 \<Rightarrow> 's \<Rightarrow> 's res) option"
  pipeline :: u16
  instruction_type :: instr_type
  latency :: nat
  throughput :: nat
  write_dependencies :: "dep list"
  read_dependencies :: "dep list"
  cycles_before :: u32
  cycles_after :: u32

definition no_info :: "'s instr_info" where
  "no_info = \<lparr>interpreter_fn = None, pipeline = P_Unk, instruction_type = OTHER, latency = 1, throughput = 1,
     write_dependencies = [], read_dependencies = [], cycles_before = 0, cycles_after = 0\<rparr>"

definition instr ::
    "(u32 \<Rightarrow> 's \<Rightarrow> 's res) \<Rightarrow> u16 \<Rightarrow> dep list \<Rightarrow> dep list \<Rightarrow> 's instr_info" where
  "instr f p ws rs = no_info\<lparr>interpreter_fn := Some f, pipeline := p, write_dependencies := ws,
     read_dependencies := rs\<rparr>"

definition timed :: "nat \<Rightarrow> nat \<Rightarrow> instr_type \<Rightarrow> 's instr_info \<Rightarrow> 's instr_info" where
  "timed l t ty info = info\<lparr>latency := l, throughput := t, instruction_type := ty\<rparr>"

text \<open>A function that cannot fail, and a \<open>switch\<close> whose default stops the emulator.\<close>

definition total :: "(u32 \<Rightarrow> 's \<Rightarrow> 's) \<Rightarrow> u32 \<Rightarrow> 's \<Rightarrow> 's res" where
  "total f i s = Inr (f i s)"

definition unknown_instr :: "'b res" where
  "unknown_instr = Inl (Die ''[EE Interpreter] Unrecognized op'')"

definition switch :: "(u32 \<times> 's instr_info) list \<Rightarrow> u32 \<Rightarrow> 's instr_info res" where
  "switch table op = (case map_of table op of Some info \<Rightarrow> Inr info | None \<Rightarrow> unknown_instr)"

lemma switchD: "switch table op = Inr info \<Longrightarrow> (op, info) \<in> set table"
  by (auto simp: switch_def unknown_instr_def split: option.splits dest: map_of_SomeD)

end
