(* ===== verification/Ee_Interp_Mem.thy ===== *)
theory Ee_Interp_Mem
  imports Ee_Interp Ee_Info
begin

unbundle bit_operations_syntax

section \<open>Loads, stores, coprocessors and system calls of the Emotion Engine\<close>

text \<open>
  The instructions of \<open>src/core/ee/emotioninterpreter.cpp\<close> that reach memory or another unit, and
  the system calls that \<open>EmotionEngine\<close> answers itself (\<open>src/core/ee/emotion.cpp\<close>). The unaligned
  loads and stores work on the aligned word or doubleword that holds the address, with the source's
  tables of masks and shift amounts.
\<close>

type_synonym 'a ee_op = "u32 \<Rightarrow> 'a ee_mach_scheme \<Rightarrow> 'a ee_mach_scheme res"

subsection \<open>Loads\<close>

definition ee_lb :: "'a ee_mach_scheme ee_env \<Rightarrow> 'a ee_op" where
  "ee_lb env i s = rbind (ee_read8 env (e_addr i s) s) (\<lambda>(v, s). Inr (eset (i_rt i) (scast v :: u64) 0 s))"
definition ee_lbu :: "'a ee_mach_scheme ee_env \<Rightarrow> 'a ee_op" where
  "ee_lbu env i s = rbind (ee_read8 env (e_addr i s) s) (\<lambda>(v, s). Inr (eset (i_rt i) (ucast v :: u64) 0 s))"
definition ee_lh :: "'a ee_mach_scheme ee_env \<Rightarrow> 'a ee_op" where
  "ee_lh env i s = rbind (ee_read16 env (e_addr i s) s) (\<lambda>(v, s). Inr (eset (i_rt i) (scast v :: u64) 0 s))"
definition ee_lhu :: "'a ee_mach_scheme ee_env \<Rightarrow> 'a ee_op" where
  "ee_lhu env i s = rbind (ee_read16 env (e_addr i s) s) (\<lambda>(v, s). Inr (eset (i_rt i) (ucast v :: u64) 0 s))"
definition ee_lw :: "'a ee_mach_scheme ee_env \<Rightarrow> 'a ee_op" where
  "ee_lw env i s = rbind (ee_read32 env (e_addr i s) s) (\<lambda>(v, s). Inr (eset (i_rt i) (sext v) 0 s))"
definition ee_lwu :: "'a ee_mach_scheme ee_env \<Rightarrow> 'a ee_op" where
  "ee_lwu env i s = rbind (ee_read32 env (e_addr i s) s) (\<lambda>(v, s). Inr (eset (i_rt i) (ucast v :: u64) 0 s))"
definition ee_ld :: "'a ee_mach_scheme ee_env \<Rightarrow> 'a ee_op" where
  "ee_ld env i s = rbind (ee_read64 env (e_addr i s) s) (\<lambda>(v, s). Inr (eset (i_rt i) v 0 s))"
definition ee_lq :: "'a ee_mach_scheme ee_env \<Rightarrow> 'a ee_op" where
  "ee_lq env i s = rbind (ee_read128 env (e_addr i s AND NOT 0xF) s) (\<lambda>(v, s). Inr (eset (i_rt i) v 0 s))"

definition LWL_mask :: "u32 list" where "LWL_mask = [0xffffff, 0x0000ffff, 0x000000ff, 0x00000000]"
definition LWL_shift :: "nat list" where "LWL_shift = [24, 16, 8, 0]"
definition LWR_mask :: "u32 list" where "LWR_mask = [0x000000, 0xff000000, 0xffff0000, 0xffffff00]"
definition LWR_shift :: "nat list" where "LWR_shift = [0, 8, 16, 24]"
definition LDL_mask :: "u64 list" where
  "LDL_mask = [0x00ffffffffffffff, 0x0000ffffffffffff, 0x000000ffffffffff, 0x00000000ffffffff,
               0x0000000000ffffff, 0x000000000000ffff, 0x00000000000000ff, 0x0000000000000000]"
definition LDL_shift :: "nat list" where "LDL_shift = [56, 48, 40, 32, 24, 16, 8, 0]"
definition LDR_mask :: "u64 list" where
  "LDR_mask = [0x0000000000000000, 0xff00000000000000, 0xffff000000000000, 0xffffff0000000000,
               0xffffffff00000000, 0xffffffffff000000, 0xffffffffffff0000, 0xffffffffffffff00]"
definition LDR_shift :: "nat list" where "LDR_shift = [0, 8, 16, 24, 32, 40, 48, 56]"

definition ee_lwl :: "'a ee_mach_scheme ee_env \<Rightarrow> 'a ee_op" where
  "ee_lwl env i s =
     (let a = e_addr i s; k = unat (a AND 3)
      in rbind (ee_read32 env (a AND NOT 3) s) (\<lambda>(mem, s).
           Inr (eset (i_rt i) (sext ((rt32 i s AND LWL_mask ! k) OR push_bit (LWL_shift ! k) mem)) 0 s)))"
definition ee_lwr :: "'a ee_mach_scheme ee_env \<Rightarrow> 'a ee_op" where
  "ee_lwr env i s =
     (let a = e_addr i s; k = unat (a AND 3)
      in rbind (ee_read32 env (a AND NOT 3) s) (\<lambda>(mem, s).
           let mem = (rt32 i s AND LWR_mask ! k) OR drop_bit (LWR_shift ! k) mem
           in Inr (if k = 0 then eset (i_rt i) (sext mem) 0 s else eset (i_rt i) mem 0 s)))"
definition ee_ldl :: "'a ee_mach_scheme ee_env \<Rightarrow> 'a ee_op" where
  "ee_ldl env i s =
     (let a = e_addr i s; k = unat (a AND 7)
      in rbind (ee_read64 env (a AND NOT 7) s) (\<lambda>(mem, s).
           Inr (eset (i_rt i) ((rt64 i s AND LDL_mask ! k) OR push_bit (LDL_shift ! k) mem) 0 s)))"
definition ee_ldr :: "'a ee_mach_scheme ee_env \<Rightarrow> 'a ee_op" where
  "ee_ldr env i s =
     (let a = e_addr i s; k = unat (a AND 7)
      in rbind (ee_read64 env (a AND NOT 7) s) (\<lambda>(mem, s).
           Inr (eset (i_rt i) ((rt64 i s AND LDR_mask ! k) OR drop_bit (LDR_shift ! k) mem) 0 s)))"

subsection \<open>Stores\<close>

definition ee_sb :: "'a ee_mach_scheme ee_env \<Rightarrow> 'a ee_op" where
  "ee_sb env i s = ee_write8 env (e_addr i s) (eget8 (i_rt i) 0 s) s"
definition ee_sh :: "'a ee_mach_scheme ee_env \<Rightarrow> 'a ee_op" where
  "ee_sh env i s = ee_write16 env (e_addr i s) (eget16 (i_rt i) 0 s) s"
definition ee_sw :: "'a ee_mach_scheme ee_env \<Rightarrow> 'a ee_op" where
  "ee_sw env i s = ee_write32 env (e_addr i s) (rt32 i s) s"
definition ee_sd :: "'a ee_mach_scheme ee_env \<Rightarrow> 'a ee_op" where
  "ee_sd env i s = ee_write64 env (e_addr i s) (rt64 i s) s"
definition ee_sq :: "'a ee_mach_scheme ee_env \<Rightarrow> 'a ee_op" where
  "ee_sq env i s = ee_write128 env (e_addr i s AND NOT 0xF) (eget128 (i_rt i) s) s"

definition SWL_mask :: "u32 list" where "SWL_mask = [0xffffff00, 0xffff0000, 0xff000000, 0x00000000]"
definition SWL_shift :: "nat list" where "SWL_shift = [24, 16, 8, 0]"
definition SWR_mask :: "u32 list" where "SWR_mask = [0x00000000, 0x000000ff, 0x0000ffff, 0x00ffffff]"
definition SWR_shift :: "nat list" where "SWR_shift = [0, 8, 16, 24]"
definition SDL_mask :: "u64 list" where
  "SDL_mask = [0xffffffffffffff00, 0xffffffffffff0000, 0xffffffffff000000, 0xffffffff00000000,
               0xffffff0000000000, 0xffff000000000000, 0xff00000000000000, 0x0000000000000000]"
definition SDL_shift :: "nat list" where "SDL_shift = [56, 48, 40, 32, 24, 16, 8, 0]"
definition SDR_mask :: "u64 list" where
  "SDR_mask = [0x0000000000000000, 0x00000000000000ff, 0x000000000000ffff, 0x0000000000ffffff,
               0x00000000ffffffff, 0x000000ffffffffff, 0x0000ffffffffffff, 0x00ffffffffffffff]"
definition SDR_shift :: "nat list" where "SDR_shift = [0, 8, 16, 24, 32, 40, 48, 56]"

definition ee_swl :: "'a ee_mach_scheme ee_env \<Rightarrow> 'a ee_op" where
  "ee_swl env i s =
     (let a = e_addr i s; k = unat (a AND 3)
      in rbind (ee_read32 env (a AND NOT 3) s) (\<lambda>(mem, s).
           ee_write32 env (a AND NOT 3) (drop_bit (SWL_shift ! k) (rt32 i s) OR (mem AND SWL_mask ! k)) s))"
definition ee_swr :: "'a ee_mach_scheme ee_env \<Rightarrow> 'a ee_op" where
  "ee_swr env i s =
     (let a = e_addr i s; k = unat (a AND 3)
      in rbind (ee_read32 env (a AND NOT 3) s) (\<lambda>(mem, s).
           ee_write32 env (a AND NOT 3) (push_bit (SWR_shift ! k) (rt32 i s) OR (mem AND SWR_mask ! k)) s))"
definition ee_sdl :: "'a ee_mach_scheme ee_env \<Rightarrow> 'a ee_op" where
  "ee_sdl env i s =
     (let a = e_addr i s; k = unat (a AND 7)
      in rbind (ee_read64 env (a AND NOT 7) s) (\<lambda>(mem, s).
           ee_write64 env (a AND NOT 7) (drop_bit (SDL_shift ! k) (rt64 i s) OR (mem AND SDL_mask ! k)) s))"
definition ee_sdr :: "'a ee_mach_scheme ee_env \<Rightarrow> 'a ee_op" where
  "ee_sdr env i s =
     (let a = e_addr i s; k = unat (a AND 7)
      in rbind (ee_read64 env (a AND NOT 7) s) (\<lambda>(mem, s).
           ee_write64 env (a AND NOT 7) (push_bit (SDR_shift ! k) (rt64 i s) OR (mem AND SDR_mask ! k)) s))"

definition ee_cache :: "u32 \<Rightarrow> 'a ee_mach_scheme \<Rightarrow> 'a ee_mach_scheme" where
  "ee_cache i s = (if fld i 16 5 = 7 then invalidate_icache_indexed (e_addr i s) s else s)"

subsection \<open>Coprocessor 0\<close>

definition ee_mfc0 :: "5 word \<Rightarrow> 5 word \<Rightarrow> 'a ee_mach_scheme \<Rightarrow> 'a ee_mach_scheme" where
  "ee_mfc0 r c s = eset r (sext (cop0_mfc c s)) 0 s"
definition ee_mtc0 :: "5 word \<Rightarrow> 5 word \<Rightarrow> 'a ee_mach_scheme \<Rightarrow> 'a ee_mach_scheme" where
  "ee_mtc0 r c s = (let s = cop0_mtc c (eget32 r 0 s) s in s\<lparr>ee_tlb_map := get_vtlb_map s\<rparr>)"

definition ee_mtps :: "5 word \<Rightarrow> 'a ee_mach_scheme \<Rightarrow> 'a ee_mach_scheme" where
  "ee_mtps r s = s\<lparr>cop0_PCCR := eget32 r 0 s\<rparr>"
definition ee_mtpc :: "u32 \<Rightarrow> 5 word \<Rightarrow> 'a ee_mach_scheme \<Rightarrow> 'a ee_mach_scheme" where
  "ee_mtpc p r s = (if p \<noteq> 0 then s\<lparr>cop0_PCR1 := eget32 r 0 s\<rparr> else s\<lparr>cop0_PCR0 := eget32 r 0 s\<rparr>)"
definition ee_mfps :: "5 word \<Rightarrow> 'a ee_mach_scheme \<Rightarrow> 'a ee_mach_scheme" where
  "ee_mfps r s = eset r (sext (cop0_PCCR s)) 0 s"
definition ee_mfpc :: "u32 \<Rightarrow> 5 word \<Rightarrow> 'a ee_mach_scheme \<Rightarrow> 'a ee_mach_scheme" where
  "ee_mfpc p r s = eset r (sext (if p \<noteq> 0 then cop0_PCR1 s else cop0_PCR0 s)) 0 s"

definition ee_cop0_mfc :: "u32 \<Rightarrow> 'a ee_mach_scheme \<Rightarrow> 'a ee_mach_scheme" where
  "ee_cop0_mfc i s =
     (if i_rd i = 25 then if tst i 0 then ee_mfpc (fld i 1 5) (i_rt i) s else ee_mfps (i_rt i) s
      else ee_mfc0 (i_rt i) (i_rd i) s)"
definition ee_cop0_mtc :: "u32 \<Rightarrow> 'a ee_mach_scheme \<Rightarrow> 'a ee_mach_scheme" where
  "ee_cop0_mtc i s =
     (if i_rd i = 25 then if tst i 0 then ee_mtpc (fld i 1 5) (i_rt i) s else ee_mtps (i_rt i) s
      else ee_mtc0 (i_rt i) (i_rd i) s)"

definition eret_ee :: "'a ee_mach_scheme ee_env \<Rightarrow> u32 \<Rightarrow> 'a ee_mach_scheme \<Rightarrow> 'a ee_mach_scheme" where
  "eret_ee env i s = (let s = ee_eret (io_fast_boot env) (io_skip_BIOS env) s in set_PC (ee_PC s) s)"

definition ee_bc :: "('a ee_mach_scheme \<Rightarrow> bool \<times> 'a ee_mach_scheme) \<Rightarrow> 'a ee_op" where
  "ee_bc condition i s =
     (let op = fld i 16 5
      in if 3 < op then unknown_instr
         else let (c, s) = condition s; passed = (if tst op 0 then c else \<not> c)
              in Inr (if tst op 1 then ee_branch_likely passed (i_offset i) s else ee_branch passed (i_offset i) s))"

definition ee_cop_bc0 :: "'a ee_mach_scheme ee_env \<Rightarrow> 'a ee_op" where
  "ee_cop_bc0 env = ee_bc (\<lambda>s. (get_condition (io_d_stat env s) (io_d_pcr env s), s))"

subsection \<open>Coprocessor 1\<close>

definition fpu_cfc :: "5 word \<Rightarrow> 'a ee_mach_scheme \<Rightarrow> u32" where
  "fpu_cfc r s =
     (let c = fpu_control s
      in if r = 0 then 0x2E00
         else if r = 31
         then 1 OR flag_at 3 (fc_su c) OR flag_at 4 (fc_so c) OR flag_at 5 (fc_sd c) OR flag_at 6 (fc_si c)
              OR flag_at 14 (fc_u c) OR flag_at 15 (fc_o c) OR flag_at 16 (fc_d c) OR flag_at 17 (fc_i c)
              OR flag_at 23 (fc_condition c)
         else 0)"

definition fpu_ctc :: "5 word \<Rightarrow> u32 \<Rightarrow> 'a ee_mach_scheme \<Rightarrow> 'a ee_mach_scheme" where
  "fpu_ctc r v s =
     (if r = 31
      then s\<lparr>fpu_control := \<lparr>fc_su = tst v 3, fc_so = tst v 4, fc_sd = tst v 5, fc_si = tst v 6,
             fc_u = tst v 14, fc_o = tst v 15, fc_d = tst v 16, fc_i = tst v 17, fc_condition = tst v 23\<rparr>\<rparr>
      else s)"

definition fpu_mtc :: "5 word \<Rightarrow> u32 \<Rightarrow> 'a ee_mach_scheme \<Rightarrow> 'a ee_mach_scheme" where
  "fpu_mtc r v s = s\<lparr>fpu_gpr := (fpu_gpr s)(r := v)\<rparr>"

definition ee_cop1_mfc :: "u32 \<Rightarrow> 'a ee_mach_scheme \<Rightarrow> 'a ee_mach_scheme" where
  "ee_cop1_mfc i s = eset (i_rt i) (sext (fpu_gpr s (i_rd i))) 0 s"
definition ee_cop1_mtc :: "u32 \<Rightarrow> 'a ee_mach_scheme \<Rightarrow> 'a ee_mach_scheme" where
  "ee_cop1_mtc i s = fpu_mtc (i_rd i) (rt32 i s) s"
definition ee_cop1_cfc :: "u32 \<Rightarrow> 'a ee_mach_scheme \<Rightarrow> 'a ee_mach_scheme" where
  "ee_cop1_cfc i s = eset (i_rt i) (sext (fpu_cfc (i_rd i) s)) 0 s"
definition ee_cop1_ctc :: "u32 \<Rightarrow> 'a ee_mach_scheme \<Rightarrow> 'a ee_mach_scheme" where
  "ee_cop1_ctc i s = fpu_ctc (i_rd i) (rt32 i s) s"
definition ee_cop_bc1 :: "'a ee_op" where
  "ee_cop_bc1 = ee_bc (\<lambda>s. (fc_condition (fpu_control s), s))"

definition ee_lwc1 :: "'a ee_mach_scheme ee_env \<Rightarrow> 'a ee_op" where
  "ee_lwc1 env i s = rbind (ee_read32 env (e_addr i s) s) (\<lambda>(v, s). Inr (fpu_mtc (i_rt i) v s))"
definition ee_swc1 :: "'a ee_mach_scheme ee_env \<Rightarrow> 'a ee_op" where
  "ee_swc1 env i s = ee_write32 env (e_addr i s) (fpu_gpr s (i_rt i)) s"

subsection \<open>Coprocessor 2\<close>

definition cop2_updatevu0 :: "'a ee_mach_scheme ee_env \<Rightarrow> 'a ee_mach_scheme \<Rightarrow> 'a ee_mach_scheme res" where
  "cop2_updatevu0 env s =
     (if \<not> vu0_running env s
      then rbind (ee_read32 env (ee_PC_now s - 4) s) (\<lambda>(last, s).
        let upper = drop_bit 26 last; op = fld last 21 5;
            s = (if upper = 0x36 \<or> (upper = 0x12 \<and> (op = 5 \<or> op = 6))
                 then s\<lparr>ee_cycle_count := ee_cycle_count s + 1\<rparr> else s)
        in vu0_update_pipes env s)
      else if \<not> vu0_interlocked env s then vu0_run env s else Inr s)"

definition check_interlock :: "'a ee_mach_scheme ee_env \<Rightarrow> 'a ee_mach_scheme \<Rightarrow> bool \<times> 'a ee_mach_scheme" where
  "check_interlock env s = (if \<not> vu0_running env s then (False, s) else vu_interlock_check env s)"

text \<open>With the interlock bit the instruction waits by moving the program counter back.\<close>

definition wait_VU0 ::
    "'a ee_mach_scheme ee_env \<Rightarrow> u32 \<Rightarrow> ('a ee_mach_scheme \<Rightarrow> 'a ee_mach_scheme res) \<Rightarrow>
     'a ee_mach_scheme \<Rightarrow> 'a ee_mach_scheme res" where
  "wait_VU0 env i f s =
     (if tst i 0
      then if vu0_running env s then Inr (set_PC (ee_PC s - 4) s) else f (vu_clear_interlock env s)
      else f s)"

definition wait_interlock ::
    "'a ee_mach_scheme ee_env \<Rightarrow> u32 \<Rightarrow> ('a ee_mach_scheme \<Rightarrow> 'a ee_mach_scheme res) \<Rightarrow>
     'a ee_mach_scheme \<Rightarrow> 'a ee_mach_scheme res" where
  "wait_interlock env i f s =
     (if tst i 0
      then let (w, s) = check_interlock env s
           in if w then Inr (set_PC (ee_PC s - 4) s) else f (vu_clear_interlock env s)
      else f s)"

definition ee_cop2_cfc :: "'a ee_mach_scheme ee_env \<Rightarrow> 'a ee_op" where
  "ee_cop2_cfc env i s =
     rbind (cop2_updatevu0 env s) (wait_VU0 env i (\<lambda>s.
       let v = (if i_rd i = 29
                then flag_at 0 (vu0_running env s) OR flag_at 8 (vu1_running env s)
                     OR flag_at 2 (vu0_tbit env s) OR flag_at 10 (vu1_tbit env s)
                else vu0_cfc env (i_rd i) s)
       in Inr (eset (i_rt i) (sext v) 0 s)))"

text \<open>The value is read before the interlock is examined.\<close>

definition ee_cop2_ctc :: "'a ee_mach_scheme ee_env \<Rightarrow> 'a ee_op" where
  "ee_cop2_ctc env i s =
     rbind (cop2_updatevu0 env s) (\<lambda>s. let v = rt32 i s
       in wait_interlock env i (\<lambda>s. if i_rd i = 31 then vu1_start env (push_bit 3 v) s
                                     else vu0_ctc env (i_rd i) v s) s)"

definition ee_qmfc2 :: "'a ee_mach_scheme ee_env \<Rightarrow> 5 word \<Rightarrow> 5 word \<Rightarrow> 'a ee_mach_scheme \<Rightarrow> 'a ee_mach_scheme" where
  "ee_qmfc2 env r c = fold (\<lambda>k s. eset r (vu0_get_gpr env c k s) k s) [0..<4]"
definition ee_qmtc2 :: "'a ee_mach_scheme ee_env \<Rightarrow> 5 word \<Rightarrow> 5 word \<Rightarrow> 'a ee_mach_scheme \<Rightarrow> 'a ee_mach_scheme" where
  "ee_qmtc2 env r c = fold (\<lambda>k s. vu0_set_gpr env c k (eget32 r k s) s) [0..<4]"

definition ee_cop2_qmfc2 :: "'a ee_mach_scheme ee_env \<Rightarrow> 'a ee_op" where
  "ee_cop2_qmfc2 env i s =
     rbind (cop2_updatevu0 env s) (wait_VU0 env i (\<lambda>s. Inr (ee_qmfc2 env (i_rt i) (i_rd i) s)))"
definition ee_cop2_qmtc2 :: "'a ee_mach_scheme ee_env \<Rightarrow> 'a ee_op" where
  "ee_cop2_qmtc2 env i s =
     rbind (cop2_updatevu0 env s) (wait_interlock env i (\<lambda>s. Inr (ee_qmtc2 env (i_rt i) (i_rd i) s)))"
definition ee_cop2_bc2 :: "'a ee_mach_scheme ee_env \<Rightarrow> 'a ee_op" where
  "ee_cop2_bc2 env = ee_bc (\<lambda>s. (vu1_running env s, s))"

definition ee_lqc2 :: "'a ee_mach_scheme ee_env \<Rightarrow> 'a ee_op" where
  "ee_lqc2 env i s =
     (let a = e_addr i s
      in rbind (cop2_updatevu0 env s) (for_upto 4 (\<lambda>k s.
           rbind (ee_read32 env (a + push_bit 2 (of_nat k)) s) (\<lambda>(v, s). Inr (vu0_set_gpr env (i_rt i) k v s)))))"
definition ee_sqc2 :: "'a ee_mach_scheme ee_env \<Rightarrow> 'a ee_op" where
  "ee_sqc2 env i s =
     (let a = e_addr i s
      in rbind (cop2_updatevu0 env s) (for_upto 4 (\<lambda>k s.
           ee_write32 env (a + push_bit 2 (of_nat k)) (vu0_get_gpr env (i_rt i) k s) s)))"

subsection \<open>Traps and system calls\<close>

definition ee_teq :: "u32 \<Rightarrow> 'a ee_mach_scheme \<Rightarrow> 'a ee_mach_scheme" where
  "ee_teq i s = (if rs64 i s = rt64 i s then mach_exception 0x8000017C 0xD s else s)"
definition ee_break :: "'a ee_op" where
  "ee_break i s = Inl (Die ''[EE] BREAK opcode called'')"

text \<open>\<open>deci2call\<close>: a handler number outside the table is undefined behaviour.\<close>

definition deci2open :: "'a ee_mach_scheme ee_env \<Rightarrow> u32 \<Rightarrow> 'a ee_mach_scheme \<Rightarrow> 'a ee_mach_scheme res" where
  "deci2open env param s =
     (let id = ee_deci2size s
      in rbind (vec_at (ee_deci2handlers s) id) (\<lambda>_.
         let s = s\<lparr>ee_deci2size := id + 1, ee_deci2handlers := (ee_deci2handlers s)[id := (ee_deci2handlers s ! id)\<lparr>dh_active := True\<rparr>]\<rparr>
         in rbind (ee_read32 env param s) (\<lambda>(device, s).
            let s = s\<lparr>ee_deci2handlers := (ee_deci2handlers s)[id := (ee_deci2handlers s ! id)\<lparr>dh_device := device\<rparr>]\<rparr>
            in rbind (ee_read32 env (param + 4) s) (\<lambda>(addr, s).
               let s = s\<lparr>ee_deci2handlers := (ee_deci2handlers s)[id := (ee_deci2handlers s ! id)\<lparr>dh_addr := addr\<rparr>]\<rparr>
               in Inr (eset 2 (of_nat id :: u64) 0 s)))))"

definition deci2send :: "'a ee_mach_scheme ee_env \<Rightarrow> u32 \<Rightarrow> 'a ee_mach_scheme \<Rightarrow> 'a ee_mach_scheme res" where
  "deci2send env param s =
     rbind (ee_read32 env param s) (\<lambda>(id, s). rbind (vec_at (ee_deci2handlers s) (unat id)) (\<lambda>h.
       rbind (if dh_active h
              then rbind (ee_read32 env (dh_addr h + 0x10) s) (\<lambda>(addr, s).
                   rbind (ee_read32 env addr s) (\<lambda>(len, s). io_deci2send env (addr + 0xC) (len - 0xC) s))
              else Inr s) (\<lambda>s. Inr (eset 2 (1 :: u64) 0 s))))"

definition deci2poll :: "'a ee_mach_scheme ee_env \<Rightarrow> u32 \<Rightarrow> 'a ee_mach_scheme \<Rightarrow> 'a ee_mach_scheme res" where
  "deci2poll env param s =
     rbind (ee_read32 env param s) (\<lambda>(id, s). rbind (vec_at (ee_deci2handlers s) (unat id)) (\<lambda>h.
       rbind (if dh_active h then ee_write32 env (dh_addr h + 0xC) 0 s else Inr s)
         (\<lambda>s. Inr (eset 2 (1 :: u64) 0 s))))"

definition deci2call :: "'a ee_mach_scheme ee_env \<Rightarrow> u32 \<Rightarrow> u32 \<Rightarrow> 'a ee_mach_scheme \<Rightarrow> 'a ee_mach_scheme res" where
  "deci2call env func param s =
     (if func = 1 then deci2open env param s
      else if func = 3 then deci2send env param s
      else if func = 4 then deci2poll env param s
      else if func = 0x10 then io_kputs env param s
      else Inr s)"

definition syscall_number :: "'a ee_mach_scheme \<Rightarrow> u32" where
  "syscall_number s = (let n = eget32 3 0 s in if n <s 0 then - n else n)"

definition ee_syscall :: "'a ee_mach_scheme ee_env \<Rightarrow> 'a ee_op" where
  "ee_syscall env i s =
     (let op = syscall_number s; a0 = eget32 4 0 s; exception = \<lambda>s. Inr (mach_exception 0x8000017C 8 s)
      in if op = 0x4 then Inl (Die ''[EE] Exit syscall called!'')
         else if op = 0x6 \<or> op = 0x7 then exception (s\<lparr>ee_flush_jit := True\<rparr>)
         else if op = 0x4A
              then rbind (ee_read32 env a0 s) (\<lambda>(v, s). exception (s\<lparr>ee_osd_config := v\<rparr>))
         else if op = 0x4B then ee_write32 env a0 (ee_osd_config s) s
         else if op = 0x64
              then exception (if a0 \<noteq> 0 \<and> a0 \<noteq> 1 then s\<lparr>ee_flush_jit := True\<rparr> else s)
         else if op = 0x77 then rbind (io_log_sifrpc env a0 (eget32 5 0 s) s) exception
         else if op = 0x7C then deci2call env a0 (eget32 5 0 s) s
         else exception s)"

end
