(* ===== verification/Ee_Fpu.thy ===== *)
theory Ee_Fpu
  imports Ee_Interp_Mem
begin

unbundle bit_operations_syntax

section \<open>The floating point unit\<close>

text \<open>
  \<open>src/core/ee/cop1.cpp\<close> and \<open>src/core/ee/emotion_fpu.cpp\<close>. A register holds the 32 bits of a
  number; the code computes with the \<open>float\<close> of the machine it runs on and corrects operands and
  results where the PS2's unit differs from IEEE 754: it has no denormals, infinities or NaNs. The
  host's arithmetic is the argument \<open>hf\<close>, functions on bit patterns; comparison of floats and the
  conversion of a float to an integer are defined here.
\<close>

record host_float =
  hf_add :: "u32 \<Rightarrow> u32 \<Rightarrow> u32"
  hf_sub :: "u32 \<Rightarrow> u32 \<Rightarrow> u32"
  hf_mul :: "u32 \<Rightarrow> u32 \<Rightarrow> u32"
  hf_div :: "u32 \<Rightarrow> u32 \<Rightarrow> u32"
  hf_sqrt_abs :: "u32 \<Rightarrow> u32"
  hf_of_int :: "u32 \<Rightarrow> u32"

subsection \<open>Numbers\<close>

definition f_exponent :: "u32 \<Rightarrow> nat" where "f_exponent v = unat (fld v 23 8)"
definition f_mantissa :: "u32 \<Rightarrow> nat" where "f_mantissa v = unat (v AND 0x7FFFFF)"
definition f_is_nan :: "u32 \<Rightarrow> bool" where "f_is_nan v \<longleftrightarrow> f_exponent v = 255 \<and> f_mantissa v \<noteq> 0"

text \<open>The order of the floats that are not NaN is that of these integers.\<close>

definition f_key :: "u32 \<Rightarrow> int" where
  "f_key v = (let m = int (unat (v AND 0x7FFFFFFF)) in if tst v 31 then - m else m)"

definition f_lt :: "u32 \<Rightarrow> u32 \<Rightarrow> bool" where
  "f_lt a b \<longleftrightarrow> \<not> f_is_nan a \<and> \<not> f_is_nan b \<and> f_key a < f_key b"
definition f_le :: "u32 \<Rightarrow> u32 \<Rightarrow> bool" where
  "f_le a b \<longleftrightarrow> \<not> f_is_nan a \<and> \<not> f_is_nan b \<and> f_key a \<le> f_key b"
definition f_eq :: "u32 \<Rightarrow> u32 \<Rightarrow> bool" where
  "f_eq a b \<longleftrightarrow> \<not> f_is_nan a \<and> \<not> f_is_nan b \<and> f_key a = f_key b"

text \<open>\<open>(int32_t)f\<close> truncates towards zero.\<close>

definition f_to_int :: "u32 \<Rightarrow> int" where
  "f_to_int v =
     (let e = f_exponent v;
          m = (if e = 0 then f_mantissa v else 2 ^ 23 + f_mantissa v);
          n = (if 150 \<le> e then m * 2 ^ (e - 150) else m div 2 ^ (150 - max e 1))
      in if tst v 31 then - int n else int n)"

subsection \<open>Corrections\<close>

definition f_convert :: "u32 \<Rightarrow> u32" where
  "f_convert v =
     (if v AND 0x7F800000 = 0 then v AND 0x80000000
      else if v AND 0x7F800000 = 0x7F800000 then (v AND 0x80000000) OR 0x7F7FFFFF
      else v)"

definition check_overflow :: "bool \<Rightarrow> u32 \<times> fpu_control \<Rightarrow> u32 \<times> fpu_control" where
  "check_overflow flags = (\<lambda>(v, c).
     if v AND NOT 0x80000000 = 0x7F800000
     then ((v AND 0x80000000) OR 0x7F7FFFFF, if flags then c\<lparr>fc_so := True, fc_o := True\<rparr> else c)
     else (v, if flags then c\<lparr>fc_o := False\<rparr> else c))"

definition check_underflow :: "bool \<Rightarrow> u32 \<times> fpu_control \<Rightarrow> u32 \<times> fpu_control" where
  "check_underflow flags = (\<lambda>(v, c).
     if v AND 0x7F800000 = 0 \<and> v AND 0x7FFFFF \<noteq> 0
     then (v AND 0x80000000, if flags then c\<lparr>fc_su := True, fc_u := True\<rparr> else c)
     else (v, if flags then c\<lparr>fc_u := False\<rparr> else c))"

definition f_checked :: "bool \<Rightarrow> u32 \<times> fpu_control \<Rightarrow> u32 \<times> fpu_control" where
  "f_checked flags r = check_underflow flags (check_overflow flags r)"

text \<open>The unit aligns operands with fewer bits than IEEE 754.\<close>

definition accurate_add_sub :: "host_float \<Rightarrow> u32 \<Rightarrow> u32 \<Rightarrow> bool \<Rightarrow> u32" where
  "accurate_add_sub hf fs ft is_sub =
     (let op1 = f_convert fs; op2 = f_convert ft;
          d = int (f_exponent fs) - int (f_exponent ft);
          (op1, op2) =
            (if 25 \<le> d then (op1, op2 AND 0x80000000)
             else if d \<le> - 25 then (op1 AND 0x80000000, op2)
             else if d < 0 then (op1 AND push_bit (nat (- d) - 1) 0xFFFFFFFF, op2)
             else if 0 < d then (op1, op2 AND push_bit (nat d - 1) 0xFFFFFFFF)
             else (op1, op2))
      in if is_sub then hf_sub hf op1 op2 else hf_add hf op1 op2)"

subsection \<open>Operations\<close>

definition f_store :: "5 word \<Rightarrow> u32 \<times> fpu_control \<Rightarrow> 'a ee_mach_scheme \<Rightarrow> 'a ee_mach_scheme" where
  "f_store d r s = s\<lparr>fpu_gpr := (fpu_gpr s)(d := fst r), fpu_control := snd r\<rparr>"

definition f_store_acc :: "u32 \<times> fpu_control \<Rightarrow> 'a ee_mach_scheme \<Rightarrow> 'a ee_mach_scheme" where
  "f_store_acc r s = s\<lparr>fpu_acc := fst r, fpu_control := snd r\<rparr>"

abbreviation cv :: "5 word \<Rightarrow> 'a ee_mach_scheme \<Rightarrow> u32" where "cv r s \<equiv> f_convert (fpu_gpr s r)"

definition f_reset :: "'a ee_mach_scheme \<Rightarrow> 'a ee_mach_scheme" where
  "f_reset s = s\<lparr>fpu_control := \<lparr>fc_su = False, fc_so = False, fc_sd = False, fc_si = False, fc_u = False,
     fc_o = False, fc_d = False, fc_i = False, fc_condition = False\<rparr>\<rparr>"

definition add_s :: "host_float \<Rightarrow> 5 word \<Rightarrow> 5 word \<Rightarrow> 5 word \<Rightarrow> 'a ee_mach_scheme \<Rightarrow> 'a ee_mach_scheme" where
  "add_s hf d a b s = f_store d (f_checked True (accurate_add_sub hf (fpu_gpr s a) (fpu_gpr s b) False, fpu_control s)) s"
definition sub_s :: "host_float \<Rightarrow> 5 word \<Rightarrow> 5 word \<Rightarrow> 5 word \<Rightarrow> 'a ee_mach_scheme \<Rightarrow> 'a ee_mach_scheme" where
  "sub_s hf d a b s = f_store d (f_checked True (accurate_add_sub hf (fpu_gpr s a) (fpu_gpr s b) True, fpu_control s)) s"
definition mul_s :: "host_float \<Rightarrow> 5 word \<Rightarrow> 5 word \<Rightarrow> 5 word \<Rightarrow> 'a ee_mach_scheme \<Rightarrow> 'a ee_mach_scheme" where
  "mul_s hf d a b s = f_store d (f_checked True (hf_mul hf (cv a s) (cv b s), fpu_control s)) s"
definition div_s :: "host_float \<Rightarrow> 5 word \<Rightarrow> 5 word \<Rightarrow> 5 word \<Rightarrow> 'a ee_mach_scheme \<Rightarrow> 'a ee_mach_scheme" where
  "div_s hf d a b s =
     (let n = fpu_gpr s a; m = fpu_gpr s b; c = fpu_control s
      in if m AND 0x7F800000 = 0
         then f_store d (((n XOR m) AND 0x80000000) OR 0x7F7FFFFF,
                if n AND 0x7F800000 = 0 then c\<lparr>fc_i := True, fc_si := True\<rparr> else c\<lparr>fc_d := True, fc_sd := True\<rparr>) s
         else f_store d (f_checked False (hf_div hf (f_convert n) (f_convert m), c)) s)"
definition sqrt_s :: "host_float \<Rightarrow> 5 word \<Rightarrow> 5 word \<Rightarrow> 'a ee_mach_scheme \<Rightarrow> 'a ee_mach_scheme" where
  "sqrt_s hf d a s =
     (let v = fpu_gpr s a; c = fpu_control s
      in if v AND 0x7F800000 = 0 then f_store d (v AND 0x80000000, c\<lparr>fc_d := False\<rparr>) s
         else let c = (if v AND 0x80000000 \<noteq> 0 then c\<lparr>fc_i := True, fc_si := True\<rparr> else c)
              in f_store d (hf_sqrt_abs hf (f_convert v), c\<lparr>fc_d := False\<rparr>) s)"
definition rsqrt_s :: "host_float \<Rightarrow> 5 word \<Rightarrow> 5 word \<Rightarrow> 5 word \<Rightarrow> 'a ee_mach_scheme \<Rightarrow> 'a ee_mach_scheme" where
  "rsqrt_s hf d a b s =
     (let v = fpu_gpr s b; c = fpu_control s
      in if v AND 0x7F800000 = 0
         then f_store d ((fpu_gpr s a AND 0x80000000) OR 0x7F7FFFFF, c\<lparr>fc_d := True, fc_sd := True\<rparr>) s
         else let c = (if v AND 0x80000000 \<noteq> 0 then c\<lparr>fc_i := True, fc_si := True\<rparr> else c);
                  root = hf_sqrt_abs hf (f_convert v)
              in f_store d (f_checked False (hf_div hf (cv a s) (f_convert root), c\<lparr>fc_d := False\<rparr>)) s)"
definition abs_s :: "5 word \<Rightarrow> 5 word \<Rightarrow> 'a ee_mach_scheme \<Rightarrow> 'a ee_mach_scheme" where
  "abs_s d a s = f_store d (fpu_gpr s a AND 0x7FFFFFFF, (fpu_control s)\<lparr>fc_u := False, fc_o := False\<rparr>) s"
definition neg_s :: "5 word \<Rightarrow> 5 word \<Rightarrow> 'a ee_mach_scheme \<Rightarrow> 'a ee_mach_scheme" where
  "neg_s d a s = f_store d (fpu_gpr s a XOR 0x80000000, (fpu_control s)\<lparr>fc_u := False, fc_o := False\<rparr>) s"
definition mov_s :: "5 word \<Rightarrow> 5 word \<Rightarrow> 'a ee_mach_scheme \<Rightarrow> 'a ee_mach_scheme" where
  "mov_s d a s = f_store d (fpu_gpr s a, fpu_control s) s"
definition adda_s :: "host_float \<Rightarrow> 5 word \<Rightarrow> 5 word \<Rightarrow> 'a ee_mach_scheme \<Rightarrow> 'a ee_mach_scheme" where
  "adda_s hf a b s = f_store_acc (f_checked True (hf_add hf (cv a s) (cv b s), fpu_control s)) s"
definition suba_s :: "host_float \<Rightarrow> 5 word \<Rightarrow> 5 word \<Rightarrow> 'a ee_mach_scheme \<Rightarrow> 'a ee_mach_scheme" where
  "suba_s hf a b s = f_store_acc (f_checked True (hf_sub hf (cv a s) (cv b s), fpu_control s)) s"
definition mula_s :: "host_float \<Rightarrow> 5 word \<Rightarrow> 5 word \<Rightarrow> 'a ee_mach_scheme \<Rightarrow> 'a ee_mach_scheme" where
  "mula_s hf a b s = f_store_acc (f_checked True (hf_mul hf (cv a s) (cv b s), fpu_control s)) s"
definition madd_s :: "host_float \<Rightarrow> 5 word \<Rightarrow> 5 word \<Rightarrow> 5 word \<Rightarrow> 'a ee_mach_scheme \<Rightarrow> 'a ee_mach_scheme" where
  "madd_s hf d a b s =
     f_store d (f_checked True (hf_add hf (f_convert (fpu_acc s)) (hf_mul hf (cv a s) (cv b s)), fpu_control s)) s"
definition msub_s :: "host_float \<Rightarrow> 5 word \<Rightarrow> 5 word \<Rightarrow> 5 word \<Rightarrow> 'a ee_mach_scheme \<Rightarrow> 'a ee_mach_scheme" where
  "msub_s hf d a b s =
     f_store d (f_checked True (hf_sub hf (f_convert (fpu_acc s)) (hf_mul hf (cv a s) (cv b s)), fpu_control s)) s"
definition madda_s :: "host_float \<Rightarrow> 5 word \<Rightarrow> 5 word \<Rightarrow> 'a ee_mach_scheme \<Rightarrow> 'a ee_mach_scheme" where
  "madda_s hf a b s =
     f_store_acc (f_checked True (hf_add hf (fpu_acc s) (hf_mul hf (cv a s) (cv b s)), fpu_control s)) s"
definition msuba_s :: "host_float \<Rightarrow> 5 word \<Rightarrow> 5 word \<Rightarrow> 'a ee_mach_scheme \<Rightarrow> 'a ee_mach_scheme" where
  "msuba_s hf a b s =
     f_store_acc (f_checked True (hf_sub hf (fpu_acc s) (hf_mul hf (cv a s) (cv b s)), fpu_control s)) s"
definition max_s :: "5 word \<Rightarrow> 5 word \<Rightarrow> 5 word \<Rightarrow> 'a ee_mach_scheme \<Rightarrow> 'a ee_mach_scheme" where
  "max_s d a b s =
     f_store d (if f_le (fpu_gpr s b) (fpu_gpr s a) then fpu_gpr s a else fpu_gpr s b, (fpu_control s)\<lparr>fc_u := False, fc_o := False\<rparr>) s"
definition min_s :: "5 word \<Rightarrow> 5 word \<Rightarrow> 5 word \<Rightarrow> 'a ee_mach_scheme \<Rightarrow> 'a ee_mach_scheme" where
  "min_s d a b s =
     f_store d (if f_le (fpu_gpr s a) (fpu_gpr s b) then fpu_gpr s a else fpu_gpr s b, (fpu_control s)\<lparr>fc_u := False, fc_o := False\<rparr>) s"
definition cvt_s_w :: "host_float \<Rightarrow> 5 word \<Rightarrow> 5 word \<Rightarrow> 'a ee_mach_scheme \<Rightarrow> 'a ee_mach_scheme" where
  "cvt_s_w hf d a s = f_store d (f_convert (hf_of_int hf (fpu_gpr s a)), fpu_control s) s"
definition cvt_w_s :: "5 word \<Rightarrow> 5 word \<Rightarrow> 'a ee_mach_scheme \<Rightarrow> 'a ee_mach_scheme" where
  "cvt_w_s d a s =
     (let v = fpu_gpr s a
      in f_store d (if v AND 0x7F800000 \<le> 0x4E800000 then word_of_int (f_to_int v)
                    else if v AND 0x80000000 = 0 then 0x7FFFFFFF else 0x80000000, fpu_control s) s)"
definition set_condition :: "bool \<Rightarrow> 'a ee_mach_scheme \<Rightarrow> 'a ee_mach_scheme" where
  "set_condition b s = s\<lparr>fpu_control := (fpu_control s)\<lparr>fc_condition := b\<rparr>\<rparr>"
definition c_f_s :: "'a ee_mach_scheme \<Rightarrow> 'a ee_mach_scheme" where
  "c_f_s = set_condition False"
definition c_lt_s :: "5 word \<Rightarrow> 5 word \<Rightarrow> 'a ee_mach_scheme \<Rightarrow> 'a ee_mach_scheme" where
  "c_lt_s a b s = set_condition (f_lt (cv a s) (cv b s)) s"
definition c_eq_s :: "5 word \<Rightarrow> 5 word \<Rightarrow> 'a ee_mach_scheme \<Rightarrow> 'a ee_mach_scheme" where
  "c_eq_s a b s = set_condition (f_eq (cv a s) (cv b s)) s"
definition c_le_s :: "5 word \<Rightarrow> 5 word \<Rightarrow> 'a ee_mach_scheme \<Rightarrow> 'a ee_mach_scheme" where
  "c_le_s a b s = set_condition (f_le (cv a s) (cv b s)) s"

subsection \<open>Instructions\<close>

definition i_sa5 :: "u32 \<Rightarrow> 5 word" where "i_sa5 i = ucast (fld i 6 5)"

definition fpu_add :: "host_float \<Rightarrow> u32 \<Rightarrow> 'a ee_mach_scheme \<Rightarrow> 'a ee_mach_scheme" where
  "fpu_add hf i = add_s hf (i_sa5 i) (i_rd i) (i_rt i)"
definition fpu_sub :: "host_float \<Rightarrow> u32 \<Rightarrow> 'a ee_mach_scheme \<Rightarrow> 'a ee_mach_scheme" where
  "fpu_sub hf i = sub_s hf (i_sa5 i) (i_rd i) (i_rt i)"
definition fpu_mul :: "host_float \<Rightarrow> u32 \<Rightarrow> 'a ee_mach_scheme \<Rightarrow> 'a ee_mach_scheme" where
  "fpu_mul hf i = mul_s hf (i_sa5 i) (i_rd i) (i_rt i)"
definition fpu_div :: "host_float \<Rightarrow> u32 \<Rightarrow> 'a ee_mach_scheme \<Rightarrow> 'a ee_mach_scheme" where
  "fpu_div hf i = div_s hf (i_sa5 i) (i_rd i) (i_rt i)"
definition fpu_rsqrt :: "host_float \<Rightarrow> u32 \<Rightarrow> 'a ee_mach_scheme \<Rightarrow> 'a ee_mach_scheme" where
  "fpu_rsqrt hf i = rsqrt_s hf (i_sa5 i) (i_rd i) (i_rt i)"
definition fpu_madd :: "host_float \<Rightarrow> u32 \<Rightarrow> 'a ee_mach_scheme \<Rightarrow> 'a ee_mach_scheme" where
  "fpu_madd hf i = madd_s hf (i_sa5 i) (i_rd i) (i_rt i)"
definition fpu_msub :: "host_float \<Rightarrow> u32 \<Rightarrow> 'a ee_mach_scheme \<Rightarrow> 'a ee_mach_scheme" where
  "fpu_msub hf i = msub_s hf (i_sa5 i) (i_rd i) (i_rt i)"
definition fpu_sqrt :: "host_float \<Rightarrow> u32 \<Rightarrow> 'a ee_mach_scheme \<Rightarrow> 'a ee_mach_scheme" where
  "fpu_sqrt hf i = sqrt_s hf (i_sa5 i) (i_rt i)"
definition fpu_abs :: "u32 \<Rightarrow> 'a ee_mach_scheme \<Rightarrow> 'a ee_mach_scheme" where
  "fpu_abs i = abs_s (i_sa5 i) (i_rd i)"
definition fpu_mov :: "u32 \<Rightarrow> 'a ee_mach_scheme \<Rightarrow> 'a ee_mach_scheme" where
  "fpu_mov i = mov_s (i_sa5 i) (i_rd i)"
definition fpu_neg :: "u32 \<Rightarrow> 'a ee_mach_scheme \<Rightarrow> 'a ee_mach_scheme" where
  "fpu_neg i = neg_s (i_sa5 i) (i_rd i)"
definition fpu_adda :: "host_float \<Rightarrow> u32 \<Rightarrow> 'a ee_mach_scheme \<Rightarrow> 'a ee_mach_scheme" where
  "fpu_adda hf i = adda_s hf (i_rd i) (i_rt i)"
definition fpu_suba :: "host_float \<Rightarrow> u32 \<Rightarrow> 'a ee_mach_scheme \<Rightarrow> 'a ee_mach_scheme" where
  "fpu_suba hf i = suba_s hf (i_rd i) (i_rt i)"
definition fpu_mula :: "host_float \<Rightarrow> u32 \<Rightarrow> 'a ee_mach_scheme \<Rightarrow> 'a ee_mach_scheme" where
  "fpu_mula hf i = mula_s hf (i_rd i) (i_rt i)"
definition fpu_madda :: "host_float \<Rightarrow> u32 \<Rightarrow> 'a ee_mach_scheme \<Rightarrow> 'a ee_mach_scheme" where
  "fpu_madda hf i = madda_s hf (i_rd i) (i_rt i)"
definition fpu_msuba :: "host_float \<Rightarrow> u32 \<Rightarrow> 'a ee_mach_scheme \<Rightarrow> 'a ee_mach_scheme" where
  "fpu_msuba hf i = msuba_s hf (i_rd i) (i_rt i)"
definition fpu_cvt_w_s :: "u32 \<Rightarrow> 'a ee_mach_scheme \<Rightarrow> 'a ee_mach_scheme" where
  "fpu_cvt_w_s i = cvt_w_s (i_sa5 i) (i_rd i)"
definition cop_cvt_s_w :: "host_float \<Rightarrow> u32 \<Rightarrow> 'a ee_mach_scheme \<Rightarrow> 'a ee_mach_scheme" where
  "cop_cvt_s_w hf i = cvt_s_w hf (i_sa5 i) (i_rd i)"
definition fpu_max_s :: "u32 \<Rightarrow> 'a ee_mach_scheme \<Rightarrow> 'a ee_mach_scheme" where
  "fpu_max_s i = max_s (i_sa5 i) (i_rd i) (i_rt i)"
definition fpu_min_s :: "u32 \<Rightarrow> 'a ee_mach_scheme \<Rightarrow> 'a ee_mach_scheme" where
  "fpu_min_s i = min_s (i_sa5 i) (i_rd i) (i_rt i)"
definition fpu_c_f_s :: "u32 \<Rightarrow> 'a ee_mach_scheme \<Rightarrow> 'a ee_mach_scheme" where
  "fpu_c_f_s i = c_f_s"
definition fpu_c_lt_s :: "u32 \<Rightarrow> 'a ee_mach_scheme \<Rightarrow> 'a ee_mach_scheme" where
  "fpu_c_lt_s i = c_lt_s (i_rd i) (i_rt i)"
definition fpu_c_eq_s :: "u32 \<Rightarrow> 'a ee_mach_scheme \<Rightarrow> 'a ee_mach_scheme" where
  "fpu_c_eq_s i = c_eq_s (i_rd i) (i_rt i)"
definition fpu_c_le_s :: "u32 \<Rightarrow> 'a ee_mach_scheme \<Rightarrow> 'a ee_mach_scheme" where
  "fpu_c_le_s i = c_le_s (i_rd i) (i_rt i)"

end
