(* ===== verification/Ee_Mmi_Decode.thy ===== *)
theory Ee_Mmi_Decode
  imports Ee_Mmi Ee_Info
begin

unbundle bit_operations_syntax

section \<open>Decoding the multimedia instructions\<close>

text \<open>
  The decoders \<open>mmi\<close>, \<open>mmi0\<close> to \<open>mmi3\<close> and \<open>pmfhlfmt\<close> of
  \<open>src/core/ee/emotion_mmi.cpp\<close>. Each \<open>switch\<close> is a table from the opcode field to what the
  case stores in the \<open>EE_InstrInfo\<close>.
\<close>

definition mmi0_table :: "u32 \<Rightarrow> (u32 \<times> 'a ee_cpu_scheme instr_info) list" where
  "mmi0_table i =
     [(0x00, instr (total paddw) IntWide [gpr (i_rd i)] [gpr (i_rs i), gpr (i_rt i)]),
      (0x01, instr (total psubw) IntWide [gpr (i_rd i)] [gpr (i_rs i), gpr (i_rt i)]),
      (0x02, instr (total pcgtw) IntWide [gpr (i_rd i)] [gpr (i_rs i), gpr (i_rt i)]),
      (0x03, instr (total pmaxw) IntWide [gpr (i_rd i)] [gpr (i_rs i), gpr (i_rt i)]),
      (0x04, instr (total paddh) IntWide [gpr (i_rd i)] [gpr (i_rs i), gpr (i_rt i)]),
      (0x05, instr (total psubh) IntWide [gpr (i_rd i)] [gpr (i_rs i), gpr (i_rt i)]),
      (0x06, instr (total pcgth) IntWide [gpr (i_rd i)] [gpr (i_rs i), gpr (i_rt i)]),
      (0x07, instr (total pmaxh) IntWide [gpr (i_rd i)] [gpr (i_rs i), gpr (i_rt i)]),
      (0x08, instr (total paddb) IntWide [gpr (i_rd i)] [gpr (i_rs i), gpr (i_rt i)]),
      (0x09, instr (total psubb) IntWide [gpr (i_rd i)] [gpr (i_rs i), gpr (i_rt i)]),
      (0x0A, instr (total pcgtb) IntWide [gpr (i_rd i)] [gpr (i_rs i), gpr (i_rt i)]),
      (0x10, instr (total paddsw) IntWide [gpr (i_rd i)] [gpr (i_rs i), gpr (i_rt i)]),
      (0x11, instr (total psubsw) IntWide [gpr (i_rd i)] [gpr (i_rs i), gpr (i_rt i)]),
      (0x12, instr (total pextlw) IntWide [gpr (i_rd i)] [gpr (i_rs i), gpr (i_rt i)]),
      (0x13, instr (total ppacw) IntWide [gpr (i_rd i)] [gpr (i_rs i), gpr (i_rt i)]),
      (0x14, instr (total paddsh) IntWide [gpr (i_rd i)] [gpr (i_rs i), gpr (i_rt i)]),
      (0x15, instr (total psubsh) IntWide [gpr (i_rd i)] [gpr (i_rs i), gpr (i_rt i)]),
      (0x16, instr (total pextlh) IntWide [gpr (i_rd i)] [gpr (i_rs i), gpr (i_rt i)]),
      (0x17, instr (total ppach) IntWide [gpr (i_rd i)] [gpr (i_rs i), gpr (i_rt i)]),
      (0x18, instr (total paddsb) IntWide [gpr (i_rd i)] [gpr (i_rs i), gpr (i_rt i)]),
      (0x19, instr (total psubsb) IntWide [gpr (i_rd i)] [gpr (i_rs i), gpr (i_rt i)]),
      (0x1A, instr (total pextlb) IntWide [gpr (i_rd i)] [gpr (i_rs i), gpr (i_rt i)]),
      (0x1B, instr (total ppacb) IntWide [gpr (i_rd i)] [gpr (i_rs i), gpr (i_rt i)]),
      (0x1E, instr (total pext5) IntWide [gpr (i_rd i)] [gpr (i_rt i)]),
      (0x1F, instr (total ppac5) IntWide [gpr (i_rd i)] [gpr (i_rt i)])]"

definition mmi1_table :: "u32 \<Rightarrow> (u32 \<times> 'a ee_cpu_scheme instr_info) list" where
  "mmi1_table i =
     [(0x01, instr (total pabsw) IntWide [gpr (i_rd i)] [gpr (i_rt i)]),
      (0x02, instr (total pceqw) IntWide [gpr (i_rd i)] [gpr (i_rt i), gpr (i_rs i)]),
      (0x03, instr (total pminw) IntWide [gpr (i_rd i)] [gpr (i_rt i), gpr (i_rs i)]),
      (0x04, instr (total padsbh) IntWide [gpr (i_rd i)] [gpr (i_rt i), gpr (i_rs i)]),
      (0x05, instr (total pabsh) IntWide [gpr (i_rd i)] [gpr (i_rt i)]),
      (0x06, instr (total pceqh) IntWide [gpr (i_rd i)] [gpr (i_rt i), gpr (i_rs i)]),
      (0x07, instr (total pminh) IntWide [gpr (i_rd i)] [gpr (i_rt i), gpr (i_rs i)]),
      (0x0A, instr (total pceqb) IntWide [gpr (i_rd i)] [gpr (i_rt i), gpr (i_rs i)]),
      (0x10, instr (total padduw) IntWide [gpr (i_rd i)] [gpr (i_rt i), gpr (i_rs i)]),
      (0x11, instr (total psubuw) IntWide [gpr (i_rd i)] [gpr (i_rt i), gpr (i_rs i)]),
      (0x12, instr (total pextuw) IntWide [gpr (i_rd i)] [gpr (i_rt i), gpr (i_rs i)]),
      (0x14, instr (total padduh) IntWide [gpr (i_rd i)] [gpr (i_rt i), gpr (i_rs i)]),
      (0x15, instr (total psubuh) IntWide [gpr (i_rd i)] [gpr (i_rt i), gpr (i_rs i)]),
      (0x16, instr (total pextuh) IntWide [gpr (i_rd i)] [gpr (i_rt i), gpr (i_rs i)]),
      (0x18, instr (total paddub) IntWide [gpr (i_rd i)] [gpr (i_rt i), gpr (i_rs i)]),
      (0x19, instr (total psubub) IntWide [gpr (i_rd i)] [gpr (i_rt i), gpr (i_rs i)]),
      (0x1A, instr (total pextub) IntWide [gpr (i_rd i)] [gpr (i_rt i), gpr (i_rs i)]),
      (0x1B, instr (qfsrv) IntWide [gpr (i_rd i)] [R_SA, gpr (i_rt i), gpr (i_rs i)])]"

definition mmi2_table :: "u32 \<Rightarrow> (u32 \<times> 'a ee_cpu_scheme instr_info) list" where
  "mmi2_table i =
     [(0x00, timed 4 2 MADD (instr (total pmaddw) IntWide [R_LO, R_LO1, R_HI, R_HI1, gpr (i_rd i)] [gpr (i_rs i), gpr (i_rt i)])),
      (0x02, instr (total psllvw) IntWide [gpr (i_rd i)] [gpr (i_rt i), gpr (i_rs i)]),
      (0x03, instr (total psrlvw) IntWide [gpr (i_rd i)] [gpr (i_rt i), gpr (i_rs i)]),
      (0x04, timed 4 2 MADD (instr (total pmsubw) IntWide [R_LO, R_LO1, R_HI, R_HI1, gpr (i_rd i)] [gpr (i_rs i), gpr (i_rt i)])),
      (0x08, instr (total pmfhi) IntWide [gpr (i_rd i)] [R_HI, R_HI1]),
      (0x09, instr (total pmflo) IntWide [gpr (i_rd i)] [R_LO, R_LO1]),
      (0x0A, instr (total pinth) IntWide [gpr (i_rd i)] [gpr (i_rt i), gpr (i_rs i)]),
      (0x0C, timed 4 2 MULT (instr (total pmultw) IntWide [R_LO, R_LO1, R_HI, R_HI1, gpr (i_rd i)] [gpr (i_rs i), gpr (i_rt i)])),
      (0x0D, timed 37 37 DIV (instr (total pdivw) IntWide [R_LO, R_LO1, R_HI, R_HI1] [gpr (i_rs i), gpr (i_rt i)])),
      (0x0E, instr (total pcpyld) IntWide [gpr (i_rd i)] [gpr (i_rt i), gpr (i_rs i)]),
      (0x10, timed 4 2 MADD (instr (total pmaddh) IntWide [R_LO, R_LO1, R_HI, R_HI1, gpr (i_rd i)] [gpr (i_rs i), gpr (i_rt i)])),
      (0x11, timed 4 2 MADD (instr (total phmadh) IntWide [R_LO, R_LO1, R_HI, R_HI1, gpr (i_rd i)] [gpr (i_rs i), gpr (i_rt i)])),
      (0x12, instr (total pand) IntWide [gpr (i_rd i)] [gpr (i_rt i), gpr (i_rs i)]),
      (0x13, instr (total pxor) IntWide [gpr (i_rd i)] [gpr (i_rt i), gpr (i_rs i)]),
      (0x14, timed 4 2 MADD (instr (total pmsubh) IntWide [R_LO, R_LO1, R_HI, R_HI1, gpr (i_rd i)] [gpr (i_rs i), gpr (i_rt i)])),
      (0x15, timed 4 2 MADD (instr (total phmsbh) IntWide [R_LO, R_LO1, R_HI, R_HI1, gpr (i_rd i)] [gpr (i_rs i), gpr (i_rt i)])),
      (0x1A, instr (total pexeh) IntWide [gpr (i_rd i)] [gpr (i_rt i)]),
      (0x1B, instr (total prevh) IntWide [gpr (i_rd i)] [gpr (i_rt i)]),
      (0x1C, timed 4 2 MULT (instr (total pmulth) IntWide [R_LO, R_LO1, R_HI, R_HI1, gpr (i_rd i)] [gpr (i_rs i), gpr (i_rt i)])),
      (0x1D, timed 37 37 MULT (instr (total pdivbw) IntWide [R_LO, R_LO1, R_HI, R_HI1] [gpr (i_rs i), gpr (i_rt i)])),
      (0x1E, instr (total pexew) IntWide [gpr (i_rd i)] [gpr (i_rt i)]),
      (0x1F, instr (total prot3w) IntWide [gpr (i_rd i)] [gpr (i_rt i)])]"

definition mmi3_table :: "u32 \<Rightarrow> (u32 \<times> 'a ee_cpu_scheme instr_info) list" where
  "mmi3_table i =
     [(0x00, timed 4 2 MADD (instr (total pmadduw) IntWide [R_LO, R_LO1, R_HI, R_HI1, gpr (i_rd i)] [gpr (i_rs i), gpr (i_rt i)])),
      (0x03, instr (total psravw) IntWide [gpr (i_rd i)] [gpr (i_rt i)]),
      (0x08, instr (total pmthi) IntWide [R_HI, R_HI1] [gpr (i_rs i)]),
      (0x09, instr (total pmtlo) IntWide [R_LO, R_LO1] [gpr (i_rs i)]),
      (0x0A, instr (total pinteh) IntWide [gpr (i_rd i)] [gpr (i_rt i), gpr (i_rs i)]),
      (0x0C, timed 4 2 MULT (instr (total pmultuw) IntWide [R_LO, R_LO1, R_HI, R_HI1, gpr (i_rd i)] [gpr (i_rs i), gpr (i_rt i)])),
      (0x0D, timed 4 2 DIV (instr (total pdivuw) IntWide [R_LO, R_LO1, R_HI, R_HI1] [gpr (i_rs i), gpr (i_rt i)])),
      (0x0E, instr (total pcpyud) IntWide [gpr (i_rd i)] [gpr (i_rt i), gpr (i_rs i)]),
      (0x12, instr (total por) IntWide [gpr (i_rd i)] [gpr (i_rt i), gpr (i_rs i)]),
      (0x13, instr (total pnor) IntWide [gpr (i_rd i)] [gpr (i_rt i), gpr (i_rs i)]),
      (0x1A, instr (total pexch) IntWide [gpr (i_rd i)] [gpr (i_rt i)]),
      (0x1B, instr (total pcpyh) IntWide [gpr (i_rd i)] [gpr (i_rt i)]),
      (0x1E, instr (total pexcw) IntWide [gpr (i_rd i)] [gpr (i_rt i)])]"

definition pmfhl_table :: "u32 \<Rightarrow> (u32 \<times> 'a ee_cpu_scheme instr_info) list" where
  "pmfhl_table i =
     [(0x00, instr (total pmfhllw) IntWide [gpr (i_rd i)] [R_LO, R_LO1, R_HI, R_HI1]),
      (0x01, instr (total pmfhluw) IntWide [gpr (i_rd i)] [R_LO, R_LO1, R_HI, R_HI1]),
      (0x02, instr (total pmfhlslw) IntWide [gpr (i_rd i)] [R_LO, R_LO1, R_HI, R_HI1]),
      (0x03, instr (total pmfhllh) IntWide [gpr (i_rd i)] [R_LO, R_LO1, R_HI, R_HI1]),
      (0x04, instr (total pmfhlsh) IntWide [gpr (i_rd i)] [R_LO, R_LO1, R_HI, R_HI1])]"

definition mmi_table :: "u32 \<Rightarrow> (u32 \<times> 'a ee_cpu_scheme instr_info) list" where
  "mmi_table i =
     [(0x00, timed 4 2 MADD (instr (total madd) MAC0 [R_LO, R_HI, gpr (i_rd i)] [gpr (i_rs i), gpr (i_rt i)])),
      (0x01, timed 4 2 MADD (instr (total maddu) MAC0 [R_LO, R_HI, gpr (i_rd i)] [gpr (i_rs i), gpr (i_rt i)])),
      (0x04, instr (total plzcw) LZC [gpr (i_rd i)] [gpr (i_rs i)]),
      (0x10, instr (total mfhi1) MAC1 [gpr (i_rd i)] [R_HI1]),
      (0x11, instr (total mthi1) MAC1 [R_HI1] [gpr (i_rs i)]),
      (0x12, instr (total mflo1) MAC1 [gpr (i_rd i)] [R_LO1]),
      (0x13, instr (total mtlo1) MAC1 [R_LO1] [gpr (i_rs i)]),
      (0x18, timed 4 2 MULT1 (instr (total mult1) MAC1 [R_LO1, R_HI1, gpr (i_rd i)] [gpr (i_rs i), gpr (i_rt i)])),
      (0x19, timed 4 2 MULT1 (instr (total multu1) MAC1 [R_LO1, R_HI1, gpr (i_rd i)] [gpr (i_rs i), gpr (i_rt i)])),
      (0x1A, timed 37 37 DIV1 (instr (total div1) MAC1 [R_LO1, R_HI1] [gpr (i_rs i), gpr (i_rt i)])),
      (0x1B, timed 37 37 DIV1 (instr (total divu1) MAC1 [R_LO1, R_HI1] [gpr (i_rs i), gpr (i_rt i)])),
      (0x20, timed 4 2 MADD (instr (total madd1) MAC1 [R_LO1, R_HI1, gpr (i_rd i)] [gpr (i_rs i), gpr (i_rt i)])),
      (0x21, timed 4 2 MADD (instr (total maddu1) MAC1 [R_LO1, R_HI1, gpr (i_rd i)] [gpr (i_rs i), gpr (i_rt i)])),
      (0x31, instr (total pmthllw) IntWide [R_LO, R_LO1, R_HI, R_HI1] [gpr (i_rs i)]),
      (0x34, instr (total psllh) IntWide [gpr (i_rd i)] [gpr (i_rt i)]),
      (0x36, instr (total psrlh) IntWide [gpr (i_rd i)] [gpr (i_rt i)]),
      (0x37, instr (total psrah) IntWide [gpr (i_rd i)] [gpr (i_rt i)]),
      (0x3C, instr (total psllw) IntWide [gpr (i_rd i)] [gpr (i_rt i)]),
      (0x3E, instr (total psrlw) IntWide [gpr (i_rd i)] [gpr (i_rt i)]),
      (0x3F, instr (total psraw) IntWide [gpr (i_rd i)] [gpr (i_rt i)])]"

definition mmi0 :: "u32 \<Rightarrow> 'a ee_cpu_scheme instr_info res" where
  "mmi0 i = switch (mmi0_table i) (fld i 6 5)"

definition mmi1 :: "u32 \<Rightarrow> 'a ee_cpu_scheme instr_info res" where
  "mmi1 i = switch (mmi1_table i) (fld i 6 5)"

definition mmi2 :: "u32 \<Rightarrow> 'a ee_cpu_scheme instr_info res" where
  "mmi2 i = switch (mmi2_table i) (fld i 6 5)"

definition mmi3 :: "u32 \<Rightarrow> 'a ee_cpu_scheme instr_info res" where
  "mmi3 i = switch (mmi3_table i) (fld i 6 5)"

text \<open>\<open>pmfhlfmt\<close> has no default: an unknown format leaves the function pointer null.\<close>

definition pmfhlfmt :: "u32 \<Rightarrow> 'a ee_cpu_scheme instr_info res" where
  "pmfhlfmt i = Inr (case map_of (pmfhl_table i) (fld i 6 5) of Some info \<Rightarrow> info | None \<Rightarrow> no_info)"

definition mmi :: "u32 \<Rightarrow> 'a ee_cpu_scheme instr_info res" where
  "mmi i =
     (let op = i AND 0x3F
      in if op = 0x08 then mmi0 i
         else if op = 0x09 then mmi2 i
         else if op = 0x28 then mmi1 i
         else if op = 0x29 then mmi3 i
         else if op = 0x30 then pmfhlfmt i
         else switch (mmi_table i) op)"

end
