(* ===== verification/Ee_Decode.thy ===== *)
theory Ee_Decode
  imports Ee_Fpu Ee_Mmi_Decode
begin

unbundle bit_operations_syntax

section \<open>Decoding and interpreting an instruction\<close>

text \<open>
  \<open>EmotionInterpreter::lookup\<close> and the decoders it calls, and \<open>interpret\<close>. Every \<open>switch\<close> is a
  table from the opcode field to what the case stores in the \<open>EE_InstrInfo\<close>. The decoder of the
  vector instructions of coprocessor 2 is the argument \<open>cop2_special\<close>.
\<close>

definition special_table :: "'a ee_mach_scheme ee_env \<Rightarrow> u32 \<Rightarrow> (u32 \<times> 'a ee_mach_scheme instr_info) list" where
  "special_table env i =
     [(0x00, instr (total ee_sll) IntGeneric [gpr (i_rd i)] [gpr (i_rt i)]),
      (0x02, instr (total ee_srl) IntGeneric [gpr (i_rd i)] [gpr (i_rt i)]),
      (0x03, instr (total ee_sra) IntGeneric [gpr (i_rd i)] [gpr (i_rt i)]),
      (0x04, instr (total ee_sllv) IntGeneric [gpr (i_rd i)] [gpr (i_rt i), gpr (i_rs i)]),
      (0x06, instr (total ee_srlv) IntGeneric [gpr (i_rd i)] [gpr (i_rt i), gpr (i_rs i)]),
      (0x07, instr (total ee_srav) IntGeneric [gpr (i_rd i)] [gpr (i_rt i), gpr (i_rs i)]),
      (0x08, instr (total ee_jr) P_Branch [] [gpr (i_rs i)]),
      (0x09, instr (total ee_jalr) P_Branch [] [gpr (i_rs i)]),
      (0x0A, instr (total ee_movz) IntGeneric [gpr (i_rd i)] [gpr (i_rt i), gpr (i_rs i)]),
      (0x0B, instr (total ee_movn) IntGeneric [gpr (i_rd i)] [gpr (i_rt i), gpr (i_rs i)]),
      (0x0C, instr (ee_syscall env) P_COP0 [] []),
      (0x0D, instr (ee_break) P_COP0 [] []),
      (0x0F, instr (total (\<lambda>i s. s)) P_SYNC [] []),
      (0x10, instr (total mfhi_ee) MAC0 [gpr (i_rd i)] [R_HI]),
      (0x11, instr (total mthi_ee) MAC0 [R_HI] [gpr (i_rs i)]),
      (0x12, instr (total mflo_ee) MAC0 [gpr (i_rd i)] [R_LO]),
      (0x13, instr (total mtlo_ee) MAC0 [R_LO] [gpr (i_rs i)]),
      (0x14, instr (total ee_dsllv) IntGeneric [gpr (i_rd i)] [gpr (i_rt i), gpr (i_rs i)]),
      (0x16, instr (total ee_dsrlv) IntGeneric [gpr (i_rd i)] [gpr (i_rt i), gpr (i_rs i)]),
      (0x17, instr (total ee_dsrav) IntGeneric [gpr (i_rd i)] [gpr (i_rt i), gpr (i_rs i)]),
      (0x18, timed 4 2 MULT (instr (total ee_mult) MAC0 [R_LO, R_HI, gpr (i_rd i)] [gpr (i_rs i), gpr (i_rt i)])),
      (0x19, timed 4 2 MULT (instr (total ee_multu) MAC0 [R_LO, R_HI, gpr (i_rd i)] [gpr (i_rs i), gpr (i_rt i)])),
      (0x1A, timed 37 37 DIV (instr (total ee_div) MAC0 [R_LO, R_HI] [gpr (i_rs i), gpr (i_rt i)])),
      (0x1B, timed 37 37 DIV (instr (total ee_divu) MAC0 [R_LO, R_HI] [gpr (i_rs i), gpr (i_rt i)])),
      (0x20, instr (total ee_add) IntGeneric [gpr (i_rd i)] [gpr (i_rt i), gpr (i_rs i)]),
      (0x21, instr (total ee_addu) IntGeneric [gpr (i_rd i)] [gpr (i_rt i), gpr (i_rs i)]),
      (0x22, instr (total ee_sub) IntGeneric [gpr (i_rd i)] [gpr (i_rt i), gpr (i_rs i)]),
      (0x23, instr (total ee_subu) IntGeneric [gpr (i_rd i)] [gpr (i_rt i), gpr (i_rs i)]),
      (0x24, instr (total ee_and_ee) IntGeneric [gpr (i_rd i)] [gpr (i_rt i), gpr (i_rs i)]),
      (0x25, instr (total ee_or_ee) IntGeneric [gpr (i_rd i)] [gpr (i_rt i), gpr (i_rs i)]),
      (0x26, instr (total ee_xor_ee) IntGeneric [gpr (i_rd i)] [gpr (i_rt i), gpr (i_rs i)]),
      (0x27, instr (total ee_nor) IntGeneric [gpr (i_rd i)] [gpr (i_rt i), gpr (i_rs i)]),
      (0x28, instr (total mfsa_ee) P_SA [gpr (i_rd i)] [R_SA]),
      (0x29, instr (total mtsa_ee) P_SA [R_SA] [gpr (i_rs i)]),
      (0x2A, instr (total ee_slt) IntGeneric [gpr (i_rd i)] [gpr (i_rt i), gpr (i_rs i)]),
      (0x2B, instr (total ee_sltu) IntGeneric [gpr (i_rd i)] [gpr (i_rt i), gpr (i_rs i)]),
      (0x2C, instr (total ee_dadd) IntGeneric [gpr (i_rd i)] [gpr (i_rt i), gpr (i_rs i)]),
      (0x2D, instr (total ee_daddu) IntGeneric [gpr (i_rd i)] [gpr (i_rt i), gpr (i_rs i)]),
      (0x2E, instr (total ee_dsub) IntGeneric [gpr (i_rd i)] [gpr (i_rt i), gpr (i_rs i)]),
      (0x2F, instr (total ee_dsubu) IntGeneric [gpr (i_rd i)] [gpr (i_rt i), gpr (i_rs i)]),
      (0x34, instr (total ee_teq) P_COP0 [] [gpr (i_rt i), gpr (i_rs i)]),
      (0x38, instr (total ee_dsll) IntGeneric [gpr (i_rd i)] [gpr (i_rt i), gpr (i_rs i)]),
      (0x3A, instr (total ee_dsrl) IntGeneric [gpr (i_rd i)] [gpr (i_rt i), gpr (i_rs i)]),
      (0x3B, instr (total ee_dsra) IntGeneric [gpr (i_rd i)] [gpr (i_rt i), gpr (i_rs i)]),
      (0x3C, instr (total ee_dsll32) IntGeneric [gpr (i_rd i)] [gpr (i_rt i), gpr (i_rs i)]),
      (0x3E, instr (total ee_dsrl32) IntGeneric [gpr (i_rd i)] [gpr (i_rt i), gpr (i_rs i)]),
      (0x3F, instr (total ee_dsra32) IntGeneric [gpr (i_rd i)] [gpr (i_rt i), gpr (i_rs i)])]"

definition regimm_table :: "u32 \<Rightarrow> (u32 \<times> 'a ee_mach_scheme instr_info) list" where
  "regimm_table i =
     [(0x00, instr (total ee_bltz) P_Branch [] [gpr (i_rs i)]),
      (0x01, instr (total ee_bgez) P_Branch [] [gpr (i_rs i)]),
      (0x02, instr (total ee_bltzl) P_Branch [] [gpr (i_rs i)]),
      (0x03, instr (total ee_bgezl) P_Branch [] [gpr (i_rs i)]),
      (0x10, instr (total ee_bltzal) P_Branch [gpr 31] [gpr (i_rs i)]),
      (0x11, instr (total ee_bgezal) P_Branch [gpr 31] [gpr (i_rs i)]),
      (0x12, instr (total ee_bltzall) P_Branch [gpr 31] [gpr (i_rs i)]),
      (0x13, instr (total ee_bgezall) P_Branch [gpr 31] [gpr (i_rs i)]),
      (0x18, instr (total ee_mtsab) P_SA [R_SA] [gpr (i_rs i)]),
      (0x19, instr (total ee_mtsah) P_SA [R_SA] [gpr (i_rs i)])]"

definition cop_s_table :: "host_float \<Rightarrow> u32 \<Rightarrow> (u32 \<times> 'a ee_mach_scheme instr_info) list" where
  "cop_s_table hf i =
     [(0x0, timed 4 1 OTHER (instr (total (fpu_add hf)) P_COP1 [cp1r (i_sa5 i)] [cp1r (i_rd i), cp1r (i_rt i)])),
      (0x1, timed 4 1 OTHER (instr (total (fpu_sub hf)) P_COP1 [cp1r (i_sa5 i)] [cp1r (i_rd i), cp1r (i_rt i)])),
      (0x2, timed 4 1 OTHER (instr (total (fpu_mul hf)) P_COP1 [cp1r (i_sa5 i)] [cp1r (i_rd i), cp1r (i_rt i)])),
      (0x3, timed 8 7 FPU_DIV (instr (total (fpu_div hf)) P_COP1 [cp1r (i_sa5 i)] [cp1r (i_rd i), cp1r (i_rt i)])),
      (0x4, timed 8 7 FPU_SQRT (instr (total (fpu_sqrt hf)) P_COP1 [cp1r (i_sa5 i)] [cp1r (i_rt i)])),
      (0x5, timed 4 1 OTHER (instr (total fpu_abs) P_COP1 [cp1r (i_sa5 i)] [cp1r (i_rd i)])),
      (0x6, timed 4 1 OTHER (instr (total fpu_mov) P_COP1 [cp1r (i_sa5 i)] [cp1r (i_rd i)])),
      (0x7, timed 4 1 OTHER (instr (total fpu_neg) P_COP1 [cp1r (i_sa5 i)] [cp1r (i_rd i)])),
      (0x16, timed 14 13 FPU_RSQRT (instr (total (fpu_rsqrt hf)) P_COP1 [cp1r (i_sa5 i)] [cp1r (i_rd i), cp1r (i_rt i)])),
      (0x18, instr (total (fpu_adda hf)) P_COP1 [] [cp1r (i_rd i), cp1r (i_rt i)]),
      (0x19, instr (total (fpu_suba hf)) P_COP1 [] [cp1r (i_rd i), cp1r (i_rt i)]),
      (0x1A, instr (total (fpu_mula hf)) P_COP1 [] [cp1r (i_rd i), cp1r (i_rt i)]),
      (0x1C, timed 4 1 OTHER (instr (total (fpu_madd hf)) P_COP1 [cp1r (i_sa5 i)] [cp1r (i_rd i), cp1r (i_rt i)])),
      (0x1D, timed 4 1 OTHER (instr (total (fpu_msub hf)) P_COP1 [cp1r (i_sa5 i)] [cp1r (i_rd i), cp1r (i_rt i)])),
      (0x1E, instr (total (fpu_madda hf)) P_COP1 [] [cp1r (i_rd i), cp1r (i_rt i)]),
      (0x1F, instr (total (fpu_msuba hf)) P_COP1 [] [cp1r (i_rd i), cp1r (i_rt i)]),
      (0x24, timed 4 1 OTHER (instr (total fpu_cvt_w_s) P_COP1 [cp1r (i_sa5 i)] [cp1r (i_rd i)])),
      (0x28, timed 4 1 OTHER (instr (total fpu_max_s) P_COP1 [cp1r (i_sa5 i)] [cp1r (i_rd i), cp1r (i_rt i)])),
      (0x29, timed 4 1 OTHER (instr (total fpu_min_s) P_COP1 [cp1r (i_sa5 i)] [cp1r (i_rd i), cp1r (i_rt i)])),
      (0x30, timed 4 1 OTHER (instr (total fpu_c_f_s) P_COP1 [cp1c 0] [])),
      (0x32, timed 4 1 OTHER (instr (total fpu_c_eq_s) P_COP1 [cp1c 0] [cp1r (i_rd i), cp1r (i_rt i)])),
      (0x34, timed 4 1 OTHER (instr (total fpu_c_lt_s) P_COP1 [cp1c 0] [cp1r (i_rd i), cp1r (i_rt i)])),
      (0x36, timed 4 1 OTHER (instr (total fpu_c_le_s) P_COP1 [cp1c 0] [cp1r (i_rd i), cp1r (i_rt i)]))]"

definition cop0_type2_table :: "'a ee_mach_scheme ee_env \<Rightarrow> u32 \<Rightarrow> (u32 \<times> 'a ee_mach_scheme instr_info) list" where
  "cop0_type2_table env i =
     [(0x1, instr (\<lambda>i. tlbr) P_COP0 [] []),
      (0x2, instr (\<lambda>i. tlbwi) P_COP0 [] []),
      (0x18, instr (total (eret_ee env)) P_ERET [] []),
      (0x38, instr (total (\<lambda>i. ee_ei)) P_COP0 [] []),
      (0x39, instr (total (\<lambda>i. ee_di)) P_COP0 [] [])]"

definition cop_table :: "'a ee_mach_scheme ee_env \<Rightarrow> host_float \<Rightarrow> u32 \<Rightarrow> (u32 \<times> 'a ee_mach_scheme instr_info) list" where
  "cop_table env hf i =
     [(0x000, instr (total ee_cop0_mfc) P_COP0 [gpr (i_rt i)] [cp0r (i_rd i)]),
      (0x100, timed 2 1 OTHER (instr (total ee_cop1_mfc) P_COP1 [gpr (i_rt i)] [cp1r (i_rd i)])),
      (0x004, instr (total ee_cop0_mtc) P_COP0 [gpr (i_rt i)] [cp0r (i_rd i)]),
      (0x104, timed 2 1 OTHER (instr (total ee_cop1_mtc) P_COP1 [gpr (i_rt i)] [cp1r (i_rd i)])),
      (0x102, instr (total ee_cop1_cfc) P_COP1 [gpr (i_rt i)] [cp1c (i_rd i)]),
      (0x202, instr (ee_cop2_cfc env) P_COP2 [gpr (i_rt i)] [cp2c (i_rd i)]),
      (0x106, instr (total ee_cop1_ctc) P_COP1 [gpr (i_rt i)] [cp1c (i_rd i)]),
      (0x206, instr (ee_cop2_ctc env) P_COP2 [gpr (i_rt i)] [cp2c (i_rd i)]),
      (0x008, instr (ee_cop_bc0 env) P_COP0 [] []),
      (0x108, instr (ee_cop_bc1) P_COP1 [] [cp1c 0]),
      (0x208, instr (ee_cop2_bc2 env) P_COP2 [] [cp2c 0]),
      (0x114, timed 4 1 OTHER (instr (total (cop_cvt_s_w hf)) P_COP1 [cp1r (i_sa5 i)] [cp1r (i_rd i)])),
      (0x201, instr (ee_cop2_qmfc2 env) P_COP2 [gpr (i_rt i)] [cp2r (i_rd i)]),
      (0x205, instr (ee_cop2_qmtc2 env) P_COP2 [gpr (i_rt i)] [cp2r (i_rd i)])]"

definition normal_table :: "'a ee_mach_scheme ee_env \<Rightarrow> u32 \<Rightarrow> (u32 \<times> 'a ee_mach_scheme instr_info) list" where
  "normal_table env i =
     [(0x02, instr (total ee_j) P_Branch [] []),
      (0x03, instr (total ee_jal) P_Branch [gpr 31] []),
      (0x04, instr (total ee_beq) P_Branch [] [gpr (i_rt i), gpr (i_rs i)]),
      (0x05, instr (total ee_bne) P_Branch [] [gpr (i_rt i), gpr (i_rs i)]),
      (0x06, instr (total ee_blez) P_Branch [] [gpr (i_rs i)]),
      (0x07, instr (total ee_bgtz) P_Branch [] [gpr (i_rs i)]),
      (0x08, instr (total ee_addi) IntGeneric [gpr (i_rt i)] [gpr (i_rs i)]),
      (0x09, instr (total ee_addiu) IntGeneric [gpr (i_rt i)] [gpr (i_rs i)]),
      (0x0A, instr (total ee_slti) IntGeneric [gpr (i_rt i)] [gpr (i_rs i)]),
      (0x0B, instr (total ee_sltiu) IntGeneric [gpr (i_rt i)] [gpr (i_rs i)]),
      (0x0C, instr (total ee_andi) IntGeneric [gpr (i_rt i)] [gpr (i_rs i)]),
      (0x0D, instr (total ee_ori) IntGeneric [gpr (i_rt i)] [gpr (i_rs i)]),
      (0x0E, instr (total ee_xori) IntGeneric [gpr (i_rt i)] [gpr (i_rs i)]),
      (0x0F, instr (total ee_lui) IntGeneric [gpr (i_rt i)] []),
      (0x14, instr (total ee_beql) P_Branch [] [gpr (i_rt i), gpr (i_rs i)]),
      (0x15, instr (total ee_bnel) P_Branch [] [gpr (i_rt i), gpr (i_rs i)]),
      (0x16, instr (total ee_blezl) P_Branch [] [gpr (i_rs i)]),
      (0x17, instr (total ee_bgtzl) P_Branch [] [gpr (i_rs i)]),
      (0x18, instr (total ee_daddi) IntGeneric [gpr (i_rt i)] [gpr (i_rs i)]),
      (0x19, instr (total ee_daddiu) IntGeneric [gpr (i_rt i)] [gpr (i_rs i)]),
      (0x1A, instr (ee_ldl env) LoadStore [gpr (i_rt i)] [gpr (i_rs i)]),
      (0x1B, instr (ee_ldr env) LoadStore [gpr (i_rt i)] [gpr (i_rs i)]),
      (0x1E, instr (ee_lq env) LoadStore [gpr (i_rt i)] [gpr (i_rs i)]),
      (0x1F, instr (ee_sq env) LoadStore [] [gpr (i_rt i), gpr (i_rs i)]),
      (0x20, instr (ee_lb env) LoadStore [gpr (i_rt i)] [gpr (i_rs i)]),
      (0x21, instr (ee_lh env) LoadStore [gpr (i_rt i)] [gpr (i_rs i)]),
      (0x22, instr (ee_lwl env) LoadStore [gpr (i_rt i)] [gpr (i_rs i)]),
      (0x23, instr (ee_lw env) LoadStore [gpr (i_rt i)] [gpr (i_rs i)]),
      (0x24, instr (ee_lbu env) LoadStore [gpr (i_rt i)] [gpr (i_rs i)]),
      (0x25, instr (ee_lhu env) LoadStore [gpr (i_rt i)] [gpr (i_rs i)]),
      (0x26, instr (ee_lwr env) LoadStore [gpr (i_rt i)] [gpr (i_rs i)]),
      (0x27, instr (ee_lwu env) LoadStore [gpr (i_rt i)] [gpr (i_rs i)]),
      (0x28, instr (ee_sb env) LoadStore [] [gpr (i_rt i), gpr (i_rs i)]),
      (0x29, instr (ee_sh env) LoadStore [] [gpr (i_rt i), gpr (i_rs i)]),
      (0x2A, instr (ee_swl env) LoadStore [] [gpr (i_rt i), gpr (i_rs i)]),
      (0x2B, instr (ee_sw env) LoadStore [] [gpr (i_rt i), gpr (i_rs i)]),
      (0x2C, instr (ee_sdl env) LoadStore [] [gpr (i_rt i), gpr (i_rs i)]),
      (0x2D, instr (ee_sdr env) LoadStore [] [gpr (i_rt i), gpr (i_rs i)]),
      (0x2E, instr (ee_swr env) LoadStore [] [gpr (i_rt i), gpr (i_rs i)]),
      (0x2F, instr (total ee_cache) P_COP0 [] [gpr (i_rs i)]),
      (0x31, timed 2 1 OTHER (instr (ee_lwc1 env) (pipe_or P_COP1 LoadStore) [cp1r (i_rt i)] [gpr (i_rs i)])),
      (0x33, instr (total (\<lambda>i s. s)) LoadStore [] [gpr (i_rs i)]),
      (0x36, instr (ee_lqc2 env) (pipe_or P_COP2 LoadStore) [cp2r (i_rt i)] [gpr (i_rs i)]),
      (0x37, instr (ee_ld env) LoadStore [gpr (i_rt i)] [gpr (i_rs i)]),
      (0x39, instr (ee_swc1 env) (pipe_or P_COP1 LoadStore) [] [cp1r (i_rt i), gpr (i_rs i)]),
      (0x3E, instr (ee_sqc2 env) (pipe_or P_COP2 LoadStore) [] [cp2r (i_rt i), gpr (i_rs i)]),
      (0x3F, instr (ee_sd env) LoadStore [] [gpr (i_rt i), gpr (i_rs i)])]"

definition ee_special :: "'a ee_mach_scheme ee_env \<Rightarrow> u32 \<Rightarrow> 'a ee_mach_scheme instr_info res" where
  "ee_special env i = switch (special_table env i) (i AND 0x3F)"

definition ee_regimm :: "u32 \<Rightarrow> 'a ee_mach_scheme instr_info res" where
  "ee_regimm i = switch (regimm_table i) (fld i 16 5)"

definition ee_cop_s :: "host_float \<Rightarrow> u32 \<Rightarrow> 'a ee_mach_scheme instr_info res" where
  "ee_cop_s hf i = switch (cop_s_table hf i) (i AND 0x3F)"

definition ee_cop ::
    "(u32 \<Rightarrow> 'a ee_mach_scheme instr_info res) \<Rightarrow> 'a ee_mach_scheme ee_env \<Rightarrow> host_float \<Rightarrow> u32 \<Rightarrow>
     'a ee_mach_scheme instr_info res" where
  "ee_cop cop2_special env hf i =
     (let op = fld i 21 5; cop_id = fld i 26 2; key = op OR (cop_id * 0x100)
      in if cop_id = 2 \<and> 0x10 \<le> op then cop2_special i
         else if key = 0x010 then switch (cop0_type2_table env i) (i AND 0x3F)
         else if key = 0x110 then ee_cop_s hf i
         else switch (cop_table env hf i) key)"

definition ee_lookup ::
    "(u32 \<Rightarrow> 'a ee_mach_scheme instr_info res) \<Rightarrow> 'a ee_mach_scheme ee_env \<Rightarrow> host_float \<Rightarrow> u32 \<Rightarrow>
     'a ee_mach_scheme instr_info res" where
  "ee_lookup cop2_special env hf i =
     (let op = drop_bit 26 i
      in if op = 0x00 then ee_special env i
         else if op = 0x01 then ee_regimm i
         else if op = 0x10 \<or> op = 0x11 \<or> op = 0x12 \<or> op = 0x13 then ee_cop cop2_special env hf i
         else if op = 0x1C then mmi i
         else switch (normal_table env i) op)"

definition ee_interpret ::
    "(u32 \<Rightarrow> 'a ee_mach_scheme instr_info res) \<Rightarrow> 'a ee_mach_scheme ee_env \<Rightarrow> host_float \<Rightarrow> 'a ee_op" where
  "ee_interpret cop2_special env hf i s =
     rbind (ee_lookup cop2_special env hf i) (\<lambda>info.
       case interpreter_fn info of
         None \<Rightarrow> Inl (Die ''[EE Interpreter] Lookup returned nullptr interpreter_fn'')
       | Some f \<Rightarrow> f i s)"

text \<open>The body of \<open>run_interpreter\<close>. Two NOPs in a row take one cycle; a branch is taken after its
  delay slot, unless the instruction has moved the program counter back to wait for VU0.\<close>

definition branch_step :: "u32 \<Rightarrow> 'a ee_mach_scheme \<Rightarrow> 'a ee_mach_scheme res" where
  "branch_step last_PC s =
     (if ee_branch_on s
      then if ee_delay_slot s = 0
           then if ee_PC s \<noteq> last_PC
                then if ee_new_PC s = 0 \<or> ee_new_PC s AND 3 \<noteq> 0
                     then Inl (Die ''[EE] Jump to invalid address'')
                     else Inr (set_PC (ee_new_PC s) (s\<lparr>ee_branch_on := False\<rparr>))
                else Inr s
           else Inr (s\<lparr>ee_delay_slot := ee_delay_slot s - 1\<rparr>)
      else Inr s)"

definition interp_step ::
    "(u32 \<Rightarrow> 'a ee_mach_scheme instr_info res) \<Rightarrow> 'a ee_mach_scheme ee_env \<Rightarrow> host_float \<Rightarrow>
     'a ee_mach_scheme \<Rightarrow> 'a ee_mach_scheme res" where
  "interp_step cop2_special env hf s =
     (let s = s\<lparr>ee_cycles_to_run := ee_cycles_to_run s - 1, ee_cycle_count := ee_cycle_count s + 1\<rparr>;
          last_PC = ee_PC s
      in rbind (read_instr last_PC s) (\<lambda>(i, s).
         rbind (ee_interpret cop2_special env hf i s) (\<lambda>s.
         let s = set_PC (ee_PC s + 4) s
         in rbind (if i = 0
                   then rbind (ee_read32 env (ee_PC s) s) (\<lambda>(next_i, s).
                          Inr (if next_i = 0 then set_PC (ee_PC s + 4) s else s))
                   else Inr s)
              (branch_step last_PC))))"

partial_function (option) run_interpreter ::
    "(u32 \<Rightarrow> 'a ee_mach_scheme instr_info res) \<Rightarrow> 'a ee_mach_scheme ee_env \<Rightarrow> host_float \<Rightarrow>
     'a ee_mach_scheme \<Rightarrow> 'a ee_mach_scheme res option" where
  "run_interpreter cop2_special env hf s =
     (if 0 <s ee_cycles_to_run s
      then case interp_step cop2_special env hf s of
             Inl e \<Rightarrow> Some (Inl e)
           | Inr s \<Rightarrow> run_interpreter cop2_special env hf s
      else Some (Inr s))"

end
