(* ===== verification/Ee_Interp_Sound.thy ===== *)
theory Ee_Interp_Sound
  imports Ee_Decode
begin

unbundle bit_operations_syntax

section \<open>Properties of the Emotion Engine's interpreter\<close>

text \<open>
  Every instruction keeps register 0 zero, the shift amount \<open>SA\<close> below 16 and the tables at their
  length, and none adds cycles to the budget of the slice; so the interpreter returns from every
  slice, whatever the program.
\<close>

subsection \<open>What every operation keeps\<close>

definition ee_wf :: "'a ee_mach_scheme \<Rightarrow> bool" where
  "ee_wf s \<longleftrightarrow> ee_gpr s 0 = 0 \<and> unat (ee_SA s) < 16 \<and> length (ee_icache s) = 128 \<and>
     length (ee_deci2handlers s) = 128 \<and> ee_delay_slot s \<in> {0, 1}"

definition budget :: "'a ee_core_scheme \<Rightarrow> nat" where
  "budget s = nat (sint (ee_cycles_to_run s))"

definition sound :: "'a ee_mach_scheme \<Rightarrow> 'a ee_mach_scheme \<Rightarrow> bool" where
  "sound s t \<longleftrightarrow> (ee_wf s \<longrightarrow> ee_wf t) \<and> budget t \<le> budget s \<and>
     (ee_branch_on t \<longrightarrow> ee_delay_slot t = 1 \<or>
        ee_branch_on s \<and> ee_delay_slot t = ee_delay_slot s \<and> ee_new_PC t = ee_new_PC s)"

named_theorems sound \<open>operations that are sound\<close>

lemma sound_refl [sound]: "sound s s"
  by (simp add: sound_def)

lemma sound_trans: "sound s t \<Longrightarrow> sound t u \<Longrightarrow> sound s u"
  by (auto simp: sound_def)

lemma soundI:
  assumes "ee_gpr t 0 = ee_gpr s 0" "ee_SA t = ee_SA s" "length (ee_icache t) = length (ee_icache s)"
    "length (ee_deci2handlers t) = length (ee_deci2handlers s)" 
    "ee_delay_slot t = ee_delay_slot s \<and> ee_new_PC t = ee_new_PC s \<and> ee_branch_on t = ee_branch_on s \<or>
       ee_delay_slot t = 1 \<or> \<not> ee_branch_on t \<and> ee_delay_slot t = 0"
    "ee_cycles_to_run t = ee_cycles_to_run s"
  shows "sound s t"
  using assms by (auto simp: sound_def ee_wf_def budget_def)

lemma sound_eset [sound]: "sound s t \<Longrightarrow> sound s (eset r v k t)"
  by (erule sound_trans, rule soundI) (auto simp: eset_def)

lemma sound_set_PC [sound]: "sound s t \<Longrightarrow> sound s (set_PC a t)"
  by (erule sound_trans, rule soundI) (auto simp: set_PC_def)

lemma sound_branch [sound]:
  "sound s t \<Longrightarrow> sound s (ee_branch c x t)" "sound s t \<Longrightarrow> sound s (ee_branch_likely c x t)" "sound s t \<Longrightarrow> sound s (ee_jp a t)"
  "sound s t \<Longrightarrow> sound s (link r t)"
  by ((erule sound_trans, rule soundI); simp add: ee_branch_def ee_branch_likely_def ee_jp_def link_def set_PC_def eset_def)+

lemma sound_LO_HI [sound]:
  "sound s t \<Longrightarrow> sound s (set_LO_HI a b h t)" "sound s t \<Longrightarrow> sound s (set_both x y t)"
  "sound s t \<Longrightarrow> sound s (ee_mflo r t)" "sound s t \<Longrightarrow> sound s (ee_mfhi r t)"
  "sound s t \<Longrightarrow> sound s (ee_mtlo r t)" "sound s t \<Longrightarrow> sound s (ee_mthi r t)"
  "sound s t \<Longrightarrow> sound s (ee_mflo1 r t)" "sound s t \<Longrightarrow> sound s (ee_mfhi1 r t)"
  "sound s t \<Longrightarrow> sound s (ee_mtlo1 r t)" "sound s t \<Longrightarrow> sound s (ee_mthi1 r t)"
  "sound s t \<Longrightarrow> sound s (ee_pmflo r t)" "sound s t \<Longrightarrow> sound s (ee_pmfhi r t)"
  "sound s t \<Longrightarrow> sound s (ee_pmtlo r t)" "sound s t \<Longrightarrow> sound s (ee_pmthi r t)"
  "sound s t \<Longrightarrow> sound s (ee_mfsa r t)"
  by ((erule sound_trans, rule soundI); simp add: set_LO_HI_def set_both_def ee_mflo_def ee_mfhi_def ee_mtlo_def ee_mthi_def
      ee_mflo1_def ee_mfhi1_def ee_mtlo1_def ee_mthi1_def ee_pmflo_def ee_pmfhi_def ee_pmtlo_def ee_pmthi_def ee_mfsa_def eset_def)+

lemma sound_SA:
  assumes "unat v < 16" "sound s t" shows "sound s (t\<lparr>ee_SA := v\<rparr>)"
  using assms by (auto simp: sound_def ee_wf_def budget_def)

lemma nibble_less: "x AND 0xF < (16 :: 'w::len word)" if "4 < LENGTH('w)"
proof -
  have "x AND mask 4 < 2 ^ 4" using that by (rule and_mask_less')
  then show ?thesis by (simp add: mask_eq_exp_minus_1)
qed

lemma sound_SA_ops [sound]:
  assumes "sound s t" shows "sound s (ee_mtsa r t)" "sound s (ee_mtsab i t)" "sound s (ee_mtsah i t)"
proof -
  have a: "unat (x AND 0xF :: u64) < 16" "unat (y AND 0xF :: u32) < 16" "unat (y AND 7 :: u32) < 8" for x y
    using nibble_less [of x] nibble_less [of y] and_mask_less' [of 3 y]
    by (simp_all add: word_less_nat_alt mask_eq_exp_minus_1)
  have x: "unat ((y AND 0xF) XOR (z AND 0xF) :: u32) < 16" "unat ((y AND 7) XOR (z AND 7) :: u32) < 8" for y z
    using a(2) [of "y XOR z"] a(3) [of "y XOR z"] by (simp_all only: bit.conj_xor_distrib2)
  have y: "unat (((y AND 7) XOR (z AND 7)) * 2 :: u32) < 16" for y z
    using x(2) [of y z] by (simp add: unat_word_ariths)
  have up: "unat (ucast v :: u64) = unat v" for v :: u32
    by transfer simp
  show "sound s (ee_mtsa r t)" "sound s (ee_mtsab i t)" "sound s (ee_mtsah i t)"
    unfolding ee_mtsa_def ee_mtsab_def ee_mtsah_def set_SA_def
    by (rule sound_SA [OF _ assms], simp only: a x y up)+
qed

lemma sound_fold [sound]:
  assumes "\<And>k s. sound s (f k s)" "sound s t" shows "sound s (fold f ks t)"
  using assms(2)
proof (induction ks arbitrary: t)
  case (Cons k ks)
  then show ?case using sound_trans [OF Cons.prems assms(1)] by simp
qed simp

lemma sound_if [sound]: "sound s x \<Longrightarrow> sound s y \<Longrightarrow> sound s (if c then x else y)"
  by simp

subsection \<open>Memory and exceptions\<close>

lemma sound_put [sound]: "sound s t \<Longrightarrow> sound s (ee_put p a v t)"
  by (erule sound_trans, rule soundI) (simp_all add: ee_put_def split: mem_ptr.splits)

lemma sound_modified [sound]: "sound s t \<Longrightarrow> sound s (set_tlb_modified p t)"
  by (erule sound_trans, rule soundI) (simp_all add: set_tlb_modified_def)

lemma sound_mtc [sound]: "sound s t \<Longrightarrow> sound s (cop0_mtc r v t)"
  by (erule sound_trans, rule soundI) (simp_all add: cop0_mtc_def Let_def)

lemma sound_icache [sound]: "sound s t \<Longrightarrow> sound s (invalidate_icache_indexed a t)"
  by (erule sound_trans, rule soundI) (simp_all add: invalidate_icache_indexed_def Let_def)

lemma sound_update [sound]:
  "sound s t \<Longrightarrow> sound s (t\<lparr>cop0_status := st\<rparr>)" "sound s t \<Longrightarrow> sound s (t\<lparr>cop0_cause := ca\<rparr>)"
  "sound s t \<Longrightarrow> sound s (t\<lparr>ee_branch_on := False, ee_delay_slot := 0, ee_PC := a\<rparr>)" "sound s t \<Longrightarrow> sound s (t\<lparr>ee_PC := a\<rparr>)"
  "sound s t \<Longrightarrow> sound s (t\<lparr>ee_tlb_map := m\<rparr>)"   "sound s t \<Longrightarrow> sound s (t\<lparr>ee_wait_for_IRQ := b\<rparr>)" "sound s t \<Longrightarrow> sound s (t\<lparr>ee_flush_jit := b\<rparr>)"
  "sound s t \<Longrightarrow> sound s (t\<lparr>ee_osd_config := a\<rparr>)" "sound s t \<Longrightarrow> sound s (t\<lparr>ee_cycle_count := c\<rparr>)"
  "sound s t \<Longrightarrow> sound s (t\<lparr>cop0_gpr := g\<rparr>)" "sound s t \<Longrightarrow> sound s (t\<lparr>cop0_PCCR := a\<rparr>)"
  "sound s t \<Longrightarrow> sound s (t\<lparr>cop0_PCR0 := a\<rparr>)" "sound s t \<Longrightarrow> sound s (t\<lparr>cop0_PCR1 := a\<rparr>)"
  "sound s t \<Longrightarrow> sound s (t\<lparr>fpu_control := fc\<rparr>)" "sound s t \<Longrightarrow> sound s (t\<lparr>fpu_gpr := fg\<rparr>)"
  "sound s t \<Longrightarrow> sound s (t\<lparr>fpu_acc := a\<rparr>)" "sound s t \<Longrightarrow> sound s (t\<lparr>cop0_tlb := tb\<rparr>)"
  "sound s t \<Longrightarrow> sound s (t\<lparr>cop0_vtlb := vt\<rparr>)" "sound s t \<Longrightarrow> sound s (t\<lparr>ee_deci2size := n\<rparr>)"
  "sound s t \<Longrightarrow> sound s (t\<lparr>ee_deci2handlers := (ee_deci2handlers t)[n := h]\<rparr>)"
  by ((erule sound_trans, rule soundI); simp)+

lemma sound_cycles [sound]:
  "sound s t \<Longrightarrow> sint c \<le> sint (ee_cycles_to_run t) \<or> sint c \<le> 0 \<Longrightarrow> sound s (t\<lparr>ee_cycles_to_run := c\<rparr>)"
  by (auto simp: sound_def ee_wf_def budget_def)

lemma sound_halt [sound]: "sound s t \<Longrightarrow> sound s (halt t)" "sound s t \<Longrightarrow> sound s (unhalt t)"
  unfolding halt_def unhalt_def Let_def by (intro sound; simp)+

lemma sound_exception [sound]: "sound s t \<Longrightarrow> sound s (mach_exception a c t)"
  unfolding mach_exception_def ee_handle_exception_def Let_def by (intro sound)

subsection \<open>The instructions that cannot fail\<close>

lemmas scalar_defs =
  ee_bltz_def ee_bltzl_def ee_bltzal_def ee_bltzall_def ee_bgez_def ee_bgezl_def ee_bgezal_def ee_bgezall_def
  ee_beq_def ee_beql_def ee_bne_def ee_bnel_def ee_blez_def ee_blezl_def ee_bgtz_def ee_bgtzl_def ee_j_def
  ee_jal_def ee_jr_def ee_jalr_def ee_addi_def ee_addiu_def ee_slti_def ee_sltiu_def ee_andi_def ee_ori_def
  ee_xori_def ee_lui_def ee_daddi_def ee_daddiu_def ee_sll_def ee_sllv_def ee_dsll_def
  ee_dsll32_def ee_dsllv_def ee_srl_def ee_srlv_def ee_dsrl_def ee_dsrl32_def ee_dsrlv_def ee_sra_def
  ee_srav_def ee_dsra_def ee_dsra32_def ee_dsrav_def ee_movz_def ee_movn_def ee_add_def ee_addu_def ee_sub_def
  ee_subu_def ee_and_ee_def ee_or_ee_def ee_xor_ee_def ee_nor_def ee_slt_def ee_sltu_def ee_dadd_def
  ee_daddu_def ee_dsub_def ee_dsubu_def mfhi_ee_def mthi_ee_def mflo_ee_def mtlo_ee_def mfsa_ee_def mtsa_ee_def
  ee_mult_def ee_multu_def ee_div_def ee_divu_def

lemmas mmi_defs =
  paddw_def paddh_def paddb_def psubw_def psubh_def psubb_def pcgtw_def pcgth_def pcgtb_def pceqw_def pceqh_def
  pceqb_def pmaxw_def pmaxh_def pminw_def pminh_def paddsw_def paddsh_def paddsb_def psubsw_def psubsh_def
  psubsb_def padduw_def padduh_def paddub_def psubuw_def psubuh_def psubub_def pabsw_def pabsh_def padsbh_def
  pextlw_def pextlh_def pextlb_def pextuw_def pextuh_def pextub_def ppacw_def ppach_def ppacb_def pinth_def
  pinteh_def pexeh_def prevh_def pexew_def prot3w_def pexch_def pexcw_def pcpyh_def pcpyld_def pcpyud_def
  pand_def por_def pxor_def pnor_def psllh_def psrlh_def psrah_def psllw_def psrlw_def psraw_def psllvw_def
  psrlvw_def psravw_def pext5_def ppac5_def plzcw_def pmthllw_def pmfhllw_def pmfhluw_def pmfhlslw_def
  pmfhllh_def pmfhlsh_def pmfhi_def pmflo_def pmthi_def pmtlo_def mfhi1_def mflo1_def mthi1_def mtlo1_def
  pmaddh_def pmsubh_def phmadh_def phmsbh_def pmulth_def pmultw_def pmultuw_def pmadduw_def pmaddw_def
  pmsubw_def pdivw_def pdivuw_def pdivbw_def mult1_def multu1_def div1_def divu1_def madd_def maddu_def
  madd1_def maddu1_def par_rw_def par_rt_def par_qw_def Ee_Mmi.extend_def pack_def eset4_def eset2_def
  par_logic_def par_shiftv_def par_div_def

lemmas fpu_defs =
  add_s_def sub_s_def mul_s_def div_s_def sqrt_s_def rsqrt_s_def abs_s_def neg_s_def mov_s_def adda_s_def
  suba_s_def mula_s_def madd_s_def msub_s_def madda_s_def msuba_s_def max_s_def min_s_def cvt_s_w_def
  cvt_w_s_def c_f_s_def c_lt_s_def c_eq_s_def c_le_s_def fpu_add_def fpu_sub_def fpu_mul_def fpu_div_def
  fpu_rsqrt_def fpu_madd_def fpu_msub_def fpu_sqrt_def fpu_abs_def fpu_mov_def fpu_neg_def fpu_adda_def
  fpu_suba_def fpu_mula_def fpu_madda_def fpu_msuba_def fpu_cvt_w_s_def cop_cvt_s_w_def fpu_max_s_def
  fpu_min_s_def fpu_c_f_s_def fpu_c_lt_s_def fpu_c_eq_s_def fpu_c_le_s_def f_store_def f_store_acc_def
  set_condition_def

lemma sound_scalar [sound]:
  "sound s t \<Longrightarrow> sound s (ee_bltz i t)"
  "sound s t \<Longrightarrow> sound s (ee_bltzl i t)"
  "sound s t \<Longrightarrow> sound s (ee_bltzal i t)"
  "sound s t \<Longrightarrow> sound s (ee_bltzall i t)"
  "sound s t \<Longrightarrow> sound s (ee_bgez i t)"
  "sound s t \<Longrightarrow> sound s (ee_bgezl i t)"
  "sound s t \<Longrightarrow> sound s (ee_bgezal i t)"
  "sound s t \<Longrightarrow> sound s (ee_bgezall i t)"
  "sound s t \<Longrightarrow> sound s (ee_beq i t)"
  "sound s t \<Longrightarrow> sound s (ee_beql i t)"
  "sound s t \<Longrightarrow> sound s (ee_bne i t)"
  "sound s t \<Longrightarrow> sound s (ee_bnel i t)"
  "sound s t \<Longrightarrow> sound s (ee_blez i t)"
  "sound s t \<Longrightarrow> sound s (ee_blezl i t)"
  "sound s t \<Longrightarrow> sound s (ee_bgtz i t)"
  "sound s t \<Longrightarrow> sound s (ee_bgtzl i t)"
  "sound s t \<Longrightarrow> sound s (ee_j i t)"
  "sound s t \<Longrightarrow> sound s (ee_jal i t)"
  "sound s t \<Longrightarrow> sound s (ee_jr i t)"
  "sound s t \<Longrightarrow> sound s (ee_jalr i t)"
  "sound s t \<Longrightarrow> sound s (ee_addi i t)"
  "sound s t \<Longrightarrow> sound s (ee_addiu i t)"
  "sound s t \<Longrightarrow> sound s (ee_slti i t)"
  "sound s t \<Longrightarrow> sound s (ee_sltiu i t)"
  "sound s t \<Longrightarrow> sound s (ee_andi i t)"
  "sound s t \<Longrightarrow> sound s (ee_ori i t)"
  "sound s t \<Longrightarrow> sound s (ee_xori i t)"
  "sound s t \<Longrightarrow> sound s (ee_lui i t)"
  "sound s t \<Longrightarrow> sound s (ee_daddi i t)"
  "sound s t \<Longrightarrow> sound s (ee_daddiu i t)"
  "sound s t \<Longrightarrow> sound s (ee_sll i t)"
  "sound s t \<Longrightarrow> sound s (ee_sllv i t)"
  "sound s t \<Longrightarrow> sound s (ee_dsll i t)"
  "sound s t \<Longrightarrow> sound s (ee_dsll32 i t)"
  "sound s t \<Longrightarrow> sound s (ee_dsllv i t)"
  "sound s t \<Longrightarrow> sound s (ee_srl i t)"
  "sound s t \<Longrightarrow> sound s (ee_srlv i t)"
  "sound s t \<Longrightarrow> sound s (ee_dsrl i t)"
  "sound s t \<Longrightarrow> sound s (ee_dsrl32 i t)"
  "sound s t \<Longrightarrow> sound s (ee_dsrlv i t)"
  "sound s t \<Longrightarrow> sound s (ee_sra i t)"
  "sound s t \<Longrightarrow> sound s (ee_srav i t)"
  "sound s t \<Longrightarrow> sound s (ee_dsra i t)"
  "sound s t \<Longrightarrow> sound s (ee_dsra32 i t)"
  "sound s t \<Longrightarrow> sound s (ee_dsrav i t)"
  "sound s t \<Longrightarrow> sound s (ee_movz i t)"
  "sound s t \<Longrightarrow> sound s (ee_movn i t)"
  "sound s t \<Longrightarrow> sound s (ee_add i t)"
  "sound s t \<Longrightarrow> sound s (ee_addu i t)"
  "sound s t \<Longrightarrow> sound s (ee_sub i t)"
  "sound s t \<Longrightarrow> sound s (ee_subu i t)"
  "sound s t \<Longrightarrow> sound s (ee_and_ee i t)"
  "sound s t \<Longrightarrow> sound s (ee_or_ee i t)"
  "sound s t \<Longrightarrow> sound s (ee_xor_ee i t)"
  "sound s t \<Longrightarrow> sound s (ee_nor i t)"
  "sound s t \<Longrightarrow> sound s (ee_slt i t)"
  "sound s t \<Longrightarrow> sound s (ee_sltu i t)"
  "sound s t \<Longrightarrow> sound s (ee_dadd i t)"
  "sound s t \<Longrightarrow> sound s (ee_daddu i t)"
  "sound s t \<Longrightarrow> sound s (ee_dsub i t)"
  "sound s t \<Longrightarrow> sound s (ee_dsubu i t)"
  "sound s t \<Longrightarrow> sound s (mfhi_ee i t)"
  "sound s t \<Longrightarrow> sound s (mthi_ee i t)"
  "sound s t \<Longrightarrow> sound s (mflo_ee i t)"
  "sound s t \<Longrightarrow> sound s (mtlo_ee i t)"
  "sound s t \<Longrightarrow> sound s (mfsa_ee i t)"
  "sound s t \<Longrightarrow> sound s (mtsa_ee i t)"
  "sound s t \<Longrightarrow> sound s (ee_mult i t)"
  "sound s t \<Longrightarrow> sound s (ee_multu i t)"
  "sound s t \<Longrightarrow> sound s (ee_div i t)"
  "sound s t \<Longrightarrow> sound s (ee_divu i t)"
  unfolding scalar_defs Let_def by (intro sound; assumption)+

lemma sound_mmi [sound]:
  "sound s t \<Longrightarrow> sound s (paddw i t)"
  "sound s t \<Longrightarrow> sound s (paddh i t)"
  "sound s t \<Longrightarrow> sound s (paddb i t)"
  "sound s t \<Longrightarrow> sound s (psubw i t)"
  "sound s t \<Longrightarrow> sound s (psubh i t)"
  "sound s t \<Longrightarrow> sound s (psubb i t)"
  "sound s t \<Longrightarrow> sound s (pcgtw i t)"
  "sound s t \<Longrightarrow> sound s (pcgth i t)"
  "sound s t \<Longrightarrow> sound s (pcgtb i t)"
  "sound s t \<Longrightarrow> sound s (pceqw i t)"
  "sound s t \<Longrightarrow> sound s (pceqh i t)"
  "sound s t \<Longrightarrow> sound s (pceqb i t)"
  "sound s t \<Longrightarrow> sound s (pmaxw i t)"
  "sound s t \<Longrightarrow> sound s (pmaxh i t)"
  "sound s t \<Longrightarrow> sound s (pminw i t)"
  "sound s t \<Longrightarrow> sound s (pminh i t)"
  "sound s t \<Longrightarrow> sound s (paddsw i t)"
  "sound s t \<Longrightarrow> sound s (paddsh i t)"
  "sound s t \<Longrightarrow> sound s (paddsb i t)"
  "sound s t \<Longrightarrow> sound s (psubsw i t)"
  "sound s t \<Longrightarrow> sound s (psubsh i t)"
  "sound s t \<Longrightarrow> sound s (psubsb i t)"
  "sound s t \<Longrightarrow> sound s (padduw i t)"
  "sound s t \<Longrightarrow> sound s (padduh i t)"
  "sound s t \<Longrightarrow> sound s (paddub i t)"
  "sound s t \<Longrightarrow> sound s (psubuw i t)"
  "sound s t \<Longrightarrow> sound s (psubuh i t)"
  "sound s t \<Longrightarrow> sound s (psubub i t)"
  "sound s t \<Longrightarrow> sound s (pabsw i t)"
  "sound s t \<Longrightarrow> sound s (pabsh i t)"
  "sound s t \<Longrightarrow> sound s (padsbh i t)"
  "sound s t \<Longrightarrow> sound s (pextlw i t)"
  "sound s t \<Longrightarrow> sound s (pextlh i t)"
  "sound s t \<Longrightarrow> sound s (pextlb i t)"
  "sound s t \<Longrightarrow> sound s (pextuw i t)"
  "sound s t \<Longrightarrow> sound s (pextuh i t)"
  "sound s t \<Longrightarrow> sound s (pextub i t)"
  "sound s t \<Longrightarrow> sound s (ppacw i t)"
  "sound s t \<Longrightarrow> sound s (ppach i t)"
  "sound s t \<Longrightarrow> sound s (ppacb i t)"
  "sound s t \<Longrightarrow> sound s (pinth i t)"
  "sound s t \<Longrightarrow> sound s (pinteh i t)"
  "sound s t \<Longrightarrow> sound s (pexeh i t)"
  "sound s t \<Longrightarrow> sound s (prevh i t)"
  "sound s t \<Longrightarrow> sound s (pexew i t)"
  "sound s t \<Longrightarrow> sound s (prot3w i t)"
  "sound s t \<Longrightarrow> sound s (pexch i t)"
  "sound s t \<Longrightarrow> sound s (pexcw i t)"
  "sound s t \<Longrightarrow> sound s (pcpyh i t)"
  "sound s t \<Longrightarrow> sound s (pcpyld i t)"
  "sound s t \<Longrightarrow> sound s (pcpyud i t)"
  "sound s t \<Longrightarrow> sound s (pand i t)"
  "sound s t \<Longrightarrow> sound s (por i t)"
  "sound s t \<Longrightarrow> sound s (pxor i t)"
  "sound s t \<Longrightarrow> sound s (pnor i t)"
  "sound s t \<Longrightarrow> sound s (psllh i t)"
  "sound s t \<Longrightarrow> sound s (psrlh i t)"
  "sound s t \<Longrightarrow> sound s (psrah i t)"
  "sound s t \<Longrightarrow> sound s (psllw i t)"
  "sound s t \<Longrightarrow> sound s (psrlw i t)"
  "sound s t \<Longrightarrow> sound s (psraw i t)"
  "sound s t \<Longrightarrow> sound s (psllvw i t)"
  "sound s t \<Longrightarrow> sound s (psrlvw i t)"
  "sound s t \<Longrightarrow> sound s (psravw i t)"
  "sound s t \<Longrightarrow> sound s (pext5 i t)"
  "sound s t \<Longrightarrow> sound s (ppac5 i t)"
  "sound s t \<Longrightarrow> sound s (plzcw i t)"
  "sound s t \<Longrightarrow> sound s (pmthllw i t)"
  "sound s t \<Longrightarrow> sound s (pmfhllw i t)"
  "sound s t \<Longrightarrow> sound s (pmfhluw i t)"
  "sound s t \<Longrightarrow> sound s (pmfhlslw i t)"
  "sound s t \<Longrightarrow> sound s (pmfhllh i t)"
  "sound s t \<Longrightarrow> sound s (pmfhlsh i t)"
  "sound s t \<Longrightarrow> sound s (pmfhi i t)"
  "sound s t \<Longrightarrow> sound s (pmflo i t)"
  "sound s t \<Longrightarrow> sound s (pmthi i t)"
  "sound s t \<Longrightarrow> sound s (pmtlo i t)"
  "sound s t \<Longrightarrow> sound s (mfhi1 i t)"
  "sound s t \<Longrightarrow> sound s (mflo1 i t)"
  "sound s t \<Longrightarrow> sound s (mthi1 i t)"
  "sound s t \<Longrightarrow> sound s (mtlo1 i t)"
  "sound s t \<Longrightarrow> sound s (pmaddh i t)"
  "sound s t \<Longrightarrow> sound s (pmsubh i t)"
  "sound s t \<Longrightarrow> sound s (phmadh i t)"
  "sound s t \<Longrightarrow> sound s (phmsbh i t)"
  "sound s t \<Longrightarrow> sound s (pmulth i t)"
  "sound s t \<Longrightarrow> sound s (pmultw i t)"
  "sound s t \<Longrightarrow> sound s (pmultuw i t)"
  "sound s t \<Longrightarrow> sound s (pmadduw i t)"
  "sound s t \<Longrightarrow> sound s (pmaddw i t)"
  "sound s t \<Longrightarrow> sound s (pmsubw i t)"
  "sound s t \<Longrightarrow> sound s (pdivw i t)"
  "sound s t \<Longrightarrow> sound s (pdivuw i t)"
  "sound s t \<Longrightarrow> sound s (pdivbw i t)"
  "sound s t \<Longrightarrow> sound s (mult1 i t)"
  "sound s t \<Longrightarrow> sound s (multu1 i t)"
  "sound s t \<Longrightarrow> sound s (div1 i t)"
  "sound s t \<Longrightarrow> sound s (divu1 i t)"
  "sound s t \<Longrightarrow> sound s (madd i t)"
  "sound s t \<Longrightarrow> sound s (maddu i t)"
  "sound s t \<Longrightarrow> sound s (madd1 i t)"
  "sound s t \<Longrightarrow> sound s (maddu1 i t)"
  unfolding mmi_defs Let_def by (intro sound; assumption)+

lemma sound_fpu [sound]:
  "sound s t \<Longrightarrow> sound s (fpu_add hf i t)"
  "sound s t \<Longrightarrow> sound s (fpu_sub hf i t)"
  "sound s t \<Longrightarrow> sound s (fpu_mul hf i t)"
  "sound s t \<Longrightarrow> sound s (fpu_div hf i t)"
  "sound s t \<Longrightarrow> sound s (fpu_rsqrt hf i t)"
  "sound s t \<Longrightarrow> sound s (fpu_madd hf i t)"
  "sound s t \<Longrightarrow> sound s (fpu_msub hf i t)"
  "sound s t \<Longrightarrow> sound s (fpu_sqrt hf i t)"
  "sound s t \<Longrightarrow> sound s (fpu_abs i t)"
  "sound s t \<Longrightarrow> sound s (fpu_mov i t)"
  "sound s t \<Longrightarrow> sound s (fpu_neg i t)"
  "sound s t \<Longrightarrow> sound s (fpu_adda hf i t)"
  "sound s t \<Longrightarrow> sound s (fpu_suba hf i t)"
  "sound s t \<Longrightarrow> sound s (fpu_mula hf i t)"
  "sound s t \<Longrightarrow> sound s (fpu_madda hf i t)"
  "sound s t \<Longrightarrow> sound s (fpu_msuba hf i t)"
  "sound s t \<Longrightarrow> sound s (fpu_cvt_w_s i t)"
  "sound s t \<Longrightarrow> sound s (cop_cvt_s_w hf i t)"
  "sound s t \<Longrightarrow> sound s (fpu_max_s i t)"
  "sound s t \<Longrightarrow> sound s (fpu_min_s i t)"
  "sound s t \<Longrightarrow> sound s (fpu_c_f_s i t)"
  "sound s t \<Longrightarrow> sound s (fpu_c_lt_s i t)"
  "sound s t \<Longrightarrow> sound s (fpu_c_eq_s i t)"
  "sound s t \<Longrightarrow> sound s (fpu_c_le_s i t)"
  unfolding fpu_defs Let_def by (intro sound; assumption)+

lemma sound_pure [sound]:
  "sound s t \<Longrightarrow> sound s (ee_cache i t)" "sound s t \<Longrightarrow> sound s (ee_cop0_mfc i t)" "sound s t \<Longrightarrow> sound s (ee_cop0_mtc i t)"
  "sound s t \<Longrightarrow> sound s (ee_cop1_mfc i t)" "sound s t \<Longrightarrow> sound s (ee_cop1_mtc i t)" "sound s t \<Longrightarrow> sound s (ee_cop1_cfc i t)"
  "sound s t \<Longrightarrow> sound s (ee_cop1_ctc i t)" "sound s t \<Longrightarrow> sound s (ee_teq i t)" "sound s t \<Longrightarrow> sound s (ee_ei t)"
  "sound s t \<Longrightarrow> sound s (ee_di t)"
  unfolding ee_cache_def ee_cop0_mfc_def ee_cop0_mtc_def ee_mfpc_def ee_mfps_def ee_mfc0_def ee_mtpc_def ee_mtps_def
    ee_mtc0_def ee_cop1_mfc_def ee_cop1_mtc_def ee_cop1_cfc_def ee_cop1_ctc_def fpu_mtc_def fpu_ctc_def ee_teq_def
    ee_ei_def ee_di_def Let_def by (intro sound; assumption)+

subsection \<open>The environment\<close>

text \<open>What is asked of the other components: their functions keep the processor well-formed and do
  not lengthen the slice.\<close>

definition env_sound :: "'a ee_mach_scheme ee_env \<Rightarrow> bool" where
  "env_sound env \<longleftrightarrow>
     (\<forall>a s. ok_post (io_read8 env a s) (\<lambda>r. sound s (snd r))) \<and>
     (\<forall>a s. ok_post (io_read16 env a s) (\<lambda>r. sound s (snd r))) \<and>
     (\<forall>a s. ok_post (io_read32 env a s) (\<lambda>r. sound s (snd r))) \<and>
     (\<forall>a s. ok_post (io_read64 env a s) (\<lambda>r. sound s (snd r))) \<and>
     (\<forall>a s. ok_post (io_read128 env a s) (\<lambda>r. sound s (snd r))) \<and>
     (\<forall>a v s. ok_post (io_write8 env a v s) (sound s)) \<and>
     (\<forall>a v s. ok_post (io_write16 env a v s) (sound s)) \<and>
     (\<forall>a v s. ok_post (io_write32 env a v s) (sound s)) \<and>
     (\<forall>a v s. ok_post (io_write64 env a v s) (sound s)) \<and>
     (\<forall>a v s. ok_post (io_write128 env a v s) (sound s)) \<and>
     (\<forall>s. sound s (io_fast_boot env s)) \<and> (\<forall>s. sound s (io_skip_BIOS env s)) \<and>
     (\<forall>a b s. ok_post (io_log_sifrpc env a b s) (sound s)) \<and>
     (\<forall>a b s. ok_post (io_deci2send env a b s) (sound s)) \<and>
     (\<forall>a s. ok_post (io_kputs env a s) (sound s)) \<and>
     (\<forall>s. sound s (vu_clear_interlock env s)) \<and>
     (\<forall>s. sound s (snd (vu_interlock_check env s))) \<and>
     (\<forall>s. ok_post (vu0_update_pipes env s) (sound s)) \<and>
     (\<forall>s. ok_post (vu0_run env s) (sound s)) \<and>
     (\<forall>r v s. ok_post (vu0_ctc env r v s) (sound s)) \<and>
     (\<forall>a s. ok_post (vu1_start env a s) (sound s)) \<and>
     (\<forall>r k v s. sound s (vu0_set_gpr env r k v s))"

lemma ok_trans: "ok_post (g t) (sound t) \<Longrightarrow> sound s t \<Longrightarrow> ok_post (g t) (sound s)"
  by (erule ok_post_mono) (blast intro: sound_trans)

lemma ok_trans_read: "ok_post (g t) (\<lambda>r. sound t (snd r)) \<Longrightarrow> sound s t \<Longrightarrow> ok_post (g t) (\<lambda>r. sound s (snd r))"
  by (erule ok_post_mono) (blast intro: sound_trans)

lemma ok_load:
  assumes "\<And>a s. ok_post (io a s) (\<lambda>r. sound s (snd r))" shows "ok_post (ee_load io a s) (\<lambda>r. sound s (snd r))"
  using assms by (auto simp: ee_load_def sound_refl split: mem_ptr.splits)

lemma ok_store:
  assumes "\<And>a v s. ok_post (io a v s) (sound s)" shows "ok_post (ee_store io a v s) (sound s)"
  using assms unfolding ee_store_def by (auto intro: sound split: mem_ptr.splits)

lemma ok_aligned: "ok_post r P \<Longrightarrow> ok_post (aligned b a r) P"
  by (simp add: aligned_def)

lemma ok_reads:
  assumes "env_sound env" "sound s t"
  shows "ok_post (ee_read8 env a t) (\<lambda>r. sound s (snd r))" "ok_post (ee_read16 env a t) (\<lambda>r. sound s (snd r))"
    "ok_post (ee_read32 env a t) (\<lambda>r. sound s (snd r))" "ok_post (ee_read64 env a t) (\<lambda>r. sound s (snd r))"
    "ok_post (ee_read128 env a t) (\<lambda>r. sound s (snd r))"
  unfolding ee_read8_def ee_read16_def ee_read32_def ee_read64_def ee_read128_def
  by (rule ok_trans_read [OF _ assms(2)], (rule ok_aligned)?, rule ok_load, use assms(1) in \<open>simp add: env_sound_def\<close>)+

lemma ok_writes:
  assumes "env_sound env" "sound s t"
  shows "ok_post (ee_write8 env a v8 t) (sound s)" "ok_post (ee_write16 env a v16 t) (sound s)"
    "ok_post (ee_write32 env a v32 t) (sound s)" "ok_post (ee_write64 env a v64 t) (sound s)"
    "ok_post (ee_write128 env a v128 t) (sound s)"
  unfolding ee_write8_def ee_write16_def ee_write32_def ee_write64_def ee_write128_def
  by (rule ok_trans [OF _ assms(2)], (rule ok_aligned)?, rule ok_store, use assms(1) in \<open>simp add: env_sound_def\<close>)+

lemma ok_bind:
  "ok_post m (\<lambda>r. sound s (snd r)) \<Longrightarrow> (\<And>v u. sound s u \<Longrightarrow> ok_post (f v u) (sound s)) \<Longrightarrow>
     ok_post (rbind m (\<lambda>(v, u). f v u)) (sound s)"
  by (cases m) auto

lemma ok_bind1:
  "ok_post m (sound s) \<Longrightarrow> (\<And>u. sound s u \<Longrightarrow> ok_post (f u) (sound s)) \<Longrightarrow> ok_post (rbind m f) (sound s)"
  by (cases m) auto

lemma ok_env:
  assumes "env_sound env" "sound s t"
  shows "ok_post (io_log_sifrpc env a b t) (sound s)" "ok_post (io_deci2send env a b t) (sound s)"
    "ok_post (io_kputs env a t) (sound s)" "ok_post (vu0_update_pipes env t) (sound s)" "ok_post (vu0_run env t) (sound s)"
    "ok_post (vu0_ctc env r a t) (sound s)" "ok_post (vu1_start env a t) (sound s)"
  by (rule ok_trans [OF _ assms(2)], use assms(1) in \<open>simp add: env_sound_def\<close>)+

lemma sound_env [sound]:
  assumes "sound s t" "env_sound env"
  shows "sound s (vu_clear_interlock env t)" "sound s (snd (vu_interlock_check env t))" "sound s (vu0_set_gpr env r k v t)"
    "sound s (io_fast_boot env t)" "sound s (io_skip_BIOS env t)"
  by (rule sound_trans [OF assms(1)], use assms(2) in \<open>simp add: env_sound_def\<close>)+

named_theorems ok_op

lemmas ok_step = ok_bind ok_bind1 ok_Inr ok_Inl ok_post_if

lemma ok_loads [ok_op]:
  assumes "env_sound env"
  shows
  "sound s t \<Longrightarrow> ok_post (ee_lb env i t) (sound s)"
  "sound s t \<Longrightarrow> ok_post (ee_lbu env i t) (sound s)"
  "sound s t \<Longrightarrow> ok_post (ee_lh env i t) (sound s)"
  "sound s t \<Longrightarrow> ok_post (ee_lhu env i t) (sound s)"
  "sound s t \<Longrightarrow> ok_post (ee_lw env i t) (sound s)"
  "sound s t \<Longrightarrow> ok_post (ee_lwu env i t) (sound s)"
  "sound s t \<Longrightarrow> ok_post (ee_ld env i t) (sound s)"
  "sound s t \<Longrightarrow> ok_post (ee_lq env i t) (sound s)"
  "sound s t \<Longrightarrow> ok_post (ee_lwl env i t) (sound s)"
  "sound s t \<Longrightarrow> ok_post (ee_lwr env i t) (sound s)"
  "sound s t \<Longrightarrow> ok_post (ee_ldl env i t) (sound s)"
  "sound s t \<Longrightarrow> ok_post (ee_ldr env i t) (sound s)"
  unfolding ee_lb_def ee_lbu_def ee_lh_def ee_lhu_def ee_lw_def ee_lwu_def ee_ld_def ee_lq_def ee_lwl_def ee_lwr_def ee_ldl_def ee_ldr_def Let_def
  by (intro ok_step ok_reads assms sound; assumption)+

lemma ok_stores [ok_op]:
  assumes "env_sound env"
  shows
  "sound s t \<Longrightarrow> ok_post (ee_sb env i t) (sound s)"
  "sound s t \<Longrightarrow> ok_post (ee_sh env i t) (sound s)"
  "sound s t \<Longrightarrow> ok_post (ee_sw env i t) (sound s)"
  "sound s t \<Longrightarrow> ok_post (ee_sd env i t) (sound s)"
  "sound s t \<Longrightarrow> ok_post (ee_sq env i t) (sound s)"
  "sound s t \<Longrightarrow> ok_post (ee_swl env i t) (sound s)"
  "sound s t \<Longrightarrow> ok_post (ee_swr env i t) (sound s)"
  "sound s t \<Longrightarrow> ok_post (ee_sdl env i t) (sound s)"
  "sound s t \<Longrightarrow> ok_post (ee_sdr env i t) (sound s)"
  unfolding ee_sb_def ee_sh_def ee_sw_def ee_sd_def ee_sq_def ee_swl_def ee_swr_def ee_sdl_def ee_sdr_def Let_def
  by (intro ok_step ok_reads ok_writes assms sound; assumption)+

lemma ok_bc:
  assumes "sound s t" "\<And>u. sound u (snd (c u))" shows "ok_post (ee_bc c i t) (sound s)"
proof -
  have "sound s (snd (c t))" by (rule sound_trans [OF assms])
  then show ?thesis
    unfolding ee_bc_def unknown_instr_def Let_def by (cases "c t") (auto intro: sound)
qed

lemma ok_branches [ok_op]:
  "sound s t \<Longrightarrow> ok_post (ee_cop_bc0 env i t) (sound s)" "sound s t \<Longrightarrow> ok_post (ee_cop_bc1 i t) (sound s)"
  "sound s t \<Longrightarrow> ok_post (ee_cop2_bc2 env i t) (sound s)"
  unfolding ee_cop_bc0_def ee_cop_bc1_def ee_cop2_bc2_def by (rule ok_bc; simp add: sound_refl)+

lemma ok_break [ok_op]: "ok_post (ee_break i t) (sound s)"
  by (simp add: ee_break_def)

lemma ok_qfsrv [ok_op]: "sound s t \<Longrightarrow> ok_post (qfsrv i t) (sound s)"
  by (simp add: qfsrv_def Let_def sound)

lemma ok_tlb [ok_op]: "sound s t \<Longrightarrow> ok_post (tlbwi t) (sound s)" "sound s t \<Longrightarrow> ok_post (tlbr t) (sound s)"
  unfolding tlbwi_def set_tlb_def tlbr_def read_tlb_def
  by (auto intro!: ok_postI sound simp: rbind_eq_Inr Let_def)

lemma ok_update_vu0:
  assumes "env_sound env" "sound s t" shows "ok_post (cop2_updatevu0 env t) (sound s)"
  unfolding cop2_updatevu0_def Let_def
  by (intro ok_step ok_reads ok_env sound assms; assumption)

lemma ok_wait:
  assumes "env_sound env" "sound s t" "\<And>u. sound s u \<Longrightarrow> ok_post (f u) (sound s)"
  shows "ok_post (wait_VU0 env i f t) (sound s)" "ok_post (wait_interlock env i f t) (sound s)"
proof -
  have "sound s (snd (check_interlock env t))"
    using assms(1,2) by (simp add: check_interlock_def sound)
  then show "ok_post (wait_VU0 env i f t) (sound s)" "ok_post (wait_interlock env i f t) (sound s)"
    using sound_env(1) [OF _ assms(1)] assms(2,3)
    by (auto simp: wait_VU0_def wait_interlock_def intro: sound split: prod.splits)
qed

lemma ok_for_upto:
  assumes "\<And>k u. sound s u \<Longrightarrow> ok_post (f k u) (sound s)" "sound s t" shows "ok_post (for_upto n f t) (sound s)"
  using for_upto_invariant [of "\<lambda>_. sound s" t n f] assms by blast

lemma ok_cop2 [ok_op]:
  assumes "env_sound env" "sound s t"
  shows "ok_post (ee_cop2_cfc env i t) (sound s)" "ok_post (ee_cop2_ctc env i t) (sound s)"
    "ok_post (ee_cop2_qmfc2 env i t) (sound s)" "ok_post (ee_cop2_qmtc2 env i t) (sound s)"
    "ok_post (ee_lqc2 env i t) (sound s)" "ok_post (ee_sqc2 env i t) (sound s)"
    "ok_post (ee_lwc1 env i t) (sound s)" "ok_post (ee_swc1 env i t) (sound s)"
  unfolding ee_cop2_cfc_def ee_cop2_ctc_def ee_cop2_qmfc2_def ee_cop2_qmtc2_def ee_lqc2_def ee_sqc2_def ee_lwc1_def
    ee_swc1_def ee_qmfc2_def ee_qmtc2_def fpu_mtc_def Let_def
  by (intro ok_step ok_update_vu0 ok_wait ok_for_upto ok_reads ok_writes ok_env assms sound sound_refl; assumption?)+

end
