(* ===== verification/Ee_Interp_Correct.thy ===== *)
theory Ee_Interp_Correct
  imports Ee_Interp_Sound
begin

unbundle bit_operations_syntax

section \<open>Properties of the Emotion Engine's interpreter\<close>

text \<open>
  Every instruction of the tables keeps the processor well-formed, and none lengthens the slice; so
  the interpreter returns from every slice, whatever the program.
\<close>

subsection \<open>System calls and returns\<close>

lemma sound_eret [sound]:
  assumes "sound s t" "env_sound env" shows "sound s (eret_ee env i t)"
  unfolding eret_ee_def ee_eret_def Let_def by (intro sound assms)

lemma sound_open:
  "sound s t \<Longrightarrow> sound s (t\<lparr>ee_deci2size := n, ee_deci2handlers := (ee_deci2handlers t)[k := h]\<rparr>)"
  by (erule sound_trans, rule soundI) simp_all

lemma ok_deci2 [ok_op]:
  assumes "env_sound env"
  shows "sound s t \<Longrightarrow> ok_post (deci2open env param t) (sound s)"
    "sound s t \<Longrightarrow> ok_post (deci2send env param t) (sound s)"
    "sound s t \<Longrightarrow> ok_post (deci2poll env param t) (sound s)"
    "sound s t \<Longrightarrow> ok_post (deci2call env func param t) (sound s)"
proof -
  have x: "ok_post (rbind (vec_at xs n) f) P" if "\<And>h. ok_post (f h) P"
    for xs :: "deci2_handler list" and n and f :: "_ \<Rightarrow> 'a ee_mach_scheme res" and P
    using that by (cases "vec_at xs n") auto
  show op: "sound s t \<Longrightarrow> ok_post (deci2open env param t) (sound s)"
    unfolding deci2open_def Let_def
    by (rule x, intro ok_step ok_reads assms sound_open sound; assumption?)
  show se: "sound s t \<Longrightarrow> ok_post (deci2send env param t) (sound s)"
    unfolding deci2send_def
    by (rule ok_bind, intro ok_reads assms, assumption, rule x)
      (intro ok_step ok_reads ok_env assms sound; assumption)
  show po: "sound s t \<Longrightarrow> ok_post (deci2poll env param t) (sound s)"
    unfolding deci2poll_def
    by (rule ok_bind, intro ok_reads assms, assumption, rule x)
      (intro ok_step ok_writes assms sound; assumption)
  show "sound s t \<Longrightarrow> ok_post (deci2call env func param t) (sound s)"
    using op se po ok_env(3) [OF assms] unfolding deci2call_def by auto
qed

lemma ok_syscall [ok_op]:
  assumes "env_sound env" "sound s t" shows "ok_post (ee_syscall env i t) (sound s)"
  unfolding ee_syscall_def Let_def
  by (intro ok_step ok_reads ok_writes ok_env ok_deci2 assms sound; assumption?)

subsection \<open>The tables\<close>

definition info_sound :: "'a ee_mach_scheme instr_info \<Rightarrow> bool" where
  "info_sound info \<longleftrightarrow> (\<forall>f. interpreter_fn info = Some f \<longrightarrow> (\<forall>i s. ok_post (f i s) (sound s)))"

lemma info_soundI:
  "(\<And>i s. ok_post (f i s) (sound s)) \<Longrightarrow> info_sound (instr f p ws rs)"
  "info_sound info \<Longrightarrow> info_sound (timed l t ty info)"
  by (auto simp: info_sound_def instr_def timed_def)

lemma ok_total: "sound s (f i s) \<Longrightarrow> ok_post (total f i s) (sound s)"
  by (simp add: total_def)

lemma table_sound: "list_all (\<lambda>e. info_sound (snd e)) table \<Longrightarrow> ok_post (switch table op) info_sound"
  by (auto intro!: ok_postI dest!: switchD simp: list_all_iff)

lemmas table_rules = info_soundI ok_total sound_scalar sound_mmi sound_fpu sound_pure sound_SA_ops sound_eret ok_op sound_refl

lemma special_table_sound: "env_sound env \<Longrightarrow> list_all (\<lambda>e. info_sound (snd e)) (special_table env i)"
  unfolding special_table_def list.pred_inject snd_conv by (intro conjI list.pred_inject(1) table_rules)

lemma regimm_table_sound: "list_all (\<lambda>e. info_sound (snd e)) (regimm_table i)"
  unfolding regimm_table_def list.pred_inject snd_conv by (intro conjI list.pred_inject(1) table_rules)

lemma cop_s_table_sound: "list_all (\<lambda>e. info_sound (snd e)) (cop_s_table hf i)"
  unfolding cop_s_table_def list.pred_inject snd_conv by (intro conjI list.pred_inject(1) table_rules)

lemma cop0_type2_table_sound: "env_sound env \<Longrightarrow> list_all (\<lambda>e. info_sound (snd e)) (cop0_type2_table env i)"
  unfolding cop0_type2_table_def list.pred_inject snd_conv by (intro conjI list.pred_inject(1) table_rules)

lemma cop_table_sound: "env_sound env \<Longrightarrow> list_all (\<lambda>e. info_sound (snd e)) (cop_table env hf i)"
  unfolding cop_table_def list.pred_inject snd_conv by (intro conjI list.pred_inject(1) table_rules)

lemma normal_table_sound: "env_sound env \<Longrightarrow> list_all (\<lambda>e. info_sound (snd e)) (normal_table env i)"
  unfolding normal_table_def list.pred_inject snd_conv by (intro conjI list.pred_inject(1) table_rules)

lemma mmi_tables_sound:
  "list_all (\<lambda>e. info_sound (snd e)) (mmi0_table i)" "list_all (\<lambda>e. info_sound (snd e)) (mmi1_table i)"
  "list_all (\<lambda>e. info_sound (snd e)) (mmi2_table i)" "list_all (\<lambda>e. info_sound (snd e)) (mmi3_table i)"
  "list_all (\<lambda>e. info_sound (snd e)) (mmi_table i)"
  unfolding mmi0_table_def mmi1_table_def mmi2_table_def mmi3_table_def mmi_table_def list.pred_inject snd_conv
  by (intro conjI list.pred_inject(1) table_rules)+

lemma pmfhl_table_sound: "list_all (\<lambda>e. info_sound (snd e)) (pmfhl_table i)"
  unfolding pmfhl_table_def list.pred_inject snd_conv by (intro conjI list.pred_inject(1) table_rules)

lemma lookup_sound:
  assumes "env_sound env" "\<And>i. ok_post (cop2_special i) info_sound"
  shows "ok_post (ee_lookup cop2_special env hf i) info_sound"
proof -
  have pm: "ok_post (pmfhlfmt i) info_sound"
    using pmfhl_table_sound [of i]
    by (auto simp: pmfhlfmt_def list_all_iff split: option.splits dest!: map_of_SomeD)
      ((drule (1) bspec, simp) | simp add: info_sound_def no_info_def)+
  show ?thesis
    unfolding ee_lookup_def ee_cop_def ee_cop_s_def ee_special_def ee_regimm_def mmi_def mmi0_def mmi1_def mmi2_def
      mmi3_def Let_def
    by (intro ok_post_if table_sound special_table_sound regimm_table_sound cop_s_table_sound cop0_type2_table_sound
        cop_table_sound normal_table_sound mmi_tables_sound pm assms)
qed

subsection \<open>One step, and the run\<close>

lemma interpret_sound:
  assumes "env_sound env" "\<And>i. ok_post (cop2_special i) info_sound"
  shows "ok_post (ee_interpret cop2_special env hf i s) (sound s)"
  unfolding ee_interpret_def
  by (rule ok_seq [OF lookup_sound [OF assms]]) (auto simp: info_sound_def split: option.splits)

text \<open>Between two steps a pending branch has its delay slot before it: the next instruction is the one
  in the slot.\<close>

definition ee_ready :: "'a ee_mach_scheme \<Rightarrow> bool" where
  "ee_ready s \<longleftrightarrow> ee_wf s \<and> (ee_branch_on s \<longrightarrow> ee_delay_slot s = 0)"

lemma branch_step_ready:
  assumes "sound u t" "budget u < n" "ee_ready s \<longrightarrow> ee_ready u"
  shows "ok_post (branch_step pc t) (\<lambda>t. (ee_ready s \<longrightarrow> ee_ready t) \<and> budget t < n)"
  using assms by (auto simp: branch_step_def sound_def ee_ready_def ee_wf_def budget_def set_PC_def)

lemma sint_sub:
  fixes c :: u32
  assumes "0 \<le> sint c" "0 \<le> n" "n < 2 ^ 30" shows "sint (c - word_of_int n) = sint c - n"
proof -
  have n: "sint (word_of_int n :: u32) = n"
    using assms(2,3) by (simp add: sint_uint uint_word_of_int signed_take_bit_int_eq_self take_bit_int_eq_self)
  show ?thesis
    using assms sint_lt [of c] n by (simp add: sint_word_ariths(2) signed_take_bit_int_eq_self)
qed

lemma read_instr_ready:
  assumes "0 < sint (ee_cycles_to_run s)"
  shows "ok_post (read_instr a (s\<lparr>ee_cycles_to_run := ee_cycles_to_run s - 1, ee_cycle_count := n\<rparr>))
           (\<lambda>r. (ee_ready s \<longrightarrow> ee_ready (snd r)) \<and> budget (snd r) < budget s)"
proof -
  define c where "c = ee_cycles_to_run s - 1"
  have c: "sint c = sint (ee_cycles_to_run s) - 1"
    using sint_sub [of "ee_cycles_to_run s" 1] assms by (simp add: c_def)
  have d: "sint (c - 40) = sint c - 40" "sint (c - 16) = sint c - 16"
    using sint_sub [of c 40] sint_sub [of c 16] assms c by simp_all
  show ?thesis
    using assms c d
    by (auto simp: read_instr_def icache_access_def Let_def ee_ready_def ee_wf_def budget_def simp flip: c_def)
qed

lemma interp_step_ready:
  assumes "env_sound env" "\<And>i. ok_post (cop2_special i) info_sound" "0 < sint (ee_cycles_to_run s)"
  shows "ok_post (interp_step cop2_special env hf s) (\<lambda>t. (ee_ready s \<longrightarrow> ee_ready t) \<and> budget t < budget s)"
proof -
  have tail: "ok_post (rbind (ee_interpret cop2_special env hf i u) (\<lambda>s. let s = set_PC (ee_PC s + 4) s
       in rbind (if i = 0 then rbind (ee_read32 env (ee_PC s) s) (\<lambda>(next_i, s).
                          Inr (if next_i = 0 then set_PC (ee_PC s + 4) s else s))
                   else Inr s) (branch_step pc)))
      (\<lambda>t. (ee_ready s \<longrightarrow> ee_ready t) \<and> budget t < budget s)"
    if "ee_ready s \<longrightarrow> ee_ready u" "budget u < budget s" for i u pc
    unfolding Let_def
  proof (rule ok_seq [OF interpret_sound [OF assms(1,2)]], rule ok_seq [where P="sound u"])
    fix v assume "sound u v"
    then show "ok_post (if i = 0 then rbind (ee_read32 env (ee_PC (set_PC (ee_PC v + 4) v)) (set_PC (ee_PC v + 4) v))
          (\<lambda>(next_i, s). Inr (if next_i = 0 then set_PC (ee_PC s + 4) s else s))
        else Inr (set_PC (ee_PC v + 4) v)) (sound u)"
      by - (intro ok_bind ok_post_if ok_Inr ok_reads assms sound; assumption)
  qed (rule branch_step_ready [OF _ that(2,1)])
  show ?thesis
    unfolding interp_step_def Let_def
    by (rule ok_seq [OF read_instr_ready [OF assms(3)]])
      (auto intro!: tail [unfolded Let_def] split: prod.splits)
qed

lemma run_returns:
  assumes "env_sound env" "\<And>i. ok_post (cop2_special i) info_sound"
  shows "\<exists>r. run_interpreter cop2_special env hf s = Some r \<and>
           ok_post r (\<lambda>t. (ee_ready s \<longrightarrow> ee_ready t) \<and> \<not> 0 <s ee_cycles_to_run t)"
proof (induction "budget s" arbitrary: s rule: less_induct)
  case less
  show ?case
  proof (cases "0 <s ee_cycles_to_run s")
    case True
    then have *: "ok_post (interp_step cop2_special env hf s) (\<lambda>t. (ee_ready s \<longrightarrow> ee_ready t) \<and> budget t < budget s)"
      by (intro interp_step_ready assms) (simp add: word_sless_alt)
    then show ?thesis
    proof (cases "interp_step cop2_special env hf s")
      case (Inr t)
      with * less.hyps [of t] True show ?thesis
        by (subst run_interpreter.simps) (auto elim: ok_post_mono)
    qed (use True in \<open>subst run_interpreter.simps, simp\<close>)
  next
    case False
    then show ?thesis by (subst run_interpreter.simps) simp
  qed
qed

subsection \<open>A machine and an environment to run it in\<close>

text \<open>All memories and registers are zero, the whole address space of the kernel is mapped as
  \<open>init_tlb\<close> maps it, and no device answers.\<close>

definition blank_core :: "u32 \<Rightarrow> ee_mach" where
  "blank_core cycles =
     \<lparr>ee_cycles = \<lparr>cc_count = 0, cc_remainder = 0\<rparr>, bus_cycles = \<lparr>cc_count = 0, cc_remainder = 0\<rparr>,
      iop_cycles = \<lparr>cc_count = 0, cc_remainder = 0\<rparr>, run_cycles = 0, next_event_id = 0, timer_event_id = 0,
      registered_funcs = [], timer_callbacks = [], sch_timers = [], events = [], closest_event_time = 0,
      cop0_tlb = replicate 48 zero_entry, cop0_gpr = (\<lambda>_. 0), cop0_status = status_of 0, cop0_cause = \<lparr>cc_code = 0, cc_int0_pending = False, cc_int1_pending = False,
        cc_timer_int_pending = False, cc_code2 = 0, cc_ce = 0, cc_bd2 = False, cc_bd = False\<rparr>,
      cop0_EPC = 0, cop0_ErrorEPC = 0, cop0_PCCR = 0, cop0_PCR0 = 0, cop0_PCR1 = 0, cop0_vtlb = \<lparr>kernel_vtlb = (\<lambda>_. Null_ptr), sup_vtlb = (\<lambda>_. Null_ptr), user_vtlb = (\<lambda>_. Null_ptr),
        vtlb_cache_mode = (\<lambda>_. 0), vtlb_modified = (\<lambda>_. False)\<rparr>,
      ee_cycle_count = 0, ee_cycles_to_run = cycles, ee_PC = 0xBFC00000, ee_tlb_map = Kernel_vtlb,
      ee_branch_on = False, ee_delay_slot = 0, ee_wait_for_IRQ = False,
      ee_gpr = (\<lambda>_. 0), ee_LO = 0, ee_HI = 0, ee_SA = 0,
      ee_new_PC = 0, ee_PC_now = 0xBFC00000, ee_icache = replicate 128 \<lparr>ic_lfu0 = False, ic_lfu1 = False, ic_tag0 = push_bit 31 1, ic_tag1 = push_bit 31 1\<rparr>,
      ee_deci2handlers = replicate 128 \<lparr>dh_active = False, dh_device = 0, dh_addr = 0\<rparr>, ee_deci2size = 0,
      ee_flush_jit = False, ee_osd_config = 0, em_rdram = (\<lambda>_. 0), em_bios = (\<lambda>_. 0), em_spr = (\<lambda>_. 0),
      fpu_control = \<lparr>fc_su = False, fc_so = False, fc_sd = False, fc_si = False, fc_u = False, fc_o = False,
        fc_d = False, fc_i = False, fc_condition = False\<rparr>, fpu_gpr = (\<lambda>_. 0), fpu_acc = 0\<rparr>"

definition no_devices :: "ee_mach ee_env" where
  "no_devices =
     \<lparr>io_read8 = (\<lambda>a s. Inr (0, s)), io_read16 = (\<lambda>a s. Inr (0, s)), io_read32 = (\<lambda>a s. Inr (0, s)),
      io_read64 = (\<lambda>a s. Inr (0, s)), io_read128 = (\<lambda>a s. Inr (0, s)),
      io_write8 = (\<lambda>a v. Inr), io_write16 = (\<lambda>a v. Inr), io_write32 = (\<lambda>a v. Inr),
      io_write64 = (\<lambda>a v. Inr), io_write128 = (\<lambda>a v. Inr),
      io_fast_boot = (\<lambda>s. s), io_skip_BIOS = (\<lambda>s. s), io_log_sifrpc = (\<lambda>a b. Inr), io_deci2send = (\<lambda>a b. Inr),
      io_kputs = (\<lambda>a. Inr), io_d_stat = (\<lambda>s. 0), io_d_pcr = (\<lambda>s. 0), vu_clear_interlock = (\<lambda>s. s),
      vu_interlock_check = (\<lambda>s. (False, s)), vu0_running = (\<lambda>s. False), vu1_running = (\<lambda>s. False),
      vu0_tbit = (\<lambda>s. False), vu1_tbit = (\<lambda>s. False), vu0_interlocked = (\<lambda>s. False),
      vu0_update_pipes = Inr, vu0_run = Inr, vu0_cfc = (\<lambda>r s. 0), vu0_ctc = (\<lambda>r v. Inr), vu1_start = (\<lambda>a. Inr),
      vu0_get_gpr = (\<lambda>r k s. 0), vu0_set_gpr = (\<lambda>r k v s. s)\<rparr>"

lemma no_devices_sound: "env_sound no_devices"
  by (simp add: env_sound_def no_devices_def sound_refl)

text \<open>The kernel's segments as \<open>init_tlb\<close> maps them.\<close>

definition blank :: "u32 \<Rightarrow> ee_mach" where
  "blank cycles = init_tlb (blank_core cycles)"

lemma blank_ready: "ee_ready (blank cycles)"
  by (simp add: blank_def init_tlb_def blank_core_def ee_ready_def ee_wf_def)

subsection \<open>The interpreter returns\<close>

text \<open>C12: whatever program is in memory, \<open>EmotionEngine::run_interpreter\<close> comes back: it stops the
  emulator with an error, or it returns with the cycles of the slice used up, register 0 zero,
  \<open>SA\<close> below 16, and no branch pending except one whose delay slot is the next instruction. The
  other components are asked not to lengthen the slice.\<close>

theorem ee_interpreter_returns:
  assumes "env_sound env" "\<And>i. ok_post (cop2_special i) info_sound"
  shows "\<exists>r. run_interpreter cop2_special env hf s = Some r \<and>
           ok_post r (\<lambda>t. (ee_ready s \<longrightarrow> ee_ready t) \<and> \<not> 0 <s ee_cycles_to_run t)"
  by (rule run_returns [OF assms])

theorem ee_interpreter_returns_witness:
  "\<forall>hf. ee_ready (blank 1000) \<and>
     (\<exists>r. run_interpreter (\<lambda>_. unknown_instr) no_devices hf (blank 1000) = Some r \<and>
        ok_post r (\<lambda>t. ee_ready t \<and> \<not> 0 <s ee_cycles_to_run t))"
proof
  fix hf
  have "ok_post (unknown_instr :: ee_mach instr_info res) info_sound" by (simp add: unknown_instr_def)
  from ee_interpreter_returns [OF no_devices_sound this, of hf "blank 1000"] blank_ready
  show "ee_ready (blank 1000) \<and>
     (\<exists>r. run_interpreter (\<lambda>_. unknown_instr) no_devices hf (blank 1000) = Some r \<and>
        ok_post r (\<lambda>t. ee_ready t \<and> \<not> 0 <s ee_cycles_to_run t))" by simp
qed

end
