(* ===== verification/Ee_Mmi_Correct.thy ===== *)
theory Ee_Mmi_Correct
  imports Ee_Mmi_Decode
begin

unbundle bit_operations_syntax

section \<open>Properties of the multimedia instructions\<close>

text \<open>
  What the decoder declares about a multimedia instruction is what the instruction does: it changes
  no register but those it is declared to write, and what it leaves there is determined by the
  registers it is declared to read or write. The loops over lanes compute lane by lane functions of
  the operands, also where destination and source are the same register.
\<close>

subsection \<open>Registers by dependency\<close>

definition reg_view :: "dep \<Rightarrow> 'a ee_cpu_scheme \<Rightarrow> nat" where
  "reg_view d s =
     (if fst d \<noteq> Gpr_file then 0
      else if snd d < 32 then unat (ee_gpr s (of_nat (snd d)))
      else if d = R_LO then unat (get_LO s)
      else if d = R_LO1 then unat (get_LO1 s)
      else if d = R_HI then unat (get_HI s)
      else if d = R_HI1 then unat (get_HI1 s)
      else if d = R_SA then unat (ee_SA s) else 0)"

definition other_state :: "'a ee_cpu_scheme \<Rightarrow> 'a ee_cpu_scheme" where
  "other_state s = s\<lparr>ee_gpr := (\<lambda>_. 0), ee_LO := 0, ee_HI := 0, ee_SA := 0\<rparr>"

definition agree :: "dep list \<Rightarrow> 'a ee_cpu_scheme \<Rightarrow> 'a ee_cpu_scheme \<Rightarrow> bool" where
  "agree ds s t \<longleftrightarrow> (\<forall>d \<in> set ds. reg_view d s = reg_view d t)"

definition confined :: "dep list \<Rightarrow> dep list \<Rightarrow> ('a ee_cpu_scheme \<Rightarrow> 'a ee_cpu_scheme) \<Rightarrow> bool" where
  "confined ws rs f \<longleftrightarrow>
     (\<forall>s. other_state (f s) = other_state s \<and> (\<forall>d. d \<notin> set ws \<longrightarrow> reg_view d (f s) = reg_view d s)) \<and>
     (\<forall>s t. agree (ws @ rs) s t \<longrightarrow> agree (ws @ rs) (f s) (f t))"

lemma unat5: "unat (r :: 5 word) < 32"
  using unsigned_less [of r] by simp

lemma unat_same [simp]: "unat a = unat b \<longleftrightarrow> a = b"
  by (simp add: word_unat_eq_iff)

lemma reg_view_gpr [simp]: "reg_view (gpr r) s = unat (ee_gpr s r)"
  by (simp add: reg_view_def gpr_def unat5)

lemma reg_view_special [simp]:
  "reg_view R_LO s = unat (get_LO s)" "reg_view R_LO1 s = unat (get_LO1 s)"
  "reg_view R_HI s = unat (get_HI s)" "reg_view R_HI1 s = unat (get_HI1 s)"
  "reg_view R_SA s = unat (ee_SA s)"
  by (simp_all add: reg_view_def dep_defs)

lemma dep_distinct [simp]:
  "gpr r \<noteq> R_LO" "gpr r \<noteq> R_LO1" "gpr r \<noteq> R_HI" "gpr r \<noteq> R_HI1" "gpr r \<noteq> R_SA"
  "gpr q = gpr r \<longleftrightarrow> q = r"
  using unat5 [of r] by (auto simp: dep_defs)

subsection \<open>Frames of the register operations\<close>

lemma other_eset [simp]: "other_state (eset r v k s) = other_state s"
  by (simp add: other_state_def eset_def)

lemma other_LO_HI [simp]: "other_state (set_LO_HI a b h s) = other_state s"
  by (simp add: other_state_def set_LO_HI_def)

lemma eset_special [simp]:
  "get_LO (eset r v k s) = get_LO s" "get_LO1 (eset r v k s) = get_LO1 s"
  "get_HI (eset r v k s) = get_HI s" "get_HI1 (eset r v k s) = get_HI1 s" "ee_SA (eset r v k s) = ee_SA s"
  by (simp_all add: eset_def get_LO_def get_LO1_def get_HI_def get_HI1_def)

lemma eset_gpr: "ee_gpr (eset r v k s) q = (if q = r \<and> r \<noteq> 0 then put_lane k v (ee_gpr s r) else ee_gpr s q)"
  by (simp add: eset_def)

lemma view_eset [simp]: "d \<noteq> gpr r \<Longrightarrow> reg_view d (eset r v k s) = reg_view d s"
  by (cases d) (auto simp: reg_view_def gpr_def eset_gpr unat_of_nat)

lemma LO_HI_special [simp]:
  "get_LO (set_LO_HI a b h s) = (if h then get_LO s else a)" "get_LO1 (set_LO_HI a b h s) = (if h then a else get_LO1 s)"
  "get_HI (set_LO_HI a b h s) = (if h then get_HI s else b)" "get_HI1 (set_LO_HI a b h s) = (if h then b else get_HI1 s)"
  "ee_SA (set_LO_HI a b h s) = ee_SA s" "ee_gpr (set_LO_HI a b h s) = ee_gpr s"
  by (simp_all add: set_LO_HI_def get_LO_def get_LO1_def get_HI_def get_HI1_def lane_put_lane)

lemma view_LO_HI [simp]:
  "d \<noteq> (if h then R_LO1 else R_LO) \<Longrightarrow> d \<noteq> (if h then R_HI1 else R_HI) \<Longrightarrow>
     reg_view d (set_LO_HI a b h s) = reg_view d s"
  by (auto simp: reg_view_def)

lemma set_both_special [simp]:
  "get_LO (set_both lo hi s) = lane 0 lo" "get_LO1 (set_both lo hi s) = lane 1 lo"
  "get_HI (set_both lo hi s) = lane 0 hi" "get_HI1 (set_both lo hi s) = lane 1 hi"
  "ee_SA (set_both lo hi s) = ee_SA s" "ee_gpr (set_both lo hi s) = ee_gpr s" "other_state (set_both lo hi s) = other_state s"
  by (simp_all add: set_both_def)

lemma view_both [simp]:
  "d \<noteq> R_LO \<Longrightarrow> d \<noteq> R_LO1 \<Longrightarrow> d \<noteq> R_HI \<Longrightarrow> d \<noteq> R_HI1 \<Longrightarrow> reg_view d (set_both lo hi s) = reg_view d s"
  by (simp add: set_both_def)

subsection \<open>Confinement of the loops\<close>

lemma confined_I:
  assumes "\<And>s. other_state (f s) = other_state s" "\<And>s d. d \<notin> set ws \<Longrightarrow> reg_view d (f s) = reg_view d s"
    and "\<And>s t. agree (ws @ rs) s t \<Longrightarrow> agree (ws @ rs) (f s) (f t)"
  shows "confined ws rs f"
  using assms unfolding confined_def by blast

lemma confined_D:
  assumes "confined ws rs f"
  shows "other_state (f s) = other_state s" "d \<notin> set ws \<Longrightarrow> reg_view d (f s) = reg_view d s"
    and "agree (ws @ rs) s t \<Longrightarrow> agree (ws @ rs) (f s) (f t)"
  using assms unfolding confined_def by blast+

lemma confined_fold:
  assumes "\<And>k. confined ws rs (f k)" shows "confined ws rs (fold f ks)"
proof (rule confined_I)
  show "other_state (fold f ks s) = other_state s" for s
    by (induction ks arbitrary: s) (simp_all add: confined_D(1) [OF assms])
  show "reg_view d (fold f ks s) = reg_view d s" if "d \<notin> set ws" for s d
    using that by (induction ks arbitrary: s) (simp_all add: confined_D(2) [OF assms])
  show "agree (ws @ rs) (fold f ks s) (fold f ks t)" if "agree (ws @ rs) s t" for s t
    using that by (induction ks arbitrary: s t) (simp_all add: confined_D(3) [OF assms])
qed

lemma confined_mono:
  assumes c: "confined ws rs f" and sub: "set rs \<subseteq> set rs'" shows "confined ws rs' f"
proof (rule confined_I)
  show "agree (ws @ rs') (f s) (f t)" if a: "agree (ws @ rs') s t" for s t
  proof -
    have "agree (ws @ rs) s t" using a sub by (auto simp: agree_def)
    then have ag: "agree (ws @ rs) (f s) (f t)" by (rule confined_D(3) [OF c])
    have "reg_view d (f s) = reg_view d (f t)" if d: "d \<in> set (ws @ rs')" for d
    proof (cases "d \<in> set ws")
      case True
      then show ?thesis using ag by (simp add: agree_def)
    next
      case False
      then show ?thesis using a d by (simp add: agree_def confined_D(2) [OF c])
    qed
    then show ?thesis by (simp add: agree_def)
  qed
qed (simp_all add: confined_D(1) [OF c] confined_D(2) [OF c])

lemma confined_id: "confined ws rs (\<lambda>s. s)"
  by (rule confined_I) simp_all

lemma confined_eset:
  assumes g: "confined ws rs g" and v: "\<And>s t. agree (ws @ rs) s t \<Longrightarrow> v s = v t" and d: "gpr d \<in> set ws"
  shows "confined ws rs (\<lambda>s. eset d (v s) k (g s))"
proof (rule confined_I)
  show "reg_view e (eset d (v s) k (g s)) = reg_view e s" if "e \<notin> set ws" for s e
    using that d view_eset [of e d] confined_D(2) [OF g] by metis
  show "agree (ws @ rs) (eset d (v s) k (g s)) (eset d (v t) k (g t))" if a: "agree (ws @ rs) s t" for s t
  proof -
    have ag: "agree (ws @ rs) (g s) (g t)" by (rule confined_D(3) [OF g a])
    have "reg_view (gpr d) (g s) = reg_view (gpr d) (g t)" using ag d by (simp add: agree_def del: reg_view_gpr)
    then have "reg_view e (eset d (v s) k (g s)) = reg_view e (eset d (v t) k (g t))" if "e \<in> set (ws @ rs)" for e
      using that ag v [OF a] by (cases "e = gpr d") (auto simp: eset_gpr agree_def)
    then show ?thesis by (simp add: agree_def)
  qed
qed (simp add: confined_D(1) [OF g])

lemma confined_reads:
  assumes "\<And>v. confined ws rs (g v)" "\<And>s t. agree (ws @ rs) s t \<Longrightarrow> r s = r t"
  shows "confined ws rs (\<lambda>s. g (r s) s)"
proof (rule confined_I)
  show "agree (ws @ rs) (g (r s) s) (g (r t) t)" if "agree (ws @ rs) s t" for s t
    using assms(2) [OF that] confined_D(3) [OF assms(1) that] by metis
qed (simp_all add: confined_D(1) [OF assms(1)] confined_D(2) [OF assms(1)])

abbreviation D3 :: "u32 \<Rightarrow> dep list" where "D3 i \<equiv> [gpr (i_rs i), gpr (i_rt i)]"
abbreviation D2 :: "u32 \<Rightarrow> dep list" where "D2 i \<equiv> [gpr (i_rt i)]"
abbreviation W1 :: "u32 \<Rightarrow> dep list" where "W1 i \<equiv> [gpr (i_rd i)]"

lemmas confined_step = confined_eset confined_id

lemma confined_par_rw: "confined (W1 i) (D3 i) (par_rw n f i)"
  unfolding par_rw_def by (intro confined_fold confined_step) (simp_all add: agree_def eget_def)

lemma confined_par_rt: "confined (W1 i) (D2 i) (par_rt n f i)"
  unfolding par_rt_def by (intro confined_fold confined_step) (simp_all add: agree_def eget_def)

lemma confined_par_qw: "confined (W1 i) (D3 i) (par_qw n f i)"
  unfolding par_qw_def Let_def by (intro confined_step) (simp_all add: agree_def eget_def)

lemma confined_extend:
  assumes "\<And>s t. agree (W1 i @ rs) s t \<Longrightarrow> a s = a t \<and> b s = b t"
  shows "confined (W1 i) rs (\<lambda>s. Ee_Mmi.extend n low (a s) (b s) i s)"
proof -
  have "confined (W1 i) rs (Ee_Mmi.extend n low x y i)" for x y
    unfolding Ee_Mmi.extend_def by (intro confined_fold confined_step) simp_all
  from confined_reads [where g = "\<lambda>v. Ee_Mmi.extend n low (fst v) (snd v) i" and r = "\<lambda>s. (a s, b s)", OF this]
  show ?thesis using assms by simp
qed

lemma confined_pack: "confined (W1 i) (D3 i) (pack n low i)"
proof -
  let ?g = "\<lambda>v. fold (\<lambda>k s. eset (i_rd i) (low (lane k (snd v))) k (eset (i_rd i) (low (lane k (fst v))) (k + n) s)) [0..<n]"
  have "confined (W1 i) (D3 i) (?g v)" for v
    by (intro confined_fold confined_step) simp_all
  then have "confined (W1 i) (D3 i) (\<lambda>s. ?g (eget128 (i_rs i) s, eget128 (i_rt i) s) s)"
    by (rule confined_reads) (simp add: agree_def eget_def)
  then show ?thesis by (simp add: pack_def [abs_def] Let_def)
qed

lemma confined_par_logic: "confined (W1 i) (D3 i) (par_logic f i)"
  unfolding par_logic_def Let_def
  by (intro confined_step) (simp_all add: agree_def eget_def eset_gpr)

lemma confined_par_shiftv: "confined (W1 i) (D3 i) (par_shiftv f i)"
  unfolding par_shiftv_def Let_def
  by (intro confined_step) (auto simp: agree_def eget_def eset_gpr)

lemma confined_set_LO_HI:
  assumes g: "confined ws rs g" and v: "\<And>s t. agree (ws @ rs) s t \<Longrightarrow> a s = a t \<and> b s = b t"
    and sub: "{if h then R_LO1 else R_LO, if h then R_HI1 else R_HI} \<subseteq> set ws"
  shows "confined ws rs (\<lambda>s. set_LO_HI (a s) (b s) h (g s))"
proof (rule confined_I)
  show "reg_view d (set_LO_HI (a s) (b s) h (g s)) = reg_view d s" if d: "d \<notin> set ws" for s d
  proof -
    have "reg_view d (set_LO_HI (a s) (b s) h (g s)) = reg_view d (g s)"
      using d sub by (intro view_LO_HI) auto
    then show ?thesis by (simp add: confined_D(2) [OF g d])
  qed
  show "agree (ws @ rs) (set_LO_HI (a s) (b s) h (g s)) (set_LO_HI (a t) (b t) h (g t))"
    if ag: "agree (ws @ rs) s t" for s t
  proof -
    have "reg_view d (set_LO_HI (a s) (b s) h (g s)) = reg_view d (set_LO_HI (a t) (b t) h (g t))"
      if d: "d \<in> set (ws @ rs)" for d
    proof (cases "d = (if h then R_LO1 else R_LO) \<or> d = (if h then R_HI1 else R_HI)")
      case True
      then show ?thesis using v [OF ag] by (auto split: if_splits)
    next
      case False
      then show ?thesis using confined_D(3) [OF g ag] d by (simp add: agree_def)
    qed
    then show ?thesis by (simp add: agree_def)
  qed
qed (simp add: confined_D(1) [OF g])

lemma confined_set_both:
  assumes "confined ws rs g" "\<And>s t. agree (ws @ rs) s t \<Longrightarrow> lo s = lo t \<and> hi s = hi t"
    and "{R_LO, R_LO1, R_HI, R_HI1} \<subseteq> set ws"
  shows "confined ws rs (\<lambda>s. set_both (lo s) (hi s) (g s))"
  unfolding set_both_def
  by (intro confined_set_LO_HI assms(1)) (use assms(2,3) in fastforce)+

lemmas confined_steps = confined_step confined_set_both confined_set_LO_HI

text \<open>Reading the operands of an instruction in two states that agree on them.\<close>

lemmas agree_reads = agree_def eget_def get_LO_def get_LO1_def get_HI_def get_HI1_def

lemma confined_eset_id:
  assumes "\<And>s t. agree (gpr d # rs) s t \<Longrightarrow> v s = v t" shows "confined [gpr d] rs (\<lambda>s. eset d (v s) k s)"
  using assms by (intro confined_step) simp_all

named_theorems confined

lemmas [confined] = confined_par_rw confined_par_rt confined_par_qw confined_pack confined_par_logic confined_par_shiftv

lemma confined_moves [confined]:
  "confined (W1 i) [R_HI1] (mfhi1 i)" "confined (W1 i) [R_LO1] (mflo1 i)"
  "confined (W1 i) [R_HI, R_HI1] (pmfhi i)" "confined (W1 i) [R_LO, R_LO1] (pmflo i)"
  unfolding mfhi1_def mflo1_def pmfhi_def pmflo_def ee_mfhi1_def ee_mflo1_def ee_pmfhi_def ee_pmflo_def
  by (intro confined_step; simp add: agree_def)+

lemma confined_permute [confined]:
  "confined (W1 i) (D2 i) (pexeh i)" "confined (W1 i) (D2 i) (prevh i)" "confined (W1 i) (D2 i) (pexew i)"
  "confined (W1 i) (D2 i) (prot3w i)"
  unfolding pexeh_def prevh_def pexew_def prot3w_def Let_def
  by (intro confined_step; simp add: agree_def eget_def)+

lemma confined_interleave [confined]:
  "confined (W1 i) (D3 i) (pextlw i)" "confined (W1 i) (D3 i) (pextlh i)" "confined (W1 i) (D3 i) (pextlb i)"
  "confined (W1 i) (D3 i) (pextuw i)" "confined (W1 i) (D3 i) (pextuh i)" "confined (W1 i) (D3 i) (pextub i)"
  unfolding pextlw_def pextlh_def pextlb_def pextuw_def pextuh_def pextub_def
  by (rule confined_extend, simp add: agree_def eget_def)+

lemma confined_halfwords [confined]:
  "confined (W1 i) (D3 i) (pinth i)" "confined (W1 i) (D3 i) (pinteh i)" "confined (W1 i) (D3 i) (padsbh i)"
  "confined (W1 i) (D3 i) (ppacw i)" "confined (W1 i) (D3 i) (pcpyld i)" "confined (W1 i) (D3 i) (pcpyud i)"
  "confined (W1 i) [gpr (i_rs i)] (plzcw i)"
  unfolding pinth_def pinteh_def padsbh_def ppacw_def eset4_def eset2_def pcpyld_def pcpyud_def plzcw_def Let_def
  by (intro confined_fold confined_step; simp add: agree_def eget_def)+

lemma confined_store:
  assumes "\<And>s t. agree (W1 i @ rs) s t \<Longrightarrow> d s = d t"
  shows "confined (W1 i) rs (\<lambda>s. fold (\<lambda>k. eset (i_rd i) (lane k (d s) :: 'w::len word) k) ks s)"
proof -
  have "confined (W1 i) rs (fold (\<lambda>k. eset (i_rd i) (lane k q :: 'w word) k) ks)" for q
    by (intro confined_fold confined_step) simp_all
  from confined_reads [where r = d and g = "\<lambda>q. fold (\<lambda>k. eset (i_rd i) (lane k q :: 'w word) k) ks", OF this assms]
  show ?thesis .
qed

lemma confined_local [confined]: "confined (W1 i) (D2 i) (pexch i)" "confined (W1 i) (D2 i) (pexcw i)"
  unfolding pexch_def Let_def pexcw_def by (rule confined_store; simp add: agree_def eget_def)+

lemma confined_comp: "confined ws rs f \<Longrightarrow> confined ws rs g \<Longrightarrow> confined ws rs (\<lambda>s. f (g s))"
  by (rule confined_I) (simp_all add: confined_D(1) confined_D(2) confined_D(3))

lemma confined_pcpyh [confined]: "confined (W1 i) (D2 i) (pcpyh i)"
  unfolding pcpyh_def
  by (rule confined_comp [of _ _ "fold _ _"]; intro confined_fold confined_step) (simp_all add: agree_def eget_def)

abbreviation WLH :: "dep list" where "WLH \<equiv> [R_LO, R_LO1, R_HI, R_HI1]"
abbreviation WLHD :: "u32 \<Rightarrow> dep list" where "WLHD i \<equiv> R_LO # R_LO1 # R_HI # R_HI1 # W1 i"

lemma confined_pmfhl [confined]:
  "confined (W1 i) WLH (pmfhllw i)" "confined (W1 i) WLH (pmfhluw i)" "confined (W1 i) WLH (pmfhlslw i)"
  "confined (W1 i) WLH (pmfhllh i)" "confined (W1 i) WLH (pmfhlsh i)"
  unfolding pmfhllw_def pmfhluw_def pmfhlslw_def pmfhllh_def pmfhlsh_def Let_def both_LO_def both_HI_def
  by (intro confined_step; simp add: agree_def cong: if_cong)+

lemma confined_mult [confined]:
  "confined (WLHD i) (D3 i) (pmaddh i)" "confined (WLHD i) (D3 i) (pmsubh i)"
  "confined (WLHD i) (D3 i) (phmadh i)" "confined (WLHD i) (D3 i) (phmsbh i)"
  "confined (WLHD i) (D3 i) (pmulth i)" "confined (WLHD i) (D3 i) (pmultw i)"
  "confined (WLHD i) (D3 i) (pmultuw i)" "confined (WLHD i) (D3 i) (pmadduw i)"
  "confined (WLHD i) (D3 i) (pmaddw i)" "confined (WLHD i) (D3 i) (pmsubw i)"
  unfolding pmaddh_def pmsubh_def phmadh_def phmsbh_def pmulth_def pmultw_def pmultuw_def pmadduw_def pmaddw_def
    pmsubw_def Let_def both_LO_def both_HI_def eset4_def eset2_def
  by (intro confined_steps; simp add: agree_def eget_def)+

lemma confined_div [confined]:
  "confined WLH (D3 i) (par_div f i)" "confined WLH (D3 i) (pdivbw i)" "confined WLH [gpr (i_rs i)] (pmthllw i)"
  unfolding par_div_def pdivbw_def pmthllw_def Let_def both_LO_def both_HI_def
  by (intro confined_steps; simp add: agree_def eget_def)+

lemma confined_scalar [confined]:
  "confined [R_LO1, R_HI1] (D3 i) (div1 i)" "confined [R_LO1, R_HI1] (D3 i) (divu1 i)"
  "confined (R_LO # R_HI # W1 i) (D3 i) (madd i)" "confined (R_LO # R_HI # W1 i) (D3 i) (maddu i)"
  "confined (R_LO1 # R_HI1 # W1 i) (D3 i) (madd1 i)" "confined (R_LO1 # R_HI1 # W1 i) (D3 i) (maddu1 i)"
  "confined (R_LO1 # R_HI1 # W1 i) (D3 i) (mult1 i)" "confined (R_LO1 # R_HI1 # W1 i) (D3 i) (multu1 i)"
  unfolding div1_def divu1_def madd_def maddu_def madd1_def maddu1_def mult1_def multu1_def ee_mflo1_def Let_def
  by (intro confined_steps; simp add: agree_def eget_def)+

lemma view_LO_lane [simp]:
  fixes v :: u64
  shows
  "reg_view d (s\<lparr>ee_LO := put_lane 0 v q\<rparr>) = (if d = R_LO then unat v else reg_view d (s\<lparr>ee_LO := q\<rparr>))"
  "reg_view d (s\<lparr>ee_LO := put_lane 1 v q\<rparr>) = (if d = R_LO1 then unat v else reg_view d (s\<lparr>ee_LO := q\<rparr>))"
  by (auto simp: reg_view_def dep_defs get_LO_def get_LO1_def get_HI_def get_HI1_def lane_put_lane)

lemma view_HI_lane [simp]:
  fixes v :: u64
  shows
  "reg_view d (s\<lparr>ee_HI := put_lane 0 v q\<rparr>) = (if d = R_HI then unat v else reg_view d (s\<lparr>ee_HI := q\<rparr>))"
  "reg_view d (s\<lparr>ee_HI := put_lane 1 v q\<rparr>) = (if d = R_HI1 then unat v else reg_view d (s\<lparr>ee_HI := q\<rparr>))"
  by (auto simp: reg_view_def dep_defs get_LO_def get_LO1_def get_HI_def get_HI1_def lane_put_lane)

lemma view_same [simp]: "reg_view d (s\<lparr>ee_LO := ee_LO s\<rparr>) = reg_view d s" "reg_view d (s\<lparr>ee_HI := ee_HI s\<rparr>) = reg_view d s"
  by (simp_all add: reg_view_def get_LO_def get_LO1_def get_HI_def get_HI1_def)

lemma confined_to_LO_HI [confined]:
  "confined [R_HI, R_HI1] [gpr (i_rs i)] (pmthi i)" "confined [R_LO, R_LO1] [gpr (i_rs i)] (pmtlo i)"
  "confined [R_HI1] [gpr (i_rs i)] (mthi1 i)" "confined [R_LO1] [gpr (i_rs i)] (mtlo1 i)"
  unfolding pmthi_def pmtlo_def mthi1_def mtlo1_def ee_pmthi_def ee_pmtlo_def ee_mthi1_def ee_mtlo1_def
  by (rule confined_I; auto simp: agree_def eget_def other_state_def simp flip: reg_view_special simp del: One_nat_def)+

subsection \<open>The decoder's declarations\<close>

definition declared :: "dep list \<Rightarrow> dep list \<Rightarrow> ('a ee_cpu_scheme \<Rightarrow> 'a ee_cpu_scheme res) \<Rightarrow> bool" where
  "declared ws rs f \<longleftrightarrow>
     (\<forall>s s'. f s = Inr s' \<longrightarrow> other_state s' = other_state s \<and> (\<forall>d. d \<notin> set ws \<longrightarrow> reg_view d s' = reg_view d s)) \<and>
     (\<forall>s t. agree (ws @ rs) s t \<longrightarrow>
        (case (f s, f t) of (Inr s', Inr t') \<Rightarrow> agree (ws @ rs) s' t' | (Inl e, Inl e') \<Rightarrow> e = e' | _ \<Rightarrow> False))"

definition truthful :: "u32 \<Rightarrow> 'a ee_cpu_scheme instr_info \<Rightarrow> bool" where
  "truthful i info \<longleftrightarrow>
     (\<forall>f. interpreter_fn info = Some f \<longrightarrow> declared (write_dependencies info) (read_dependencies info) (f i))"

lemma declared_total: "confined ws rs (f i) \<Longrightarrow> declared ws rs (total f i)"
  by (simp add: declared_def confined_def total_def)

lemma truthful_instr: "confined ws rs (f i) \<Longrightarrow> truthful i (instr (total f) p ws rs)"
  by (simp add: truthful_def instr_def declared_total)

lemma truthful_timed [simp]: "truthful i (timed l t ty info) = truthful i info"
  by (simp add: truthful_def timed_def)

lemma truthful_none [simp]: "truthful i no_info"
  by (simp add: truthful_def no_info_def)

lemma confined_swap: "confined ws [a, b] f \<Longrightarrow> confined ws [b, a] f"
  by (erule confined_mono) auto

lemma declared_if:
  fixes g :: "'a ee_cpu_scheme \<Rightarrow> 'a ee_cpu_scheme"
  assumes c: "confined ws rs g" and p: "\<And>s t. agree (ws @ rs) s t \<Longrightarrow> P s = P t"
  shows "declared ws rs (\<lambda>s. if P s then Inr (g s) else Inl e)"
  unfolding declared_def
proof (intro conjI allI impI)
  fix s s' d
  assume s': "(if P s then Inr (g s) else Inl e) = Inr s'"
  then have [simp]: "s' = g s" by (simp split: if_splits)
  show "other_state s' = other_state s" by (simp add: confined_D(1) [OF c])
  show "reg_view d s' = reg_view d s" if "d \<notin> set ws" by (simp add: confined_D(2) [OF c that])
next
  fix s t :: "'a ee_cpu_scheme" assume a: "agree (ws @ rs) s t"
  show "case (if P s then Inr (g s) else Inl e, if P t then Inr (g t) else Inl e) of
      (Inr s', Inr t') \<Rightarrow> agree (ws @ rs) s' t' | (Inl e, Inl e') \<Rightarrow> e = e' | _ \<Rightarrow> False"
    using p [OF a] confined_D(3) [OF c a] by simp
qed

lemma truthful_qfsrv: "truthful i (instr qfsrv p (W1 i) [R_SA, gpr (i_rt i), gpr (i_rs i)])"
proof -
  let ?rs = "[R_SA, gpr (i_rt i), gpr (i_rs i)]"
  have "confined (W1 i) ?rs (\<lambda>s. eset (i_rd i) (funnel (nat (sint (ucast (get_SA s * 8) :: u32)))
      (eget128 (i_rs i) s) (eget128 (i_rt i) s)) 0 s)"
    by (intro confined_step) (simp_all add: agree_def eget_def get_SA_def)
  then have "declared (W1 i) ?rs (qfsrv i)"
    unfolding qfsrv_def Let_def by (rule declared_if) (simp add: agree_def get_SA_def)
  then show ?thesis by (simp add: truthful_def instr_def)
qed

lemma truthful_switch:
  "list_all (\<lambda>e. truthful i (snd e)) table \<Longrightarrow> switch table op = Inr info \<Longrightarrow> truthful i info"
  by (drule switchD) (auto simp: list_all_iff)

lemmas lane_instrs =
  paddw_def paddh_def paddb_def psubw_def psubh_def psubb_def pcgtw_def pcgth_def pcgtb_def pceqw_def
  pceqh_def pceqb_def pmaxw_def pmaxh_def pminw_def pminh_def paddsw_def paddsh_def paddsb_def psubsw_def
  psubsh_def psubsb_def padduw_def padduh_def paddub_def psubuw_def psubuh_def psubub_def pabsw_def
  pabsh_def ppach_def ppacb_def pand_def por_def pxor_def pnor_def psllh_def [abs_def] psrlh_def [abs_def]
  psrah_def [abs_def] psllw_def [abs_def] psrlw_def [abs_def] psraw_def [abs_def] psllvw_def psrlvw_def
  psravw_def pext5_def ppac5_def pdivw_def pdivuw_def

lemma truthful_tables:
  "list_all (\<lambda>e. truthful i (snd e)) (mmi0_table i)"
  "list_all (\<lambda>e. truthful i (snd e)) (mmi1_table i)"
  "list_all (\<lambda>e. truthful i (snd e)) (mmi2_table i)"
  "list_all (\<lambda>e. truthful i (snd e)) (pmfhl_table i)"
  "list_all (\<lambda>e. truthful i (snd e)) (mmi_table i)"
  unfolding mmi0_table_def mmi1_table_def mmi2_table_def pmfhl_table_def mmi_table_def lane_instrs
    list.pred_inject snd_conv truthful_timed
  by (intro conjI list.pred_inject(1) truthful_qfsrv truthful_instr; (rule confined | rule confined_swap, rule confined))+

lemma truthful_mmi3: "list_all (\<lambda>e. fst e \<noteq> 3 \<longrightarrow> truthful i (snd e)) (mmi3_table i)"
  unfolding mmi3_table_def lane_instrs list.pred_inject snd_conv fst_conv truthful_timed
  by (intro conjI impI list.pred_inject(1) truthful_instr; (rule confined | rule confined_swap, rule confined | simp))

text \<open>\<open>PSRAVW\<close> shifts by the amounts of \<open>rs\<close>, which its case does not declare.\<close>

definition is_psravw :: "u32 \<Rightarrow> bool" where
  "is_psravw i \<longleftrightarrow> i AND 0x3F = 0x29 \<and> fld i 6 5 = 3"

lemma truthful_mmi: "mmi i = Inr info \<Longrightarrow> \<not> is_psravw i \<Longrightarrow> truthful i info"
proof -
  assume m: "mmi i = Inr info" and p: "\<not> is_psravw i"
  have fmt: "truthful i info" if "pmfhlfmt i = Inr info"
    using that truthful_tables(4) [of i]
    by (auto simp: pmfhlfmt_def list_all_iff split: option.splits dest!: map_of_SomeD)
  have three: "truthful i info" if "mmi3 i = Inr info" "fld i 6 5 \<noteq> 3"
    using switchD that truthful_mmi3 [of i] by (fastforce simp: mmi3_def list_all_iff)
  note tables = truthful_tables [THEN truthful_switch]
  show ?thesis
    using m p fmt three tables
    by (auto simp: mmi_def Let_def is_psravw_def mmi0_def mmi1_def mmi2_def split: if_splits)
qed

lemma truthfulD:
  "truthful i info \<Longrightarrow> interpreter_fn info = Some f \<Longrightarrow> declared (write_dependencies info) (read_dependencies info) (f i)"
  by (simp add: truthful_def)

text \<open>C35: what the decoder declares about a multimedia instruction is sound as an effect: apart from
  \<open>PSRAVW\<close>, every instruction that \<open>EmotionInterpreter::mmi\<close> decodes changes no register outside its
  declared writes and nothing else of the processor, and what it leaves in the declared registers, or the error it
  ends in, depends on the declared registers alone.\<close>
theorem mmi_declarations_sound:
  assumes "mmi i = Inr info" "interpreter_fn info = Some f" "\<not> is_psravw i"
  shows "declared (write_dependencies info) (read_dependencies info) (f i)"
  using assms truthful_mmi truthfulD by blast

lemma qfsrv_fields:
  "i_rs 0x70851EE8 = 4" "i_rt 0x70851EE8 = 5"
  "i_rd 0x70851EE8 = 3" "fld (0x70851EE8 :: u32) 6 5 = 0x1B"
  "(0x70851EE8 AND 0x3F :: u32) = 0x28"
  by code_simp+

theorem mmi_declarations_sound_witness:
  "declared [gpr 3] [R_SA, gpr 5, gpr 4] (qfsrv 0x70851EE8 :: ee_cpu \<Rightarrow> _)"
  using mmi_declarations_sound [where i = "0x70851EE8" and f = qfsrv and info = "instr qfsrv IntWide [gpr 3] [R_SA, gpr 5, gpr 4]"]
  by (simp only: mmi_def mmi1_def Let_def qfsrv_fields is_psravw_def; simp add: mmi1_table_def switch_def instr_def no_info_def
      qfsrv_fields)

text \<open>The declaration of \<open>PSRAVW\<close> is not sound: two states that agree on everything it declares to
  read or write, and differ in \<open>rs\<close>, have different results in \<open>rd\<close>.\<close>
lemma psravw_reads_undeclared:
  "\<exists>i info f. mmi i = Inr info \<and> interpreter_fn info = Some f \<and>
     \<not> declared (write_dependencies info) (read_dependencies info) (f i :: ee_cpu \<Rightarrow> _)"
proof -
  let ?i = "0x708518E9 :: u32"
  have fields: "i_rs ?i = 4" "i_rt ?i = 5" "i_rd ?i = 3" "fld ?i 6 5 = 3"
    by code_simp+
  have mmi: "mmi ?i = Inr (instr (total psravw) IntWide [gpr 3] [gpr 5])"
    by (simp add: mmi_def mmi3_def mmi3_table_def switch_def fields)
  fix s :: ee_cpu
  let ?s = "s\<lparr>ee_gpr := \<lambda>_. 2\<rparr>" and ?t = "s\<lparr>ee_gpr := (\<lambda>_. 2)(4 := 1)\<rparr>"
  have same: "agree ([gpr 3] @ [gpr 5]) ?s ?t" by (simp add: agree_def)
  have lane_consts: "lane 0 (2 :: quad) = (2 :: u64)" "lane 0 (1 :: quad) = (1 :: u64)"
    by (simp_all add: lane_def)
  have lanes: "eget64 3 0 (psravw ?i ?s) = 0" "eget64 3 0 (psravw ?i ?t) = 1"
    by (simp_all add: psravw_def par_shiftv_def fields Let_def eget_def eset_gpr lane_put_lane lane_consts sext_def low32_def)
  have "\<not> agree ([gpr 3] @ [gpr 5]) (psravw ?i ?s) (psravw ?i ?t)"
    using lanes by (auto simp: agree_def eget_def)
  then have "\<not> declared [gpr 3] [gpr 5] (total psravw ?i :: ee_cpu \<Rightarrow> _)"
    using same by (fastforce simp: declared_def total_def)
  then show ?thesis
    by (intro exI [of _ ?i] exI [of _ "instr (total psravw) IntWide [gpr 3] [gpr 5]"] exI [of _ "total psravw"])
       (simp add: mmi instr_def)
qed

end
