(* ===== verification/Ee_Mmi_Lanes.thy ===== *)
theory Ee_Mmi_Lanes
  imports Ee_Mmi_Correct
begin

unbundle bit_operations_syntax

section \<open>The lane semantics of the multimedia instructions\<close>

text \<open>
  The loops of \<open>emotion_mmi.cpp\<close> write each result back before they read the next operands. They
  still compute what an instruction that reads both quadwords first computes, whatever registers
  coincide, because turn \<open>k\<close> reads lane \<open>k\<close> only. Saturating additions clamp the integer result,
  and the funnel shift is the shift of the 256 bits of both registers.
\<close>

subsection \<open>The loops and their reference\<close>

lemma eget_eset:
  fixes v :: "'w::len word"
  assumes "LENGTH('w) * j + LENGTH('w) \<le> 128"
  shows "eget q j (eset r v k s) = (if q = r \<and> r \<noteq> 0 \<and> j = k then v else eget q j s)"
  using assms by (auto simp: eget_def eset_gpr lane_put_lane)

lemma lane_put_whole [simp]: "put_lane 0 q p = q" "lane 0 q = q" for q p :: quad
proof -
  show "lane 0 q = q" by (simp add: lane_def)
  then show "put_lane 0 q p = q" using lane_put_lane [of 0 0 q p] by (simp add: lane_def)
qed

text \<open>What only writes general registers.\<close>

lemma gpr_only_eset: "t = s\<lparr>ee_gpr := ee_gpr t\<rparr> \<Longrightarrow> eset r v k t = s\<lparr>ee_gpr := ee_gpr (eset r v k t)\<rparr>"
proof -
  assume "t = s\<lparr>ee_gpr := ee_gpr t\<rparr>"
  then obtain g where "t = s\<lparr>ee_gpr := g\<rparr>" by blast
  then show ?thesis by (simp add: eset_def)
qed

lemma gpr_only_refl: "s = s\<lparr>ee_gpr := ee_gpr s\<rparr>"
  by simp

lemma eset_eqI:
  fixes f :: "nat \<Rightarrow> 'w::len word"
  assumes w: "LENGTH('w) * n = 128"
    and g: "\<And>q. q \<noteq> r \<or> r = 0 \<Longrightarrow> ee_gpr t q = ee_gpr s q" and rest: "t = s\<lparr>ee_gpr := ee_gpr t\<rparr>"
    and l: "\<And>k. k < n \<Longrightarrow> r \<noteq> 0 \<Longrightarrow> eget r k t = f k"
  shows "t = eset r (of_lanes n f) 0 s"
proof (cases "r = 0")
  case True
  then have "ee_gpr t = ee_gpr s" using g by blast
  then show ?thesis using rest True by (simp add: eset_def)
next
  case False
  have "ee_gpr t r = of_lanes n f"
    by (rule lane_eqI [where 'w = 'w, OF w]) (use False l in \<open>simp add: eget_def lane_of_lanes [OF w]\<close>)
  then have "ee_gpr t = (ee_gpr s)(r := put_lane 0 (of_lanes n f) (ee_gpr s r))"
    using g by auto
  then show ?thesis using rest False by (simp add: eset_def)
qed

lemma lane_bound: "LENGTH('w::len) * n = 128 \<Longrightarrow> k < n \<Longrightarrow> LENGTH('w) * k + LENGTH('w) \<le> 128"
proof -
  assume "LENGTH('w) * n = 128" "k < n"
  then have "LENGTH('w) * Suc k \<le> LENGTH('w) * n" by (intro mult_left_mono) auto
  then show ?thesis using \<open>LENGTH('w) * n = 128\<close> by simp
qed

text \<open>A loop over the lanes whose turn \<open>k\<close> depends on lane \<open>k\<close> of the registers only.\<close>

lemma lane_loop:
  fixes F :: "nat \<Rightarrow> 'a ee_cpu_scheme \<Rightarrow> 'w::len word"
  assumes w: "LENGTH('w) * n = 128"
    and F: "\<And>k s t. k < n \<Longrightarrow> (\<And>q. (eget q k s :: 'w word) = eget q k t) \<Longrightarrow> F k s = F k t"
  shows "fold (\<lambda>k s. eset r (F k s) k s) [0..<n] s = eset r (of_lanes n (\<lambda>k. F k s)) 0 s"
proof -
  let ?L = "\<lambda>m. fold (\<lambda>k s. eset r (F k s) k s) [0..<m] s"
  have gprs: "q \<noteq> r \<or> r = 0 \<Longrightarrow> ee_gpr (?L m) q = ee_gpr s q" for q m
    by (induction m) (auto simp: eset_gpr)
  have rest: "?L m = s\<lparr>ee_gpr := ee_gpr (?L m)\<rparr>" for m
  proof (induction m)
    case (Suc m)
    have "?L (Suc m) = eset r (F m (?L m)) m (?L m)" by simp
    then show ?case using gpr_only_eset [OF Suc.IH] by (simp only:)
  qed simp
  have lanes: "m \<le> n \<Longrightarrow> j < n \<Longrightarrow> eget q j (?L m) = (if q = r \<and> r \<noteq> 0 \<and> j < m then F j s else eget q j s)" for m j q
  proof (induction m arbitrary: j q)
    case (Suc m)
    have "F m (?L m) = F m s" using Suc by (intro F) auto
    then show ?case using Suc by (auto simp: eget_eset [OF lane_bound [OF w]] less_Suc_eq)
  qed simp
  show ?thesis
    by (rule eset_eqI [OF w]) (use gprs rest lanes [of n _ r] in auto)
qed

lemma par_rw_eq_qw:
  fixes f :: "'w::len word \<Rightarrow> 'w word \<Rightarrow> 'w word"
  assumes "LENGTH('w) * n = 128"
  shows "par_rw n f i s = par_qw n f i s"
proof -
  have "fold (\<lambda>k s. eset (i_rd i) (f (eget (i_rs i) k s) (eget (i_rt i) k s)) k s) [0..<n] s =
     eset (i_rd i) (of_lanes n (\<lambda>k. f (eget (i_rs i) k s) (eget (i_rt i) k s))) 0 s"
    by (rule lane_loop [OF assms]) metis
  moreover have "lane k (eget128 r s) = (eget r k s :: 'w word)" for r k
    by (simp add: eget_def)
  ultimately show ?thesis by (simp add: par_rw_def par_qw_def Let_def)
qed



subsection \<open>Saturation\<close>

definition clamp_int :: "nat \<Rightarrow> int \<Rightarrow> int" where
  "clamp_int w v = max (- (2 ^ (w - 1))) (min (2 ^ (w - 1) - 1) v)"

lemma sint_down:
  fixes v :: "'v::len word"
  assumes "LENGTH('w::len) \<le> LENGTH('v)" "- (2 ^ (LENGTH('w) - 1)) \<le> sint v" "sint v < 2 ^ (LENGTH('w) - 1)"
  shows "sint (ucast v :: 'w word) = sint v"
proof -
  have "sint (ucast v :: 'w word) = signed_take_bit (LENGTH('w) - 1) (sint v)"
    using assms(1) by (simp add: signed_ucast_eq sint_uint [of v] signed_take_bit_signed_take_bit min_def)
  then show ?thesis using assms by (simp add: signed_take_bit_int_eq_self)
qed

lemma saturate:
  fixes v hi lo :: "'v::len word"
  assumes "LENGTH('w::len) \<le> LENGTH('v)"
    and "sint hi = 2 ^ (LENGTH('w) - 1) - 1" "sint lo = - (2 ^ (LENGTH('w) - 1))"
  shows "sint (ucast (let v = (if hi <s v then hi else v); v = (if v <s lo then lo else v) in v) :: 'w word) =
    clamp_int LENGTH('w) (sint v)"
proof -
  define r where "r = (let v = (if hi <s v then hi else v); v = (if v <s lo then lo else v) in v)"
  have r: "sint r = clamp_int LENGTH('w) (sint v)"
    using assms(2,3) by (auto simp: r_def clamp_int_def word_sless_alt Let_def)
  moreover have "sint (ucast r :: 'w word) = sint r"
    by (rule sint_down) (use assms(1) r in \<open>auto simp: clamp_int_def\<close>)
  ultimately show ?thesis by (simp add: r_def)
qed

lemma sint_scast_up:
  fixes a b :: "'w::len word"
  assumes "LENGTH('w) < LENGTH('v::len)"
  shows "sint (scast a + scast b :: 'v word) = sint a + sint b" "sint (scast a - scast b :: 'v word) = sint a - sint b"
proof -
  have up: "sint (scast x :: 'v word) = sint x" for x :: "'w word"
    using assms by (simp add: is_up sint_up_scast)
  have "2 * 2 ^ (LENGTH('w) - 1) \<le> (2 :: int) ^ (LENGTH('v) - 1)"
    using assms by (cases "LENGTH('w)") (auto simp flip: power_Suc intro!: power_increasing)
  then have *: "- (2 ^ (LENGTH('v) - 1)) \<le> sint a + sint b \<and> sint a + sint b < 2 ^ (LENGTH('v) - 1)"
      "- (2 ^ (LENGTH('v) - 1)) \<le> sint a - sint b \<and> sint a - sint b < 2 ^ (LENGTH('v) - 1)"
    using sint_ge [of a] sint_ge [of b] sint_lt [of a] sint_lt [of b] by linarith+
  show "sint (scast a + scast b :: 'v word) = sint a + sint b" "sint (scast a - scast b :: 'v word) = sint a - sint b"
    using * by (simp_all add: sint_word_ariths up signed_take_bit_int_eq_self)
qed

lemma eget_par_rw:
  fixes f :: "'w::len word \<Rightarrow> 'w word \<Rightarrow> 'w word"
  assumes "LENGTH('w) * n = 128" "k < n" "i_rd i \<noteq> 0"
  shows "eget (i_rd i) k (par_rw n f i s) = f (eget (i_rs i) k s) (eget (i_rt i) k s)"
proof -
  have "ee_gpr (par_qw n f i s) (i_rd i) = of_lanes n (\<lambda>k. f (lane k (ee_gpr s (i_rs i))) (lane k (ee_gpr s (i_rt i))))"
    using assms(3) by (simp add: par_qw_def Let_def eset_gpr eget_def)
  then show ?thesis
    by (simp add: par_rw_eq_qw [OF assms(1)] eget_def lane_of_lanes [OF assms(1,2)])
qed

lemma sat_values:
  "sint (sat_w v) = clamp_int 32 (sint v)" "sint (sat_h u) = clamp_int 16 (sint u)" "sint (sat_b t) = clamp_int 8 (sint t)"
  using saturate [where 'w = 32 and hi = "0x7FFFFFFF" and lo = "- 0x80000000" and v = v] saturate [where 'w = 16 and hi = "0x7FFF" and lo = "- 0x8000" and v = u]
    saturate [where 'w = 8 and hi = "0x7F" and lo = "- 0x80" and v = t]
  by (simp_all add: sat_w_def sat_h_def sat_b_def Let_def)



subsection \<open>The funnel shift\<close>

lemma bit_quad2: "n < 128 \<Longrightarrow> bit (quad2 a b) n = (if n < 64 then bit a n else bit b (n - 64))"
  by (auto simp: quad2_def bit_put_lane)

lemma funnel_256:
  assumes "m < 128"
  shows "funnel m rs rt = ucast (drop_bit m (word_cat rs rt :: 256 word))"
proof (rule bit_word_eqI)
  fix n assume n: "n < LENGTH(128)"
  have cat: "bit (word_cat rs rt :: 256 word) k = (if k < 128 then bit rt k else bit rs (k - 128))" if "k < 256" for k
    using that by (auto simp: bit_word_cat_iff)
  show "bit (funnel m rs rt) n = bit (ucast (drop_bit m (word_cat rs rt :: 256 word)) :: quad) n"
    using n assms
    by (auto simp: funnel_def Let_def bit_quad2 bit_lane cat bit_simps add.commute [of n m])
qed

text \<open>C38: \<open>QFSRV\<close> shifts the 256 bits of \<open>rs\<close> and \<open>rt\<close> to the right by \<open>SA\<close> bytes and keeps the
  low quadword, for every value that the instructions can give \<open>SA\<close>.\<close>
theorem qfsrv_is_funnel_shift:
  assumes "ee_SA s < 16"
  shows "qfsrv i s = Inr (eset (i_rd i)
    (ucast (drop_bit (8 * unat (ee_SA s)) (word_cat (eget128 (i_rs i) s) (eget128 (i_rt i) s) :: 256 word)) :: quad) 0 s)"
proof -
  have "unat (ee_SA s) < 16" using assms by (simp add: word_less_nat_alt)
  then obtain k where k: "ee_SA s = of_nat k" "k < 16" using that [of "unat (ee_SA s)"] by simp
  then have "k \<in> set [0..<16]" by simp
  then have shift: "sint (ucast (ee_SA s * 8) :: u32) = int (8 * unat (ee_SA s))"
    unfolding k(1) by (simp add: upt_rec) (elim disjE; simp)
  show ?thesis
    unfolding qfsrv_def Let_def get_SA_def shift
    using \<open>unat (ee_SA s) < 16\<close> by (simp add: funnel_256 del: of_nat_mult)
qed

theorem qfsrv_is_funnel_shift_witness:
  "\<exists>s :: ee_cpu. ee_SA s < 16 \<and> qfsrv 0x70851EE8 s = Inr (eset 3 (1 :: quad) 0 s)"
proof -
  fix s :: ee_cpu
  let ?s = "s\<lparr>ee_SA := 1, ee_gpr := (\<lambda>_. 0)(5 := 0x100)\<rparr>"
  have cat: "ucast (drop_bit 8 (word_cat (0 :: quad) (0x100 :: quad) :: 256 word)) = (1 :: quad)" by code_simp
  have "qfsrv 0x70851EE8 ?s = Inr (eset 3 (1 :: quad) 0 ?s)"
    using qfsrv_is_funnel_shift [of ?s "0x70851EE8"] cat by (simp add: qfsrv_fields eget_def)
  then show ?thesis by (intro exI [of _ ?s]) simp
qed

subsection \<open>The formats of PMFHL\<close>

lemma sext_bounds: "sint (0x7FFF :: u32) = 0x7FFF" "sint (0xFFF80000 :: u32) = - 0x80000" "sint (0x8000 :: u16) = - 0x8000"
    "sint (0x7FFF :: u16) = 0x7FFF"
  by simp_all

lemma sint_clamp_halfword:
  "sint (clamp_halfword w) =
     (if - 0x80000 \<le> sint w \<and> sint w < - 0x8000 then sint (ucast w :: u16) else clamp_int 16 (sint w))"
proof -
  have "sint (ucast w :: u16) = sint w" if "- 0x8000 \<le> sint w" "sint w \<le> 0x7FFF"
    using that by (intro sint_down) simp_all
  then show ?thesis by (auto simp: clamp_halfword_def clamp_int_def word_sless_alt)
qed

text \<open>The words that \<open>PMFHL.SH\<close> saturates, in the order of the result.\<close>

definition pmfhl_words :: "'a ee_cpu_scheme \<Rightarrow> u32 list" where
  "pmfhl_words s =
     (let lo = both_LO s; hi = both_HI s
      in [lane 0 lo, lane 1 lo, lane 0 hi, lane 1 hi, lane 2 lo, lane 3 lo, lane 2 hi, lane 3 hi])"

text \<open>C39: \<open>PMFHL.SH\<close> saturates the words of \<open>LO\<close> and \<open>HI\<close> to halfwords, except those from
  -524288 to -32769, which it truncates: the constant of its lower bound has one digit too many.\<close>
theorem pmfhlsh_truncates_some_negatives:
  assumes "i_rd i \<noteq> 0" "k < 8"
  shows "sint (eget16 (i_rd i) k (pmfhlsh i s)) =
    (let w = pmfhl_words s ! k
     in if - 0x80000 \<le> sint w \<and> sint w < - 0x8000 then sint (ucast w :: u16) else clamp_int 16 (sint w))"
proof -
  have "eget16 (i_rd i) k (pmfhlsh i s) = clamp_halfword (pmfhl_words s ! k)"
    using assms by (simp add: pmfhlsh_def pmfhl_words_def Let_def eget_def eset_gpr lane_of_lanes lane_put_whole)
  then show ?thesis by (simp add: sint_clamp_halfword Let_def)
qed

theorem pmfhlsh_truncates_some_negatives_witness:
  "\<exists>s :: ee_cpu. sint (pmfhl_words s ! 0) = - 65536 \<and> sint (eget16 3 0 (pmfhlsh 0x70001930 s)) = 0"
proof -
  fix s :: ee_cpu
  let ?s = "s\<lparr>ee_LO := 0xFFFF0000\<rparr>" and ?i = "0x70001930 :: u32"
  have f: "i_rd ?i = 3" by code_simp
  have w: "pmfhl_words ?s ! 0 = 0xFFFF0000"
    by (simp add: pmfhl_words_def both_LO_def get_LO_def get_LO1_def quad2_def lane_def put_lane_def Let_def
        mask_eq_exp_minus_1)
  have "sint (eget16 3 0 (pmfhlsh ?i ?s)) = 0"
    using pmfhlsh_truncates_some_negatives [of ?i 0 ?s] by (simp add: f w Let_def)
  then show ?thesis using w by (intro exI [of _ ?s]) simp
qed

subsection \<open>Interleaving in place\<close>

text \<open>\<open>PINTH\<close> as the instruction is specified: the high halfwords of \<open>rs\<close> and the low ones of \<open>rt\<close>.\<close>

definition pinth_lanes :: "quad \<Rightarrow> quad \<Rightarrow> quad" where
  "pinth_lanes a b = of_lanes 8 (\<lambda>k. if even k then lane (k div 2) b else lane (k div 2 + 4) a :: u16)"

lemma pinth_distinct:
  assumes "i_rd i \<noteq> i_rt i" shows "pinth i s = eset (i_rd i) (pinth_lanes (eget128 (i_rs i) s) (eget128 (i_rt i) s)) 0 s"
proof -
  have l: "[0..<4] = [0, 1, 2, 3 :: nat]" and l8: "[0..<8] = [0, 1, 2, 3, 4, 5, 6, 7 :: nat]" by code_simp+
  show ?thesis
    unfolding pinth_lanes_def
  proof (rule eset_eqI)
    show "ee_gpr (pinth i s) q = ee_gpr s q" if "q \<noteq> i_rd i \<or> i_rd i = 0" for q
      using that by (auto simp: pinth_def l Let_def eset_gpr)
    show "pinth i s = s\<lparr>ee_gpr := ee_gpr (pinth i s)\<rparr>"
      unfolding pinth_def l Let_def fold_simps by (intro gpr_only_eset gpr_only_refl)
    show "eget (i_rd i) k (pinth i s) = (if even k then lane (k div 2) (eget128 (i_rt i) s) else lane (k div 2 + 4) (eget128 (i_rs i) s) :: u16)"
      if k: "k < 8" "i_rd i \<noteq> 0" for k
    proof -
      have "k \<in> set [0..<8]" using k by simp
      then show ?thesis using k(2) assms
        unfolding l8 list.set by (elim insertE emptyE; simp add: pinth_def l Let_def eget_eset; simp add: eget_def)
    qed
  qed simp
qed

text \<open>\<open>PINTH\<close> interleaves the high halfwords of \<open>rs\<close> with the low ones of \<open>rt\<close>, but when the
  destination is \<open>rt\<close> its loop overwrites halfword 1 of \<open>rt\<close> before it reads it, and the result is another.\<close>
lemma pinth_in_place:
  "\<exists>i s. i_rd i = i_rt i \<and> i_rd i \<noteq> 0 \<and>
     eget128 (i_rd i) (pinth i s) \<noteq> pinth_lanes (eget128 (i_rs i) s) (eget128 (i_rt i) (s :: ee_cpu))"
proof -
  fix s :: ee_cpu
  let ?i = "0x70852A89 :: u32" and ?s = "s\<lparr>ee_gpr := (\<lambda>_. 0)(5 := 0x00020000)\<rparr>"
  have f: "i_rd ?i = 5" "i_rs ?i = 4" "i_rt ?i = 5" by code_simp+
  have l: "[0..<4] = [0, 1, 2, 3 :: nat]" by code_simp
  have "lane 2 (eget128 5 (pinth ?i ?s)) = eget16 5 2 (pinth ?i ?s)" by (simp add: eget_def)
  also have "... = 0"
    by (simp add: pinth_def f l Let_def eget_eset) (simp add: eget_def lane_def)
  finally have "lane 2 (eget128 5 (pinth ?i ?s)) = (0 :: u16)" .
  moreover have "lane 2 (pinth_lanes (eget128 4 ?s) (eget128 5 ?s)) = (2 :: u16)"
    by (simp add: pinth_lanes_def lane_of_lanes eget_def) (simp add: lane_def)
  ultimately have "eget128 5 (pinth ?i ?s) \<noteq> pinth_lanes (eget128 4 ?s) (eget128 5 ?s)" by auto
  then show ?thesis by (intro exI [of _ ?i] exI [of _ ?s]) (simp only: f, simp)
qed

subsection \<open>Colours\<close>

lemma pack5_expand5: "pack5 (expand5 w) = w AND 0xFFFF"
proof (rule bit_word_eqI)
  fix n assume n: "n < LENGTH(32)"
  have l: "[0..<32] = [0, 1, 2, 3, 4, 5, 6, 7, 8, 9, 10, 11, 12, 13, 14, 15, 16, 17, 18, 19, 20, 21, 22, 23, 24, 25, 26, 27, 28, 29, 30, 31 :: nat]" by code_simp
  have "n \<in> set [0..<32]" using n by simp
  then show "bit (pack5 (expand5 w)) n = bit (w AND 0xFFFF) n"
    unfolding l list.set by (elim insertE emptyE; simp add: pack5_def expand5_def Let_def bit_simps)
qed

lemma eget_par_rt:
  fixes f :: "'w::len word \<Rightarrow> 'w word"
  assumes w: "LENGTH('w) * n = 128" and k: "k < n" "i_rd i \<noteq> 0"
  shows "eget (i_rd i) k (par_rt n f i s) = f (eget (i_rt i) k s)"
proof -
  have "par_rt n f i s = eset (i_rd i) (of_lanes n (\<lambda>k. f (eget (i_rt i) k s))) 0 s"
    unfolding par_rt_def by (rule lane_loop [OF w]) metis
  then show ?thesis using k by (simp add: eget_def eset_gpr lane_of_lanes [OF w])
qed

text \<open>\<open>PPAC5\<close> after \<open>PEXT5\<close> gives back the low halfword of every word, whatever registers they name.\<close>
lemma ppac5_pext5:
  assumes "i_rd i \<noteq> 0" "i_rt j = i_rd i" "i_rd j \<noteq> 0" "k < 4"
  shows "eget32 (i_rd j) k (ppac5 j (pext5 i s)) = eget32 (i_rt i) k s AND 0xFFFF"
  using assms by (simp add: ppac5_def pext5_def eget_par_rt pack5_expand5)

lemma ppac5_pext5_witness:
  "eget32 2 1 (ppac5 0x700317C8 (pext5 0x70041F88 s)) = eget32 4 1 (s :: ee_cpu) AND 0xFFFF"
proof -
  have "i_rd 0x70041F88 = 3" "i_rt 0x70041F88 = 4" "i_rt 0x700317C8 = 3" "i_rd 0x700317C8 = 2" by code_simp+
  then show ?thesis using ppac5_pext5 [of "0x70041F88" "0x700317C8" 1 s] by simp
qed

end
