(* ===== verification/Ee_Program.thy ===== *)
theory Ee_Program
  imports Ee_Interp_Correct Ee_Mmi_Lanes
begin

unbundle bit_operations_syntax

section \<open>Memory and control flow as a program sees them\<close>

text \<open>
  What a store leaves for a later load through the page tables, the pair of instructions that loads an
  unaligned doubleword, and the order in which a branch, its delay slot and its target run.
\<close>

subsection \<open>A load after a store\<close>

lemma page_ptr_keeps [simp]:
  "page_ptr b (ee_put p a v s) = page_ptr b s" "page_ptr b (set_tlb_modified n s) = page_ptr b s"
  by (auto simp: page_ptr_def ee_put_def set_tlb_modified_def split: mem_ptr.splits vtlb_id.splits)

lemma ee_get_put:
  fixes v :: "'w::len word"
  assumes "LENGTH('w) mod 8 = 0" "LENGTH('w) div 8 < 2 ^ 32" "p \<notin> {Null_ptr, Mmio}" "a AND 4095 = b AND 4095"
  shows "ee_get p b (ee_put p a v s) = v"
  using assms by (auto simp: ee_get_def ee_put_def get_put_le split: mem_ptr.splits)

text \<open>C15: a page of memory can be mapped at several addresses (the kernel's cached and uncached
  segments, and whatever the TLB adds): what a store writes through one of them, a load of the same
  width through any other one returns.\<close>

theorem ee_load_after_store:
  fixes v :: "'w::len word"
  assumes "LENGTH('w) \<in> {8, 16, 32, 64, 128}"
    and "page_ptr a s \<notin> {Null_ptr, Mmio}" "page_ptr b s = page_ptr a s" "a AND 4095 = b AND 4095"
  shows "\<exists>t. ee_store io_w a v s = Inr t \<and> ee_load io_r b t = Inr (v, t)"
proof -
  have w: "LENGTH('w) mod 8 = 0" "LENGTH('w) div 8 < 2 ^ 32" using assms(1) by auto
  show ?thesis
    using assms(2,3) ee_get_put [OF w assms(2,4)]
    by (auto simp: ee_store_def ee_load_def split: mem_ptr.splits)
qed

theorem ee_load_after_store_witness:
  "\<exists>t. ee_store (\<lambda>a v. Inr) 0x80001004 (0xCAFE :: u32) (blank 0) = Inr t \<and>
       ee_load (\<lambda>a s. Inr (0, s)) 0xA0001004 t = Inr (0xCAFE :: u32, t)"
proof (rule ee_load_after_store)
  have "page_ptr 0x80001004 (blank 0) = Rdram 0x1000" "page_ptr 0xA0001004 (blank 0) = Rdram 0x1000"
    by (simp_all add: page_ptr_def blank_def init_tlb_def blank_core_def get_mem_pointer_def)
  then show "page_ptr 0x80001004 (blank 0) \<notin> {Null_ptr, Mmio}"
    "page_ptr 0xA0001004 (blank 0) = page_ptr 0x80001004 (blank 0)" by simp_all
qed simp_all

subsection \<open>Unaligned doublewords\<close>

lemma less_8_cases: "k < 8 \<Longrightarrow> k \<in> {0, 1, 2, 3, 4, 5, 6, 7 :: nat}"
  by auto

lemma unaligned_tables:
  assumes "k < 8"
  shows "LDL_mask ! k = mask (56 - 8 * k)" "LDL_shift ! k = 56 - 8 * k"
    "LDR_mask ! k = NOT (mask (64 - 8 * k))" "LDR_shift ! k = 8 * k"
  using less_8_cases [OF assms]
  by (auto simp: LDL_mask_def LDL_shift_def LDR_mask_def LDR_shift_def mask_eq_exp_minus_1)

text \<open>The eight bytes from \<open>b + k\<close> put together from the doublewords at \<open>b\<close> and at \<open>b + 8\<close>.\<close>

lemma merge_doubleword:
  fixes v :: u64
  assumes "c < 7"
  shows "(((v AND LDL_mask ! c) OR push_bit (LDL_shift ! c) (get_le m (b + 8))) AND LDR_mask ! Suc c)
      OR drop_bit (LDR_shift ! Suc c) (get_le m b) = (get_le m (b + of_nat (Suc c)) :: u64)"
proof (rule bit_word_eqI)
  fix j assume "j < LENGTH(64)"
  then have j: "j < 64" by simp
  show "bit (((v AND LDL_mask ! c) OR push_bit (LDL_shift ! c) (get_le m (b + 8))) AND LDR_mask ! Suc c
      OR drop_bit (LDR_shift ! Suc c) (get_le m b)) j = bit (get_le m (b + of_nat (Suc c)) :: u64) j"
  proof (cases "j < 56 - 8 * c")
    case True
    then have "(8 + 8 * c + j) div 8 = Suc c + j div 8" "(8 + 8 * c + j) div 8 < 8" "8 + 8 * c + j < 64"
      by simp_all
    moreover have "(8 + 8 * c + j) mod 8 = (j + 8 * (c + 1)) mod 8" by (simp add: ac_simps)
    then have "(8 + 8 * c + j) mod 8 = j mod 8" by (simp only: mod_mult_self2)
    ultimately show ?thesis
      using True assms j by (simp add: unaligned_tables bit_simps bit_get_le add.assoc)
  next
    case False
    define i where "i = j - (56 - 8 * c)"
    have "j = i + 8 * (7 - c)" using False assms by (simp add: i_def algebra_simps)
    then have "j div 8 = i div 8 + (7 - c)" "j mod 8 = i mod 8" by simp_all
    moreover have "1 + (of_nat c + of_nat (7 - c)) = (8 :: u32)"
    proof -
      have "of_nat c + of_nat (7 - c) = (of_nat 7 :: u32)" using assms by (simp only: flip: of_nat_add) simp
      then show ?thesis by simp
    qed
    ultimately have "b + (1 + (of_nat c + of_nat (j div 8))) = b + (8 + of_nat (i div 8))" "i < 64" "i div 8 < 8"
      using j assms by (simp_all add: algebra_simps i_def)
    moreover have "j div 8 < 8" "\<not> 8 * c + j < 56" using j False by simp_all
    ultimately show ?thesis
      using False assms j \<open>j mod 8 = i mod 8\<close>
      by (simp add: unaligned_tables bit_simps bit_get_le i_def [symmetric] add.assoc)
  qed
qed

subsection \<open>The pair of loads\<close>

lemma split_low3: "a = (a AND NOT 7) + (a AND 7)" for a :: u32
proof -
  have "(a AND NOT 7) + (a AND 7) = (a AND NOT 7) OR (a AND 7)"
    by (rule disjunctive_add_eq_or) (simp add: ac_simps)
  then show ?thesis by (simp flip: bit.conj_disj_distrib)
qed

lemma aligned_sum:
  fixes x j :: u32
  assumes "x AND 7 = 0" "j < 8"
  shows "(x + j) AND NOT 7 = x" "(x + j) AND 7 = j" "(x + 8) AND 7 = 0"
proof -
  have j: "j AND 7 = j" using less_mask_eq [of j 3] assms(2) by (simp add: mask_eq_exp_minus_1)
  then have "x AND j = (x AND 7) AND j" by (simp add: and.assoc and.commute [of j])
  then have d: "x + j = x OR j" by (simp add: assms(1) disjunctive_add_eq_or)
  have "x AND NOT 7 = x" using split_low3 [of x] assms(1) by simp
  moreover have "j AND NOT 7 = (j AND 7) AND NOT 7" by (simp only: j)
  then have "j AND NOT 7 = 0" by (simp only: and.assoc bit.conj_cancel_right and_zero_eq)
  ultimately show "(x + j) AND NOT 7 = x" by (simp add: d bit.conj_disj_distrib2)
  show "(x + j) AND 7 = j" by (simp add: d bit.conj_disj_distrib2 assms(1) j)
  have "8 dvd unat x" using assms(1) and_mask_dvd_nat [of 3 x] by (simp add: mask_eq_exp_minus_1)
  then have "8 dvd unat (x + 8)" by (simp add: unat_word_ariths dvd_mod)
  then show "(x + 8) AND 7 = 0" using and_mask_dvd_nat [of 3 "x + 8"] by (simp add: mask_eq_exp_minus_1)
qed

lemma low3_cases: "\<exists>k < 8. (a :: u32) AND 7 = of_nat k"
proof (intro exI conjI)
  show "unat (a AND 7) < 8" using and_mask_less' [of 3 a] by (simp add: word_less_nat_alt mask_eq_exp_minus_1)
  show "a AND 7 = of_nat (unat (a AND 7))" by simp
qed

lemma put_lane_twice: "put_lane 0 v (put_lane 0 w q) = put_lane 0 v q" for v w :: u64
  by (rule bit_word_eqI) (simp add: bit_put_lane)

lemma eset_eset: "eset r v 0 (eset r w 0 s) = eset r v 0 s" for v w :: u64
  by (simp add: eset_def put_lane_twice)

lemma e_addr_eset: "i_rs i \<noteq> r \<Longrightarrow> e_addr i (eset r v 0 s) = e_addr i s" for v :: u64
  by (simp add: e_addr_def eget_def eset_def)

lemma page_same:
  "drop_bit 12 a = drop_bit 12 b \<Longrightarrow> page_ptr a s = page_ptr b s"
  "page_ptr a (eset r v 0 s) = page_ptr a s" "em_rdram (eset r v 0 s) = em_rdram s" for v :: u64
  by (simp_all add: page_ptr_def eset_def)

text \<open>A doubleword that lies in one page of main memory, at any address.\<close>

lemma read64_ram:
  assumes "page_ptr a s = Rdram d" "a AND 7 = 0"
  shows "ee_read64 env a s = Inr (get_le (em_rdram s) (d + (a AND 4095)), s)"
  using assms by (simp add: ee_read64_def aligned_def ee_load_def ee_get_def)

lemma page_low3: "drop_bit 12 (x AND NOT 7) = drop_bit 12 (x :: u32)"
proof -
  have "\<not> bit x n" if "32 \<le> n" for n using that by (auto dest: bit_imp_le_length)
  then show ?thesis by (intro u32_eqI) (simp add: reg_bits bit_simps)
qed

lemma page_offset: "x AND 4095 = x - push_bit 12 (drop_bit 12 (x :: u32))"
proof -
  have "push_bit 12 (drop_bit 12 x) OR (x AND 4095) = x" by (rule u32_eqI) (simp add: reg_bits bit_simps)
  moreover have "push_bit 12 (drop_bit 12 x) AND (x AND 4095) = 0" by (rule u32_eqI) (simp add: reg_bits bit_simps)
  ultimately have "push_bit 12 (drop_bit 12 x) + (x AND 4095) = x" by (simp add: disjunctive_add_eq_or)
  then show ?thesis by (metis add_diff_cancel_left')
qed

lemma ldl_ldr_ram:
  assumes "page_ptr (x AND NOT 7) s = Rdram d" "x AND 7 = of_nat k" "k < 8"
  shows "e_addr i s = x \<Longrightarrow> ee_ldl env i s = Inr (eset (i_rt i) ((rt64 i s AND LDL_mask ! k) OR
           push_bit (LDL_shift ! k) (get_le (em_rdram s) (d + ((x AND NOT 7) AND 4095)))) 0 s)"
    and "e_addr i s = x \<Longrightarrow> ee_ldr env i s = Inr (eset (i_rt i) ((rt64 i s AND LDR_mask ! k) OR
           drop_bit (LDR_shift ! k) (get_le (em_rdram s) (d + ((x AND NOT 7) AND 4095)))) 0 s)"
proof -
  have k: "unat (x AND 7) = k" using assms(2,3) by (simp add: unat_of_nat)
  have "(x AND NOT 7) AND 7 = 0" by (simp only: and.assoc bit.conj_cancel_left and_zero_eq)
  note r = read64_ram [OF assms(1) this]
  show "e_addr i s = x \<Longrightarrow> ee_ldl env i s = Inr (eset (i_rt i) ((rt64 i s AND LDL_mask ! k) OR
           push_bit (LDL_shift ! k) (get_le (em_rdram s) (d + ((x AND NOT 7) AND 4095)))) 0 s)"
    "e_addr i s = x \<Longrightarrow> ee_ldr env i s = Inr (eset (i_rt i) ((rt64 i s AND LDR_mask ! k) OR
           drop_bit (LDR_shift ! k) (get_le (em_rdram s) (d + ((x AND NOT 7) AND 4095)))) 0 s)"
    by (simp_all only: ee_ldl_def ee_ldr_def Let_def r k rbind.simps prod.case)
qed

lemma ldl_ldr:
  assumes "page_ptr a s = Rdram d" "drop_bit 12 (a + 7) = drop_bit 12 a"
    and "e_addr i s = a + 7" "e_addr j s = a" "i_rt i = r" "i_rt j = r" "r \<noteq> 0" "i_rs j \<noteq> r"
  shows "rbind (ee_ldl env i s) (ee_ldr env j) = Inr (eset r (get_le (em_rdram s) (d + (a AND 4095)) :: u64) 0 s)"
proof -
  obtain k where k: "k < 8" "a AND 7 = of_nat k" using low3_cases by blast
  define b where "b = a AND NOT 7"
  have b: "a = b + of_nat k" "b AND 7 = 0" using split_low3 [of a] k(2) by (simp_all add: b_def and.assoc)
  have low: "(a + 7) AND NOT 7 = (if k = 0 then b else b + 8)"
    "(a + 7) AND 7 = of_nat (if k = 0 then 7 else k - 1)"
  proof -
    have "(a + 7) AND NOT 7 = (if k = 0 then b else b + 8) \<and> (a + 7) AND 7 = of_nat (if k = 0 then 7 else k - 1)"
    proof (cases k)
      case (Suc c)
      have e: "a + 7 = (b + 8) + of_nat c" using b(1) Suc by simp
      moreover have "of_nat c < (8 :: u32)" using k(1) Suc by (simp add: word_less_nat_alt unat_of_nat)
      ultimately show ?thesis using aligned_sum(1,2) [OF aligned_sum(3) [OF b(2), of 0], of "of_nat c"] Suc unfolding e by simp
    qed (use b aligned_sum(1,2) [of b 7] in simp)
    then show "(a + 7) AND NOT 7 = (if k = 0 then b else b + 8)"
      "(a + 7) AND 7 = of_nat (if k = 0 then 7 else k - 1)" by simp_all
  qed
  have pb: "page_ptr (a AND NOT 7) u = page_ptr a u" "page_ptr ((a + 7) AND NOT 7) u = page_ptr a u" for u :: "'a ee_mach_scheme"
    using page_low3 [of a] page_low3 [of "a + 7"] assms(2) by (simp_all add: page_ptr_def)
  define m where "m = em_rdram s"
  define c where "c = d - push_bit 12 (drop_bit 12 a)"
  have off: "d + ((a AND NOT 7) AND 4095) = b + c" "d + (a AND 4095) = a + c"
    "d + (((a + 7) AND NOT 7) AND 4095) = ((a + 7) AND NOT 7) + c"
    using page_low3 [of a] page_low3 [of "a + 7"] assms(2) by (simp_all add: page_offset c_def b_def)
  define v where "v = (rt64 i s AND LDL_mask ! (if k = 0 then 7 else k - 1)) OR
    push_bit (LDL_shift ! (if k = 0 then 7 else k - 1)) (get_le m ((if k = 0 then b else b + 8) + c))"
  have "ee_ldl env i s = Inr (eset r v 0 s)"
  proof -
    have p: "page_ptr ((a + 7) AND NOT 7) s = Rdram d" using pb(2) assms(1) by simp
    have l: "(if k = 0 then 7 else k - 1) < 8" using k(1) by auto
    show ?thesis
      using ldl_ldr_ram(1) [OF p low(2) l assms(3), of env] unfolding off(3) unfolding low(1) v_def m_def assms(5) .
  qed
  moreover have "ee_ldr env j (eset r v 0 s) = Inr (eset r ((v AND LDR_mask ! k) OR drop_bit (LDR_shift ! k) (get_le m (b + c))) 0 s)"
  proof -
    have p: "page_ptr (a AND NOT 7) (eset r v 0 s) = Rdram d" using pb(1) assms(1) by (simp add: page_same(2))
    have e: "e_addr j (eset r v 0 s) = a" using assms(4,8) by (simp add: e_addr_eset)
    have g: "eget64 r 0 (eset r v 0 s) = v" using assms(7) by (simp add: eget_eset)
    show ?thesis
      using ldl_ldr_ram(2) [OF p k(2,1) e, of env] unfolding off(1) m_def assms(6) g page_same(3) eset_eset .
  qed
  moreover have "(v AND LDR_mask ! k) OR drop_bit (LDR_shift ! k) (get_le m (b + c)) = get_le m (a + c)"
  proof (cases k)
    case 0
    moreover have "NOT (mask 64 :: u64) = 0" by (rule bit_word_eqI) (simp add: bit_simps)
    ultimately show ?thesis using b(1) by (simp add: unaligned_tables)
  next
    case (Suc n)
    then show ?thesis
      using merge_doubleword [of n "rt64 i s" m "b + c"] k(1) b(1) by (simp add: v_def ac_simps)
  qed
  ultimately show ?thesis by (simp add: off m_def)
qed



subsection \<open>A call and its delay slot\<close>

lemma interp_step_bios:
  assumes "page_ptr (ee_PC s) s = Bios p" "\<not> is_cached (ee_PC s) s"
    and "get_le (em_bios s) (p + (ee_PC s AND 4095)) = i" "i \<noteq> 0"
    and "ee_lookup cop2_special env hf i = Inr (instr (total f) pi ws rs)"
    and "v = f i (s\<lparr>ee_cycles_to_run := ee_cycles_to_run s - 17, ee_cycle_count := ee_cycle_count s + 1\<rparr>)"
  shows "interp_step cop2_special env hf s = branch_step (ee_PC s) (set_PC (ee_PC v + 4) v)"
proof -
  have "read_instr (ee_PC s) (s\<lparr>ee_cycles_to_run := ee_cycles_to_run s - 1, ee_cycle_count := ee_cycle_count s + 1\<rparr>) =
      Inr (i, s\<lparr>ee_cycles_to_run := ee_cycles_to_run s - 17, ee_cycle_count := ee_cycle_count s + 1\<rparr>)"
    using assms(1-3) by (simp add: read_instr_def is_cached_def page_ptr_def ee_get_def split: vtlb_id.splits)
  then show ?thesis
    using assms(4-6) by (simp add: interp_step_def ee_interpret_def instr_def total_def Let_def)
qed

lemma lookup_normal:
  "drop_bit 26 i = 3 \<Longrightarrow> ee_lookup cop2_special env hf i = Inr (instr (total ee_jal) P_Branch [gpr 31] [])"
  "drop_bit 26 i = 9 \<Longrightarrow> ee_lookup cop2_special env hf i = Inr (instr (total ee_addiu) IntGeneric [gpr (i_rt i)] [gpr (i_rs i)])"
  by (simp_all add: ee_lookup_def switch_def normal_table_def Let_def)

lemma add_low32: "low32 (ucast a + imm64 i) = a + i_simm i"
  unfolding low32_def imm64_def i_simm_def by transfer (simp add: take_bit_eq_mod mod_simps mod_mod_cancel)

lemma jal_slot:
  assumes "ee_PC s = pc" "\<not> ee_branch_on s"
    and "page_ptr pc s = Bios p" "\<not> is_cached pc s" "get_le (em_bios s) (p + (pc AND 4095)) = call"
    and "page_ptr (pc + 4) s = Bios q" "\<not> is_cached (pc + 4) s" "get_le (em_bios s) (q + ((pc + 4) AND 4095)) = slot"
    and "drop_bit 26 call = 3" "drop_bit 26 slot = 9" "i_rs slot = 31" "i_rt slot \<noteq> 0"
    and "jump_target call pc \<noteq> 0" "jump_target call pc AND 3 = 0"
  shows "\<exists>u. rbind (interp_step cop2_special env hf s) (interp_step cop2_special env hf) = Inr u \<and>
           ee_PC u = jump_target call pc \<and> \<not> ee_branch_on u \<and> eget64 (i_rt slot) 0 u = sext (pc + 8 + i_simm slot)"
proof -
  define s1 where "s1 = ee_jal call (s\<lparr>ee_cycles_to_run := ee_cycles_to_run s - 17, ee_cycle_count := ee_cycle_count s + 1\<rparr>)"
  define t where "t = set_PC (pc + 4) (s1\<lparr>ee_delay_slot := 0\<rparr>)"
  define t1 where "t1 = ee_addiu slot (t\<lparr>ee_cycles_to_run := ee_cycles_to_run t - 17, ee_cycle_count := ee_cycle_count t + 1\<rparr>)"
  have nz: "call \<noteq> 0" "slot \<noteq> 0" using assms(9,10) by auto
  have one: "interp_step cop2_special env hf s = Inr t"
    using interp_step_bios [OF _ _ _ nz(1) lookup_normal(1) s1_def, of p] assms
    by (simp add: t_def s1_def ee_jal_def ee_jp_def branch_step_def set_PC_def eset_def)
  have t: "ee_PC t = pc + 4" "ee_branch_on t" "ee_delay_slot t = 0" "ee_new_PC t = jump_target call pc"
    "page_ptr (pc + 4) t = page_ptr (pc + 4) s" "is_cached (pc + 4) t = is_cached (pc + 4) s" "em_bios t = em_bios s"
    "eget64 31 0 t = ucast (pc + 8)"
    by (simp_all add: t_def s1_def ee_jal_def ee_jp_def set_PC_def eset_def assms(1) page_ptr_def is_cached_def eget_def
        lane_put_lane split: vtlb_id.splits)
  have two: "interp_step cop2_special env hf t = Inr (set_PC (jump_target call pc) (t1\<lparr>ee_branch_on := False\<rparr>))"
    using interp_step_bios [OF _ _ _ nz(2) lookup_normal(2) t1_def, of q] assms t
    by (simp add: t1_def ee_addiu_def branch_step_def set_PC_def eset_def)
  have "low32 (ucast (pc + 8) + imm64 slot) = pc + 8 + i_simm slot"
    by (rule add_low32)
  then have "eget64 (i_rt slot) 0 t1 = sext (pc + 8 + i_simm slot)"
    using assms(11,12) t(8) by (simp add: t1_def ee_addiu_def eget_def eset_def lane_put_lane)
  then show ?thesis
    using assms(12) by (simp add: one two set_PC_def eget_def)
qed


text \<open>\<open>jal 0xBFC00100\<close> at the reset vector, with \<open>addiu $2, $31, 4\<close> behind it.\<close>

definition call_bios :: "u32 \<Rightarrow> u8" where
  "call_bios = put_le 0 (0x0FF00040 :: u32) (put_le 4 (0x27E20004 :: u32) (\<lambda>_. 0))"


end
