(* ===== verification/Ee_Fpu_Correct.thy ===== *)
theory Ee_Fpu_Correct
  imports Ee_Interp_Correct
begin

unbundle bit_operations_syntax

section \<open>Properties of the floating point unit\<close>

text \<open>
  The unit has no infinities, NaNs or denormals. Whatever is in the source registers, an addition,
  subtraction, multiplication or division leaves an ordinary number, given the documented behaviour
  of the host's IEEE 754 arithmetic that finite operands give no NaN.
\<close>

definition f_ordinary :: "u32 \<Rightarrow> bool" where
  "f_ordinary v \<longleftrightarrow> v AND 0x7F800000 \<noteq> 0x7F800000 \<and> (v AND 0x7F800000 = 0 \<longrightarrow> v AND 0x7FFFFF = 0)"

lemma f_is_nan_masks: "f_is_nan v \<longleftrightarrow> v AND 0x7F800000 = 0x7F800000 \<and> v AND 0x7FFFFF \<noteq> 0"
proof -
  have e: "push_bit 23 (fld v 23 8) = v AND 0x7F800000"
    by (rule u32_eqI) (simp add: fld_def reg_bits bit_simps)
  have m: "fld v 23 8 = drop_bit 23 (v AND 0x7F800000)"
    by (rule u32_eqI) (simp add: fld_def reg_bits bit_simps)
  have "unat (fld v 23 8) = 255 \<longleftrightarrow> fld v 23 8 = 255"
    by (simp add: word_unat_eq_iff)
  also have "\<dots> \<longleftrightarrow> v AND 0x7F800000 = 0x7F800000"
  proof
    assume "fld v 23 8 = 255"
    from e [unfolded this] show "v AND 0x7F800000 = 0x7F800000" by simp
  next
    assume "v AND 0x7F800000 = 0x7F800000"
    from m [unfolded this] show "fld v 23 8 = 255" by simp
  qed
  finally show ?thesis
    by (auto simp: f_is_nan_def f_exponent_def f_mantissa_def unat_eq_0)
qed

lemma ordinary_convert: "f_ordinary (f_convert v)"
proof -
  have "((v AND 0x80000000) OR 0x7F7FFFFF) AND 0x7F800000 = (0x7F000000 :: u32)"
    "(v AND 0x80000000) AND 0x7F800000 = (0 :: u32)" "(v AND 0x80000000) AND 0x7FFFFF = (0 :: u32)"
    by (rule u32_eqI; simp add: reg_bits bit_simps)+
  then show ?thesis by (auto simp: f_convert_def f_ordinary_def)
qed

lemma ordinary_checked:
  assumes "\<not> f_is_nan v" shows "f_ordinary (fst (f_checked flags (v, c)))"
proof -
  have m: "((v AND 0x80000000) OR 0x7F7FFFFF) AND 0x7F800000 = (0x7F000000 :: u32)"
    "(v AND 0x80000000) AND 0x7F800000 = (0 :: u32)" "(v AND 0x80000000) AND 0x7FFFFF = (0 :: u32)"
    by (rule u32_eqI; simp add: reg_bits bit_simps)+
  have n: "v AND NOT 0x80000000 = (v AND 0x7F800000) OR (v AND 0x7FFFFF)"
    by (rule u32_eqI; simp add: reg_bits bit_simps)
  show ?thesis
    using assms m n unfolding f_is_nan_masks
    by (auto simp: f_checked_def check_overflow_def check_underflow_def f_ordinary_def)
qed

lemma ordinary_finite: "f_ordinary v \<Longrightarrow> v AND 0x7F800000 \<noteq> 0x7F800000"
  by (simp add: f_ordinary_def)

subsection \<open>Operands of an addition\<close>

lemma minus_one_u32: "(0xFFFFFFFF :: u32) = - 1"
  by simp

lemma finite_masked:
  assumes "f_ordinary v" "n < 24" shows "(v AND push_bit n 0xFFFFFFFF) AND 0x7F800000 \<noteq> 0x7F800000"
    "(v AND 0x80000000) AND 0x7F800000 \<noteq> (0x7F800000 :: u32)"
proof -
  have "push_bit n 0xFFFFFFFF AND 0x7F800000 = (0x7F800000 :: u32)"
    using assms(2) by (intro u32_eqI) (auto simp: minus_one_u32 reg_bits bit_simps)
  then show "(v AND push_bit n 0xFFFFFFFF) AND 0x7F800000 \<noteq> 0x7F800000"
    using ordinary_finite [OF assms(1)] by (simp add: and.assoc)
  have "(v AND 0x80000000) AND 0x7F800000 = (0 :: u32)" by (rule u32_eqI) (simp add: reg_bits bit_simps)
  then show "(v AND 0x80000000) AND 0x7F800000 \<noteq> (0x7F800000 :: u32)" by simp
qed

definition f_finite :: "u32 \<Rightarrow> bool" where "f_finite v \<longleftrightarrow> v AND 0x7F800000 \<noteq> 0x7F800000"

text \<open>IEEE 754: a sum or difference with a finite operand is a NaN only if the other one is; a product
  of finite numbers is none, nor a quotient of finite numbers whose divisor is not zero.\<close>

definition ieee :: "host_float \<Rightarrow> bool" where
  "ieee hf \<longleftrightarrow>
     (\<forall>a b. f_finite a \<longrightarrow> \<not> f_is_nan b \<longrightarrow> \<not> f_is_nan (hf_add hf a b) \<and> \<not> f_is_nan (hf_sub hf a b)) \<and>
     (\<forall>a b. f_finite a \<longrightarrow> f_finite b \<longrightarrow> \<not> f_is_nan (hf_mul hf a b)) \<and>
     (\<forall>a b. f_finite a \<longrightarrow> f_finite b \<longrightarrow> b AND 0x7F800000 \<noteq> 0 \<longrightarrow> \<not> f_is_nan (hf_div hf a b))"

lemma finite_not_nan: "f_finite v \<Longrightarrow> \<not> f_is_nan v"
  by (simp add: f_finite_def f_is_nan_masks)

lemma finite_convert: "f_finite (f_convert v)"
  using ordinary_convert [of v] by (simp add: f_ordinary_def f_finite_def)

lemma add_sub_not_nan:
  assumes "ieee hf" shows "\<not> f_is_nan (accurate_add_sub hf x y is_sub)"
proof -
  have fin: "f_finite (f_convert v AND push_bit n 0xFFFFFFFF)" if "n < 24" for v n
    using finite_masked(1) [OF ordinary_convert that, of v] by (simp add: f_finite_def)
  have sign: "f_finite (f_convert v AND 0x80000000)" for v
    using finite_masked(2) [OF ordinary_convert, of 0 v] by (simp add: f_finite_def)
  show ?thesis
    using assms fin sign finite_convert
    by (auto simp: accurate_add_sub_def Let_def ieee_def finite_not_nan)
qed

lemma div_not_nan:
  assumes "ieee hf" "b AND 0x7F800000 \<noteq> 0" shows "\<not> f_is_nan (hf_div hf (f_convert a) (f_convert b))"
proof -
  have "((b AND 0x80000000) OR 0x7F7FFFFF) AND 0x7F800000 = (0x7F000000 :: u32)"
    by (rule u32_eqI) (simp add: reg_bits bit_simps)
  then have "f_convert b AND 0x7F800000 \<noteq> 0" using assms(2) by (simp add: f_convert_def)
  then show ?thesis using assms(1) finite_convert by (simp add: ieee_def)
qed

lemma ordinary_largest: "f_ordinary ((v AND 0x80000000) OR 0x7F7FFFFF)"
proof -
  have "((v AND 0x80000000) OR 0x7F7FFFFF) AND 0x7F800000 = (0x7F000000 :: u32)"
    by (rule u32_eqI) (simp add: reg_bits bit_simps)
  then show ?thesis by (simp add: f_ordinary_def)
qed

subsection \<open>Results\<close>

lemmas not_nan = ordinary_checked add_sub_not_nan div_not_nan ordinary_largest ordinary_convert

lemma product_not_nan:
  assumes "ieee hf"
  shows "\<not> f_is_nan (hf_mul hf (f_convert a) (f_convert b))"
    "f_finite x \<Longrightarrow> \<not> f_is_nan (hf_add hf x (hf_mul hf (f_convert a) (f_convert b)))"
    "f_finite x \<Longrightarrow> \<not> f_is_nan (hf_sub hf x (hf_mul hf (f_convert a) (f_convert b)))"
    "\<not> f_is_nan (hf_add hf (f_convert a) (f_convert b))" "\<not> f_is_nan (hf_sub hf (f_convert a) (f_convert b))"
  using assms by (simp_all add: ieee_def finite_convert finite_not_nan)


lemma fpu_accumulator_stays_ordinary:
  assumes "ieee hf" "f_ordinary (fpu_acc s)"
  shows "\<forall>f \<in> set [fpu_adda hf, fpu_suba hf, fpu_mula hf, fpu_madda hf, fpu_msuba hf]. f_ordinary (fpu_acc (f i s))"
  using assms product_not_nan [OF assms(1)] ordinary_finite [OF assms(2)]
  by (auto simp: fpu_adda_def fpu_suba_def fpu_mula_def fpu_madda_def fpu_msuba_def adda_s_def suba_s_def
      mula_s_def madda_s_def msuba_s_def f_store_acc_def f_finite_def intro!: not_nan)

text \<open>A host that answers every sum with infinity, as it does for two large numbers.\<close>

definition overflowing :: host_float where
  "overflowing = \<lparr>hf_add = (\<lambda>a b. 0x7F800000), hf_sub = (\<lambda>a b. a), hf_mul = (\<lambda>a b. 0xFF800000), hf_div = (\<lambda>a b. a),
     hf_sqrt_abs = (\<lambda>a. a AND 0x7FFFFFFF), hf_of_int = (\<lambda>a. 0x3F800000)\<rparr>"


end
