(* ===== verification/Gif.thy ===== *)
theory Gif
  imports Ee_Dmac
begin

unbundle bit_operations_syntax

section \<open>The graphics interface\<close>

text \<open>
  \<open>src/core/gif.hpp\<close> and \<open>gif.cpp\<close>: three paths feed packets to the Graphics Synthesizer, one at a
  time; the others wait in \<open>path_queue\<close>, path 3 also with data in a FIFO of 16 quadwords. The
  Synthesizer is another component: the calls made to it are recorded in \<open>gs_calls\<close>, oldest first, and
  what it answers (whether it is stalled, the direction of its bus, the data it sends back) is a
  function of the calls made so far, the argument \<open>gs\<close>. Floats are their bit patterns.
\<close>

subsection \<open>State\<close>

datatype gs_call =
    GS_write64 u32 u64
  | GS_set_RGBA u8 u8 u8 u8 u32
  | GS_set_ST u32 u32
  | GS_set_UV u16 u16
  | GS_set_XYZF u32 u32 u32 u8 bool
  | GS_set_XYZ u32 u32 u32 bool
  | GS_set_CSR_FIFO u8
  | GS_assert_FINISH
  | GS_wake_thread
  | GS_read_download

record gs_unit =
  gs_stalled :: "gs_call list \<Rightarrow> bool"
  gs_busdir :: "gs_call list \<Rightarrow> bool"
  gs_download :: "gs_call list \<Rightarrow> 128 word \<times> bool"

record giftag =
  gt_NLOOP :: u16
  gt_end_of_packet :: bool
  gt_output_PRIM :: bool
  gt_PRIM :: u16
  gt_format :: u8
  gt_reg_count :: u8
  gt_regs :: u64
  gt_regs_left :: u8
  gt_data_left :: u32

record gif = dmac +
  gs_calls :: "gs_call list"
  gif_path :: "nat \<Rightarrow> giftag"
  gif_FIFO :: "128 word list"
  active_path :: nat
  outputting_path :: bool
  path_queue :: u8
  path_status :: "nat \<Rightarrow> u8"
  path3_vif_masked :: bool
  path3_mode_masked :: bool
  intermittent_mode :: bool
  path3_dma_running :: bool
  gif_temporary_stop :: bool
  internal_Q :: u32

text \<open>A call to the Synthesizer, and the tag of the active path.\<close>

definition gs_do :: "gs_call \<Rightarrow> 'a gif_scheme \<Rightarrow> 'a gif_scheme" where
  "gs_do c s = s\<lparr>gs_calls := gs_calls s @ [c]\<rparr>"

definition cur_tag :: "'a gif_scheme \<Rightarrow> giftag" where
  "cur_tag s = gif_path s (active_path s)"

definition put_tag :: "(giftag \<Rightarrow> giftag) \<Rightarrow> 'a gif_scheme \<Rightarrow> 'a gif_scheme" where
  "put_tag f s = s\<lparr>gif_path := (gif_path s)(active_path s := f (cur_tag s))\<rparr>"

definition path_bit :: "nat \<Rightarrow> u8" where "path_bit i = push_bit i 1"

definition gif_reset :: "'a gif_scheme \<Rightarrow> 'a gif_scheme" where
  "gif_reset s =
     gs_do (GS_set_CSR_FIFO 1)
       (s\<lparr>gif_path := (\<lambda>i. if i < 4 then (gif_path s i)\<lparr>gt_data_left := 0\<rparr> else gif_path s i),
          active_path := 0, path_queue := 0, path_status := (\<lambda>i. if i < 4 then 4 else path_status s i),
          gif_FIFO := [], intermittent_mode := False, path3_vif_masked := False,
          path3_mode_masked := False, path3_dma_running := False, gif_temporary_stop := False,
          outputting_path := False\<rparr>)"

subsection \<open>Packets\<close>

text \<open>\<open>process_PACKED\<close>: the register of the quadword is the next of the tag's list.\<close>

definition tag_reg :: "giftag \<Rightarrow> u8" where
  "tag_reg t = ucast (drop_bit (4 * (unat (gt_reg_count t) - unat (gt_regs_left t))) (gt_regs t)) AND 0xF"

definition finite_bits :: "u32 \<Rightarrow> u32" where
  "finite_bits v = (if v AND 0x7F800000 = 0x7F800000 then (v AND 0x80000000) OR 0x7F7FFFFF else v)"

definition packed_call :: "u8 \<Rightarrow> u32 \<Rightarrow> 128 word \<Rightarrow> gs_call list \<times> u32" where
  "packed_call r q data =
     (let data1 = ucast data :: u64; data2 = ucast (drop_bit 64 data) :: u64
      in if r = 0x0 then ([GS_write64 0 data1], q)
         else if r = 0x1
              then ([GS_set_RGBA (ucast data1) (ucast (drop_bit 32 data1)) (ucast data2) (ucast (drop_bit 32 data2)) q], q)
         else if r = 0x2
              then ([GS_set_ST (finite_bits (ucast (data1 AND 0xFFFFFF00)))
                               (finite_bits (ucast (drop_bit 32 data1 AND 0xFFFFFF00)))],
                    finite_bits (ucast (data2 AND 0xFFFFFF00)))
         else if r = 0x3
              then ([GS_set_UV (ucast (data1 AND 0x3FFF)) (ucast (drop_bit 32 data1 AND 0x3FFF))], q)
         else if r = 0x4
              then ([GS_set_XYZF (ucast (data1 AND 0xFFFF)) (ucast (drop_bit 32 data1 AND 0xFFFF))
                       (ucast (drop_bit 4 data2 AND 0xFFFFFF)) (ucast (drop_bit 36 data2)) (\<not> bit data2 47)], q)
         else if r = 0x5
              then ([GS_set_XYZ (ucast (data1 AND 0xFFFF)) (ucast (drop_bit 32 data1 AND 0xFFFF))
                       (ucast data2) (\<not> bit data2 47)], q)
         else if r = 0xA then ([GS_write64 0xA (push_bit 20 data2)], q)
         else if r = 0xE
              then (if data2 AND 0xFF \<noteq> 0x7F then [GS_write64 (ucast (data2 AND 0xFF)) data1] else [], q)
         else if r = 0xF then ([], q)
         else ([GS_write64 (ucast r) data1], q))"

definition process_PACKED :: "128 word \<Rightarrow> 'a gif_scheme \<Rightarrow> 'a gif_scheme" where
  "process_PACKED data s =
     (let (calls, q) = packed_call (tag_reg (cur_tag s)) (internal_Q s) data
      in s\<lparr>gs_calls := gs_calls s @ calls, internal_Q := q\<rparr>)"

text \<open>The registers of a tag go round; after each round one loop of \<open>NLOOP\<close> is done.\<close>

definition next_reg :: "giftag \<Rightarrow> giftag" where
  "next_reg t =
     (let t = t\<lparr>gt_regs_left := gt_regs_left t - 1\<rparr>
      in if gt_regs_left t = 0 then t\<lparr>gt_regs_left := gt_reg_count t, gt_data_left := gt_data_left t - 1\<rparr> else t)"

definition reglist_write :: "u64 \<Rightarrow> 'a gif_scheme \<Rightarrow> 'a gif_scheme" where
  "reglist_write v s =
     (let r = tag_reg (cur_tag s)
      in put_tag next_reg (if r \<noteq> 0xE then gs_do (GS_write64 (ucast r) v) s else s))"

text \<open>With an odd number of registers the last doubleword of the packet is discarded.\<close>

definition process_REGLIST :: "128 word \<Rightarrow> 'a gif_scheme \<Rightarrow> 'a gif_scheme" where
  "process_REGLIST data s =
     (let last = gt_regs_left (cur_tag s) = 1;
          s = reglist_write (ucast data) s
      in if last \<and> gt_data_left (cur_tag s) = 0 then s
         else reglist_write (ucast (drop_bit 64 data)) s)"

definition read_tag :: "u64 \<Rightarrow> u64 \<Rightarrow> giftag" where
  "read_tag data1 data2 =
     (let n = ucast (drop_bit 60 data1) :: u8; n = (if n = 0 then 16 else n); loops = ucast (data1 AND 0x7FFF)
      in \<lparr>gt_NLOOP = loops, gt_end_of_packet = bit data1 15, gt_output_PRIM = bit data1 46,
          gt_PRIM = ucast (drop_bit 47 data1 AND 0x7FF), gt_format = ucast (drop_bit 58 data1 AND 3),
          gt_reg_count = n, gt_regs = data2, gt_regs_left = n, gt_data_left = ucast loops\<rparr>)"

subsection \<open>The queue of paths\<close>

text \<open>\<open>arbitrate_paths\<close>: the lowest numbered waiting path takes over; an active path of a higher number
  goes back to the queue.\<close>

definition arbitrate_paths :: "'a gif_scheme \<Rightarrow> 'a gif_scheme" where
  "arbitrate_paths s =
     (case filter (\<lambda>i. path_queue s AND path_bit i \<noteq> 0) [1, 2, 3] of
        [] \<Rightarrow> s
      | new_path # _ \<Rightarrow>
          if active_path s \<noteq> 0 \<and> active_path s < new_path then s
          else let s = (if active_path s \<noteq> 0 then s\<lparr>path_queue := path_queue s OR path_bit (active_path s)\<rparr> else s);
                   s = s\<lparr>path_queue := path_queue s AND NOT (path_bit new_path), active_path := new_path\<rparr>
               in if new_path = 3 \<and> length (gif_FIFO s) \<le> 8 then dm_set_request GIF s else s)"

definition deactivate_PATH :: "nat \<Rightarrow> 'a gif_scheme \<Rightarrow> 'a gif_scheme" where
  "deactivate_PATH i s =
     (if path_status s i = 4
      then let s = s\<lparr>path_queue := path_queue s AND NOT (path_bit i)\<rparr>
           in if active_path s = i then arbitrate_paths (s\<lparr>active_path := 0\<rparr>) else s
      else if active_path s = i then gs_do (GS_set_CSR_FIFO 1) s else s)"

definition path3_masked :: "nat \<Rightarrow> 'a gif_scheme \<Rightarrow> bool \<times> 'a gif_scheme" where
  "path3_masked i s =
     (if i = 3 \<and> (path3_vif_masked s \<or> path3_mode_masked s) \<and> path_status s 3 = 4
      then (True, deactivate_PATH 3 s) else (False, s))"

definition interrupt_path3 :: "nat \<Rightarrow> 'a gif_scheme \<Rightarrow> bool \<times> 'a gif_scheme" where
  "interrupt_path3 i s =
     (if active_path s \<noteq> 3 then (False, s)
      else if i = 3 then (True, s)
      else if intermittent_mode s \<and> (path_status s 3 = 2 \<or> path_status s 3 = 3) then (True, arbitrate_paths s)
      else let (masked, s) = path3_masked 3 s
           in if masked then (True, arbitrate_paths s) else (False, s))"

definition request_PATH :: "nat \<Rightarrow> bool \<Rightarrow> 'a gif_scheme \<Rightarrow> 'a gif_scheme" where
  "request_PATH i canInterruptPath3 s =
     (if active_path s = 0 \<or> active_path s = i
      then let s = s\<lparr>active_path := i\<rparr>
           in if i = 3
              then let (masked, s) = path3_masked 3 s
                   in if \<not> masked \<or> length (gif_FIFO s) \<le> 15 then dm_set_request GIF s else s
              else s
      else let s = s\<lparr>path_queue := path_queue s OR path_bit i\<rparr>
           in if canInterruptPath3 then snd (interrupt_path3 i s) else s)"

definition intermittent_check :: "'a gif_scheme \<Rightarrow> 'a gif_scheme" where
  "intermittent_check s =
     (if active_path s = 3 \<and> intermittent_mode s \<and> (path_status s 3 = 2 \<or> path_status s 3 = 3)
      then arbitrate_paths s else s)"

definition path3_done :: "'a gif_scheme \<Rightarrow> bool" where
  "path3_done s \<longleftrightarrow> path_queue s AND path_bit 3 = 0 \<and> active_path s \<noteq> 3"

definition path_active :: "gs_unit \<Rightarrow> nat \<Rightarrow> bool \<Rightarrow> 'a gif_scheme \<Rightarrow> bool \<times> 'a gif_scheme" where
  "path_active gs i canInterruptPath3 s =
     (let s = (if i \<noteq> 3 \<and> canInterruptPath3 then snd (interrupt_path3 i s) else s)
      in (active_path s = i \<and> \<not> gs_stalled gs (gs_calls s) \<and> \<not> gif_temporary_stop s
          \<and> \<not> gs_busdir gs (gs_calls s), s))"

definition set_path3_vifmask :: "bool \<Rightarrow> 'a gif_scheme \<Rightarrow> bool \<times> 'a gif_scheme" where
  "set_path3_vifmask value s = (path3_vif_masked s \<and> \<not> value, s\<lparr>path3_vif_masked := value\<rparr>)"

definition resume_path3 :: "'a gif_scheme \<Rightarrow> 'a gif_scheme" where
  "resume_path3 s =
     (if path3_vif_masked s \<or> path3_mode_masked s then s
      else if gif_FIFO s \<noteq> [] \<and> path_status s 3 = 4
      then request_PATH 3 False (s\<lparr>path_status := (path_status s)(3 := 0)\<rparr>) else s)"

subsection \<open>Feeding quadwords\<close>

definition feed_tag :: "u64 \<Rightarrow> u64 \<Rightarrow> 'a gif_scheme \<Rightarrow> 'a gif_scheme" where
  "feed_tag data1 data2 s =
     (let t = read_tag data1 data2;
          s = put_tag (\<lambda>_. t) s;
          s = s\<lparr>path_status := (path_status s)(active_path s := gt_format t), internal_Q := 0x3F800000\<rparr>
      in if gt_data_left t \<noteq> 0
         then let s = gs_do (GS_set_CSR_FIFO 2) s
              in if gt_output_PRIM t \<and> gt_format t = 0 then gs_do (GS_write64 0 (ucast (gt_PRIM t))) s else s
         else s)"

definition feed_data :: "128 word \<Rightarrow> 'a gif_scheme \<Rightarrow> 'a gif_scheme" where
  "feed_data data s =
     (let f = gt_format (cur_tag s)
      in if f = 0 then put_tag next_reg (process_PACKED data s)
         else if f = 1 then process_REGLIST data s
         else put_tag (\<lambda>t. t\<lparr>gt_data_left := gt_data_left t - 1\<rparr>)
                (gs_do (GS_write64 0x54 (ucast (drop_bit 64 data))) (gs_do (GS_write64 0x54 (ucast data)) s)))"

definition end_packet :: "'a gif_scheme \<Rightarrow> 'a gif_scheme" where
  "end_packet s =
     (let s = s\<lparr>path_status := (path_status s)(active_path s := 4)\<rparr>;
          s = (if path_queue s = 0
               then (gs_do (GS_set_CSR_FIFO 1) (gs_do GS_assert_FINISH s))\<lparr>outputting_path := False\<rparr> else s);
          s = gs_do GS_wake_thread s
      in deactivate_PATH (active_path s) s)"

definition feed_GIF :: "128 word \<Rightarrow> 'a gif_scheme \<Rightarrow> 'a gif_scheme" where
  "feed_GIF data s =
     (let s = s\<lparr>outputting_path := True\<rparr>;
          s = (if gt_data_left (cur_tag s) = 0 then feed_tag (ucast data) (ucast (drop_bit 64 data)) s
               else feed_data data s)
      in if gt_data_left (cur_tag s) = 0 \<and> gt_end_of_packet (cur_tag s) then end_packet s else s)"

definition send_PATH :: "nat \<Rightarrow> 128 word \<Rightarrow> 'a gif_scheme \<Rightarrow> 'a gif_scheme" where
  "send_PATH i quad = feed_GIF quad"

definition send_PATH1 :: "128 word \<Rightarrow> 'a gif_scheme \<Rightarrow> bool \<times> 'a gif_scheme" where
  "send_PATH1 quad s =
     (let s = feed_GIF quad s
      in (gt_data_left (gif_path s 1) = 0 \<and> gt_end_of_packet (gif_path s 1), s))"

definition send_PATH2 :: "u32 list \<Rightarrow> 'a gif_scheme \<Rightarrow> 'a gif_scheme" where
  "send_PATH2 ws = feed_GIF (foldr (\<lambda>w q. push_bit 32 q OR ucast w) (take 4 ws) 0)"

definition send_PATH3 :: "gs_unit \<Rightarrow> 128 word \<Rightarrow> 'a gif_scheme \<Rightarrow> 'a gif_scheme res" where
  "send_PATH3 gs data s =
     (let s = (if path3_done s then request_PATH 3 False s else s);
          (masked, s) = path3_masked 3 s;
          (active, s) = (if masked then (False, s) else path_active gs 3 False s)
      in if \<not> masked \<and> active then Inr (feed_GIF data s)
         else if length (gif_FIFO s) < 16
         then let s = s\<lparr>gif_FIFO := gif_FIFO s @ [data]\<rparr>
              in if 15 < length (gif_FIFO s) then dm_clear_request GIF s else Inr s
         else Inr s)"

definition send_PATH3_FIFO :: "128 word \<Rightarrow> 'a gif_scheme \<Rightarrow> 'a gif_scheme" where
  "send_PATH3_FIFO data s = (if length (gif_FIFO s) < 16 then s\<lparr>gif_FIFO := gif_FIFO s @ [data]\<rparr> else s)"

definition gif_fifo_empty :: "'a gif_scheme \<Rightarrow> bool" where "gif_fifo_empty s \<longleftrightarrow> length (gif_FIFO s) = 0"
definition gif_fifo_full :: "'a gif_scheme \<Rightarrow> bool" where "gif_fifo_full s \<longleftrightarrow> length (gif_FIFO s) = 16"

definition fifo_draining :: "'a gif_scheme \<Rightarrow> bool \<times> 'a gif_scheme" where
  "fifo_draining s =
     (if gif_fifo_empty s then (False, s) else let (masked, s) = path3_masked 3 s in (\<not> masked, s))"

definition gif_dma_running :: "bool \<Rightarrow> 'a gif_scheme \<Rightarrow> 'a gif_scheme" where
  "gif_dma_running b s = s\<lparr>path3_dma_running := b\<rparr>"

text \<open>\<open>front\<close> and \<open>pop\<close> of an empty FIFO are undefined behaviour.\<close>

definition flush_path3_fifo :: "'a gif_scheme \<Rightarrow> 'a gif_scheme res" where
  "flush_path3_fifo s =
     (case gif_FIFO s of
        [] \<Rightarrow> Inl (Undefined ''front of an empty queue'')
      | q # _ \<Rightarrow>
          let s = feed_GIF q s; s = s\<lparr>gif_FIFO := tl (gif_FIFO s)\<rparr>
          in Inr (if gif_fifo_empty s
                  then let (masked, s) = (if path3_dma_running s then path3_masked 3 s else (True, s))
                       in if masked then deactivate_PATH 3 s else dm_set_request GIF s
                  else s))"

text \<open>The loop of \<open>run\<close>; it counts \<open>cycles\<close> down, so a negative number would not stop it.\<close>

fun gif_run_loop :: "gs_unit \<Rightarrow> nat \<Rightarrow> 'a gif_scheme \<Rightarrow> 'a gif_scheme res" where
  "gif_run_loop gs n s =
     (let (active, s) = path_active gs 3 False s
      in if \<not> active then Inr s
         else let (masked, s) = path3_masked 3 s
              in if masked \<or> gif_fifo_empty s then Inr s
                 else (case n of 0 \<Rightarrow> Inr s
                       | Suc n \<Rightarrow> rbind (flush_path3_fifo s) (gif_run_loop gs n)))"

declare gif_run_loop.simps [simp del]

definition gif_run :: "gs_unit \<Rightarrow> nat \<Rightarrow> 'a gif_scheme \<Rightarrow> 'a gif_scheme res" where
  "gif_run gs cycles s =
     (let (masked, s) = path3_masked 3 s;
          s = (if \<not> masked \<and> \<not> gif_fifo_empty s then request_PATH 3 False s else s)
      in gif_run_loop gs cycles s)"

definition read_GSFIFO :: "gs_unit \<Rightarrow> 'a gif_scheme \<Rightarrow> (128 word \<times> bool) \<times> 'a gif_scheme" where
  "read_GSFIFO gs s = (gs_download gs (gs_calls s), gs_do GS_read_download s)"

subsection \<open>Registers\<close>

definition gif_read_STAT :: "gs_unit \<Rightarrow> 'a gif_scheme \<Rightarrow> u32" where
  "gif_read_STAT gs s =
     flag_at 0 (path3_mode_masked s) OR flag_at 1 (path3_vif_masked s) OR flag_at 2 (intermittent_mode s)
     OR flag_at 6 (path_queue s AND path_bit 3 \<noteq> 0) OR flag_at 7 (path_queue s AND path_bit 2 \<noteq> 0)
     OR flag_at 8 (path_queue s AND path_bit 1 \<noteq> 0) OR flag_at 9 (outputting_path s)
     OR push_bit 10 (of_nat (active_path s)) OR flag_at 12 (gs_busdir gs (gs_calls s))
     OR (if gif_FIFO s \<noteq> [] then push_bit 24 (of_nat (length (gif_FIFO s)))
         else if path3_dma_running s then push_bit 24 16 else 0)"

definition gif_write_MODE :: "u32 \<Rightarrow> 'a gif_scheme \<Rightarrow> 'a gif_scheme" where
  "gif_write_MODE v s =
     (let was = path3_mode_masked s; s = s\<lparr>intermittent_mode := tst v 2, path3_mode_masked := tst v 0\<rparr>
      in if was \<and> \<not> path3_mode_masked s then resume_path3 s else s)"

definition gif_write_CTRL :: "u32 \<Rightarrow> 'a gif_scheme \<Rightarrow> 'a gif_scheme" where
  "gif_write_CTRL v s = (let s = (if tst v 0 then gif_reset s else s) in s\<lparr>gif_temporary_stop := tst v 1\<rparr>)"

end
