(* ===== verification/Gif_Correct.thy ===== *)
theory Gif_Correct
  imports Gif
begin

unbundle bit_operations_syntax

section \<open>Properties of the graphics interface\<close>

text \<open>
  The path queue and the tags stay well-formed under every operation, arbitration gives the interface to
  the lowest numbered waiting path, and a packet reaches the Synthesizer as the list of calls its tag
  describes.
\<close>

subsection \<open>Request lines do not touch the interface\<close>

definition gif_view :: "'a gif_scheme \<Rightarrow> _" where
  "gif_view s = (gs_calls s, gif_path s, gif_FIFO s, active_path s, outputting_path s, path_queue s, path_status s,
     path3_vif_masked s, path3_mode_masked s, intermittent_mode s, path3_dma_running s, gif_temporary_stop s, internal_Q s)"

lemma view_core:
  "gif_view (s\<lparr>dm_queue := q\<rparr>) = gif_view s" "gif_view (s\<lparr>dm_active := a\<rparr>) = gif_view s"
  "gif_view (put_chan i f s) = gif_view s" "gif_view (raise_stat n s) = gif_view s"
  by (simp_all add: gif_view_def put_chan_def raise_stat_def int1_check_def set_int1_signal_def
      ee_int1_def ee_handle_exception_def unhalt_def cop0_mtc_def Let_def)

lemma view_dm_set [simp]: "gif_view (dm_set_request i s) = gif_view s"
  by (simp add: dm_set_request_def check_for_activation_def view_core Let_def)

lemma view_dm_clear: "dm_clear_request i s = Inr t \<Longrightarrow> gif_view t = gif_view s"
  by (auto simp: dm_clear_request_def deactivate_channel_def view_core Let_def
      dm_find_new_active_channel_def split: if_splits option.splits list.splits)

lemmas view_fields = gif_view_def prod.inject

lemma dm_set_fields [simp]:
  "gs_calls (dm_set_request i s) = gs_calls s" "gif_path (dm_set_request i s) = gif_path s"
  "gif_FIFO (dm_set_request i s) = gif_FIFO s" "active_path (dm_set_request i s) = active_path s"
  "path_queue (dm_set_request i s) = path_queue s" "path_status (dm_set_request i s) = path_status s"
  using view_dm_set [of i s] by (simp_all only: view_fields)

subsection \<open>The invariant\<close>

definition tag_ok :: "giftag \<Rightarrow> bool" where
  "tag_ok t \<longleftrightarrow> (gt_data_left t \<noteq> 0 \<longrightarrow>
     0 < unat (gt_regs_left t) \<and> unat (gt_regs_left t) \<le> unat (gt_reg_count t) \<and> unat (gt_reg_count t) \<le> 16)"

definition waiting :: "'a gif_scheme \<Rightarrow> nat set" where
  "waiting s = {i. bit (path_queue s) i}"

definition queue_wf :: "'a gif_scheme \<Rightarrow> bool" where
  "queue_wf s \<longleftrightarrow> active_path s \<le> 3 \<and> waiting s \<subseteq> {1, 2, 3} \<and> active_path s \<notin> waiting s"

definition queue_ok :: "'a gif_scheme \<Rightarrow> bool" where
  "queue_ok s \<longleftrightarrow> queue_wf s \<and> (active_path s = 0 \<longrightarrow> waiting s = {})"

definition gif_ok :: "'a gif_scheme \<Rightarrow> bool" where
  "gif_ok s \<longleftrightarrow> queue_ok s \<and> (\<forall>i \<le> 3. tag_ok (gif_path s i)) \<and> length (gif_FIFO s) \<le> 16"

lemma gif_ok_view: "gif_view t = gif_view s \<Longrightarrow> gif_ok t = gif_ok s"
  by (simp add: gif_view_def gif_ok_def queue_ok_def queue_wf_def waiting_def)

lemma queued_iff: "i < 8 \<Longrightarrow> path_queue s AND path_bit i \<noteq> 0 \<longleftrightarrow> i \<in> waiting s"
proof -
  assume i: "i < 8"
  have "path_queue s AND path_bit i = (if bit (path_queue s) i then path_bit i else 0)"
    by (rule bit_word_eqI) (auto simp: path_bit_def bit_simps)
  moreover have "path_bit i \<noteq> 0" using i by (auto simp: path_bit_def bit_eq_iff bit_simps)
  ultimately show ?thesis by (simp add: waiting_def)
qed

lemma waiting_update:
  "i < 8 \<Longrightarrow> waiting (s\<lparr>path_queue := path_queue s OR path_bit i\<rparr>) = insert i (waiting s)"
  "waiting (s\<lparr>path_queue := path_queue s AND NOT (path_bit i)\<rparr>) = waiting s - {i}"
  by (auto simp: waiting_def path_bit_def bit_simps dest: bit_imp_le_length)

lemma waiting_other [simp]:
  "waiting (s\<lparr>active_path := a\<rparr>) = waiting s" "waiting (s\<lparr>path_status := p\<rparr>) = waiting s"
  "waiting (gs_do c s) = waiting s" "waiting (dm_set_request i s) = waiting s"
  by (simp_all add: waiting_def gs_do_def)

text \<open>What arbitration does: nothing if no path waits below the active one; otherwise the lowest waiting
  path becomes active and the active one waits.\<close>

lemma arbitrate_cases:
  assumes "queue_wf s"
  obtains (stay) "arbitrate_paths s = s" "\<forall>i \<in> waiting s. active_path s \<noteq> 0 \<and> active_path s < i"
  | (switch) n where "n \<in> waiting s" "\<forall>i \<in> waiting s. n \<le> i" "active_path s = 0 \<or> n < active_path s"
      "active_path (arbitrate_paths s) = n"
      "waiting (arbitrate_paths s) = (waiting s \<union> ({active_path s} - {0})) - {n}"
      "gif_path (arbitrate_paths s) = gif_path s" "gif_FIFO (arbitrate_paths s) = gif_FIFO s"
      "gs_calls (arbitrate_paths s) = gs_calls s" "path_status (arbitrate_paths s) = path_status s"
proof (cases "filter (\<lambda>i. path_queue s AND path_bit i \<noteq> 0) [1, 2, 3]")
  case Nil
  then have "waiting s = {}" using assms queued_iff [of _ s] by (auto simp: queue_wf_def split: if_splits)
  then show thesis using Nil stay by (simp add: arbitrate_paths_def)
next
  case (Cons n ns)
  then have n: "n \<in> waiting s" "\<forall>i \<in> waiting s. n \<le> i" "n \<le> 3" "n \<noteq> 0"
    using assms queued_iff [of _ s] by (auto simp: queue_wf_def split: if_splits)
  show thesis
  proof (cases "active_path s \<noteq> 0 \<and> active_path s < n")
    case True
    then show thesis using Cons n stay by (force simp: arbitrate_paths_def)
  next
    case False
    have active: "active_path s < 8" using assms by (simp add: queue_wf_def)
    show thesis
    proof (rule switch [OF n(1,2)])
      show "active_path s = 0 \<or> n < active_path s" using False n(1) assms by (auto simp: queue_wf_def)
      show "waiting (arbitrate_paths s) = (waiting s \<union> ({active_path s} - {0})) - {n}"
        using Cons False active by (auto simp: arbitrate_paths_def Let_def waiting_update)
    qed (use Cons False in \<open>simp_all add: arbitrate_paths_def Let_def\<close>)
  qed
qed

subsection \<open>Every operation keeps it\<close>

lemma gif_okI:
  "queue_ok t \<Longrightarrow> gif_path t = gif_path s \<Longrightarrow> gif_FIFO t = gif_FIFO s \<Longrightarrow> gif_ok s \<Longrightarrow> gif_ok t"
  by (simp add: gif_ok_def)

named_theorems gif_keeps

lemma arbitrate_queue_ok:
  assumes "queue_wf s" shows "queue_ok (arbitrate_paths s)"
  using assms
proof (cases rule: arbitrate_cases)
  case stay
  then show ?thesis using assms by (auto simp: queue_ok_def)
next
  case (switch n)
  then show ?thesis using assms by (auto simp: queue_ok_def queue_wf_def)
qed

lemma arbitrate_fields [simp]:
  "gif_path (arbitrate_paths s) = gif_path s" "gif_FIFO (arbitrate_paths s) = gif_FIFO s"
  "gs_calls (arbitrate_paths s) = gs_calls s" "path_status (arbitrate_paths s) = path_status s"
  by (simp_all add: arbitrate_paths_def Let_def split: list.splits)

lemma gif_arbitrate_ok [gif_keeps]: "gif_ok s \<Longrightarrow> gif_ok (arbitrate_paths s)"
  by (rule gif_okI [OF arbitrate_queue_ok]) (auto simp: gif_ok_def queue_ok_def)

lemma gs_do_ok [gif_keeps]: "gif_ok s \<Longrightarrow> gif_ok (gs_do c s)"
  by (simp add: gif_ok_def queue_ok_def queue_wf_def gs_do_def waiting_def)

lemma dm_set_ok [gif_keeps]: "gif_ok s \<Longrightarrow> gif_ok (dm_set_request i s)"
  using gif_ok_view [OF view_dm_set] by blast

lemma fields_ok [gif_keeps]:
  "gif_ok s \<Longrightarrow> gif_ok (s\<lparr>path_status := p\<rparr>)" "gif_ok s \<Longrightarrow> gif_ok (s\<lparr>outputting_path := b\<rparr>)"
  "gif_ok s \<Longrightarrow> gif_ok (s\<lparr>internal_Q := q\<rparr>)" "gif_ok s \<Longrightarrow> gif_ok (s\<lparr>path3_dma_running := b\<rparr>)"
  "gif_ok s \<Longrightarrow> gif_ok (s\<lparr>path3_vif_masked := b\<rparr>)" "gif_ok s \<Longrightarrow> gif_ok (s\<lparr>gif_temporary_stop := b\<rparr>)"
  "gif_ok s \<Longrightarrow> gif_ok (s\<lparr>intermittent_mode := b, path3_mode_masked := c\<rparr>)" "gif_ok s \<Longrightarrow> gif_ok (s\<lparr>gs_calls := cs\<rparr>)"
  "gif_ok s \<Longrightarrow> gif_ok (s\<lparr>gs_calls := cs, internal_Q := q\<rparr>)"
  "gif_ok s \<Longrightarrow> gif_ok (s\<lparr>path_status := p, internal_Q := q\<rparr>)"
  by (simp_all add: gif_ok_def queue_ok_def queue_wf_def waiting_def)

lemma deactivate_ok [gif_keeps]:
  assumes "gif_ok s" shows "gif_ok (deactivate_PATH i s)"
proof -
  define t where "t = s\<lparr>path_queue := path_queue s AND NOT (path_bit i)\<rparr>"
  have w: "waiting t = waiting s - {i}" "active_path t = active_path s" "path_status t = path_status s"
    by (simp_all add: t_def waiting_update)
  have q: "queue_ok s" using assms by (simp add: gif_ok_def)
  have "gif_ok t" if "active_path s \<noteq> i"
    using assms q that w by (auto simp: gif_ok_def queue_ok_def queue_wf_def t_def)
  moreover have "gif_ok (arbitrate_paths (t\<lparr>active_path := 0\<rparr>))"
  proof (rule gif_okI [OF arbitrate_queue_ok _ _ assms])
    show "queue_wf (t\<lparr>active_path := 0\<rparr>)" using q w by (auto simp: queue_ok_def queue_wf_def)
  qed (simp_all add: t_def)
  ultimately show ?thesis
    using assms w by (auto simp: deactivate_PATH_def Let_def simp flip: t_def intro: gif_keeps)
qed

lemma masked_ok [gif_keeps]: "gif_ok s \<Longrightarrow> gif_ok (snd (path3_masked i s))"
  by (auto simp: path3_masked_def intro: gif_keeps)

lemma interrupt_ok [gif_keeps]: "gif_ok s \<Longrightarrow> gif_ok (snd (interrupt_path3 i s))"
  using masked_ok [of s 3] by (auto simp: interrupt_path3_def Let_def intro: gif_keeps split: prod.splits)

lemma request_ok [gif_keeps]:
  assumes "gif_ok s" "i \<in> {1, 2, 3}" shows "gif_ok (request_PATH i c s)"
proof -
  have q: "queue_ok s" using assms by (simp add: gif_ok_def)
  have a: "gif_ok (s\<lparr>active_path := i\<rparr>)" if "active_path s = 0 \<or> active_path s = i"
    using assms q that by (auto simp: gif_ok_def queue_ok_def queue_wf_def)
  have w: "gif_ok (s\<lparr>path_queue := path_queue s OR path_bit i\<rparr>)" if "active_path s \<noteq> 0" "active_path s \<noteq> i"
    using assms q that waiting_update(1) [of i s] by (auto simp: gif_ok_def queue_ok_def queue_wf_def)
  show ?thesis
    using masked_ok [OF a, of 3] a w
    by (auto simp: request_PATH_def Let_def intro: gif_keeps split: prod.splits)
qed

lemma path_active_ok [gif_keeps]: "gif_ok s \<Longrightarrow> gif_ok (snd (path_active gs i c s))"
  by (auto simp: path_active_def Let_def intro: gif_keeps)

lemma register_ok [gif_keeps]:
  assumes "gif_ok s"
  shows "gif_ok (resume_path3 s)" "gif_ok (gif_write_MODE v s)" "gif_ok (intermittent_check s)"
    "gif_ok (snd (set_path3_vifmask b s))" "gif_ok (gif_dma_running b s)" "gif_ok (snd (read_GSFIFO gs s))"
proof -
  have r: "gif_ok (resume_path3 t)" if "gif_ok t" for t :: "'a gif_scheme"
    using that by (auto simp: resume_path3_def intro: gif_keeps)
  then show "gif_ok (resume_path3 s)" "gif_ok (gif_write_MODE v s)" 
    using assms by (auto simp: gif_write_MODE_def Let_def intro: gif_keeps)
qed (use assms in \<open>auto simp: gif_write_MODE_def intermittent_check_def set_path3_vifmask_def gif_dma_running_def
    read_GSFIFO_def Let_def intro: gif_keeps\<close>)

subsection \<open>Feeding\<close>

lemma put_tag_ok [gif_keeps]: "gif_ok s \<Longrightarrow> tag_ok (f (cur_tag s)) \<Longrightarrow> gif_ok (put_tag f s)"
  by (auto simp: gif_ok_def queue_ok_def queue_wf_def waiting_def put_tag_def cur_tag_def)

lemma cur_tag_ok: "gif_ok s \<Longrightarrow> tag_ok (cur_tag s)"
  by (simp add: gif_ok_def queue_ok_def queue_wf_def cur_tag_def)

lemma read_tag_ok: "tag_ok (read_tag a b)"
proof -
  have "(ucast (drop_bit 60 a) :: u8) = ucast (drop_bit 60 a) AND mask 4"
    by (rule bit_word_eqI) (auto simp: bit_simps dest: bit_imp_le_length)
  moreover have "(ucast (drop_bit 60 a) :: u8) AND mask 4 < 2 ^ 4" by (rule and_mask_less') simp
  ultimately have "unat (ucast (drop_bit 60 a) :: u8) < 16" by (simp add: word_less_nat_alt)
  then show ?thesis by (auto simp: read_tag_def tag_ok_def Let_def unat_gt_0)
qed

lemma next_reg_ok: "tag_ok t \<Longrightarrow> gt_data_left t \<noteq> 0 \<Longrightarrow> tag_ok (next_reg t)"
  by (auto simp: next_reg_def tag_ok_def Let_def unat_gt_0 unat_sub_if' Suc_le_eq)

lemma cur_tag_simps [simp]:
  "cur_tag (gs_do c s) = cur_tag s" "cur_tag (put_tag f s) = f (cur_tag s)"
  "cur_tag (s\<lparr>gs_calls := cs, internal_Q := q\<rparr>) = cur_tag s" "cur_tag (s\<lparr>outputting_path := b\<rparr>) = cur_tag s"
  "cur_tag (s\<lparr>path_status := p, internal_Q := q\<rparr>) = cur_tag s" "cur_tag (s\<lparr>path_status := p\<rparr>) = cur_tag s"
  by (simp_all add: cur_tag_def gs_do_def put_tag_def)

lemma feed_ok [gif_keeps]:
  assumes "gif_ok s" shows "gif_ok (feed_GIF data s)"
proof -
  have end_ok: "gif_ok (end_packet t)" if "gif_ok t" for t :: "'a gif_scheme"
    using that by (auto simp: end_packet_def Let_def intro!: gif_keeps)
  have tag: "gif_ok (feed_tag a b t)" if "gif_ok t" for a b and t :: "'a gif_scheme"
    using that read_tag_ok by (auto simp: feed_tag_def Let_def intro!: gif_keeps)
  have dat: "gif_ok (feed_data data t)" if "gif_ok t" "gt_data_left (cur_tag t) \<noteq> 0" for t :: "'a gif_scheme"
  proof -
    have packed: "gif_ok (process_PACKED data t)" "cur_tag (process_PACKED data t) = cur_tag t"
      using that(1) by (auto simp: process_PACKED_def split: prod.splits intro: gif_keeps)
    have reg: "gif_ok (reglist_write v u)" "cur_tag (reglist_write v u) = next_reg (cur_tag u)"
      if "gif_ok u" "gt_data_left (cur_tag u) \<noteq> 0" for v and u :: "'a gif_scheme"
      using that next_reg_ok [OF cur_tag_ok] by (auto simp: reglist_write_def Let_def intro!: gif_keeps)
    have "gif_ok (process_REGLIST data t)"
    proof -
      have "gt_data_left (next_reg (cur_tag t)) \<noteq> 0" if "\<not> (gt_regs_left (cur_tag t) = 1 \<and> gt_data_left (next_reg (cur_tag t)) = 0)"
        using that \<open>gt_data_left (cur_tag t) \<noteq> 0\<close> by (auto simp: next_reg_def Let_def)
      then show ?thesis
        using reg [OF reg(1) [OF that]] reg(1,2) [OF that] by (auto simp: process_REGLIST_def Let_def)
    qed
    then show ?thesis
      using that packed next_reg_ok [OF cur_tag_ok [OF that(1)] that(2)] cur_tag_ok [OF that(1)]
      by (auto simp: feed_data_def Let_def tag_ok_def intro!: gif_keeps)
  qed
  show ?thesis
    using assms by (auto simp: feed_GIF_def Let_def intro!: gif_keeps end_ok tag dat)
qed

lemma reset_ok: "gif_ok (gif_reset s)"
  by (simp add: gif_reset_def gs_do_def gif_ok_def queue_ok_def queue_wf_def waiting_def tag_ok_def)

lemma fifo_ok [gif_keeps]:
  "gif_ok s \<Longrightarrow> length q \<le> 16 \<Longrightarrow> gif_ok (s\<lparr>gif_FIFO := q\<rparr>)"
  by (simp add: gif_ok_def queue_ok_def queue_wf_def waiting_def)

lemma flush_ok:
  assumes "gif_ok s" shows "ok_post (flush_path3_fifo s) gif_ok"
proof (cases "gif_FIFO s")
  case (Cons q qs)
  define t where "t = (feed_GIF q s)\<lparr>gif_FIFO := tl (gif_FIFO (feed_GIF q s))\<rparr>"
  have "gif_ok (feed_GIF q s)" using assms by (rule feed_ok)
  then have t: "gif_ok t" unfolding t_def by (intro fifo_ok) (auto simp: gif_ok_def)
  have "flush_path3_fifo s = Inr (if gif_fifo_empty t then let (masked, s) = (if path3_dma_running t then path3_masked 3 t else (True, t))
         in if masked then deactivate_PATH 3 s else dm_set_request GIF s else t)"
    by (simp add: flush_path3_fifo_def Cons t_def Let_def)
  then show ?thesis
    using t masked_ok [OF t, of 3] by (auto split: prod.splits intro: gif_keeps)
qed (simp add: flush_path3_fifo_def)

lemma run_loop_ok: "gif_ok s \<Longrightarrow> ok_post (gif_run_loop gs n s) gif_ok"
proof (induction n arbitrary: s)
  case 0
  then show ?case
    using masked_ok [OF path_active_ok [OF 0, of gs 3 False], of 3] path_active_ok [OF 0, of gs 3 False]
    by (subst gif_run_loop.simps) (auto simp: Let_def split: prod.splits)
next
  case (Suc n)
  note m = masked_ok [OF path_active_ok [OF Suc.prems, of gs 3 False], of 3] path_active_ok [OF Suc.prems, of gs 3 False]
  have "ok_post (rbind (flush_path3_fifo u) (gif_run_loop gs n)) gif_ok" if "gif_ok u" for u :: "'a gif_scheme"
    by (rule ok_seq [OF flush_ok [OF that]]) (rule Suc.IH)
  then show ?case using m by (subst gif_run_loop.simps) (auto simp: Let_def split: prod.splits)
qed

lemma send3_ok:
  assumes "gif_ok s" shows "ok_post (send_PATH3 gs q s) gif_ok"
proof -
  define r where "r = (if path3_done s then request_PATH 3 False s else s)"
  define m where "m = path3_masked 3 r"
  define a where "a = (if fst m then (False, snd m) else path_active gs 3 False (snd m))"
  have "gif_ok r" using assms by (auto simp: r_def intro: gif_keeps)
  then have "gif_ok (snd m)" unfolding m_def by (rule masked_ok)
  then have a: "gif_ok (snd a)" by (auto simp: a_def intro: gif_keeps)
  have push: "gif_ok ((snd a)\<lparr>gif_FIFO := gif_FIFO (snd a) @ [q]\<rparr>)" if "length (gif_FIFO (snd a)) < 16"
    using a that by (auto intro: gif_keeps)
  have clear: "ok_post (dm_clear_request GIF u) gif_ok" if "gif_ok u" for u :: "'a gif_scheme"
    using that gif_ok_view [OF view_dm_clear] by (blast intro: ok_postI)
  have "send_PATH3 gs q s = (if \<not> fst m \<and> fst a then Inr (feed_GIF q (snd a))
      else if length (gif_FIFO (snd a)) < 16
      then if 15 < length (gif_FIFO (snd a) @ [q]) then dm_clear_request GIF ((snd a)\<lparr>gif_FIFO := gif_FIFO (snd a) @ [q]\<rparr>)
           else Inr ((snd a)\<lparr>gif_FIFO := gif_FIFO (snd a) @ [q]\<rparr>)
      else Inr (snd a))"
    by (simp add: send_PATH3_def Let_def r_def m_def a_def case_prod_beta)
  then show ?thesis
    using a push clear feed_ok [OF a] by (simp del: length_append)
qed

lemma gif_run_ok:
  assumes "gif_ok s" shows "ok_post (gif_run gs n s) gif_ok"
proof -
  have "gif_ok (snd (path3_masked 3 s))" using assms by (rule masked_ok)
  then show ?thesis
    by (auto simp: gif_run_def case_prod_beta Let_def intro!: run_loop_ok gif_keeps)
qed

lemma send_ok:
  assumes "gif_ok s"
  shows "gif_ok (send_PATH i q s)" "gif_ok (snd (send_PATH1 q s))" "gif_ok (send_PATH2 ws s)"
    "gif_ok (send_PATH3_FIFO q s)" "gif_ok (snd (fifo_draining s))" "gif_ok (gif_write_CTRL v s)"
  using assms reset_ok
  by (auto simp: send_PATH_def send_PATH1_def send_PATH2_def send_PATH3_FIFO_def fifo_draining_def gif_write_CTRL_def
      Let_def case_prod_beta intro!: gif_keeps)

subsection \<open>Reachable states\<close>

inductive gif_reachable :: "gs_unit \<Rightarrow> 'a gif_scheme \<Rightarrow> bool" for gs where
  r_reset: "gif_reachable gs (gif_reset s)"
| r_request: "gif_reachable gs s \<Longrightarrow> i \<in> {1, 2, 3} \<Longrightarrow> gif_reachable gs (request_PATH i c s)"
| r_deactivate: "gif_reachable gs s \<Longrightarrow> gif_reachable gs (deactivate_PATH i s)"
| r_active: "gif_reachable gs s \<Longrightarrow> gif_reachable gs (snd (path_active gs i c s))"
| r_masked: "gif_reachable gs s \<Longrightarrow> gif_reachable gs (snd (path3_masked i s))"
| r_vifmask: "gif_reachable gs s \<Longrightarrow> gif_reachable gs (snd (set_path3_vifmask b s))"
| r_resume: "gif_reachable gs s \<Longrightarrow> gif_reachable gs (resume_path3 s)"
| r_mode: "gif_reachable gs s \<Longrightarrow> gif_reachable gs (gif_write_MODE v s)"
| r_ctrl: "gif_reachable gs s \<Longrightarrow> gif_reachable gs (gif_write_CTRL v s)"
| r_check: "gif_reachable gs s \<Longrightarrow> gif_reachable gs (intermittent_check s)"
| r_dma: "gif_reachable gs s \<Longrightarrow> gif_reachable gs (gif_dma_running b s)"
| r_path: "gif_reachable gs s \<Longrightarrow> gif_reachable gs (send_PATH i q s)"
| r_path1: "gif_reachable gs s \<Longrightarrow> gif_reachable gs (snd (send_PATH1 q s))"
| r_path2: "gif_reachable gs s \<Longrightarrow> gif_reachable gs (send_PATH2 ws s)"
| r_path3: "gif_reachable gs s \<Longrightarrow> send_PATH3 gs q s = Inr t \<Longrightarrow> gif_reachable gs t"
| r_fifo: "gif_reachable gs s \<Longrightarrow> gif_reachable gs (send_PATH3_FIFO q s)"
| r_run: "gif_reachable gs s \<Longrightarrow> gif_run gs n s = Inr t \<Longrightarrow> gif_reachable gs t"
| r_download: "gif_reachable gs s \<Longrightarrow> gif_reachable gs (snd (read_GSFIFO gs s))"

lemma gif_reachable_ok: "gif_reachable gs s \<Longrightarrow> gif_ok s"
proof (induction rule: gif_reachable.induct)
  case (r_path3 s q t)
  then show ?case using ok_postD [OF send3_ok] by blast
next
  case (r_run s n t)
  then show ?case using ok_postD [OF gif_run_ok] by blast
qed (auto intro: reset_ok gif_keeps send_ok register_ok)

subsection \<open>Arbitration\<close>

lemma arbitrate_lowest:
  assumes "gif_ok s" "waiting s \<noteq> {}"
  shows "active_path (arbitrate_paths s) = Min (waiting s \<union> {active_path s})"
proof -
  have q: "queue_ok s" and w: "queue_wf s" using assms(1) by (simp_all add: gif_ok_def queue_ok_def)
  then have fin: "finite (waiting s)" "active_path s \<noteq> 0"
    using assms(2) by (auto simp: queue_ok_def queue_wf_def intro: finite_subset)
  from w show ?thesis
  proof (cases rule: arbitrate_cases)
    case stay
    then show ?thesis using fin by (simp add: Min_insert2 less_imp_le)
  next
    case (switch n)
    then show ?thesis using fin by (auto intro!: Min_eqI [symmetric])
  qed
qed

subsection \<open>A packet in PACKED mode\<close>

definition tag_regs :: "giftag \<Rightarrow> u8 list" where
  "tag_regs t = map (\<lambda>k. ucast (drop_bit (4 * k) (gt_regs t)) AND 0xF) [0..<unat (gt_reg_count t)]"

fun packed_calls :: "u8 list \<Rightarrow> u32 \<Rightarrow> 128 word list \<Rightarrow> gs_call list" where
  "packed_calls (r # rs) q (d # ds) = (let (cs, q') = packed_call r q d in cs @ packed_calls rs q' ds)"
| "packed_calls _ _ _ = []"

definition end_calls :: "'a gif_scheme \<Rightarrow> gs_call list" where
  "end_calls s = (if path_queue s = 0 then [GS_assert_FINISH, GS_set_CSR_FIFO 1] else []) @ [GS_wake_thread]"

definition regs_to_go :: "giftag \<Rightarrow> u8 list" where
  "regs_to_go t = drop (unat (gt_reg_count t) - unat (gt_regs_left t)) (tag_regs t) @
     concat (replicate (unat (gt_data_left t) - 1) (tag_regs t))"

lemma regs_to_go_next:
  assumes "tag_ok t" "gt_data_left t \<noteq> 0"
  shows "regs_to_go t = tag_reg t # (if gt_data_left (next_reg t) = 0 then [] else regs_to_go (next_reg t))"
proof -
  define n where "n = unat (gt_reg_count t)"
  define r where "r = unat (gt_regs_left t)"
  have r: "0 < r" "r \<le> n" using assms by (simp_all add: tag_ok_def n_def r_def)
  have head: "drop (n - r) (tag_regs t) = tag_reg t # drop (n - (r - 1)) (tag_regs t)"
  proof -
    have "n - r < length (tag_regs t)" using r by (simp add: tag_regs_def flip: n_def)
    then have "drop (n - r) (tag_regs t) = tag_regs t ! (n - r) # drop (Suc (n - r)) (tag_regs t)"
      by (rule Cons_nth_drop_Suc [symmetric])
    moreover have "tag_regs t ! (n - r) = tag_reg t"
      using r by (simp add: tag_regs_def tag_reg_def n_def r_def)
    moreover have "Suc (n - r) = n - (r - 1)" using r by simp
    ultimately show ?thesis by simp
  qed
  have d: "unat (gt_data_left t) = Suc (unat (gt_data_left t - 1))"
    using assms(2) by (simp add: unat_sub_if' unat_gt_0 Suc_le_eq)
  have same: "tag_regs (next_reg t) = tag_regs t" by (simp add: tag_regs_def next_reg_def Let_def)
  show ?thesis
  proof (cases "gt_regs_left t = 1")
    case True
    then have "r = 1" "next_reg t = t\<lparr>gt_regs_left := gt_reg_count t, gt_data_left := gt_data_left t - 1\<rparr>"
      by (simp_all add: r_def next_reg_def Let_def)
    moreover have "drop (unat (gt_reg_count t)) (tag_regs t) = []" by (simp add: tag_regs_def)
    moreover have "\<exists>m. unat (gt_data_left t - 1) = Suc m" if "gt_data_left t \<noteq> 1"
      using that by (metis eq_iff_diff_eq_0 not0_implies_Suc unat_eq_zero)
    ultimately show ?thesis
      using head d same by (auto simp: regs_to_go_def n_def r_def tag_regs_def)
  next
    case False
    then have "next_reg t = t\<lparr>gt_regs_left := gt_regs_left t - 1\<rparr>" "unat (gt_regs_left t - 1) = r - 1"
      using r by (auto simp: next_reg_def Let_def r_def unat_sub_if' Suc_le_eq)
    then show ?thesis
      using head same assms(2) by (simp add: regs_to_go_def n_def r_def)
  qed
qed

lemma feed_packed:
  assumes "tag_ok (cur_tag s)" "gt_data_left (cur_tag s) \<noteq> 0" "gt_format (cur_tag s) = 0" "gt_end_of_packet (cur_tag s)"
  shows "gs_calls (feed_GIF d s) = gs_calls s @ fst (packed_call (tag_reg (cur_tag s)) (internal_Q s) d) @
           (if gt_data_left (next_reg (cur_tag s)) = 0 then end_calls s else [])"
    and "gt_data_left (next_reg (cur_tag s)) \<noteq> 0 \<Longrightarrow> cur_tag (feed_GIF d s) = next_reg (cur_tag s) \<and>
           internal_Q (feed_GIF d s) = snd (packed_call (tag_reg (cur_tag s)) (internal_Q s) d) \<and>
           path_queue (feed_GIF d s) = path_queue s"
proof -
  obtain cs q where c: "packed_call (tag_reg (cur_tag s)) (internal_Q s) d = (cs, q)" by fastforce
  define t where "t = put_tag next_reg ((s\<lparr>outputting_path := True\<rparr>)\<lparr>gs_calls := gs_calls s @ cs, internal_Q := q\<rparr>)"
  have t: "cur_tag t = next_reg (cur_tag s)" "gs_calls t = gs_calls s @ cs" "internal_Q t = q" "path_queue t = path_queue s"
    by (simp_all add: t_def cur_tag_def put_tag_def)
  have e: "gt_end_of_packet (next_reg (cur_tag s))" using assms(4) by (simp add: next_reg_def Let_def)
  have f: "feed_GIF d s = (if gt_data_left (next_reg (cur_tag s)) = 0 then end_packet t else t)"
    using assms c e by (simp add: feed_GIF_def feed_data_def process_PACKED_def Let_def t_def)
  have "gs_calls (end_packet t) = gs_calls t @ end_calls s"
    by (simp add: end_packet_def deactivate_PATH_def end_calls_def gs_do_def Let_def t(4))
  then show "gs_calls (feed_GIF d s) = gs_calls s @ fst (packed_call (tag_reg (cur_tag s)) (internal_Q s) d) @
           (if gt_data_left (next_reg (cur_tag s)) = 0 then end_calls s else [])"
    "gt_data_left (next_reg (cur_tag s)) \<noteq> 0 \<Longrightarrow> cur_tag (feed_GIF d s) = next_reg (cur_tag s) \<and>
           internal_Q (feed_GIF d s) = snd (packed_call (tag_reg (cur_tag s)) (internal_Q s) d) \<and>
           path_queue (feed_GIF d s) = path_queue s"
    using t c by (simp_all add: f)
qed

lemma feed_packed_rest:
  assumes "tag_ok (cur_tag s)" "gt_data_left (cur_tag s) \<noteq> 0" "gt_format (cur_tag s) = 0" "gt_end_of_packet (cur_tag s)"
    "length ds = length (regs_to_go (cur_tag s))"
  shows "gs_calls (fold feed_GIF ds s) = gs_calls s @ packed_calls (regs_to_go (cur_tag s)) (internal_Q s) ds @ end_calls s"
  using assms
proof (induction ds arbitrary: s)
  case Nil
  then show ?case using regs_to_go_next [OF Nil.prems(1,2)] by simp
next
  case (Cons d ds)
  note next_tag = regs_to_go_next [OF Cons.prems(1,2)] and fed = feed_packed [OF Cons.prems(1-4), of d]
  show ?case
  proof (cases "gt_data_left (next_reg (cur_tag s)) = 0")
    case True
    then have "ds = []" using next_tag Cons.prems(5) by simp
    then show ?thesis using True next_tag fed(1) by (simp add: case_prod_beta)
  next
    case False
    note f = fed(2) [OF False]
    have "gs_calls (fold feed_GIF ds (feed_GIF d s)) = gs_calls (feed_GIF d s) @
        packed_calls (regs_to_go (cur_tag (feed_GIF d s))) (internal_Q (feed_GIF d s)) ds @ end_calls (feed_GIF d s)"
      using Cons.prems next_reg_ok [OF Cons.prems(1,2)] f False next_tag
      by (intro Cons.IH) (simp_all add: next_reg_def Let_def split: if_splits)
    then show ?thesis
      using False next_tag f fed(1) by (simp add: case_prod_beta end_calls_def)
  qed
qed

lemma packed_packet:
  assumes "gt_data_left (cur_tag s) = 0" "t = read_tag (ucast tq) (ucast (drop_bit 64 tq))"
    and "gt_format t = 0" "gt_end_of_packet t" "gt_NLOOP t \<noteq> 0"
    and "length ds = unat (gt_NLOOP t) * unat (gt_reg_count t)"
  shows "gs_calls (fold feed_GIF (tq # ds) s) = gs_calls s @ GS_set_CSR_FIFO 2 #
           (if gt_output_PRIM t then [GS_write64 0 (ucast (gt_PRIM t))] else []) @
           packed_calls (concat (replicate (unat (gt_NLOOP t)) (tag_regs t))) 0x3F800000 ds @ end_calls s"
proof -
  define u where "u = feed_GIF tq s"
  have left: "gt_data_left t = ucast (gt_NLOOP t)" "gt_regs_left t = gt_reg_count t"
    by (simp_all add: assms(2) read_tag_def Let_def)
  have n: "unat (gt_NLOOP t) \<noteq> 0" using assms(5) by (simp add: unat_eq_0)
  have d: "unat (gt_data_left t) = unat (gt_NLOOP t)" by (simp add: left unat_ucast_up)
  then have go: "regs_to_go t = concat (replicate (unat (gt_NLOOP t)) (tag_regs t))"
    using n by (cases "unat (gt_NLOOP t)") (simp_all add: regs_to_go_def left)
  have nz: "gt_data_left t \<noteq> 0"
    using n d by auto
  have u: "cur_tag u = t" "path_queue u = path_queue s" "internal_Q u = 0x3F800000"
    "gs_calls u = gs_calls s @ GS_set_CSR_FIFO 2 # (if gt_output_PRIM t then [GS_write64 0 (ucast (gt_PRIM t))] else [])"
    using assms(1,3) nz assms(2)
    by (auto simp: u_def feed_GIF_def feed_tag_def Let_def cur_tag_def put_tag_def gs_do_def)
  have "length (tag_regs t) = unat (gt_reg_count t)" by (simp add: tag_regs_def)
  then have "length ds = length (regs_to_go (cur_tag u))"
    using assms(6) by (simp add: u go length_concat sum_list_replicate)
  then have "gs_calls (fold feed_GIF ds u) = gs_calls u @ packed_calls (regs_to_go (cur_tag u)) (internal_Q u) ds @ end_calls u"
    using nz assms read_tag_ok by (intro feed_packed_rest) (simp_all add: u)
  then show ?thesis by (simp add: u_def [symmetric] u go end_calls_def)
qed

text \<open>C18: a GIF packet in PACKED mode reaches the Synthesizer as its tag says: fed quadword by quadword,
  the interface makes the FIFO call, the PRIM write, then for every quadword the call of the register
  whose turn it is, the register list going round \<open>NLOOP\<close> times, and closes the packet after exactly
  \<open>NLOOP * NREGS\<close> quadwords.\<close>

theorem gif_packed_packet:
  assumes "gt_data_left (cur_tag s) = 0" "t = read_tag (ucast tq) (ucast (drop_bit 64 tq))"
    and "gt_format t = 0" "gt_end_of_packet t" "gt_NLOOP t \<noteq> 0"
    and "length ds = unat (gt_NLOOP t) * unat (gt_reg_count t)"
  shows "gs_calls (fold feed_GIF (tq # ds) s) = gs_calls s @ GS_set_CSR_FIFO 2 #
           (if gt_output_PRIM t then [GS_write64 0 (ucast (gt_PRIM t))] else []) @
           packed_calls (concat (replicate (unat (gt_NLOOP t)) (tag_regs t))) 0x3F800000 ds @ end_calls s"
  by (rule packed_packet [OF assms])

text \<open>One loop of two registers: XYZ2, then an address and its data.\<close>

theorem gif_packed_packet_witness:
  "\<forall>s :: gif. gs_calls (fold feed_GIF [0xE52003400000008001, 0x30000000200000001, 0x4200000000000000AB] (gif_reset s)) =
     gs_calls (gif_reset s) @ [GS_set_CSR_FIFO 2, GS_write64 0 6, GS_set_XYZ 1 2 3 True, GS_write64 0x42 0xAB,
       GS_assert_FINISH, GS_set_CSR_FIFO 1, GS_wake_thread]"
proof
  fix s :: gif
  define t where "t = read_tag (ucast (0xE52003400000008001 :: 128 word)) (ucast (drop_bit 64 (0xE52003400000008001 :: 128 word)))"
  have t: "gt_format t = 0" "gt_end_of_packet t" "gt_NLOOP t = 1" "gt_output_PRIM t" "gt_PRIM t = 6" "gt_reg_count t = 2" "gt_regs t = 0xE5"
    by (simp_all add: t_def read_tag_def Let_def)
  have r: "tag_regs t = [5, 14]" by (simp add: tag_regs_def t upt_rec)
  have z: "gt_data_left (cur_tag (gif_reset s)) = 0" "path_queue (gif_reset s) = 0"
    by (simp_all add: gif_reset_def gs_do_def cur_tag_def)
  show "gs_calls (fold feed_GIF [0xE52003400000008001, 0x30000000200000001, 0x4200000000000000AB] (gif_reset s)) =
     gs_calls (gif_reset s) @ [GS_set_CSR_FIFO 2, GS_write64 0 6, GS_set_XYZ 1 2 3 True, GS_write64 0x42 0xAB,
       GS_assert_FINISH, GS_set_CSR_FIFO 1, GS_wake_thread]"
    using gif_packed_packet [OF z(1) t_def, of "[0x30000000200000001, 0x4200000000000000AB]"]
    by (simp add: t r z end_calls_def packed_call_def Let_def)
qed



end
