(* ===== verification/Circular_Fifo.thy ===== *)
theory Circular_Fifo
  imports Base "HOL-Library.Sublist"
begin

section \<open>The ring buffer between two threads\<close>

text \<open>
  \<open>src/core/circularFIFO.hpp\<close>: the queue through which the emulation thread and the thread of the
  Graphics Synthesizer exchange messages, without a lock. One thread pushes, the other pops; each index
  is stored by one of them only. First the operations as the code has them, run by one thread; then the
  atomic steps of the two threads in every interleaving. A load of the index that belongs to the other
  thread need not see its latest store: it returns any value stored since the one it saw last.
\<close>

subsection \<open>The operations\<close>

record 'e cfifo =
  cf_tail :: nat
  cf_array :: "nat \<Rightarrow> 'e"
  cf_head :: nat

definition cf_increment :: "nat \<Rightarrow> nat \<Rightarrow> nat" where
  "cf_increment sz idx = (idx + 1) mod (sz + 1)"

definition cf_init :: "(nat \<Rightarrow> 'e) \<Rightarrow> 'e cfifo" where
  "cf_init a = \<lparr>cf_tail = 0, cf_array = a, cf_head = 0\<rparr>"

definition cf_push :: "nat \<Rightarrow> 'e \<Rightarrow> 'e cfifo \<Rightarrow> 'e cfifo res" where
  "cf_push sz item f =
     (let current_tail = cf_tail f; next_tail = cf_increment sz current_tail
      in if next_tail \<noteq> cf_head f
         then Inr (f\<lparr>cf_array := (cf_array f)(current_tail := item), cf_tail := next_tail\<rparr>)
         else Inl (Die ''FIFO FULL!''))"

definition cf_pop :: "nat \<Rightarrow> 'e cfifo \<Rightarrow> 'e option \<times> 'e cfifo" where
  "cf_pop sz f =
     (let current_head = cf_head f
      in if current_head = cf_tail f then (None, f)
         else (Some (cf_array f current_head), f\<lparr>cf_head := cf_increment sz current_head\<rparr>))"

definition cf_was_empty :: "'e cfifo \<Rightarrow> bool" where "cf_was_empty f \<longleftrightarrow> cf_head f = cf_tail f"
definition cf_was_full :: "nat \<Rightarrow> 'e cfifo \<Rightarrow> bool" where
  "cf_was_full sz f \<longleftrightarrow> cf_increment sz (cf_tail f) = cf_head f"

subsection \<open>The two threads\<close>

text \<open>How far a thread is in its call: the values in its registers.\<close>

datatype 'e producer = P_idle | P_loaded 'e nat | P_checked 'e nat | P_written 'e nat | P_died
datatype 'e consumer = C_idle | C_loaded nat | C_checked nat | C_copied nat 'e

text \<open>The stores to the indices in their order, the place in it up to which the other thread has seen
  them, and, for the specification, what was pushed and popped.\<close>

record 'e fifo_threads =
  ft_tails :: "nat list"
  ft_heads :: "nat list"
  ft_array :: "nat \<Rightarrow> 'e"
  ft_producer :: "'e producer"
  ft_consumer :: "'e consumer"
  ft_head_seen :: nat
  ft_tail_seen :: nat
  ft_pushed :: "'e list"
  ft_popped :: "'e list"

definition ft_init :: "(nat \<Rightarrow> 'e) \<Rightarrow> 'e fifo_threads" where
  "ft_init a = \<lparr>ft_tails = [0], ft_heads = [0], ft_array = a, ft_producer = P_idle, ft_consumer = C_idle,
     ft_head_seen = 0, ft_tail_seen = 0, ft_pushed = [], ft_popped = []\<rparr>"

inductive fifo_step :: "nat \<Rightarrow> 'e fifo_threads \<Rightarrow> 'e fifo_threads \<Rightarrow> bool" for sz :: nat where
  push_begin: "ft_producer s = P_idle \<Longrightarrow>
     fifo_step sz s (s\<lparr>ft_producer := P_loaded x (last (ft_tails s))\<rparr>)"
| push_check: "ft_producer s = P_loaded x t \<Longrightarrow> ft_head_seen s \<le> k \<Longrightarrow> k < length (ft_heads s) \<Longrightarrow>
     cf_increment sz t \<noteq> ft_heads s ! k \<Longrightarrow>
     fifo_step sz s (s\<lparr>ft_producer := P_checked x t, ft_head_seen := k\<rparr>)"
| push_full: "ft_producer s = P_loaded x t \<Longrightarrow> ft_head_seen s \<le> k \<Longrightarrow> k < length (ft_heads s) \<Longrightarrow>
     cf_increment sz t = ft_heads s ! k \<Longrightarrow>
     fifo_step sz s (s\<lparr>ft_producer := P_died, ft_head_seen := k\<rparr>)"
| push_write: "ft_producer s = P_checked x t \<Longrightarrow>
     fifo_step sz s (s\<lparr>ft_producer := P_written x t, ft_array := (ft_array s)(t := x)\<rparr>)"
| push_store: "ft_producer s = P_written x t \<Longrightarrow>
     fifo_step sz s (s\<lparr>ft_producer := P_idle, ft_tails := ft_tails s @ [cf_increment sz t],
                         ft_pushed := ft_pushed s @ [x]\<rparr>)"
| pop_begin: "ft_consumer s = C_idle \<Longrightarrow>
     fifo_step sz s (s\<lparr>ft_consumer := C_loaded (last (ft_heads s))\<rparr>)"
| pop_empty: "ft_consumer s = C_loaded h \<Longrightarrow> ft_tail_seen s \<le> k \<Longrightarrow> k < length (ft_tails s) \<Longrightarrow>
     h = ft_tails s ! k \<Longrightarrow> fifo_step sz s (s\<lparr>ft_consumer := C_idle, ft_tail_seen := k\<rparr>)"
| pop_check: "ft_consumer s = C_loaded h \<Longrightarrow> ft_tail_seen s \<le> k \<Longrightarrow> k < length (ft_tails s) \<Longrightarrow>
     h \<noteq> ft_tails s ! k \<Longrightarrow> fifo_step sz s (s\<lparr>ft_consumer := C_checked h, ft_tail_seen := k\<rparr>)"
| pop_copy: "ft_consumer s = C_checked h \<Longrightarrow>
     fifo_step sz s (s\<lparr>ft_consumer := C_copied h (ft_array s h)\<rparr>)"
| pop_store: "ft_consumer s = C_copied h x \<Longrightarrow>
     fifo_step sz s (s\<lparr>ft_consumer := C_idle, ft_heads := ft_heads s @ [cf_increment sz h],
                         ft_popped := ft_popped s @ [x]\<rparr>)"

definition fifo_reachable :: "nat \<Rightarrow> 'e fifo_threads \<Rightarrow> bool" where
  "fifo_reachable sz s \<longleftrightarrow> (\<exists>a. (fifo_step sz)\<^sup>*\<^sup>* (ft_init a) s)"

subsection \<open>The invariant\<close>

definition indices_ok :: "nat \<Rightarrow> nat list \<Rightarrow> nat \<Rightarrow> bool" where
  "indices_ok sz log n \<longleftrightarrow> log = map (\<lambda>i. i mod (sz + 1)) [0..<Suc n]"

fun producer_ok :: "nat \<Rightarrow> 'e list \<Rightarrow> nat \<Rightarrow> (nat \<Rightarrow> 'e) \<Rightarrow> 'e producer \<Rightarrow> bool" where
  "producer_ok sz pushed seen a P_idle \<longleftrightarrow> True"
| "producer_ok sz pushed seen a P_died \<longleftrightarrow> True"
| "producer_ok sz pushed seen a (P_loaded x t) \<longleftrightarrow> t = length pushed mod (sz + 1)"
| "producer_ok sz pushed seen a (P_checked x t) \<longleftrightarrow> t = length pushed mod (sz + 1) \<and> length pushed < seen + sz"
| "producer_ok sz pushed seen a (P_written x t) \<longleftrightarrow>
     t = length pushed mod (sz + 1) \<and> length pushed < seen + sz \<and> a t = x"

fun consumer_ok :: "nat \<Rightarrow> 'e list \<Rightarrow> 'e list \<Rightarrow> nat \<Rightarrow> 'e consumer \<Rightarrow> bool" where
  "consumer_ok sz pushed popped seen C_idle \<longleftrightarrow> True"
| "consumer_ok sz pushed popped seen (C_loaded h) \<longleftrightarrow> h = length popped mod (sz + 1)"
| "consumer_ok sz pushed popped seen (C_checked h) \<longleftrightarrow> h = length popped mod (sz + 1) \<and> length popped < seen"
| "consumer_ok sz pushed popped seen (C_copied h x) \<longleftrightarrow>
     h = length popped mod (sz + 1) \<and> length popped < seen \<and> x = pushed ! length popped"

lemma consumer_ok_push:
  "consumer_ok sz pushed popped seen c \<Longrightarrow> seen \<le> length pushed \<Longrightarrow> consumer_ok sz (pushed @ [x]) popped seen c"
  by (cases c) (simp_all add: nth_append)

definition queue_inv :: "nat \<Rightarrow> 'e fifo_threads \<Rightarrow> bool" where
  "queue_inv sz s \<longleftrightarrow>
     take (length (ft_popped s)) (ft_pushed s) = ft_popped s \<and>
     ft_head_seen s \<le> length (ft_popped s) \<and> length (ft_popped s) \<le> ft_tail_seen s \<and>
     ft_tail_seen s \<le> length (ft_pushed s) \<and> length (ft_pushed s) \<le> ft_head_seen s + sz \<and>
     (\<forall>i. length (ft_popped s) \<le> i \<longrightarrow> i < length (ft_pushed s) \<longrightarrow>
          ft_array s (i mod (sz + 1)) = ft_pushed s ! i)"

definition fifo_inv :: "nat \<Rightarrow> 'e fifo_threads \<Rightarrow> bool" where
  "fifo_inv sz s \<longleftrightarrow> indices_ok sz (ft_tails s) (length (ft_pushed s)) \<and>
     indices_ok sz (ft_heads s) (length (ft_popped s)) \<and> queue_inv sz s \<and>
     producer_ok sz (ft_pushed s) (ft_head_seen s) (ft_array s) (ft_producer s) \<and>
     consumer_ok sz (ft_pushed s) (ft_popped s) (ft_tail_seen s) (ft_consumer s)"

lemma indices_okD:
  assumes "indices_ok sz log n"
  shows "length log = Suc n" "last log = n mod (sz + 1)" "k < Suc n \<Longrightarrow> log ! k = k mod (sz + 1)"
  using assms by (auto simp: indices_ok_def nth_append less_Suc_eq)

lemma indices_ok_snoc:
  "indices_ok sz log n \<Longrightarrow> indices_ok sz (log @ [cf_increment sz (n mod (sz + 1))]) (Suc n)"
  by (simp add: indices_ok_def cf_increment_def mod_Suc_eq)

text \<open>Two counters less than a round apart meet in the ring only where they are equal.\<close>

lemma ring_distinct:
  fixes i j sz :: nat
  assumes "i \<le> j" "j \<le> i + sz" "i mod (sz + 1) = j mod (sz + 1)"
  shows "i = j"
proof -
  have "(sz + 1) dvd (j - i)" using mod_eq_dvd_iff_nat [OF assms(1), of "sz + 1"] assms(3) by simp
  moreover have "j - i < sz + 1" using assms(2) by simp
  ultimately show ?thesis using assms(1) by (auto dest: dvd_imp_le)
qed

lemma room_for_one:
  assumes "ft_head_seen s \<le> k" "k \<le> n" "n \<le> ft_head_seen s + sz" "cf_increment sz (n mod (sz + 1)) \<noteq> k mod (sz + 1)"
  shows "n < k + sz"
proof (rule ccontr)
  assume "\<not> n < k + sz"
  then have "n = k + sz" using assms by simp
  then have "Suc n = k + (sz + 1)" by simp
  then have "Suc n mod (sz + 1) = k mod (sz + 1)" by (simp only: mod_add_self2)
  then show False using assms(4) by (simp add: cf_increment_def mod_Suc_eq)
qed

lemma fifo_inv_init: "fifo_inv sz (ft_init a)"
  by (simp add: fifo_inv_def ft_init_def indices_ok_def queue_inv_def)

lemma fifo_inv_logs:
  assumes "fifo_inv sz s"
  shows "length (ft_tails s) = Suc (length (ft_pushed s))" "last (ft_tails s) = length (ft_pushed s) mod Suc sz"
    "length (ft_heads s) = Suc (length (ft_popped s))" "last (ft_heads s) = length (ft_popped s) mod Suc sz"
  using assms indices_okD(1,2) by (fastforce simp: fifo_inv_def)+

named_theorems fifo_defs
lemmas [fifo_defs] = fifo_inv_def queue_inv_def

lemma push_write_inv:
  assumes "fifo_inv sz s" "ft_producer s = P_checked x t"
  shows "fifo_inv sz (s\<lparr>ft_producer := P_written x t, ft_array := (ft_array s)(t := x)\<rparr>)"
proof -
  have q: "queue_inv sz s" and t: "t = length (ft_pushed s) mod (sz + 1)" "length (ft_pushed s) < ft_head_seen s + sz"
    using assms by (simp_all add: fifo_inv_def)
  have other: "i mod (sz + 1) \<noteq> t" if "length (ft_popped s) \<le> i" "i < length (ft_pushed s)" for i
  proof
    assume "i mod (sz + 1) = t"
    moreover have "length (ft_pushed s) \<le> i + sz" using that q by (simp add: queue_inv_def)
    ultimately have "i = length (ft_pushed s)"
      using ring_distinct [of i "length (ft_pushed s)" sz] less_imp_le [OF that(2)] t(1) by metis
    then show False using that by simp
  qed
  have "queue_inv sz (s\<lparr>ft_producer := P_written x t, ft_array := (ft_array s)(t := x)\<rparr>)"
    using q other by (simp add: queue_inv_def)
  then show ?thesis using assms(1) t by (simp add: fifo_inv_def)
qed

lemma push_store_inv:
  assumes "fifo_inv sz s" "ft_producer s = P_written x t"
  shows "fifo_inv sz (s\<lparr>ft_producer := P_idle, ft_tails := ft_tails s @ [cf_increment sz t], ft_pushed := ft_pushed s @ [x]\<rparr>)"
  using assms indices_ok_snoc [of sz "ft_tails s" "length (ft_pushed s)"]
  by (auto simp: fifo_defs nth_append less_Suc_eq intro: consumer_ok_push)

lemma pop_copy_inv:
  assumes "fifo_inv sz s" "ft_consumer s = C_checked h"
  shows "fifo_inv sz (s\<lparr>ft_consumer := C_copied h (ft_array s h)\<rparr>)"
  using assms by (simp add: fifo_defs)

lemma pop_store_inv:
  assumes "fifo_inv sz s" "ft_consumer s = C_copied h x"
  shows "fifo_inv sz (s\<lparr>ft_consumer := C_idle, ft_heads := ft_heads s @ [cf_increment sz h], ft_popped := ft_popped s @ [x]\<rparr>)"
  using assms indices_ok_snoc [of sz "ft_heads s" "length (ft_popped s)"]
  by (auto simp: fifo_defs take_Suc_conv_app_nth)

lemma push_check_inv:
  assumes "fifo_inv sz s" "ft_producer s = P_loaded x t" "ft_head_seen s \<le> k" "k < length (ft_heads s)"
    and "cf_increment sz t \<noteq> ft_heads s ! k"
  shows "fifo_inv sz (s\<lparr>ft_producer := P_checked x t, ft_head_seen := k\<rparr>)"
proof -
  have heads: "indices_ok sz (ft_heads s) (length (ft_popped s))" and q: "queue_inv sz s"
    and t: "t = length (ft_pushed s) mod (sz + 1)"
    using assms(1,2) by (simp_all add: fifo_inv_def)
  have k: "k \<le> length (ft_popped s)" "ft_heads s ! k = k mod (sz + 1)"
    using assms(4) by (simp_all add: indices_okD [OF heads])
  have "length (ft_pushed s) < k + sz"
    using q k assms(3,5) by (intro room_for_one [of s k]) (auto simp: t queue_inv_def)
  then have "queue_inv sz (s\<lparr>ft_producer := P_checked x t, ft_head_seen := k\<rparr>)"
    using q k assms(3) by (simp add: queue_inv_def)
  then show ?thesis using assms(1) t \<open>length (ft_pushed s) < k + sz\<close>
    by (simp add: fifo_inv_def)
qed

lemma push_full_inv:
  assumes "fifo_inv sz s" "ft_head_seen s \<le> k" "k < length (ft_heads s)"
  shows "fifo_inv sz (s\<lparr>ft_producer := P_died, ft_head_seen := k\<rparr>)"
proof -
  have "k \<le> length (ft_popped s)" using assms fifo_inv_logs [OF assms(1)] by simp
  then show ?thesis using assms by (simp add: fifo_defs)
qed

lemma pop_check_inv:
  assumes "fifo_inv sz s" "ft_consumer s = C_loaded h" "ft_tail_seen s \<le> k" "k < length (ft_tails s)" "h \<noteq> ft_tails s ! k"
  shows "fifo_inv sz (s\<lparr>ft_consumer := C_checked h, ft_tail_seen := k\<rparr>)"
proof -
  have tails: "indices_ok sz (ft_tails s) (length (ft_pushed s))" and q: "queue_inv sz s"
    and h: "h = length (ft_popped s) mod (sz + 1)"
    using assms(1,2) by (simp_all add: fifo_inv_def)
  have k: "k \<le> length (ft_pushed s)" "ft_tails s ! k = k mod (sz + 1)"
    using assms(4) by (simp_all add: indices_okD [OF tails])
  have "length (ft_popped s) \<noteq> k" using assms(5) k h by auto
  then show ?thesis using assms(1,3) q k h
    by (simp add: fifo_inv_def queue_inv_def)
qed

lemma pop_empty_inv:
  assumes "fifo_inv sz s" "ft_tail_seen s \<le> k" "k < length (ft_tails s)"
  shows "fifo_inv sz (s\<lparr>ft_consumer := C_idle, ft_tail_seen := k\<rparr>)"
proof -
  have "k \<le> length (ft_pushed s)" using assms fifo_inv_logs [OF assms(1)] by simp
  then show ?thesis using assms by (simp add: fifo_defs)
qed

lemma fifo_step_inv: "fifo_step sz s t \<Longrightarrow> fifo_inv sz s \<Longrightarrow> fifo_inv sz t"
proof (induction rule: fifo_step.induct)
  case (push_begin s x)
  then show ?case using fifo_inv_logs [of sz s] by (simp add: fifo_inv_def queue_inv_def)
next
  case (pop_begin s)
  then show ?case using fifo_inv_logs [of sz s] by (simp add: fifo_inv_def queue_inv_def)
qed (blast intro: push_check_inv push_full_inv push_write_inv push_store_inv pop_empty_inv pop_check_inv
       pop_copy_inv pop_store_inv)+

lemma fifo_reachable_inv: "fifo_reachable sz s \<Longrightarrow> fifo_inv sz s"
proof -
  have "(fifo_step sz)\<^sup>*\<^sup>* r s \<Longrightarrow> fifo_inv sz r \<Longrightarrow> fifo_inv sz s" for r
    by (induction rule: rtranclp_induct) (blast intro: fifo_step_inv)+
  then show "fifo_reachable sz s \<Longrightarrow> fifo_inv sz s"
    using fifo_inv_init by (auto simp: fifo_reachable_def)
qed

subsection \<open>A call run alone is the sequential operation\<close>

definition ft_view :: "'e fifo_threads \<Rightarrow> 'e cfifo" where
  "ft_view s = \<lparr>cf_tail = last (ft_tails s), cf_array = ft_array s, cf_head = last (ft_heads s)\<rparr>"

lemma last_seen:
  assumes "fifo_inv sz s"
  shows "ft_head_seen s \<le> length (ft_popped s)" "ft_heads s ! length (ft_popped s) = last (ft_heads s)"
    and "ft_tail_seen s \<le> length (ft_pushed s)" "ft_tails s ! length (ft_pushed s) = last (ft_tails s)"
proof -
  have seen: "ft_head_seen s \<le> length (ft_popped s)" "ft_tail_seen s \<le> length (ft_pushed s)"
    using assms by (simp_all add: fifo_inv_def queue_inv_def)
  have ne: "ft_heads s \<noteq> []" "ft_tails s \<noteq> []" using fifo_inv_logs [OF assms] by auto
  show "ft_head_seen s \<le> length (ft_popped s)" "ft_heads s ! length (ft_popped s) = last (ft_heads s)"
    "ft_tail_seen s \<le> length (ft_pushed s)" "ft_tails s ! length (ft_pushed s) = last (ft_tails s)"
    using seen last_conv_nth [OF ne(1)] last_conv_nth [OF ne(2)] fifo_inv_logs [OF assms] by simp_all
qed

lemma steps_trans: "(fifo_step sz)\<^sup>*\<^sup>* r s \<Longrightarrow> fifo_step sz s t \<Longrightarrow> (fifo_step sz)\<^sup>*\<^sup>* r t"
  by (rule rtranclp.rtrancl_into_rtrancl)

lemma push_alone:
  assumes "fifo_inv sz s" "ft_producer s = P_idle" "cf_push sz x (ft_view s) = Inr f"
  shows "\<exists>t. (fifo_step sz)\<^sup>*\<^sup>* s t \<and> ft_view t = f \<and> ft_pushed t = ft_pushed s @ [x] \<and> ft_popped t = ft_popped s"
proof -
  have room: "cf_increment sz (last (ft_tails s)) \<noteq> last (ft_heads s)"
    and f: "f = \<lparr>cf_tail = cf_increment sz (last (ft_tails s)), cf_array = (ft_array s)(last (ft_tails s) := x), cf_head = last (ft_heads s)\<rparr>"
    using assms(3) by (auto simp: cf_push_def ft_view_def Let_def split: if_splits)
  let ?s1 = "s\<lparr>ft_producer := P_loaded x (last (ft_tails s))\<rparr>"
  let ?s2 = "?s1\<lparr>ft_producer := P_checked x (last (ft_tails s)), ft_head_seen := length (ft_popped s)\<rparr>"
  let ?s3 = "?s2\<lparr>ft_producer := P_written x (last (ft_tails s)), ft_array := (ft_array ?s2)(last (ft_tails s) := x)\<rparr>"
  have s1: "fifo_step sz s ?s1" using assms(2) by (rule push_begin)
  have s2: "fifo_step sz ?s1 ?s2"
    using room last_seen [OF assms(1)] fifo_inv_logs [OF assms(1)] by (intro push_check) simp_all
  have s3: "fifo_step sz ?s2 ?s3" by (intro push_write) simp
  let ?s4 = "?s3\<lparr>ft_producer := P_idle, ft_tails := ft_tails ?s3 @ [cf_increment sz (last (ft_tails s))], ft_pushed := ft_pushed ?s3 @ [x]\<rparr>"
  have s4: "fifo_step sz ?s3 ?s4" by (intro push_store) simp
  have "(fifo_step sz)\<^sup>*\<^sup>* s ?s4"
    by (rule steps_trans [OF steps_trans [OF steps_trans [OF steps_trans [OF rtranclp.rtrancl_refl s1] s2] s3] s4])
  then show ?thesis by (intro exI [of _ ?s4]) (simp add: ft_view_def f)
qed

lemma pop_alone:
  assumes "fifo_inv sz s" "ft_consumer s = C_idle" "cf_pop sz (ft_view s) = (Some x, f)"
  shows "\<exists>t. (fifo_step sz)\<^sup>*\<^sup>* s t \<and> ft_view t = f \<and> ft_pushed t = ft_pushed s \<and> ft_popped t = ft_popped s @ [x]"
proof -
  have more: "last (ft_heads s) \<noteq> last (ft_tails s)"
    and f: "f = \<lparr>cf_tail = last (ft_tails s), cf_array = ft_array s, cf_head = cf_increment sz (last (ft_heads s))\<rparr>"
    and x: "x = ft_array s (last (ft_heads s))"
    using assms(3) by (auto simp: cf_pop_def ft_view_def Let_def split: if_splits)
  let ?s1 = "s\<lparr>ft_consumer := C_loaded (last (ft_heads s))\<rparr>"
  let ?s2 = "?s1\<lparr>ft_consumer := C_checked (last (ft_heads s)), ft_tail_seen := length (ft_pushed s)\<rparr>"
  let ?s3 = "?s2\<lparr>ft_consumer := C_copied (last (ft_heads s)) (ft_array ?s2 (last (ft_heads s)))\<rparr>"
  have s1: "fifo_step sz s ?s1" using assms(2) by (rule pop_begin)
  have s2: "fifo_step sz ?s1 ?s2"
    using more last_seen [OF assms(1)] fifo_inv_logs [OF assms(1)] by (intro pop_check) simp_all
  have s3: "fifo_step sz ?s2 ?s3" by (intro pop_copy) simp
  let ?s4 = "?s3\<lparr>ft_consumer := C_idle, ft_heads := ft_heads ?s3 @ [cf_increment sz (last (ft_heads s))],
               ft_popped := ft_popped ?s3 @ [ft_array s (last (ft_heads s))]\<rparr>"
  have s4: "fifo_step sz ?s3 ?s4" by (intro pop_store) simp
  have "(fifo_step sz)\<^sup>*\<^sup>* s ?s4"
    by (rule steps_trans [OF steps_trans [OF steps_trans [OF steps_trans [OF rtranclp.rtrancl_refl s1] s2] s3] s4])
  then show ?thesis by (intro exI [of _ ?s4]) (simp add: ft_view_def f x)
qed

subsection \<open>What the queue promises\<close>

text \<open>The slot the producer writes is not the one the consumer reads.\<close>

lemma fifo_slots_differ:
  assumes "fifo_inv sz s" "ft_producer s = P_checked x t" "ft_consumer s = C_checked h"
  shows "t \<noteq> h"
proof
  assume "t = h"
  then have "length (ft_popped s) mod (sz + 1) = length (ft_pushed s) mod (sz + 1)"
    using assms by (simp add: fifo_inv_def)
  moreover have "length (ft_popped s) < length (ft_pushed s)" "length (ft_pushed s) \<le> length (ft_popped s) + sz"
    using assms by (simp_all add: fifo_inv_def queue_inv_def)
  ultimately show False using ring_distinct [of "length (ft_popped s)" "length (ft_pushed s)" sz] by simp
qed

text \<open>C19: in every interleaving of a pushing and a popping thread, also when a thread sees the other's index
  late, what has been popped is a prefix of what has been pushed, and at most \<open>Size\<close> elements are in
  between.\<close>

theorem circular_fifo_is_queue:
  assumes "fifo_reachable sz s"
  shows "prefix (ft_popped s) (ft_pushed s) \<and> length (ft_pushed s) \<le> length (ft_popped s) + sz"
proof -
  have "queue_inv sz s" using fifo_reachable_inv [OF assms] by (simp add: fifo_inv_def)
  then show ?thesis using take_is_prefix [of "length (ft_popped s)" "ft_pushed s"] by (simp add: queue_inv_def)
qed

text \<open>C20: the element that is being written and the element that is being read are never in the same slot,
  so the plain accesses to the array do not race.\<close>

theorem circular_fifo_race_free:
  assumes "fifo_reachable sz s" "ft_producer s = P_checked x t" "ft_consumer s = C_checked h"
  shows "t \<noteq> h"
  using fifo_slots_differ [OF fifo_reachable_inv [OF assms(1)] assms(2,3)] .

text \<open>One element pushed; it is about to be read while the second is about to be written.\<close>

lemma fifo_run: "fifo_reachable sz s \<Longrightarrow> fifo_step sz s t \<Longrightarrow> fifo_reachable sz t"
  by (auto simp: fifo_reachable_def intro: rtranclp.rtrancl_into_rtrancl)

lemma fifo_reachable_init: "fifo_reachable sz (ft_init a)"
  by (auto simp: fifo_reachable_def)

definition racing :: "char fifo_threads" where
  "racing = \<lparr>ft_tails = [0, 1], ft_heads = [0], ft_array = (\<lambda>_. CHR ''?'')(0 := CHR ''a''),
     ft_producer = P_checked CHR ''b'' 1, ft_consumer = C_checked 0, ft_head_seen = 0, ft_tail_seen = 1,
     ft_pushed = [CHR ''a''], ft_popped = []\<rparr>"

lemma racing_reachable: "fifo_reachable 2 racing"
proof -
  note step = fifo_run [where sz = 2]
  note s0 = fifo_reachable_init [of 2 "\<lambda>_. CHR ''?''"]
  note s1 = step [OF s0 push_begin [of _ 2 "CHR ''a''"], unfolded ft_init_def, simplified]
  note s2 = step [OF s1 push_check [where k = 0 and x = "CHR ''a''" and t = 0], simplified]
  note s3 = step [OF s2 push_write [where x = "CHR ''a''" and t = 0], simplified]
  note s4 = step [OF s3 push_store [where x = "CHR ''a''" and t = 0], simplified]
  note s5 = step [OF s4 push_begin [of _ 2 "CHR ''b''"], simplified]
  note s6 = step [OF s5 push_check [where k = 0 and x = "CHR ''b''" and t = 1], simplified]
  note s7 = step [OF s6 pop_begin, simplified]
  note s8 = step [OF s7 pop_check [where k = 1 and h = 0], simplified]
  show ?thesis using s8 by (simp add: racing_def cf_increment_def)
qed

theorem circular_fifo_is_queue_witness:
  "prefix (ft_popped racing) (ft_pushed racing) \<and> length (ft_pushed racing) \<le> length (ft_popped racing) + 2"
  by (rule circular_fifo_is_queue [OF racing_reachable])

theorem circular_fifo_race_free_witness:
  "ft_producer racing = P_checked CHR ''b'' 1 \<and> ft_consumer racing = C_checked 0 \<and> (1::nat) \<noteq> 0"
proof -
  have p: "ft_producer racing = P_checked CHR ''b'' 1" and c: "ft_consumer racing = C_checked 0"
    by (simp_all add: racing_def)
  show ?thesis using circular_fifo_race_free [OF racing_reachable p c] p c by simp
qed

end
