(* ===== verification/Vu.thy ===== *)
theory Vu
  imports Gif Ee_Fpu
begin

unbundle bit_operations_syntax

section \<open>The vector units: state, pipelines, memories\<close>

text \<open>
  \<open>src/core/ee/vu.hpp\<close> and the first part of \<open>vu.cpp\<close>. Two units with a 128-bit vector file of 32
  registers, sixteen integer registers, a program and a data memory. Results of the multiply-add units
  reach their flag register four cycles later, quotients and elementary functions after a latency of
  their own; a read of a vector register that is still being computed stalls. Both units are in one
  state; VU0 reaches the registers of VU1 through its data addresses.
\<close>

subsection \<open>State\<close>

text \<open>What a pair of instructions reads and writes: index 0 is the upper, index 1 the lower instruction.
  A field is a set of components, bit 3 for x to bit 0 for w.\<close>

record decoded_regs =
  vf_write :: "nat \<Rightarrow> u8"
  vf_write_field :: "nat \<Rightarrow> u8"
  vf_read0 :: "nat \<Rightarrow> u8"
  vf_read0_field :: "nat \<Rightarrow> u8"
  vf_read1 :: "nat \<Rightarrow> u8"
  vf_read1_field :: "nat \<Rightarrow> u8"
  vi_read0 :: u8
  vi_read1 :: u8
  vi_write :: u8
  vi_write_from_load :: u8

definition decoder_reset :: decoded_regs where
  "decoder_reset = \<lparr>vf_write = \<lambda>_. 0, vf_write_field = \<lambda>_. 0, vf_read0 = \<lambda>_. 0, vf_read0_field = \<lambda>_. 0,
     vf_read1 = \<lambda>_. 0, vf_read1_field = \<lambda>_. 0, vi_read0 = 0, vi_read1 = 0, vi_write = 0, vi_write_from_load = 0\<rparr>"

record branch_entry =
  be_write_reg :: u8
  be_old_value :: u16
  be_read_and_write :: bool

definition be_clear :: branch_entry where
  "be_clear = \<lparr>be_write_reg = 0, be_old_value = 0, be_read_and_write = False\<rparr>"

record vunit =
  vu_id :: nat
  vu_mem_mask :: u16
  vu_cycle_count :: u64
  instr_mem :: "u32 \<Rightarrow> u8"
  data_mem :: "u32 \<Rightarrow> u8"
  vu_running :: bool
  tbit_stop :: bool
  vumem_is_dirty :: bool
  vu_PC :: u16
  vu_new_PC :: u16
  secondbranch_PC :: u16
  vu_branch_on :: bool
  finish_on :: bool
  second_branch_pending :: bool
  branch_delay_slot :: nat
  ebit_delay_slot :: nat
  GIF_addr :: u16
  transferring_GIF :: bool
  XGKICK_stall :: bool
  stalled_GIF_addr :: u16
  XGKICK_cycles :: int
  backup_newgpr :: "nat \<Rightarrow> u32"
  backup_oldgpr :: "nat \<Rightarrow> u32"
  vu_gpr :: "nat \<Rightarrow> nat \<Rightarrow> u32"
  int_gpr :: "nat \<Rightarrow> u16"
  vu_CMSAR0 :: u32
  vu_ACC :: "nat \<Rightarrow> u32"
  vu_status :: u32
  status_pipe :: int
  vu_status_value :: u32
  clip_flags :: u32
  vu_R :: u32
  vu_I :: u32
  vu_Q :: u32
  vu_P :: u32
  CLIP_pipeline :: "u32 list"
  MAC_pipeline :: "u64 list"
  new_MAC_flags :: u16
  branch_pipeline :: "branch_entry list"
  branch_next :: branch_entry
  ILW_pipeline :: "u16 list"
  new_Q :: u32
  new_P :: u32
  finish_DIV_event :: u64
  DIV_event_started :: bool
  finish_EFU_event :: u64
  EFU_event_started :: bool
  vu_decoder :: decoded_regs

record vsys = gif +
  vus :: "nat \<Rightarrow> vunit"
  vu_FBRST :: u32
  cop2_interlock :: bool
  vu_interlock :: bool
  VIF_TOP :: "nat \<Rightarrow> u16"
  VIF_ITOP :: "nat \<Rightarrow> u16"

definition on_vu :: "nat \<Rightarrow> (vunit \<Rightarrow> vunit) \<Rightarrow> 'a vsys_scheme \<Rightarrow> 'a vsys_scheme" where
  "on_vu i f s = s\<lparr>vus := (vus s)(i := f (vus s i))\<rparr>"

abbreviation other_vu :: "nat \<Rightarrow> nat" where "other_vu i \<equiv> 1 - i"

definition mac_flags :: "vunit \<Rightarrow> u64" where "mac_flags v = MAC_pipeline v ! 3"
definition clip_reg :: "vunit \<Rightarrow> u32" where "clip_reg v = CLIP_pipeline v ! 3"

subsection \<open>The pipelines\<close>

definition update_status :: "vunit \<Rightarrow> vunit" where
  "update_status v =
     (let m = mac_flags v;
          st = vu_status v AND NOT 0x3F;
          st = st OR (if m AND 0x000F \<noteq> 0 then 1 else 0);
          st = st OR (if m AND 0x00F0 \<noteq> 0 then 2 else 0);
          st = st OR (if m AND 0x0F00 \<noteq> 0 then 4 else 0);
          st = st OR (if m AND 0xF000 \<noteq> 0 then 8 else 0)
      in v\<lparr>vu_status := st OR push_bit 6 (st AND 0x3F)\<rparr>)"

definition mac_entry :: "vunit \<Rightarrow> u64" where
  "mac_entry v =
     (let d = vu_decoder v
      in ucast (new_MAC_flags v) OR push_bit 16 (ucast (vf_write d 0)) OR push_bit 24 (ucast (vf_write d 1))
         OR push_bit 32 (ucast (vf_write_field d 0)) OR push_bit 36 (ucast (vf_write_field d 1)))"

definition update_mac_pipeline :: "vunit \<Rightarrow> vunit" where
  "update_mac_pipeline v =
     (let updatestatus = MAC_pipeline v ! 3 AND 0xFFFF \<noteq> MAC_pipeline v ! 2 AND 0xFFFF;
          v = v\<lparr>MAC_pipeline := mac_entry v # take 3 (MAC_pipeline v),
                CLIP_pipeline := clip_flags v # take 3 (CLIP_pipeline v),
                ILW_pipeline := ucast (vi_write_from_load (vu_decoder v)) # take 3 (ILW_pipeline v)\<rparr>;
          v = (if updatestatus then update_status v else v)
      in if 0 < status_pipe v
         then let v = v\<lparr>status_pipe := status_pipe v - 1\<rparr>
              in if status_pipe v = 0
                 then v\<lparr>vu_status := (vu_status v AND 0x3F) OR (vu_status_value v AND 0xFFF)\<rparr> else v
         else v)"

definition update_DIV_EFU_pipes :: "vunit \<Rightarrow> vunit" where
  "update_DIV_EFU_pipes v =
     (let v = (if DIV_event_started v \<and> finish_DIV_event v \<le> vu_cycle_count v
               then v\<lparr>DIV_event_started := False, vu_Q := new_Q v\<rparr> else v)
      in if EFU_event_started v \<and> finish_EFU_event v \<le> vu_cycle_count v
         then v\<lparr>EFU_event_started := False, vu_P := new_P v\<rparr> else v)"

text \<open>\<open>VuIntBranchPipeline\<close>: the values integer registers had before they were written.\<close>

definition branch_flush :: "vunit \<Rightarrow> vunit" where
  "branch_flush v = v\<lparr>branch_pipeline := map (\<lambda>_. be_clear) (branch_pipeline v)\<rparr>"

definition branch_reset :: "vunit \<Rightarrow> vunit" where
  "branch_reset v = branch_flush (v\<lparr>branch_next := be_clear\<rparr>)"

definition branch_update :: "vunit \<Rightarrow> vunit" where
  "branch_update v =
     v\<lparr>branch_pipeline := fold (\<lambda>i p. p[i + 1 := p ! i]) [0..<4] ((branch_pipeline v)[0 := branch_next v]),
       branch_next := be_clear\<rparr>"

definition get_branch_condition_reg :: "branch_entry list \<Rightarrow> u8 \<Rightarrow> u16 \<Rightarrow> u16" where
  "get_branch_condition_reg p reg current_value =
     (if reg \<noteq> 0 \<and> reg = be_write_reg (p ! 0)
      then if be_read_and_write (p ! 0)
           then fold (\<lambda>i v. if reg = be_write_reg (p ! i) then be_old_value (p ! i) else v) [0..<5] (be_old_value (p ! 0))
           else be_old_value (p ! 0)
      else current_value)"

definition write_int :: "nat \<Rightarrow> nat \<Rightarrow> nat \<Rightarrow> vunit \<Rightarrow> vunit" where
  "write_int reg read0 read1 v =
     (if reg \<noteq> 0
      then v\<lparr>branch_next := \<lparr>be_write_reg = of_nat reg, be_old_value = int_gpr v reg,
              be_read_and_write = reg = read0 \<or> reg = read1\<rparr>\<rparr>
      else v)"

definition read_int_for_branch_condition :: "nat \<Rightarrow> vunit \<Rightarrow> u16" where
  "read_int_for_branch_condition reg v =
     (if reg \<noteq> 0 then get_branch_condition_reg (branch_pipeline v) (of_nat reg) (int_gpr v reg) else int_gpr v reg)"

definition start_DIV_unit :: "u64 \<Rightarrow> vunit \<Rightarrow> vunit" where
  "start_DIV_unit lat v = v\<lparr>finish_DIV_event := vu_cycle_count v + lat, DIV_event_started := True\<rparr>"

definition start_EFU_unit :: "u64 \<Rightarrow> vunit \<Rightarrow> vunit" where
  "start_EFU_unit lat v = v\<lparr>finish_EFU_event := vu_cycle_count v + lat, EFU_event_started := True\<rparr>"

definition flush_pipes :: "vunit \<Rightarrow> vunit" where
  "flush_pipes v =
     (let v = branch_flush ((update_mac_pipeline ^^ 4) (v\<lparr>vu_decoder := decoder_reset\<rparr>))
      in v\<lparr>finish_DIV_event := vu_cycle_count v, finish_EFU_event := vu_cycle_count v,
           DIV_event_started := False, EFU_event_started := False, vu_Q := new_Q v, vu_P := new_P v\<rparr>)"

subsection \<open>Stalls\<close>

definition read_hits :: "u8 \<Rightarrow> u8 \<Rightarrow> u64 \<Rightarrow> bool" where
  "read_hits r f e =
     (let write0 = ucast (drop_bit 16 e) :: u8; write1 = ucast (drop_bit 24 e) :: u8;
          write0_field = ucast (drop_bit 32 e AND 0xF) :: u8; write1_field = ucast (drop_bit 36 e AND 0xF) :: u8
      in r \<noteq> 0 \<and> (if r = write0 then f AND write0_field \<noteq> 0 else r = write1 \<and> f AND write1_field \<noteq> 0))"

definition fmac_hazard :: "vunit \<Rightarrow> nat \<Rightarrow> bool" where
  "fmac_hazard v i =
     (let e = MAC_pipeline v ! i; l = ILW_pipeline v ! i; d = vu_decoder v
      in (ucast (drop_bit 16 e) \<noteq> (0 :: u8) \<or> ucast (drop_bit 24 e) \<noteq> (0 :: u8)) \<and>
           list_ex (\<lambda>j. read_hits (vf_read0 d j) (vf_read0_field d j) e \<or>
                        read_hits (vf_read1 d j) (vf_read1_field d j) e) [0, 1]
         \<or> l \<noteq> 0 \<and> (l = ucast (vi_read0 d) \<or> l = ucast (vi_read1 d)))"

definition stall_cycles :: "nat \<Rightarrow> vunit \<Rightarrow> vunit" where
  "stall_cycles delay v =
     (let v = ((\<lambda>v. branch_flush (update_mac_pipeline v)) ^^ delay) v
      in v\<lparr>vu_cycle_count := vu_cycle_count v + of_nat delay\<rparr>)"

definition check_for_FMAC_stall :: "vunit \<Rightarrow> vunit" where
  "check_for_FMAC_stall v =
     (case find (fmac_hazard v) [0, 1, 2] of
        None \<Rightarrow> v
      | Some i \<Rightarrow> update_DIV_EFU_pipes (stall_cycles (3 - i) v))"

definition cop2_hazard :: "vunit \<Rightarrow> nat \<Rightarrow> bool" where
  "cop2_hazard v i =
     (let e = MAC_pipeline v ! i; d = vu_decoder v;
          write0 = ucast (drop_bit 16 e) :: u8; write1 = ucast (drop_bit 24 e) :: u8
      in list_ex (\<lambda>j. (vf_read0 d j \<noteq> 0 \<and> (vf_read0 d j = write0 \<or> vf_read0 d j = write1)) \<or>
                      (vf_read1 d j \<noteq> 0 \<and> (vf_read1 d j = write0 \<or> vf_read1 d j = write1))) [0, 1])"

definition check_for_COP2_FMAC_stall :: "nat \<Rightarrow> 'a vsys_scheme \<Rightarrow> 'a vsys_scheme" where
  "check_for_COP2_FMAC_stall i s =
     (case find (cop2_hazard (vus s i)) [0, 1, 2] of
        None \<Rightarrow> s
      | Some k \<Rightarrow>
          let s = on_vu i (stall_cycles (3 - k)) s
          in on_vu i update_DIV_EFU_pipes (s\<lparr>ee_cycle_count := vu_cycle_count (vus s i)\<rparr>))"

definition handle_cop2_stalls :: "nat \<Rightarrow> 'a vsys_scheme \<Rightarrow> 'a vsys_scheme" where
  "handle_cop2_stalls = check_for_COP2_FMAC_stall"

text \<open>\<open>cop2_updatepipes\<close>: the loop over \<open>cycles\<close>, which returns early when nothing is in flight.\<close>

definition idle_pipes :: "vunit \<Rightarrow> bool" where
  "idle_pipes v \<longleftrightarrow> \<not> DIV_event_started v \<and> \<not> EFU_event_started v"

fun cop2_update_loop :: "u64 \<Rightarrow> nat \<Rightarrow> nat \<Rightarrow> vunit \<Rightarrow> vunit" where
  "cop2_update_loop now i 0 v = v"
| "cop2_update_loop now i (Suc n) v =
     (if 4 < i \<and> idle_pipes v then v\<lparr>vu_cycle_count := now\<rparr>
      else let v = v\<lparr>vu_cycle_count := vu_cycle_count v + 1\<rparr>;
               v = (if 1 \<le> i then v\<lparr>vu_decoder := decoder_reset\<rparr> else v);
               v = branch_update (update_DIV_EFU_pipes (update_mac_pipeline v))
           in cop2_update_loop now (i + 1) n v)"

definition cop2_updatepipes :: "nat \<Rightarrow> 'a vsys_scheme \<Rightarrow> 'a vsys_scheme" where
  "cop2_updatepipes i s =
     (let now = ee_cycle_count s; cycles = sint (ucast (now - vu_cycle_count (vus s i)) :: u32)
      in if 0 < cycles
         then on_vu i (\<lambda>v. if 4 \<le> cycles \<and> idle_pipes v then flush_pipes (v\<lparr>vu_cycle_count := now\<rparr>)
                           else cop2_update_loop now 0 (nat cycles) v) s
         else s)"

subsection \<open>Reset\<close>

definition vu_soft_reset :: "nat \<Rightarrow> 'a vsys_scheme \<Rightarrow> 'a vsys_scheme" where
  "vu_soft_reset i s =
     on_vu i (\<lambda>v. branch_reset (v\<lparr>vu_status := 0, status_pipe := 0, clip_flags := 0, vu_cycle_count := ee_cycle_count s,
       vu_running := False, tbit_stop := False, finish_on := False, vu_branch_on := False,
       second_branch_pending := False, secondbranch_PC := 0, branch_delay_slot := 0, ebit_delay_slot := 0,
       new_MAC_flags := 0, MAC_pipeline := [0, 0, 0, 0], CLIP_pipeline := [0, 0, 0, 0], ILW_pipeline := [0, 0, 0, 0],
       vu_decoder := decoder_reset\<rparr>)) s"

definition vu_reset :: "nat \<Rightarrow> 'a vsys_scheme \<Rightarrow> 'a vsys_scheme" where
  "vu_reset i s =
     on_vu i (\<lambda>v. v\<lparr>vumem_is_dirty := True, vu_PC := 0, finish_DIV_event := 0, finish_EFU_event := 0, new_Q := 0, new_P := 0,
       vu_Q := 0, vu_P := 0, vu_R := 0, vu_I := 0, DIV_event_started := False, EFU_event_started := False,
       XGKICK_cycles := 0, stalled_GIF_addr := 0, transferring_GIF := False, XGKICK_stall := False,
       vu_gpr := (\<lambda>r k. if 1 \<le> r \<and> r < 32 then 0 else vu_gpr v r k), int_gpr := (\<lambda>r. if r < 16 then 0 else int_gpr v r)\<rparr>)
       (vu_soft_reset i s)"

text \<open>What the constructor sets up: register 0 is the vector (0, 0, 0, 1).\<close>

definition vu_construct :: "nat \<Rightarrow> vunit \<Rightarrow> vunit" where
  "vu_construct i v =
     v\<lparr>vu_id := i, vu_gpr := (vu_gpr v)(0 := (\<lambda>k. if k = 3 then 0x3F800000 else 0)), int_gpr := (int_gpr v)(0 := 0),
       vu_mem_mask := (if i = 0 then 0xFFF else 0x3FFF)\<rparr>"

subsection \<open>Registers and memories\<close>

definition vset_gpr :: "nat \<Rightarrow> nat \<Rightarrow> u32 \<Rightarrow> vunit \<Rightarrow> vunit" where
  "vset_gpr r k x v = (if r \<noteq> 0 then v\<lparr>vu_gpr := (vu_gpr v)(r := (vu_gpr v r)(k := x))\<rparr> else v)"

definition set_int :: "nat \<Rightarrow> u16 \<Rightarrow> vunit \<Rightarrow> vunit" where
  "set_int r x v = (if r \<noteq> 0 then v\<lparr>int_gpr := (int_gpr v)(r := x)\<rparr> else v)"

definition backup_vf :: "bool \<Rightarrow> nat \<Rightarrow> vunit \<Rightarrow> vunit" where
  "backup_vf newvf r v = (if newvf then v\<lparr>backup_newgpr := vu_gpr v r\<rparr> else v\<lparr>backup_oldgpr := vu_gpr v r\<rparr>)"

definition restore_vf :: "bool \<Rightarrow> nat \<Rightarrow> vunit \<Rightarrow> vunit" where
  "restore_vf newvf r v = v\<lparr>vu_gpr := (vu_gpr v)(r := (if newvf then backup_newgpr v else backup_oldgpr v))\<rparr>"

definition vu_set_Q :: "u32 \<Rightarrow> vunit \<Rightarrow> vunit" where
  "vu_set_Q x v = v\<lparr>new_Q := x, vu_Q := x\<rparr>"

definition read_reg :: "u32 \<Rightarrow> vunit \<Rightarrow> u32" where
  "read_reg addr v =
     (let a = addr AND 0x3FF; n = unat a
      in if n < 0x200 then vu_gpr v (n div 0x10) (unat (a AND 0xC) div 4)
         else if n < 0x300 then if n mod 16 < 4 then ucast (int_gpr v ((n - 0x200) div 0x10)) else 0
         else if n = 0x300 then vu_status v
         else if n = 0x310 then ucast (mac_flags v)
         else if n = 0x320 then clip_reg v
         else if n = 0x340 then vu_R v
         else if n = 0x350 then vu_I v
         else if n = 0x360 then vu_Q v
         else if n = 0x370 then vu_P v
         else if n = 0x3A0 then ucast (drop_bit 3 (vu_PC v))
         else 0)"

definition write_reg :: "u32 \<Rightarrow> u32 \<Rightarrow> vunit \<Rightarrow> vunit" where
  "write_reg addr data v =
     (let a = addr AND 0x3FF; n = unat a
      in if n < 0x200 then vset_gpr (n div 0x10) (unat (a AND 0xC) div 4) data v
         else if n < 0x300 then if n mod 16 < 4 then set_int ((n - 0x200) div 0x10) (ucast data) v else v
         else v)"

definition vu_read_instr :: "u32 \<Rightarrow> vunit \<Rightarrow> 'w::len word" where
  "vu_read_instr addr v = get_le (instr_mem v) (addr AND ucast (vu_mem_mask v))"

definition vu_write_instr :: "u32 \<Rightarrow> 'w::len word \<Rightarrow> vunit \<Rightarrow> vunit" where
  "vu_write_instr addr data v = v\<lparr>instr_mem := put_le (addr AND ucast (vu_mem_mask v)) data (instr_mem v), vumem_is_dirty := True\<rparr>"

definition vu_read_mem :: "u32 \<Rightarrow> vunit \<Rightarrow> 'w::len word" where
  "vu_read_mem addr v = get_le (data_mem v) (addr AND ucast (vu_mem_mask v))"

definition vu_write_mem :: "u32 \<Rightarrow> 'w::len word \<Rightarrow> vunit \<Rightarrow> vunit" where
  "vu_write_mem addr data v = v\<lparr>data_mem := put_le (addr AND ucast (vu_mem_mask v)) data (data_mem v)\<rparr>"

text \<open>The accesses of a program; VU0 sees the registers of VU1 behind its own memory.\<close>

definition vu_read_data :: "nat \<Rightarrow> u32 \<Rightarrow> 'a vsys_scheme \<Rightarrow> u32" where
  "vu_read_data i addr s =
     (if i = 1 then get_le (data_mem (vus s i)) (addr AND 0x3FFF)
      else if addr AND 0x4000 \<noteq> 0 then read_reg addr (vus s (other_vu i))
      else get_le (data_mem (vus s i)) (addr AND 0xFFF))"

definition vu_write_data :: "nat \<Rightarrow> u32 \<Rightarrow> u32 \<Rightarrow> 'a vsys_scheme \<Rightarrow> 'a vsys_scheme" where
  "vu_write_data i addr data s =
     (if i = 1 then on_vu i (\<lambda>v. v\<lparr>data_mem := put_le (addr AND 0x3FFF) data (data_mem v)\<rparr>) s
      else if addr AND 0x4000 \<noteq> 0 then on_vu (other_vu i) (write_reg addr data) s
      else on_vu i (\<lambda>v. v\<lparr>data_mem := put_le (addr AND 0xFFF) data (data_mem v)\<rparr>) s)"

subsection \<open>Control registers\<close>

definition v_fsset :: "u32 \<Rightarrow> vunit \<Rightarrow> vunit" where
  "v_fsset i v = v\<lparr>vu_status_value := push_bit 11 (drop_bit 21 i AND 1) OR (i AND 0x7FF), status_pipe := 4\<rparr>"

definition vu_cfc :: "nat \<Rightarrow> nat \<Rightarrow> 'a vsys_scheme \<Rightarrow> u32" where
  "vu_cfc i index s =
     (let v = vus s i
      in if index < 16 then ucast (int_gpr v index)
         else if index = 16 then vu_status v
         else if index = 17 then ucast (mac_flags v AND 0xFFFF)
         else if index = 18 then clip_reg v
         else if index = 20 then vu_R v AND 0x7FFFFF
         else if index = 21 then vu_I v
         else if index = 22 then vu_Q v
         else if index = 26 then ucast (vu_PC v div 8)
         else if index = 27 then vu_CMSAR0 v
         else if index = 28 then vu_FBRST s
         else 0)"

definition vu_ctc :: "nat \<Rightarrow> nat \<Rightarrow> u32 \<Rightarrow> 'a vsys_scheme \<Rightarrow> 'a vsys_scheme" where
  "vu_ctc i index value s =
     (if index < 16 then on_vu i (set_int index (ucast value)) s
      else if index = 16 then on_vu i (v_fsset value) s
      else if index = 18 then on_vu i (\<lambda>v. v\<lparr>clip_flags := value\<rparr>) s
      else if index = 20 then on_vu i (\<lambda>v. v\<lparr>vu_R := value\<rparr>) s
      else if index = 21 then on_vu i (\<lambda>v. v\<lparr>vu_I := value\<rparr>) s
      else if index = 22 then on_vu i (vu_set_Q value) s
      else if index = 27 then on_vu i (\<lambda>v. v\<lparr>vu_CMSAR0 := ucast (ucast value :: u16)\<rparr>) s
      else if index = 28
      then let s = (if value AND 0x2 \<noteq> 0 then vu_soft_reset i s else s);
               s = (if value AND 0x200 \<noteq> 0 then vu_soft_reset (other_vu i) s else s)
           in s\<lparr>vu_FBRST := value AND NOT 0x303\<rparr>
      else s)"

subsection \<open>Interlock with the EE\<close>

definition clear_cop2_interlock :: "'a vsys_scheme \<Rightarrow> 'a vsys_scheme" where
  "clear_cop2_interlock s = s\<lparr>cop2_interlock := False, vu_interlock := False\<rparr>"

definition interlock_cop2_check :: "bool \<Rightarrow> 'a vsys_scheme \<Rightarrow> bool \<times> 'a vsys_scheme" where
  "interlock_cop2_check isCOP2 s =
     (if isCOP2 then (\<not> vu_interlock s, s\<lparr>cop2_interlock := True\<rparr>)
      else (\<not> cop2_interlock s, s\<lparr>vu_interlock := True\<rparr>))"

end
