(* ===== verification/Vu_Ops.thy ===== *)
theory Vu_Ops
  imports Vu
begin

unbundle bit_operations_syntax

section \<open>The vector units: operations\<close>

text \<open>
  The rest of \<open>src/core/ee/vu.cpp\<close>: what each instruction does. An upper instruction changes one unit;
  a lower one may reach the data memory and, from VU0, the registers of VU1. Numbers are bit patterns;
  the host's arithmetic is the argument \<open>h\<close>: single precision as for the EE's unit, and for the
  elementary functions double precision, \<open>pow\<close>, \<open>powf\<close> with a whole exponent and the quotient by a root.
\<close>

record host_vu = host_float +
  hd_of :: "u32 \<Rightarrow> u64"
  hd_to :: "u64 \<Rightarrow> u32"
  hd_add :: "u64 \<Rightarrow> u64 \<Rightarrow> u64"
  hd_mul :: "u64 \<Rightarrow> u64 \<Rightarrow> u64"
  hd_div :: "u64 \<Rightarrow> u64 \<Rightarrow> u64"
  hd_pow :: "u64 \<Rightarrow> nat \<Rightarrow> u64"
  hf_powf :: "u32 \<Rightarrow> nat \<Rightarrow> u32"
  hf_div_root :: "u32 \<Rightarrow> u32 \<Rightarrow> u32"

subsection \<open>Fields of an instruction\<close>

definition v_ft :: "u32 \<Rightarrow> nat" where "v_ft i = unat (drop_bit 16 i AND 0x1F)"
definition v_fs :: "u32 \<Rightarrow> nat" where "v_fs i = unat (drop_bit 11 i AND 0x1F)"
definition v_fd :: "u32 \<Rightarrow> nat" where "v_fd i = unat (drop_bit 6 i AND 0x1F)"
definition v_it :: "u32 \<Rightarrow> nat" where "v_it i = unat (drop_bit 16 i AND 0xF)"
definition v_is :: "u32 \<Rightarrow> nat" where "v_is i = unat (drop_bit 11 i AND 0xF)"
definition v_id :: "u32 \<Rightarrow> nat" where "v_id i = unat (drop_bit 6 i AND 0xF)"
definition v_fsf :: "u32 \<Rightarrow> nat" where "v_fsf i = unat (drop_bit 21 i AND 3)"
definition v_ftf :: "u32 \<Rightarrow> nat" where "v_ftf i = unat (drop_bit 23 i AND 3)"
definition v_bc :: "u32 \<Rightarrow> nat" where "v_bc i = unat (i AND 3)"

text \<open>\<open>_field & (1 << (3 - i))\<close>: component \<open>k\<close> is selected.\<close>

definition in_field :: "u32 \<Rightarrow> nat \<Rightarrow> bool" where "in_field i k \<longleftrightarrow> tst i (24 - k)"

definition v_imm11 :: "u32 \<Rightarrow> u16" where
  "v_imm11 i = (if i AND 0x400 \<noteq> 0 then ucast (i AND 0x3FF) OR 0xFC00 else ucast (i AND 0x3FF))"

definition v_branch_imm :: "u32 \<Rightarrow> u16" where
  "v_branch_imm i = (signed_drop_bit 5 (push_bit 5 (ucast (i AND 0x7FF) :: u16))) * 8"

definition v_imm12 :: "u32 \<Rightarrow> u32" where "v_imm12 i = push_bit 11 (drop_bit 21 i AND 1) OR (i AND 0x7FF)"

subsection \<open>Numbers and flags\<close>

definition vu_convert :: "u32 \<Rightarrow> u32" where
  "vu_convert v =
     (if v AND 0x7F800000 = 0 then v AND 0x80000000
      else if v AND 0x7F800000 = 0x7F800000 then (v AND 0x80000000) OR 0x7F7FFFFF
      else v)"

abbreviation vcv :: "nat \<Rightarrow> nat \<Rightarrow> vunit \<Rightarrow> u32" where "vcv r k v \<equiv> vu_convert (vu_gpr v r k)"

definition vu_max :: "u32 \<Rightarrow> u32 \<Rightarrow> u32" where
  "vu_max a b = (if a <s 0 \<and> b <s 0 then if b <s a then b else a else if a <s b then b else a)"

definition vu_min :: "u32 \<Rightarrow> u32 \<Rightarrow> u32" where
  "vu_min a b = (if a <s 0 \<and> b <s 0 then if a <s b then b else a else if b <s a then b else a)"

text \<open>A float that is not NaN; the operands of the conversions never are.\<close>

definition float_to_int :: "u32 \<Rightarrow> u32" where
  "float_to_int f =
     (let n = f_to_int f
      in if 2147483647 \<le> n then 0x7FFFFFFF else if n \<le> - 2147483648 then 0x80000000 else word_of_int n)"

definition update_mac_flags :: "u32 \<Rightarrow> nat \<Rightarrow> vunit \<Rightarrow> u32 \<times> vunit" where
  "update_mac_flags value k v =
     (let id = 3 - k; f = new_MAC_flags v;
          f = (if value AND 0x80000000 \<noteq> 0 then f OR push_bit id 0x10 else f AND NOT (push_bit id 0x10))
      in if value AND 0x7FFFFFFF = 0
         then (value, v\<lparr>new_MAC_flags := (f OR push_bit id 1) AND NOT (push_bit id 0x1100)\<rparr>)
         else if fld value 23 8 = 0
         then (value AND 0x80000000, v\<lparr>new_MAC_flags := (f OR push_bit id 0x101) AND NOT (push_bit id 0x1000)\<rparr>)
         else if fld value 23 8 = 255
         then ((value AND 0x80000000) OR 0x7F7FFFFF,
               v\<lparr>new_MAC_flags := (f OR push_bit id 0x1000) AND NOT (push_bit id 0x101)\<rparr>)
         else (value, v\<lparr>new_MAC_flags := f AND NOT (push_bit id 0x1101)\<rparr>))"

definition clear_mac_flags :: "nat \<Rightarrow> vunit \<Rightarrow> vunit" where
  "clear_mac_flags k v = v\<lparr>new_MAC_flags := new_MAC_flags v AND NOT (push_bit (3 - k) 0x1111)\<rparr>"

subsection \<open>Loops over the components\<close>

definition v_lanes :: "u32 \<Rightarrow> (nat \<Rightarrow> vunit \<Rightarrow> vunit) \<Rightarrow> vunit \<Rightarrow> vunit" where
  "v_lanes i f = fold (\<lambda>k v. if in_field i k then f k v else v) [0..<4]"

definition fmac_lanes :: "u32 \<Rightarrow> (nat \<Rightarrow> vunit \<Rightarrow> vunit) \<Rightarrow> vunit \<Rightarrow> vunit" where
  "fmac_lanes i f = fold (\<lambda>k v. if in_field i k then f k v else clear_mac_flags k v) [0..<4]"

definition set_acc :: "nat \<Rightarrow> u32 \<Rightarrow> vunit \<Rightarrow> vunit" where
  "set_acc k x v = v\<lparr>vu_ACC := (vu_ACC v)(k := x)\<rparr>"

definition flagged :: "(u32 \<Rightarrow> vunit \<Rightarrow> vunit) \<Rightarrow> u32 \<Rightarrow> nat \<Rightarrow> vunit \<Rightarrow> vunit" where
  "flagged put value k v = (let (x, v) = update_mac_flags value k v in put x v)"

text \<open>The instructions of the multiply-add units: into \<open>fd\<close> or into the accumulator.\<close>

definition fmac_fd :: "u32 \<Rightarrow> (nat \<Rightarrow> vunit \<Rightarrow> u32) \<Rightarrow> vunit \<Rightarrow> vunit" where
  "fmac_fd i g = fmac_lanes i (\<lambda>k v. flagged (vset_gpr (v_fd i) k) (g k v) k v)"

definition fmac_acc :: "u32 \<Rightarrow> (nat \<Rightarrow> vunit \<Rightarrow> u32) \<Rightarrow> vunit \<Rightarrow> vunit" where
  "fmac_acc i g = fmac_lanes i (\<lambda>k v. flagged (set_acc k) (g k v) k v)"

abbreviation acc :: "nat \<Rightarrow> vunit \<Rightarrow> u32" where "acc k v \<equiv> vu_convert (vu_ACC v k)"

subsection \<open>Upper instructions\<close>

type_synonym vop = "host_vu \<Rightarrow> u32 \<Rightarrow> vunit \<Rightarrow> vunit"

definition v_add :: vop where "v_add h i = fmac_fd i (\<lambda>k v. hf_add h (vcv (v_fs i) k v) (vcv (v_ft i) k v))"
definition v_addbc :: vop where
  "v_addbc h i v = (let oper = vcv (v_ft i) (v_bc i) v in fmac_fd i (\<lambda>k v. hf_add h (vcv (v_fs i) k v) oper) v)"
definition v_addi :: vop where
  "v_addi h i v = (let oper = vu_convert (vu_I v) in fmac_fd i (\<lambda>k v. hf_add h (vcv (v_fs i) k v) oper) v)"
definition v_addq :: vop where
  "v_addq h i v = (let oper = vu_convert (vu_Q v) in fmac_fd i (\<lambda>k v. hf_add h (vcv (v_fs i) k v) oper) v)"
definition v_adda :: vop where "v_adda h i = fmac_acc i (\<lambda>k v. hf_add h (vcv (v_fs i) k v) (vcv (v_ft i) k v))"
definition v_addabc :: vop where
  "v_addabc h i v = (let oper = vcv (v_ft i) (v_bc i) v in fmac_acc i (\<lambda>k v. hf_add h (vcv (v_fs i) k v) oper) v)"
definition v_addai :: vop where
  "v_addai h i v = (let oper = vu_convert (vu_I v) in fmac_acc i (\<lambda>k v. hf_add h (vcv (v_fs i) k v) oper) v)"
definition v_addaq :: vop where
  "v_addaq h i v = (let oper = vu_convert (vu_Q v) in fmac_acc i (\<lambda>k v. hf_add h (vcv (v_fs i) k v) oper) v)"

definition v_sub :: vop where "v_sub h i = fmac_fd i (\<lambda>k v. hf_sub h (vcv (v_fs i) k v) (vcv (v_ft i) k v))"
definition v_subbc :: vop where
  "v_subbc h i v = (let oper = vcv (v_ft i) (v_bc i) v in fmac_fd i (\<lambda>k v. hf_sub h (vcv (v_fs i) k v) oper) v)"
definition v_subi :: vop where
  "v_subi h i v = (let oper = vu_convert (vu_I v) in fmac_fd i (\<lambda>k v. hf_sub h (vcv (v_fs i) k v) oper) v)"
definition v_subq :: vop where
  "v_subq h i v = (let oper = vu_convert (vu_Q v) in fmac_fd i (\<lambda>k v. hf_sub h (vcv (v_fs i) k v) oper) v)"
definition v_suba :: vop where "v_suba h i = fmac_acc i (\<lambda>k v. hf_sub h (vcv (v_fs i) k v) (vcv (v_ft i) k v))"
definition v_subabc :: vop where
  "v_subabc h i v = (let oper = vcv (v_ft i) (v_bc i) v in fmac_acc i (\<lambda>k v. hf_sub h (vcv (v_fs i) k v) oper) v)"
definition v_subai :: vop where
  "v_subai h i v = (let oper = vu_convert (vu_I v) in fmac_acc i (\<lambda>k v. hf_sub h (vcv (v_fs i) k v) oper) v)"
definition v_subaq :: vop where
  "v_subaq h i v = (let oper = vu_convert (vu_Q v) in fmac_acc i (\<lambda>k v. hf_sub h (vcv (v_fs i) k v) oper) v)"

definition v_mul :: vop where "v_mul h i = fmac_fd i (\<lambda>k v. hf_mul h (vcv (v_fs i) k v) (vcv (v_ft i) k v))"
definition v_mulbc :: vop where
  "v_mulbc h i v = (let oper = vcv (v_ft i) (v_bc i) v in fmac_fd i (\<lambda>k v. hf_mul h (vcv (v_fs i) k v) oper) v)"
definition v_muli :: vop where
  "v_muli h i v = (let oper = vu_convert (vu_I v) in fmac_fd i (\<lambda>k v. hf_mul h (vcv (v_fs i) k v) oper) v)"
definition v_mulq :: vop where
  "v_mulq h i v = (let oper = vu_convert (vu_Q v) in fmac_fd i (\<lambda>k v. hf_mul h (vcv (v_fs i) k v) oper) v)"
definition v_mula :: vop where "v_mula h i = fmac_acc i (\<lambda>k v. hf_mul h (vcv (v_fs i) k v) (vcv (v_ft i) k v))"
definition v_mulabc :: vop where
  "v_mulabc h i v = (let oper = vcv (v_ft i) (v_bc i) v in fmac_acc i (\<lambda>k v. hf_mul h (vcv (v_fs i) k v) oper) v)"
definition v_mulai :: vop where
  "v_mulai h i v = (let oper = vu_convert (vu_I v) in fmac_acc i (\<lambda>k v. hf_mul h (vcv (v_fs i) k v) oper) v)"
definition v_mulaq :: vop where
  "v_mulaq h i v = (let oper = vu_convert (vu_Q v) in fmac_acc i (\<lambda>k v. hf_mul h (vcv (v_fs i) k v) oper) v)"

definition v_madd :: vop where "v_madd h i = fmac_fd i (\<lambda>k v. hf_add h (acc k v) (hf_mul h (vcv (v_fs i) k v) (vcv (v_ft i) k v)))"
definition v_maddbc :: vop where
  "v_maddbc h i v = (let oper = vcv (v_ft i) (v_bc i) v in fmac_fd i (\<lambda>k v. hf_add h (acc k v) (hf_mul h (vcv (v_fs i) k v) oper)) v)"
definition v_maddi :: vop where
  "v_maddi h i v = (let oper = vu_convert (vu_I v) in fmac_fd i (\<lambda>k v. hf_add h (acc k v) (hf_mul h (vcv (v_fs i) k v) oper)) v)"
definition v_maddq :: vop where
  "v_maddq h i v = (let oper = vu_convert (vu_Q v) in fmac_fd i (\<lambda>k v. hf_add h (acc k v) (hf_mul h (vcv (v_fs i) k v) oper)) v)"
definition v_madda :: vop where "v_madda h i = fmac_acc i (\<lambda>k v. hf_add h (acc k v) (hf_mul h (vcv (v_fs i) k v) (vcv (v_ft i) k v)))"
definition v_maddabc :: vop where
  "v_maddabc h i v = (let oper = vcv (v_ft i) (v_bc i) v in fmac_acc i (\<lambda>k v. hf_add h (acc k v) (hf_mul h (vcv (v_fs i) k v) oper)) v)"
definition v_maddai :: vop where
  "v_maddai h i v = (let oper = vu_convert (vu_I v) in fmac_acc i (\<lambda>k v. hf_add h (acc k v) (hf_mul h (vcv (v_fs i) k v) oper)) v)"
definition v_maddaq :: vop where
  "v_maddaq h i v = (let oper = vu_convert (vu_Q v) in fmac_acc i (\<lambda>k v. hf_add h (acc k v) (hf_mul h (vcv (v_fs i) k v) oper)) v)"

definition v_msub :: vop where "v_msub h i = fmac_fd i (\<lambda>k v. hf_sub h (acc k v) (hf_mul h (vcv (v_fs i) k v) (vcv (v_ft i) k v)))"
definition v_msubbc :: vop where
  "v_msubbc h i v = (let oper = vcv (v_ft i) (v_bc i) v in fmac_fd i (\<lambda>k v. hf_sub h (acc k v) (hf_mul h (vcv (v_fs i) k v) oper)) v)"
definition v_msubi :: vop where
  "v_msubi h i v = (let oper = vu_convert (vu_I v) in fmac_fd i (\<lambda>k v. hf_sub h (acc k v) (hf_mul h (vcv (v_fs i) k v) oper)) v)"
definition v_msubq :: vop where
  "v_msubq h i v = (let oper = vu_convert (vu_Q v) in fmac_fd i (\<lambda>k v. hf_sub h (acc k v) (hf_mul h (vcv (v_fs i) k v) oper)) v)"
definition v_msuba :: vop where "v_msuba h i = fmac_acc i (\<lambda>k v. hf_sub h (acc k v) (hf_mul h (vcv (v_fs i) k v) (vcv (v_ft i) k v)))"
definition v_msubabc :: vop where
  "v_msubabc h i v = (let oper = vcv (v_ft i) (v_bc i) v in fmac_acc i (\<lambda>k v. hf_sub h (acc k v) (hf_mul h (vcv (v_fs i) k v) oper)) v)"
definition v_msubai :: vop where
  "v_msubai h i v = (let oper = vu_convert (vu_I v) in fmac_acc i (\<lambda>k v. hf_sub h (acc k v) (hf_mul h (vcv (v_fs i) k v) oper)) v)"
definition v_msubaq :: vop where
  "v_msubaq h i v = (let oper = vu_convert (vu_Q v) in fmac_acc i (\<lambda>k v. hf_sub h (acc k v) (hf_mul h (vcv (v_fs i) k v) oper)) v)"

text \<open>The outer product; the fourth component is left alone.\<close>

definition v_opmula :: vop where
  "v_opmula h i v =
     (let x = hf_mul h (vcv (v_fs i) 1 v) (vcv (v_ft i) 2 v); y = hf_mul h (vcv (v_fs i) 2 v) (vcv (v_ft i) 0 v);
          z = hf_mul h (vcv (v_fs i) 0 v) (vcv (v_ft i) 1 v)
      in clear_mac_flags 3 (flagged (set_acc 2) z 2 (flagged (set_acc 1) y 1 (flagged (set_acc 0) x 0 v))))"

definition v_opmsub :: vop where
  "v_opmsub h i v =
     (let x = hf_sub h (acc 0 v) (hf_mul h (vcv (v_fs i) 1 v) (vcv (v_ft i) 2 v));
          y = hf_sub h (acc 1 v) (hf_mul h (vcv (v_fs i) 2 v) (vcv (v_ft i) 0 v));
          z = hf_sub h (acc 2 v) (hf_mul h (vcv (v_fs i) 0 v) (vcv (v_ft i) 1 v))
      in clear_mac_flags 3 (flagged (vset_gpr (v_fd i) 2) z 2 (flagged (vset_gpr (v_fd i) 1) y 1
           (flagged (vset_gpr (v_fd i) 0) x 0 v))))"

definition v_abs :: vop where
  "v_abs h i = v_lanes i (\<lambda>k v. vset_gpr (v_ft i) k (vcv (v_fs i) k v AND 0x7FFFFFFF) v)"

definition v_max :: vop where
  "v_max h i = v_lanes i (\<lambda>k v. vset_gpr (v_fd i) k (vu_max (vu_gpr v (v_fs i) k) (vu_gpr v (v_ft i) k)) v)"
definition v_maxi :: vop where
  "v_maxi h i v = (let op1 = vu_I v in v_lanes i (\<lambda>k v. vset_gpr (v_fd i) k (vu_max op1 (vu_gpr v (v_fs i) k)) v) v)"
definition v_maxbc :: vop where
  "v_maxbc h i v =
     (let op2 = vu_gpr v (v_ft i) (v_bc i) in v_lanes i (\<lambda>k v. vset_gpr (v_fd i) k (vu_max (vu_gpr v (v_fs i) k) op2) v) v)"
definition v_mini :: vop where
  "v_mini h i = v_lanes i (\<lambda>k v. vset_gpr (v_fd i) k (vu_min (vu_gpr v (v_fs i) k) (vu_gpr v (v_ft i) k)) v)"
definition v_minii :: vop where
  "v_minii h i v = (let op1 = vu_I v in v_lanes i (\<lambda>k v. vset_gpr (v_fd i) k (vu_min op1 (vu_gpr v (v_fs i) k)) v) v)"
definition v_minibc :: vop where
  "v_minibc h i v =
     (let op1 = vu_gpr v (v_ft i) (v_bc i) in v_lanes i (\<lambda>k v. vset_gpr (v_fd i) k (vu_min op1 (vu_gpr v (v_fs i) k)) v) v)"

definition v_clip :: vop where
  "v_clip h i v =
     (let c = push_bit 6 (clip_flags v); value = vcv (v_ft i) 3 v AND 0x7FFFFFFF; minus = value OR 0x80000000;
          x = vcv (v_fs i) 0 v; y = vcv (v_fs i) 1 v; z = vcv (v_fs i) 2 v;
          c = c OR flag_at 0 (f_lt value x); c = c OR flag_at 1 (f_lt x minus);
          c = c OR flag_at 2 (f_lt value y); c = c OR flag_at 3 (f_lt y minus);
          c = c OR flag_at 4 (f_lt value z); c = c OR flag_at 5 (f_lt z minus)
      in v\<lparr>clip_flags := c AND 0xFFFFFF\<rparr>)"

text \<open>Conversions. Those that store without \<open>vset_gpr\<close> also change register 0.\<close>

definition raw_gpr :: "nat \<Rightarrow> nat \<Rightarrow> u32 \<Rightarrow> vunit \<Rightarrow> vunit" where
  "raw_gpr r k x v = v\<lparr>vu_gpr := (vu_gpr v)(r := (vu_gpr v r)(k := x))\<rparr>"

definition v_ftoi0 :: vop where
  "v_ftoi0 h i = v_lanes i (\<lambda>k v. raw_gpr (v_ft i) k (float_to_int (vcv (v_fs i) k v)) v)"
definition v_ftoi4 :: vop where
  "v_ftoi4 h i = v_lanes i (\<lambda>k v. raw_gpr (v_ft i) k (float_to_int (hf_mul h (vcv (v_fs i) k v) 0x41800000)) v)"
definition v_ftoi12 :: vop where
  "v_ftoi12 h i = v_lanes i (\<lambda>k v. raw_gpr (v_ft i) k (float_to_int (hf_mul h (vcv (v_fs i) k v) 0x45800000)) v)"
definition v_ftoi15 :: vop where
  "v_ftoi15 h i = v_lanes i (\<lambda>k v. raw_gpr (v_ft i) k (float_to_int (hf_mul h (vcv (v_fs i) k v) 0x47000000)) v)"
definition v_itof0 :: vop where
  "v_itof0 h i = v_lanes i (\<lambda>k v. vset_gpr (v_ft i) k (hf_of_int h (vu_gpr v (v_fs i) k)) v)"
definition v_itof4 :: vop where
  "v_itof4 h i = v_lanes i (\<lambda>k v. raw_gpr (v_ft i) k (hf_mul h (hf_of_int h (vu_gpr v (v_fs i) k)) 0x3D800000) v)"
definition v_itof12 :: vop where
  "v_itof12 h i = v_lanes i (\<lambda>k v. raw_gpr (v_ft i) k (hf_mul h (hf_of_int h (vu_gpr v (v_fs i) k)) 0x39800000) v)"
definition v_itof15 :: vop where
  "v_itof15 h i = v_lanes i (\<lambda>k v. raw_gpr (v_ft i) k
     (hd_to h (hd_mul h (hd_of h (hf_of_int h (vu_gpr v (v_fs i) k))) 0x3F00000000000000)) v)"

definition v_nop :: vop where "v_nop h i v = v"

end
