(* ===== verification/Vu_Lower.thy ===== *)
theory Vu_Lower
  imports Vu_Ops
begin

unbundle bit_operations_syntax

section \<open>The vector units: lower instructions\<close>

text \<open>
  The rest of \<open>src/core/ee/vu.cpp\<close>: moves, memory accesses, integer arithmetic, flags, branches, the
  divider and the elementary functions. The first argument is the unit, the second the host's
  arithmetic. A register number outside the sixteen integer registers is undefined behaviour.
\<close>

type_synonym 'a vlop = "nat \<Rightarrow> host_vu \<Rightarrow> u32 \<Rightarrow> 'a vsys_scheme \<Rightarrow> 'a vsys_scheme res"

text \<open>An operation on the unit alone.\<close>

definition lowered :: "vop \<Rightarrow> 'a vlop" where "lowered f u h i s = Inr (on_vu u (f h i) s)"

definition s_lanes :: "u32 \<Rightarrow> (nat \<Rightarrow> 'a vsys_scheme \<Rightarrow> 'a vsys_scheme) \<Rightarrow> 'a vsys_scheme \<Rightarrow> 'a vsys_scheme" where
  "s_lanes i f = fold (\<lambda>k s. if in_field i k then f k s else s) [0..<4]"

subsection \<open>Moves\<close>

definition v_move :: vop where
  "v_move h i v = (if v_ft i \<noteq> 0 then v_lanes i (\<lambda>k v. vset_gpr (v_ft i) k (vu_gpr v (v_fs i) k) v) v else v)"

definition v_mr32 :: vop where
  "v_mr32 h i v =
     (let x = vu_gpr v (v_fs i) 0;
          v = (if in_field i 0 then vset_gpr (v_ft i) 0 (vu_gpr v (v_fs i) 1) v else v);
          v = (if in_field i 1 then vset_gpr (v_ft i) 1 (vu_gpr v (v_fs i) 2) v else v);
          v = (if in_field i 2 then vset_gpr (v_ft i) 2 (vu_gpr v (v_fs i) 3) v else v)
      in if in_field i 3 then vset_gpr (v_ft i) 3 x v else v)"

definition v_mfir :: vop where
  "v_mfir h i = v_lanes i (\<lambda>k v. raw_gpr (v_ft i) k (scast (int_gpr v (v_is i))) v)"
definition v_mtir :: vop where
  "v_mtir h i v =
     (let v = write_int (v_it i) 0 0 v in set_int (v_it i) (ucast (vu_gpr v (v_fs i) (v_fsf i) AND 0xFFFF)) v)"
definition v_mfp :: vop where
  "v_mfp h i = v_lanes i (\<lambda>k v. vset_gpr (v_ft i) k (vu_P v) v)"

subsection \<open>Integer arithmetic\<close>

definition v_iaddi_imm :: "u32 \<Rightarrow> u16" where
  "v_iaddi_imm i = (let imm = ucast (drop_bit 6 i AND 0x1F) :: u16 in (if imm AND 0x10 \<noteq> 0 then 0xFFF0 else 0) OR (imm AND 0xF))"
definition v_imm15 :: "u32 \<Rightarrow> u16" where
  "v_imm15 i = ucast ((drop_bit 10 i AND 0x7800) OR (i AND 0x7FF))"

definition v_iadd :: vop where
  "v_iadd h i v = (let v = write_int (v_id i) (v_is i) (v_it i) v in set_int (v_id i) (int_gpr v (v_is i) + int_gpr v (v_it i)) v)"
definition v_isub :: vop where
  "v_isub h i v = (let v = write_int (v_id i) (v_is i) (v_it i) v in set_int (v_id i) (int_gpr v (v_is i) - int_gpr v (v_it i)) v)"
definition v_iand :: vop where
  "v_iand h i v = (let v = write_int (v_id i) (v_is i) (v_it i) v in set_int (v_id i) (int_gpr v (v_is i) AND int_gpr v (v_it i)) v)"
definition v_ior :: vop where
  "v_ior h i v = (let v = write_int (v_id i) (v_is i) (v_it i) v in set_int (v_id i) (int_gpr v (v_is i) OR int_gpr v (v_it i)) v)"
definition v_iaddi :: vop where
  "v_iaddi h i v = (let v = write_int (v_it i) (v_is i) 0 v in set_int (v_it i) (int_gpr v (v_is i) + v_iaddi_imm i) v)"
definition v_iaddiu :: vop where
  "v_iaddiu h i v = (let v = write_int (v_it i) (v_is i) 0 v in set_int (v_it i) (int_gpr v (v_is i) + v_imm15 i) v)"
definition v_isubiu :: vop where
  "v_isubiu h i v = (let v = write_int (v_it i) (v_is i) 0 v in set_int (v_it i) (int_gpr v (v_is i) - v_imm15 i) v)"

subsection \<open>Loads and stores\<close>

definition v_addr :: "u16 \<Rightarrow> u32 \<Rightarrow> u32" where "v_addr r i = ucast ((r + v_imm11 i) * 16)"
definition v_addr_reg :: "u16 \<Rightarrow> u32" where "v_addr_reg r = push_bit 4 (ucast r)"

definition load_lanes :: "nat \<Rightarrow> u32 \<Rightarrow> u32 \<Rightarrow> 'a vsys_scheme \<Rightarrow> 'a vsys_scheme" where
  "load_lanes u i a = s_lanes i (\<lambda>k s. on_vu u (vset_gpr (v_ft i) k (vu_read_data u (a + 4 * of_nat k) s)) s)"

definition store_lanes :: "nat \<Rightarrow> u32 \<Rightarrow> u32 \<Rightarrow> 'a vsys_scheme \<Rightarrow> 'a vsys_scheme" where
  "store_lanes u i a = s_lanes i (\<lambda>k s. vu_write_data u (a + 4 * of_nat k) (vu_gpr (vus s u) (v_fs i) k) s)"

definition store_int_lanes :: "nat \<Rightarrow> u32 \<Rightarrow> u32 \<Rightarrow> 'a vsys_scheme \<Rightarrow> 'a vsys_scheme" where
  "store_int_lanes u i a = s_lanes i (\<lambda>k s. vu_write_data u (a + 4 * of_nat k) (ucast (int_gpr (vus s u) (v_it i))) s)"

text \<open>Only the first selected component is loaded.\<close>

definition load_int :: "nat \<Rightarrow> u32 \<Rightarrow> u32 \<Rightarrow> 'a vsys_scheme \<Rightarrow> 'a vsys_scheme" where
  "load_int u i a s =
     (case find (in_field i) [0, 1, 2, 3] of
        None \<Rightarrow> s
      | Some k \<Rightarrow> on_vu u (set_int (v_it i) (ucast (vu_read_data u (a + 4 * of_nat k) s AND 0xFFFF))) s)"

definition bump_int :: "nat \<Rightarrow> u16 \<Rightarrow> vunit \<Rightarrow> vunit" where
  "bump_int r d v = (if r \<noteq> 0 then v\<lparr>int_gpr := (int_gpr v)(r := int_gpr v r + d)\<rparr> else v)"

definition v_lq :: "'a vlop" where
  "v_lq u h i s = Inr (load_lanes u i (v_addr (int_gpr (vus s u) (v_is i)) i) s)"
definition v_lqd :: "'a vlop" where
  "v_lqd u h i s =
     (let s = on_vu u (\<lambda>v. bump_int (v_is i) (- 1) (write_int (v_is i) (v_is i) 0 v)) s
      in Inr (load_lanes u i (v_addr_reg (int_gpr (vus s u) (v_is i))) s))"
definition v_lqi :: "'a vlop" where
  "v_lqi u h i s =
     (let s = on_vu u (write_int (v_is i) (v_is i) 0) s
      in Inr (on_vu u (bump_int (v_is i) 1) (load_lanes u i (v_addr_reg (int_gpr (vus s u) (v_is i))) s)))"
definition v_sq :: "'a vlop" where
  "v_sq u h i s = Inr (store_lanes u i (v_addr (int_gpr (vus s u) (v_it i)) i) s)"
definition v_sqd :: "'a vlop" where
  "v_sqd u h i s =
     (let s = on_vu u (\<lambda>v. bump_int (v_it i) (- 1) (write_int (v_it i) (v_it i) 0 v)) s
      in Inr (store_lanes u i (v_addr_reg (int_gpr (vus s u) (v_it i))) s))"
definition v_sqi :: "'a vlop" where
  "v_sqi u h i s =
     (let s = on_vu u (write_int (v_it i) (v_it i) 0) s
      in Inr (on_vu u (bump_int (v_it i) 1) (store_lanes u i (v_addr_reg (int_gpr (vus s u) (v_it i))) s)))"
definition v_ilw :: "'a vlop" where
  "v_ilw u h i s =
     (let s = on_vu u (write_int (v_it i) (v_is i) 0) s
      in Inr (load_int u i (v_addr (int_gpr (vus s u) (v_is i)) i) s))"
definition v_ilwr :: "'a vlop" where
  "v_ilwr u h i s =
     (let s = on_vu u (write_int (v_it i) (v_is i) 0) s
      in Inr (load_int u i (v_addr_reg (int_gpr (vus s u) (v_is i))) s))"
definition v_isw :: "'a vlop" where
  "v_isw u h i s = Inr (store_int_lanes u i (v_addr (int_gpr (vus s u) (v_is i)) i) s)"
definition v_iswr :: "'a vlop" where
  "v_iswr u h i s = Inr (store_int_lanes u i (v_addr_reg (int_gpr (vus s u) (v_is i))) s)"

subsection \<open>Flags\<close>

definition v_fcand :: vop where
  "v_fcand h i v = set_int 1 (if (clip_reg v AND 0xFFFFFF) AND (i AND 0xFFFFFF) \<noteq> 0 then 1 else 0) v"
definition v_fceq :: vop where
  "v_fceq h i v = set_int 1 (if clip_reg v AND 0xFFFFFF = i AND 0xFFFFFF then 1 else 0) v"
definition v_fcget :: vop where "v_fcget h i v = set_int (v_it i) (ucast (clip_reg v AND 0xFFF)) v"
definition v_fcor :: vop where
  "v_fcor h i v = set_int 1 (if (clip_reg v AND 0xFFFFFF) OR (i AND 0xFFFFFF) = 0xFFFFFF then 1 else 0) v"
definition v_fcset :: vop where "v_fcset h i v = v\<lparr>clip_flags := i AND 0xFFFFFF\<rparr>"
definition v_fmeq :: vop where
  "v_fmeq h i v = set_int (v_it i) (if mac_flags v AND 0xFFFF = ucast (int_gpr v (v_is i)) then 1 else 0) v"
definition v_fmand :: vop where
  "v_fmand h i v = set_int (v_it i) (ucast (mac_flags v AND 0xFFFF) AND int_gpr v (v_is i)) v"
definition v_fmor :: vop where
  "v_fmor h i v = set_int (v_it i) (ucast (mac_flags v AND 0xFFFF) OR int_gpr v (v_is i)) v"
definition v_fseq :: vop where
  "v_fseq h i v = set_int (v_it i) (if vu_status v AND 0xFFF = v_imm12 i then 1 else 0) v"
definition v_fsand :: vop where "v_fsand h i v = set_int (v_it i) (ucast (vu_status v AND v_imm12 i)) v"
definition v_fsor :: vop where "v_fsor h i v = set_int (v_it i) (ucast (vu_status v OR v_imm12 i)) v"
definition v_fsset_op :: vop where "v_fsset_op h i = v_fsset i"

subsection \<open>Branches\<close>

definition link_value :: "u16 \<Rightarrow> nat \<Rightarrow> u16" where "link_value pc n = of_nat ((unat pc + n) div 8)"

definition goto :: "u16 \<Rightarrow> nat option \<Rightarrow> vunit \<Rightarrow> vunit" where
  "goto target lk v =
     (if vu_branch_on v
      then let v = v\<lparr>second_branch_pending := True, secondbranch_PC := target\<rparr>
           in (case lk of None \<Rightarrow> v | Some r \<Rightarrow> set_int r (link_value (vu_new_PC v) 8) v)
      else let v = v\<lparr>vu_branch_on := True, branch_delay_slot := 1, vu_new_PC := target\<rparr>
           in (case lk of None \<Rightarrow> v | Some r \<Rightarrow> set_int r (link_value (vu_PC v) 16) v))"

definition vu_branch :: "bool \<Rightarrow> u16 \<Rightarrow> nat option \<Rightarrow> vunit \<Rightarrow> vunit" where
  "vu_branch condition imm lk v =
     (let v = branch_flush v in if condition then goto ((vu_PC v + imm + 8) AND vu_mem_mask v) lk v else v)"

definition vu_jp :: "u16 \<Rightarrow> nat option \<Rightarrow> vunit \<Rightarrow> vunit" where
  "vu_jp addr lk v = (let v = branch_flush v in goto (addr AND vu_mem_mask v) lk v)"

definition int_reg :: "nat \<Rightarrow> (vunit \<Rightarrow> vunit) \<Rightarrow> nat \<Rightarrow> 'a vsys_scheme \<Rightarrow> 'a vsys_scheme res" where
  "int_reg r f u s = (if r < 16 then Inr (on_vu u f s) else Inl (Undefined ''int_gpr index out of range''))"

definition v_b :: vop where "v_b h i = vu_branch True (v_branch_imm i) None"
definition v_bal :: "'a vlop" where
  "v_bal u h i = int_reg (v_ft i) (vu_branch True (v_branch_imm i) (Some (v_ft i))) u"
definition v_jr :: "'a vlop" where
  "v_jr u h i = int_reg (v_fs i) (\<lambda>v. vu_jp (int_gpr v (v_fs i) * 8) None v) u"
definition v_jalr :: "'a vlop" where
  "v_jalr u h i = int_reg (max (v_fs i) (v_ft i)) (\<lambda>v. vu_jp (int_gpr v (v_fs i) * 8) (Some (v_ft i)) v) u"

definition v_ibeq :: vop where
  "v_ibeq h i v = vu_branch (read_int_for_branch_condition (v_is i) v = read_int_for_branch_condition (v_it i) v) (v_branch_imm i) None v"
definition v_ibne :: vop where
  "v_ibne h i v = vu_branch (read_int_for_branch_condition (v_is i) v \<noteq> read_int_for_branch_condition (v_it i) v) (v_branch_imm i) None v"
definition v_ibgez :: vop where
  "v_ibgez h i v = vu_branch (0 \<le>s read_int_for_branch_condition (v_is i) v) (v_branch_imm i) None v"
definition v_ibgtz :: vop where
  "v_ibgtz h i v = vu_branch (0 <s read_int_for_branch_condition (v_is i) v) (v_branch_imm i) None v"
definition v_iblez :: vop where
  "v_iblez h i v = vu_branch (read_int_for_branch_condition (v_is i) v \<le>s 0) (v_branch_imm i) None v"
definition v_ibltz :: vop where
  "v_ibltz h i v = vu_branch (read_int_for_branch_condition (v_is i) v <s 0) (v_branch_imm i) None v"

subsection \<open>The divider\<close>

definition sticky_div :: "vunit \<Rightarrow> vunit" where
  "sticky_div v = v\<lparr>vu_status := (vu_status v AND 0xFCF) OR push_bit 6 (vu_status v AND 0x30)\<rparr>"

definition signs_differ :: "u32 \<Rightarrow> u32 \<Rightarrow> bool" where
  "signs_differ a b \<longleftrightarrow> (a AND 0x80000000) XOR (b AND 0x80000000) \<noteq> 0"

definition v_div :: vop where
  "v_div h i v =
     (let a = vu_gpr v (v_fs i) (v_fsf i); b = vu_gpr v (v_ft i) (v_ftf i); num = vu_convert a; denom = vu_convert b;
          v = sticky_div v;
          v = (if f_eq denom 0
               then v\<lparr>vu_status_value := (if f_eq num 0 then 0x10 else 0x20), status_pipe := 7,
                      new_Q := (if signs_differ a b then 0xFF7FFFFF else 0x7F7FFFFF)\<rparr>
               else v\<lparr>new_Q := vu_convert (hf_div h num denom)\<rparr>)
      in start_DIV_unit 7 v)"

definition v_rsqrt :: vop where
  "v_rsqrt h i v =
     (let a = vu_gpr v (v_fs i) (v_fsf i); b = vu_gpr v (v_ft i) (v_ftf i); num = vu_convert a; denom = vu_convert b;
          v = sticky_div v;
          v = (if f_eq denom 0
               then if f_eq num 0
                    then v\<lparr>vu_status_value := 0x30, status_pipe := 13, new_Q := (if signs_differ a b then 0x80000000 else 0)\<rparr>
                    else v\<lparr>vu_status_value := 0x20, status_pipe := 13, new_Q := (if signs_differ a b then 0xFF7FFFFF else 0x7F7FFFFF)\<rparr>
               else let v = (if f_lt denom 0 then v\<lparr>vu_status_value := 0x10, status_pipe := 13\<rparr> else v)
                    in v\<lparr>new_Q := vu_convert (hf_div_root h num denom)\<rparr>)
      in start_DIV_unit 13 v)"

definition v_sqrt :: vop where
  "v_sqrt h i v =
     (let b = vu_convert (vu_gpr v (v_ft i) (v_ftf i)); v = sticky_div v;
          v = (if f_lt b 0 then v\<lparr>vu_status_value := 0x10, status_pipe := 7\<rparr> else v)
      in start_DIV_unit 7 (v\<lparr>new_Q := vu_convert (hf_sqrt_abs h b)\<rparr>))"

subsection \<open>The random number register\<close>

definition advance_r :: "vunit \<Rightarrow> vunit" where
  "advance_r v =
     (let x = drop_bit 4 (vu_R v) AND 1; y = drop_bit 22 (vu_R v) AND 1; r = push_bit 1 (vu_R v) XOR (x XOR y)
      in v\<lparr>vu_R := (r AND 0x7FFFFF) OR 0x3F800000\<rparr>)"

definition v_rget :: vop where "v_rget h i = v_lanes i (\<lambda>k v. vset_gpr (v_ft i) k (vu_R v) v)"
definition v_rnext :: vop where "v_rnext h i v = v_rget h i (advance_r v)"
definition v_rinit :: vop where
  "v_rinit h i v = v\<lparr>vu_R := 0x3F800000 OR (vu_gpr v (v_fs i) (v_fsf i) AND 0x007FFFFF)\<rparr>"
definition v_rxor :: vop where
  "v_rxor h i v = v\<lparr>vu_R := 0x3F800000 OR ((vu_R v XOR vu_gpr v (v_fs i) (v_fsf i)) AND 0x007FFFFF)\<rparr>"

subsection \<open>The elementary function unit\<close>

text \<open>Only VU1 has it; on VU0 all but \<open>ESIN\<close> do nothing.\<close>

definition efu :: "u64 \<Rightarrow> (vunit \<Rightarrow> u32) \<Rightarrow> vunit \<Rightarrow> vunit" where
  "efu lat g v = (if vu_id v = 0 then v else start_EFU_unit lat (v\<lparr>new_P := g v\<rparr>))"

definition atan_const :: "u32 list" where
  "atan_const = [0x3F7FFFF5, 0xBEAAA61C, 0x3E4C40A6, 0xBE0E6C63, 0x3DC577DF, 0xBD6501C4, 0x3CB31652, 0xBB84D7E7]"

definition calculate_atan :: "host_vu \<Rightarrow> u32 \<Rightarrow> u32" where
  "calculate_atan h t =
     fold (\<lambda>k r. hf_add h r (hf_mul h (atan_const ! k) (hf_powf h t (2 * k + 1)))) [0..<8] 0x3F490FDB"

definition hd_term :: "host_vu \<Rightarrow> u32 \<Rightarrow> u32 \<Rightarrow> nat \<Rightarrow> u32 \<Rightarrow> u32" where
  "hd_term h c x n r = hd_to h (hd_add h (hd_of h r) (hd_mul h (hd_of h c) (hd_pow h (hd_of h x) n)))"

definition sum_of_squares :: "host_vu \<Rightarrow> u32 \<Rightarrow> vunit \<Rightarrow> u32" where
  "sum_of_squares h i v =
     (let sq = (\<lambda>k. hd_pow h (hd_of h (vcv (v_fs i) k v)) 2) in hd_to h (hd_add h (hd_add h (sq 0) (sq 1)) (sq 2)))"

definition reciprocal :: "host_vu \<Rightarrow> u32 \<Rightarrow> u32" where
  "reciprocal h p = (if \<not> f_eq p 0 then hf_div h 0x3F800000 p else p)"

definition v_eatan :: vop where
  "v_eatan h i = efu 54 (\<lambda>v. let x = vcv (v_fs i) (v_fsf i) v
     in if f_eq x 0xBF800000 then 0xFF7FFFFF
        else calculate_atan h (hf_div h (hf_sub h x 0x3F800000) (hf_add h x 0x3F800000)))"
definition v_eatanxy :: vop where
  "v_eatanxy h i = efu 54 (\<lambda>v. let x = vcv (v_fs i) 0 v; y = vcv (v_fs i) 1 v
     in if f_eq (hf_add h y x) 0 then 0x7F7FFFFF OR (vu_gpr v (v_fs i) 1 AND 0x80000000)
        else calculate_atan h (hf_div h (hf_sub h y 0x3F800000) (hf_add h y x)))"
definition v_eatanxz :: vop where
  "v_eatanxz h i = efu 54 (\<lambda>v. let x = vcv (v_fs i) 0 v; z = vcv (v_fs i) 2 v
     in if f_eq (hf_add h z x) 0 then 0x7F7FFFFF OR (vu_gpr v (v_fs i) 2 AND 0x80000000)
        else calculate_atan h (hf_div h (hf_sub h z x) (hf_add h z x)))"

definition eexp_coeffs :: "u32 list" where
  "eexp_coeffs = [0x3E7FFFA8, 0x3D0007F4, 0x3B29D3FF, 0x3933E553, 0x36B63510, 0x353961AC]"
definition v_eexp :: vop where
  "v_eexp h i v =
     (if vu_id v = 0 then v
      else if vu_gpr v (v_fs i) (v_fsf i) AND 0x80000000 \<noteq> 0 then v\<lparr>new_P := vcv (v_fs i) (v_fsf i) v\<rparr>
      else let x = vcv (v_fs i) (v_fsf i) v;
               value = fold (\<lambda>k. hd_term h (eexp_coeffs ! (k - 1)) x k) [1..<7] 0x3F800000
           in start_EFU_unit 44 (v\<lparr>new_P := hd_to h (hd_div h 0x3FF0000000000000 (hd_of h value))\<rparr>))"

definition esin_coeffs :: "u32 list" where "esin_coeffs = [0xBE2AAAA4, 0x3C08873E, 0xB94FB21F, 0x362E9C14]"
definition v_esin :: vop where
  "v_esin h i v =
     (let x = vcv (v_fs i) (v_fsf i) v
      in start_EFU_unit 29 (v\<lparr>new_P := fold (\<lambda>c. hd_term h (esin_coeffs ! c) x (2 * c + 3)) [0..<4] x\<rparr>))"

definition v_ercpr :: vop where "v_ercpr h i = efu 12 (\<lambda>v. reciprocal h (vcv (v_fs i) (v_fsf i) v))"
definition v_eleng :: vop where
  "v_eleng h i = efu 18 (\<lambda>v. let p = sum_of_squares h i v in if f_le 0 p then hf_sqrt_abs h p else p)"
definition v_esqrt :: vop where "v_esqrt h i = efu 12 (\<lambda>v. hf_sqrt_abs h (vcv (v_fs i) (v_fsf i) v))"
definition v_esum :: vop where
  "v_esum h i = efu 12 (\<lambda>v. fold (\<lambda>k p. hf_add h p (vcv (v_fs i) k v)) [0..<4] 0)"
definition v_erleng :: vop where
  "v_erleng h i = efu 24 (\<lambda>v. let p = sum_of_squares h i v in if f_le 0 p then reciprocal h (hf_sqrt_abs h p) else p)"
definition v_ersadd :: vop where "v_ersadd h i = efu 18 (\<lambda>v. reciprocal h (sum_of_squares h i v))"
definition v_ersqrt :: vop where "v_ersqrt h i = efu 18 (\<lambda>v. reciprocal h (hf_sqrt_abs h (vcv (v_fs i) (v_fsf i) v)))"
definition v_esadd :: vop where "v_esadd h i = efu 11 (sum_of_squares h i)"

subsection \<open>Waiting, the VIF's registers, kicks\<close>

definition wait_cycle :: "vunit \<Rightarrow> vunit" where
  "wait_cycle v = branch_update (update_mac_pipeline (v\<lparr>vu_cycle_count := vu_cycle_count v + 1\<rparr>))"

text \<open>\<open>while (cycle_count < finish) { ... }\<close>: each turn adds one cycle.\<close>

definition wait_until :: "u64 \<Rightarrow> vunit \<Rightarrow> vunit" where
  "wait_until finish v = (wait_cycle ^^ (unat finish - unat (vu_cycle_count v))) v"

definition v_wait :: "(vunit \<Rightarrow> vunit) \<Rightarrow> nat \<Rightarrow> 'a vsys_scheme \<Rightarrow> 'a vsys_scheme" where
  "v_wait f u s =
     (let s = on_vu u (\<lambda>v. update_DIV_EFU_pipes (f v)) s
      in if \<not> vu_running (vus s u) then s\<lparr>ee_cycle_count := vu_cycle_count (vus s u)\<rparr> else s)"

definition v_waitq :: "nat \<Rightarrow> 'a vsys_scheme \<Rightarrow> 'a vsys_scheme" where
  "v_waitq u s = (if DIV_event_started (vus s u) then v_wait (\<lambda>v. wait_until (finish_DIV_event v) v) u s else s)"

definition v_waitp :: "nat \<Rightarrow> 'a vsys_scheme \<Rightarrow> 'a vsys_scheme" where
  "v_waitp u s =
     (if EFU_event_started (vus s u)
      then v_wait (\<lambda>v. let v = v\<lparr>finish_EFU_event := finish_EFU_event v - 1\<rparr> in wait_until (finish_EFU_event v) v) u s
      else s)"

definition v_xtop :: "'a vlop" where
  "v_xtop u h i s = Inr (if vu_id (vus s u) = 0 then s else on_vu u (set_int (v_it i) (VIF_TOP s u)) s)"
definition v_xitop :: "'a vlop" where
  "v_xitop u h i s = Inr (on_vu u (set_int (v_it i) (VIF_ITOP s u)) s)"

definition v_xgkick :: vop where
  "v_xgkick h i v =
     (if vu_id v = 0 then v
      else let a = (int_gpr v (v_is i) AND 0x3FF) * 16
           in if transferring_GIF v then v\<lparr>stalled_GIF_addr := a, XGKICK_stall := True\<rparr>
              else v\<lparr>transferring_GIF := True, GIF_addr := a, XGKICK_cycles := 0\<rparr>)"

end
