(* ===== verification/Vu_Decode.thy ===== *)
theory Vu_Decode
  imports Vu_Lower
begin

unbundle bit_operations_syntax

section \<open>The vector units: decoder\<close>

text \<open>
  \<open>src/core/ee/vu_interpreter.cpp\<close>: for every instruction what it declares to read and write, which the
  stall logic and the pairing of upper and lower instruction rely on, and the operation it selects.
\<close>

type_synonym vdec = "decoded_regs \<Rightarrow> decoded_regs"
type_synonym udecode = "u32 \<Rightarrow> vdec \<times> vop"
type_synonym 'a ldecode = "u32 \<Rightarrow> vdec \<times> 'a vlop"

definition v_field :: "u32 \<Rightarrow> u8" where "v_field i = ucast (drop_bit 21 i AND 0xF)"
definition comp_bit :: "nat \<Rightarrow> u8" where "comp_bit k = push_bit (3 - k) 1"
definition rot_field :: "u8 \<Rightarrow> u8" where "rot_field f = drop_bit 1 f OR push_bit 3 (f AND 1)"

definition dw :: "nat \<Rightarrow> nat \<Rightarrow> u8 \<Rightarrow> vdec" where
  "dw j r f d = d\<lparr>vf_write := (vf_write d)(j := of_nat r), vf_write_field := (vf_write_field d)(j := f)\<rparr>"
definition dr0 :: "nat \<Rightarrow> nat \<Rightarrow> u8 \<Rightarrow> vdec" where
  "dr0 j r f d = d\<lparr>vf_read0 := (vf_read0 d)(j := of_nat r), vf_read0_field := (vf_read0_field d)(j := f)\<rparr>"
definition dr1 :: "nat \<Rightarrow> nat \<Rightarrow> u8 \<Rightarrow> vdec" where
  "dr1 j r f d = d\<lparr>vf_read1 := (vf_read1 d)(j := of_nat r), vf_read1_field := (vf_read1_field d)(j := f)\<rparr>"
definition di_w :: "nat \<Rightarrow> vdec" where "di_w r d = d\<lparr>vi_write := of_nat r\<rparr>"
definition di_load :: "nat \<Rightarrow> vdec" where "di_load r d = d\<lparr>vi_write_from_load := of_nat r\<rparr>"
definition di_r0 :: "nat \<Rightarrow> vdec" where "di_r0 r d = d\<lparr>vi_read0 := of_nat r\<rparr>"
definition di_r1 :: "nat \<Rightarrow> vdec" where "di_r1 r d = d\<lparr>vi_read1 := of_nat r\<rparr>"

subsection \<open>Upper instructions\<close>

definition dec_addbc :: udecode where
  "dec_addbc i = (\<lambda>d. dr1 0 (v_ft i) (comp_bit (v_bc i)) (dr0 0 (v_fs i) (v_field i) (dw 0 (v_fd i) (v_field i) d)), v_addbc)"
definition dec_subbc :: udecode where
  "dec_subbc i = (\<lambda>d. dr1 0 (v_ft i) (comp_bit (v_bc i)) (dr0 0 (v_fs i) (v_field i) (dw 0 (v_fd i) (v_field i) d)), v_subbc)"
definition dec_maddbc :: udecode where
  "dec_maddbc i = (\<lambda>d. dr1 0 (v_ft i) (comp_bit (v_bc i)) (dr0 0 (v_fs i) (v_field i) (dw 0 (v_fd i) (v_field i) d)), v_maddbc)"
definition dec_msubbc :: udecode where
  "dec_msubbc i = (\<lambda>d. dr1 0 (v_ft i) (comp_bit (v_bc i)) (dr0 0 (v_fs i) (v_field i) (dw 0 (v_fd i) (v_field i) d)), v_msubbc)"
definition dec_maxbc :: udecode where
  "dec_maxbc i = (\<lambda>d. dr1 0 (v_ft i) (comp_bit (v_bc i)) (dr0 0 (v_fs i) (v_field i) (dw 0 (v_fd i) (v_field i) d)), v_maxbc)"
definition dec_minibc :: udecode where
  "dec_minibc i = (\<lambda>d. dr1 0 (v_ft i) (comp_bit (v_bc i)) (dr0 0 (v_fs i) (v_field i) (dw 0 (v_fd i) (v_field i) d)), v_minibc)"
definition dec_mulbc :: udecode where
  "dec_mulbc i = (\<lambda>d. dr1 0 (v_ft i) (comp_bit (v_bc i)) (dr0 0 (v_fs i) (v_field i) (dw 0 (v_fd i) (v_field i) d)), v_mulbc)"
definition dec_mulq :: udecode where
  "dec_mulq i = (\<lambda>d. dr0 0 (v_fs i) (v_field i) (dw 0 (v_fd i) (v_field i) d), v_mulq)"
definition dec_maxi :: udecode where
  "dec_maxi i = (\<lambda>d. dr0 0 (v_fs i) (v_field i) (dw 0 (v_fd i) (v_field i) d), v_maxi)"
definition dec_muli :: udecode where
  "dec_muli i = (\<lambda>d. dr0 0 (v_fs i) (v_field i) (dw 0 (v_fd i) (v_field i) d), v_muli)"
definition dec_minii :: udecode where
  "dec_minii i = (\<lambda>d. dr0 0 (v_fs i) (v_field i) (dw 0 (v_fd i) (v_field i) d), v_minii)"
definition dec_addq :: udecode where
  "dec_addq i = (\<lambda>d. dr0 0 (v_fs i) (v_field i) (dw 0 (v_fd i) (v_field i) d), v_addq)"
definition dec_maddq :: udecode where
  "dec_maddq i = (\<lambda>d. dr0 0 (v_fs i) (v_field i) (dw 0 (v_fd i) (v_field i) d), v_maddq)"
definition dec_addi :: udecode where
  "dec_addi i = (\<lambda>d. dr0 0 (v_fs i) (v_field i) (dw 0 (v_fd i) (v_field i) d), v_addi)"
definition dec_maddi :: udecode where
  "dec_maddi i = (\<lambda>d. dr0 0 (v_fs i) (v_field i) (dw 0 (v_fd i) (v_field i) d), v_maddi)"
definition dec_subq :: udecode where
  "dec_subq i = (\<lambda>d. dr0 0 (v_fs i) (v_field i) (dw 0 (v_fd i) (v_field i) d), v_subq)"
definition dec_msubq :: udecode where
  "dec_msubq i = (\<lambda>d. dr0 0 (v_fs i) (v_field i) (dw 0 (v_fd i) (v_field i) d), v_msubq)"
definition dec_subi :: udecode where
  "dec_subi i = (\<lambda>d. dr0 0 (v_fs i) (v_field i) (dw 0 (v_fd i) (v_field i) d), v_subi)"
definition dec_msubi :: udecode where
  "dec_msubi i = (\<lambda>d. dr0 0 (v_fs i) (v_field i) (dw 0 (v_fd i) (v_field i) d), v_msubi)"
definition dec_add :: udecode where
  "dec_add i = (\<lambda>d. dr1 0 (v_ft i) (v_field i) (dr0 0 (v_fs i) (v_field i) (dw 0 (v_fd i) (v_field i) d)), v_add)"
definition dec_madd :: udecode where
  "dec_madd i = (\<lambda>d. dr1 0 (v_ft i) (v_field i) (dr0 0 (v_fs i) (v_field i) (dw 0 (v_fd i) (v_field i) d)), v_madd)"
definition dec_mul :: udecode where
  "dec_mul i = (\<lambda>d. dr1 0 (v_ft i) (v_field i) (dr0 0 (v_fs i) (v_field i) (dw 0 (v_fd i) (v_field i) d)), v_mul)"
definition dec_max :: udecode where
  "dec_max i = (\<lambda>d. dr1 0 (v_ft i) (v_field i) (dr0 0 (v_fs i) (v_field i) (dw 0 (v_fd i) (v_field i) d)), v_max)"
definition dec_sub :: udecode where
  "dec_sub i = (\<lambda>d. dr1 0 (v_ft i) (v_field i) (dr0 0 (v_fs i) (v_field i) (dw 0 (v_fd i) (v_field i) d)), v_sub)"
definition dec_msub :: udecode where
  "dec_msub i = (\<lambda>d. dr1 0 (v_ft i) (v_field i) (dr0 0 (v_fs i) (v_field i) (dw 0 (v_fd i) (v_field i) d)), v_msub)"
definition dec_opmsub :: udecode where
  "dec_opmsub i = (\<lambda>d. dr1 0 (v_ft i) 0xE (dr0 0 (v_fs i) 0xE (dw 0 (v_fd i) 0xE d)), v_opmsub)"
definition dec_mini :: udecode where
  "dec_mini i = (\<lambda>d. dr1 0 (v_ft i) (v_field i) (dr0 0 (v_fs i) (v_field i) (dw 0 (v_fd i) (v_field i) d)), v_mini)"
definition dec_addabc :: udecode where
  "dec_addabc i = (\<lambda>d. dr1 0 (v_ft i) (comp_bit (v_bc i)) (dr0 0 (v_fs i) (v_field i) d), v_addabc)"
definition dec_subabc :: udecode where
  "dec_subabc i = (\<lambda>d. dr1 0 (v_ft i) (comp_bit (v_bc i)) (dr0 0 (v_fs i) (v_field i) d), v_subabc)"
definition dec_maddabc :: udecode where
  "dec_maddabc i = (\<lambda>d. dr1 0 (v_ft i) (comp_bit (v_bc i)) (dr0 0 (v_fs i) (v_field i) d), v_maddabc)"
definition dec_msubabc :: udecode where
  "dec_msubabc i = (\<lambda>d. dr1 0 (v_ft i) (comp_bit (v_bc i)) (dr0 0 (v_fs i) (v_field i) d), v_msubabc)"
definition dec_itof0 :: udecode where
  "dec_itof0 i = (\<lambda>d. dr0 0 (v_fs i) (v_field i) (dw 0 (v_ft i) (v_field i) d), v_itof0)"
definition dec_itof4 :: udecode where
  "dec_itof4 i = (\<lambda>d. dr0 0 (v_fs i) (v_field i) (dw 0 (v_ft i) (v_field i) d), v_itof4)"
definition dec_itof12 :: udecode where
  "dec_itof12 i = (\<lambda>d. dr0 0 (v_fs i) (v_field i) (dw 0 (v_ft i) (v_field i) d), v_itof12)"
definition dec_itof15 :: udecode where
  "dec_itof15 i = (\<lambda>d. dr0 0 (v_fs i) (v_field i) (dw 0 (v_ft i) (v_field i) d), v_itof15)"
definition dec_ftoi0 :: udecode where
  "dec_ftoi0 i = (\<lambda>d. dr0 0 (v_fs i) (v_field i) (dw 0 (v_ft i) (v_field i) d), v_ftoi0)"
definition dec_ftoi4 :: udecode where
  "dec_ftoi4 i = (\<lambda>d. dr0 0 (v_fs i) (v_field i) (dw 0 (v_ft i) (v_field i) d), v_ftoi4)"
definition dec_ftoi12 :: udecode where
  "dec_ftoi12 i = (\<lambda>d. dr0 0 (v_fs i) (v_field i) (dw 0 (v_ft i) (v_field i) d), v_ftoi12)"
definition dec_ftoi15 :: udecode where
  "dec_ftoi15 i = (\<lambda>d. dr0 0 (v_fs i) (v_field i) (dw 0 (v_ft i) (v_field i) d), v_ftoi15)"
definition dec_mulabc :: udecode where
  "dec_mulabc i = (\<lambda>d. dr1 0 (v_ft i) (comp_bit (v_bc i)) (dr0 0 (v_fs i) (v_field i) d), v_mulabc)"
definition dec_mulaq :: udecode where
  "dec_mulaq i = (\<lambda>d. dr0 0 (v_fs i) (v_field i) d, v_mulaq)"
definition dec_abs :: udecode where
  "dec_abs i = (\<lambda>d. dr0 0 (v_fs i) (v_field i) (dw 0 (v_ft i) (v_field i) d), v_abs)"
definition dec_mulai :: udecode where
  "dec_mulai i = (\<lambda>d. dr0 0 (v_fs i) (v_field i) d, v_mulai)"
definition dec_clip :: udecode where
  "dec_clip i = (\<lambda>d. dr1 0 (v_ft i) 0x1 (dr0 0 (v_fs i) 0xE d), v_clip)"
definition dec_addai :: udecode where
  "dec_addai i = (\<lambda>d. dr0 0 (v_fs i) (v_field i) d, v_addai)"
definition dec_addaq :: udecode where
  "dec_addaq i = (\<lambda>d. dr0 0 (v_fs i) (v_field i) d, v_addaq)"
definition dec_maddaq :: udecode where
  "dec_maddaq i = (\<lambda>d. dr0 0 (v_fs i) (v_field i) d, v_maddaq)"
definition dec_maddai :: udecode where
  "dec_maddai i = (\<lambda>d. dr0 0 (v_fs i) (v_field i) d, v_maddai)"
definition dec_subaq :: udecode where
  "dec_subaq i = (\<lambda>d. dr0 0 (v_fs i) (v_field i) d, v_subaq)"
definition dec_msubaq :: udecode where
  "dec_msubaq i = (\<lambda>d. dr0 0 (v_fs i) (v_field i) d, v_msubaq)"
definition dec_subai :: udecode where
  "dec_subai i = (\<lambda>d. dr0 0 (v_fs i) (v_field i) d, v_subai)"
definition dec_msubai :: udecode where
  "dec_msubai i = (\<lambda>d. dr0 0 (v_fs i) (v_field i) d, v_msubai)"
definition dec_mula :: udecode where
  "dec_mula i = (\<lambda>d. dr1 0 (v_ft i) (v_field i) (dr0 0 (v_fs i) (v_field i) d), v_mula)"
definition dec_adda :: udecode where
  "dec_adda i = (\<lambda>d. dr1 0 (v_ft i) (v_field i) (dr0 0 (v_fs i) (v_field i) d), v_adda)"
definition dec_suba :: udecode where
  "dec_suba i = (\<lambda>d. dr1 0 (v_ft i) (v_field i) (dr0 0 (v_fs i) (v_field i) d), v_suba)"
definition dec_madda :: udecode where
  "dec_madda i = (\<lambda>d. dr1 0 (v_ft i) (v_field i) (dr0 0 (v_fs i) (v_field i) d), v_madda)"
definition dec_opmula :: udecode where
  "dec_opmula i = (\<lambda>d. dr1 0 (v_ft i) 0xE (dr0 0 (v_fs i) 0xE d), v_opmula)"
definition dec_msuba :: udecode where
  "dec_msuba i = (\<lambda>d. dr1 0 (v_ft i) (v_field i) (dr0 0 (v_fs i) (v_field i) d), v_msuba)"
definition dec_unop :: udecode where "dec_unop i = (id, v_nop)"

definition upper_special_table :: "(u32 \<times> udecode) list" where
  "upper_special_table =
    [(0x00, dec_addabc), (0x01, dec_addabc), (0x02, dec_addabc), (0x03, dec_addabc),
     (0x04, dec_subabc), (0x05, dec_subabc), (0x06, dec_subabc), (0x07, dec_subabc),
     (0x08, dec_maddabc), (0x09, dec_maddabc), (0x0A, dec_maddabc), (0x0B, dec_maddabc),
     (0x0C, dec_msubabc), (0x0D, dec_msubabc), (0x0E, dec_msubabc), (0x0F, dec_msubabc),
     (0x10, dec_itof0), (0x11, dec_itof4), (0x12, dec_itof12), (0x13, dec_itof15),
     (0x14, dec_ftoi0), (0x15, dec_ftoi4), (0x16, dec_ftoi12), (0x17, dec_ftoi15),
     (0x18, dec_mulabc), (0x19, dec_mulabc), (0x1A, dec_mulabc), (0x1B, dec_mulabc),
     (0x1C, dec_mulaq), (0x1D, dec_abs), (0x1E, dec_mulai), (0x1F, dec_clip),
     (0x20, dec_addaq), (0x21, dec_maddaq), (0x22, dec_addai), (0x23, dec_maddai),
     (0x24, dec_subaq), (0x25, dec_msubaq), (0x26, dec_subai), (0x27, dec_msubai),
     (0x28, dec_adda), (0x29, dec_madda), (0x2A, dec_mula), (0x2C, dec_suba),
     (0x2D, dec_msuba), (0x2E, dec_opmula), (0x2F, dec_unop), (0x30, dec_unop)]"

definition upper_table :: "(u32 \<times> udecode) list" where
  "upper_table =
    [(0x00, dec_addbc), (0x01, dec_addbc), (0x02, dec_addbc), (0x03, dec_addbc),
     (0x04, dec_subbc), (0x05, dec_subbc), (0x06, dec_subbc), (0x07, dec_subbc),
     (0x08, dec_maddbc), (0x09, dec_maddbc), (0x0A, dec_maddbc), (0x0B, dec_maddbc),
     (0x0C, dec_msubbc), (0x0D, dec_msubbc), (0x0E, dec_msubbc), (0x0F, dec_msubbc),
     (0x10, dec_maxbc), (0x11, dec_maxbc), (0x12, dec_maxbc), (0x13, dec_maxbc),
     (0x14, dec_minibc), (0x15, dec_minibc), (0x16, dec_minibc), (0x17, dec_minibc),
     (0x18, dec_mulbc), (0x19, dec_mulbc), (0x1A, dec_mulbc), (0x1B, dec_mulbc),
     (0x1C, dec_mulq), (0x1D, dec_maxi), (0x1E, dec_muli), (0x1F, dec_minii),
     (0x20, dec_addq), (0x21, dec_maddq), (0x22, dec_addi), (0x23, dec_maddi),
     (0x24, dec_subq), (0x25, dec_msubq), (0x26, dec_subi), (0x27, dec_msubi),
     (0x28, dec_add), (0x29, dec_madd), (0x2A, dec_mul), (0x2B, dec_max),
     (0x2C, dec_sub), (0x2D, dec_msub), (0x2E, dec_opmsub), (0x2F, dec_mini)]"

text \<open>\<open>unknown_op\<close> ends the emulation.\<close>

definition decode_upper :: "u32 \<Rightarrow> (vdec \<times> vop) res" where
  "decode_upper i =
     (let op = i AND 0x3F
      in case (if 0x3C \<le> op then map_of upper_special_table ((i AND 3) OR (drop_bit 4 i AND 0x7C))
               else map_of upper_table op) of
           None \<Rightarrow> Inl (Die ''Unknown upper op'') | Some dec \<Rightarrow> Inr (dec i))"

subsection \<open>Lower instructions\<close>

definition dec_iadd :: "'a ldecode" where
  "dec_iadd i = (\<lambda>d. di_r1 (v_it i) (di_r0 (v_is i) (di_w (v_id i) d)), lowered v_iadd)"
definition dec_isub :: "'a ldecode" where
  "dec_isub i = (\<lambda>d. di_r1 (v_it i) (di_r0 (v_is i) (di_w (v_id i) d)), lowered v_isub)"
definition dec_iaddi :: "'a ldecode" where
  "dec_iaddi i = (\<lambda>d. di_r0 (v_is i) (di_w (v_it i) d), lowered v_iaddi)"
definition dec_iand :: "'a ldecode" where
  "dec_iand i = (\<lambda>d. di_r1 (v_it i) (di_r0 (v_is i) (di_w (v_id i) d)), lowered v_iand)"
definition dec_ior :: "'a ldecode" where
  "dec_ior i = (\<lambda>d. di_r1 (v_it i) (di_r0 (v_is i) (di_w (v_id i) d)), lowered v_ior)"
definition dec_move :: "'a ldecode" where
  "dec_move i = (\<lambda>d. dr0 1 (v_fs i) (v_field i) (dw 1 (v_ft i) (v_field i) d), lowered v_move)"
definition dec_mr32 :: "'a ldecode" where
  "dec_mr32 i = (\<lambda>d. dr0 1 (v_fs i) (rot_field (v_field i)) (dw 1 (v_ft i) (v_field i) d), lowered v_mr32)"
definition dec_lqi :: "'a ldecode" where
  "dec_lqi i = (\<lambda>d. di_r0 (v_is i) (di_w (v_is i) (dw 1 (v_ft i) (v_field i) d)), v_lqi)"
definition dec_sqi :: "'a ldecode" where
  "dec_sqi i = (\<lambda>d. di_r0 (v_it i) (di_w (v_it i) (dr0 1 (v_fs i) (v_field i) d)), v_sqi)"
definition dec_lqd :: "'a ldecode" where
  "dec_lqd i = (\<lambda>d. di_r0 (v_is i) (di_w (v_is i) (dw 1 (v_ft i) (v_field i) d)), v_lqd)"
definition dec_sqd :: "'a ldecode" where
  "dec_sqd i = (\<lambda>d. di_r0 (v_it i) (di_w (v_it i) (dr0 1 (v_fs i) (v_field i) d)), v_sqd)"
definition dec_div :: "'a ldecode" where
  "dec_div i = (\<lambda>d. dr1 1 (v_ft i) (comp_bit (v_ftf i)) (dr0 1 (v_fs i) (comp_bit (v_fsf i)) d), lowered v_div)"
definition dec_vu_sqrt :: "'a ldecode" where
  "dec_vu_sqrt i = (\<lambda>d. dr0 1 (v_ft i) (comp_bit (v_ftf i)) d, lowered v_sqrt)"
definition dec_rsqrt :: "'a ldecode" where
  "dec_rsqrt i = (\<lambda>d. dr1 1 (v_ft i) (comp_bit (v_ftf i)) (dr0 1 (v_fs i) (comp_bit (v_fsf i)) d), lowered v_rsqrt)"
definition dec_waitq :: "'a ldecode" where
  "dec_waitq i = (\<lambda>d. d, lowered v_nop)"
definition dec_mtir :: "'a ldecode" where
  "dec_mtir i = (\<lambda>d. di_w (v_it i) (dr0 1 (v_fs i) (comp_bit (v_fsf i)) d), lowered v_mtir)"
definition dec_mfir :: "'a ldecode" where
  "dec_mfir i = (\<lambda>d. di_r0 (v_fs i) (dw 1 (v_ft i) (v_field i) d), lowered v_mfir)"
definition dec_ilwr :: "'a ldecode" where
  "dec_ilwr i = (\<lambda>d. di_r0 (v_is i) (di_load (v_it i) (di_w (v_it i) d)), v_ilwr)"
definition dec_iswr :: "'a ldecode" where
  "dec_iswr i = (\<lambda>d. di_r1 (v_it i) (di_r0 (v_is i) d), v_iswr)"
definition dec_rnext :: "'a ldecode" where
  "dec_rnext i = (\<lambda>d. dw 1 (v_ft i) (v_field i) d, lowered v_rnext)"
definition dec_rget :: "'a ldecode" where
  "dec_rget i = (\<lambda>d. dw 1 (v_ft i) (v_field i) d, lowered v_rget)"
definition dec_rinit :: "'a ldecode" where
  "dec_rinit i = (\<lambda>d. dr0 1 (v_fs i) (comp_bit (v_fsf i)) d, lowered v_rinit)"
definition dec_rxor :: "'a ldecode" where
  "dec_rxor i = (\<lambda>d. dr0 1 (v_fs i) (comp_bit (v_fsf i)) d, lowered v_rxor)"
definition dec_mfp :: "'a ldecode" where
  "dec_mfp i = (\<lambda>d. dw 1 (v_ft i) (v_field i) d, lowered v_mfp)"
definition dec_xtop :: "'a ldecode" where
  "dec_xtop i = (\<lambda>d. di_w (v_it i) d, v_xtop)"
definition dec_xitop :: "'a ldecode" where
  "dec_xitop i = (\<lambda>d. di_w (v_it i) d, v_xitop)"
definition dec_xgkick :: "'a ldecode" where
  "dec_xgkick i = (\<lambda>d. di_r0 (v_is i) d, lowered v_xgkick)"
definition dec_esadd :: "'a ldecode" where
  "dec_esadd i = (\<lambda>d. dr0 1 (v_fs i) 0xE d, lowered v_esadd)"
definition dec_ercpr :: "'a ldecode" where
  "dec_ercpr i = (\<lambda>d. dr0 1 (v_fs i) (comp_bit (v_fsf i)) d, lowered v_ercpr)"
definition dec_ersadd :: "'a ldecode" where
  "dec_ersadd i = (\<lambda>d. dr0 1 (v_fs i) 0xE d, lowered v_ersadd)"
definition dec_eleng :: "'a ldecode" where
  "dec_eleng i = (\<lambda>d. dr0 1 (v_fs i) 0xE d, lowered v_eleng)"
definition dec_erleng :: "'a ldecode" where
  "dec_erleng i = (\<lambda>d. dr0 1 (v_fs i) 0xE d, lowered v_erleng)"
definition dec_esum :: "'a ldecode" where
  "dec_esum i = (\<lambda>d. dr0 1 (v_fs i) 0xF d, lowered v_esum)"
definition dec_esqrt :: "'a ldecode" where
  "dec_esqrt i = (\<lambda>d. dr0 1 (v_fs i) (comp_bit (v_fsf i)) d, lowered v_esqrt)"
definition dec_ersqrt :: "'a ldecode" where
  "dec_ersqrt i = (\<lambda>d. dr0 1 (v_fs i) (comp_bit (v_fsf i)) d, lowered v_ersqrt)"
definition dec_esin :: "'a ldecode" where
  "dec_esin i = (\<lambda>d. dr0 1 (v_fs i) (comp_bit (v_fsf i)) d, lowered v_esin)"
definition dec_eatan :: "'a ldecode" where
  "dec_eatan i = (\<lambda>d. dr0 1 (v_fs i) (comp_bit (v_fsf i)) d, lowered v_eatan)"
definition dec_eatanxy :: "'a ldecode" where
  "dec_eatanxy i = (\<lambda>d. dr0 1 (v_fs i) 0xC d, lowered v_eatanxy)"
definition dec_eatanxz :: "'a ldecode" where
  "dec_eatanxz i = (\<lambda>d. dr0 1 (v_fs i) 0xA d, lowered v_eatanxz)"
definition dec_eexp :: "'a ldecode" where
  "dec_eexp i = (\<lambda>d. dr0 1 (v_fs i) (comp_bit (v_fsf i)) d, lowered v_eexp)"
definition dec_lq :: "'a ldecode" where
  "dec_lq i = (\<lambda>d. di_r0 (v_is i) (dw 1 (v_ft i) (v_field i) d), v_lq)"
definition dec_sq :: "'a ldecode" where
  "dec_sq i = (\<lambda>d. di_r0 (v_it i) (dr0 1 (v_fs i) (v_field i) d), v_sq)"
definition dec_ilw :: "'a ldecode" where
  "dec_ilw i = (\<lambda>d. di_r0 (v_is i) (di_load (v_it i) (di_w (v_it i) d)), v_ilw)"
definition dec_isw :: "'a ldecode" where
  "dec_isw i = (\<lambda>d. di_r1 (v_it i) (di_r0 (v_is i) d), v_isw)"
definition dec_iaddiu :: "'a ldecode" where
  "dec_iaddiu i = (\<lambda>d. di_r0 (v_is i) (di_w (v_it i) d), lowered v_iaddiu)"
definition dec_isubiu :: "'a ldecode" where
  "dec_isubiu i = (\<lambda>d. di_r0 (v_is i) (di_w (v_it i) d), lowered v_isubiu)"
definition dec_fceq :: "'a ldecode" where
  "dec_fceq i = (\<lambda>d. d, lowered v_fceq)"
definition dec_fcset :: "'a ldecode" where
  "dec_fcset i = (\<lambda>d. d, lowered v_fcset)"
definition dec_fcand :: "'a ldecode" where
  "dec_fcand i = (\<lambda>d. d, lowered v_fcand)"
definition dec_fcor :: "'a ldecode" where
  "dec_fcor i = (\<lambda>d. d, lowered v_fcor)"
definition dec_fseq :: "'a ldecode" where
  "dec_fseq i = (\<lambda>d. d, lowered v_fseq)"
definition dec_fsset :: "'a ldecode" where
  "dec_fsset i = (\<lambda>d. d, lowered v_fsset_op)"
definition dec_fsand :: "'a ldecode" where
  "dec_fsand i = (\<lambda>d. d, lowered v_fsand)"
definition dec_fsor :: "'a ldecode" where
  "dec_fsor i = (\<lambda>d. d, lowered v_fsor)"
definition dec_fmeq :: "'a ldecode" where
  "dec_fmeq i = (\<lambda>d. di_r0 (v_is i) d, lowered v_fmeq)"
definition dec_fmand :: "'a ldecode" where
  "dec_fmand i = (\<lambda>d. di_r0 (v_is i) d, lowered v_fmand)"
definition dec_fmor :: "'a ldecode" where
  "dec_fmor i = (\<lambda>d. di_r0 (v_is i) d, lowered v_fmor)"
definition dec_fcget :: "'a ldecode" where
  "dec_fcget i = (\<lambda>d. d, lowered v_fcget)"
definition dec_b :: "'a ldecode" where
  "dec_b i = (\<lambda>d. d, lowered v_b)"
definition dec_bal :: "'a ldecode" where
  "dec_bal i = (\<lambda>d. d, v_bal)"
definition dec_jr :: "'a ldecode" where
  "dec_jr i = (\<lambda>d. di_r0 (v_is i) d, v_jr)"
definition dec_jalr :: "'a ldecode" where
  "dec_jalr i = (\<lambda>d. di_r0 (v_is i) d, v_jalr)"
definition dec_ibeq :: "'a ldecode" where
  "dec_ibeq i = (\<lambda>d. di_r1 (v_it i) (di_r0 (v_is i) d), lowered v_ibeq)"
definition dec_ibne :: "'a ldecode" where
  "dec_ibne i = (\<lambda>d. di_r1 (v_it i) (di_r0 (v_is i) d), lowered v_ibne)"
definition dec_ibltz :: "'a ldecode" where
  "dec_ibltz i = (\<lambda>d. di_r0 (v_is i) d, lowered v_ibltz)"
definition dec_ibgtz :: "'a ldecode" where
  "dec_ibgtz i = (\<lambda>d. di_r0 (v_is i) d, lowered v_ibgtz)"
definition dec_iblez :: "'a ldecode" where
  "dec_iblez i = (\<lambda>d. di_r0 (v_is i) d, lowered v_iblez)"
definition dec_ibgez :: "'a ldecode" where
  "dec_ibgez i = (\<lambda>d. di_r0 (v_is i) d, lowered v_ibgez)"
definition dec_waitp :: "'a ldecode" where "dec_waitp i = (id, lowered v_nop)"

definition lower1_table :: "(u32 \<times> 'a ldecode) list" where
  "lower1_table =
    [(0x30, dec_iadd), (0x31, dec_isub), (0x32, dec_iaddi), (0x34, dec_iand),
     (0x35, dec_ior)]"

definition lower1_special_table :: "(u32 \<times> 'a ldecode) list" where
  "lower1_special_table =
    [(0x30, dec_move), (0x31, dec_mr32), (0x34, dec_lqi), (0x35, dec_sqi),
     (0x36, dec_lqd), (0x37, dec_sqd), (0x38, dec_div), (0x39, dec_vu_sqrt),
     (0x3A, dec_rsqrt), (0x3B, dec_waitq), (0x3C, dec_mtir), (0x3D, dec_mfir),
     (0x3E, dec_ilwr), (0x3F, dec_iswr), (0x40, dec_rnext), (0x41, dec_rget),
     (0x42, dec_rinit), (0x43, dec_rxor), (0x64, dec_mfp), (0x68, dec_xtop),
     (0x69, dec_xitop), (0x6C, dec_xgkick), (0x70, dec_esadd), (0x71, dec_ersadd),
     (0x72, dec_eleng), (0x73, dec_erleng), (0x74, dec_eatanxy), (0x75, dec_eatanxz),
     (0x76, dec_esum), (0x78, dec_esqrt), (0x79, dec_ersqrt), (0x7A, dec_ercpr),
     (0x7B, dec_waitp), (0x7C, dec_esin), (0x7D, dec_eatan), (0x7E, dec_eexp)]"

definition lower2_table :: "(u32 \<times> 'a ldecode) list" where
  "lower2_table =
    [(0x00, dec_lq), (0x01, dec_sq), (0x04, dec_ilw), (0x05, dec_isw),
     (0x08, dec_iaddiu), (0x09, dec_isubiu), (0x10, dec_fceq), (0x11, dec_fcset),
     (0x12, dec_fcand), (0x13, dec_fcor), (0x14, dec_fseq), (0x15, dec_fsset),
     (0x16, dec_fsand), (0x17, dec_fsor), (0x18, dec_fmeq), (0x1A, dec_fmand),
     (0x1B, dec_fmor), (0x1C, dec_fcget), (0x20, dec_b), (0x21, dec_bal),
     (0x24, dec_jr), (0x25, dec_jalr), (0x28, dec_ibeq), (0x29, dec_ibne),
     (0x2C, dec_ibltz), (0x2D, dec_ibgtz), (0x2E, dec_iblez), (0x2F, dec_ibgez)]"

definition decode_lower :: "u32 \<Rightarrow> (vdec \<times> 'a vlop) res" where
  "decode_lower i =
     (let op = i AND 0x3F
      in case (if tst i 31
               then if 0x3C \<le> op then map_of lower1_special_table ((i AND 3) OR (drop_bit 4 i AND 0x7C))
                    else map_of lower1_table op
               else map_of lower2_table (drop_bit 25 i AND 0x7F)) of
           None \<Rightarrow> Inl (Die ''Unknown lower op'') | Some dec \<Rightarrow> Inr (dec i))"

end
