(* ===== verification/Vu_Run.thy ===== *)
theory Vu_Run
  imports Vu_Decode
begin

unbundle bit_operations_syntax

section \<open>The vector units: execution\<close>

text \<open>
  \<open>VU_Interpreter::interpret\<close> and the loop \<open>VectorUnit::run\<close>. A unit executes one pair of instructions
  per cycle until the EE's clock is reached; a kick sends a packet from the data memory of VU1 to path 1
  of the GIF, one quadword in two cycles. The answers of the Synthesizer are the argument \<open>gs\<close>.
\<close>

subsection \<open>Starting and stopping\<close>

text \<open>\<open>start_program\<close>; the checksum of a changed program, by which the recompiler finds its code, is not
  modelled.\<close>

definition start_program :: "nat \<Rightarrow> u32 \<Rightarrow> u32 \<Rightarrow> 'a vsys_scheme \<Rightarrow> 'a vsys_scheme" where
  "start_program u addr cycle_delay s =
     on_vu u (\<lambda>v.
       let v = v\<lparr>vumem_is_dirty := False\<rparr>
       in if \<not> vu_running v
          then flush_pipes (v\<lparr>vu_running := True, tbit_stop := False, vu_PC := ucast (addr AND ucast (vu_mem_mask v)),
                              vu_cycle_count := ee_cycle_count s - ucast cycle_delay\<rparr>)
          else v) s"

definition end_execution :: "vunit \<Rightarrow> vunit" where
  "end_execution v = v\<lparr>ebit_delay_slot := 1, finish_on := True\<rparr>"

definition vu_stop :: "vunit \<Rightarrow> vunit" where
  "vu_stop v = flush_pipes (v\<lparr>vu_running := False\<rparr>)"

definition vu_irq :: "nat \<Rightarrow> nat" where "vu_irq u = irq_id (if u = 0 then IRQ_VU0 else IRQ_VU1)"

definition stop_by_tbit :: "nat \<Rightarrow> 'a vsys_scheme \<Rightarrow> 'a vsys_scheme res" where
  "stop_by_tbit u s =
     assert_IRQ (vu_irq u) (on_vu u (\<lambda>v. flush_pipes (v\<lparr>tbit_stop := True, vu_running := False\<rparr>)) s)"

definition vu_is_running :: "nat \<Rightarrow> 'a vsys_scheme \<Rightarrow> bool" where
  "vu_is_running u s \<longleftrightarrow> vu_running (vus s u) \<or> ee_cycle_count s < vu_cycle_count (vus s u)"

subsection \<open>A pair of instructions\<close>

text \<open>If the upper instruction writes a vector register that the lower one reads or writes, the lower one
  runs with the old value and the upper one's result stays.\<close>

definition pair_conflict :: "decoded_regs \<Rightarrow> bool" where
  "pair_conflict d \<longleftrightarrow>
     (let write = vf_write d 0
      in write \<noteq> 0 \<and> (write = vf_read0 d 1 \<or> write = vf_read1 d 1 \<or> write = vf_write d 1))"

definition vu_pair :: "nat \<Rightarrow> (vunit \<Rightarrow> vunit) \<Rightarrow> ('a vsys_scheme \<Rightarrow> 'a vsys_scheme res) \<Rightarrow> 'a vsys_scheme \<Rightarrow> 'a vsys_scheme res" where
  "vu_pair u up lo s =
     (let d = vu_decoder (vus s u); write = unat (vf_write d 0)
      in if pair_conflict d
         then let s = on_vu u (backup_vf False write) s;
                  s = on_vu u up s;
                  s = on_vu u (\<lambda>v. restore_vf False write (backup_vf True write v)) s
              in rbind (lo s) (\<lambda>s. Inr (on_vu u (restore_vf True write) s))
         else lo (on_vu u up s))"

definition vu_interpret :: "host_vu \<Rightarrow> nat \<Rightarrow> u32 \<Rightarrow> u32 \<Rightarrow> 'a vsys_scheme \<Rightarrow> 'a vsys_scheme res" where
  "vu_interpret h u upper lower s =
     (let s = (if lower AND 0x800007FC = 0x800003BC then v_waitq u s else s);
          s = (if tst lower 31 \<and> drop_bit 2 lower AND 0x1CF = 0x1CF then v_waitp u s else s)
      in rbind (decode_upper upper) (\<lambda>(du, uop).
         rbind (if tst upper 31 then Inr (id, lowered v_nop) else decode_lower lower) (\<lambda>(dl, lop).
         let s = on_vu u (\<lambda>v. check_for_FMAC_stall (v\<lparr>vu_decoder := dl (du decoder_reset)\<rparr>)) s
         in rbind (if tst upper 31 then Inr (on_vu u (\<lambda>v. (uop h upper v)\<lparr>vu_I := lower\<rparr>) s)
                   else vu_pair u (uop h upper) (lop u h lower) s) (\<lambda>s.
            let s = (if tst upper 29 \<and> u = 0 then snd (interlock_cop2_check False s) else s)
            in Inr (if tst upper 30 then on_vu u end_execution s else s)))))"

subsection \<open>Kicks\<close>

definition handle_XGKICK :: "nat \<Rightarrow> 'a vsys_scheme \<Rightarrow> 'a vsys_scheme" where
  "handle_XGKICK u s =
     (let quad = vu_read_mem (ucast (GIF_addr (vus s u))) (vus s u) :: 128 word;
          s = on_vu u (\<lambda>v. v\<lparr>GIF_addr := GIF_addr v + 16\<rparr>) s;
          (ended, s) = send_PATH1 quad s
      in if ended
         then if XGKICK_stall (vus s u)
              then request_PATH 1 True (on_vu u (\<lambda>v. v\<lparr>XGKICK_stall := False, GIF_addr := stalled_GIF_addr v\<rparr>) s)
              else on_vu u (\<lambda>v. v\<lparr>transferring_GIF := False\<rparr>) (deactivate_PATH 1 s)
         else s)"

text \<open>\<open>while (XGKICK_cycles >= 2) { ... }\<close>: every turn takes two cycles or clears them.\<close>

fun xgkick_loop :: "gs_unit \<Rightarrow> nat \<Rightarrow> nat \<Rightarrow> 'a vsys_scheme \<Rightarrow> 'a vsys_scheme" where
  "xgkick_loop gs u 0 s = s"
| "xgkick_loop gs u (Suc n) s =
     (let (active, s) = path_active gs 1 True s
      in if active then xgkick_loop gs u n (on_vu u (\<lambda>v. v\<lparr>XGKICK_cycles := XGKICK_cycles v - 2\<rparr>) (handle_XGKICK u s))
         else on_vu u (\<lambda>v. v\<lparr>XGKICK_cycles := 0\<rparr>) s)"

definition vu_transfer :: "gs_unit \<Rightarrow> nat \<Rightarrow> 'a vsys_scheme \<Rightarrow> 'a vsys_scheme" where
  "vu_transfer gs u s =
     (let s = request_PATH 1 True s in xgkick_loop gs u (nat (XGKICK_cycles (vus s u) div 2)) s)"

subsection \<open>The loop\<close>

definition pipes_cycle :: "vunit \<Rightarrow> vunit" where
  "pipes_cycle v = branch_update (update_DIV_EFU_pipes (update_mac_pipeline v))"

definition branch_turn :: "vunit \<Rightarrow> vunit" where
  "branch_turn v =
     (if vu_branch_on v
      then if branch_delay_slot v = 0
           then let v = v\<lparr>vu_PC := vu_new_PC v\<rparr>
                in if second_branch_pending v then v\<lparr>vu_new_PC := secondbranch_PC v, second_branch_pending := False\<rparr>
                   else v\<lparr>vu_branch_on := False\<rparr>
           else v\<lparr>branch_delay_slot := branch_delay_slot v - 1\<rparr>
      else v)"

definition finish_turn :: "vunit \<Rightarrow> vunit" where
  "finish_turn v =
     (if finish_on v
      then if ebit_delay_slot v = 0 then flush_pipes (v\<lparr>vu_running := False, finish_on := False\<rparr>)
           else v\<lparr>ebit_delay_slot := ebit_delay_slot v - 1\<rparr>
      else v)"

definition tbit_turn :: "nat \<Rightarrow> u32 \<Rightarrow> 'a vsys_scheme \<Rightarrow> 'a vsys_scheme res" where
  "tbit_turn u upper s =
     (if tst upper 27 \<and> vu_FBRST s AND push_bit (3 + u * 8) 1 \<noteq> 0
      then rbind (assert_IRQ (vu_irq u) s) (\<lambda>s.
           Inr (on_vu u (\<lambda>v. flush_pipes (v\<lparr>tbit_stop := True, vu_running := False, finish_on := False\<rparr>)) s))
      else Inr s)"

text \<open>One turn; the flag says whether the loop goes on.\<close>

definition vu_turn :: "host_vu \<Rightarrow> gs_unit \<Rightarrow> nat \<Rightarrow> int \<Rightarrow> 'a vsys_scheme \<Rightarrow> (bool \<times> int \<times> 'a vsys_scheme) res" where
  "vu_turn h gs u cycles_to_run s =
     (let before = vu_cycle_count (vus s u);
          s = on_vu u (\<lambda>v. pipes_cycle (v\<lparr>vu_cycle_count := vu_cycle_count v + 1\<rparr>)) s
      in if XGKICK_stall (vus s u)
         then Inr (False, cycles_to_run,
              on_vu u (\<lambda>v. (pipes_cycle ^^ nat (cycles_to_run - 1))
                (v\<lparr>vu_decoder := decoder_reset, vu_cycle_count := vu_cycle_count v + of_int (cycles_to_run - 1)\<rparr>)) s)
         else
           let pc = vu_PC (vus s u);
               upper = vu_read_instr (ucast pc + 4) (vus s u); lower = vu_read_instr (ucast pc) (vus s u)
           in rbind (vu_interpret h u upper lower s) (\<lambda>s.
              rbind (tbit_turn u upper (on_vu u (\<lambda>v. finish_turn (branch_turn (v\<lparr>vu_PC := vu_PC v + 8\<rparr>))) s)) (\<lambda>s.
              let n = uint (ucast (vu_cycle_count (vus s u) - before) :: u32);
                  s = on_vu u (\<lambda>v. v\<lparr>XGKICK_cycles := XGKICK_cycles v + n\<rparr>) s; left = cycles_to_run - n
              in if u = 0
                 then if vu_interlock s then let (wait, s) = interlock_cop2_check False s in Inr (\<not> wait, left, s)
                      else Inr (True, left, s)
                 else Inr (True, left, if transferring_GIF (vus s u) then vu_transfer gs u s else s))))"

partial_function (option) vu_loop ::
  "host_vu \<Rightarrow> gs_unit \<Rightarrow> nat \<Rightarrow> int \<Rightarrow> 'a vsys_scheme \<Rightarrow> (int \<times> 'a vsys_scheme) res option" where
  "vu_loop h gs u cycles_to_run s =
     (if vu_running (vus s u) \<and> 0 < cycles_to_run
      then case vu_turn h gs u cycles_to_run s of
             Inl e \<Rightarrow> Some (Inl e)
           | Inr (on, left, s) \<Rightarrow> if on then vu_loop h gs u left s else Some (Inr (left, s))
      else Some (Inr (cycles_to_run, s)))"

definition vu_after :: "gs_unit \<Rightarrow> nat \<Rightarrow> int \<Rightarrow> 'a vsys_scheme \<Rightarrow> 'a vsys_scheme" where
  "vu_after gs u left s =
     (let s = (if transferring_GIF (vus s u)
               then let s = on_vu u (\<lambda>v. v\<lparr>XGKICK_cycles := XGKICK_cycles v + left\<rparr>) (request_PATH 1 True s)
                    in xgkick_loop gs u (nat (XGKICK_cycles (vus s u) div 2)) s
               else s)
      in if \<not> vu_running (vus s u) \<and> vu_cycle_count (vus s u) < ee_cycle_count s
         then if u = 0 then cop2_updatepipes u s
              else on_vu u (\<lambda>v. v\<lparr>vu_cycle_count := ee_cycle_count s\<rparr>) s
         else s)"

definition vu_run :: "host_vu \<Rightarrow> gs_unit \<Rightarrow> nat \<Rightarrow> 'a vsys_scheme \<Rightarrow> 'a vsys_scheme res option" where
  "vu_run h gs u s =
     (let cycles_to_run = sint (ucast (ee_cycle_count s - vu_cycle_count (vus s u)) :: u32);
          s = (if u = 0 \<and> 0 < cycles_to_run then clear_cop2_interlock s else s)
      in map_option (\<lambda>r. rbind r (\<lambda>(left, s). Inr (vu_after gs u left s))) (vu_loop h gs u cycles_to_run s))"

end
