(* ===== verification/Vu_Frame.thy ===== *)
theory Vu_Frame
  imports Vu_Run
begin

unbundle bit_operations_syntax

section \<open>The declarations of the vector units' decoder are complete\<close>

text \<open>
  For every instruction of the decoder's tables: it neither reads nor writes a vector register it does not
  declare, and an upper instruction writes no other register than the declared one.
\<close>

subsection \<open>A register outside the declarations\<close>

text \<open>Register \<open>r\<close> and the two places the exchange uses get other contents.\<close>

type_synonym vf_change = "(nat \<Rightarrow> u32) \<times> (nat \<Rightarrow> u32) \<times> (nat \<Rightarrow> u32)"

definition put_vf :: "nat \<Rightarrow> vf_change \<Rightarrow> vunit \<Rightarrow> vunit" where
  "put_vf r x v = v\<lparr>vu_gpr := (vu_gpr v)(r := fst x), backup_newgpr := fst (snd x), backup_oldgpr := snd (snd x)\<rparr>"

definition keeps_frame :: "nat set \<Rightarrow> (vunit \<Rightarrow> vunit) \<Rightarrow> bool" where
  "keeps_frame R f \<longleftrightarrow> (\<forall>r x v. r \<notin> R \<longrightarrow> f (put_vf r x v) = put_vf r x (f v))"

definition frames :: "nat \<Rightarrow> nat set \<Rightarrow> ('a vsys_scheme \<Rightarrow> 'a vsys_scheme res) \<Rightarrow> bool" where
  "frames u R f \<longleftrightarrow> (\<forall>r x s. r \<notin> R \<longrightarrow> f (on_vu u (put_vf r x) s) = rbind (f s) (\<lambda>s. Inr (on_vu u (put_vf r x) s)))"

text \<open>The registers a lower instruction declares.\<close>

definition lower_regs :: "vdec \<Rightarrow> nat set" where
  "lower_regs dl = {unat (vf_read0 (dl decoder_reset) 1), unat (vf_read1 (dl decoder_reset) 1), unat (vf_write (dl decoder_reset) 1)}"

lemma on_vu_simps [simp]:
  "vus (on_vu u f s) u = f (vus s u)" "k \<noteq> u \<Longrightarrow> vus (on_vu u f s) k = vus s k"
  "on_vu u f (on_vu u g s) = on_vu u (\<lambda>v. f (g v)) s"
  by (simp_all add: on_vu_def)

lemma on_vu_twist: "k \<noteq> u \<Longrightarrow> on_vu k g (on_vu u f s) = on_vu u f (on_vu k g s)"
  by (simp add: on_vu_def fun_upd_twist)

lemma on_vu_cong: "f (vus s u) = g (vus s u) \<Longrightarrow> on_vu u f s = on_vu u g s"
  by (simp add: on_vu_def)

lemma put_vf_simps [simp]:
  "vu_gpr (put_vf r x v) = (vu_gpr v)(r := fst x)"
  "int_gpr (put_vf r x v) = int_gpr v"
  "data_mem (put_vf r x v) = data_mem v"
  "vu_R (put_vf r x v) = vu_R v"
  "vu_P (put_vf r x v) = vu_P v"
  "vu_I (put_vf r x v) = vu_I v"
  "vu_Q (put_vf r x v) = vu_Q v"
  "clip_flags (put_vf r x v) = clip_flags v"
  "vu_status (put_vf r x v) = vu_status v"
  "new_Q (put_vf r x v) = new_Q v"
  "new_P (put_vf r x v) = new_P v"
  "vu_cycle_count (put_vf r x v) = vu_cycle_count v"
  "vu_id (put_vf r x v) = vu_id v"
  "transferring_GIF (put_vf r x v) = transferring_GIF v"
  "MAC_pipeline (put_vf r x v) = MAC_pipeline v"
  "CLIP_pipeline (put_vf r x v) = CLIP_pipeline v"
  "vu_branch_on (put_vf r x v) = vu_branch_on v"
  "vu_PC (put_vf r x v) = vu_PC v"
  "vu_mem_mask (put_vf r x v) = vu_mem_mask v"
  "vu_decoder (put_vf r x v) = vu_decoder v"
  "put_vf r x v\<lparr>int_gpr := y0\<rparr> = put_vf r x (v\<lparr>int_gpr := y0\<rparr>)"
  "put_vf r x v\<lparr>data_mem := y1\<rparr> = put_vf r x (v\<lparr>data_mem := y1\<rparr>)"
  "put_vf r x v\<lparr>vu_R := y2\<rparr> = put_vf r x (v\<lparr>vu_R := y2\<rparr>)"
  "put_vf r x v\<lparr>clip_flags := y3\<rparr> = put_vf r x (v\<lparr>clip_flags := y3\<rparr>)"
  "put_vf r x v\<lparr>vu_status := y4\<rparr> = put_vf r x (v\<lparr>vu_status := y4\<rparr>)"
  "put_vf r x v\<lparr>new_Q := y5\<rparr> = put_vf r x (v\<lparr>new_Q := y5\<rparr>)"
  "put_vf r x v\<lparr>new_P := y6\<rparr> = put_vf r x (v\<lparr>new_P := y6\<rparr>)"
  "put_vf r x v\<lparr>vu_status_value := y7\<rparr> = put_vf r x (v\<lparr>vu_status_value := y7\<rparr>)"
  "put_vf r x v\<lparr>status_pipe := y8\<rparr> = put_vf r x (v\<lparr>status_pipe := y8\<rparr>)"
  "put_vf r x v\<lparr>finish_DIV_event := y9\<rparr> = put_vf r x (v\<lparr>finish_DIV_event := y9\<rparr>)"
  "put_vf r x v\<lparr>DIV_event_started := y10\<rparr> = put_vf r x (v\<lparr>DIV_event_started := y10\<rparr>)"
  "put_vf r x v\<lparr>finish_EFU_event := y11\<rparr> = put_vf r x (v\<lparr>finish_EFU_event := y11\<rparr>)"
  "put_vf r x v\<lparr>EFU_event_started := y12\<rparr> = put_vf r x (v\<lparr>EFU_event_started := y12\<rparr>)"
  "put_vf r x v\<lparr>stalled_GIF_addr := y13\<rparr> = put_vf r x (v\<lparr>stalled_GIF_addr := y13\<rparr>)"
  "put_vf r x v\<lparr>XGKICK_stall := y14\<rparr> = put_vf r x (v\<lparr>XGKICK_stall := y14\<rparr>)"
  "put_vf r x v\<lparr>transferring_GIF := y15\<rparr> = put_vf r x (v\<lparr>transferring_GIF := y15\<rparr>)"
  "put_vf r x v\<lparr>GIF_addr := y16\<rparr> = put_vf r x (v\<lparr>GIF_addr := y16\<rparr>)"
  "put_vf r x v\<lparr>XGKICK_cycles := y17\<rparr> = put_vf r x (v\<lparr>XGKICK_cycles := y17\<rparr>)"
  by (simp_all add: put_vf_def)

lemma keeps_lowered: "keeps_frame R (f h i) \<Longrightarrow> frames u R (lowered f u h i)"
  by (auto simp: keeps_frame_def frames_def lowered_def intro: on_vu_cong)

lemma put_vf_backups [simp]:
  "backup_newgpr (put_vf r x v) = fst (snd x)" "backup_oldgpr (put_vf r x v) = snd (snd x)"
  by (simp_all add: put_vf_def)

lemma v_lanes_put:
  assumes "\<And>k v. f k (put_vf r x v) = put_vf r x (f k v)"
  shows "v_lanes i f (put_vf r x v) = put_vf r x (v_lanes i f v)"
  by (simp add: v_lanes_def upt_rec assms)

lemma keeps_lanes:
  assumes "\<And>k r x v. r \<notin> R \<Longrightarrow> f k (put_vf r x v) = put_vf r x (f k v)"
  shows "keeps_frame R (v_lanes i f)"
  by (simp add: keeps_frame_def v_lanes_put assms)

lemma put_twist:
  "r' \<noteq> r \<Longrightarrow> vset_gpr r' k c (put_vf r x v) = put_vf r x (vset_gpr r' k c v)"
  "r' \<noteq> r \<Longrightarrow> raw_gpr r' k c (put_vf r x v) = put_vf r x (raw_gpr r' k c v)"
  by (simp_all add: put_vf_def vset_gpr_def raw_gpr_def fun_upd_twist)

lemma put_others:
  "set_int k c (put_vf r x v) = put_vf r x (set_int k c v)"
  "write_int k a b (put_vf r x v) = put_vf r x (write_int k a b v)"
  "bump_int k a16 (put_vf r x v) = put_vf r x (bump_int k a16 v)"
  "vu_branch cond imm lk (put_vf r x v) = put_vf r x (vu_branch cond imm lk v)"
  "vu_jp imm lk (put_vf r x v) = put_vf r x (vu_jp imm lk v)"
  "start_DIV_unit lat (put_vf r x v) = put_vf r x (start_DIV_unit lat v)"
  "start_EFU_unit lat (put_vf r x v) = put_vf r x (start_EFU_unit lat v)"
  "read_int_for_branch_condition k (put_vf r x v) = read_int_for_branch_condition k v"
  by (simp_all add: put_vf_def set_int_def write_int_def bump_int_def vu_branch_def vu_jp_def goto_def branch_flush_def
      Let_def start_DIV_unit_def start_EFU_unit_def read_int_for_branch_condition_def split: option.split)

text \<open>Fields of an instruction are registers of the file.\<close>

lemma unat_u8: "k < 256 \<Longrightarrow> unat (of_nat k :: u8) = k"
  by (simp add: unat_of_nat)

lemma and_1F: "unat (w AND 0x1F :: u32) < 32"
proof -
  have "w AND 0x1F \<le> 0x1F" by (rule word_and_le1)
  then show ?thesis by (simp add: word_le_nat_alt)
qed

lemma field_regs [simp]: "v_ft i < 32" "v_fs i < 32" "v_fd i < 32"
  using and_1F by (simp_all add: v_ft_def v_fs_def v_fd_def)

lemma unat_regs [simp]: "unat (of_nat (v_ft i) :: u8) = v_ft i" "unat (of_nat (v_fs i) :: u8) = v_fs i"
  "unat (of_nat (v_fd i) :: u8) = v_fd i"
  using less_trans [OF field_regs(1), of 256] less_trans [OF field_regs(2), of 256] less_trans [OF field_regs(3), of 256]
  by (simp_all add: unat_of_nat)

subsection \<open>The lower instructions one by one\<close>

named_theorems lframe \<open>each lower instruction keeps the registers it does not declare\<close>

lemma keeps_frameI: "(\<And>r x v. r \<notin> R \<Longrightarrow> f (put_vf r x v) = put_vf r x (f v)) \<Longrightarrow> keeps_frame R f"
  by (simp add: keeps_frame_def)

lemmas put_rules = v_lanes_put put_twist put_others

lemma keeps_moves [lframe]:
  "keeps_frame {v_fs i, v_ft i} (v_move h i)" "keeps_frame {v_fs i, v_ft i} (v_mr32 h i)"
  "keeps_frame {v_ft i} (v_mfir h i)" "keeps_frame {v_fs i} (v_mtir h i)" "keeps_frame {v_ft i} (v_mfp h i)"
  by (rule keeps_frameI; simp add: v_move_def v_mr32_def v_mfir_def v_mtir_def v_mfp_def put_rules Let_def)+

lemma keeps_random [lframe]:
  "keeps_frame {v_ft i} (v_rget h i)" "keeps_frame {v_ft i} (v_rnext h i)"
  "keeps_frame {v_fs i} (v_rinit h i)" "keeps_frame {v_fs i} (v_rxor h i)"
  by (rule keeps_frameI; simp add: v_rget_def v_rnext_def advance_r_def v_rinit_def v_rxor_def put_rules Let_def)+

lemma keeps_integer [lframe]:
  "keeps_frame {} (v_iadd h i)" "keeps_frame {} (v_isub h i)" "keeps_frame {} (v_iand h i)" "keeps_frame {} (v_ior h i)"
  "keeps_frame {} (v_iaddi h i)" "keeps_frame {} (v_iaddiu h i)" "keeps_frame {} (v_isubiu h i)"
  by (rule keeps_frameI; simp add: v_iadd_def v_isub_def v_iand_def v_ior_def v_iaddi_def v_iaddiu_def v_isubiu_def put_rules Let_def)+

lemma keeps_flags [lframe]:
  "keeps_frame {} (v_fcand h i)" "keeps_frame {} (v_fceq h i)" "keeps_frame {} (v_fcget h i)" "keeps_frame {} (v_fcor h i)"
  "keeps_frame {} (v_fcset h i)" "keeps_frame {} (v_fmeq h i)" "keeps_frame {} (v_fmand h i)" "keeps_frame {} (v_fmor h i)"
  "keeps_frame {} (v_fseq h i)" "keeps_frame {} (v_fsand h i)" "keeps_frame {} (v_fsor h i)" "keeps_frame {} (v_fsset_op h i)"
  by (rule keeps_frameI; simp add: v_fcand_def v_fceq_def v_fcget_def v_fcor_def v_fcset_def v_fmeq_def v_fmand_def v_fmor_def
      v_fseq_def v_fsand_def v_fsor_def v_fsset_op_def v_fsset_def clip_reg_def mac_flags_def put_rules)+

lemma keeps_branches [lframe]:
  "keeps_frame {} (v_b h i)" "keeps_frame {} (v_ibeq h i)" "keeps_frame {} (v_ibne h i)" "keeps_frame {} (v_ibgez h i)"
  "keeps_frame {} (v_ibgtz h i)" "keeps_frame {} (v_iblez h i)" "keeps_frame {} (v_ibltz h i)"
  by (rule keeps_frameI; simp add: v_b_def v_ibeq_def v_ibne_def v_ibgez_def v_ibgtz_def v_iblez_def v_ibltz_def put_rules)+

lemma keeps_divider [lframe]:
  "keeps_frame {v_fs i, v_ft i} (v_div h i)" "keeps_frame {v_fs i, v_ft i} (v_rsqrt h i)" "keeps_frame {v_ft i} (v_sqrt h i)"
  by (rule keeps_frameI; simp add: v_div_def v_rsqrt_def v_sqrt_def sticky_div_def put_rules Let_def)+

lemma keeps_efu:
  assumes "\<And>r x v. r \<notin> R \<Longrightarrow> g (put_vf r x v) = g v"
  shows "keeps_frame R (efu lat g)"
  by (rule keeps_frameI) (simp add: efu_def assms put_rules)

lemma keeps_elementary [lframe]:
  "keeps_frame {v_fs i} (v_eatan h i)" "keeps_frame {v_fs i} (v_eatanxy h i)" "keeps_frame {v_fs i} (v_eatanxz h i)"
  "keeps_frame {v_fs i} (v_ercpr h i)" "keeps_frame {v_fs i} (v_eleng h i)" "keeps_frame {v_fs i} (v_esqrt h i)"
  "keeps_frame {v_fs i} (v_esum h i)" "keeps_frame {v_fs i} (v_erleng h i)" "keeps_frame {v_fs i} (v_ersadd h i)"
  "keeps_frame {v_fs i} (v_ersqrt h i)" "keeps_frame {v_fs i} (v_esadd h i)"
  unfolding v_eatan_def v_eatanxy_def v_eatanxz_def v_ercpr_def v_eleng_def v_esqrt_def v_esum_def v_erleng_def v_ersadd_def
    v_ersqrt_def v_esadd_def
  by (rule keeps_efu; simp add: sum_of_squares_def Let_def)+

lemma keeps_elementary2 [lframe]:
  "keeps_frame {v_fs i} (v_eexp h i)" "keeps_frame {v_fs i} (v_esin h i)" "keeps_frame {} (v_xgkick h i)" "keeps_frame {} (v_nop h i)"
  by (rule keeps_frameI; simp add: v_eexp_def v_esin_def v_xgkick_def v_nop_def put_rules Let_def)+

subsection \<open>Those that reach the memories\<close>

lemma s_lanes_put:
  assumes "\<And>k s. f k (on_vu u (put_vf r x) s) = on_vu u (put_vf r x) (f k s)"
  shows "s_lanes i f (on_vu u (put_vf r x) s) = on_vu u (put_vf r x) (s_lanes i f s)"
  by (simp add: s_lanes_def upt_rec assms del: on_vu_simps)

lemma data_put:
  assumes "u < 2"
  shows "vu_read_data u a (on_vu u (put_vf r x) s) = vu_read_data u a s"
    "vu_write_data u a d (on_vu u (put_vf r x) s) = on_vu u (put_vf r x) (vu_write_data u a d s)"
  using assms by (auto simp: vu_read_data_def vu_write_data_def on_vu_twist numeral_2_eq_2 less_Suc_eq)

lemma on_vu_put: "(\<And>v. f (put_vf r x v) = put_vf r x (f v)) \<Longrightarrow> on_vu u f (on_vu u (put_vf r x) s) = on_vu u (put_vf r x) (on_vu u f s)"
  by simp

lemma load_lanes_put:
  "u < 2 \<Longrightarrow> r \<noteq> v_ft i \<Longrightarrow> load_lanes u i a (on_vu u (put_vf r x) s) = on_vu u (put_vf r x) (load_lanes u i a s)"
  unfolding load_lanes_def by (rule s_lanes_put) (simp add: data_put put_twist)

lemma store_lanes_put:
  "u < 2 \<Longrightarrow> r \<noteq> v_fs i \<Longrightarrow> store_lanes u i a (on_vu u (put_vf r x) s) = on_vu u (put_vf r x) (store_lanes u i a s)"
  "u < 2 \<Longrightarrow> store_int_lanes u i a (on_vu u (put_vf r x) s) = on_vu u (put_vf r x) (store_int_lanes u i a s)"
  unfolding store_lanes_def store_int_lanes_def by (rule s_lanes_put; simp add: data_put)+

lemma load_int_put:
  "u < 2 \<Longrightarrow> load_int u i a (on_vu u (put_vf r x) s) = on_vu u (put_vf r x) (load_int u i a s)"
  by (simp add: load_int_def data_put put_others split: option.split)

lemma framesI:
  "(\<And>r x s. r \<notin> R \<Longrightarrow> f (on_vu u (put_vf r x) s) = rbind (f s) (\<lambda>s. Inr (on_vu u (put_vf r x) s))) \<Longrightarrow> frames u R f"
  by (simp add: frames_def)

text \<open>\<open>on_vu u f\<close> on the changed state, with the change moved to the outside.\<close>

lemma pull_put: "(\<And>v. f (put_vf r x v) = put_vf r x (f v)) \<Longrightarrow> on_vu u (\<lambda>v. f (put_vf r x v)) s = on_vu u (put_vf r x) (on_vu u f s)"
  by simp

lemma frames_memory [lframe]:
  assumes "u < 2"
  shows "frames u {v_ft i} (v_lq u h i)" "frames u {v_ft i} (v_lqd u h i)" "frames u {v_ft i} (v_lqi u h i)"
    "frames u {v_fs i} (v_sq u h i)" "frames u {v_fs i} (v_sqd u h i)" "frames u {v_fs i} (v_sqi u h i)"
    "frames u {} (v_ilw u h i)" "frames u {} (v_ilwr u h i)" "frames u {} (v_isw u h i)" "frames u {} (v_iswr u h i)"
  by (rule framesI; simp add: assms v_lq_def v_lqd_def v_lqi_def v_sq_def v_sqd_def v_sqi_def v_ilw_def v_ilwr_def v_isw_def v_iswr_def
      put_others Let_def load_lanes_put store_lanes_put load_int_put on_vu_put del: on_vu_simps(3);
      simp add: assms load_lanes_put store_lanes_put load_int_put on_vu_put put_others del: on_vu_simps(3))+

lemma frames_others [lframe]:
  "frames u {} (v_bal u h i)" "frames u {} (v_jr u h i)" "frames u {} (v_jalr u h i)" "frames u {} (v_xtop u h i)" "frames u {} (v_xitop u h i)"
  by (rule framesI; simp add: v_bal_def v_jr_def v_jalr_def int_reg_def v_xtop_def v_xitop_def put_others; simp add: on_vu_def put_others)+

subsection \<open>What the decoder selects\<close>

lemmas lower_decs =
  dec_iadd_def dec_isub_def dec_iaddi_def dec_iand_def dec_ior_def dec_move_def dec_mr32_def dec_lqi_def
  dec_sqi_def dec_lqd_def dec_sqd_def dec_div_def dec_vu_sqrt_def dec_rsqrt_def dec_waitq_def dec_mtir_def
  dec_mfir_def dec_ilwr_def dec_iswr_def dec_rnext_def dec_rget_def dec_rinit_def dec_rxor_def dec_mfp_def
  dec_xtop_def dec_xitop_def dec_xgkick_def dec_esadd_def dec_ercpr_def dec_ersadd_def dec_eleng_def dec_erleng_def
  dec_esum_def dec_esqrt_def dec_ersqrt_def dec_esin_def dec_eatan_def dec_eatanxy_def dec_eatanxz_def dec_eexp_def
  dec_lq_def dec_sq_def dec_ilw_def dec_isw_def dec_iaddiu_def dec_isubiu_def dec_fceq_def dec_fcset_def
  dec_fcand_def dec_fcor_def dec_fseq_def dec_fsset_def dec_fsand_def dec_fsor_def dec_fmeq_def dec_fmand_def
  dec_fmor_def dec_fcget_def dec_b_def dec_bal_def dec_jr_def dec_jalr_def dec_ibeq_def dec_ibne_def
  dec_ibltz_def dec_ibgtz_def dec_iblez_def dec_ibgez_def dec_waitp_def

lemma frames_mono: "frames u R f \<Longrightarrow> R \<subseteq> R' \<Longrightarrow> frames u R' f"
  by (auto simp: frames_def)

lemma frames_pure: "keeps_frame R (f h i) \<Longrightarrow> R \<subseteq> R' \<Longrightarrow> frames u R' (lowered f u h i)"
  by (rule frames_mono [OF keeps_lowered])

definition declares :: "nat \<Rightarrow> 'a ldecode \<Rightarrow> bool" where
  "declares u dec \<longleftrightarrow> (\<forall>i h. frames u (lower_regs (fst (dec i))) (snd (dec i) u h i))"

lemma declaresI: "(\<And>i h. frames u (lower_regs (fst (dec i))) (snd (dec i) u h i)) \<Longrightarrow> declares u dec"
  by (simp add: declares_def)

lemmas decl_regs = lower_regs_def dw_def dr0_def dr1_def di_w_def di_load_def di_r0_def di_r1_def decoder_reset_def

lemma tables_declare:
  assumes "u < 2"
  shows "list_all (\<lambda>e. declares u (snd e)) lower1_table \<and> list_all (\<lambda>e. declares u (snd e)) lower2_table \<and>
    list_all (\<lambda>e. declares u (snd e)) lower1_special_table"
  unfolding lower1_table_def lower2_table_def lower1_special_table_def list.pred_inject snd_conv
  by (intro conjI list.pred_inject(1);
      rule declaresI;
      simp only: lower_decs fst_conv snd_conv;
      ((rule frames_pure, rule lframe) | (rule frames_mono, rule lframe, rule assms) | (rule frames_mono, rule lframe));
      simp add: decl_regs)

lemma decode_lower_declares:
  assumes "u < 2" "decode_lower i = Inr (dl, lop)"
  shows "frames u (lower_regs dl) (lop u h i)"
proof -
  have "\<exists>dec c tab. (c, dec) \<in> set tab \<and> tab \<in> {lower1_table, lower2_table, lower1_special_table} \<and> (dl, lop) = dec i"
    using assms(2) by (fastforce simp: decode_lower_def Let_def dest!: map_of_SomeD split: if_splits option.splits)
  then obtain dec c tab where "(c, dec) \<in> set tab" "tab \<in> {lower1_table, lower2_table, lower1_special_table}" "(dl, lop) = dec i"
    by blast
  then have "declares u dec" using tables_declare [OF assms(1)] by (auto simp: list_all_iff)
  then show ?thesis unfolding declares_def using \<open>(dl, lop) = dec i\<close> by (metis fst_conv snd_conv)
qed

subsection \<open>The upper instructions\<close>

definition upper_regs :: "vdec \<Rightarrow> nat set" where
  "upper_regs du = {unat (vf_read0 (du decoder_reset) 0), unat (vf_read1 (du decoder_reset) 0), unat (vf_write (du decoder_reset) 0)}"

definition writes_only :: "nat \<Rightarrow> (vunit \<Rightarrow> vunit) \<Rightarrow> bool" where
  "writes_only w f \<longleftrightarrow> (\<forall>v r. r \<noteq> w \<longrightarrow> vu_gpr (f v) r = vu_gpr v r)"

definition upper_ok :: "nat set \<Rightarrow> nat \<Rightarrow> (vunit \<Rightarrow> vunit) \<Rightarrow> bool" where
  "upper_ok R w f \<longleftrightarrow> keeps_frame R f \<and> writes_only w f"

lemma flagged_put:
  assumes "\<And>y v. put y (put_vf r x v) = put_vf r x (put y v)"
  shows "flagged put c k (put_vf r x v) = put_vf r x (flagged put c k v)"
proof -
  have "update_mac_flags c k (put_vf r x v) = apsnd (put_vf r x) (update_mac_flags c k v)"
    by (simp add: update_mac_flags_def put_vf_def Let_def)
  then show ?thesis by (simp add: flagged_def assms split: prod.split)
qed

lemma set_acc_put: "set_acc k y (put_vf r x v) = put_vf r x (set_acc k y v)"
  by (simp add: set_acc_def put_vf_def)

lemma clear_mac_put: "clear_mac_flags k (put_vf r x v) = put_vf r x (clear_mac_flags k v)"
  by (simp add: clear_mac_flags_def put_vf_def)

lemma fmac_lanes_put:
  assumes "\<And>k v. f k (put_vf r x v) = put_vf r x (f k v)"
  shows "fmac_lanes i f (put_vf r x v) = put_vf r x (fmac_lanes i f v)"
  by (simp add: fmac_lanes_def upt_rec assms clear_mac_put)

lemma fmac_put:
  assumes "\<And>k v. g k (put_vf r x v) = g k v"
  shows "v_fd i \<noteq> r \<Longrightarrow> fmac_fd i g (put_vf r x v) = put_vf r x (fmac_fd i g v)"
    "fmac_acc i g (put_vf r x v) = put_vf r x (fmac_acc i g v)"
  unfolding fmac_fd_def fmac_acc_def
  by (rule fmac_lanes_put; simp add: assms flagged_put put_twist set_acc_put)+

lemma vu_ACC_put [simp]: "vu_ACC (put_vf r x v) = vu_ACC v"
  by (simp add: put_vf_def)

lemma gpr_flagged: "(\<And>y v. vu_gpr (put y v) r = vu_gpr v r) \<Longrightarrow> vu_gpr (flagged put c k v) r = vu_gpr v r"
  by (simp add: flagged_def update_mac_flags_def Let_def)

lemma gpr_others [simp]:
  "vu_gpr (set_acc k y v) = vu_gpr v" "vu_gpr (clear_mac_flags k v) = vu_gpr v"
  "r' \<noteq> r \<Longrightarrow> vu_gpr (vset_gpr r' k y v) r = vu_gpr v r" "r' \<noteq> r \<Longrightarrow> vu_gpr (raw_gpr r' k y v) r = vu_gpr v r"
  by (simp_all add: set_acc_def clear_mac_flags_def vset_gpr_def raw_gpr_def)

lemma gpr_lanes:
  assumes "\<And>k v. vu_gpr (f k v) r = vu_gpr v r"
  shows "vu_gpr (v_lanes i f v) r = vu_gpr v r" "vu_gpr (fmac_lanes i f v) r = vu_gpr v r"
  by (simp_all add: v_lanes_def fmac_lanes_def upt_rec assms)

lemma writes_fmac:
  "r \<noteq> v_fd i \<Longrightarrow> vu_gpr (fmac_fd i g v) r = vu_gpr v r" "vu_gpr (fmac_acc i g v) r = vu_gpr v r"
  unfolding fmac_fd_def fmac_acc_def by (rule gpr_lanes; rule gpr_flagged; simp)+

lemma upper_okI:
  assumes "\<And>r x v. r \<notin> R \<Longrightarrow> f (put_vf r x v) = put_vf r x (f v)" "\<And>r v. r \<noteq> w \<Longrightarrow> vu_gpr (f v) r = vu_gpr v r"
  shows "upper_ok R w f"
  using assms by (simp add: upper_ok_def keeps_frame_def writes_only_def)

named_theorems uframe \<open>each upper instruction keeps what it does not declare and writes what it declares\<close>

lemma upper_fd [uframe]:
  "upper_ok {v_fs i, v_ft i, v_fd i} (v_fd i) (v_add h i)"
  "upper_ok {v_fs i, v_ft i, v_fd i} (v_fd i) (v_sub h i)"
  "upper_ok {v_fs i, v_ft i, v_fd i} (v_fd i) (v_mul h i)"
  "upper_ok {v_fs i, v_ft i, v_fd i} (v_fd i) (v_madd h i)"
  "upper_ok {v_fs i, v_ft i, v_fd i} (v_fd i) (v_msub h i)"
  by (rule upper_okI; simp add: v_add_def v_sub_def v_mul_def v_madd_def v_msub_def Let_def fmac_put writes_fmac )+

lemma upper_fd_bc [uframe]:
  "upper_ok {v_fs i, v_ft i, v_fd i} (v_fd i) (v_addbc h i)"
  "upper_ok {v_fs i, v_ft i, v_fd i} (v_fd i) (v_subbc h i)"
  "upper_ok {v_fs i, v_ft i, v_fd i} (v_fd i) (v_mulbc h i)"
  "upper_ok {v_fs i, v_ft i, v_fd i} (v_fd i) (v_maddbc h i)"
  "upper_ok {v_fs i, v_ft i, v_fd i} (v_fd i) (v_msubbc h i)"
  by (rule upper_okI; simp add: v_addbc_def v_subbc_def v_mulbc_def v_maddbc_def v_msubbc_def Let_def fmac_put writes_fmac )+

lemma upper_fd_iq [uframe]:
  "upper_ok {v_fs i, v_fd i} (v_fd i) (v_addi h i)"
  "upper_ok {v_fs i, v_fd i} (v_fd i) (v_addq h i)"
  "upper_ok {v_fs i, v_fd i} (v_fd i) (v_subi h i)"
  "upper_ok {v_fs i, v_fd i} (v_fd i) (v_subq h i)"
  "upper_ok {v_fs i, v_fd i} (v_fd i) (v_muli h i)"
  "upper_ok {v_fs i, v_fd i} (v_fd i) (v_mulq h i)"
  "upper_ok {v_fs i, v_fd i} (v_fd i) (v_maddi h i)"
  "upper_ok {v_fs i, v_fd i} (v_fd i) (v_maddq h i)"
  "upper_ok {v_fs i, v_fd i} (v_fd i) (v_msubi h i)"
  "upper_ok {v_fs i, v_fd i} (v_fd i) (v_msubq h i)"
  by (rule upper_okI; simp add: v_addi_def v_addq_def v_subi_def v_subq_def v_muli_def v_mulq_def v_maddi_def v_maddq_def v_msubi_def v_msubq_def Let_def fmac_put writes_fmac )+

lemma upper_acc [uframe]:
  "upper_ok {v_fs i, v_ft i} 0 (v_adda h i)"
  "upper_ok {v_fs i, v_ft i} 0 (v_suba h i)"
  "upper_ok {v_fs i, v_ft i} 0 (v_mula h i)"
  "upper_ok {v_fs i, v_ft i} 0 (v_madda h i)"
  "upper_ok {v_fs i, v_ft i} 0 (v_msuba h i)"
  "upper_ok {v_fs i, v_ft i} 0 (v_addabc h i)"
  "upper_ok {v_fs i, v_ft i} 0 (v_subabc h i)"
  "upper_ok {v_fs i, v_ft i} 0 (v_mulabc h i)"
  "upper_ok {v_fs i, v_ft i} 0 (v_maddabc h i)"
  "upper_ok {v_fs i, v_ft i} 0 (v_msubabc h i)"
  by (rule upper_okI; simp add: v_adda_def v_suba_def v_mula_def v_madda_def v_msuba_def v_addabc_def v_subabc_def v_mulabc_def v_maddabc_def v_msubabc_def Let_def fmac_put writes_fmac )+

lemma upper_acc_iq [uframe]:
  "upper_ok {v_fs i} 0 (v_addai h i)"
  "upper_ok {v_fs i} 0 (v_addaq h i)"
  "upper_ok {v_fs i} 0 (v_subai h i)"
  "upper_ok {v_fs i} 0 (v_subaq h i)"
  "upper_ok {v_fs i} 0 (v_mulai h i)"
  "upper_ok {v_fs i} 0 (v_mulaq h i)"
  "upper_ok {v_fs i} 0 (v_maddai h i)"
  "upper_ok {v_fs i} 0 (v_maddaq h i)"
  "upper_ok {v_fs i} 0 (v_msubai h i)"
  "upper_ok {v_fs i} 0 (v_msubaq h i)"
  by (rule upper_okI; simp add: v_addai_def v_addaq_def v_subai_def v_subaq_def v_mulai_def v_mulaq_def v_maddai_def v_maddaq_def v_msubai_def v_msubaq_def Let_def fmac_put writes_fmac )+

lemma upper_max [uframe]:
  "upper_ok {v_fs i, v_ft i, v_fd i} (v_fd i) (v_max h i)"
  "upper_ok {v_fs i, v_ft i, v_fd i} (v_fd i) (v_maxbc h i)"
  "upper_ok {v_fs i, v_ft i, v_fd i} (v_fd i) (v_mini h i)"
  "upper_ok {v_fs i, v_ft i, v_fd i} (v_fd i) (v_minibc h i)"
  by (rule upper_okI; simp add: v_max_def v_maxbc_def v_mini_def v_minibc_def Let_def fmac_put writes_fmac put_rules gpr_lanes)+

lemma upper_max_i [uframe]:
  "upper_ok {v_fs i, v_fd i} (v_fd i) (v_maxi h i)"
  "upper_ok {v_fs i, v_fd i} (v_fd i) (v_minii h i)"
  by (rule upper_okI; simp add: v_maxi_def v_minii_def Let_def fmac_put writes_fmac put_rules gpr_lanes)+

lemma upper_conv [uframe]:
  "upper_ok {v_fs i, v_ft i} (v_ft i) (v_abs h i)"
  "upper_ok {v_fs i, v_ft i} (v_ft i) (v_ftoi0 h i)"
  "upper_ok {v_fs i, v_ft i} (v_ft i) (v_ftoi4 h i)"
  "upper_ok {v_fs i, v_ft i} (v_ft i) (v_ftoi12 h i)"
  "upper_ok {v_fs i, v_ft i} (v_ft i) (v_ftoi15 h i)"
  "upper_ok {v_fs i, v_ft i} (v_ft i) (v_itof0 h i)"
  "upper_ok {v_fs i, v_ft i} (v_ft i) (v_itof4 h i)"
  "upper_ok {v_fs i, v_ft i} (v_ft i) (v_itof12 h i)"
  "upper_ok {v_fs i, v_ft i} (v_ft i) (v_itof15 h i)"
  by (rule upper_okI; simp add: v_abs_def v_ftoi0_def v_ftoi4_def v_ftoi12_def v_ftoi15_def v_itof0_def v_itof4_def v_itof12_def v_itof15_def Let_def fmac_put writes_fmac put_rules gpr_lanes)+

lemma upper_outer [uframe]:
  "upper_ok {v_fs i, v_ft i, v_fd i} (v_fd i) (v_opmsub h i)" "upper_ok {v_fs i, v_ft i} 0 (v_opmula h i)"
  "upper_ok {v_fs i, v_ft i} 0 (v_clip h i)" "upper_ok {} 0 (v_nop h i)"
  by (rule upper_okI; simp add: v_opmsub_def v_opmula_def v_clip_def v_nop_def Let_def flagged_put put_twist set_acc_put
      clear_mac_put gpr_flagged)+

lemmas upper_decs =
  dec_addbc_def dec_subbc_def dec_maddbc_def dec_msubbc_def dec_maxbc_def dec_minibc_def dec_mulbc_def dec_mulq_def
  dec_maxi_def dec_muli_def dec_minii_def dec_addq_def dec_maddq_def dec_addi_def dec_maddi_def dec_subq_def
  dec_msubq_def dec_subi_def dec_msubi_def dec_add_def dec_madd_def dec_mul_def dec_max_def dec_sub_def
  dec_msub_def dec_opmsub_def dec_mini_def dec_addabc_def dec_subabc_def dec_maddabc_def dec_msubabc_def dec_itof0_def
  dec_itof4_def dec_itof12_def dec_itof15_def dec_ftoi0_def dec_ftoi4_def dec_ftoi12_def dec_ftoi15_def dec_mulabc_def
  dec_mulaq_def dec_abs_def dec_mulai_def dec_clip_def dec_addai_def dec_addaq_def dec_maddaq_def dec_maddai_def
  dec_subaq_def dec_msubaq_def dec_subai_def dec_msubai_def dec_mula_def dec_adda_def dec_suba_def dec_madda_def
  dec_opmula_def dec_msuba_def dec_unop_def

lemma upper_mono: "upper_ok R w f \<Longrightarrow> R \<subseteq> R' \<Longrightarrow> w = w' \<Longrightarrow> upper_ok R' w' f"
  by (auto simp: upper_ok_def keeps_frame_def)

definition declares_upper :: "udecode \<Rightarrow> bool" where
  "declares_upper dec \<longleftrightarrow>
     (\<forall>i h. upper_ok (upper_regs (fst (dec i))) (unat (vf_write (fst (dec i) decoder_reset) 0)) (snd (dec i) h i))"

lemma declares_upperI:
  "(\<And>i h. upper_ok (upper_regs (fst (dec i))) (unat (vf_write (fst (dec i) decoder_reset) 0)) (snd (dec i) h i)) \<Longrightarrow> declares_upper dec"
  by (simp add: declares_upper_def)

lemma upper_tables_declare:
  "list_all (\<lambda>e. declares_upper (snd e)) upper_table \<and> list_all (\<lambda>e. declares_upper (snd e)) upper_special_table"
  unfolding upper_table_def upper_special_table_def list.pred_inject snd_conv
  by (intro conjI list.pred_inject(1);
      rule declares_upperI;
      simp only: upper_decs fst_conv snd_conv;
      rule upper_mono, rule uframe;
      simp add: upper_regs_def decl_regs)

lemma decode_upper_declares:
  assumes "decode_upper i = Inr (du, uop)"
  shows "upper_ok (upper_regs du) (unat (vf_write (du decoder_reset) 0)) (uop h i)"
proof -
  have "\<exists>dec c tab. (c, dec) \<in> set tab \<and> tab \<in> {upper_table, upper_special_table} \<and> (du, uop) = dec i"
    using assms by (fastforce simp: decode_upper_def Let_def dest!: map_of_SomeD split: if_splits option.splits)
  then obtain dec c tab where "(c, dec) \<in> set tab" "tab \<in> {upper_table, upper_special_table}" "(du, uop) = dec i"
    by blast
  then have "declares_upper dec" using upper_tables_declare by (auto simp: list_all_iff)
  then show ?thesis unfolding declares_upper_def using \<open>(du, uop) = dec i\<close> by (metis fst_conv snd_conv)
qed

end
