(* ===== verification/Vu_Pair.thy ===== *)
theory Vu_Pair
  imports Vu_Frame
begin

unbundle bit_operations_syntax

section \<open>Upper and lower instruction execute in parallel\<close>

text \<open>
  On the processor both instructions of a pair read the vector file as it was before. The code runs one
  after the other and exchanges a register in between where the declarations of the decoder call for it.
  For every pair this is the parallel execution.
\<close>

subsection \<open>The pair\<close>

text \<open>The parallel execution: the lower instruction runs on the old vector file, then the register the
  upper one writes gets its value. The two places of the exchange are not part of the result.\<close>

definition vu_pair_parallel ::
  "nat \<Rightarrow> nat \<Rightarrow> (vunit \<Rightarrow> vunit) \<Rightarrow> ('a vsys_scheme \<Rightarrow> 'a vsys_scheme res) \<Rightarrow> 'a vsys_scheme \<Rightarrow> 'a vsys_scheme res" where
  "vu_pair_parallel u w up lo s =
     (let v = vus s u; v1 = up v
      in rbind (lo (on_vu u (\<lambda>_. v1\<lparr>vu_gpr := vu_gpr v\<rparr>) s)) (\<lambda>s.
         Inr (if w = 0 then s else on_vu u (\<lambda>v2. v2\<lparr>vu_gpr := (vu_gpr v2)(w := vu_gpr v1 w)\<rparr>) s)))"

definition drop_backups :: "nat \<Rightarrow> 'a vsys_scheme res \<Rightarrow> 'a vsys_scheme res" where
  "drop_backups u r = rbind r (\<lambda>s. Inr (on_vu u (\<lambda>v. v\<lparr>backup_newgpr := (\<lambda>_. 0), backup_oldgpr := (\<lambda>_. 0)\<rparr>) s))"

definition apart_upper :: "udecode \<Rightarrow> bool" where
  "apart_upper dec \<longleftrightarrow> (\<forall>i d. let e = fst (dec i) d in
     vf_read0 e 1 = vf_read0 d 1 \<and> vf_read1 e 1 = vf_read1 d 1 \<and> vf_write e 1 = vf_write d 1)"

definition apart_lower :: "'a ldecode \<Rightarrow> bool" where
  "apart_lower dec \<longleftrightarrow> (\<forall>i d. let e = fst (dec i) d; z = fst (dec i) decoder_reset in
     vf_write e 0 = vf_write d 0 \<and> (vf_read0 d 1 = 0 \<and> vf_read1 d 1 = 0 \<and> vf_write d 1 = 0 \<longrightarrow>
       vf_read0 e 1 = vf_read0 z 1 \<and> vf_read1 e 1 = vf_read1 z 1 \<and> vf_write e 1 = vf_write z 1))"

lemma tables_apart:
  "list_all (\<lambda>e. apart_upper (snd e)) upper_table \<and> list_all (\<lambda>e. apart_upper (snd e)) upper_special_table \<and>
   list_all (\<lambda>e. apart_lower (snd e)) lower1_table \<and> list_all (\<lambda>e. apart_lower (snd e)) lower2_table \<and>
   list_all (\<lambda>e. apart_lower (snd e)) lower1_special_table"
  unfolding upper_table_def upper_special_table_def lower1_table_def lower2_table_def lower1_special_table_def
    list.pred_inject snd_conv
  by (intro conjI list.pred_inject(1); unfold apart_upper_def apart_lower_def; simp add: upper_decs lower_decs decl_regs)

lemma pair_declarations:
  assumes "decode_upper i = Inr (du, uop)" "decode_lower j = Inr (dl, lop)"
  shows "unat (vf_write (dl (du decoder_reset)) 0) = unat (vf_write (du decoder_reset) 0)"
    "pair_conflict (dl (du decoder_reset)) \<longleftrightarrow> vf_write (du decoder_reset) 0 \<noteq> 0 \<and> unat (vf_write (du decoder_reset) 0) \<in> lower_regs dl"
proof -
  have "\<exists>dec c tab. (c, dec) \<in> set tab \<and> tab \<in> {upper_table, upper_special_table} \<and> (du, uop) = dec i"
    using assms(1) by (fastforce simp: decode_upper_def Let_def dest!: map_of_SomeD split: if_splits option.splits)
  then obtain dec where "apart_upper dec" "(du, uop) = dec i" using tables_apart by (auto simp: list_all_iff)
  then have u: "vf_read0 (du decoder_reset) 1 = 0 \<and> vf_read1 (du decoder_reset) 1 = 0 \<and> vf_write (du decoder_reset) 1 = 0"
    unfolding apart_upper_def Let_def by (metis fst_conv decoder_reset_def decoded_regs.select_convs(1,3,5))
  have "\<exists>dec c tab. (c, dec) \<in> set tab \<and> tab \<in> {lower1_table, lower2_table, lower1_special_table} \<and> (dl, lop) = dec j"
    using assms(2) by (fastforce simp: decode_lower_def Let_def dest!: map_of_SomeD split: if_splits option.splits)
  then obtain dec' where "apart_lower dec'" "(dl, lop) = dec' j" using tables_apart by (auto simp: list_all_iff)
  then have l: "vf_write (dl (du decoder_reset)) 0 = vf_write (du decoder_reset) 0" "vf_read0 (dl (du decoder_reset)) 1 = vf_read0 (dl decoder_reset) 1"
    "vf_read1 (dl (du decoder_reset)) 1 = vf_read1 (dl decoder_reset) 1" "vf_write (dl (du decoder_reset)) 1 = vf_write (dl decoder_reset) 1"
    using u unfolding apart_lower_def Let_def by (metis fst_conv)+
  show "unat (vf_write (dl (du decoder_reset)) 0) = unat (vf_write (du decoder_reset) 0)" by (simp add: l)
  show "pair_conflict (dl (du decoder_reset)) \<longleftrightarrow> vf_write (du decoder_reset) 0 \<noteq> 0 \<and> unat (vf_write (du decoder_reset) 0) \<in> lower_regs dl"
    unfolding pair_conflict_def Let_def l lower_regs_def insert_iff empty_iff word_unat_eq_iff [where 'a = 8] by auto
qed

text \<open>A register no byte can name.\<close>

lemma no_such_reg: "unat (x :: u8) \<noteq> 300" "(300 :: nat) \<notin> lower_regs dl" "(300 :: nat) \<notin> upper_regs du"
proof -
  have "unat (y :: u8) \<noteq> 300" for y
    using unsigned_less [of y, where ?'a = nat] by auto
  then show "unat (x :: u8) \<noteq> 300" "(300 :: nat) \<notin> lower_regs dl" "(300 :: nat) \<notin> upper_regs du"
    by (auto simp: lower_regs_def upper_regs_def simp del: unat_of_nat)
qed

lemma frames_fixed:
  assumes "frames u R lo" "300 \<notin> R" "lo s = Inr s2"
  shows "vu_gpr (vus s2 u) 300 = vu_gpr (vus s u) 300"
proof -
  let ?x = "(vu_gpr (vus s u) 300, backup_newgpr (vus s u), backup_oldgpr (vus s u))"
  have "on_vu u (put_vf 300 ?x) s = s" by (simp add: on_vu_def put_vf_def)
  then have "lo s = rbind (lo s) (\<lambda>s. Inr (on_vu u (put_vf 300 ?x) s))"
    using assms(1,2) unfolding frames_def by metis
  then have "s2 = on_vu u (put_vf 300 ?x) s2" using assms(3) by simp
  then have "vu_gpr (vus s2 u) 300 = vu_gpr (vus (on_vu u (put_vf 300 ?x) s2) u) 300" by simp
  then show ?thesis by simp
qed

lemma upper_backup:
  assumes "upper_ok (upper_regs du) w up"  "w \<noteq> 300"
  shows "restore_vf False w (backup_vf True w (up (backup_vf False w v))) =
    put_vf 300 (vu_gpr v 300, vu_gpr (up v) w, vu_gpr v w) ((up v)\<lparr>vu_gpr := vu_gpr v\<rparr>)"
proof -
  let ?x = "(vu_gpr v 300, backup_newgpr v, vu_gpr v w)"
  have b: "backup_vf False w v = put_vf 300 ?x v" by (simp add: backup_vf_def put_vf_def)
  have "up (put_vf 300 ?x v) = put_vf 300 ?x (up v)"
    using assms(1) no_such_reg(3) unfolding upper_ok_def keeps_frame_def by blast
  moreover have g: "vu_gpr (up v) = (vu_gpr v)(w := vu_gpr (up v) w)"
    using assms(1) unfolding upper_ok_def writes_only_def by auto
  have "((vu_gpr (up v))(300 := vu_gpr v 300, w := vu_gpr v w)) = (vu_gpr v)(300 := vu_gpr v 300)"
    using assms(2) by (subst g) (auto simp: fun_eq_iff)
  ultimately show ?thesis
    using assms(2) by (simp add: b backup_vf_def restore_vf_def) (simp add: put_vf_def)
qed

lemma pair_is_parallel:
  assumes "frames u (lower_regs dl) lo" "upper_ok (upper_regs du) w up" "w \<noteq> 300"
    and "pair_conflict (vu_decoder (vus s u)) \<longleftrightarrow> w \<noteq> 0 \<and> w \<in> lower_regs dl" "unat (vf_write (vu_decoder (vus s u)) 0) = w"
    and "w = 0 \<Longrightarrow> vu_gpr (up (vus s u)) 0 = vu_gpr (vus s u) 0"
  shows "drop_backups u (vu_pair u up lo s) = drop_backups u (vu_pair_parallel u w up lo s)"
proof -
  define v v1 where "v = vus s u" and "v1 = up v"
  define S where "S = on_vu u (\<lambda>_. v1\<lparr>vu_gpr := vu_gpr v\<rparr>) s"
  have g: "vu_gpr v1 = (vu_gpr v)(w := vu_gpr v1 w)"
    using assms(2) unfolding upper_ok_def writes_only_def by (auto simp: v1_def)
  show ?thesis
  proof (cases "pair_conflict (vu_decoder (vus s u))")
    case True
    then have w: "w \<noteq> 0" using assms(4) by blast
    let ?x = "(vu_gpr v 300, vu_gpr v1 w, vu_gpr v w)"
    have "vu_pair u up lo s = rbind (lo (on_vu u (put_vf 300 ?x) S)) (\<lambda>s. Inr (on_vu u (restore_vf True w) s))"
      using True upper_backup [OF assms(2,3), of v]
      by (simp add: vu_pair_def Let_def assms(5) S_def v1_def v_def on_vu_def)
    also have "\<dots> = rbind (lo S) (\<lambda>s. Inr (on_vu u (\<lambda>v. restore_vf True w (put_vf 300 ?x v)) s))"
      using assms(1) no_such_reg(2) unfolding frames_def by (simp add: rbind_assoc)
    finally have code: "vu_pair u up lo s = \<dots>" .
    show ?thesis
    proof (cases "lo S")
      case (Inl e)
      then show ?thesis by (simp add: code vu_pair_parallel_def Let_def S_def v1_def v_def drop_backups_def)
    next
      case (Inr s2)
      have "vu_gpr (vus s2 u) 300 = vu_gpr v 300"
        using frames_fixed [OF assms(1) no_such_reg(2) Inr] by (simp add: S_def)
      then have "(vu_gpr (vus s2 u))(300 := vu_gpr v 300) = vu_gpr (vus s2 u)" by (rule fun_upd_idem)
      then show ?thesis using w Inr
        by (simp add: code vu_pair_parallel_def Let_def S_def [symmetric] v1_def [symmetric] v_def [symmetric] drop_backups_def
             put_vf_def restore_vf_def)
           (simp add: on_vu_def)
    qed
  next
    case False
    then have code: "vu_pair u up lo s = lo (on_vu u (\<lambda>_. v1) s)"
      by (simp add: vu_pair_def Let_def v1_def v_def on_vu_def)
    show ?thesis
    proof (cases "w = 0")
      case True
      then have "vu_gpr v1 = vu_gpr v" using g assms(6) by (simp add: v1_def v_def)
      then have "v1\<lparr>vu_gpr := vu_gpr v\<rparr> = v1" by simp
      then show ?thesis using True by (simp add: code vu_pair_parallel_def Let_def v1_def v_def drop_backups_def)
    next
      case w: False
      let ?x = "(vu_gpr v1 w, backup_newgpr v1, backup_oldgpr v1)"
      have "on_vu u (\<lambda>_. v1) s = on_vu u (put_vf w ?x) S"
        using g by (simp add: S_def put_vf_def on_vu_def)
      moreover have "w \<notin> lower_regs dl" using False w assms(4) by blast
      ultimately have "vu_pair u up lo s = rbind (lo S) (\<lambda>s. Inr (on_vu u (put_vf w ?x) s))"
        using assms(1) code unfolding frames_def by simp
      then show ?thesis using w
        by (cases "lo S") (auto simp: vu_pair_parallel_def Let_def S_def v1_def v_def drop_backups_def put_vf_def intro!: on_vu_cong)
    qed
  qed
qed

text \<open>C21: the interpreter runs every pair of a vector unit's instructions as if both read the vector file at
  once and the upper one's result won: exchanging the declared register around the lower instruction is
  enough, since no lower instruction touches a vector register that it does not declare. The upper
  instruction must leave register 0 alone, which some conversions into register 0 do not.\<close>

theorem vu_pair_is_parallel:
  assumes "u < 2" "decode_upper i = Inr (du, uop)" "decode_lower j = Inr (dl, lop)"
    and "vu_decoder (vus s u) = dl (du decoder_reset)"
    and "vu_gpr (uop h i (vus s u)) 0 = vu_gpr (vus s u) 0"
  shows "drop_backups u (vu_pair u (uop h i) (lop u h j) s) =
    drop_backups u (vu_pair_parallel u (unat (vf_write (du decoder_reset) 0)) (uop h i) (lop u h j) s)"
proof (rule pair_is_parallel)
  show "frames u (lower_regs dl) (lop u h j)" using assms(1,3) by (rule decode_lower_declares)
  show "upper_ok (upper_regs du) (unat (vf_write (du decoder_reset) 0)) (uop h i)" using assms(2) by (rule decode_upper_declares)
  show "pair_conflict (vu_decoder (vus s u)) \<longleftrightarrow>
      unat (vf_write (du decoder_reset) 0) \<noteq> 0 \<and> unat (vf_write (du decoder_reset) 0) \<in> lower_regs dl"
    unfolding assms(4) pair_declarations [OF assms(2,3)] by (simp add: unat_eq_0)
qed (simp_all add: assms(4,5) pair_declarations(1) [OF assms(2,3)] no_such_reg)

text \<open>\<open>MAX vf1, vf2, vf3\<close> paired with \<open>MOVE vf4, vf1\<close>.\<close>

theorem vu_pair_is_parallel_witness:
  "\<forall>(s :: vsys) h. let s = on_vu 1 (\<lambda>v. v\<lparr>vu_decoder := fst (dec_move 0x81E40B3C :: vdec \<times> unit vlop) (fst (dec_max 0x1E3106B) decoder_reset)\<rparr>) s
     in pair_conflict (vu_decoder (vus s 1)) \<and>
        drop_backups 1 (vu_pair 1 (v_max h 0x1E3106B) (lowered v_move 1 h 0x81E40B3C) s) =
        drop_backups 1 (vu_pair_parallel 1 1 (v_max h 0x1E3106B) (lowered v_move 1 h 0x81E40B3C) s)"
proof (intro allI)
  fix s :: vsys and h
  define t where "t = on_vu 1 (\<lambda>v. v\<lparr>vu_decoder := fst (dec_move 0x81E40B3C :: vdec \<times> unit vlop) (fst (dec_max 0x1E3106B) decoder_reset)\<rparr>) s"
  have d: "decode_upper 0x1E3106B = Inr (fst (dec_max 0x1E3106B), v_max)"
    "decode_lower 0x81E40B3C = Inr (fst (dec_move 0x81E40B3C :: vdec \<times> unit vlop), lowered v_move)"
    by (simp_all add: decode_upper_def decode_lower_def upper_table_def lower1_special_table_def tst_def dec_max_def dec_move_def)
  have w: "unat (vf_write (fst (dec_max 0x1E3106B) decoder_reset) 0) = 1" "v_fd 0x1E3106B = 1"
    by (simp_all add: dec_max_def dw_def dr0_def dr1_def v_fd_def)
  have z: "vu_gpr (v_max h 0x1E3106B (vus t 1)) 0 = vu_gpr (vus t 1) 0"
    using upper_max(1) [of "0x1E3106B" h] w(2) unfolding upper_ok_def writes_only_def by simp
  have c: "pair_conflict (vu_decoder (vus t 1))"
    by (simp add: t_def pair_conflict_def dec_max_def dec_move_def dw_def dr0_def dr1_def v_fd_def v_fs_def v_ft_def decoder_reset_def)
  have "vu_decoder (vus t 1) = fst (dec_move 0x81E40B3C :: vdec \<times> unit vlop) (fst (dec_max 0x1E3106B) decoder_reset)"
    by (simp add: t_def)
  from vu_pair_is_parallel [where u = 1, OF _ d this z] c
  show "let s = on_vu 1 (\<lambda>v. v\<lparr>vu_decoder := fst (dec_move 0x81E40B3C :: vdec \<times> unit vlop) (fst (dec_max 0x1E3106B) decoder_reset)\<rparr>) s
     in pair_conflict (vu_decoder (vus s 1)) \<and>
        drop_backups 1 (vu_pair 1 (v_max h 0x1E3106B) (lowered v_move 1 h 0x81E40B3C) s) =
        drop_backups 1 (vu_pair_parallel 1 1 (v_max h 0x1E3106B) (lowered v_move 1 h 0x81E40B3C) s)"
    unfolding Let_def t_def [symmetric] w by simp
qed

end
