(* ===== verification/Vu_Correct.thy ===== *)
theory Vu_Correct
  imports Vu_Run Ee_Fpu_Correct
begin

unbundle bit_operations_syntax

section \<open>The vector units: results, flags, integer branches\<close>

text \<open>
  What the multiply-add instructions leave in their destination and in the MAC flags (\<open>VectorUnit::update_mac_flags\<close>,
  \<open>clear_mac_flags\<close>), and which value of an integer register a branch sees (\<open>VuIntBranchPipeline\<close>).
\<close>

subsection \<open>Results and MAC flags\<close>

text \<open>What the flags of component \<open>k\<close> say: sign, zero, underflow, overflow in bits 4, 0, 8, 12 of its column.\<close>

definition flag_bit :: "vunit \<Rightarrow> nat \<Rightarrow> nat \<Rightarrow> bool" where
  "flag_bit v n k \<longleftrightarrow> bit (new_MAC_flags v) (n + (3 - k))"

definition flags_clear :: "nat \<Rightarrow> vunit \<Rightarrow> bool" where
  "flags_clear k v \<longleftrightarrow> \<not> flag_bit v 0 k \<and> \<not> flag_bit v 4 k \<and> \<not> flag_bit v 8 k \<and> \<not> flag_bit v 12 k"

definition flags_say :: "nat \<Rightarrow> u32 \<Rightarrow> vunit \<Rightarrow> bool" where
  "flags_say k x v \<longleftrightarrow> f_ordinary x \<and> flag_bit v 4 k = tst x 31 \<and> flag_bit v 0 k = (x AND 0x7FFFFFFF = 0) \<and>
     (flag_bit v 12 k \<longrightarrow> x AND 0x7FFFFFFF = 0x7F7FFFFF)"

lemma four_cases: "k < 4 \<Longrightarrow> k = 0 \<or> k = 1 \<or> k = 2 \<or> k = (3 :: nat)"
  by auto

lemma sign_bit: "x AND 0x80000000 \<noteq> (0 :: u32) \<longleftrightarrow> bit x 31"
  using tst_iff_bit [of x 31] by (simp add: tst_def)

lemma bits_of_column:
  fixes f :: u16
  assumes "k < 4" "n \<in> {0, 4, 8, 12}"
  shows "bit (f OR push_bit (3 - k) 0x10) (n + (3 - k)) \<longleftrightarrow> bit f (n + (3 - k)) \<or> n = 4"
    "bit (f AND NOT (push_bit (3 - k) 0x10)) (n + (3 - k)) \<longleftrightarrow> bit f (n + (3 - k)) \<and> n \<noteq> 4"
    "bit ((f OR push_bit (3 - k) 1) AND NOT (push_bit (3 - k) 0x1100)) (n + (3 - k)) \<longleftrightarrow> (n = 0 \<or> n = 4 \<and> bit f (n + (3 - k)))"
    "bit ((f OR push_bit (3 - k) 0x101) AND NOT (push_bit (3 - k) 0x1000)) (n + (3 - k)) \<longleftrightarrow> (n = 0 \<or> n = 8 \<or> n = 4 \<and> bit f (n + (3 - k)))"
    "bit ((f OR push_bit (3 - k) 0x1000) AND NOT (push_bit (3 - k) 0x101)) (n + (3 - k)) \<longleftrightarrow> (n = 12 \<or> n = 4 \<and> bit f (n + (3 - k)))"
    "bit (f AND NOT (push_bit (3 - k) 0x1101)) (n + (3 - k)) \<longleftrightarrow> n = 4 \<and> bit f (n + (3 - k))"
    "\<not> bit (f AND NOT (push_bit (3 - k) 0x1111)) (n + (3 - k))"
  using assms(2) four_cases [OF assms(1)] by (auto simp: bit_simps)

lemma bits_of_others:
  fixes f :: u16
  assumes "k < 4" "j < 4" "j \<noteq> k" "n \<in> {0, 4, 8, 12}" "m \<in> {1, 0x10, 0x100, 0x101, 0x1000, 0x1100, 0x1101, 0x1111}"
  shows "\<not> bit (push_bit (3 - j) m :: u16) (n + (3 - k))"
  using assms(3-5) four_cases [OF assms(1)] four_cases [OF assms(2)] by (auto simp: bit_simps)

lemma exponent_cases:
  "fld x 23 8 = 0 \<longleftrightarrow> x AND 0x7F800000 = (0 :: u32)" "fld x 23 8 = 255 \<longleftrightarrow> x AND 0x7F800000 = (0x7F800000 :: u32)"
proof -
  have e: "push_bit 23 (fld x 23 8) = x AND 0x7F800000"
    by (rule u32_eqI) (simp add: fld_def reg_bits bit_simps)
  have m: "fld x 23 8 = drop_bit 23 (x AND 0x7F800000)"
    by (rule u32_eqI) (simp add: fld_def reg_bits bit_simps)
  show "fld x 23 8 = 0 \<longleftrightarrow> x AND 0x7F800000 = 0"
    using e m by (metis push_bit_of_0 drop_bit_of_0)
  show "fld x 23 8 = 255 \<longleftrightarrow> x AND 0x7F800000 = 0x7F800000"
  proof
    assume "fld x 23 8 = 255"
    from e [unfolded this] show "x AND 0x7F800000 = 0x7F800000" by simp
  next
    assume "x AND 0x7F800000 = 0x7F800000"
    from m [unfolded this] show "fld x 23 8 = 255" by simp
  qed
qed

lemma magnitude_split: "x AND 0x7FFFFFFF = (x AND 0x7F800000) OR (x AND 0x7FFFFF :: u32)"
  by (rule u32_eqI) (simp add: reg_bits bit_simps)

lemma clamped_numbers:
  fixes x :: u32
  shows "(x AND 0x80000000) AND 0x7FFFFFFF = 0" "((x AND 0x80000000) OR 0x7F7FFFFF) AND 0x7FFFFFFF = 0x7F7FFFFF"
    "f_ordinary (x AND 0x80000000)" "bit (x AND 0x80000000) 31 = bit x 31" "bit ((x AND 0x80000000) OR 0x7F7FFFFF) 31 = bit x 31"
proof -
  have "(x AND 0x80000000) AND 0x7F800000 = (0 :: u32)" "(x AND 0x80000000) AND 0x7FFFFF = (0 :: u32)"
    by (rule u32_eqI; simp add: reg_bits bit_simps)+
  then show "f_ordinary (x AND 0x80000000)" by (simp add: f_ordinary_def)
  show "(x AND 0x80000000) AND 0x7FFFFFFF = 0" "((x AND 0x80000000) OR 0x7F7FFFFF) AND 0x7FFFFFFF = 0x7F7FFFFF"
    by (rule u32_eqI; simp add: reg_bits bit_simps)+
  show "bit (x AND 0x80000000) 31 = bit x 31" "bit ((x AND 0x80000000) OR 0x7F7FFFFF) 31 = bit x 31"
    by (simp_all add: bit_simps)
qed

lemma mac_flags_say:
  assumes "k < 4" "update_mac_flags c k v = (x, v')"
  shows "flags_say k x v'"
proof -
  define F where "F = (if c AND 0x80000000 \<noteq> 0 then new_MAC_flags v OR push_bit (3 - k) 0x10
    else new_MAC_flags v AND NOT (push_bit (3 - k) 0x10))"
  note col0 = bits_of_column [OF assms(1), of 0 F, unfolded add_0]
  note col4 = bits_of_column [OF assms(1), of 4 F]
  note col12 = bits_of_column [OF assms(1), of 12 F]
  have F: "bit F (4 + (3 - k)) = bit c 31"
    using bits_of_column [OF assms(1), of 4] by (simp add: F_def sign_bit)
  have u: "(x, v') =
     (if c AND 0x7FFFFFFF = 0 then (c, v\<lparr>new_MAC_flags := (F OR push_bit (3 - k) 1) AND NOT (push_bit (3 - k) 0x1100)\<rparr>)
      else if c AND 0x7F800000 = 0
      then (c AND 0x80000000, v\<lparr>new_MAC_flags := (F OR push_bit (3 - k) 0x101) AND NOT (push_bit (3 - k) 0x1000)\<rparr>)
      else if c AND 0x7F800000 = 0x7F800000
      then ((c AND 0x80000000) OR 0x7F7FFFFF, v\<lparr>new_MAC_flags := (F OR push_bit (3 - k) 0x1000) AND NOT (push_bit (3 - k) 0x101)\<rparr>)
      else (c, v\<lparr>new_MAC_flags := F AND NOT (push_bit (3 - k) 0x1101)\<rparr>))"
    using assms(2) unfolding update_mac_flags_def Let_def F_def exponent_cases by simp
  note facts = flags_say_def flag_bit_def col0 col4 col12 F tst_iff_bit clamped_numbers
  consider (zero) "c AND 0x7FFFFFFF = 0" | (under) "c AND 0x7FFFFFFF \<noteq> 0" "c AND 0x7F800000 = 0"
    | (over) "c AND 0x7FFFFFFF \<noteq> 0" "c AND 0x7F800000 = 0x7F800000"
    | (other) "c AND 0x7FFFFFFF \<noteq> 0" "c AND 0x7F800000 \<noteq> 0" "c AND 0x7F800000 \<noteq> 0x7F800000" by blast
  then show ?thesis
  proof cases
    case zero
    have "c AND 0x7F800000 = (c AND 0x7FFFFFFF) AND 0x7F800000" "c AND 0x7FFFFF = (c AND 0x7FFFFFFF) AND 0x7FFFFF"
      by (rule u32_eqI; simp add: reg_bits bit_simps)+
    with zero have "f_ordinary c" by (simp add: f_ordinary_def)
    then show ?thesis using zero u by (simp add: facts del: push_bit_of_1)
  next
    case under
    then show ?thesis using u by (simp add: facts del: push_bit_of_1)
  next
    case over
    then show ?thesis using u ordinary_largest [of c] by (simp add: facts del: push_bit_of_1)
  next
    case other
    then have "f_ordinary c" by (simp add: f_ordinary_def)
    then show ?thesis using other u by (simp add: facts del: push_bit_of_1)
  qed
qed

lemma bits_kept:
  fixes f :: u16
  assumes "\<not> bit m b"
  shows "bit (f OR m) b = bit f b" "bit (f AND NOT m) b = bit f b"
  using assms by (cases "b < 16"; simp add: bit_simps impossible_bit)+

lemma mac_flags_others:
  assumes "k < 4" "j < 4" "j \<noteq> k" "n \<in> {0, 4, 8, 12}"
  shows "flag_bit (snd (update_mac_flags c j v)) n k = flag_bit v n k" "flag_bit (clear_mac_flags j v) n k = flag_bit v n k"
proof -
  have m: "\<not> bit (push_bit (3 - j) m :: u16) (n + (3 - k))" if "m \<in> {1, 0x10, 0x100, 0x101, 0x1000, 0x1100, 0x1101, 0x1111}" for m
    using bits_of_others [OF assms that] .
  have k: "bit (f OR push_bit (3 - j) m) (n + (3 - k)) = bit f (n + (3 - k))"
    "bit (f AND NOT (push_bit (3 - j) m)) (n + (3 - k)) = bit f (n + (3 - k))"
    if "m \<in> {1, 0x10, 0x100, 0x101, 0x1000, 0x1100, 0x1101, 0x1111}" for m and f :: u16
    using bits_kept [OF m [OF that]] by blast+
  show "flag_bit (snd (update_mac_flags c j v)) n k = flag_bit v n k"
    by (auto simp: update_mac_flags_def Let_def flag_bit_def k simp del: bit_or_iff bit_and_iff push_bit_of_1 push_bit_numeral)
  show "flag_bit (clear_mac_flags j v) n k = flag_bit v n k"
    by (simp add: clear_mac_flags_def flag_bit_def k)
qed

text \<open>One component of a multiply-add instruction, whatever it computes and wherever it puts the result.\<close>

definition fmac_step :: "u32 \<Rightarrow> (nat \<Rightarrow> u32 \<Rightarrow> vunit \<Rightarrow> vunit) \<Rightarrow> (nat \<Rightarrow> vunit \<Rightarrow> u32) \<Rightarrow> nat \<Rightarrow> vunit \<Rightarrow> vunit" where
  "fmac_step i put g k v = (if in_field i k then flagged (put k) (g k v) k v else clear_mac_flags k v)"

definition puts_result :: "(nat \<Rightarrow> u32 \<Rightarrow> vunit \<Rightarrow> vunit) \<Rightarrow> (vunit \<Rightarrow> nat \<Rightarrow> u32) \<Rightarrow> bool" where
  "puts_result put out \<longleftrightarrow>
     (\<forall>k x v. new_MAC_flags (put k x v) = new_MAC_flags v \<and> out (put k x v) = (out v)(k := x)) \<and>
     (\<forall>f v. out (v\<lparr>new_MAC_flags := f\<rparr>) = out v)"

definition lane_says :: "u32 \<Rightarrow> (vunit \<Rightarrow> nat \<Rightarrow> u32) \<Rightarrow> vunit \<Rightarrow> nat \<Rightarrow> vunit \<Rightarrow> bool" where
  "lane_says i out v0 k v \<longleftrightarrow> (if in_field i k then flags_say k (out v k) v else flags_clear k v \<and> out v k = out v0 k)"

lemma mac_flags_update: "\<exists>f. snd (update_mac_flags c k v) = v\<lparr>new_MAC_flags := f\<rparr>"
  unfolding update_mac_flags_def Let_def by (simp only: if_distrib [of snd] snd_conv) (metis (no_types))

lemma fmac_step_same:
  assumes "k < 4" "puts_result put out" "out v k = out v0 k"
  shows "lane_says i out v0 k (fmac_step i put g k v)"
proof (cases "in_field i k")
  case True
  obtain x v' where u: "update_mac_flags (g k v) k v = (x, v')" by fastforce
  have "flags_say k x v'" using mac_flags_say [OF assms(1) u] .
  then show ?thesis using True u assms(2)
    by (simp add: lane_says_def fmac_step_def flagged_def puts_result_def flags_say_def flag_bit_def)
next
  case False
  have "flags_clear k (clear_mac_flags k v)"
    using bits_of_column(7) [OF assms(1), of 0] bits_of_column(7) [OF assms(1), of 4] bits_of_column(7) [OF assms(1), of 8]
      bits_of_column(7) [OF assms(1), of 12] by (simp add: flags_clear_def flag_bit_def clear_mac_flags_def)
  then show ?thesis using False assms(2,3) by (simp add: lane_says_def fmac_step_def clear_mac_flags_def puts_result_def)
qed

lemma fmac_step_other:
  assumes "k < 4" "j < 4" "j \<noteq> k" "puts_result put out"
  shows "out (fmac_step i put g j v) k = out v k"
    "n \<in> {0, 4, 8, 12} \<Longrightarrow> flag_bit (fmac_step i put g j v) n k = flag_bit v n k"
proof -
  obtain x v' where u: "update_mac_flags (g j v) j v = (x, v')" by fastforce
  obtain f where f: "v' = v\<lparr>new_MAC_flags := f\<rparr>" using mac_flags_update [of "g j v" j v] u by auto
  show "out (fmac_step i put g j v) k = out v k"
    using assms(3,4) by (simp add: fmac_step_def flagged_def u f puts_result_def clear_mac_flags_def)
  show "flag_bit (fmac_step i put g j v) n k = flag_bit v n k" if "n \<in> {0, 4, 8, 12}"
    using mac_flags_others(1) [OF assms(1-3) that, where c = "g j v" and v = v] mac_flags_others(2) [OF assms(1-3) that, where v = v] assms(4)
    by (simp add: fmac_step_def flagged_def u puts_result_def flag_bit_def)
qed

lemma lane_says_kept:
  assumes "k < 4" "j < 4" "j \<noteq> k" "puts_result put out" "lane_says i out v0 k v"
  shows "lane_says i out v0 k (fmac_step i put g j v)"
  using assms(5) fmac_step_other [OF assms(1-4), where i = i and g = g and v = v]
  by (simp add: lane_says_def flags_say_def flags_clear_def split: if_splits)

lemma fmac_steps_say:
  assumes "k < 4" "puts_result put out"
  shows "lane_says i out v k (fold (fmac_step i put g) [0..<4] v)"
proof -
  have *: "lane_says i out v k (fold (fmac_step i put g) js w)" if "lane_says i out v k w" "\<forall>j \<in> set js. j < 4 \<and> j \<noteq> k" for js w
    using that by (induction js arbitrary: w) (auto intro: lane_says_kept [OF assms(1)] assms(2))
  have before: "out (fold (fmac_step i put g) js w) k = out w k" if "\<forall>j \<in> set js. j < 4 \<and> j \<noteq> k" for js w
    using that fmac_step_other(1) [OF assms(1) _ _ assms(2)] by (induction js arbitrary: w) auto
  have "[0..<4] = [0..<k] @ k # [Suc k..<4]"
    using assms(1) by (metis le0 less_imp_le_nat upt_conv_Cons upt_add_eq_append le_add_diff_inverse)
  then have e: "fold (fmac_step i put g) [0..<4] v =
      fold (fmac_step i put g) [Suc k..<4] (fmac_step i put g k (fold (fmac_step i put g) [0..<k] v))" by simp
  show ?thesis unfolding e
    by (rule *, rule fmac_step_same [OF assms], rule before) (use assms(1) in auto)
qed

lemma puts_acc: "puts_result set_acc vu_ACC"
  by (simp add: puts_result_def set_acc_def)

lemma puts_fd: "r \<noteq> 0 \<Longrightarrow> puts_result (vset_gpr r) (\<lambda>v. vu_gpr v r)"
  by (simp add: puts_result_def vset_gpr_def)



text \<open>The accumulator forms (ADDA, MADDA, ...) do the same to the accumulator.\<close>

lemma fmac_acc_result_and_flags: "k < 4 \<Longrightarrow> lane_says i vu_ACC v k (fmac_acc i g v)"
  using fmac_steps_say [OF _ puts_acc, of k i v g]
  by (simp add: fmac_acc_def fmac_lanes_def fmac_step_def [abs_def])

subsection \<open>Integer branches\<close>

lemma length_five: "length xs = 5 \<Longrightarrow> \<exists>a b c d e. xs = [a, b, c, d, e]"
  by (auto simp: length_Suc_conv numeral_eq_Suc)

text \<open>Moving the pipeline forward copies the newest entry into every place.\<close>

lemma branch_update_all:
  assumes "length (branch_pipeline v) = 5"
  shows "branch_pipeline (branch_update v) = replicate 5 (branch_next v)"
proof -
  have "[0..<4] = [0, 1, 2, 3 :: nat]" by (simp add: upt_conv_Cons)
  with length_five [OF assms] show ?thesis by (auto simp: branch_update_def numeral_eq_Suc)
qed

text \<open>C23: A branch condition reads what its register held before the instruction just ahead of the branch when
  that instruction is the one that wrote it, and its present value in every other case: however many instructions
  in a row have written the register, the pipeline of old values never shows an older write than the last.\<close>

theorem vu_branch_sees_one_write:
  assumes "length (branch_pipeline v) = 5" "r < 16"
  shows "read_int_for_branch_condition r (branch_update v) =
    (if r \<noteq> 0 \<and> of_nat r = be_write_reg (branch_next v) then be_old_value (branch_next v) else int_gpr v r)"
proof -
  have "(of_nat r :: u8) \<noteq> 0" if "r \<noteq> 0" using that assms(2) by (simp add: word_of_nat_eq_0_iff nat_dvd_not_less)
  moreover have "fold (\<lambda>i w. if q = be_write_reg (replicate 5 e ! i) then be_old_value (replicate 5 e ! i) else w) [0..<5] (be_old_value e)
      = be_old_value e" for q e
    by (simp add: upt_conv_Cons)
  moreover have "int_gpr (branch_update v) = int_gpr v" by (simp add: branch_update_def)
  ultimately show ?thesis
    by (auto simp: read_int_for_branch_condition_def get_branch_condition_reg_def branch_update_all [OF assms(1)])
qed

theorem vu_branch_sees_one_write_witness:
  "\<forall>v. read_int_for_branch_condition 3 (branch_update (set_int 3 9 (write_int 3 3 0 (v\<lparr>branch_pipeline := replicate 5 be_clear\<rparr>))))
     = int_gpr v 3"
proof
  fix v :: vunit
  show "read_int_for_branch_condition 3 (branch_update (set_int 3 9 (write_int 3 3 0 (v\<lparr>branch_pipeline := replicate 5 be_clear\<rparr>))))
     = int_gpr v 3"
    using vu_branch_sees_one_write [of "set_int 3 9 (write_int 3 3 0 (v\<lparr>branch_pipeline := replicate 5 be_clear\<rparr>))" 3]
    by (simp add: set_int_def write_int_def)
qed

end
