(* ===== verification/Vif.thy ===== *)
theory Vif
  imports Vu_Run
begin

unbundle bit_operations_syntax

section \<open>The vector interfaces\<close>

text \<open>
  \<open>src/core/ee/vif.hpp\<close> and \<open>vif.cpp\<close>. Each vector unit has an interface that reads a stream of commands
  from a FIFO the DMA controller fills: it loads programs and data into the unit's memories, unpacking
  and masking them, starts programs, waits for the unit and the GIF's paths, and passes packets on to
  the GIF. VIF0 has no GIF: its pointer is null, and a use of it is undefined behaviour.
\<close>

subsection \<open>State\<close>

record unpack_command =
  up_addr :: u32
  up_sign_extend :: bool
  up_masked :: bool
  up_offset :: nat
  up_num :: nat
  up_cmd :: u8
  up_blocks_written :: nat
  up_words_per_op :: nat

record vif_unit =
  vif_FIFO :: "u32 list"
  vif_internal :: "u32 list"
  vif_imm :: u16
  vif_command :: u8
  mpg_addr :: u32
  vif_unpack :: unpack_command
  vif_ibit_detected :: bool
  vif_stalled :: u8
  vif_cmd_status :: u8
  vif_interrupt :: bool
  vif_stop :: bool
  vif_forcebreak :: bool
  vif_fifo_reverse :: bool
  wait_for_VU :: bool
  direct_wait :: bool
  wait_for_PATH3 :: bool
  flush_stall :: bool
  stall_condition_active :: bool
  wait_cmd_value :: u32
  vif_mem_mask :: u16
  vif_fifo_size :: nat
  vif_buffer :: "u32 list"
  vif_buffer_size :: nat
  internal_WL :: u16
  vif_DBF :: bool
  mark_detected :: bool
  err_mask_interrupt :: bool
  err_mask_dmatag :: bool
  err_mask_vifcode :: bool
  vif_CL :: u8
  vif_WL :: u8
  vif_OFST :: u16
  vif_BASE :: u16
  vif_TOPS :: u16
  vif_ITOPS :: u16
  vif_MODE :: u8
  vif_MASK :: u32
  vif_CODE :: u32
  vif_ROW :: "u32 list"
  vif_COL :: "u32 list"
  vif_MARK :: u32
  vif_command_len :: nat

record vif_sys = vsys +
  vifs :: "nat \<Rightarrow> vif_unit"

definition on_vif :: "nat \<Rightarrow> (vif_unit \<Rightarrow> vif_unit) \<Rightarrow> 'a vif_sys_scheme \<Rightarrow> 'a vif_sys_scheme" where
  "on_vif n f s = s\<lparr>vifs := (vifs s)(n := f (vifs s n))\<rparr>"

abbreviation VIF_IDLE :: u8 where "VIF_IDLE \<equiv> 0"
abbreviation VIF_WAIT :: u8 where "VIF_WAIT \<equiv> 1"
abbreviation VIF_DECODE :: u8 where "VIF_DECODE \<equiv> 2"
abbreviation VIF_TRANSFER :: u8 where "VIF_TRANSFER \<equiv> 3"
abbreviation STALL_IBIT :: u8 where "STALL_IBIT \<equiv> 1"
abbreviation STALL_MSKPATH3 :: u8 where "STALL_MSKPATH3 \<equiv> 2"
abbreviation STALL_STOP :: u8 where "STALL_STOP \<equiv> 4"
abbreviation STALL_DIRECT :: u8 where "STALL_DIRECT \<equiv> 8"
abbreviation STALL_FORCEBREAK :: u8 where "STALL_FORCEBREAK \<equiv> 16"

definition with_gif :: "nat \<Rightarrow> 'b res \<Rightarrow> 'b res" where
  "with_gif n r = (if n = 0 then Inl (Undefined ''GIF of VIF0 is null'') else r)"

definition vif_reset :: "nat \<Rightarrow> 'a vif_sys_scheme \<Rightarrow> 'a vif_sys_scheme" where
  "vif_reset n s = on_vif n (\<lambda>v. v\<lparr>vif_FIFO := [], vif_internal := [], vif_command := 0, vif_command_len := 0,
     vif_buffer_size := 0, vif_DBF := False, vif_MODE := 0, vif_MASK := 0, vif_CODE := 0, direct_wait := False,
     wait_for_VU := False, wait_for_PATH3 := False, vif_stalled := 0, vif_ibit_detected := False,
     vif_interrupt := False, vif_stop := False, mark_detected := False, flush_stall := False,
     stall_condition_active := False, vif_fifo_reverse := False, vif_cmd_status := VIF_IDLE,
     vif_mem_mask := (if n = 0 then 0xFF else 0x3FF), vif_fifo_size := (if n = 0 then 32 else 64)\<rparr>) s"

subsection \<open>Unpacking\<close>

definition is_filling_write :: "vif_unit \<Rightarrow> bool" where
  "is_filling_write v \<longleftrightarrow> unat (vif_CL v) < unat (internal_WL v) \<and> unat (vif_CL v) \<le> up_blocks_written (vif_unpack v)"

definition set_unpack :: "(unpack_command \<Rightarrow> unpack_command) \<Rightarrow> vif_unit \<Rightarrow> vif_unit" where
  "set_unpack f v = v\<lparr>vif_unpack := f (vif_unpack v)\<rparr>"

definition use_words :: "nat \<Rightarrow> vif_unit \<Rightarrow> vif_unit" where
  "use_words k v = v\<lparr>vif_buffer_size := vif_buffer_size v - k\<rparr>"

text \<open>\<open>if (unpack.offset++ == fin) { unpack.offset = 0; buffer_size -= 1; }\<close>\<close>

definition next_part :: "nat \<Rightarrow> vif_unit \<Rightarrow> bool \<times> vif_unit" where
  "next_part fin v =
     (if up_offset (vif_unpack v) = fin then (True, use_words 1 (set_unpack (\<lambda>u. u\<lparr>up_offset := 0\<rparr>) v))
      else (False, set_unpack (\<lambda>u. u\<lparr>up_offset := up_offset u + 1\<rparr>) v))"

definition ext16 :: "vif_unit \<Rightarrow> u32 \<Rightarrow> u32" where
  "ext16 v x = (if up_sign_extend (vif_unpack v) then scast (ucast x :: u16) else ucast (ucast x :: u16))"
definition ext8 :: "vif_unit \<Rightarrow> u32 \<Rightarrow> u32" where
  "ext8 v x = (if up_sign_extend (vif_unpack v) then scast (ucast x :: u8) else ucast (ucast x :: u8))"

text \<open>Three values of \<open>size\<close> bits from consecutive places of the buffer (\<open>V3-16\<close>, \<open>V3-8\<close>).\<close>

definition take_part :: "(vif_unit \<Rightarrow> u32 \<Rightarrow> u32) \<Rightarrow> nat \<Rightarrow> nat \<Rightarrow> nat \<times> vif_unit \<Rightarrow> (u32 \<times> nat \<times> vif_unit) res" where
  "take_part ext sz fin = (\<lambda>(pos, v).
     rbind (vec_at (vif_buffer v) pos) (\<lambda>w.
     let x = ext v (drop_bit (up_offset (vif_unpack v) * sz) w); (full, v) = next_part fin v
     in Inr (x, if full then pos + 1 else pos, v)))"

definition take_three :: "(vif_unit \<Rightarrow> u32 \<Rightarrow> u32) \<Rightarrow> nat \<Rightarrow> nat \<Rightarrow> nat \<Rightarrow> vif_unit \<Rightarrow> (u32 list \<times> nat \<times> vif_unit) res" where
  "take_three ext sz fin pos v =
     rbind (take_part ext sz fin (pos, v)) (\<lambda>(x, p).
     rbind (take_part ext sz fin p) (\<lambda>(y, p).
     rbind (take_part ext sz fin p) (\<lambda>(z, pos, v).
     rbind (if 1 \<le> vif_buffer_size v
            then rbind (vec_at (vif_buffer v) pos) (\<lambda>w. Inr (ext v (drop_bit (up_offset (vif_unpack v) * sz) w)))
            else Inr 0) (\<lambda>w. Inr ([x, y, z, w], pos, v)))))"

definition keep_rest :: "bool \<Rightarrow> nat \<Rightarrow> vif_unit \<Rightarrow> vif_unit res" where
  "keep_rest b pos v =
     (if b then rbind (vec_at (vif_buffer v) pos) (\<lambda>w. Inr (v\<lparr>vif_buffer := (vif_buffer v)[0 := w]\<rparr>)) else Inr v)"

text \<open>The components of the next vector, or nothing when more words are needed; \<open>pos\<close> is the local
  \<open>bufferpos\<close>, which lives as long as the call of \<open>handle_UNPACK\<close>.\<close>

definition unpack_vector :: "nat \<Rightarrow> vif_unit \<Rightarrow> (u32 list \<times> nat \<times> vif_unit) option res" where
  "unpack_vector pos v =
     (let b = (\<lambda>k. vif_buffer v ! k); u = vif_unpack v; off = up_offset u; cmd = up_cmd u;
          some = (\<lambda>q v. Inr (Some (q, pos, v)))
      in if cmd = 0x0 then some [b 0, b 0, b 0, b 0] (use_words 1 v)
         else if cmd = 0x1
         then let x = ext16 v (drop_bit (off * 16) (b 0)) in some [x, x, x, x] (snd (next_part 1 v))
         else if cmd = 0x2
         then let x = ext8 v (drop_bit (off * 8) (b 0)) in some [x, x, x, x] (snd (next_part 3 v))
         else if cmd = 0x4 then some [b 0, b 1, b 0, b 1] (use_words 2 v)
         else if cmd = 0x5
         then let x = ext16 v (b 0); y = ext16 v (drop_bit 16 (b 0)) in some [x, y, x, y] (use_words 1 v)
         else if cmd = 0x6
         then let x = ext8 v (drop_bit (off * 16) (b 0)); y = ext8 v (drop_bit (off * 16 + 8) (b 0))
              in some [x, y, x, y] (snd (next_part 1 v))
         else if cmd = 0x8
         then if vif_buffer_size v < 4 \<and> 1 < up_num u \<and> 0 < off then Inr None
              else let more = 4 \<le> vif_buffer_size v;
                       v' = (if more then v\<lparr>vif_buffer := (vif_buffer v)[0 := b 3]\<rparr> else v)
                   in some [b 0, b 1, b 2, if more then b 3 else 0]
                        (set_unpack (\<lambda>u. u\<lparr>up_offset := up_offset u + 1\<rparr>) (use_words 3 v'))
         else if cmd = 0x9
         then rbind (take_three ext16 16 1 pos v) (\<lambda>(q, pos, v).
              rbind (keep_rest (vif_buffer_size v < 2 \<and> up_offset (vif_unpack v) \<noteq> 0) pos v) (\<lambda>v. Inr (Some (q, pos, v))))
         else if cmd = 0xA
         then if vif_buffer_size v * 4 < 3 + off then Inr None
              else rbind (take_three ext8 8 3 pos v) (\<lambda>(q, pos, v).
                   rbind (keep_rest (vif_buffer_size v = 1 \<and> up_offset (vif_unpack v) \<noteq> 0) pos v) (\<lambda>v. Inr (Some (q, pos, v))))
         else if cmd = 0xC then some [b 0, b 1, b 2, b 3] (use_words 4 v)
         else if cmd = 0xD
         then some [ext16 v (b 0), ext16 v (drop_bit 16 (b 0)), ext16 v (b 1), ext16 v (drop_bit 16 (b 1))] (use_words 2 v)
         else if cmd = 0xE
         then some [ext8 v (b 0), ext8 v (drop_bit 8 (b 0)), ext8 v (drop_bit 16 (b 0)), ext8 v (drop_bit 24 (b 0))] (use_words 1 v)
         else if cmd = 0xF
         then let d = drop_bit (off * 16) (b 0) AND 0xFFFF
              in some [push_bit 3 (d AND 0x1F), push_bit 3 (drop_bit 5 d AND 0x1F), push_bit 3 (drop_bit 10 d AND 0x1F),
                       push_bit 7 (drop_bit 15 d AND 1)] (snd (next_part 1 v))
         else Inl (Die ''Unhandled UNPACK cmd''))"

definition mask_code :: "nat \<Rightarrow> vif_unit \<Rightarrow> u32" where
  "mask_code k v = drop_bit (k * 2 + min (up_blocks_written (vif_unpack v) * 8) 24) (vif_MASK v) AND 3"

definition handle_UNPACK_masking :: "vunit \<Rightarrow> vif_unit \<Rightarrow> u32 list \<Rightarrow> u32 list" where
  "handle_UNPACK_masking vu v q =
     (if up_masked (vif_unpack v) \<or> is_filling_write v
      then map (\<lambda>k. let m = mask_code k v
                    in if m = 1 then vif_ROW v ! k
                       else if m = 2 then vif_COL v ! min (up_blocks_written (vif_unpack v)) 3
                       else if m = 3 then vu_read_mem (up_addr (vif_unpack v) + of_nat (k * 4)) vu
                       else q ! k) [0..<4]
      else q)"

definition handle_UNPACK_mode :: "u32 list \<times> vif_unit \<Rightarrow> u32 list \<times> vif_unit" where
  "handle_UNPACK_mode = (\<lambda>(q, v).
     if vif_MODE v \<noteq> 0 \<and> up_cmd (vif_unpack v) \<noteq> 0xF
     then fold (\<lambda>k (q, v).
            if mask_code k v = 0 \<or> \<not> up_masked (vif_unpack v)
            then let x = (if vif_MODE v = 3 then q ! k else q ! k + vif_ROW v ! k)
                 in (q[k := x], if vif_MODE v = 1 then v else v\<lparr>vif_ROW := (vif_ROW v)[k := x]\<rparr>)
            else (q, v)) [0..<4] (q, v)
     else (q, v))"

definition quad_of :: "u32 list \<Rightarrow> 128 word" where
  "quad_of q = foldr (\<lambda>w x. push_bit 32 x OR ucast w) (take 4 q) 0"

definition process_UNPACK_quad :: "nat \<Rightarrow> u32 list \<Rightarrow> 'a vif_sys_scheme \<Rightarrow> 'a vif_sys_scheme" where
  "process_UNPACK_quad n q s =
     (let (q, v) = handle_UNPACK_mode (handle_UNPACK_masking (vus s n) (vifs s n) q, vifs s n);
          s = on_vu n (vu_write_mem (up_addr (vif_unpack v)) (quad_of q)) s;
          v = set_unpack (\<lambda>u. u\<lparr>up_blocks_written := up_blocks_written u + 1, up_addr := up_addr u + 16, up_num := up_num u - 1\<rparr>) v;
          blocks = up_blocks_written (vif_unpack v);
          v = (if unat (internal_WL v) \<le> blocks
               then set_unpack (\<lambda>u. u\<lparr>up_addr := (if unat (internal_WL v) < unat (vif_CL v)
                        then up_addr u + (ucast (vif_CL v) - of_nat blocks) * 16 else up_addr u), up_blocks_written := 0\<rparr>) v
               else v)
      in on_vif n (\<lambda>_. v) s)"

text \<open>The loop ends because every turn takes one from \<open>num\<close> or returns.\<close>

fun unpack_loop :: "nat \<Rightarrow> nat \<Rightarrow> nat \<Rightarrow> 'a vif_sys_scheme \<Rightarrow> (bool \<times> 'a vif_sys_scheme) res" where
  "unpack_loop n 0 pos s = Inr (True, s)"
| "unpack_loop n (Suc k) pos s =
     (let v = vifs s n
      in if is_filling_write v \<or> up_words_per_op (vif_unpack v) \<le> vif_buffer_size v
         then if up_blocks_written (vif_unpack v) < unat (vif_CL v)
              then rbind (unpack_vector pos v) (\<lambda>r.
                   case r of
                     None \<Rightarrow> Inr (False, s)
                   | Some (q, pos, v) \<Rightarrow> unpack_loop n k pos (process_UNPACK_quad n q (on_vif n (\<lambda>_. v) s)))
              else unpack_loop n k pos (process_UNPACK_quad n [0, 0, 0, 0] s)
         else Inr (True, s))"

definition handle_UNPACK :: "nat \<Rightarrow> 'a vif_sys_scheme \<Rightarrow> 'a vif_sys_scheme res" where
  "handle_UNPACK n s =
     rbind (unpack_loop n (up_num (vif_unpack (vifs s n))) 0 s) (\<lambda>(ended, s).
     Inr (if ended \<and> up_num (vif_unpack (vifs s n)) = 0 then on_vif n (\<lambda>v. v\<lparr>vif_command := 0\<rparr>) s else s))"

text \<open>The place the vectors go to and the number of data words.\<close>

definition init_UNPACK :: "u32 \<Rightarrow> vif_unit \<Rightarrow> vif_unit" where
  "init_UNPACK value v =
     (let imm = vif_imm v; n = unat (fld value 16 8); num = (if n = 0 then 256 else n);
          vl = unat (vif_command v AND 3); vn = unat (drop_bit 2 (vif_command v) AND 3);
          bits = (if vl = 3 \<and> vn = 3 then 16 else 32 div 2 ^ vl * (vn + 1));
          CL = unat (vif_CL v); WL = unat (internal_WL v);
          u = \<lparr>up_addr = ucast (imm AND 0x3FF) * 16 + (if tst imm 15 then ucast (vif_TOPS v) * 16 else 0),
               up_sign_extend = \<not> tst imm 14, up_masked = tst (vif_command v) 4, up_offset = 0, up_num = num,
               up_cmd = vif_command v AND 0xF, up_blocks_written = 0, up_words_per_op = (bits + 31) div 32\<rparr>;
          data_read = (if WL \<le> CL then num else CL * (num div WL) + min (num mod WL) CL)
      in v\<lparr>vif_unpack := u, vif_buffer_size := 0,
           vif_command_len := vif_command_len v + (bits * data_read + 31) div 32\<rparr>)"

subsection \<open>Commands\<close>

definition vif_MSCAL :: "nat \<Rightarrow> u32 \<Rightarrow> u32 \<Rightarrow> 'a vif_sys_scheme \<Rightarrow> 'a vif_sys_scheme" where
  "vif_MSCAL n addr cycles s =
     (let s = start_program n addr cycles s; v = vifs s n;
          s = s\<lparr>VIF_ITOP := (VIF_ITOP s)(n := vif_ITOPS v AND vif_mem_mask v)\<rparr>
      in if n \<noteq> 0
         then on_vif n (\<lambda>v. v\<lparr>vif_TOPS := (if vif_DBF v then vif_BASE v else vif_BASE v + vif_OFST v), vif_DBF := \<not> vif_DBF v\<rparr>)
                (s\<lparr>VIF_TOP := (VIF_TOP s)(n := vif_TOPS v AND vif_mem_mask v)\<rparr>)
         else s)"

definition handle_wait_cmd :: "nat \<Rightarrow> u32 \<Rightarrow> u32 \<Rightarrow> 'a vif_sys_scheme \<Rightarrow> 'a vif_sys_scheme" where
  "handle_wait_cmd n value cycles s =
     (let cmd = ucast (drop_bit 24 value AND 0x7F) :: u8; imm = ucast (value AND 0xFFFF) :: u16;
          s = on_vif n (\<lambda>v. v\<lparr>vif_command := cmd, vif_imm := imm\<rparr>) s;
          s = (if cmd = 0x14 \<or> cmd = 0x15 then vif_MSCAL n (ucast imm * 8) cycles s
               else if cmd = 0x17 then vif_MSCAL n (ucast (vu_PC (vus s n))) cycles s else s)
      in if vif_command_len (vifs s n) = 0 then on_vif n (\<lambda>v. v\<lparr>vif_command := 0, vif_cmd_status := VIF_DECODE\<rparr>) s else s)"

definition wait_VU_cmd :: "u32 \<Rightarrow> vif_unit \<Rightarrow> vif_unit" where
  "wait_VU_cmd value v = v\<lparr>wait_for_VU := True, stall_condition_active := True, wait_cmd_value := value\<rparr>"

definition decode_cmd :: "nat \<Rightarrow> u32 \<Rightarrow> 'a vif_sys_scheme \<Rightarrow> 'a vif_sys_scheme res" where
  "decode_cmd n value s =
     (let cmd = ucast (drop_bit 24 value AND 0x7F) :: u8; imm = ucast (value AND 0xFFFF) :: u16;
          s = on_vif n (\<lambda>v. v\<lparr>vif_command := cmd, vif_imm := imm, vif_CODE := value, vif_cmd_status := VIF_DECODE,
                 vif_ibit_detected := (if value AND 0x80000000 \<noteq> 0 \<and> \<not> err_mask_interrupt v then True else vif_ibit_detected v),
                 vif_command_len := 1\<rparr>) s;
          done = (\<lambda>f. Inr (on_vif n (\<lambda>v. (f v)\<lparr>vif_command := 0\<rparr>) s));
          data = (\<lambda>k. Inr (on_vif n (\<lambda>v. v\<lparr>vif_command_len := 1 + k\<rparr>) s));
          flush = (\<lambda>v. if n \<noteq> 0 then v\<lparr>flush_stall := True\<rparr> else v)
      in if cmd = 0x00 then done id
         else if cmd = 0x01
         then done (\<lambda>v. let WL = ucast (drop_bit 8 imm) :: u8
                         in v\<lparr>vif_CL := ucast (imm AND 0xFF), vif_WL := WL, internal_WL := (if WL = 0 then 256 else ucast WL)\<rparr>)
         else if cmd = 0x02
         then done (\<lambda>v. v\<lparr>vif_OFST := ucast (value AND 0x3FF), vif_TOPS := vif_BASE v, vif_DBF := False\<rparr>)
         else if cmd = 0x03 then done (\<lambda>v. v\<lparr>vif_BASE := ucast (value AND 0x3FF)\<rparr>)
         else if cmd = 0x04 then done (\<lambda>v. v\<lparr>vif_ITOPS := ucast (value AND 0x3FF)\<rparr>)
         else if cmd = 0x05 then done (\<lambda>v. v\<lparr>vif_MODE := ucast (value AND 3)\<rparr>)
         else if cmd = 0x06
         then with_gif n (let (stall, s) = set_path3_vifmask (tst value 15) s
                in Inr (on_vif n (\<lambda>v. v\<lparr>vif_stalled := (if stall then vif_stalled v OR STALL_MSKPATH3 else vif_stalled v),
                                        vif_command := 0\<rparr>) s))
         else if cmd = 0x07 then done (\<lambda>v. v\<lparr>vif_MARK := ucast imm, mark_detected := True\<rparr>)
         else if cmd = 0x10 then done (wait_VU_cmd value)
         else if cmd = 0x11 then done (\<lambda>v. wait_VU_cmd value (flush v))
         else if cmd = 0x13
         then done (\<lambda>v. wait_VU_cmd value (if n \<noteq> 0 then v\<lparr>flush_stall := True, wait_for_PATH3 := True\<rparr> else v))
         else if cmd = 0x14 then done (wait_VU_cmd value)
         else if cmd = 0x15 then done (\<lambda>v. wait_VU_cmd value (flush v))
         else if cmd = 0x17 then done (wait_VU_cmd value)
         else if cmd = 0x20 then data 1
         else if cmd = 0x30 \<or> cmd = 0x31 then data 4
         else if cmd = 0x4A
         then let num = unat (fld value 16 8)
              in Inr (on_vif n (\<lambda>v. wait_VU_cmd value
                    (v\<lparr>vif_command_len := 1 + (if num = 0 then 512 else num * 2), mpg_addr := ucast imm * 8\<rparr>)) s)
         else if cmd = 0x50 \<or> cmd = 0x51 then data (if imm = 0 then 65536 else unat imm * 4)
         else if cmd AND 0x60 = 0x60 then Inr (on_vif n (init_UNPACK value) s)
         else Inl (Die ''Unrecognized VIF command''))"

text \<open>Data words. The buffer holds four; a fifth is written out of range.\<close>

definition buffer_word :: "u32 \<Rightarrow> vif_unit \<Rightarrow> vif_unit res" where
  "buffer_word value v =
     rbind (vec_set (vif_buffer v) (vif_buffer_size v) value) (\<lambda>b.
     Inr (v\<lparr>vif_buffer := b, vif_buffer_size := vif_buffer_size v + 1\<rparr>))"

definition vif_put :: "nat \<Rightarrow> 'a vif_sys_scheme \<Rightarrow> vif_unit res \<Rightarrow> 'a vif_sys_scheme res" where
  "vif_put n s r = rbind r (\<lambda>v. Inr (on_vif n (\<lambda>_. v) s))"

definition end_if_last :: "vif_unit \<Rightarrow> vif_unit" where
  "end_if_last v = (if vif_command_len v \<le> 1 then v\<lparr>vif_command := 0\<rparr> else v)"

definition direct_word :: "gs_unit \<Rightarrow> nat \<Rightarrow> u32 \<Rightarrow> 'a vif_sys_scheme \<Rightarrow> (bool \<times> 'a vif_sys_scheme) res" where
  "direct_word gs n value s =
     with_gif n
       (let canInt = (vif_command (vifs s n) = 0x50);
            s = request_PATH 2 canInt s;
            (active, s) = path_active gs 2 canInt s
        in if \<not> active
           then Inr (False, on_vif n (\<lambda>v. v\<lparr>direct_wait := True, vif_stalled := vif_stalled v OR STALL_DIRECT\<rparr>) s)
           else rbind (vif_put n s (buffer_word value ((vifs s n)\<lparr>direct_wait := False\<rparr>))) (\<lambda>s.
                let s = (if vif_buffer_size (vifs s n) = 4
                         then on_vif n (\<lambda>v. v\<lparr>vif_buffer_size := 0\<rparr>) (send_PATH2 (vif_buffer (vifs s n)) s) else s)
                in Inr (True, if vif_command_len (vifs s n) \<le> 1
                              then on_vif n (\<lambda>v. v\<lparr>vif_command := 0\<rparr>) (deactivate_PATH 2 s) else s)))"

text \<open>\<open>4 - command_len\<close>, negative for a longer command.\<close>

definition row_index :: "vif_unit \<Rightarrow> nat" where
  "row_index v = (if vif_command_len v \<le> 4 then 4 - vif_command_len v else 4)"

definition data_word :: "gs_unit \<Rightarrow> nat \<Rightarrow> u32 \<Rightarrow> 'a vif_sys_scheme \<Rightarrow> (bool \<times> 'a vif_sys_scheme) res" where
  "data_word gs n value s =
     (let v = vifs s n; cmd = vif_command v; yes = (\<lambda>s. Inr (True, s))
      in if cmd = 0x20 then yes (on_vif n (\<lambda>v. v\<lparr>vif_MASK := value, vif_command := 0\<rparr>) s)
         else if cmd = 0x30
         then rbind (vec_set (vif_ROW v) (row_index v) value) (\<lambda>r.
              yes (on_vif n (\<lambda>v. end_if_last (v\<lparr>vif_ROW := r\<rparr>)) s))
         else if cmd = 0x31
         then rbind (vec_set (vif_COL v) (row_index v) value) (\<lambda>c.
              yes (on_vif n (\<lambda>v. end_if_last (v\<lparr>vif_COL := c\<rparr>)) s))
         else if cmd = 0x4A
         then yes (on_vif n (\<lambda>v. end_if_last (v\<lparr>mpg_addr := mpg_addr v + 4\<rparr>)) (on_vu n (vu_write_instr (mpg_addr v) value) s))
         else if cmd = 0x50 \<or> cmd = 0x51 then direct_word gs n value s
         else if cmd AND 0x60 = 0x60 then rbind (vif_put n s (buffer_word value v)) yes
         else Inl (Die ''Unhandled data for command''))"

definition process_data_word :: "gs_unit \<Rightarrow> nat \<Rightarrow> u32 \<Rightarrow> 'a vif_sys_scheme \<Rightarrow> (bool \<times> 'a vif_sys_scheme) res" where
  "process_data_word gs n value s =
     rbind (if vif_command (vifs s n) = 0
            then rbind (decode_cmd n value (on_vif n (\<lambda>v. v\<lparr>vif_buffer_size := 0\<rparr>) s)) (\<lambda>s. Inr (True, s))
            else data_word gs n value (on_vif n (\<lambda>v. v\<lparr>vif_cmd_status := VIF_TRANSFER\<rparr>) s)) (\<lambda>(used, s).
     Inr (used, if used \<and> vif_command (vifs s n) = 0 then on_vif n (\<lambda>v. v\<lparr>vif_cmd_status := VIF_DECODE\<rparr>) s else s))"

subsection \<open>The update\<close>

definition check_vif_stall :: "nat \<Rightarrow> u32 \<Rightarrow> 'a vif_sys_scheme \<Rightarrow> (bool \<times> 'a vif_sys_scheme) res" where
  "check_vif_stall n value s =
     rbind (if vif_command (vifs s n) = 0
            then rbind (if vif_ibit_detected (vifs s n)
                        then rbind (assert_IRQ (irq_id (if n \<noteq> 0 then IRQ_VIF1 else IRQ_VIF0))
                                      (on_vif n (\<lambda>v. v\<lparr>vif_ibit_detected := False, vif_interrupt := True\<rparr>) s)) (\<lambda>s.
                             Inr (if fld value 24 7 \<noteq> 0x7 then on_vif n (\<lambda>v. v\<lparr>vif_stalled := vif_stalled v OR STALL_IBIT\<rparr>) s else s))
                        else Inr s) (\<lambda>s.
                 Inr (on_vif n (\<lambda>v.
                        let v = (if vif_stop v then v\<lparr>vif_stalled := vif_stalled v OR STALL_STOP\<rparr> else v)
                        in if vif_forcebreak v then v\<lparr>vif_stalled := vif_stalled v OR STALL_FORCEBREAK\<rparr> else v) s))
            else Inr s) (\<lambda>s. Inr (vif_stalled (vifs s n) AND 0x15 \<noteq> 0, s))"

definition refill_internal :: "vif_unit \<Rightarrow> vif_unit" where
  "refill_internal v =
     (let k = 8 - length (vif_internal v)
      in v\<lparr>vif_internal := vif_internal v @ take k (vif_FIFO v), vif_FIFO := drop k (vif_FIFO v)\<rparr>)"

text \<open>\<open>if (stall_condition_active) { ... }\<close>; the flag says that the update returns.\<close>

definition stall_conditions :: "nat \<Rightarrow> u32 \<Rightarrow> 'a vif_sys_scheme \<Rightarrow> bool \<times> 'a vif_sys_scheme" where
  "stall_conditions n cycles s =
     (let v = vifs s n
      in if \<not> stall_condition_active v then (False, s)
         else if flush_stall v \<and> (active_path s = 1 \<or> active_path s = 2 \<or> tst (path_queue s) 1 \<or> tst (path_queue s) 2)
         then (True, s)
         else if wait_for_VU v \<and> (vu_is_running n s \<or> tbit_stop (vus s n)) then (True, s)
         else let s = (if wait_for_VU v then handle_wait_cmd n (wait_cmd_value v) cycles s else s)
              in if wait_for_PATH3 v \<and> \<not> path3_done s then (True, s)
                 else (False, on_vif n (\<lambda>v. v\<lparr>flush_stall := False, wait_for_VU := False, wait_for_PATH3 := False,
                                              stall_condition_active := False\<rparr>) s))"

definition unpack_turn :: "nat \<Rightarrow> 'a vif_sys_scheme \<Rightarrow> 'a vif_sys_scheme res" where
  "unpack_turn n s =
     (if vif_command (vifs s n) AND 0x60 = 0x60
      then rbind (handle_UNPACK n (on_vif n (\<lambda>v. v\<lparr>vif_cmd_status := VIF_TRANSFER\<rparr>) s)) (\<lambda>s.
           Inr (if vif_command (vifs s n) = 0 then on_vif n (\<lambda>v. v\<lparr>vif_cmd_status := VIF_DECODE\<rparr>) s else s))
      else Inr s)"

text \<open>Nothing to do: a stall, or no data.\<close>

definition vif_idle :: "gs_unit \<Rightarrow> nat \<Rightarrow> bool \<Rightarrow> 'a vif_sys_scheme \<Rightarrow> 'a vif_sys_scheme" where
  "vif_idle gs n first s =
     (if first \<and> vif_cmd_status (vifs s n) = VIF_DECODE then on_vif n (\<lambda>v. v\<lparr>vif_cmd_status := VIF_IDLE\<rparr>) s
      else if vif_cmd_status (vifs s n) = VIF_TRANSFER
      then let s = (if n \<noteq> 0 then let (active, s) = path_active gs 2 False s in if active then deactivate_PATH 2 s else s
                    else s)
           in on_vif n (\<lambda>v. v\<lparr>vif_cmd_status := VIF_WAIT\<rparr>) s
      else s)"

definition word_used :: "nat \<Rightarrow> 'a vif_sys_scheme \<Rightarrow> 'a vif_sys_scheme" where
  "word_used n s =
     (if vif_command_len (vifs s n) \<noteq> 0
      then let s = on_vif n (\<lambda>v. v\<lparr>vif_command_len := vif_command_len v - 1, vif_internal := tl (vif_internal v)\<rparr>) s
           in if length (vif_FIFO (vifs s n)) \<le> vif_fifo_size (vifs s n) div 2 then dm_set_request n s else s
      else s)"

text \<open>One word per turn, four turns per bus cycle; \<open>k\<close> turns are left, of \<open>4 * cycles\<close>.\<close>

fun vif_loop :: "gs_unit \<Rightarrow> nat \<Rightarrow> nat \<Rightarrow> nat \<Rightarrow> 'a vif_sys_scheme \<Rightarrow> 'a vif_sys_scheme res" where
  "vif_loop gs n cycles 0 s = Inr s"
| "vif_loop gs n cycles (Suc k) s =
     (if vif_stalled (vifs s n) \<noteq> 0 then Inr s
      else let (return, s) = stall_conditions n (of_nat ((cycles - k div 4) * 2)) (on_vif n refill_internal s)
           in if return then Inr s
              else rbind (unpack_turn n s) (\<lambda>s.
                   rbind (check_vif_stall n (vif_CODE (vifs s n)) s) (\<lambda>(stalled, s).
                   case vif_internal (vifs s n) of
                     [] \<Rightarrow> Inr (vif_idle gs n (Suc k = 4 * cycles) s)
                   | value # _ \<Rightarrow>
                       if stalled then Inr (vif_idle gs n (Suc k = 4 * cycles) s)
                       else rbind (process_data_word gs n value s) (\<lambda>(used, s).
                            vif_loop gs n cycles k (if used then word_used n s else s)))))"

text \<open>The reverse direction: what the Synthesizer sends back.\<close>

fun reverse_loop :: "gs_unit \<Rightarrow> nat \<Rightarrow> nat \<Rightarrow> 'a vif_sys_scheme \<Rightarrow> 'a vif_sys_scheme" where
  "reverse_loop gs n 0 s = s"
| "reverse_loop gs n (Suc k) s =
     (if length (vif_FIFO (vifs s n)) \<le> vif_fifo_size (vifs s n) - 4
      then let ((quad, more), s) = read_GSFIFO gs s
           in if \<not> more then s
              else reverse_loop gs n k (on_vif n (\<lambda>v. v\<lparr>vif_FIFO := vif_FIFO v @ map (\<lambda>i. ucast (drop_bit (32 * i) quad)) [0..<4]\<rparr>) s)
      else s)"

definition vif_update :: "gs_unit \<Rightarrow> nat \<Rightarrow> nat \<Rightarrow> 'a vif_sys_scheme \<Rightarrow> 'a vif_sys_scheme res" where
  "vif_update gs n cycles s =
     (if vif_fifo_reverse (vifs s n)
      then with_gif n (Inr (reverse_loop gs n cycles (on_vif n (\<lambda>v. v\<lparr>vif_cmd_status := VIF_IDLE\<rparr>) s)))
      else let s = on_vif n (\<lambda>v. v\<lparr>vif_stalled := vif_stalled v AND NOT STALL_DIRECT\<rparr>) s
           in rbind (if vif_stalled (vifs s n) AND STALL_MSKPATH3 \<noteq> 0
                     then with_gif n (Inr (on_vif n (\<lambda>v. v\<lparr>vif_stalled := vif_stalled v AND NOT STALL_MSKPATH3\<rparr>) (resume_path3 s)))
                     else Inr s) (vif_loop gs n cycles (4 * cycles)))"

subsection \<open>The FIFO's other end\<close>

definition transfer_word :: "nat \<Rightarrow> u32 \<Rightarrow> 'a vif_sys_scheme \<Rightarrow> bool \<times> 'a vif_sys_scheme" where
  "transfer_word n value s =
     (if vif_fifo_size (vifs s n) - 1 < length (vif_FIFO (vifs s n)) then (False, s)
      else (True, on_vif n (\<lambda>v. v\<lparr>vif_FIFO := vif_FIFO v @ [value]\<rparr>) s))"

definition transfer_DMAtag :: "nat \<Rightarrow> 128 word \<Rightarrow> 'a vif_sys_scheme \<Rightarrow> (bool \<times> 'a vif_sys_scheme) res" where
  "transfer_DMAtag n tag s =
     (if vif_fifo_size (vifs s n) - 2 < length (vif_FIFO (vifs s n))
      then rbind (dm_clear_request n s) (\<lambda>s. Inr (False, s))
      else Inr (True, on_vif n (\<lambda>v. v\<lparr>vif_FIFO := vif_FIFO v @ map (\<lambda>i. ucast (drop_bit (32 * i) tag)) [2, 3]\<rparr>) s))"

definition vif_feed_DMA :: "nat \<Rightarrow> 128 word \<Rightarrow> 'a vif_sys_scheme \<Rightarrow> (bool \<times> 'a vif_sys_scheme) res" where
  "vif_feed_DMA n quad s =
     (if vif_fifo_size (vifs s n) - 4 < length (vif_FIFO (vifs s n))
      then rbind (dm_clear_request n s) (\<lambda>s. Inr (False, s))
      else Inr (True, on_vif n (\<lambda>v. v\<lparr>vif_FIFO := vif_FIFO v @ map (\<lambda>i. ucast (drop_bit (32 * i) quad)) [0..<4]\<rparr>) s))"

text \<open>The quadword of an empty FIFO is indeterminate; with fewer than four words \<open>front\<close> is undefined.\<close>

definition vif_readFIFO :: "nat \<Rightarrow> 'a vif_sys_scheme \<Rightarrow> (128 word option \<times> 'a vif_sys_scheme) res" where
  "vif_readFIFO n s =
     (let f = vif_FIFO (vifs s n)
      in if f = [] then Inr (None, s)
         else if length f < 4 then Inl (Undefined ''front of an empty queue'')
         else Inr (Some (quad_of f), on_vif n (\<lambda>v. v\<lparr>vif_FIFO := drop 4 (vif_FIFO v)\<rparr>) s))"

subsection \<open>Registers\<close>

definition vif_get_stat :: "vif_unit \<Rightarrow> u32" where
  "vif_get_stat v =
     ucast (vif_cmd_status v) OR flag_at 2 (wait_for_VU v)
     OR flag_at 3 (wait_for_PATH3 v \<or> flush_stall v \<or> direct_wait v) OR flag_at 6 (mark_detected v)
     OR flag_at 7 (vif_DBF v) OR push_bit 6 (ucast (vif_stalled v AND STALL_STOP))
     OR push_bit 10 (ucast (vif_stalled v AND STALL_IBIT)) OR flag_at 11 (vif_interrupt v)
     OR flag_at 23 (vif_fifo_reverse v) OR push_bit 24 (of_nat (length (vif_FIFO v) div 4))"

definition vif_get_mark :: "vif_unit \<Rightarrow> u32" where "vif_get_mark v = vif_MARK v"
definition vif_get_mode :: "vif_unit \<Rightarrow> u32" where "vif_get_mode v = ucast (vif_MODE v)"
definition vif_get_row :: "u32 \<Rightarrow> vif_unit \<Rightarrow> u32 res" where
  "vif_get_row addr v = vec_at (vif_ROW v) (unat (drop_bit 4 (addr AND 0xF0)))"
definition vif_get_code :: "vif_unit \<Rightarrow> u32" where "vif_get_code v = vif_CODE v"
definition vif_get_top :: "nat \<Rightarrow> 'a vif_sys_scheme \<Rightarrow> u32" where "vif_get_top n s = ucast (VIF_TOP s n)"
definition vif_get_err :: "vif_unit \<Rightarrow> u32" where
  "vif_get_err v = flag_at 0 (err_mask_interrupt v) OR flag_at 1 (err_mask_dmatag v) OR flag_at 2 (err_mask_vifcode v)"

definition vif_set_stat :: "u32 \<Rightarrow> vif_unit \<Rightarrow> vif_unit" where
  "vif_set_stat value v =
     v\<lparr>vif_FIFO := (if vif_fifo_reverse v \<noteq> tst value 23 then [] else vif_FIFO v), vif_fifo_reverse := tst value 23\<rparr>"
definition vif_set_mark :: "u32 \<Rightarrow> vif_unit \<Rightarrow> vif_unit" where
  "vif_set_mark value v = v\<lparr>vif_MARK := value, mark_detected := False\<rparr>"
definition vif_set_err :: "u32 \<Rightarrow> vif_unit \<Rightarrow> vif_unit" where
  "vif_set_err value v = v\<lparr>err_mask_interrupt := tst value 0, err_mask_dmatag := tst value 1, err_mask_vifcode := tst value 2\<rparr>"

definition vif_set_fbrst :: "u32 \<Rightarrow> vif_unit \<Rightarrow> vif_unit" where
  "vif_set_fbrst value v =
     (let v = (if tst value 3
               then v\<lparr>vif_stalled := vif_stalled v AND NOT 0x15, vif_interrupt := False, vif_stop := False, vif_forcebreak := False\<rparr>
               else v);
          v = (if tst value 2 then v\<lparr>vif_stop := True\<rparr> else v);
          v = (if tst value 1
               then v\<lparr>vif_command := 0, vif_command_len := 0, vif_buffer_size := 0, flush_stall := False,
                      stall_condition_active := False, wait_for_VU := False, wait_for_PATH3 := False, direct_wait := False,
                      vif_forcebreak := True, vif_cmd_status := VIF_IDLE\<rparr>
               else v)
      in if tst value 0
         then v\<lparr>vif_command := 0, vif_command_len := 0, vif_buffer_size := 0, vif_DBF := False, vif_MODE := 0, vif_MASK := 0,
                vif_CODE := 0, direct_wait := False, wait_for_VU := False, wait_for_PATH3 := False, vif_stalled := 0,
                vif_ibit_detected := False, vif_interrupt := False, vif_stop := False, vif_forcebreak := False,
                mark_detected := False, flush_stall := False, stall_condition_active := False, vif_fifo_reverse := False,
                vif_cmd_status := VIF_IDLE, vif_FIFO := []\<rparr>
         else v)"

end
