(* ===== verification/Spec2Isabelle.thy ===== *)
theory Spec2Isabelle
  imports Ee_Tlb Ee_Intc Ee_Timers Dmac_Correct Sif_Correct Ee_Dmac_Transfer Serial_Correct Iop_Correct Iop_Unaligned Ee_Program Ee_Fpu_Correct Gif_Correct Circular_Fifo Vu_Pair Vu_Correct Vif
begin

text \<open>
  Verification of the core of DobieStation, a PlayStation 2 emulator
  (\<open>src/src/core\<close>): the scheduler and what runs on it.
\<close>

end
